(* ===== verification/Prelude.thy ===== *)
theory Prelude
  imports Complex_Main "HOL-Library.Word" "HOL-Library.Multiset" "HOL-Library.Sublist"
begin

text \<open>
  What the components share: the basic types of the Python program (identifiers, instants,
  text), exceptions as values, the string methods of the standard library that the code uses,
  and the generic lemmas on tables (lists of rows) and on sorting that the component proofs
  rest on.

  Text is a list of ASCII characters: \<^term>\<open>upper\<close>, \<^term>\<open>lower\<close> and \<^term>\<open>strip\<close> are Python's
  methods on ASCII text.  An instant is a number of microseconds since the epoch (the resolution
  of Python's \<^verbatim>\<open>datetime\<close>); a call of \<^verbatim>\<open>utc_now()\<close> is an argument of the definition that makes it.
  A UUID is a 128-bit word; a fresh UUID drawn by \<^verbatim>\<open>uuid.uuid4()\<close> is an argument too.
\<close>

section \<open>Basic types\<close>

type_synonym uuid = "128 word"
type_synonym time = int
type_synonym str = string

definition seconds :: "int \<Rightarrow> time" where
  "seconds n = n * 1000000"

lemma seconds_mono [simp]: "seconds a \<le> seconds b \<longleftrightarrow> a \<le> b"
  by (simp add: seconds_def)

lemma seconds_pos [simp]: "0 < seconds a \<longleftrightarrow> 0 < a"
  by (simp add: seconds_def)

text \<open>Exceptions: an HTTP error carries its status code and its detail.\<close>

datatype exn =
    HTTPException int str
  | ValueError str
  | RuntimeError str
  | IndexError str
  | AttributeError str
  | IntegrityError str
  | OSError str
  | OverflowError str
  | KeyError str
  | CsvError str

type_synonym 'a result = "exn + 'a"

definition is_ok :: "'a result \<Rightarrow> bool" where
  "is_ok r = (case r of Inl _ \<Rightarrow> False | Inr _ \<Rightarrow> True)"

lemma is_ok_simps [simp]: "\<not> is_ok (Inl e)" "is_ok (Inr x)"
  by (simp_all add: is_ok_def)

section \<open>String methods on ASCII text\<close>

definition char_code :: "char \<Rightarrow> nat" where
  "char_code c = of_char c"

definition is_upper :: "char \<Rightarrow> bool" where
  "is_upper c \<longleftrightarrow> 65 \<le> char_code c \<and> char_code c \<le> 90"

definition is_lower :: "char \<Rightarrow> bool" where
  "is_lower c \<longleftrightarrow> 97 \<le> char_code c \<and> char_code c \<le> 122"

definition is_digit :: "char \<Rightarrow> bool" where
  "is_digit c \<longleftrightarrow> 48 \<le> char_code c \<and> char_code c \<le> 57"

definition is_alnum :: "char \<Rightarrow> bool" where
  "is_alnum c \<longleftrightarrow> is_upper c \<or> is_lower c \<or> is_digit c"

definition is_space :: "char \<Rightarrow> bool" where
  "is_space c \<longleftrightarrow> char_code c = 32 \<or> (9 \<le> char_code c \<and> char_code c \<le> 13)
     \<or> (28 \<le> char_code c \<and> char_code c \<le> 31)"

definition upper_char :: "char \<Rightarrow> char" where
  "upper_char c = (if is_lower c then char_of (char_code c - 32) else c)"

definition lower_char :: "char \<Rightarrow> char" where
  "lower_char c = (if is_upper c then char_of (char_code c + 32) else c)"

definition upper :: "str \<Rightarrow> str" where
  "upper s = map upper_char s"

definition lower :: "str \<Rightarrow> str" where
  "lower s = map lower_char s"

definition strip_chars :: "(char \<Rightarrow> bool) \<Rightarrow> str \<Rightarrow> str" where
  "strip_chars p s = rev (dropWhile p (rev (dropWhile p s)))"

definition strip :: "str \<Rightarrow> str" where
  "strip s = strip_chars is_space s"

definition startswith :: "str \<Rightarrow> str \<Rightarrow> bool" where
  "startswith s p = prefix p s"

definition endswith :: "str \<Rightarrow> str \<Rightarrow> bool" where
  "endswith s p = suffix p s"

text \<open>\<^verbatim>\<open>a in b\<close> on strings.\<close>

definition contains :: "str \<Rightarrow> str \<Rightarrow> bool" where
  "contains s p = sublist p s"

text \<open>Python's \<^verbatim>\<open>x or y\<close> on an optional string: both \<^verbatim>\<open>None\<close> and the empty string are false.\<close>

definition or_text :: "str option \<Rightarrow> str \<Rightarrow> str" where
  "or_text x y = (case x of None \<Rightarrow> y | Some s \<Rightarrow> (if s = [] then y else s))"

lemma char_code_upper_char:
  "char_code (upper_char c) = (if is_lower c then char_code c - 32 else char_code c)"
  by (auto simp: upper_char_def char_code_def is_lower_def)

lemma is_upper_upper_char [simp]: "is_lower c \<Longrightarrow> is_upper (upper_char c)"
  by (auto simp: is_upper_def char_code_upper_char) (auto simp: is_lower_def)

lemma upper_char_not_lower [simp]: "\<not> is_lower c \<Longrightarrow> upper_char c = c"
  by (simp add: upper_char_def)

lemma not_lower_upper_char [simp]: "\<not> is_lower (upper_char c)"
proof (cases "is_lower c")
  case True
  then have "is_upper (upper_char c)" by simp
  then show ?thesis by (auto simp: is_upper_def is_lower_def)
qed simp

lemma is_alnum_upper_char [simp]: "is_alnum (upper_char c) = is_alnum c"
  by (cases "is_lower c") (auto simp: is_alnum_def)

lemma upper_char_idem [simp]: "upper_char (upper_char c) = upper_char c"
  by simp

lemma upper_idem [simp]: "upper (upper s) = upper s"
  by (simp add: upper_def)

lemma upper_append [simp]: "upper (s @ t) = upper s @ upper t"
  by (simp add: upper_def)

lemma upper_Nil_iff [simp]: "upper s = [] \<longleftrightarrow> s = []"
  by (simp add: upper_def)

lemma length_upper [simp]: "length (upper s) = length s"
  by (simp add: upper_def)

lemma filter_upper: "(\<And>c. p (upper_char c) = q c) \<Longrightarrow> filter p (upper s) = upper (filter q s)"
  by (induction s) (auto simp: upper_def)

lemma dropWhile_idem: "dropWhile p (dropWhile p xs) = dropWhile p xs"
  by (induction xs) auto

lemma strip_chars_length: "length (strip_chars p s) \<le> length s"
  unfolding strip_chars_def
  by (metis length_dropWhile_le length_rev order_trans)

lemma length_map_filter: "length (List.map_filter f xs) \<le> length xs"
  by (simp add: List.map_filter_def)

section \<open>Rows of a table\<close>

text \<open>
  A table is the list of its rows.  An \<^verbatim>\<open>UPDATE ... WHERE p\<close> rewrites the rows that satisfy
  \<^term>\<open>p\<close> in place.
\<close>

definition update_where :: "('a \<Rightarrow> bool) \<Rightarrow> ('a \<Rightarrow> 'a) \<Rightarrow> 'a list \<Rightarrow> 'a list" where
  "update_where p f rows = map (\<lambda>r. if p r then f r else r) rows"

named_theorems row_simps

lemma update_where_simps [simp]:
  "update_where p f [] = []"
  "update_where p f (r # rows) = (if p r then f r else r) # update_where p f rows"
  by (simp_all add: update_where_def)

lemma length_update_where [simp]: "length (update_where p f rows) = length rows"
  by (simp add: update_where_def)

lemma set_update_where:
  "set (update_where p f rows) = (\<lambda>r. if p r then f r else r) ` set rows"
  by (simp add: update_where_def)

lemma in_update_where:
  "r \<in> set (update_where p f rows) \<longleftrightarrow>
     (\<exists>r0 \<in> set rows. r = (if p r0 then f r0 else r0))"
  by (auto simp: set_update_where)

lemma update_where_key:
  "(\<And>r. p r \<Longrightarrow> key (f r) = key r) \<Longrightarrow> map key (update_where p f rows) = map key rows"
  by (induction rows) auto

lemma update_where_id:
  "(\<And>r. r \<in> set rows \<Longrightarrow> p r \<Longrightarrow> f r = r) \<Longrightarrow> update_where p f rows = rows"
  by (induction rows) auto

lemma filter_update_where:
  "(\<And>r. p r \<Longrightarrow> q (f r) = q r) \<Longrightarrow>
   filter q (update_where p f rows) = update_where p f (filter q rows)"
  by (induction rows) auto

text \<open>The row with a given key, when keys are unique.\<close>

definition row_at :: "('a \<Rightarrow> 'k) \<Rightarrow> 'k \<Rightarrow> 'a list \<Rightarrow> 'a option" where
  "row_at key k rows = find (\<lambda>r. key r = k) rows"

lemma row_at_simps [simp]:
  "row_at key k [] = None"
  "row_at key k (r # rows) = (if key r = k then Some r else row_at key k rows)"
  by (simp_all add: row_at_def)

lemma row_at_Some_iff:
  "row_at key k rows = Some r \<Longrightarrow> r \<in> set rows \<and> key r = k"
  by (induction rows) (auto split: if_splits)

lemma row_at_None_iff: "row_at key k rows = None \<longleftrightarrow> k \<notin> key ` set rows"
  by (induction rows) auto

lemma row_at_unique:
  "distinct (map key rows) \<Longrightarrow> r \<in> set rows \<Longrightarrow> row_at key (key r) rows = Some r"
  by (induction rows) auto

lemma row_at_eq_iff:
  "distinct (map key rows) \<Longrightarrow> row_at key k rows = Some r \<longleftrightarrow> r \<in> set rows \<and> key r = k"
  using row_at_unique row_at_Some_iff by metis

lemma row_at_update_where:
  "(\<And>r. p r \<Longrightarrow> key (f r) = key r) \<Longrightarrow>
   row_at key k (update_where p f rows) =
     map_option (\<lambda>r. if p r then f r else r) (row_at key k rows)"
  by (induction rows) auto

lemma row_at_update_where_other:
  "(\<And>r. p r \<Longrightarrow> key (f r) = key r) \<Longrightarrow> (\<And>r. key r = k \<Longrightarrow> \<not> p r) \<Longrightarrow>
   row_at key k (update_where p f rows) = row_at key k rows"
  by (induction rows) auto

text \<open>\<^verbatim>\<open>INSERT ... ON CONFLICT (key) DO UPDATE\<close>: the row with the same key is merged, or a new
  row is appended.\<close>

definition upsert :: "('a \<Rightarrow> 'k) \<Rightarrow> ('a \<Rightarrow> 'a \<Rightarrow> 'a) \<Rightarrow> 'a \<Rightarrow> 'a list \<Rightarrow> 'a list" where
  "upsert key merge new rows =
     (if key new \<in> key ` set rows then update_where (\<lambda>r. key r = key new) (\<lambda>r. merge r new) rows
      else rows @ [new])"

lemma upsert_distinct:
  assumes "distinct (map key rows)" and "\<And>r. key r = key new \<Longrightarrow> key (merge r new) = key r"
  shows "distinct (map key (upsert key merge new rows))"
proof (cases "key new \<in> key ` set rows")
  case True
  have "map key (update_where (\<lambda>r. key r = key new) (\<lambda>r. merge r new) rows) = map key rows"
    by (rule update_where_key) (rule assms(2))
  with True assms(1) show ?thesis by (simp add: upsert_def)
next
  case False
  with assms(1) show ?thesis by (simp add: upsert_def)
qed

lemma row_at_upsert:
  assumes "\<And>r. key r = key new \<Longrightarrow> key (merge r new) = key r"
  shows "row_at key k (upsert key merge new rows) =
    (if k = key new then
       (case row_at key k rows of None \<Rightarrow> Some new | Some r \<Rightarrow> Some (merge r new))
     else row_at key k rows)"
proof (cases "key new \<in> key ` set rows")
  case True
  then have u: "upsert key merge new rows =
      update_where (\<lambda>r. key r = key new) (\<lambda>r. merge r new) rows"
    by (simp add: upsert_def)
  have r: "row_at key k (update_where (\<lambda>r. key r = key new) (\<lambda>r. merge r new) rows) =
      map_option (\<lambda>r. if key r = key new then merge r new else r) (row_at key k rows)"
    by (rule row_at_update_where) (rule assms)
  from True have "row_at key (key new) rows \<noteq> None"
    by (simp add: row_at_None_iff)
  then show ?thesis
    unfolding u r by (cases "row_at key k rows") (auto dest: row_at_Some_iff)
next
  case False
  then have "row_at key k (rows @ [new]) =
      (if k = key new then Some new else row_at key k rows)"
    by (induction rows) auto
  moreover have "k = key new \<Longrightarrow> row_at key k rows = None"
    using False by (simp add: row_at_None_iff)
  ultimately show ?thesis using False by (auto simp: upsert_def)
qed

lemma upsert_length: "length rows \<le> length (upsert key merge new rows)"
  by (simp add: upsert_def)

section \<open>ORDER BY and LIMIT\<close>

text \<open>
  \<^verbatim>\<open>ORDER BY key ASC LIMIT n\<close>.  Ties keep the table's order (the database may return them in
  any order; the theorems do not depend on it).
\<close>

definition order_limit :: "('a \<Rightarrow> 'b::linorder) \<Rightarrow> nat \<Rightarrow> 'a list \<Rightarrow> 'a list" where
  "order_limit key n rows = take n (sort_key key rows)"

lemma order_limit_subset: "set (order_limit key n rows) \<subseteq> set rows"
  unfolding order_limit_def by (metis set_sort set_take_subset)

lemma length_order_limit [simp]: "length (order_limit key n rows) = min n (length rows)"
  by (simp add: order_limit_def min.commute)

lemma distinct_order_limit: "distinct rows \<Longrightarrow> distinct (order_limit key n rows)"
  by (simp add: order_limit_def)

lemma order_limit_min:
  assumes "order_limit key 1 rows = [r]" and "x \<in> set rows"
  shows "key r \<le> key x"
proof -
  from assms(1) obtain rest where srt: "sort_key key rows = r # rest"
    by (cases "sort_key key rows") (auto simp: order_limit_def)
  have "sorted (map key (sort_key key rows))" by simp
  then have "\<forall>y \<in> set rest. key r \<le> key y" by (simp add: srt)
  moreover from assms(2) have "x \<in> set (r # rest)" by (metis set_sort srt)
  ultimately show ?thesis by auto
qed

lemma order_limit_1_Nil: "order_limit key 1 rows = [] \<longleftrightarrow> rows = []"
  by (metis length_0_conv length_order_limit min_0R min_def one_neq_zero)

lemma order_limit_1_cases: "order_limit key 1 rows = [] \<or> (\<exists>r. order_limit key 1 rows = [r])"
  by (cases "sort_key key rows") (auto simp: order_limit_def)

lemma foldl_invariant:
  "P s \<Longrightarrow> (\<And>s x. x \<in> set xs \<Longrightarrow> P s \<Longrightarrow> P (f s x)) \<Longrightarrow> P (foldl f s xs)"
  by (induction xs arbitrary: s) auto

end
