(* ===== verification/Settings.thy ===== *)
theory Settings
  imports Prelude
begin

text \<open>
  \<^verbatim>\<open>backend/app/config.py\<close>: the settings record of the backend with the fields the modelled code
  reads, its defaults, the parsing of boolean and comma-separated environment values, and the
  clamps \<^verbatim>\<open>worker_api.py\<close> applies to the lease and retry settings at import time.
\<close>

section \<open>Environment values\<close>

definition env_bool :: "str option \<Rightarrow> bool \<Rightarrow> bool" where
  "env_bool value dflt =
     (case value of
        None \<Rightarrow> dflt
      | Some v \<Rightarrow> lower (strip v) \<in> {''1'', ''true'', ''yes'', ''on''})"

fun split_on :: "char \<Rightarrow> str \<Rightarrow> str list" where
  "split_on d [] = [[]]"
| "split_on d (c # cs) =
     (if c = d then [] # split_on d cs
      else (case split_on d cs of [] \<Rightarrow> [[c]] | w # ws \<Rightarrow> (c # w) # ws))"

definition env_csv :: "str option \<Rightarrow> str \<Rightarrow> str list" where
  "env_csv value dflt =
     [strip item. item \<leftarrow> split_on CHR '','' (case value of None \<Rightarrow> dflt | Some v \<Rightarrow> v),
        strip item \<noteq> []]"

section \<open>Settings\<close>

record web_settings =
  environment :: str
  app_secret_key :: str
  allowed_hosts :: "str list"
  public_origins :: "str list"
  trust_proxy_headers :: bool
  database_url :: str
  app_name :: str
  r2_account_id :: str
  r2_bucket_name :: str
  r2_endpoint :: str
  r2_access_key_id :: str
  r2_secret_access_key :: str
  r2_presigned_url_ttl_seconds :: int

record upload_settings = web_settings +
  max_photo_upload_bytes :: int
  max_selfie_upload_bytes :: int
  max_event_thumbnail_upload_bytes :: int
  max_participant_upload_bytes :: int
  max_photo_batch_files :: int
  max_selfie_batch_files :: int
  max_photo_request_bytes :: int
  max_form_request_bytes :: int
  max_image_pixels :: int
  max_image_dimension :: int
  max_participant_rows :: int
  max_participant_columns :: int
  max_participant_cell_chars :: int
  max_spreadsheet_uncompressed_bytes :: int
  photo_thumbnail_max_edge :: int
  photo_thumbnail_quality :: int
  max_face_search_backlog :: int
  max_photo_job_backlog :: int
  max_search_results :: int
  max_search_faces_per_event :: int
  search_capability_ttl_seconds :: int

record worker_settings = upload_settings +
  biometric_retention_hours :: int
  raw_response_retention_hours :: int
  deletion_retry_batch_size :: int
  deletion_task_retention_days :: int
  worker_lease_seconds :: int
  worker_max_attempts :: int
  worker_retry_base_seconds :: int
  worker_retry_max_seconds :: int
  worker_api_token :: str
  metrics_api_token :: str
  worker_heartbeat_stale_seconds :: int
  worker_heartbeat_retention_days :: int

record settings = worker_settings +
  face_match_similarity_threshold :: real
  face_candidate_similarity_threshold :: real
  face_medium_similarity_threshold :: real
  face_strong_similarity_threshold :: real
  face_reinforcement_similarity_threshold :: real
  face_reinforcement_max_embeddings :: int
  bib_only_seed_photo_limit :: int
  bib_only_seed_cluster_min_photos :: int
  bib_only_seed_cluster_majority_ratio :: real
  bib_only_seed_cluster_lead_ratio :: real

text \<open>The values of an environment that sets no variable.\<close>

definition default_settings :: settings where
  "default_settings =
   \<lparr>environment = ''development'', app_secret_key = [],
    allowed_hosts = env_csv None ''localhost,127.0.0.1,testserver'',
    public_origins = env_csv None ''http://localhost,http://127.0.0.1'',
    trust_proxy_headers = env_bool None False,
    database_url = ''sqlite:///./raceframe.db'', app_name = ''RaceFrame Backend'',
    r2_account_id = [], r2_bucket_name = [], r2_endpoint = [], r2_access_key_id = [],
    r2_secret_access_key = [], r2_presigned_url_ttl_seconds = 3600,
    max_photo_upload_bytes = 25 * 1024 * 1024, max_selfie_upload_bytes = 10 * 1024 * 1024,
    max_event_thumbnail_upload_bytes = 10 * 1024 * 1024,
    max_participant_upload_bytes = 5 * 1024 * 1024,
    max_photo_batch_files = 50, max_selfie_batch_files = 5,
    max_photo_request_bytes = 256 * 1024 * 1024, max_form_request_bytes = 2 * 1024 * 1024,
    max_image_pixels = 40000000, max_image_dimension = 12000, max_participant_rows = 10000,
    max_participant_columns = 32, max_participant_cell_chars = 512,
    max_spreadsheet_uncompressed_bytes = 50 * 1024 * 1024,
    photo_thumbnail_max_edge = 640, photo_thumbnail_quality = 72,
    max_face_search_backlog = 100, max_photo_job_backlog = 10000, max_search_results = 250,
    max_search_faces_per_event = 25000, search_capability_ttl_seconds = 3600,
    biometric_retention_hours = 24, raw_response_retention_hours = 24,
    deletion_retry_batch_size = 100, deletion_task_retention_days = 7,
    worker_lease_seconds = 300, worker_max_attempts = 5, worker_retry_base_seconds = 10,
    worker_retry_max_seconds = 900, worker_api_token = [], metrics_api_token = [],
    worker_heartbeat_stale_seconds = 120, worker_heartbeat_retention_days = 30,
    face_match_similarity_threshold = 45 / 100, face_candidate_similarity_threshold = 36 / 100,
    face_medium_similarity_threshold = 42 / 100, face_strong_similarity_threshold = 50 / 100,
    face_reinforcement_similarity_threshold = 48 / 100, face_reinforcement_max_embeddings = 12,
    bib_only_seed_photo_limit = 10, bib_only_seed_cluster_min_photos = 2,
    bib_only_seed_cluster_majority_ratio = 60 / 100, bib_only_seed_cluster_lead_ratio = 150 / 100\<rparr>"

section \<open>The clamps of the worker protocol\<close>

definition WORKER_LEASE_SECONDS :: "settings \<Rightarrow> int" where
  "WORKER_LEASE_SECONDS cfg = max 30 (min (worker_lease_seconds cfg) 3600)"

definition WORKER_RETRY_BASE_SECONDS :: "settings \<Rightarrow> int" where
  "WORKER_RETRY_BASE_SECONDS cfg = max 1 (min (worker_retry_base_seconds cfg) 3600)"

definition WORKER_RETRY_MAX_SECONDS :: "settings \<Rightarrow> int" where
  "WORKER_RETRY_MAX_SECONDS cfg =
     max (WORKER_RETRY_BASE_SECONDS cfg) (min (worker_retry_max_seconds cfg) 86400)"

lemma lease_seconds_range:
  "30 \<le> WORKER_LEASE_SECONDS cfg" "WORKER_LEASE_SECONDS cfg \<le> 3600"
  by (auto simp: WORKER_LEASE_SECONDS_def)

lemma retry_base_range:
  "1 \<le> WORKER_RETRY_BASE_SECONDS cfg" "WORKER_RETRY_BASE_SECONDS cfg \<le> 3600"
  by (auto simp: WORKER_RETRY_BASE_SECONDS_def)

lemma retry_max_range:
  "WORKER_RETRY_BASE_SECONDS cfg \<le> WORKER_RETRY_MAX_SECONDS cfg"
  "WORKER_RETRY_MAX_SECONDS cfg \<le> 86400"
  using retry_base_range(2)[of cfg] by (auto simp: WORKER_RETRY_MAX_SECONDS_def)

end
