(* ===== verification/Models.thy ===== *)
theory Models
  imports Settings
begin

text \<open>
  \<^verbatim>\<open>backend/app/models.py\<close> and \<^verbatim>\<open>backend/app/db.py\<close>: one record per mapped class, the check
  constraints of its table as an executable predicate, the database as a record of tables, and
  the unit of work of an ORM session.

  A column restricted by a check constraint to a list of strings is a datatype with one
  constructor per string.  The three job classes have the same columns but for the foreign keys
  of the row they work on, so they share one record whose field \<^verbatim>\<open>j_parent\<close> has one constructor
  per class: \<^verbatim>\<open>isinstance(job, PhotoJob)\<close> is a case distinction on it.

  \<^verbatim>\<open>SessionLocal\<close> is created with \<^verbatim>\<open>autoflush=False\<close>.  A session therefore has three
  views of the data: what was last committed, what its transaction has flushed (the rows a
  \<^verbatim>\<open>SELECT\<close> reads) and the identity map with its unflushed attribute writes (what attribute
  access reads).
\<close>

section \<open>Column types\<close>

datatype pyfloat = Fin real | PosInf | NegInf | NaN

datatype json =
    JNull
  | JBool bool
  | JInt int
  | JFloat pyfloat
  | JStr str
  | JList "json list"
  | JDict "(str \<times> json) list"

datatype job_status = Queued | Processing | Completed | Failed | DeadLettered

datatype job_type = Ocr | FacePhotoScan | FaceSelfieEnroll | FaceSearchProbe

datatype photo_status =
  PhotoUploaded | PhotoProcessing | PhotoReady | PhotoPartiallyReady | PhotoFailed | PhotoDeleting

datatype image_status = ImageQueued | ImageProcessing | ImageReady | ImageFailed

datatype session_status =
  SessionQueued | SessionProcessing | SessionCompleted | SessionFailed | SessionExpired

datatype event_status = Draft | Published

datatype match_source = SrcOcr | SrcFace | SrcOcrFace

datatype task_status = TaskQueued | TaskProcessing | TaskCompleted | TaskDeadLettered

datatype worker_status = WorkerIdle | WorkerActive | WorkerDraining

section \<open>Rows\<close>

record event =
  ev_id :: uuid
  ev_name :: str
  ev_slug :: str
  ev_date :: "int option"
  ev_location :: "str option"
  ev_status :: event_status
  ev_thumbnail_object_key :: "str option"
  ev_created_at :: time

record participant =
  pa_id :: uuid
  pa_event_id :: uuid
  pa_bib_number :: str
  pa_full_name :: str
  pa_bib_lookup :: str
  pa_name_lookup :: str
  pa_created_at :: time

record photo =
  ph_id :: uuid
  ph_event_id :: uuid
  ph_original_object_key :: str
  ph_thumbnail_object_key :: "str option"
  ph_file_name :: str
  ph_content_type :: str
  ph_file_size :: int
  ph_checksum_sha256 :: "str option"
  ph_idempotency_key :: "str option"
  ph_status :: photo_status
  ph_created_at :: time

definition photo_constraints :: "photo \<Rightarrow> bool" where
  "photo_constraints p \<longleftrightarrow>
     (case ph_checksum_sha256 p of None \<Rightarrow> True | Some c \<Rightarrow> length c = 64) \<and> 0 < ph_file_size p"

text \<open>The foreign keys of a job: one constructor per job class.\<close>

datatype job_parent =
    OfPhoto uuid
  | OfFaceImage uuid uuid uuid
  | OfSearch uuid uuid uuid

record job =
  j_id :: uuid
  j_parent :: job_parent
  j_job_type :: job_type
  j_status :: job_status
  j_attempt_count :: int
  j_max_attempts :: int
  j_attempt_id :: "uuid option"
  j_claimed_at :: "time option"
  j_lease_expires_at :: "time option"
  j_retry_after :: "time option"
  j_dead_lettered_at :: "time option"
  j_error_message :: "str option"
  j_raw_response_json :: "json option"
  j_created_at :: time
  j_finished_at :: "time option"

text \<open>The check constraints of the three job tables: the job types each class allows.\<close>

definition photo_job_constraints :: "job \<Rightarrow> bool" where
  "photo_job_constraints j \<longleftrightarrow>
     (case j_parent j of OfPhoto _ \<Rightarrow> j_job_type j \<in> {Ocr, FacePhotoScan} | _ \<Rightarrow> False)
     \<and> 0 \<le> j_attempt_count j \<and> 0 < j_max_attempts j"

definition participant_face_job_constraints :: "job \<Rightarrow> bool" where
  "participant_face_job_constraints j \<longleftrightarrow>
     (case j_parent j of OfFaceImage _ _ _ \<Rightarrow> j_job_type j = FaceSelfieEnroll | _ \<Rightarrow> False)
     \<and> 0 \<le> j_attempt_count j \<and> 0 < j_max_attempts j"

definition face_search_job_constraints :: "job \<Rightarrow> bool" where
  "face_search_job_constraints j \<longleftrightarrow>
     (case j_parent j of OfSearch _ _ _ \<Rightarrow> j_job_type j = FaceSearchProbe | _ \<Rightarrow> False)
     \<and> 0 \<le> j_attempt_count j \<and> 0 < j_max_attempts j"

record text_detection =
  td_id :: uuid
  td_photo_id :: uuid
  td_photo_job_id :: uuid
  td_detected_text :: str
  td_normalized_text :: str
  td_confidence :: "real option"
  td_bounding_box_json :: "json option"
  td_created_at :: time

record photo_match =
  pm_event_id :: uuid
  pm_photo_id :: uuid
  pm_participant_id :: uuid
  pm_match_source :: match_source
  pm_matched_value :: str
  pm_confidence :: "real option"
  pm_created_at :: time

text \<open>The unique key of the table, and its check constraint.\<close>

definition photo_match_key :: "photo_match \<Rightarrow> uuid \<times> uuid" where
  "photo_match_key m = (pm_photo_id m, pm_participant_id m)"

definition photo_match_constraints :: "photo_match \<Rightarrow> bool" where
  "photo_match_constraints m \<longleftrightarrow>
     (case pm_confidence m of None \<Rightarrow> True | Some c \<Rightarrow> -1 \<le> c \<and> c \<le> 1)"

record face_image =
  fi_id :: uuid
  fi_event_id :: uuid
  fi_participant_id :: uuid
  fi_object_key :: str
  fi_file_name :: str
  fi_content_type :: str
  fi_file_size :: int
  fi_status :: image_status
  fi_error_message :: "str option"
  fi_created_at :: time

record face_embedding =
  fe_event_id :: uuid
  fe_participant_id :: uuid
  fe_face_image_id :: uuid
  fe_embedding_json :: "real list"
  fe_bounding_box_json :: "json option"
  fe_detection_score :: "real option"
  fe_quality_score :: "real option"

record face_detection =
  fd_id :: uuid
  fd_event_id :: uuid
  fd_photo_id :: uuid
  fd_photo_job_id :: uuid
  fd_face_index :: int
  fd_embedding_json :: "real list"
  fd_bounding_box_json :: "json option"
  fd_detection_score :: "real option"
  fd_quality_score :: "real option"
  fd_created_at :: time

record face_match =
  fm_event_id :: uuid
  fm_photo_id :: uuid
  fm_detection_id :: uuid
  fm_participant_id :: uuid
  fm_similarity_score :: real
  fm_created_at :: time

definition face_match_key :: "face_match \<Rightarrow> uuid \<times> uuid" where
  "face_match_key m = (fm_detection_id m, fm_participant_id m)"

record search_session =
  fs_id :: uuid
  fs_event_id :: uuid
  fs_participant_id :: "uuid option"
  fs_status :: session_status
  fs_error_message :: "str option"
  fs_expires_at :: time
  fs_capability_hash :: "str option"
  fs_owner_binding_hash :: "str option"
  fs_created_at :: time
  fs_finished_at :: "time option"

record search_image =
  si_id :: uuid
  si_event_id :: uuid
  si_search_session_id :: uuid
  si_object_key :: str
  si_file_name :: str
  si_content_type :: str
  si_file_size :: int
  si_status :: image_status
  si_error_message :: "str option"
  si_created_at :: time

record search_result =
  sr_event_id :: uuid
  sr_search_session_id :: uuid
  sr_photo_id :: uuid
  sr_detection_id :: uuid
  sr_similarity_score :: real
  sr_created_at :: time

definition search_result_key :: "search_result \<Rightarrow> uuid \<times> uuid" where
  "search_result_key r = (sr_search_session_id r, sr_detection_id r)"

record deletion_task =
  dt_id :: uuid
  dt_object_key :: str
  dt_status :: task_status
  dt_attempt_count :: int
  dt_max_attempts :: int
  dt_attempt_id :: "uuid option"
  dt_retry_at :: "time option"
  dt_claimed_at :: "time option"
  dt_lease_expires_at :: "time option"
  dt_last_error :: "str option"
  dt_created_at :: time
  dt_updated_at :: time
  dt_completed_at :: "time option"
  dt_dead_lettered_at :: "time option"

record rate_bucket =
  rb_bucket :: str
  rb_key_hash :: str
  rb_window_start :: time
  rb_count :: int
  rb_expires_at :: time
  rb_updated_at :: time

definition rate_bucket_key :: "rate_bucket \<Rightarrow> str \<times> str \<times> time" where
  "rate_bucket_key b = (rb_bucket b, rb_key_hash b, rb_window_start b)"

record audit_row =
  al_actor_id :: "str option"
  al_actor_email :: "str option"
  al_action :: str
  al_target_type :: "str option"
  al_target_id :: "str option"
  al_event_id :: "uuid option"
  al_request_id :: "str option"
  al_metadata_json :: "json option"

record worker_heartbeat =
  wh_worker_id :: str
  wh_worker_version :: str
  wh_status :: worker_status
  wh_current_job_id :: "uuid option"
  wh_current_job_type :: "job_type option"
  wh_started_at :: time
  wh_last_seen_at :: time

text \<open>The constraint that couples a worker's status with its current job.\<close>

definition worker_heartbeat_constraints :: "worker_heartbeat \<Rightarrow> bool" where
  "worker_heartbeat_constraints w \<longleftrightarrow> wh_worker_id w \<noteq> [] \<and>
     ((wh_status w = WorkerActive \<and> wh_current_job_id w \<noteq> None \<and> wh_current_job_type w \<noteq> None)
      \<or> (wh_status w \<in> {WorkerIdle, WorkerDraining} \<and> wh_current_job_id w = None
          \<and> wh_current_job_type w = None))"

record admin_lock =
  lk_id :: int
  lk_session_id :: str
  lk_last_seen_at :: time

section \<open>The database\<close>

record db =
  events :: "event list"
  participants :: "participant list"
  photos :: "photo list"
  photo_jobs :: "job list"
  participant_face_jobs :: "job list"
  face_search_jobs :: "job list"
  text_detections :: "text_detection list"
  photo_matches :: "photo_match list"
  face_images :: "face_image list"
  face_embeddings :: "face_embedding list"
  face_detections :: "face_detection list"
  face_matches :: "face_match list"
  search_sessions :: "search_session list"
  search_images :: "search_image list"
  search_results :: "search_result list"
  deletion_tasks :: "deletion_task list"
  rate_buckets :: "rate_bucket list"
  audit_rows :: "audit_row list"
  worker_heartbeats :: "worker_heartbeat list"
  admin_locks :: "admin_lock list"

definition empty_db :: db where
  "empty_db = \<lparr>events = [], participants = [], photos = [], photo_jobs = [],
     participant_face_jobs = [], face_search_jobs = [], text_detections = [], photo_matches = [],
     face_images = [], face_embeddings = [], face_detections = [], face_matches = [],
     search_sessions = [], search_images = [], search_results = [], deletion_tasks = [],
     rate_buckets = [], audit_rows = [], worker_heartbeats = [], admin_locks = []\<rparr>"

section \<open>The unit of work of a session\<close>

record session =
  committed :: db
  flushed :: db
  live :: db

definition open_session :: "db \<Rightarrow> session" where
  "open_session d = \<lparr>committed = d, flushed = d, live = d\<rparr>"

definition flush :: "session \<Rightarrow> session" where
  "flush s = s\<lparr>flushed := live s\<rparr>"

definition commit :: "session \<Rightarrow> session" where
  "commit s = s\<lparr>committed := live s, flushed := live s\<rparr>"

definition rollback :: "session \<Rightarrow> session" where
  "rollback s = s\<lparr>flushed := committed s, live := committed s\<rparr>"

text \<open>An attribute write or a \<^verbatim>\<open>session.add\<close> changes the identity map only; a statement executed
  on the connection changes the transaction's rows (and the identity map's view of them).\<close>

definition orm :: "(db \<Rightarrow> db) \<Rightarrow> session \<Rightarrow> session" where
  "orm f s = s\<lparr>live := f (live s)\<rparr>"

definition dml :: "(db \<Rightarrow> db) \<Rightarrow> session \<Rightarrow> session" where
  "dml f s = s\<lparr>flushed := f (flushed s), live := f (live s)\<rparr>"

named_theorems session_simps

lemma open_session_simps [session_simps, simp]:
  "committed (open_session d) = d" "flushed (open_session d) = d" "live (open_session d) = d"
  by (simp_all add: open_session_def)

lemma flush_simps [session_simps, simp]:
  "committed (flush s) = committed s" "flushed (flush s) = live s" "live (flush s) = live s"
  by (simp_all add: flush_def)

lemma commit_simps [session_simps, simp]:
  "committed (commit s) = live s" "flushed (commit s) = live s" "live (commit s) = live s"
  by (simp_all add: commit_def)

lemma rollback_simps [session_simps, simp]:
  "committed (rollback s) = committed s" "flushed (rollback s) = committed s"
  "live (rollback s) = committed s"
  by (simp_all add: rollback_def)

lemma orm_simps [session_simps, simp]:
  "committed (orm f s) = committed s" "flushed (orm f s) = flushed s" "live (orm f s) = f (live s)"
  by (simp_all add: orm_def)

lemma dml_simps [session_simps, simp]:
  "committed (dml f s) = committed s" "flushed (dml f s) = f (flushed s)"
  "live (dml f s) = f (live s)"
  by (simp_all add: dml_def)

section \<open>The three job tables\<close>

datatype job_model = PhotoJobs | ParticipantFaceJobs | FaceSearchJobs

fun jobs_of :: "job_model \<Rightarrow> db \<Rightarrow> job list" where
  "jobs_of PhotoJobs d = photo_jobs d"
| "jobs_of ParticipantFaceJobs d = participant_face_jobs d"
| "jobs_of FaceSearchJobs d = face_search_jobs d"

fun set_jobs :: "job_model \<Rightarrow> job list \<Rightarrow> db \<Rightarrow> db" where
  "set_jobs PhotoJobs js d = d\<lparr>photo_jobs := js\<rparr>"
| "set_jobs ParticipantFaceJobs js d = d\<lparr>participant_face_jobs := js\<rparr>"
| "set_jobs FaceSearchJobs js d = d\<lparr>face_search_jobs := js\<rparr>"

definition update_job :: "job_model \<Rightarrow> uuid \<Rightarrow> (job \<Rightarrow> job) \<Rightarrow> db \<Rightarrow> db" where
  "update_job m i f d = set_jobs m (update_where (\<lambda>j. j_id j = i) f (jobs_of m d)) d"

definition update_photo :: "uuid \<Rightarrow> (photo \<Rightarrow> photo) \<Rightarrow> db \<Rightarrow> db" where
  "update_photo i f d = d\<lparr>photos := update_where (\<lambda>p. ph_id p = i) f (photos d)\<rparr>"

definition update_face_image :: "uuid \<Rightarrow> (face_image \<Rightarrow> face_image) \<Rightarrow> db \<Rightarrow> db" where
  "update_face_image i f d = d\<lparr>face_images := update_where (\<lambda>p. fi_id p = i) f (face_images d)\<rparr>"

definition update_search_image :: "uuid \<Rightarrow> (search_image \<Rightarrow> search_image) \<Rightarrow> db \<Rightarrow> db" where
  "update_search_image i f d =
     d\<lparr>search_images := update_where (\<lambda>p. si_id p = i) f (search_images d)\<rparr>"

definition update_search_session :: "uuid \<Rightarrow> (search_session \<Rightarrow> search_session) \<Rightarrow> db \<Rightarrow> db" where
  "update_search_session i f d =
     d\<lparr>search_sessions := update_where (\<lambda>p. fs_id p = i) f (search_sessions d)\<rparr>"

text \<open>The three tables are independent lenses on the database.\<close>

lemma jobs_of_set_jobs [simp]: "jobs_of m (set_jobs m js d) = js"
  by (cases m) auto

lemma jobs_of_set_jobs_other [simp]: "m' \<noteq> m \<Longrightarrow> jobs_of m' (set_jobs m js d) = jobs_of m' d"
  by (cases m; cases m') auto

lemma jobs_of_update_job [simp]:
  "jobs_of m (update_job m i f d) = update_where (\<lambda>j. j_id j = i) f (jobs_of m d)"
  by (simp add: update_job_def)

lemma jobs_of_update_job_other [simp]:
  "m' \<noteq> m \<Longrightarrow> jobs_of m' (update_job m i f d) = jobs_of m' d"
  by (simp add: update_job_def)

lemma jobs_of_update_parent [simp]:
  "jobs_of m (update_photo i f d) = jobs_of m d"
  "jobs_of m (update_face_image i g d) = jobs_of m d"
  "jobs_of m (update_search_image i h d) = jobs_of m d"
  "jobs_of m (update_search_session i k d) = jobs_of m d"
  by (cases m; simp add: update_photo_def update_face_image_def update_search_image_def
      update_search_session_def)+

lemma set_jobs_frame [simp]:
  "photos (set_jobs m js d) = photos d" "face_images (set_jobs m js d) = face_images d"
  "search_images (set_jobs m js d) = search_images d"
  "search_sessions (set_jobs m js d) = search_sessions d"
  "search_results (set_jobs m js d) = search_results d"
  by (cases m; simp)+

lemma update_job_frame [simp]:
  "photos (update_job m i f d) = photos d" "face_images (update_job m i f d) = face_images d"
  "search_images (update_job m i f d) = search_images d"
  "search_sessions (update_job m i f d) = search_sessions d"
  "search_results (update_job m i f d) = search_results d"
  by (simp_all add: update_job_def)

lemma update_parent_frame [simp]:
  "photos (update_face_image i g d) = photos d" "photos (update_search_image i h d) = photos d"
  "photos (update_search_session i k d) = photos d"
  "search_sessions (update_photo i f d) = search_sessions d"
  "search_sessions (update_face_image i g d) = search_sessions d"
  "search_sessions (update_search_image i h d) = search_sessions d"
  by (simp_all add: update_photo_def update_face_image_def update_search_image_def
      update_search_session_def)

definition job_at :: "job_model \<Rightarrow> uuid \<Rightarrow> db \<Rightarrow> job option" where
  "job_at m i d = row_at j_id i (jobs_of m d)"

text \<open>Every job id occurs once, and each table holds jobs of its class only.\<close>

fun job_class :: "job_parent \<Rightarrow> job_model" where
  "job_class (OfPhoto _) = PhotoJobs"
| "job_class (OfFaceImage _ _ _) = ParticipantFaceJobs"
| "job_class (OfSearch _ _ _) = FaceSearchJobs"

definition wf_jobs :: "job_model \<Rightarrow> db \<Rightarrow> bool" where
  "wf_jobs m d \<longleftrightarrow> distinct (map j_id (jobs_of m d)) \<and>
     (\<forall>j \<in> set (jobs_of m d). job_class (j_parent j) = m)"

lemma wf_jobs_at: "wf_jobs m d \<Longrightarrow> j \<in> set (jobs_of m d) \<Longrightarrow> job_at m (j_id j) d = Some j"
  by (simp add: wf_jobs_def job_at_def row_at_unique)

lemma job_at_SomeD:
  assumes "job_at m i d = Some j"
  shows "j \<in> set (jobs_of m d)" and "j_id j = i"
  using row_at_Some_iff[of j_id i "jobs_of m d" j] assms by (auto simp: job_at_def)

lemma job_at_update_job:
  assumes "\<And>j. j_id (f j) = j_id j"
  shows "job_at m k (update_job m i f d) =
    map_option (\<lambda>j. if j_id j = i then f j else j) (job_at m k d)"
  using assms by (simp add: job_at_def row_at_update_where)

lemma job_at_update_parent [simp]:
  "job_at m k (update_photo i f d) = job_at m k d"
  "job_at m k (update_face_image i g d) = job_at m k d"
  "job_at m k (update_search_image i h d) = job_at m k d"
  "job_at m k (update_search_session i q d) = job_at m k d"
  by (simp_all add: job_at_def)

end
