(* ===== verification/Interfaces.thy ===== *)
theory Interfaces
  imports Models
begin

text \<open>
  The interfaces between components, as locales: a store of rows addressed by a key, a table
  written by \<^verbatim>\<open>INSERT ... ON CONFLICT DO UPDATE\<close>, and a transition system with an invariant.
  Each is interpreted on the model's own tables and step relations.
\<close>

section \<open>A store of rows addressed by a key\<close>

locale row_store =
  fixes lookup :: "'k \<Rightarrow> 's \<Rightarrow> 'r option"
    and modify :: "'k \<Rightarrow> ('r \<Rightarrow> 'r) \<Rightarrow> 's \<Rightarrow> 's"
    and keeps_key :: "('r \<Rightarrow> 'r) \<Rightarrow> bool"
  assumes lookup_modify: "keeps_key f \<Longrightarrow>
    lookup k (modify i f s) = (if k = i then map_option f (lookup k s) else lookup k s)"
begin

lemma modify_other: "keeps_key f \<Longrightarrow> k \<noteq> i \<Longrightarrow> lookup k (modify i f s) = lookup k s"
  by (simp add: lookup_modify)

lemma modify_same: "keeps_key f \<Longrightarrow> lookup i s = Some r \<Longrightarrow> lookup i (modify i f s) = Some (f r)"
  by (simp add: lookup_modify)

lemma modify_present: "keeps_key f \<Longrightarrow> (lookup k (modify i f s) = None) = (lookup k s = None)"
  by (simp add: lookup_modify)

end

definition keeps_job_id :: "(job \<Rightarrow> job) \<Rightarrow> bool" where
  "keeps_job_id f \<longleftrightarrow> (\<forall>j. j_id (f j) = j_id j)"

lemma job_at_update_job_cases:
  assumes "keeps_job_id f"
  shows "job_at m k (update_job m i f d) =
    (if k = i then map_option f (job_at m k d) else job_at m k d)"
proof (cases "job_at m k d")
  case None
  with assms show ?thesis by (auto simp: keeps_job_id_def job_at_update_job)
next
  case (Some j)
  then have "j_id j = k" by (rule job_at_SomeD)
  with Some assms show ?thesis by (auto simp: keeps_job_id_def job_at_update_job)
qed

interpretation photo_jobs_store: row_store "job_at PhotoJobs" "update_job PhotoJobs" keeps_job_id
  by unfold_locales (rule job_at_update_job_cases)

interpretation face_jobs_store:
  row_store "job_at ParticipantFaceJobs" "update_job ParticipantFaceJobs" keeps_job_id
  by unfold_locales (rule job_at_update_job_cases)

interpretation search_jobs_store:
  row_store "job_at FaceSearchJobs" "update_job FaceSearchJobs" keeps_job_id
  by unfold_locales (rule job_at_update_job_cases)

section \<open>A table written by upserts\<close>

locale upsert_table =
  fixes key :: "'r \<Rightarrow> 'k" and merge :: "'r \<Rightarrow> 'r \<Rightarrow> 'r"
  assumes merge_key: "key r = key new \<Longrightarrow> key (merge r new) = key r"
begin

lemma unique_upsert:
  "distinct (map key rows) \<Longrightarrow> distinct (map key (upsert key merge new rows))"
  by (erule upsert_distinct) (rule merge_key)

lemma lookup_upsert:
  "row_at key k (upsert key merge new rows) =
    (if k = key new then
       (case row_at key k rows of None \<Rightarrow> Some new | Some r \<Rightarrow> Some (merge r new))
     else row_at key k rows)"
  by (rule row_at_upsert) (rule merge_key)

lemma unique_foldl:
  "distinct (map key rows) \<Longrightarrow>
   distinct (map key (foldl (\<lambda>rows new. upsert key merge new rows) rows news))"
  by (induction news arbitrary: rows) (auto simp: unique_upsert)

lemma lookup_other_foldl:
  "k \<notin> key ` set news \<Longrightarrow>
   row_at key k (foldl (\<lambda>rows new. upsert key merge new rows) rows news) = row_at key k rows"
  by (induction news arbitrary: rows) (auto simp: lookup_upsert)

lemma lookup_foldl_present:
  "k \<in> key ` set news \<or> row_at key k rows \<noteq> None \<Longrightarrow>
   row_at key k (foldl (\<lambda>rows new. upsert key merge new rows) rows news) \<noteq> None"
  by (induction news arbitrary: rows) (auto simp: lookup_upsert split: option.splits)

end

section \<open>A transition system with an invariant\<close>

locale invariant_system =
  fixes step :: "'s \<Rightarrow> 's \<Rightarrow> bool" and inv :: "'s \<Rightarrow> bool"
  assumes step_inv: "inv s \<Longrightarrow> step s t \<Longrightarrow> inv t"
begin

lemma run_inv: "rtranclp step s t \<Longrightarrow> inv s \<Longrightarrow> inv t"
  by (induction rule: rtranclp_induct) (auto intro: step_inv)

end

text \<open>A system whose steps also respect a preorder between states.\<close>

locale monotone_system = invariant_system step inv
  for step :: "'s \<Rightarrow> 's \<Rightarrow> bool" and inv :: "'s \<Rightarrow> bool" +
  fixes le :: "'s \<Rightarrow> 's \<Rightarrow> bool"
  assumes le_refl: "le s s" and le_trans: "le s t \<Longrightarrow> le t u \<Longrightarrow> le s u"
    and step_le: "inv s \<Longrightarrow> step s t \<Longrightarrow> le s t"
begin

lemma run_le: "rtranclp step s t \<Longrightarrow> inv s \<Longrightarrow> le s t"
  by (induction rule: rtranclp_induct) (auto intro: le_refl le_trans step_le run_inv)

end

end
