(* ===== verification/JobQueue.thy ===== *)
theory JobQueue
  imports Interfaces
begin

text \<open>
  The job queue of \<^verbatim>\<open>backend/app/worker_api.py\<close>: claiming with leases, attempt ownership,
  heartbeats, failure with bounded retries and dead-lettering, and the propagation of a terminal
  job to the row it works on.  Every call of \<^verbatim>\<open>utc_now()\<close> is a separate argument.
\<close>

section \<open>Attempt ownership\<close>

definition TERMINAL_JOB_STATUSES :: "job_status set" where
  "TERMINAL_JOB_STATUSES = {Completed, Failed, DeadLettered}"

text \<open>What \<^verbatim>\<open>_verify_active_attempt\<close> returns: a job status, or the string \<^verbatim>\<open>"retry_scheduled"\<close>.\<close>

datatype attempt_state = InState job_status | RetryScheduled

definition attempt_matches :: "uuid option \<Rightarrow> uuid \<Rightarrow> bool" where
  "attempt_matches stored supplied = (case stored of None \<Rightarrow> False | Some a \<Rightarrow> a = supplied)"

definition not_owned :: exn where
  "not_owned = HTTPException 409 ''The job is not owned by this worker attempt.''"

definition lease_expired :: exn where
  "lease_expired = HTTPException 409 ''The worker lease has expired.''"

definition verify_active_attempt :: "time \<Rightarrow> job \<Rightarrow> uuid \<Rightarrow> bool \<Rightarrow> attempt_state result" where
  "verify_active_attempt now job attempt_id allow_terminal =
    (let matches = attempt_matches (j_attempt_id job) attempt_id in
     if allow_terminal \<and> matches \<and> j_status job \<in> TERMINAL_JOB_STATUSES
     then Inr (InState (j_status job))
     else if allow_terminal \<and> matches \<and> j_status job = Queued then Inr RetryScheduled
     else if j_status job \<noteq> Processing \<or> \<not> matches then Inl not_owned
     else case j_lease_expires_at job of
            None \<Rightarrow> Inl lease_expired
          | Some t \<Rightarrow> if t \<le> now then Inl lease_expired else Inr (InState Processing))"

section \<open>Propagation to the parent row\<close>

fun parent_photo :: "job_parent \<Rightarrow> uuid option" where
  "parent_photo (OfPhoto p) = Some p" | "parent_photo _ = None"

fun parent_session :: "job_parent \<Rightarrow> uuid option" where
  "parent_session (OfSearch _ s _) = Some s" | "parent_session _ = None"

text \<open>\<^verbatim>\<open>SELECT status WHERE photo_id = ...\<close> and \<^verbatim>\<open>WHERE search_session_id = ...\<close>.\<close>

definition photo_job_statuses :: "uuid \<Rightarrow> db \<Rightarrow> job_status list" where
  "photo_job_statuses p d = map j_status (filter (\<lambda>j. parent_photo (j_parent j) = Some p) (photo_jobs d))"

definition search_job_statuses :: "uuid \<Rightarrow> db \<Rightarrow> job_status list" where
  "search_job_statuses i d =
     map j_status (filter (\<lambda>j. parent_session (j_parent j) = Some i) (face_search_jobs d))"

definition all_terminal :: "job_status list \<Rightarrow> bool" where
  "all_terminal statuses \<longleftrightarrow> statuses \<noteq> [] \<and> (\<forall>st \<in> set statuses. st \<in> TERMINAL_JOB_STATUSES)"

definition sync_terminal_parent_state :: "time \<Rightarrow> job \<Rightarrow> session \<Rightarrow> session" where
  "sync_terminal_parent_state now job s =
    (case j_parent job of
       OfPhoto pid \<Rightarrow>
         (let statuses = photo_job_statuses pid (flushed s) in
          if all_terminal statuses then
            orm (update_photo pid (\<lambda>p. p\<lparr>ph_status :=
              (if \<forall>st \<in> set statuses. st = Completed then PhotoReady
               else if Completed \<in> set statuses then PhotoPartiallyReady
               else PhotoFailed)\<rparr>)) s
          else s)
     | OfFaceImage _ _ fid \<Rightarrow>
         orm (update_face_image fid (\<lambda>i. i\<lparr>fi_status := ImageFailed,
           fi_error_message :=
             Some (take 2000 (or_text (j_error_message job) ''Face processing failed.''))\<rparr>)) s
     | OfSearch _ sid iid \<Rightarrow>
         (let s1 = orm (update_search_image iid (\<lambda>i. i\<lparr>si_status := ImageFailed,
             si_error_message :=
               Some (take 2000 (or_text (j_error_message job) ''Face search failed.''))\<rparr>)) s;
            statuses = search_job_statuses sid (flushed s1) in
          if all_terminal statuses then
            orm (update_search_session sid (\<lambda>x. x\<lparr>fs_status :=
              (if Completed \<in> set statuses then SessionCompleted else SessionFailed),
              fs_finished_at := Some now\<rparr>)) s1
          else s1))"

definition dead_letter :: "time \<Rightarrow> str \<Rightarrow> job \<Rightarrow> job" where
  "dead_letter now reason job = job\<lparr>j_status := DeadLettered,
     j_error_message := Some (take 2000 reason), j_retry_after := None, j_lease_expires_at := None,
     j_finished_at := Some now, j_dead_lettered_at := Some now\<rparr>"

definition mark_parent_processing :: "job \<Rightarrow> db \<Rightarrow> db" where
  "mark_parent_processing job d =
    (case j_parent job of
       OfPhoto pid \<Rightarrow> update_photo pid (\<lambda>p. p\<lparr>ph_status := PhotoProcessing\<rparr>) d
     | OfFaceImage _ _ fid \<Rightarrow>
         update_face_image fid (\<lambda>i. i\<lparr>fi_status := ImageProcessing, fi_error_message := None\<rparr>) d
     | OfSearch _ sid iid \<Rightarrow>
         update_search_session sid (\<lambda>x. x\<lparr>fs_status := SessionProcessing\<rparr>)
           (update_search_image iid (\<lambda>i. i\<lparr>si_status := ImageProcessing, si_error_message := None\<rparr>) d))"

section \<open>Claiming\<close>

text \<open>\<^verbatim>\<open>availability\<close>: queued and due, or processing with an expired lease.\<close>

definition is_due :: "time \<Rightarrow> time option \<Rightarrow> bool" where
  "is_due now t = (case t of None \<Rightarrow> True | Some x \<Rightarrow> x \<le> now)"

definition available :: "time \<Rightarrow> job \<Rightarrow> bool" where
  "available now j \<longleftrightarrow> (j_status j = Queued \<and> is_due now (j_retry_after j))
     \<or> (j_status j = Processing \<and> is_due now (j_lease_expires_at j))"

text \<open>
  \<^verbatim>\<open>locked\<close> holds of the rows another transaction holds a lock on: \<^verbatim>\<open>SKIP LOCKED\<close> passes over
  them.  The loop reads the clock once per job in \<^verbatim>\<open>_dead_letter\<close> and once per job in
  \<^verbatim>\<open>_sync_terminal_parent_state\<close>: the two functions give the reading for the n-th job.
\<close>

definition exhausted_jobs ::
    "job_model \<Rightarrow> (job \<Rightarrow> bool) \<Rightarrow> (uuid \<Rightarrow> bool) \<Rightarrow> time \<Rightarrow> db \<Rightarrow> job list" where
  "exhausted_jobs m cond locked now d =
     order_limit j_created_at 50
       (filter (\<lambda>j. cond j \<and> j_max_attempts j \<le> j_attempt_count j \<and> available now j
          \<and> \<not> locked (j_id j)) (jobs_of m d))"

definition reap_one :: "job_model \<Rightarrow> time \<Rightarrow> time \<Rightarrow> session \<Rightarrow> job \<Rightarrow> session" where
  "reap_one m dead_now sync_now s j =
    (let j' = dead_letter dead_now
           (or_text (j_error_message j) ''Maximum processing attempts exhausted.'') j
     in sync_terminal_parent_state sync_now j' (orm (update_job m (j_id j) (\<lambda>_. j')) s))"

fun reap_loop ::
    "job_model \<Rightarrow> (nat \<Rightarrow> time) \<Rightarrow> (nat \<Rightarrow> time) \<Rightarrow> nat \<Rightarrow> job list \<Rightarrow> session \<Rightarrow> session" where
  "reap_loop m dead_now sync_now n [] s = s"
| "reap_loop m dead_now sync_now n (j # js) s =
     reap_loop m dead_now sync_now (Suc n) js (reap_one m (dead_now n) (sync_now n) s j)"

definition reap_exhausted_jobs :: "job_model \<Rightarrow> (job \<Rightarrow> bool) \<Rightarrow> (uuid \<Rightarrow> bool) \<Rightarrow> time \<Rightarrow>
    (nat \<Rightarrow> time) \<Rightarrow> (nat \<Rightarrow> time) \<Rightarrow> session \<Rightarrow> session" where
  "reap_exhausted_jobs m cond locked now dead_now sync_now s =
     reap_loop m dead_now sync_now 0 (exhausted_jobs m cond locked now (flushed s)) s"

definition claimable_jobs ::
    "job_model \<Rightarrow> (job \<Rightarrow> bool) \<Rightarrow> (uuid \<Rightarrow> bool) \<Rightarrow> time \<Rightarrow> db \<Rightarrow> job list" where
  "claimable_jobs m cond locked now d =
     filter (\<lambda>j. cond j \<and> j_attempt_count j < j_max_attempts j \<and> available now j
        \<and> \<not> locked (j_id j)) (jobs_of m d)"

definition claimed :: "settings \<Rightarrow> time \<Rightarrow> uuid \<Rightarrow> job \<Rightarrow> job" where
  "claimed cfg now uid job = job\<lparr>j_status := Processing, j_attempt_count := j_attempt_count job + 1,
     j_attempt_id := Some uid, j_claimed_at := Some now,
     j_lease_expires_at := Some (now + seconds (WORKER_LEASE_SECONDS cfg)),
     j_retry_after := None, j_dead_lettered_at := None, j_error_message := None,
     j_finished_at := None\<rparr>"

text \<open>The clock readings and the UUID of one claim.\<close>

record claim_env =
  ce_reap_now :: time
  ce_dead_now :: "nat \<Rightarrow> time"
  ce_sync_now :: "nat \<Rightarrow> time"
  ce_now :: time
  ce_uuid :: uuid
  ce_locked :: "uuid \<Rightarrow> bool"

definition claim_job ::
    "settings \<Rightarrow> job_model \<Rightarrow> (job \<Rightarrow> bool) \<Rightarrow> claim_env \<Rightarrow> session \<Rightarrow> job option \<times> session" where
  "claim_job cfg m cond env s =
    (let s1 = reap_exhausted_jobs m cond (ce_locked env) (ce_reap_now env) (ce_dead_now env)
                (ce_sync_now env) s in
     case order_limit j_created_at 1
            (claimable_jobs m cond (ce_locked env) (ce_now env) (flushed s1)) of
       [] \<Rightarrow> (None, commit s1)
     | j # _ \<Rightarrow>
         (let s2 = orm (update_job m (j_id j) (claimed cfg (ce_now env) (ce_uuid env))) s1;
              s3 = orm (mark_parent_processing j) s2;
              s4 = commit s3
          in (job_at m (j_id j) (live s4), s4)))"

section \<open>Retry, failure and heartbeat\<close>

text \<open>\<^verbatim>\<open>r\<close> is the draw of \<^verbatim>\<open>random.uniform(0.8, 1.2)\<close>; \<^verbatim>\<open>int\<close> of a positive float is its floor.\<close>

definition retry_delay :: "settings \<Rightarrow> real \<Rightarrow> int \<Rightarrow> int" where
  "retry_delay cfg r attempt_count =
    (let exponential = min (WORKER_RETRY_MAX_SECONDS cfg)
           (WORKER_RETRY_BASE_SECONDS cfg * 2 ^ nat (min 20 (max 0 (attempt_count - 1))))
     in max 1 \<lfloor>of_int exponential * r\<rfloor>)"

record fail_request =
  fr_attempt_id :: uuid
  fr_error_message :: str
  fr_retryable :: bool
  fr_error_code :: "str option"

datatype job_response =
    JobStatus attempt_state
  | RetryAt time
  | LeaseUntil time

text \<open>The clock readings of a failure report, and its random draw.\<close>

record fail_env =
  fe_verify_now :: time
  fe_now :: time
  fe_dead_now :: time
  fe_sync_now :: time
  fe_random :: real

definition failure_message :: "fail_request \<Rightarrow> str" where
  "failure_message req =
    (let pre = (case fr_error_code req of
                  None \<Rightarrow> [] | Some c \<Rightarrow> if c = [] then [] else ''['' @ c @ ''] '')
     in take 2000 (pre @ fr_error_message req))"

definition fail_job :: "settings \<Rightarrow> job_model \<Rightarrow> fail_env \<Rightarrow> job \<Rightarrow> fail_request \<Rightarrow> session \<Rightarrow>
    job_response result \<times> session" where
  "fail_job cfg m env job req s =
    (case verify_active_attempt (fe_verify_now env) job (fr_attempt_id req) True of
       Inl e \<Rightarrow> (Inl e, s)
     | Inr current \<Rightarrow>
         if current \<noteq> InState Processing then (Inr (JobStatus current), s)
         else
           (let job1 = job\<lparr>j_error_message := Some (failure_message req), j_lease_expires_at := None\<rparr>
            in if fr_retryable req \<and> j_attempt_count job1 < j_max_attempts job1 then
                 (let t = fe_now env + seconds (retry_delay cfg (fe_random env) (j_attempt_count job1));
                      job2 = job1\<lparr>j_status := Queued, j_retry_after := Some t, j_finished_at := None\<rparr>
                  in (Inr (RetryAt t), commit (orm (update_job m (j_id job) (\<lambda>_. job2)) s)))
               else
                 (let job2 = (if fr_retryable req
                              then dead_letter (fe_dead_now env) (failure_message req) job1
                              else job1\<lparr>j_status := Failed, j_retry_after := None,
                                     j_finished_at := Some (fe_now env)\<rparr>);
                      s1 = orm (update_job m (j_id job) (\<lambda>_. job2)) s;
                      s2 = sync_terminal_parent_state (fe_sync_now env) job2 s1
                  in (Inr (JobStatus (InState (j_status job2))), commit s2))))"

definition heartbeat_job :: "settings \<Rightarrow> job_model \<Rightarrow> time \<Rightarrow> time \<Rightarrow> job \<Rightarrow> uuid \<Rightarrow> session \<Rightarrow>
    job_response result \<times> session" where
  "heartbeat_job cfg m verify_now now job attempt_id s =
    (case verify_active_attempt verify_now job attempt_id False of
       Inl e \<Rightarrow> (Inl e, s)
     | Inr current \<Rightarrow>
         if current \<noteq> InState Processing
         then (Inl (HTTPException 409 ''The worker no longer owns this job.''), s)
         else
           (let t = now + seconds (WORKER_LEASE_SECONDS cfg)
            in (Inr (LeaseUntil t),
                commit (orm (update_job m (j_id job) (\<lambda>j. j\<lparr>j_lease_expires_at := Some t\<rparr>)) s))))"

end
