(* ===== verification/JobLifecycle.thy ===== *)
theory JobLifecycle
  imports JobQueue
begin

text \<open>
  The contract of the job queue, stated on one row, and the proof that the operations of
  \<^verbatim>\<open>JobQueue\<close> implement it: \<^verbatim>\<open>job_step\<close> lists the transitions a job may make, and every
  operation moves every row of its table by such transitions.
\<close>

section \<open>The lifecycle of one job\<close>

definition same_core :: "job \<Rightarrow> job \<Rightarrow> bool" where
  "same_core j j' \<longleftrightarrow> j_id j' = j_id j \<and> j_parent j' = j_parent j \<and> j_job_type j' = j_job_type j
     \<and> j_attempt_count j' = j_attempt_count j \<and> j_max_attempts j' = j_max_attempts j
     \<and> j_attempt_id j' = j_attempt_id j \<and> j_created_at j' = j_created_at j"

inductive job_step :: "job \<Rightarrow> job \<Rightarrow> bool" where
  step_claim: "j_status j \<in> {Queued, Processing} \<Longrightarrow> j_attempt_count j < j_max_attempts j \<Longrightarrow>
    job_step j (claimed cfg now uid j)"
| step_renew: "j_status j = Processing \<Longrightarrow> job_step j (j\<lparr>j_lease_expires_at := Some t\<rparr>)"
| step_retry: "j_status j = Processing \<Longrightarrow> j_attempt_count j < j_max_attempts j \<Longrightarrow>
    same_core j j' \<Longrightarrow> j_status j' = Queued \<Longrightarrow> job_step j j'"
| step_finish: "j_status j = Processing \<Longrightarrow> same_core j j' \<Longrightarrow>
    j_status j' \<in> TERMINAL_JOB_STATUSES \<Longrightarrow> j_finished_at j' \<noteq> None \<Longrightarrow> job_step j j'"
| step_exhaust: "j_status j = Queued \<Longrightarrow> j_max_attempts j \<le> j_attempt_count j \<Longrightarrow>
    same_core j j' \<Longrightarrow> j_status j' = DeadLettered \<Longrightarrow> j_finished_at j' \<noteq> None \<Longrightarrow> job_step j j'"

inductive_cases job_stepE: "job_step j j'"

lemmas job_step_defs = same_core_def claimed_def TERMINAL_JOB_STATUSES_def

definition job_inv :: "job \<Rightarrow> bool" where
  "job_inv j \<longleftrightarrow> 0 \<le> j_attempt_count j \<and> j_attempt_count j \<le> j_max_attempts j
     \<and> (j_status j = Processing \<longrightarrow> j_attempt_id j \<noteq> None \<and> 0 < j_attempt_count j)
     \<and> (j_status j \<in> TERMINAL_JOB_STATUSES \<longrightarrow> j_finished_at j \<noteq> None)"

lemma job_step_inv: "job_inv j \<Longrightarrow> job_step j j' \<Longrightarrow> job_inv j'"
  by (erule job_stepE) (auto simp: job_inv_def job_step_defs)

text \<open>A preorder: identity is fixed, attempts only grow, and a terminal row never changes.\<close>

definition job_le :: "job \<Rightarrow> job \<Rightarrow> bool" where
  "job_le j j' \<longleftrightarrow> j_id j' = j_id j \<and> j_parent j' = j_parent j \<and> j_job_type j' = j_job_type j
     \<and> j_max_attempts j' = j_max_attempts j \<and> j_created_at j' = j_created_at j
     \<and> j_attempt_count j \<le> j_attempt_count j'
     \<and> (j_attempt_count j' = j_attempt_count j \<longrightarrow> j_attempt_id j' = j_attempt_id j)
     \<and> (j_status j \<in> TERMINAL_JOB_STATUSES \<longrightarrow> j' = j)"

lemma job_step_le: "job_step j j' \<Longrightarrow> job_le j j'"
  by (erule job_stepE) (auto simp: job_le_def job_step_defs)

lemma job_le_refl: "job_le j j"
  by (simp add: job_le_def)

lemma job_le_trans:
  assumes "job_le i j" and "job_le j k"
  shows "job_le i k"
proof (cases "j_status i \<in> TERMINAL_JOB_STATUSES")
  case True
  with assms(1) have "j = i" by (simp add: job_le_def)
  with assms(2) show ?thesis by simp
next
  case False
  from assms have c: "j_attempt_count i \<le> j_attempt_count j" "j_attempt_count j \<le> j_attempt_count k"
    by (simp_all add: job_le_def)
  have "j_attempt_id k = j_attempt_id i" if e: "j_attempt_count k = j_attempt_count i"
  proof -
    from c e have "j_attempt_count j = j_attempt_count i" "j_attempt_count k = j_attempt_count j"
      by linarith+
    with assms have "j_attempt_id j = j_attempt_id i" "j_attempt_id k = j_attempt_id j"
      unfolding job_le_def by blast+
    then show ?thesis by simp
  qed
  moreover from assms have "j_id k = j_id i \<and> j_parent k = j_parent i \<and> j_job_type k = j_job_type i
      \<and> j_max_attempts k = j_max_attempts i \<and> j_created_at k = j_created_at i"
    unfolding job_le_def by metis
  moreover from c have "j_attempt_count i \<le> j_attempt_count k" by linarith
  ultimately show ?thesis using False unfolding job_le_def by blast
qed

interpretation lifecycle: monotone_system job_step job_inv job_le
  by unfold_locales (auto intro: job_step_inv job_step_le job_le_refl job_le_trans)

definition job_run :: "job \<Rightarrow> job \<Rightarrow> bool" where
  "job_run = rtranclp job_step"

lemma job_run_refl [simp, intro]: "job_run j j"
  by (simp add: job_run_def)

lemma job_run_step: "job_step j j' \<Longrightarrow> job_run j j'"
  by (simp add: job_run_def)

lemma job_run_trans: "job_run i j \<Longrightarrow> job_run j k \<Longrightarrow> job_run i k"
  by (simp add: job_run_def)

lemma job_run_inv: "job_run j j' \<Longrightarrow> job_inv j \<Longrightarrow> job_inv j'"
  unfolding job_run_def by (rule lifecycle.run_inv)

lemma job_run_le: "job_run j j' \<Longrightarrow> job_le j j'"
  unfolding job_run_def by (induction rule: rtranclp_induct)
    (auto intro: job_le_refl job_le_trans job_step_le)

lemma job_run_id: "job_run j j' \<Longrightarrow> j_id j' = j_id j"
  by (drule job_run_le) (simp add: job_le_def)

section \<open>Tables\<close>

definition jobs_run :: "job list \<Rightarrow> job list \<Rightarrow> bool" where
  "jobs_run = list_all2 job_run"

lemma jobs_run_refl [simp, intro]: "jobs_run js js"
  by (simp add: jobs_run_def list_all2_refl)

lemma jobs_run_trans: "jobs_run a b \<Longrightarrow> jobs_run b c \<Longrightarrow> jobs_run a c"
  unfolding jobs_run_def by (rule list_all2_trans[of job_run job_run job_run])
    (auto intro: job_run_trans)

lemma jobs_run_ids: "jobs_run a b \<Longrightarrow> map j_id b = map j_id a"
  unfolding jobs_run_def by (induction rule: list_all2_induct) (auto dest: job_run_id)

lemma jobs_run_update:
  "(\<And>j. j \<in> set js \<Longrightarrow> p j \<Longrightarrow> job_run j (f j)) \<Longrightarrow> jobs_run js (update_where p f js)"
  unfolding jobs_run_def by (induction js) auto

lemma jobs_run_row_at:
  "jobs_run a b \<Longrightarrow> row_at j_id i a = Some j \<Longrightarrow> \<exists>j'. row_at j_id i b = Some j' \<and> job_run j j'"
  unfolding jobs_run_def by (induction rule: list_all2_induct) (auto dest: job_run_id split: if_splits)

lemma jobs_run_inv: "jobs_run a b \<Longrightarrow> \<forall>j \<in> set a. job_inv j \<Longrightarrow> \<forall>j \<in> set b. job_inv j"
  unfolding jobs_run_def by (induction rule: list_all2_induct) (auto intro: job_run_inv)

lemma jobs_run_wf:
  assumes "jobs_run (jobs_of m d) (jobs_of m d')" and "wf_jobs m d"
  shows "wf_jobs m d'"
proof -
  have "list_all2 job_run (jobs_of m d) (jobs_of m d')" using assms(1) by (simp add: jobs_run_def)
  moreover from assms(2) have "\<forall>j \<in> set (jobs_of m d). job_class (j_parent j) = m"
    by (simp add: wf_jobs_def)
  ultimately have "\<forall>j \<in> set (jobs_of m d'). job_class (j_parent j) = m"
    by (induction rule: list_all2_induct) (auto dest!: job_run_le simp: job_le_def)
  with assms show ?thesis by (simp add: wf_jobs_def jobs_run_ids)
qed

text \<open>Writing back a row that was read from the table.\<close>

lemma jobs_run_write:
  assumes "wf_jobs m d" and "job_at m i d = Some j" and "job_run j j'"
  shows "jobs_run (jobs_of m d) (update_where (\<lambda>x. j_id x = i) (\<lambda>_. j') (jobs_of m d))"
proof (rule jobs_run_update)
  fix x assume "x \<in> set (jobs_of m d)" and "j_id x = i"
  with assms(1) have "job_at m i d = Some x" by (auto dest: wf_jobs_at)
  with assms(2,3) show "job_run x j'" by simp
qed

lemma job_at_write_other:
  "j_id j' = i \<Longrightarrow> k \<noteq> i \<Longrightarrow> job_at m k (update_job m i (\<lambda>_. j') d) = job_at m k d"
  by (simp add: job_at_def row_at_update_where_other)

lemma job_at_write_same:
  "j_id j' = i \<Longrightarrow> job_at m i d = Some j \<Longrightarrow> job_at m i (update_job m i (\<lambda>_. j') d) = Some j'"
proof -
  assume "j_id j' = i" "job_at m i d = Some j"
  then have "row_at j_id i (update_where (\<lambda>x. j_id x = i) (\<lambda>_. j') (jobs_of m d)) = Some j'"
    by (auto simp: job_at_def row_at_update_where dest: row_at_Some_iff)
  then show ?thesis by (simp add: job_at_def)
qed

section \<open>The operations implement the lifecycle\<close>

lemma jobs_of_sync [simp]:
  "jobs_of m (live (sync_terminal_parent_state now j s)) = jobs_of m (live s)"
  by (auto simp: sync_terminal_parent_state_def Let_def split: job_parent.splits)

lemma sync_session [simp]:
  "flushed (sync_terminal_parent_state now j s) = flushed s"
  "committed (sync_terminal_parent_state now j s) = committed s"
  by (auto simp: sync_terminal_parent_state_def Let_def split: job_parent.splits)

lemma jobs_of_mark_parent [simp]: "jobs_of m (mark_parent_processing j d) = jobs_of m d"
  by (auto simp: mark_parent_processing_def split: job_parent.splits)

lemma job_at_mark_parent [simp]: "job_at m i (mark_parent_processing j d) = job_at m i d"
  by (simp add: job_at_def)

lemma dead_letter_simps [simp]:
  "j_id (dead_letter now r j) = j_id j" "j_status (dead_letter now r j) = DeadLettered"
  "j_parent (dead_letter now r j) = j_parent j"
  by (simp_all add: dead_letter_def)

lemma claimed_simps [simp]:
  "j_id (claimed cfg now uid j) = j_id j" "j_status (claimed cfg now uid j) = Processing"
  "j_attempt_count (claimed cfg now uid j) = j_attempt_count j + 1"
  "j_attempt_id (claimed cfg now uid j) = Some uid"
  "j_lease_expires_at (claimed cfg now uid j) = Some (now + seconds (WORKER_LEASE_SECONDS cfg))"
  by (simp_all add: claimed_def)

lemma available_status: "available now j \<Longrightarrow> j_status j \<in> {Queued, Processing}"
  by (auto simp: available_def)

lemma dead_letter_run:
  assumes "available now j" and "j_max_attempts j \<le> j_attempt_count j"
  shows "job_run j (dead_letter t r j)"
  using assms available_status[OF assms(1)]
  by (auto intro!: job_run_step intro: step_finish step_exhaust
      simp: dead_letter_def same_core_def TERMINAL_JOB_STATUSES_def)

lemma exhausted_jobsD:
  "j \<in> set (exhausted_jobs m cond locked now d) \<Longrightarrow>
   j \<in> set (jobs_of m d) \<and> cond j \<and> j_max_attempts j \<le> j_attempt_count j \<and> available now j
     \<and> \<not> locked (j_id j)"
  unfolding exhausted_jobs_def by (drule subsetD[OF order_limit_subset]) simp

lemma distinct_map_order_limit:
  "distinct (map key rows) \<Longrightarrow> distinct (map key (order_limit k n (filter p rows)))"
  unfolding order_limit_def
  by (metis distinct_map_filter distinct_map distinct_sort distinct_take inj_on_subset set_sort set_take_subset)

lemma exhausted_jobs_distinct:
  "wf_jobs m d \<Longrightarrow> distinct (map j_id (exhausted_jobs m cond locked now d))"
  unfolding exhausted_jobs_def wf_jobs_def by (simp add: distinct_map_order_limit)

lemma reap_loop_session [simp]:
  "flushed (reap_loop m dn sn n js s) = flushed s"
  "committed (reap_loop m dn sn n js s) = committed s"
  by (induction js arbitrary: n s) (simp_all add: reap_one_def Let_def)

lemma reap_one_other:
  "i \<noteq> j_id j \<Longrightarrow> job_at m i (live (reap_one m dn sn s j)) = job_at m i (live s)"
proof -
  assume "i \<noteq> j_id j"
  then have "job_at m i (update_job m (j_id j) (\<lambda>_. dead_letter dn r j) (live s)) =
      job_at m i (live s)" for r
    by (intro job_at_write_other) simp_all
  then show ?thesis by (simp add: reap_one_def Let_def job_at_def)
qed

lemma reap_loop_jobs_other:
  "i \<notin> j_id ` set js \<Longrightarrow> job_at m i (live (reap_loop m dn sn n js s)) = job_at m i (live s)"
proof (induction js arbitrary: n s)
  case (Cons j js)
  then show ?case by (simp add: reap_one_other)
qed simp

lemma reap_loop_run:
  assumes "wf_jobs m (live s)" and "distinct (map j_id js)"
    and "\<forall>j \<in> set js. job_at m (j_id j) (live s) = Some j \<and> available now j
           \<and> j_max_attempts j \<le> j_attempt_count j"
  shows "jobs_run (jobs_of m (live s)) (jobs_of m (live (reap_loop m dn sn n js s)))"
  using assms
proof (induction js arbitrary: n s)
  case (Cons j js)
  let ?s1 = "reap_one m (dn n) (sn n) s j"
  have js1: "jobs_run (jobs_of m (live s)) (jobs_of m (live ?s1))"
    using Cons.prems by (auto simp: reap_one_def Let_def intro!: jobs_run_write dead_letter_run)
  have "\<forall>k \<in> set js. job_at m (j_id k) (live ?s1) = job_at m (j_id k) (live s)"
    using Cons.prems(2) by (auto intro!: reap_one_other) (metis imageI)
  then have "jobs_run (jobs_of m (live ?s1)) (jobs_of m (live (reap_loop m dn sn (Suc n) js ?s1)))"
    using Cons.prems jobs_run_wf[OF js1 Cons.prems(1)] by (intro Cons.IH) auto
  with js1 show ?case by (auto intro: jobs_run_trans)
qed simp

lemma reap_run:
  assumes "wf_jobs m d"
  shows "jobs_run (jobs_of m d)
    (jobs_of m (live (reap_exhausted_jobs m cond locked now dn sn (open_session d))))"
proof -
  have "\<forall>j \<in> set (exhausted_jobs m cond locked now d).
      job_at m (j_id j) d = Some j \<and> available now j \<and> j_max_attempts j \<le> j_attempt_count j"
    using assms by (auto dest: exhausted_jobsD wf_jobs_at)
  then show ?thesis
    unfolding reap_exhausted_jobs_def
    using reap_loop_run[where s = "open_session d" and m = m and now = now]
      assms exhausted_jobs_distinct[OF assms] by simp
qed

lemma reap_session [simp]:
  "flushed (reap_exhausted_jobs m cond locked now dn sn s) = flushed s"
  "committed (reap_exhausted_jobs m cond locked now dn sn s) = committed s"
  by (simp_all add: reap_exhausted_jobs_def)

lemma reap_other:
  assumes "job_at m i d = Some j" and "wf_jobs m d"
    and "\<not> (cond j \<and> j_max_attempts j \<le> j_attempt_count j \<and> available now j \<and> \<not> locked i)"
  shows "job_at m i (live (reap_exhausted_jobs m cond locked now dn sn (open_session d))) = Some j"
proof -
  have "i \<notin> j_id ` set (exhausted_jobs m cond locked now d)"
  proof
    assume "i \<in> j_id ` set (exhausted_jobs m cond locked now d)"
    then obtain k where k: "k \<in> set (exhausted_jobs m cond locked now d)" "j_id k = i" by auto
    then have "job_at m i d = Some k" using assms(2) by (auto dest: exhausted_jobsD wf_jobs_at)
    with assms(1) have "k = j" by simp
    with k assms(3) show False by (auto dest: exhausted_jobsD)
  qed
  with assms(1) show ?thesis
    by (simp add: reap_exhausted_jobs_def reap_loop_jobs_other)
qed

end
