(* ===== verification/JobProtocol.thy ===== *)
theory JobProtocol
  imports JobLifecycle
begin

text \<open>
  What the claim, failure and heartbeat operations of the job queue guarantee: functional
  behaviour, exclusive ownership under a lease, rejection of stale attempts, idempotence of
  repeated reports, and what they leave of the parent row's status.
\<close>

section \<open>Verification of an attempt\<close>

lemma verify_processingD:
  assumes "verify_active_attempt now j a t = Inr (InState Processing)"
  shows "j_status j = Processing" "j_attempt_id j = Some a"
    "\<exists>l. j_lease_expires_at j = Some l \<and> now < l"
  using assms
  by (auto simp: verify_active_attempt_def Let_def attempt_matches_def TERMINAL_JOB_STATUSES_def
      split: if_splits option.splits)

lemma verify_processing_iff:
  "verify_active_attempt now j a t = Inr (InState Processing) \<longleftrightarrow>
     j_status j = Processing \<and> j_attempt_id j = Some a \<and>
     (case j_lease_expires_at j of None \<Rightarrow> False | Some l \<Rightarrow> now < l)"
  by (auto simp: verify_active_attempt_def Let_def attempt_matches_def TERMINAL_JOB_STATUSES_def
      split: if_splits option.splits)

lemma verify_mismatch:
  "j_attempt_id j \<noteq> Some a \<Longrightarrow> verify_active_attempt now j a t = Inl not_owned"
  by (auto simp: verify_active_attempt_def Let_def attempt_matches_def split: option.splits)

lemma verify_terminal:
  "j_status j \<in> TERMINAL_JOB_STATUSES \<Longrightarrow> j_attempt_id j = Some a \<Longrightarrow>
   verify_active_attempt now j a True = Inr (InState (j_status j))"
  by (simp add: verify_active_attempt_def attempt_matches_def)

lemma verify_queued:
  "j_status j = Queued \<Longrightarrow> j_attempt_id j = Some a \<Longrightarrow>
   verify_active_attempt now j a True = Inr RetryScheduled"
  by (simp add: verify_active_attempt_def attempt_matches_def TERMINAL_JOB_STATUSES_def)

section \<open>Claiming\<close>

lemma claim_cases:
  fixes m cond env d cfg
  defines "cands \<equiv> claimable_jobs m cond (ce_locked env) (ce_now env) d"
  defines "s1 \<equiv> reap_exhausted_jobs m cond (ce_locked env) (ce_reap_now env) (ce_dead_now env)
     (ce_sync_now env) (open_session d)"
  shows "(cands = [] \<and> claim_job cfg m cond env (open_session d) = (None, commit s1)) \<or>
    (\<exists>j. order_limit j_created_at 1 cands = [j] \<and>
      claim_job cfg m cond env (open_session d) =
        (let s3 = orm (mark_parent_processing j)
                    (orm (update_job m (j_id j) (claimed cfg (ce_now env) (ce_uuid env))) s1)
         in (job_at m (j_id j) (live s3), commit s3)))"
proof (cases "cands = []")
  case True
  then show ?thesis
    by (simp add: claim_job_def Let_def cands_def s1_def order_limit_def)
next
  case False
  then obtain j where "order_limit j_created_at 1 cands = [j]"
    using order_limit_1_cases order_limit_1_Nil by blast
  then show ?thesis
    by (auto simp: claim_job_def Let_def cands_def s1_def)
qed

lemma claim_Some:
  assumes wf: "wf_jobs m d"
    and claim: "claim_job cfg m cond env (open_session d) = (Some job, s')"
  obtains j where "job_at m (j_id j) d = Some j" "cond j" "j_attempt_count j < j_max_attempts j"
    "available (ce_now env) j" "\<not> ce_locked env (j_id j)"
    "job = claimed cfg (ce_now env) (ce_uuid env) j"
    "job_at m (j_id j) (committed s') = Some job"
    "\<forall>k \<in> set (claimable_jobs m cond (ce_locked env) (ce_now env) d). j_created_at j \<le> j_created_at k"
proof -
  let ?s1 = "reap_exhausted_jobs m cond (ce_locked env) (ce_reap_now env) (ce_dead_now env)
     (ce_sync_now env) (open_session d)"
  let ?cands = "claimable_jobs m cond (ce_locked env) (ce_now env) d"
  from claim claim_cases[of m cond env d cfg] obtain j where
    j: "order_limit j_created_at 1 ?cands = [j]" and
    c: "(Some job, s') = (let s3 = orm (mark_parent_processing j)
          (orm (update_job m (j_id j) (claimed cfg (ce_now env) (ce_uuid env))) ?s1)
        in (job_at m (j_id j) (live s3), commit s3))" by auto
  from j have "j \<in> set ?cands"
    by (metis list.set_intros(1) order_limit_subset subsetD)
  then have p: "j \<in> set (jobs_of m d)" "cond j" "j_attempt_count j < j_max_attempts j"
    "available (ce_now env) j" "\<not> ce_locked env (j_id j)"
    by (auto simp: claimable_jobs_def)
  from wf p(1) have at: "job_at m (j_id j) d = Some j" by (rule wf_jobs_at)
  have "job_at m (j_id j) (live ?s1) = Some j"
    using at wf p(3) by (intro reap_other) auto
  then have "job_at m (j_id j) (update_job m (j_id j) (claimed cfg (ce_now env) (ce_uuid env)) (live ?s1))
      = Some (claimed cfg (ce_now env) (ce_uuid env) j)"
    by (simp add: job_at_update_job)
  with c have "job = claimed cfg (ce_now env) (ce_uuid env) j"
    "job_at m (j_id j) (committed s') = Some job"
    by (auto simp: Let_def)
  moreover have "\<forall>k \<in> set ?cands. j_created_at j \<le> j_created_at k"
    using order_limit_min[OF j] by blast
  ultimately show ?thesis using at p that by blast
qed

lemma claim_run:
  assumes wf: "wf_jobs m d" and claim: "claim_job cfg m cond env (open_session d) = (r, s')"
  shows "jobs_run (jobs_of m d) (jobs_of m (committed s'))"
proof -
  let ?s1 = "reap_exhausted_jobs m cond (ce_locked env) (ce_reap_now env) (ce_dead_now env)
     (ce_sync_now env) (open_session d)"
  let ?cands = "claimable_jobs m cond (ce_locked env) (ce_now env) d"
  have r1: "jobs_run (jobs_of m d) (jobs_of m (live ?s1))" using wf by (rule reap_run)
  from claim_cases[of m cond env d cfg] show ?thesis
  proof
    assume "?cands = [] \<and> claim_job cfg m cond env (open_session d) = (None, commit ?s1)"
    with claim r1 show ?thesis by auto
  next
    assume "\<exists>j. order_limit j_created_at 1 ?cands = [j] \<and>
      claim_job cfg m cond env (open_session d) =
        (let s3 = orm (mark_parent_processing j)
                    (orm (update_job m (j_id j) (claimed cfg (ce_now env) (ce_uuid env))) ?s1)
         in (job_at m (j_id j) (live s3), commit s3))"
    then obtain j where j: "order_limit j_created_at 1 ?cands = [j]"
      and c: "committed s' = mark_parent_processing j
         (update_job m (j_id j) (claimed cfg (ce_now env) (ce_uuid env)) (live ?s1))"
      using claim by (auto simp: Let_def)
    from j have "j \<in> set ?cands" by (metis list.set_intros(1) order_limit_subset subsetD)
    then have p: "j \<in> set (jobs_of m d)" "j_attempt_count j < j_max_attempts j"
      "available (ce_now env) j" by (auto simp: claimable_jobs_def)
    have at: "job_at m (j_id j) (live ?s1) = Some j"
      using wf p by (intro reap_other wf_jobs_at) auto
    have wf1: "wf_jobs m (live ?s1)" by (rule jobs_run_wf[OF r1 wf])
    have "jobs_run (jobs_of m (live ?s1)) (jobs_of m (committed s'))"
      unfolding c
    proof (simp, rule jobs_run_update)
      fix k assume "k \<in> set (jobs_of m (live ?s1))" and "j_id k = j_id j"
      with wf1 at have "k = j" by (metis option.inject wf_jobs_at)
      then show "job_run k (claimed cfg (ce_now env) (ce_uuid env) k)"
        using p available_status[OF p(3)] by (auto intro!: job_run_step step_claim)
    qed
    with r1 show ?thesis by (rule jobs_run_trans)
  qed
qed

section \<open>Failure and heartbeat\<close>

lemma fail_processing:
  assumes "verify_active_attempt (fe_verify_now env) job (fr_attempt_id req) True
      = Inr (InState Processing)"
    and "fail_job cfg m env job req (open_session d) = (r, s')"
  obtains job2 where "same_core job job2"
    "jobs_of m (committed s') = update_where (\<lambda>j. j_id j = j_id job) (\<lambda>_. job2) (jobs_of m d)"
    "(fr_retryable req \<and> j_attempt_count job < j_max_attempts job \<and> j_status job2 = Queued
        \<and> (\<exists>t. j_retry_after job2 = Some t \<and> r = Inr (RetryAt t))) \<or>
     (j_status job2 \<in> {Failed, DeadLettered} \<and> j_finished_at job2 \<noteq> None
        \<and> r = Inr (JobStatus (InState (j_status job2))))"
proof (cases "fr_retryable req \<and> j_attempt_count job < j_max_attempts job")
  case True
  with assms show ?thesis
    by (intro that[of "job\<lparr>j_error_message := Some (failure_message req), j_lease_expires_at := None,
        j_status := Queued, j_retry_after := Some (fe_now env +
          seconds (retry_delay cfg (fe_random env) (j_attempt_count job))), j_finished_at := None\<rparr>"])
      (auto simp: fail_job_def Let_def same_core_def)
next
  case False
  define job1 where
    "job1 = job\<lparr>j_error_message := Some (failure_message req), j_lease_expires_at := None\<rparr>"
  show ?thesis
  proof (cases "fr_retryable req")
    case True
    with False assms show ?thesis
      by (intro that[of "dead_letter (fe_dead_now env) (failure_message req) job1"])
        (auto simp: fail_job_def Let_def same_core_def dead_letter_def job1_def)
  next
    case nr: False
    with assms show ?thesis
      by (intro that[of "job1\<lparr>j_status := Failed, j_retry_after := None,
            j_finished_at := Some (fe_now env)\<rparr>"])
        (auto simp: fail_job_def Let_def same_core_def job1_def)
  qed
qed

lemma fail_run:
  assumes "wf_jobs m d" and "job_at m i d = Some job"
    and "fail_job cfg m env job req (open_session d) = (r, s')"
  shows "jobs_run (jobs_of m d) (jobs_of m (committed s'))"
proof (cases "verify_active_attempt (fe_verify_now env) job (fr_attempt_id req) True
    = Inr (InState Processing)")
  case False
  with assms(3) show ?thesis by (auto simp: fail_job_def split: sum.splits if_splits)
next
  case True
  note st = verify_processingD(1)[OF True]
  from assms(2) have [simp]: "j_id job = i" by (rule job_at_SomeD)
  obtain job2 where j2: "same_core job job2"
    "jobs_of m (committed s') = update_where (\<lambda>j. j_id j = j_id job) (\<lambda>_. job2) (jobs_of m d)"
    "(fr_retryable req \<and> j_attempt_count job < j_max_attempts job \<and> j_status job2 = Queued
        \<and> (\<exists>t. j_retry_after job2 = Some t \<and> r = Inr (RetryAt t))) \<or>
     (j_status job2 \<in> {Failed, DeadLettered} \<and> j_finished_at job2 \<noteq> None
        \<and> r = Inr (JobStatus (InState (j_status job2))))"
    by (rule fail_processing[OF True assms(3)])
  from j2(3) have "job_step job job2"
  proof
    assume "fr_retryable req \<and> j_attempt_count job < j_max_attempts job \<and> j_status job2 = Queued
        \<and> (\<exists>t. j_retry_after job2 = Some t \<and> r = Inr (RetryAt t))"
    with st j2(1) show ?thesis by (intro step_retry) auto
  next
    assume "j_status job2 \<in> {Failed, DeadLettered} \<and> j_finished_at job2 \<noteq> None
        \<and> r = Inr (JobStatus (InState (j_status job2)))"
    with st j2(1) show ?thesis by (intro step_finish) (auto simp: TERMINAL_JOB_STATUSES_def)
  qed
  then show ?thesis unfolding j2(2)
    using jobs_run_write[OF assms(1,2) job_run_step] by simp
qed

lemma heartbeat_run:
  assumes "wf_jobs m d" and "job_at m i d = Some job"
    and "heartbeat_job cfg m vnow now job a (open_session d) = (r, s')"
  shows "jobs_run (jobs_of m d) (jobs_of m (committed s'))"
proof (cases "verify_active_attempt vnow job a False = Inr (InState Processing)")
  case False
  with assms(3) show ?thesis by (auto simp: heartbeat_job_def split: sum.splits if_splits)
next
  case True
  note st = verify_processingD(1)[OF True]
  from assms(2) have [simp]: "j_id job = i" by (rule job_at_SomeD)
  have "job_run k (k\<lparr>j_lease_expires_at := Some t\<rparr>)"
    if "k \<in> set (jobs_of m d)" "j_id k = i" for k t
  proof -
    from assms(1) that have "job_at m i d = Some k" by (auto dest: wf_jobs_at)
    with assms(2) st show ?thesis by (auto intro: job_run_step step_renew)
  qed
  with True assms(3) show ?thesis
    by (auto simp: heartbeat_job_def Let_def intro!: jobs_run_update)
qed

text \<open>Repeating a failure report: the first report fixes what every later one returns.\<close>

lemma fail_processing_result:
  assumes "job_at m i d = Some job"
    and "verify_active_attempt (fe_verify_now env) job (fr_attempt_id req) True
      = Inr (InState Processing)"
    and "fail_job cfg m env job req (open_session d) = (r, s')"
  obtains job2 where "job_at m i (committed s') = Some job2"
    "j_attempt_id job2 = Some (fr_attempt_id req)"
    "(j_status job2 = Queued \<and> (\<exists>t. j_retry_after job2 = Some t \<and> r = Inr (RetryAt t))) \<or>
     (j_status job2 \<in> {Failed, DeadLettered} \<and> r = Inr (JobStatus (InState (j_status job2))))"
proof -
  from assms(1) have i: "j_id job = i" by (rule job_at_SomeD)
  obtain job2 where j2: "same_core job job2"
    "jobs_of m (committed s') = update_where (\<lambda>j. j_id j = j_id job) (\<lambda>_. job2) (jobs_of m d)"
    "(fr_retryable req \<and> j_attempt_count job < j_max_attempts job \<and> j_status job2 = Queued
        \<and> (\<exists>t. j_retry_after job2 = Some t \<and> r = Inr (RetryAt t))) \<or>
     (j_status job2 \<in> {Failed, DeadLettered} \<and> j_finished_at job2 \<noteq> None
        \<and> r = Inr (JobStatus (InState (j_status job2))))"
    by (rule fail_processing[OF assms(2,3)])
  have "j_id job2 = i" using j2(1) i by (simp add: same_core_def)
  then have "job_at m i (update_job m i (\<lambda>_. job2) d) = Some job2"
    using assms(1) by (rule job_at_write_same)
  then have "job_at m i (committed s') = Some job2" using j2(2) i by (simp add: job_at_def)
  moreover have "j_attempt_id job2 = Some (fr_attempt_id req)"
    using j2(1) verify_processingD(2)[OF assms(2)] by (simp add: same_core_def)
  ultimately show ?thesis using j2(3) that by blast
qed

section \<open>What failure leaves of the parent row\<close>

text \<open>
  \<^verbatim>\<open>_sync_terminal_parent_state\<close> reads the job statuses with a \<^verbatim>\<open>SELECT\<close>.  The session does
  not flush before it, so the row of the job that was just failed still reads as
  \<^verbatim>\<open>processing\<close> (or \<^verbatim>\<open>queued\<close>), and the statuses are never all terminal.
\<close>

lemma sync_keeps_parent:
  assumes "k \<in> set (jobs_of (job_class (j_parent j)) (flushed s))" and "j_parent k = j_parent j"
    and "j_status k \<notin> TERMINAL_JOB_STATUSES"
  shows "photos (live (sync_terminal_parent_state now j s)) = photos (live s)"
    and "search_sessions (live (sync_terminal_parent_state now j s)) = search_sessions (live s)"
proof -
  have "\<not> all_terminal (photo_job_statuses p (flushed s))" if "j_parent j = OfPhoto p" for p
    using assms that by (auto simp: all_terminal_def photo_job_statuses_def)
  moreover have "\<not> all_terminal (search_job_statuses i (flushed s))"
    if "j_parent j = OfSearch e i x" for e i x
    using assms that by (auto simp: all_terminal_def search_job_statuses_def)
  ultimately show
    "photos (live (sync_terminal_parent_state now j s)) = photos (live s)"
    "search_sessions (live (sync_terminal_parent_state now j s)) = search_sessions (live s)"
    by (auto simp: sync_terminal_parent_state_def Let_def update_search_image_def
        update_face_image_def split: job_parent.splits)
qed

lemma reap_loop_keeps_parent:
  assumes "\<forall>j \<in> set js. j \<in> set (jobs_of m (flushed s)) \<and> job_class (j_parent j) = m
      \<and> j_status j \<notin> TERMINAL_JOB_STATUSES"
  shows "photos (live (reap_loop m dn sn n js s)) = photos (live s) \<and>
    search_sessions (live (reap_loop m dn sn n js s)) = search_sessions (live s)"
  using assms
proof (induction js arbitrary: n s)
  case (Cons j js)
  let ?s1 = "reap_one m (dn n) (sn n) s j"
  have "photos (live ?s1) = photos (live s) \<and> search_sessions (live ?s1) = search_sessions (live s)"
    using Cons.prems sync_keeps_parent[of j]
    by (auto simp: reap_one_def Let_def)
  moreover have "flushed ?s1 = flushed s" by (simp add: reap_one_def Let_def)
  ultimately show ?case using Cons.IH[of ?s1 "Suc n"] Cons.prems by auto
qed simp

lemma fail_keeps_parent:
  assumes "wf_jobs m d" and "job_at m i d = Some job"
    and "fail_job cfg m env job req (open_session d) = (r, s')"
  shows "photos (committed s') = photos d \<and> search_sessions (committed s') = search_sessions d"
proof (cases "verify_active_attempt (fe_verify_now env) job (fr_attempt_id req) True
    = Inr (InState Processing)")
  case False
  with assms(3) show ?thesis by (auto simp: fail_job_def split: sum.splits if_splits)
next
  case True
  note v = verify_processingD[OF True]
  from assms(1,2) have job: "job \<in> set (jobs_of m d)" "job_class (j_parent job) = m"
    by (auto simp: wf_jobs_def dest: job_at_SomeD)
  have k: "photos (live (sync_terminal_parent_state t j2 s1)) = photos d \<and>
      search_sessions (live (sync_terminal_parent_state t j2 s1)) = search_sessions d"
    if "j_parent j2 = j_parent job" "s1 = orm (update_job m x f) (open_session d)" for t j2 s1 x f
  proof -
    have mem: "job \<in> set (jobs_of (job_class (j_parent j2)) (flushed s1))"
      unfolding that using job by simp
    have nt: "j_status job \<notin> TERMINAL_JOB_STATUSES"
      using v(1) by (simp add: TERMINAL_JOB_STATUSES_def)
    show ?thesis
      using sync_keeps_parent[OF mem that(1)[symmetric] nt] unfolding that(2) by simp
  qed
  define job1 where
    "job1 = job\<lparr>j_error_message := Some (failure_message req), j_lease_expires_at := None\<rparr>"
  define job2 where
    "job2 = (if fr_retryable req then dead_letter (fe_dead_now env) (failure_message req) job1
       else job1\<lparr>j_status := Failed, j_retry_after := None, j_finished_at := Some (fe_now env)\<rparr>)"
  have p2: "j_parent job2 = j_parent job" by (simp add: job2_def job1_def)
  show ?thesis
  proof (cases "fr_retryable req \<and> j_attempt_count job < j_max_attempts job")
    case True
    with \<open>verify_active_attempt _ _ _ _ = _\<close> assms(3) show ?thesis
      by (auto simp: fail_job_def Let_def)
  next
    case False
    with \<open>verify_active_attempt _ _ _ _ = _\<close> assms(3)
    have "s' = commit (sync_terminal_parent_state (fe_sync_now env) job2
        (orm (update_job m (j_id job) (\<lambda>_. job2)) (open_session d)))"
      by (cases "fr_retryable req") (auto simp: fail_job_def Let_def job2_def job1_def)
    then show ?thesis using k[OF p2 refl] by simp
  qed
qed

section \<open>Retry delays\<close>

lemma retry_delay_bounds:
  assumes "8 / 10 \<le> r" and "r \<le> 12 / 10"
  shows "1 \<le> retry_delay cfg r n \<and>
    (of_int (retry_delay cfg r n) :: real) \<le> 12 / 10 * of_int (WORKER_RETRY_MAX_SECONDS cfg)"
proof -
  define top where "top = WORKER_RETRY_MAX_SECONDS cfg"
  define e where "e = min top
     (WORKER_RETRY_BASE_SECONDS cfg * 2 ^ nat (min 20 (max 0 (n - 1))))"
  have m: "1 \<le> top"
    using retry_base_range(1)[of cfg] retry_max_range(1)[of cfg] by (simp add: top_def)
  have "0 \<le> WORKER_RETRY_BASE_SECONDS cfg" using retry_base_range(1)[of cfg] by linarith
  then have e: "0 \<le> e" "e \<le> top" using m by (auto simp: e_def)
  have d: "retry_delay cfg r n = max 1 \<lfloor>of_int e * r\<rfloor>"
    by (simp add: retry_delay_def Let_def e_def top_def)
  have "of_int e * r \<le> of_int top * (12 / 10)"
    using assms e by (intro mult_mono) auto
  then have "of_int \<lfloor>of_int e * r\<rfloor> \<le> 12 / 10 * (of_int top :: real)"
    using of_int_floor_le[of "of_int e * r"] by linarith
  moreover have "(1::real) \<le> 12 / 10 * of_int top" using m by linarith
  ultimately show ?thesis unfolding d top_def[symmetric] by (simp add: max_def)
qed

end
