(* ===== verification/TextFormat.thy ===== *)
theory TextFormat
  imports Prelude
begin

text \<open>
  Rendering of numbers and identifiers, as the f-strings of the program do: decimal integers,
  \<^verbatim>\<open>f"{x:.4f}"\<close> (round half to even on the exact value, sign kept), UUIDs in the 8-4-4-4-12
  form, and \<^verbatim>\<open>str.join\<close> and \<^verbatim>\<open>str.split\<close>.
\<close>

definition digit_char :: "nat \<Rightarrow> char" where
  "digit_char n = char_of (if n < 10 then 48 + n else 87 + n)"

fun nat_digits :: "nat \<Rightarrow> str" where
  "nat_digits n = (if n < 10 then [digit_char n] else nat_digits (n div 10) @ [digit_char (n mod 10)])"

declare nat_digits.simps [simp del]

definition int_str :: "int \<Rightarrow> str" where
  "int_str i = (if i < 0 then CHR ''-'' # nat_digits (nat (- i)) else nat_digits (nat i))"

fun padded_digits :: "nat \<Rightarrow> nat \<Rightarrow> nat \<Rightarrow> str" where
  "padded_digits base 0 n = []"
| "padded_digits base (Suc k) n = padded_digits base k (n div base) @ [digit_char (n mod base)]"

definition round_half_even :: "real \<Rightarrow> int" where
  "round_half_even x =
    (let f = \<lfloor>x\<rfloor>; r = x - of_int f in
     if r < 1 / 2 then f else if 1 / 2 < r then f + 1 else if even f then f else f + 1)"

definition format_fixed :: "nat \<Rightarrow> real \<Rightarrow> str" where
  "format_fixed k x =
    (let n = nat (round_half_even (\<bar>x\<bar> * 10 ^ k))
     in (if x < 0 then ''-'' else []) @ nat_digits (n div 10 ^ k) @
        (if k = 0 then [] else ''.'' @ padded_digits 10 k n))"

definition uuid_str :: "uuid \<Rightarrow> str" where
  "uuid_str u =
    (let h = padded_digits 16 32 (unat u) in
     take 8 h @ ''-'' @ take 4 (drop 8 h) @ ''-'' @ take 4 (drop 12 h) @ ''-'' @
     take 4 (drop 16 h) @ ''-'' @ drop 20 h)"

fun join :: "str \<Rightarrow> str list \<Rightarrow> str" where
  "join sep [] = []"
| "join sep [w] = w"
| "join sep (w # ws) = w @ sep @ join sep ws"

text \<open>\<^verbatim>\<open>re.findall\<close> of a character class with \<^verbatim>\<open>+\<close>: the maximal runs of characters in the class.\<close>

lemma run_shorter:
  "dropWhile (\<lambda>c. \<not> p c) s = c # cs \<Longrightarrow> p c \<and> length (dropWhile p cs) < length s"
proof -
  assume d: "dropWhile (\<lambda>c. \<not> p c) s = c # cs"
  then have "p c" by (metis dropWhile_eq_Cons_conv)
  moreover have "length (c # cs) \<le> length s" by (metis d length_dropWhile_le)
  ultimately show ?thesis using length_dropWhile_le[of p cs] by simp
qed

function findall_runs :: "(char \<Rightarrow> bool) \<Rightarrow> str \<Rightarrow> str list" where
  "findall_runs p s =
    (case dropWhile (\<lambda>c. \<not> p c) s of
       [] \<Rightarrow> []
     | c # cs \<Rightarrow> takeWhile p (c # cs) # findall_runs p (dropWhile p (c # cs)))"
  by pat_completeness auto
termination
  by (relation "measure (\<lambda>(p, s). length s)") (auto dest: run_shorter)

declare findall_runs.simps [simp del]

lemma findall_runs_Nil: "dropWhile (\<lambda>c. \<not> p c) s = [] \<Longrightarrow> findall_runs p s = []"
  by (subst findall_runs.simps) (simp only: list.case)

lemma findall_runs_Cons:
  "dropWhile (\<lambda>c. \<not> p c) s = c # cs \<Longrightarrow>
   findall_runs p s = (c # takeWhile p cs) # findall_runs p (dropWhile p cs)"
  by (subst findall_runs.simps) (auto dest: run_shorter)

lemma findall_runs_sound:
  "w \<in> set (findall_runs p s) \<Longrightarrow> w \<noteq> [] \<and> (\<forall>c \<in> set w. p c) \<and> sublist w s"
proof (induction "length s" arbitrary: s rule: less_induct)
  case less
  show ?case
  proof (cases "dropWhile (\<lambda>c. \<not> p c) s")
    case Nil
    with less.prems show ?thesis by (simp add: findall_runs_Nil)
  next
    case (Cons c cs)
    note sh = run_shorter[OF Cons]
    have suf: "suffix (c # cs) s" using suffix_dropWhile[of "\<lambda>c. \<not> p c" s] by (simp only: Cons)
    from less.prems consider "w = c # takeWhile p cs" | "w \<in> set (findall_runs p (dropWhile p cs))"
      unfolding findall_runs_Cons[OF Cons] by auto
    then show ?thesis
    proof cases
      case 1
      have "prefix w (c # cs)" unfolding 1 by (simp add: takeWhile_is_prefix)
      with suf have "sublist w s"
        by (meson prefix_imp_sublist sublist_order.order_trans suffix_imp_sublist)
      with 1 sh show ?thesis by (auto dest: set_takeWhileD)
    next
      case 2
      with less.hyps sh have w: "w \<noteq> [] \<and> (\<forall>c \<in> set w. p c) \<and> sublist w (dropWhile p cs)"
        by blast
      have "suffix (dropWhile p cs) (c # cs)"
        by (rule suffix_ConsI) (rule suffix_dropWhile)
      with suf have "sublist (dropWhile p cs) s"
        by (meson suffix_imp_sublist suffix_order.order_trans)
      with w show ?thesis by (meson sublist_order.order_trans)
    qed
  qed
qed

end
