(* ===== verification/Matching.thy ===== *)
theory Matching
  imports Models TextFormat
begin

text \<open>
  Matching of recognised text against bib numbers: \<^verbatim>\<open>backend/app/participant_lookup.py\<close>, the text
  functions of \<^verbatim>\<open>face.py\<close> (lines 1019 to 1088 and 1270 to 1291) and those of
  \<^verbatim>\<open>photographer.py\<close> (lines 447 to 464 and 890 to 909).
\<close>

section \<open>Canonical keys\<close>

definition is_upper_or_digit :: "char \<Rightarrow> bool" where
  "is_upper_or_digit c \<longleftrightarrow> is_upper c \<or> is_digit c"

definition normalize_bib_lookup :: "str \<Rightarrow> str" where
  "normalize_bib_lookup value = take 64 (filter is_upper_or_digit (upper value))"

text \<open>\<^verbatim>\<open>value.lower().split()\<close>: the maximal runs of non-space characters.\<close>

definition normalize_name_lookup :: "str \<Rightarrow> str" where
  "normalize_name_lookup value =
     take 255 (join '' '' (findall_runs (\<lambda>c. \<not> is_space c) (lower value)))"

text \<open>\<^verbatim>\<open>face.normalize_match_token\<close>.\<close>

definition normalize_match_token :: "str \<Rightarrow> str" where
  "normalize_match_token value = upper (filter is_alnum value)"

section \<open>Candidates\<close>

fun dedupe_tokens :: "(str \<Rightarrow> str) \<Rightarrow> str set \<Rightarrow> str list \<Rightarrow> str list" where
  "dedupe_tokens canon seen [] = []"
| "dedupe_tokens canon seen (t # ts) =
     (let n = canon t in
      if n = [] \<or> n \<in> seen then dedupe_tokens canon seen ts
      else n # dedupe_tokens canon (insert n seen) ts)"

definition extract_match_candidates :: "str \<Rightarrow> str list" where
  "extract_match_candidates value =
    (let normalized_value = upper value;
         tokens = findall_runs is_upper_or_digit normalized_value;
         raw_candidate = normalize_match_token value;
         tokens1 = (if raw_candidate \<noteq> [] then raw_candidate # tokens else tokens);
         tokens2 = tokens1 @ findall_runs is_digit normalized_value
     in dedupe_tokens normalize_match_token {} tokens2)"

text \<open>\<^verbatim>\<open>photographer.extract_match_candidates\<close>: no digit runs, and the bounded key.\<close>

definition photographer_extract_match_candidates :: "str \<Rightarrow> str list" where
  "photographer_extract_match_candidates value =
    (let tokens = findall_runs is_upper_or_digit (upper value);
         raw_candidate = normalize_bib_lookup value;
         tokens1 = (if raw_candidate \<noteq> [] then raw_candidate # tokens else tokens)
     in dedupe_tokens normalize_bib_lookup {} tokens1)"

section \<open>Longest common substring and partial matches\<close>

definition lcs_row :: "str \<Rightarrow> char \<Rightarrow> nat list \<Rightarrow> nat list" where
  "lcs_row right c previous = 0 # map2 (\<lambda>r p. if c = r then p + 1 else 0) right previous"

fun lcs_loop :: "str \<Rightarrow> str \<Rightarrow> nat \<Rightarrow> nat list \<Rightarrow> nat" where
  "lcs_loop right [] best previous = best"
| "lcs_loop right (c # left) best previous =
     (let current = lcs_row right c previous
      in lcs_loop right left (foldl max best current) current)"

definition longest_common_substring_length :: "str \<Rightarrow> str \<Rightarrow> nat" where
  "longest_common_substring_length left right =
     lcs_loop right left 0 (replicate (length right + 1) 0)"

definition is_partial_bib_match :: "str \<Rightarrow> str \<Rightarrow> bool" where
  "is_partial_bib_match candidate target =
    (if length target < 3 \<or> length candidate < 2 then False
     else if length candidate > length target then False
     else if contains target candidate \<and> max 2 (length target - 1) \<le> length candidate then True
     else max 3 (length target - 1) \<le> longest_common_substring_length candidate target)"

section \<open>Bib evidence\<close>

text \<open>The strings \<^verbatim>\<open>"none"\<close>, \<^verbatim>\<open>"weak"\<close>, \<^verbatim>\<open>"medium"\<close> and \<^verbatim>\<open>"strong"\<close>.\<close>

datatype strength = NoEvidence | Weak | Medium | Strong

record bib_evidence =
  be_strength :: strength
  be_matched_values :: "str list"

text \<open>The inner loop over one detection's candidates: it ends the function at an exact match.\<close>

fun scan_candidates :: "str \<Rightarrow> str \<Rightarrow> str list \<Rightarrow> str list \<Rightarrow> str + str list" where
  "scan_candidates target txt [] weak = Inr weak"
| "scan_candidates target txt (c # cs) weak =
     (if c = [] then scan_candidates target txt cs weak
      else if c = target then Inl txt
      else if is_partial_bib_match c target then scan_candidates target txt cs (weak @ [txt])
      else scan_candidates target txt cs weak)"

fun scan_detections :: "str \<Rightarrow> text_detection list \<Rightarrow> str list \<Rightarrow> bib_evidence" where
  "scan_detections target [] weak =
     (if weak \<noteq> [] then \<lparr>be_strength = Weak, be_matched_values = take 3 weak\<rparr>
      else \<lparr>be_strength = NoEvidence, be_matched_values = []\<rparr>)"
| "scan_detections target (d # ds) weak =
     (case scan_candidates target (td_detected_text d)
             (extract_match_candidates (td_detected_text d)) weak of
        Inl txt \<Rightarrow> \<lparr>be_strength = Strong, be_matched_values = [txt]\<rparr>
      | Inr weak' \<Rightarrow> scan_detections target ds weak')"

definition score_bib_evidence :: "text_detection list \<Rightarrow> str \<Rightarrow> bib_evidence" where
  "score_bib_evidence detections bib_number =
    (let target = normalize_match_token bib_number in
     if target = [] then \<lparr>be_strength = NoEvidence, be_matched_values = []\<rparr>
     else scan_detections target detections [])"

fun exact_scan :: "str \<Rightarrow> str \<Rightarrow> str list \<Rightarrow> str list \<Rightarrow> str list" where
  "exact_scan target txt [] matched = matched"
| "exact_scan target txt (c # cs) matched =
     (if c \<noteq> target \<or> txt \<in> set matched then exact_scan target txt cs matched
      else exact_scan target txt cs (matched @ [txt]))"

definition exact_bib_match_values :: "text_detection list \<Rightarrow> str \<Rightarrow> str list" where
  "exact_bib_match_values detections bib_number =
    (let target = normalize_match_token bib_number in
     if target = [] then []
     else take 3 (foldl (\<lambda>matched d. exact_scan target (td_detected_text d)
            (extract_match_candidates (td_detected_text d)) matched) [] detections))"

definition has_exact_bib_match :: "text_detection list \<Rightarrow> str \<Rightarrow> bool" where
  "has_exact_bib_match detections bib_number \<longleftrightarrow> exact_bib_match_values detections bib_number \<noteq> []"

section \<open>Combining face and bib evidence\<close>

definition should_reinforce_face :: "settings \<Rightarrow> real \<Rightarrow> strength \<Rightarrow> bool" where
  "should_reinforce_face cfg face_score bib_strength =
    (if face_strong_similarity_threshold cfg \<le> face_score then True
     else if bib_strength = Strong \<and> face_reinforcement_similarity_threshold cfg \<le> face_score
     then True else False)"

definition classify_face_score :: "settings \<Rightarrow> real option \<Rightarrow> strength" where
  "classify_face_score cfg score =
    (case score of
       None \<Rightarrow> NoEvidence
     | Some s \<Rightarrow>
         if face_strong_similarity_threshold cfg \<le> s then Strong
         else if face_medium_similarity_threshold cfg \<le> s then Medium
         else if face_candidate_similarity_threshold cfg \<le> s then Weak
         else NoEvidence)"

definition should_accept_hybrid_result :: "strength \<Rightarrow> strength \<Rightarrow> bool" where
  "should_accept_hybrid_result face_strength bib_strength =
    (if face_strength = Strong \<or> bib_strength = Strong then True
     else if face_strength = Medium \<and> bib_strength = Weak then True else False)"

section \<open>Lemmas: canonical tokens\<close>

lemma is_upper_or_digit_upper_char [simp]: "is_upper_or_digit (upper_char c) = is_alnum c"
proof (cases "is_lower c")
  case True
  then show ?thesis by (simp add: is_upper_or_digit_def is_alnum_def)
next
  case False
  then show ?thesis by (simp add: is_upper_or_digit_def is_alnum_def)
qed

lemma filter_upper_token: "filter is_upper_or_digit (upper v) = normalize_match_token v"
  unfolding normalize_match_token_def by (rule filter_upper) simp

text \<open>The indexed key is the match token, cut at 64 characters.\<close>

lemma bib_lookup_is_token: "normalize_bib_lookup v = take 64 (normalize_match_token v)"
  by (simp add: normalize_bib_lookup_def filter_upper_token)

definition canonical :: "str \<Rightarrow> bool" where
  "canonical t \<longleftrightarrow> t \<noteq> [] \<and> (\<forall>c \<in> set t. is_upper_or_digit c)"

lemma upper_or_digit_fixed: "is_upper_or_digit c \<Longrightarrow> upper_char c = c \<and> is_alnum c"
proof -
  assume c: "is_upper_or_digit c"
  then have "\<not> is_lower c" by (auto simp: is_upper_or_digit_def is_upper_def is_lower_def is_digit_def)
  with c show ?thesis by (auto simp: is_upper_or_digit_def is_alnum_def)
qed

lemma token_fixed: "\<forall>c \<in> set t. is_upper_or_digit c \<Longrightarrow> normalize_match_token t = t"
  by (induction t) (auto simp: normalize_match_token_def upper_def upper_or_digit_fixed)

lemma token_chars: "c \<in> set (normalize_match_token v) \<Longrightarrow> is_upper_or_digit c"
  by (auto simp: normalize_match_token_def upper_def)

lemma token_idem [simp]: "normalize_match_token (normalize_match_token v) = normalize_match_token v"
  by (rule token_fixed) (auto intro: token_chars)

lemma token_canonical: "normalize_match_token v \<noteq> [] \<Longrightarrow> canonical (normalize_match_token v)"
  by (auto simp: canonical_def intro: token_chars)

lemma set_dedupe_tokens:
  "set (dedupe_tokens canon seen ts) = {canon t |t. t \<in> set ts \<and> canon t \<noteq> []} - seen"
  by (induction ts arbitrary: seen) (auto simp: Let_def)

lemma distinct_dedupe_tokens:
  "distinct (dedupe_tokens canon seen ts) \<and> set (dedupe_tokens canon seen ts) \<inter> seen = {}"
  by (induction ts arbitrary: seen) (auto simp: Let_def set_dedupe_tokens)

lemma digit_upper_or_digit: "is_digit c \<Longrightarrow> is_upper_or_digit c"
  by (simp add: is_upper_or_digit_def)

lemma run_token_fixed:
  "w \<in> set (findall_runs is_upper_or_digit s) \<Longrightarrow> normalize_match_token w = w"
  "w \<in> set (findall_runs is_digit s) \<Longrightarrow> normalize_match_token w = w"
  by (auto intro!: token_fixed dest!: findall_runs_sound digit_upper_or_digit)

lemma set_dedupe_fixed:
  assumes "\<forall>t \<in> set ts. canon t = t \<and> t \<noteq> []"
  shows "set (dedupe_tokens canon {} ts) = set ts"
proof -
  have "{canon t |t. t \<in> set ts \<and> canon t \<noteq> []} = set ts"
    using assms by force
  then show ?thesis by (simp add: set_dedupe_tokens)
qed

text \<open>The candidates of a text: its whole token, its alphanumeric runs and its digit runs.\<close>

lemma set_extract_match_candidates:
  "set (extract_match_candidates v) =
     (if normalize_match_token v = [] then {} else {normalize_match_token v})
     \<union> set (findall_runs is_upper_or_digit (upper v)) \<union> set (findall_runs is_digit (upper v))"
  unfolding extract_match_candidates_def Let_def
  by (subst set_dedupe_fixed) (auto simp: run_token_fixed dest: findall_runs_sound)

lemma distinct_extract_match_candidates: "distinct (extract_match_candidates v)"
  by (simp add: extract_match_candidates_def Let_def distinct_dedupe_tokens)

lemma extract_canonical: "t \<in> set (extract_match_candidates v) \<Longrightarrow> canonical t"
  by (auto simp: set_extract_match_candidates canonical_def is_upper_or_digit_def[symmetric]
      dest: findall_runs_sound token_chars digit_upper_or_digit split: if_splits)

lemma extract_first:
  "normalize_match_token v \<noteq> [] \<Longrightarrow> hd (extract_match_candidates v) = normalize_match_token v"
  by (simp add: extract_match_candidates_def Let_def)

end
