(* ===== verification/MatchingFacts.thy ===== *)
theory MatchingFacts
  imports Matching
begin

text \<open>
  Correctness of the text matching: the dynamic programme of
  \<^verbatim>\<open>longest_common_substring_length\<close> against common substrings, what a partial and an exact
  bib match are, and how the two extractors of candidates relate.
\<close>

section \<open>The longest common substring\<close>

fun lcp :: "'a list \<Rightarrow> 'a list \<Rightarrow> nat" where
  "lcp (x # xs) (y # ys) = (if x = y then Suc (lcp xs ys) else 0)"
| "lcp _ _ = 0"

lemma lcp_Nil [simp]: "lcp xs [] = 0"
  by (cases xs) auto

lemma le_lcp_iff: "n \<le> lcp xs ys \<longleftrightarrow> (\<exists>w. length w = n \<and> prefix w xs \<and> prefix w ys)"
proof (induction xs ys arbitrary: n rule: lcp.induct)
  case (1 x xs y ys)
  show ?case
  proof (cases n)
    case (Suc m)
    have "(\<exists>w. length w = Suc m \<and> prefix w (x # xs) \<and> prefix w (y # ys)) \<longleftrightarrow>
        x = y \<and> (\<exists>w. length w = m \<and> prefix w xs \<and> prefix w ys)"
      by (auto simp: prefix_Cons length_Suc_conv)
    with Suc 1 show ?thesis by auto
  qed auto
qed auto

text \<open>The longest common suffix of two strings.\<close>

definition csuf :: "str \<Rightarrow> str \<Rightarrow> nat" where
  "csuf u v = lcp (rev u) (rev v)"

lemma le_csuf_iff: "n \<le> csuf u v \<longleftrightarrow> (\<exists>w. length w = n \<and> suffix w u \<and> suffix w v)"
proof -
  have "(\<exists>w. length w = n \<and> prefix w (rev u) \<and> prefix w (rev v)) \<longleftrightarrow>
      (\<exists>w. length w = n \<and> suffix w u \<and> suffix w v)"
    by (metis length_rev rev_rev_ident suffix_to_prefix)
  then show ?thesis by (simp add: csuf_def le_lcp_iff)
qed

definition suffix_row :: "str \<Rightarrow> str \<Rightarrow> nat list" where
  "suffix_row right u = map (\<lambda>i. csuf u (take i right)) [0..<Suc (length right)]"

lemma suffix_row_Nil: "suffix_row right [] = replicate (length right + 1) 0"
  by (rule nth_equalityI) (auto simp: suffix_row_def csuf_def simp del: upt_Suc replicate.simps)

lemma lcs_row_suffix: "lcs_row right c (suffix_row right u) = suffix_row right (u @ [c])"
proof (rule nth_equalityI)
  show "length (lcs_row right c (suffix_row right u)) = length (suffix_row right (u @ [c]))"
    by (simp add: lcs_row_def suffix_row_def)
  fix i assume "i < length (lcs_row right c (suffix_row right u))"
  then have i: "i < Suc (length right)" by (simp add: lcs_row_def suffix_row_def)
  show "lcs_row right c (suffix_row right u) ! i = suffix_row right (u @ [c]) ! i"
  proof (cases i)
    case 0
    then show ?thesis by (simp add: lcs_row_def suffix_row_def csuf_def nth_append del: upt_Suc)
  next
    case (Suc k)
    with i have k: "k < length right" by simp
    then have "rev (take (Suc k) right) = right ! k # rev (take k right)"
      by (simp add: take_Suc_conv_app_nth)
    with Suc k show ?thesis
      by (simp add: lcs_row_def suffix_row_def csuf_def del: upt_Suc)
  qed
qed

lemma le_foldl_max: "(n::nat) \<le> foldl max b xs \<longleftrightarrow> n \<le> b \<or> (\<exists>x \<in> set xs. n \<le> x)"
  by (induction xs arbitrary: b) auto

lemma le_suffix_row:
  "(\<exists>x \<in> set (suffix_row right u). n \<le> x) \<longleftrightarrow> (\<exists>i \<le> length right. n \<le> csuf u (take i right))"
  by (auto simp: suffix_row_def less_Suc_eq_le simp del: upt_Suc)

lemma le_lcs_loop:
  "n \<le> lcs_loop right left best (suffix_row right u) \<longleftrightarrow> n \<le> best \<or>
     (\<exists>k i. 0 < k \<and> k \<le> length left \<and> i \<le> length right \<and> n \<le> csuf (u @ take k left) (take i right))"
proof (induction left arbitrary: best u)
  case (Cons c left)
  have "n \<le> lcs_loop right (c # left) best (suffix_row right u) \<longleftrightarrow>
      n \<le> best \<or> (\<exists>i \<le> length right. n \<le> csuf (u @ [c]) (take i right)) \<or>
      (\<exists>k i. 0 < k \<and> k \<le> length left \<and> i \<le> length right \<and>
         n \<le> csuf ((u @ [c]) @ take k left) (take i right))"
    by (simp add: Let_def lcs_row_suffix Cons.IH le_foldl_max le_suffix_row del: append_assoc)
  also have "\<dots> \<longleftrightarrow> n \<le> best \<or>
     (\<exists>k i. 0 < k \<and> k \<le> length (c # left) \<and> i \<le> length right \<and>
        n \<le> csuf (u @ take k (c # left)) (take i right))" (is "?l \<longleftrightarrow> ?r")
  proof
    assume ?l
    then consider "n \<le> best" | i where "i \<le> length right" "n \<le> csuf (u @ [c]) (take i right)"
      | k i where "0 < k" "k \<le> length left" "i \<le> length right"
          "n \<le> csuf ((u @ [c]) @ take k left) (take i right)" by blast
    then show ?r
    proof cases
      case 2 then show ?r by (intro disjI2 exI[of _ 1] exI[of _ i]) auto
    next
      case 3 then show ?r by (intro disjI2 exI[of _ "Suc k"] exI[of _ i]) auto
    qed blast
  next
    assume ?r
    then show ?l
    proof
      assume "\<exists>k i. 0 < k \<and> k \<le> length (c # left) \<and> i \<le> length right \<and>
        n \<le> csuf (u @ take k (c # left)) (take i right)"
      then obtain k i where k: "0 < k" "k \<le> length (c # left)" "i \<le> length right"
        "n \<le> csuf (u @ take k (c # left)) (take i right)" by blast
      then obtain k' where "k = Suc k'" by (cases k) auto
      with k show ?l by (cases "k' = 0") auto
    qed blast
  qed
  finally show ?case .
qed simp

lemma le_lcs_iff:
  "n \<le> longest_common_substring_length left right \<longleftrightarrow>
     (\<exists>w. length w = n \<and> sublist w left \<and> sublist w right)"
proof
  assume "n \<le> longest_common_substring_length left right"
  then have "n \<le> 0 \<or> (\<exists>k i. 0 < k \<and> k \<le> length left \<and> i \<le> length right \<and>
      n \<le> csuf ([] @ take k left) (take i right))"
    unfolding longest_common_substring_length_def suffix_row_Nil[symmetric] le_lcs_loop .
  then show "\<exists>w. length w = n \<and> sublist w left \<and> sublist w right"
  proof
    assume "n \<le> 0" then show ?thesis by (intro exI[of _ "[]"]) simp
  next
    assume "\<exists>k i. 0 < k \<and> k \<le> length left \<and> i \<le> length right \<and>
      n \<le> csuf ([] @ take k left) (take i right)"
    then obtain k i w where "length w = n" "suffix w (take k left)" "suffix w (take i right)"
      by (auto simp: le_csuf_iff)
    then show ?thesis
      by (intro exI[of _ w] conjI)
        (auto intro: sublist_order.order_trans[OF suffix_imp_sublist sublist_take])
  qed
next
  assume "\<exists>w. length w = n \<and> sublist w left \<and> sublist w right"
  then obtain w a b a' b' where w: "length w = n" "left = a @ w @ b" "right = a' @ w @ b'"
    by (auto simp: sublist_def)
  have "n \<le> 0 \<or> (\<exists>k i. 0 < k \<and> k \<le> length left \<and> i \<le> length right \<and>
      n \<le> csuf ([] @ take k left) (take i right))"
  proof (cases "n = 0")
    case False
    have "n \<le> csuf (take (length (a @ w)) left) (take (length (a' @ w)) right)"
      unfolding le_csuf_iff using w by (intro exI[of _ w]) (auto simp: suffix_def)
    with False w show ?thesis
      by (intro disjI2 exI[of _ "length (a @ w)"] exI[of _ "length (a' @ w)"]) auto
  qed simp
  then show "n \<le> longest_common_substring_length left right"
    unfolding longest_common_substring_length_def suffix_row_Nil[symmetric] le_lcs_loop .
qed

text \<open>C28 (equivalence): the dynamic programme of \<^verbatim>\<open>longest_common_substring_length\<close> computes the
  length of a longest string that occurs in both arguments: there is a common substring of that
  length, and no common substring is longer.\<close>

theorem lcs_correct:
  "(\<exists>w. length w = longest_common_substring_length left right
      \<and> sublist w left \<and> sublist w right) \<and>
   Max (length ` {w. sublist w left \<and> sublist w right}) = longest_common_substring_length left right"
proof
  show w: "\<exists>w. length w = longest_common_substring_length left right
      \<and> sublist w left \<and> sublist w right"
    using le_lcs_iff[of "longest_common_substring_length left right"] by blast
  have "{w. sublist w left \<and> sublist w right} \<subseteq> set (sublists left)" by auto
  then have "finite {w. sublist w left \<and> sublist w right}" by (rule finite_subset) simp
  then show "Max (length ` {w. sublist w left \<and> sublist w right})
      = longest_common_substring_length left right"
  proof (intro Max_eqI)
    fix n assume "n \<in> length ` {w. sublist w left \<and> sublist w right}"
    then show "n \<le> longest_common_substring_length left right" by (auto simp: le_lcs_iff)
  next
    from w show "longest_common_substring_length left right
        \<in> length ` {w. sublist w left \<and> sublist w right}" by (metis (mono_tags, lifting) image_eqI mem_Collect_eq)
  qed simp
qed

section \<open>Partial and exact bib matches\<close>

lemma sublist_eq_length: "sublist w v \<Longrightarrow> length v \<le> length w \<Longrightarrow> w = v"
  by (auto simp: sublist_def)

text \<open>A partial bib match, for every candidate and target.  A target of fewer than
  three characters has none; a target of exactly three is matched by its substrings of length two
  and three; a longer one by the candidates, no longer than itself, that share with it a substring
  of all but one of its characters.\<close>

theorem partial_match_iff:
  "is_partial_bib_match candidate target \<longleftrightarrow>
     (if length target < 3 then False
      else if length target = 3 then sublist candidate target \<and> 2 \<le> length candidate
      else length candidate \<le> length target \<and>
        (\<exists>w. length w = length target - 1 \<and> sublist w candidate \<and> sublist w target))"
proof -
  consider "length target < 3" | "length target = 3" | "4 \<le> length target" by linarith
  then show ?thesis
  proof cases
    case 2
    have "sublist candidate target"
      if "3 \<le> longest_common_substring_length candidate target" "length candidate \<le> 3"
    proof -
      from that(1) obtain w where "length w = 3" "sublist w candidate" "sublist w target"
        by (auto simp: le_lcs_iff)
      with that(2) show ?thesis using sublist_eq_length[of w candidate] by simp
    qed
    with 2 show ?thesis
      by (auto simp: is_partial_bib_match_def contains_def dest: sublist_length_le)
  next
    case 3
    let ?n = "length target - 1"
    have "\<exists>w. length w = ?n \<and> sublist w candidate \<and> sublist w target"
      if "sublist candidate target" "?n \<le> length candidate"
    proof (intro exI conjI)
      show "length (take ?n candidate) = ?n" using that by simp
      show "sublist (take ?n candidate) candidate" by simp
      then show "sublist (take ?n candidate) target"
        using that(1) by (rule sublist_order.order_trans)
    qed
    moreover have "3 \<le> length candidate" if "?n \<le> longest_common_substring_length candidate target"
      using that 3 by (auto simp: le_lcs_iff dest: sublist_length_le)
    ultimately show ?thesis
      using 3 by (auto simp: is_partial_bib_match_def contains_def le_lcs_iff dest: sublist_length_le)
  qed (auto simp: is_partial_bib_match_def)
qed

lemma partial_nonempty: "is_partial_bib_match c target \<Longrightarrow> c \<noteq> []"
  by (auto simp: is_partial_bib_match_def)

lemma scan_candidates_Inl:
  assumes "target \<noteq> []"
  shows "scan_candidates target txt cs weak = Inl t \<longleftrightarrow> target \<in> set cs \<and> t = txt"
  using assms by (induction cs arbitrary: weak) auto

lemma scan_candidates_Inr:
  "scan_candidates target txt cs weak = Inr weak' \<Longrightarrow>
   weak' \<noteq> [] \<longleftrightarrow> weak \<noteq> [] \<or> (\<exists>c \<in> set cs. c \<noteq> [] \<and> is_partial_bib_match c target)"
  by (induction cs arbitrary: weak) (auto split: if_splits)

lemma scan_candidates_Inr_exact:
  "target \<noteq> [] \<Longrightarrow> scan_candidates target txt cs weak = Inr weak' \<Longrightarrow> target \<notin> set cs"
  by (induction cs arbitrary: weak) (auto split: if_splits)

definition exact_in :: "str \<Rightarrow> text_detection \<Rightarrow> bool" where
  "exact_in target d \<longleftrightarrow> target \<in> set (extract_match_candidates (td_detected_text d))"

definition partial_in :: "str \<Rightarrow> text_detection \<Rightarrow> bool" where
  "partial_in target d \<longleftrightarrow> (\<exists>c \<in> set (extract_match_candidates (td_detected_text d)).
     is_partial_bib_match c target)"

lemma scan_detections_strength:
  assumes "target \<noteq> []"
  shows "be_strength (scan_detections target ds weak) =
    (if \<exists>d \<in> set ds. exact_in target d then Strong
     else if weak \<noteq> [] \<or> (\<exists>d \<in> set ds. partial_in target d) then Weak else NoEvidence)"
proof (induction ds arbitrary: weak)
  case (Cons d ds)
  let ?r = "scan_candidates target (td_detected_text d)
      (extract_match_candidates (td_detected_text d)) weak"
  show ?case
  proof (cases ?r)
    case (Inl t)
    with assms have "exact_in target d" by (simp add: exact_in_def scan_candidates_Inl)
    with Inl show ?thesis by auto
  next
    case (Inr weak')
    then have ne: "\<not> exact_in target d"
      using scan_candidates_Inr_exact[OF assms] by (auto simp: exact_in_def)
    have w: "(weak' \<noteq> []) = (weak \<noteq> [] \<or> partial_in target d)"
      using scan_candidates_Inr[OF Inr] partial_nonempty unfolding partial_in_def by blast
    have "be_strength (scan_detections target (d # ds) weak)
        = be_strength (scan_detections target ds weak')" by (simp add: Inr)
    also have "\<dots> = (if \<exists>d \<in> set ds. exact_in target d then Strong
        else if weak' \<noteq> [] \<or> (\<exists>d \<in> set ds. partial_in target d) then Weak else NoEvidence)"
      by (rule Cons.IH)
    finally show ?thesis using ne unfolding w by simp
  qed
qed simp

lemma scan_detections_strong_value:
  assumes "target \<noteq> []" and "find (exact_in target) ds = Some d"
  shows "be_matched_values (scan_detections target ds weak) = [td_detected_text d]"
  using assms(2)
proof (induction ds arbitrary: weak)
  case (Cons x ds)
  let ?r = "scan_candidates target (td_detected_text x)
      (extract_match_candidates (td_detected_text x)) weak"
  show ?case
  proof (cases ?r)
    case (Inl t)
    with assms(1) have "exact_in target x" "t = td_detected_text x"
      by (simp_all add: exact_in_def scan_candidates_Inl)
    with Inl Cons.prems show ?thesis by simp
  next
    case (Inr weak')
    then have "\<not> exact_in target x"
      using scan_candidates_Inr_exact[OF assms(1)] by (auto simp: exact_in_def)
    with Inr Cons show ?thesis by simp
  qed
qed simp

lemma set_exact_scan:
  "set (exact_scan target txt cs matched) =
     set matched \<union> (if target \<in> set cs then {txt} else {})"
  by (induction cs arbitrary: matched) auto

lemma set_exact_fold:
  "set (foldl (\<lambda>matched d. exact_scan target (td_detected_text d)
      (extract_match_candidates (td_detected_text d)) matched) m ds) =
    set m \<union> td_detected_text ` {d \<in> set ds. exact_in target d}"
  by (induction ds arbitrary: m) (auto simp: set_exact_scan exact_in_def)

lemma has_exact_iff:
  "has_exact_bib_match ds bib \<longleftrightarrow> normalize_match_token bib \<noteq> [] \<and>
     (\<exists>d \<in> set ds. exact_in (normalize_match_token bib) d)"
proof -
  let ?t = "normalize_match_token bib"
  let ?f = "foldl (\<lambda>matched d. exact_scan ?t (td_detected_text d)
      (extract_match_candidates (td_detected_text d)) matched) [] ds"
  have "?f \<noteq> [] \<longleftrightarrow> (\<exists>d \<in> set ds. exact_in ?t d)"
    using set_exact_fold[of ?t "[]" ds] by (auto simp flip: set_empty)
  then show ?thesis
    by (auto simp: has_exact_bib_match_def exact_bib_match_values_def Let_def)
qed

text \<open>The strength of the bib evidence in the detections of a photo.  It is strong
  exactly when some detection has the bib's canonical token among its candidates, which is also when
  \<^verbatim>\<open>has_exact_bib_match\<close> holds; otherwise weak exactly when some candidate is a partial match;
  otherwise none.  A bib without letters or digits has no evidence.\<close>

theorem bib_evidence_strength:
  "be_strength (score_bib_evidence ds bib) =
     (if has_exact_bib_match ds bib then Strong
      else if normalize_match_token bib \<noteq> [] \<and>
        (\<exists>d \<in> set ds. partial_in (normalize_match_token bib) d) then Weak
      else NoEvidence)"
  by (auto simp: score_bib_evidence_def Let_def has_exact_iff scan_detections_strength)

section \<open>The candidates of a text\<close>

text \<open>The candidates of a text are distinct, non-empty strings of upper-case letters
  and digits, each a fixed point of the canonical form; the text's own canonical token, when it has
  one, comes first.\<close>

theorem candidates_canonical:
  "distinct (extract_match_candidates v) \<and>
   (\<forall>t. t \<in> set (extract_match_candidates v) \<longrightarrow> canonical t \<and> normalize_match_token t = t) \<and>
   (normalize_match_token v = [] \<or> hd (extract_match_candidates v) = normalize_match_token v)"
proof (intro conjI allI impI)
  fix t assume "t \<in> set (extract_match_candidates v)"
  then show "canonical t" by (rule extract_canonical)
  then show "normalize_match_token t = t" by (auto simp: canonical_def intro: token_fixed)
next
  show "normalize_match_token v = [] \<or> hd (extract_match_candidates v) = normalize_match_token v"
    using extract_first by blast
qed (rule distinct_extract_match_candidates)

lemma candidates_canonical_witness:
  "canonical ''123'' \<and> normalize_match_token ''123'' = ''123''"
proof -
  have "extract_match_candidates ''b-123'' = [''B123'', ''B'', ''123'']" by code_simp
  then have "''123'' \<in> set (extract_match_candidates ''b-123'')" by simp
  with candidates_canonical[of "''b-123''"] show ?thesis by blast
qed

lemma length_token: "length (normalize_match_token v) \<le> length v"
  by (simp add: normalize_match_token_def)

lemma lookup_short: "length v \<le> 64 \<Longrightarrow> normalize_bib_lookup v = normalize_match_token v"
  using length_token[of v] by (simp add: bib_lookup_is_token)

lemma photographer_candidates:
  assumes "length v \<le> 64"
  shows "set (photographer_extract_match_candidates v) =
     (if normalize_match_token v = [] then {} else {normalize_match_token v})
     \<union> set (findall_runs is_upper_or_digit (upper v))"
proof -
  have w: "length w \<le> 64" if "w \<in> set (findall_runs is_upper_or_digit (upper v))" for w
    using findall_runs_sound[OF that] assms by (auto dest: sublist_length_le)
  have "normalize_bib_lookup (normalize_match_token v) = normalize_match_token v"
    using assms length_token[of v] by (simp add: bib_lookup_is_token)
  then show ?thesis
    unfolding photographer_extract_match_candidates_def Let_def
    by (subst set_dedupe_fixed)
      (auto simp: lookup_short assms w run_token_fixed dest: findall_runs_sound)
qed

text \<open>On a text of at most 64 characters the extractor used when matches are rebuilt
  finds a subset of the candidates found when a photo is first processed; the candidates it misses
  are digit runs next to letters.\<close>

theorem rebuild_candidates_subset:
  assumes "length v \<le> 64"
  shows "set (photographer_extract_match_candidates v) \<subseteq> set (extract_match_candidates v) \<and>
    set (extract_match_candidates v) - set (photographer_extract_match_candidates v)
      \<subseteq> set (findall_runs is_digit (upper v))"
  by (auto simp: photographer_candidates[OF assms] set_extract_match_candidates)

theorem rebuild_candidates_subset_witness:
  "length ''A123'' \<le> (64::nat) \<and> ''123'' \<in> set (extract_match_candidates ''A123'') \<and>
   ''123'' \<notin> set (photographer_extract_match_candidates ''A123'') \<and>
   set (photographer_extract_match_candidates ''A123'') \<subseteq> set (extract_match_candidates ''A123'')"
proof -
  have l: "length ''A123'' \<le> (64::nat)" by simp
  have "extract_match_candidates ''A123'' = [''A123'', ''123'']"
    "photographer_extract_match_candidates ''A123'' = [''A123'']" by code_simp+
  with rebuild_candidates_subset[OF l] l show ?thesis by simp
qed

end
