(* ===== verification/Embedding.thy ===== *)
theory Embedding
  imports Matching "HOL-Library.Product_Lexorder"
begin

text \<open>
  Face embeddings, from \<^verbatim>\<open>backend/app/face.py\<close>: normalisation and similarity (lines 1238 to 1267),
  the quality of a face, clustering and the selection of seed embeddings (lines 670 to 869).
  Stored embeddings are lists of reals: the float arithmetic is modelled exactly, without
  rounding.  A value that has not been validated yet is a \<^verbatim>\<open>json\<close> value, where a float may be
  infinite or not a number.
\<close>

section \<open>Vectors\<close>

definition dot :: "real list \<Rightarrow> real list \<Rightarrow> real" where
  "dot xs ys = sum_list (map2 (*) xs ys)"

definition vnorm :: "real list \<Rightarrow> real" where
  "vnorm xs = sqrt (sum_list (map (\<lambda>x. x * x) xs))"

definition scale :: "real list \<Rightarrow> real \<Rightarrow> real list" where
  "scale xs n = map (\<lambda>x. x / n) xs"

text \<open>\<^verbatim>\<open>float(item)\<close>: \<^verbatim>\<open>parse\<close> is the parser of numeric strings; a \<^verbatim>\<open>TypeError\<close> or \<^verbatim>\<open>ValueError\<close> is
  \<^term>\<open>None\<close>.\<close>

fun to_float :: "(str \<Rightarrow> pyfloat option) \<Rightarrow> json \<Rightarrow> pyfloat option" where
  "to_float parse (JBool b) = Some (Fin (if b then 1 else 0))"
| "to_float parse (JInt i) = Some (Fin (of_int i))"
| "to_float parse (JFloat f) = Some f"
| "to_float parse (JStr s) = parse s"
| "to_float parse _ = None"

fun collect_floats :: "(str \<Rightarrow> pyfloat option) \<Rightarrow> json list \<Rightarrow> real list option" where
  "collect_floats parse [] = Some []"
| "collect_floats parse (item # items) =
     (case to_float parse item of
        Some (Fin r) \<Rightarrow>
          if \<bar>r\<bar> > 100 then None
          else (case collect_floats parse items of None \<Rightarrow> None | Some rs \<Rightarrow> Some (r # rs))
      | _ \<Rightarrow> None)"

definition normalize_embedding_json :: "(str \<Rightarrow> pyfloat option) \<Rightarrow> json \<Rightarrow> real list" where
  "normalize_embedding_json parse value =
    (case value of
       JList items \<Rightarrow>
         if length items \<noteq> 512 then []
         else (case collect_floats parse items of
                 None \<Rightarrow> []
               | Some embedding \<Rightarrow>
                   (let n = vnorm embedding in
                    if n \<le> 1 / 10 ^ 12 then [] else scale embedding n))
     | _ \<Rightarrow> [])"

text \<open>The two shapes the callers pass: a validated \<^verbatim>\<open>list[float]\<close> of a request, and a stored
  embedding.\<close>

definition normalize_float_list :: "pyfloat list \<Rightarrow> real list" where
  "normalize_float_list xs = normalize_embedding_json (\<lambda>_. None) (JList (map JFloat xs))"

definition normalize_embedding_payload :: "real list \<Rightarrow> real list" where
  "normalize_embedding_payload xs = normalize_float_list (map Fin xs)"

definition cosine_similarity :: "real list \<Rightarrow> real list \<Rightarrow> real" where
  "cosine_similarity left right =
    (if left = [] \<or> right = [] \<or> length left \<noteq> length right then 0
     else
       (let left_norm = vnorm left; right_norm = vnorm right in
        if left_norm \<le> 0 \<or> right_norm \<le> 0 then 0
        else max (-1) (min 1 (dot left right / (left_norm * right_norm)))))"

section \<open>Quality of a face\<close>

text \<open>\<^verbatim>\<open>float(box.get(key, 0) or 0)\<close>, for a box whose width and height are numbers or absent (the
  worker writes integers; a string that is not numeric would raise).\<close>

definition box_number :: "(str \<times> json) list \<Rightarrow> str \<Rightarrow> real" where
  "box_number box key =
    (case map_of box key of
       Some (JInt i) \<Rightarrow> of_int i
     | Some (JFloat (Fin r)) \<Rightarrow> r
     | Some (JBool b) \<Rightarrow> (if b then 1 else 0)
     | _ \<Rightarrow> 0)"

definition box_fields :: "json option \<Rightarrow> (str \<times> json) list" where
  "box_fields b = (case b of Some (JDict kvs) \<Rightarrow> kvs | _ \<Rightarrow> [])"

text \<open>\<^verbatim>\<open>x or y or 0.0\<close> on optional numbers: \<^verbatim>\<open>None\<close> and zero are false.\<close>

definition or_real :: "real option \<Rightarrow> real \<Rightarrow> real" where
  "or_real x y = (case x of None \<Rightarrow> y | Some r \<Rightarrow> if r = 0 then y else r)"

definition face_seed_quality :: "face_detection \<Rightarrow> real" where
  "face_seed_quality face =
    (let box = box_fields (fd_bounding_box_json face);
         area = box_number box ''width'' * box_number box ''height'';
         quality = or_real (fd_quality_score face) (or_real (fd_detection_score face) 0)
     in area * max quality (1 / 4))"

text \<open>\<^verbatim>\<open>sorted(..., key=face_seed_quality, reverse=True)\<close>: stable, by decreasing quality.\<close>

definition by_quality :: "face_detection list \<Rightarrow> face_detection list" where
  "by_quality faces = sort_key (\<lambda>f. - face_seed_quality f) faces"

definition is_dominant_face :: "face_detection list \<Rightarrow> bool" where
  "is_dominant_face faces =
    (case faces of
       a # b # _ \<Rightarrow>
         (let best = face_seed_quality a; second = face_seed_quality b
          in best > 0 \<and> second * (18 / 10) \<le> best)
     | _ \<Rightarrow> True)"

section \<open>Clusters\<close>

text \<open>\<^verbatim>\<open>max(... for other in cluster)\<close>; clusters are never empty.\<close>

definition cluster_score :: "real list \<Rightarrow> face_detection list \<Rightarrow> real" where
  "cluster_score embedding cluster =
    (case map (\<lambda>other. cosine_similarity embedding (fd_embedding_json other)) cluster of
       [] \<Rightarrow> 0 | s # ss \<Rightarrow> foldl max s ss)"

fun pick_cluster ::
    "real list \<Rightarrow> face_detection list list \<Rightarrow> nat \<Rightarrow> nat option \<Rightarrow> real \<Rightarrow> nat option \<times> real" where
  "pick_cluster embedding [] i best best_score = (best, best_score)"
| "pick_cluster embedding (c # cs) i best best_score =
     (let score = cluster_score embedding c in
      if score > best_score then pick_cluster embedding cs (Suc i) (Some i) score
      else pick_cluster embedding cs (Suc i) best best_score)"

definition place_face ::
    "settings \<Rightarrow> face_detection list list \<Rightarrow> face_detection \<Rightarrow> face_detection list list" where
  "place_face cfg clusters face =
    (let embedding = normalize_embedding_payload (fd_embedding_json face) in
     if embedding = [] then clusters
     else
       (case pick_cluster embedding clusters 0 None 0 of
          (Some i, best_score) \<Rightarrow>
            if face_reinforcement_similarity_threshold cfg \<le> best_score
            then clusters[i := clusters ! i @ [face]] else clusters @ [[face]]
        | (None, _) \<Rightarrow> clusters @ [[face]]))"

definition cluster_seed_faces ::
    "settings \<Rightarrow> face_detection list \<Rightarrow> face_detection list list" where
  "cluster_seed_faces cfg faces = foldl (place_face cfg) [] faces"

definition photo_count :: "face_detection list \<Rightarrow> int" where
  "photo_count cluster = int (card (fd_photo_id ` set cluster))"

definition avg_quality :: "face_detection list \<Rightarrow> real" where
  "avg_quality cluster =
     sum_list (map face_seed_quality cluster) / real (length cluster)"

definition eligible_clusters ::
    "int \<Rightarrow> face_detection list list \<Rightarrow> (int \<times> real \<times> face_detection list) list" where
  "eligible_clusters min_photos clusters =
     map (\<lambda>c. (photo_count c, avg_quality c, c)) (filter (\<lambda>c. \<not> photo_count c < min_photos) clusters)"

text \<open>\<^verbatim>\<open>sort(key=lambda item: (item[0], item[1]), reverse=True)\<close>.\<close>

definition rank_clusters ::
    "(int \<times> real \<times> face_detection list) list \<Rightarrow> (int \<times> real \<times> face_detection list) list" where
  "rank_clusters items = sort_key (\<lambda>(n, q, c). (- n, - q)) items"

section \<open>Seeds\<close>

definition average_face_embeddings :: "face_detection list \<Rightarrow> real list" where
  "average_face_embeddings faces =
    (let embeddings = filter (\<lambda>e. e \<noteq> [])
           (map (\<lambda>f. normalize_embedding_payload (fd_embedding_json f)) faces) in
     case embeddings of
       [] \<Rightarrow> []
     | e # _ \<Rightarrow>
         (let dimension = length e in
          if \<exists>x \<in> set embeddings. length x \<noteq> dimension then []
          else
            (let averaged = map (\<lambda>i. sum_list (map (\<lambda>x. x ! i) embeddings)
                   / real (length embeddings)) [0..<dimension];
                 n = vnorm averaged
             in if n \<le> 0 then [] else scale averaged n)))"

fun dedupe_loop :: "real list list \<Rightarrow> real list list \<Rightarrow> real list list" where
  "dedupe_loop deduped [] = deduped"
| "dedupe_loop deduped (e # es) =
     (let normalized = normalize_embedding_payload e in
      if normalized = [] then dedupe_loop deduped es
      else if \<exists>existing \<in> set deduped. 995 / 1000 \<le> cosine_similarity normalized existing
      then dedupe_loop deduped es
      else dedupe_loop (deduped @ [normalized]) es)"

definition dedupe_seed_embeddings :: "real list list \<Rightarrow> real list list" where
  "dedupe_seed_embeddings embeddings = dedupe_loop [] embeddings"

definition select_cluster_seed_embeddings :: "settings \<Rightarrow> face_detection list \<Rightarrow> real list list" where
  "select_cluster_seed_embeddings cfg faces =
    (case rank_clusters (eligible_clusters 2 (cluster_seed_faces cfg faces)) of
       [] \<Rightarrow> []
     | (n1, q1, c1) # rest \<Rightarrow>
         if (case rest of [] \<Rightarrow> False | (n2, q2, _) # _ \<Rightarrow> n1 = n2 \<and> q1 < q2 * (135 / 100)) then []
         else (case by_quality c1 of [] \<Rightarrow> [] | f # _ \<Rightarrow> [fd_embedding_json f]))"

definition select_consensus_seed_embeddings ::
    "settings \<Rightarrow> face_detection list \<Rightarrow> int \<Rightarrow> real list list" where
  "select_consensus_seed_embeddings cfg faces support_photo_count =
    (if faces = [] \<or> support_photo_count \<le> 0 then []
     else
       (case rank_clusters (eligible_clusters (bib_only_seed_cluster_min_photos cfg)
               (cluster_seed_faces cfg faces)) of
          [] \<Rightarrow> []
        | (best_photo_count, _, best_cluster) # rest \<Rightarrow>
            (let required_support = max (bib_only_seed_cluster_min_photos cfg)
                   \<lceil>of_int support_photo_count * bib_only_seed_cluster_majority_ratio cfg\<rceil>
             in
             if best_photo_count < required_support then []
             else if (case rest of
                        [] \<Rightarrow> False
                      | (second_photo_count, _, _) # _ \<Rightarrow>
                          \<not> second_photo_count + 2 \<le> best_photo_count \<and>
                          \<not> \<lceil>of_int second_photo_count * bib_only_seed_cluster_lead_ratio cfg\<rceil>
                              \<le> best_photo_count)
             then []
             else
               (let best_faces = by_quality best_cluster;
                    embeddings = average_face_embeddings best_faces
                      # map fd_embedding_json (take 2 best_faces)
                in take 3 (dedupe_seed_embeddings embeddings)))))"

text \<open>The loop over the photos of \<^verbatim>\<open>select_bib_only_seed_embeddings\<close>: its four variables.\<close>

record seed_state =
  sd_faces :: "face_detection list"
  sd_exact :: int
  sd_usable :: int
  sd_single :: "real list option"

definition good_faces :: "face_detection list \<Rightarrow> face_detection list" where
  "good_faces faces =
     by_quality (filter (\<lambda>f. normalize_embedding_payload (fd_embedding_json f) \<noteq> []) faces)"

definition seed_photo :: "seed_state \<Rightarrow> face_detection list \<Rightarrow> seed_state" where
  "seed_photo st faces =
    (let good = good_faces faces in
     if good = [] then st
     else
       (let st1 = st\<lparr>sd_usable := sd_usable st + 1\<rparr> in
        if length good = 1 then
          (let st2 = st1\<lparr>sd_faces := sd_faces st1 @ [hd good]\<rparr> in
           if sd_exact st2 = 1
           then st2\<lparr>sd_single := Some (normalize_embedding_payload (fd_embedding_json (hd good)))\<rparr>
           else st2)
        else if is_dominant_face good then st1\<lparr>sd_faces := sd_faces st1 @ [hd good]\<rparr>
        else st1\<lparr>sd_faces := sd_faces st1 @ take 4 good\<rparr>))"

fun seed_loop :: "settings \<Rightarrow> str \<Rightarrow> (text_detection list \<times> face_detection list) list \<Rightarrow>
    seed_state \<Rightarrow> seed_state" where
  "seed_loop cfg bib [] st = st"
| "seed_loop cfg bib ((texts, faces) # rest) st =
     (if \<not> has_exact_bib_match texts bib then seed_loop cfg bib rest st
      else
        (let st1 = st\<lparr>sd_exact := sd_exact st + 1\<rparr> in
         if sd_exact st1 > bib_only_seed_photo_limit cfg then st1
         else seed_loop cfg bib rest (seed_photo st1 faces)))"

definition finish_seeds :: "settings \<Rightarrow> seed_state \<Rightarrow> real list list" where
  "finish_seeds cfg st =
    (let consensus = select_consensus_seed_embeddings cfg (sd_faces st) (sd_usable st) in
     if consensus \<noteq> [] then consensus
     else if sd_exact st = 1 \<and> sd_usable st = 1 then
       (case sd_single st of None \<Rightarrow> [] | Some e \<Rightarrow> if e = [] then [] else [e])
     else [])"

text \<open>The photos of the event, newest first, each with its text detections and its faces (both
  newest first, as the relationships order them).\<close>

definition photo_texts :: "db \<Rightarrow> uuid \<Rightarrow> text_detection list" where
  "photo_texts d p = sort_key (\<lambda>t. - td_created_at t)
     (filter (\<lambda>t. td_photo_id t = p) (text_detections d))"

definition photo_faces :: "db \<Rightarrow> uuid \<Rightarrow> face_detection list" where
  "photo_faces d p = sort_key (\<lambda>f. - fd_created_at f)
     (filter (\<lambda>f. fd_photo_id f = p) (face_detections d))"

definition select_bib_only_seed_embeddings :: "settings \<Rightarrow> db \<Rightarrow> uuid \<Rightarrow> participant \<Rightarrow> real list list" where
  "select_bib_only_seed_embeddings cfg d event_id participant =
    (let candidate_photos = sort_key (\<lambda>p. - ph_created_at p)
           (filter (\<lambda>p. ph_event_id p = event_id) (photos d))
     in finish_seeds cfg
          (seed_loop cfg (pa_bib_number participant)
             (map (\<lambda>p. (photo_texts d (ph_id p), photo_faces d (ph_id p))) candidate_photos)
             \<lparr>sd_faces = [], sd_exact = 0, sd_usable = 0, sd_single = None\<rparr>))"

end
