(* ===== verification/EmbeddingFacts.thy ===== *)
theory EmbeddingFacts
  imports Embedding
begin

text \<open>
  Properties of the embedding arithmetic (normalisation gives unit vectors, the similarity is the
  cosine and stays in its range), of the clustering (it partitions the usable faces) and of the
  seed selection (few, distinct, unit vectors, backed by enough photos).
\<close>

section \<open>Dot products\<close>

lemma dot_Nil [simp]: "dot [] ys = 0" "dot xs [] = 0"
  by (simp_all add: dot_def)

lemma dot_Cons [simp]: "dot (x # xs) (y # ys) = x * y + dot xs ys"
  by (simp add: dot_def)

lemma dot_commute: "dot xs ys = dot ys xs"
  by (induction xs ys rule: list_induct2') (auto simp: mult.commute)

lemma vnorm_dot: "vnorm xs = sqrt (dot xs xs)"
proof -
  have "sum_list (map (\<lambda>x. x * x) xs) = dot xs xs" by (induction xs) auto
  then show ?thesis by (simp add: vnorm_def)
qed

lemma dot_self_nonneg [simp]: "0 \<le> dot xs xs"
  by (induction xs) auto

lemma vnorm_nonneg [simp]: "0 \<le> vnorm xs"
  by (simp add: vnorm_dot)

lemma vnorm_sq: "vnorm xs * vnorm xs = dot xs xs"
  by (simp add: vnorm_dot)

lemma dot_combine:
  "length xs = length ys \<Longrightarrow>
   dot (map2 (\<lambda>x y. b * x - c * y) xs ys) (map2 (\<lambda>x y. b * x - c * y) xs ys) =
     b * b * dot xs xs - 2 * b * c * dot xs ys + c * c * dot ys ys"
  by (induction xs ys rule: list_induct2) (auto simp: algebra_simps)

lemma dot_self_zero: "length xs = length ys \<Longrightarrow> dot ys ys = 0 \<Longrightarrow> dot xs ys = 0"
proof (induction xs ys rule: list_induct2)
  case (Cons x xs y ys)
  then have "y * y + dot ys ys = 0" by simp
  then have "y = 0 \<and> dot ys ys = 0"
    by (metis add_nonneg_eq_0_iff dot_self_nonneg mult_eq_0_iff zero_le_square)
  with Cons show ?case by simp
qed simp

lemma cauchy_schwarz:
  assumes "length xs = length ys"
  shows "dot xs ys * dot xs ys \<le> dot xs xs * dot ys ys"
proof (cases "dot ys ys = 0")
  case True
  with assms show ?thesis by (simp add: dot_self_zero)
next
  case False
  let ?b = "dot ys ys" and ?c = "dot xs ys"
  have pos: "0 < ?b" using False dot_self_nonneg[of ys] by linarith
  have "0 \<le> ?b * ?b * dot xs xs - 2 * ?b * ?c * ?c + ?c * ?c * ?b"
    using dot_combine[OF assms, of ?b ?c] dot_self_nonneg by metis
  then have "0 \<le> ?b * (?b * dot xs xs - ?c * ?c)" by (simp add: algebra_simps)
  with pos have "0 \<le> ?b * dot xs xs - ?c * ?c" by (simp add: zero_le_mult_iff)
  then show ?thesis by (simp add: mult.commute)
qed

lemma abs_dot_le:
  assumes "length xs = length ys"
  shows "\<bar>dot xs ys\<bar> \<le> vnorm xs * vnorm ys"
proof (rule power2_le_imp_le)
  have "(vnorm xs * vnorm ys)\<^sup>2 = dot xs xs * dot ys ys"
    by (simp add: power2_eq_square vnorm_sq[symmetric])
  then show "\<bar>dot xs ys\<bar>\<^sup>2 \<le> (vnorm xs * vnorm ys)\<^sup>2"
    using cauchy_schwarz[OF assms] by (simp add: power2_eq_square)
qed simp

lemma dot_scale: "dot (scale xs n) (scale ys k) = dot xs ys / (n * k)"
  by (induction xs ys rule: list_induct2') (auto simp: scale_def add_divide_distrib)

lemma vnorm_scale: "0 < n \<Longrightarrow> vnorm (scale xs n) = vnorm xs / n"
  by (simp add: vnorm_dot dot_scale real_sqrt_divide)

lemma length_scale [simp]: "length (scale xs n) = length xs"
  by (simp add: scale_def)

lemma scale_Nil_iff [simp]: "scale xs n = [] \<longleftrightarrow> xs = []"
  by (simp add: scale_def)

section \<open>Similarity\<close>

text \<open>The similarity of two embeddings is always between -1 and 1, it is symmetric, and
  on two non-zero embeddings of the same length it is their cosine exactly: the final clamp only
  removes rounding and never changes an exact value.\<close>

theorem cosine_range:
  "-1 \<le> cosine_similarity l r \<and> cosine_similarity l r \<le> 1 \<and>
   cosine_similarity l r = cosine_similarity r l \<and>
   cosine_similarity l r =
     (if length l = length r \<and> 0 < vnorm l \<and> 0 < vnorm r then dot l r / (vnorm l * vnorm r) else 0)"
proof -
  have exact: "cosine_similarity l r = dot l r / (vnorm l * vnorm r)"
    if "length l = length r" "0 < vnorm l" "0 < vnorm r" for l r
  proof -
    have p: "0 < vnorm l * vnorm r" using that by simp
    have "dot l r \<le> vnorm l * vnorm r" "- (vnorm l * vnorm r) \<le> dot l r"
      using abs_dot_le[OF that(1)] by linarith+
    then have "dot l r / (vnorm l * vnorm r) \<le> 1" "-1 \<le> dot l r / (vnorm l * vnorm r)"
      using p by (simp_all add: divide_le_eq le_divide_eq)
    moreover have "l \<noteq> []" "r \<noteq> []" using that by (auto simp: vnorm_def)
    ultimately show ?thesis using that by (simp add: cosine_similarity_def Let_def max_def min_def)
  qed
  have zero: "cosine_similarity l r = 0"
    if "\<not> (length l = length r \<and> 0 < vnorm l \<and> 0 < vnorm r)" for l r
    using that vnorm_nonneg[of l] vnorm_nonneg[of r]
    by (auto simp: cosine_similarity_def Let_def not_less)
  have "cosine_similarity l r = cosine_similarity r l"
  proof (cases "length l = length r \<and> 0 < vnorm l \<and> 0 < vnorm r")
    case True
    then show ?thesis using exact[of l r] exact[of r l] by (simp add: dot_commute mult.commute)
  next
    case False
    then show ?thesis using zero[of l r] zero[of r l] by metis
  qed
  moreover have "-1 \<le> cosine_similarity l r \<and> cosine_similarity l r \<le> 1"
    by (auto simp: cosine_similarity_def Let_def)
  ultimately show ?thesis using exact[of l r] zero[of l r] by auto
qed

lemma cosine_bounds: "-1 \<le> cosine_similarity l r" "cosine_similarity l r \<le> 1"
  by (auto simp: cosine_similarity_def Let_def)

lemma cosine_self: "0 < vnorm l \<Longrightarrow> cosine_similarity l l = 1"
proof -
  assume p: "0 < vnorm l"
  then have "l \<noteq> []" by (auto simp: vnorm_def)
  moreover have d: "0 < dot l l" using p vnorm_sq[of l] by (metis mult_pos_pos)
  moreover have "dot l l / (vnorm l * vnorm l) = 1" using d by (simp add: vnorm_sq)
  ultimately show ?thesis using p by (simp add: cosine_similarity_def Let_def)
qed

section \<open>Normalisation\<close>

lemma collect_floats_Some:
  "collect_floats parse items = Some rs \<Longrightarrow>
   length rs = length items \<and> (\<forall>r \<in> set rs. \<bar>r\<bar> \<le> 100) \<and>
   map (to_float parse) items = map (Some \<circ> Fin) rs"
  by (induction items arbitrary: rs) (auto split: option.splits pyfloat.splits if_splits)

lemma collect_floats_Fin:
  "collect_floats parse (map (JFloat \<circ> Fin) rs) =
     (if \<forall>r \<in> set rs. \<bar>r\<bar> \<le> 100 then Some rs else None)"
  by (induction rs) auto

lemma normalize_payload_eq:
  "normalize_embedding_payload xs =
    (if length xs = 512 \<and> (\<forall>x \<in> set xs. \<bar>x\<bar> \<le> 100) \<and> 1 / 10 ^ 12 < vnorm xs
     then scale xs (vnorm xs) else [])"
proof -
  have "map JFloat (map Fin xs) = map (JFloat \<circ> Fin) xs" by simp
  then show ?thesis
    by (auto simp: normalize_embedding_payload_def normalize_float_list_def
        normalize_embedding_json_def Let_def collect_floats_Fin simp del: map_map)
qed

lemma normalize_json_unit:
  assumes "normalize_embedding_json parse v \<noteq> []"
  shows "length (normalize_embedding_json parse v) = 512 \<and> vnorm (normalize_embedding_json parse v) = 1"
proof -
  from assms obtain items rs where v: "v = JList items" "length items = 512"
    "collect_floats parse items = Some rs" "\<not> vnorm rs \<le> 1 / 10 ^ 12"
    "normalize_embedding_json parse v = scale rs (vnorm rs)"
    by (auto simp: normalize_embedding_json_def Let_def split: json.splits option.splits if_splits)
  have "0 < vnorm rs" using v(4) by (smt (verit) divide_pos_pos zero_less_power zero_less_numeral)
  then show ?thesis using v collect_floats_Some[OF v(3)] by (simp add: vnorm_scale)
qed

lemma normalize_payload_unit:
  "normalize_embedding_payload xs \<noteq> [] \<Longrightarrow>
   length (normalize_embedding_payload xs) = 512 \<and> vnorm (normalize_embedding_payload xs) = 1"
  unfolding normalize_embedding_payload_def normalize_float_list_def by (rule normalize_json_unit)

text \<open>Whatever JSON value is given, normalisation returns either the empty list or a
  vector of 512 components and length 1, and it accepts exactly the lists of 512 values that convert
  to finite floats of magnitude at most 100 with a length above 1e-12.\<close>

theorem normalize_unit_or_empty:
  "(normalize_embedding_json parse v = [] \<or>
     (length (normalize_embedding_json parse v) = 512 \<and>
      vnorm (normalize_embedding_json parse v) = 1)) \<and>
   (normalize_embedding_json parse v \<noteq> []) =
     (\<exists>items rs. v = JList items \<and> length items = 512 \<and>
        map (to_float parse) items = map (Some \<circ> Fin) rs \<and>
        list_all (\<lambda>r. \<bar>r\<bar> \<le> 100) rs \<and> 1 / 10 ^ 12 < vnorm rs)"
proof (intro conjI iffI)
  show "normalize_embedding_json parse v = [] \<or>
     (length (normalize_embedding_json parse v) = 512 \<and>
      vnorm (normalize_embedding_json parse v) = 1)"
    using normalize_json_unit by blast
next
  assume "normalize_embedding_json parse v \<noteq> []"
  then obtain items rs where "v = JList items" "length items = 512"
    "collect_floats parse items = Some rs" "\<not> vnorm rs \<le> 1 / 10 ^ 12"
    by (auto simp: normalize_embedding_json_def Let_def split: json.splits option.splits if_splits)
  with collect_floats_Some[of parse items rs]
  show "\<exists>items rs. v = JList items \<and> length items = 512 \<and>
      map (to_float parse) items = map (Some \<circ> Fin) rs \<and>
      list_all (\<lambda>r. \<bar>r\<bar> \<le> 100) rs \<and> 1 / 10 ^ 12 < vnorm rs" by (auto simp: not_le list_all_iff)
next
  have c: "map (to_float parse) items = map (Some \<circ> Fin) rs \<Longrightarrow> \<forall>r \<in> set rs. \<bar>r\<bar> \<le> 100 \<Longrightarrow>
      collect_floats parse items = Some rs" for items rs
    by (induction items arbitrary: rs) (auto simp: Cons_eq_map_conv)
  assume "\<exists>items rs. v = JList items \<and> length items = 512 \<and>
      map (to_float parse) items = map (Some \<circ> Fin) rs \<and>
      list_all (\<lambda>r. \<bar>r\<bar> \<le> 100) rs \<and> 1 / 10 ^ 12 < vnorm rs"
  then obtain items rs where v: "v = JList items" "length items = 512"
    "collect_floats parse items = Some rs" "1 / 10 ^ 12 < vnorm rs"
    using c by (auto simp: list_all_iff)
  moreover have "length rs = 512" using collect_floats_Some[OF v(3)] v(2) by simp
  ultimately show "normalize_embedding_json parse v \<noteq> []"
    by (auto simp: normalize_embedding_json_def Let_def)
qed

text \<open>The empty-or-unit shape of an embedding a caller of the normalisation gets.\<close>

definition unit_embedding :: "real list \<Rightarrow> bool" where
  "unit_embedding e \<longleftrightarrow> length e = 512 \<and> vnorm e = 1"

lemma normalize_float_list_unit:
  "normalize_float_list xs \<noteq> [] \<Longrightarrow> unit_embedding (normalize_float_list xs)"
  unfolding unit_embedding_def normalize_float_list_def by (rule normalize_json_unit)

section \<open>Clustering\<close>

definition usable :: "face_detection \<Rightarrow> bool" where
  "usable f \<longleftrightarrow> normalize_embedding_payload (fd_embedding_json f) \<noteq> []"

lemma pick_cluster_bound:
  "pick_cluster e cs i best sc = (Some k, sc') \<Longrightarrow>
   (best = Some k \<and> sc' = sc) \<or> (i \<le> k \<and> k < i + length cs \<and> sc' = cluster_score e (cs ! (k - i)))"
proof (induction cs arbitrary: i best sc)
  case (Cons c cs)
  show ?case
  proof (cases "cluster_score e c > sc")
    case True
    with Cons.prems have "pick_cluster e cs (Suc i) (Some i) (cluster_score e c) = (Some k, sc')"
      by (simp add: Let_def)
    from Cons.IH[OF this] show ?thesis by (auto simp: nth_Cons')
  next
    case False
    with Cons.prems have "pick_cluster e cs (Suc i) best sc = (Some k, sc')" by (simp add: Let_def)
    from Cons.IH[OF this] show ?thesis by (auto simp: nth_Cons')
  qed
qed simp

lemma mset_concat_update:
  "i < length cs \<Longrightarrow> mset (concat (cs[i := cs ! i @ [f]])) = mset (concat cs) + {#f#}"
  by (induction cs arbitrary: i) (auto simp: nth_Cons split: nat.splits)

lemma mset_place_face:
  "mset (concat (place_face cfg cs f)) = mset (concat cs) + (if usable f then {#f#} else {#})"
proof (cases "usable f")
  case True
  let ?p = "pick_cluster (normalize_embedding_payload (fd_embedding_json f)) cs 0 None 0"
  obtain b sc where p: "?p = (b, sc)" by (cases ?p)
  show ?thesis
  proof (cases b)
    case (Some i)
    then have "i < length cs" using pick_cluster_bound p by fastforce
    with True p Some show ?thesis
      by (simp add: place_face_def Let_def usable_def mset_concat_update)
  qed (use True p in \<open>simp add: place_face_def Let_def usable_def\<close>)
qed (simp add: place_face_def usable_def)

lemma place_face_nonempty:
  "\<forall>c \<in> set cs. c \<noteq> [] \<Longrightarrow> \<forall>c \<in> set (place_face cfg cs f). c \<noteq> []"
  by (auto simp: place_face_def Let_def split: option.splits prod.splits if_splits
      dest!: set_update_subset_insert[THEN subsetD])

text \<open>Clustering the candidate faces puts every face with a usable embedding in
  exactly one cluster, drops the others, and makes no empty cluster.\<close>

theorem clusters_partition:
  "mset (concat (cluster_seed_faces cfg faces)) = mset (filter usable faces) \<and>
   [] \<notin> set (cluster_seed_faces cfg faces)"
proof -
  have "mset (concat (foldl (place_face cfg) cs faces)) = mset (concat cs) + mset (filter usable faces)"
    for cs by (induction faces arbitrary: cs) (auto simp: mset_place_face)
  moreover have "\<forall>c \<in> set cs. c \<noteq> [] \<Longrightarrow> \<forall>c \<in> set (foldl (place_face cfg) cs faces). c \<noteq> []" for cs
    by (rule foldl_invariant) (use place_face_nonempty in blast)+
  ultimately show ?thesis unfolding cluster_seed_faces_def
    by (metis add.left_neutral concat.simps(1) emptyE list.set(1) mset.simps(1))
qed

lemma rank_clusters_set: "set (rank_clusters items) = set items"
  by (simp add: rank_clusters_def)

section \<open>Seeds\<close>

lemma normalize_payload_unit_embedding:
  "normalize_embedding_payload e \<noteq> [] \<Longrightarrow> unit_embedding (normalize_embedding_payload e)"
  by (simp add: unit_embedding_def normalize_payload_unit)

lemma dedupe_loop_invariant:
  assumes "P deduped"
    and "\<And>d e. P d \<Longrightarrow> normalize_embedding_payload e \<noteq> [] \<Longrightarrow>
      \<not> (\<exists>x \<in> set d. cosine_similarity (normalize_embedding_payload e) x \<ge> 995 / 1000) \<Longrightarrow>
      P (d @ [normalize_embedding_payload e])"
  shows "P (dedupe_loop deduped es)"
  using assms(1)
proof (induction es arbitrary: deduped)
  case (Cons e es)
  let ?skip = "normalize_embedding_payload e = [] \<or>
    (\<exists>x \<in> set deduped. cosine_similarity (normalize_embedding_payload e) x \<ge> 995 / 1000)"
  show ?case
  proof (cases ?skip)
    case True
    then have "dedupe_loop deduped (e # es) = dedupe_loop deduped es" by (auto simp: Let_def)
    with Cons show ?thesis by simp
  next
    case False
    then have "dedupe_loop deduped (e # es) =
      dedupe_loop (deduped @ [normalize_embedding_payload e]) es" by (auto simp: Let_def)
    moreover have "P (deduped @ [normalize_embedding_payload e])"
      using False assms(2) Cons.prems by blast
    ultimately show ?thesis using Cons.IH by simp
  qed
qed simp

lemma dedupe_loop_props: "list_all unit_embedding (dedupe_loop [] es)"
  by (rule dedupe_loop_invariant) (simp_all add: normalize_payload_unit_embedding)

definition separated :: "real list \<Rightarrow> real list \<Rightarrow> bool" where
  "separated a b \<longleftrightarrow> cosine_similarity b a < 995 / 1000"

lemma dedupe_loop_separated: "sorted_wrt separated (dedupe_loop [] es)"
  by (rule dedupe_loop_invariant) (auto simp: sorted_wrt_append separated_def not_le)

lemma consensus_seeds_props:
  assumes "select_consensus_seed_embeddings cfg faces support = seeds"
  shows "length seeds \<le> 3 \<and> list_all unit_embedding seeds \<and> sorted_wrt separated seeds \<and>
    (seeds = [] \<or> (\<exists>c \<in> set (cluster_seed_faces cfg faces).
       bib_only_seed_cluster_min_photos cfg \<le> photo_count c \<and>
       of_int support * bib_only_seed_cluster_majority_ratio cfg \<le> photo_count c))"
proof (cases "seeds = []")
  case False
  let ?el = "eligible_clusters (bib_only_seed_cluster_min_photos cfg) (cluster_seed_faces cfg faces)"
  from False assms obtain n q c rest where r: "rank_clusters ?el = (n, q, c) # rest"
    by (auto simp: select_consensus_seed_embeddings_def split: if_splits list.splits)
  with False assms have req: "\<not> n < max (bib_only_seed_cluster_min_photos cfg)
        \<lceil>of_int support * bib_only_seed_cluster_majority_ratio cfg\<rceil>"
    and seeds: "seeds = take 3 (dedupe_seed_embeddings (average_face_embeddings (by_quality c)
      # map fd_embedding_json (take 2 (by_quality c))))"
    by (auto simp: select_consensus_seed_embeddings_def Let_def split: if_splits)
  have "(n, q, c) \<in> set ?el" using r rank_clusters_set[of ?el] by auto
  then have c: "c \<in> set (cluster_seed_faces cfg faces)" "n = photo_count c"
    by (auto simp: eligible_clusters_def)
  have "of_int support * bib_only_seed_cluster_majority_ratio cfg \<le> of_int n"
  proof -
    from req have "\<lceil>of_int support * bib_only_seed_cluster_majority_ratio cfg\<rceil> \<le> n" by simp
    then show ?thesis by (simp only: ceiling_le_iff)
  qed
  with c req have e: "\<exists>c \<in> set (cluster_seed_faces cfg faces).
       bib_only_seed_cluster_min_photos cfg \<le> photo_count c \<and>
       of_int support * bib_only_seed_cluster_majority_ratio cfg \<le> photo_count c"
    by (intro bexI[of _ c]) auto
  have "list_all unit_embedding seeds"
    using dedupe_loop_props unfolding seeds dedupe_seed_embeddings_def list_all_iff
    by (blast dest: in_set_takeD)
  moreover have "sorted_wrt separated seeds"
    unfolding seeds dedupe_seed_embeddings_def
    by (intro sorted_wrt_take dedupe_loop_separated)
  moreover have "length seeds \<le> 3" by (simp add: seeds)
  ultimately show ?thesis using e by blast
qed simp

text \<open>The seeds \<^verbatim>\<open>select_consensus_seed_embeddings\<close> returns are at most three unit vectors,
  pairwise less similar than 0.995, and they exist only when some cluster covers at least the
  configured minimum of photos and the required share of the supporting photos.\<close>

theorem consensus_seeds:
  "length (select_consensus_seed_embeddings cfg faces support) \<le> 3 \<and>
   list_all unit_embedding (select_consensus_seed_embeddings cfg faces support) \<and>
   sorted_wrt separated (select_consensus_seed_embeddings cfg faces support) \<and>
   (select_consensus_seed_embeddings cfg faces support = [] \<or>
     (\<exists>c \<in> set (cluster_seed_faces cfg faces).
       bib_only_seed_cluster_min_photos cfg \<le> photo_count c \<and>
       of_int support * bib_only_seed_cluster_majority_ratio cfg \<le> photo_count c))"
  by (rule consensus_seeds_props) (rule refl)

end
