(* ===== verification/Completion.thy ===== *)
theory Completion
  imports JobQueue Embedding TextFormat "HOL-Library.AList"
begin

text \<open>
  What a completed job writes, from \<^verbatim>\<open>backend/app/face.py\<close> (lines 370 to 667, 872 to 1016 and
  1091 to 1235): detections, participant matches merged by key, the best search results, the
  adaptive reinforcement of a search, and the status of the photo or the search session.

  The rows one call inserts carry one reading of the clock, the argument \<^verbatim>\<open>now\<close>; the identifiers
  that \<^verbatim>\<open>uuid.uuid4\<close> draws are the argument \<^verbatim>\<open>ids\<close>.
\<close>

section \<open>Final matches of a photo and a participant\<close>

definition clamp_match_value :: "str \<Rightarrow> str" where
  "clamp_match_value value =
    (let normalized = strip value in if normalized \<noteq> [] then take 255 normalized else ''matched'')"

fun source_str :: "match_source \<Rightarrow> str" where
  "source_str SrcOcr = ''ocr''"
| "source_str SrcFace = ''face''"
| "source_str SrcOcrFace = ''ocr+face''"

fun merged_confidence :: "real option \<Rightarrow> real option \<Rightarrow> real option" where
  "merged_confidence None excluded = excluded"
| "merged_confidence (Some c) None = Some c"
| "merged_confidence (Some c) (Some e) = (if e \<le> c then Some c else Some e)"

definition merged_source :: "match_source \<Rightarrow> match_source \<Rightarrow> match_source" where
  "merged_source current excluded =
     (if current = excluded then current else if current = SrcOcrFace then current else SrcOcrFace)"

definition merged_value :: "photo_match \<Rightarrow> photo_match \<Rightarrow> str" where
  "merged_value current excluded =
     (if pm_match_source current = pm_match_source excluded then pm_matched_value excluded
      else take 255 (pm_matched_value current @ '' | '' @ source_str (pm_match_source excluded)
             @ '':'' @ pm_matched_value excluded))"

definition merge_photo_match :: "photo_match \<Rightarrow> photo_match \<Rightarrow> photo_match" where
  "merge_photo_match current excluded = current
     \<lparr>pm_match_source := merged_source (pm_match_source current) (pm_match_source excluded),
      pm_matched_value := merged_value current excluded,
      pm_confidence := merged_confidence (pm_confidence current) (pm_confidence excluded)\<rparr>"

definition upsert_photo_match :: "photo_match \<Rightarrow> db \<Rightarrow> db" where
  "upsert_photo_match m d =
     d\<lparr>photo_matches := upsert photo_match_key merge_photo_match m (photo_matches d)\<rparr>"

definition upsert_final_photo_participant_match ::
    "time \<Rightarrow> uuid \<Rightarrow> uuid \<Rightarrow> uuid \<Rightarrow> match_source \<Rightarrow> str \<Rightarrow> real option \<Rightarrow> session \<Rightarrow> session" where
  "upsert_final_photo_participant_match now event_id photo_id participant_id source value confidence s =
     dml (upsert_photo_match \<lparr>pm_event_id = event_id, pm_photo_id = photo_id,
            pm_participant_id = participant_id, pm_match_source = source,
            pm_matched_value = clamp_match_value value, pm_confidence = confidence,
            pm_created_at = now\<rparr>) s"

section \<open>Diagnostics\<close>

definition allowed_keys :: "str list" where
  "allowed_keys = [''provider'', ''request_id'', ''model_name'', ''model_version'', ''image_width'',
     ''image_height'', ''resized_width'', ''resized_height'', ''processing_ms'']"

text \<open>\<^verbatim>\<open>isinstance(value, (str, int, float, bool)) and len(str(value)) <= 255\<close>; the representation
  of a float or a boolean is never that long.\<close>

fun compact_value :: "json \<Rightarrow> bool" where
  "compact_value (JStr s) = (length s \<le> 255)"
| "compact_value (JInt i) = (length (int_str i) \<le> 255)"
| "compact_value (JFloat f) = True"
| "compact_value (JBool b) = True"
| "compact_value _ = False"

text \<open>The loop runs over a set, so the order of the keys is not determined: the model keeps the
  order of the literal.\<close>

definition compact_worker_diagnostics :: "json option \<Rightarrow> (str \<times> json) list \<Rightarrow> json" where
  "compact_worker_diagnostics raw summary =
    (let compact = (case raw of
           Some (JDict kvs) \<Rightarrow>
             foldl (\<lambda>acc key. case map_of kvs key of
                 None \<Rightarrow> acc
               | Some value \<Rightarrow> if compact_value value then AList.update key value acc else acc)
               [] allowed_keys
         | _ \<Rightarrow> [])
     in JDict (foldl (\<lambda>acc (key, value). AList.update key value acc) compact summary))"

definition opt_json :: "real option \<Rightarrow> json" where
  "opt_json x = (case x of None \<Rightarrow> JNull | Some r \<Rightarrow> JFloat (Fin r))"

section \<open>Status of the photo\<close>

definition mark_photo_ready_if_jobs_done :: "uuid \<Rightarrow> session \<Rightarrow> session" where
  "mark_photo_ready_if_jobs_done pid s =
    (let statuses = photo_job_statuses pid (flushed s) in
     if all_terminal statuses then
       (let completed_count = length (filter (\<lambda>st. st = Completed) statuses) in
        orm (update_photo pid (\<lambda>p. p\<lparr>ph_status :=
          (if completed_count = length statuses then PhotoReady
           else if completed_count \<noteq> 0 then PhotoPartiallyReady
           else PhotoFailed)\<rparr>)) s)
     else if statuses \<noteq> [] then orm (update_photo pid (\<lambda>p. p\<lparr>ph_status := PhotoProcessing\<rparr>)) s
     else s)"

section \<open>Text detections\<close>

record ocr_payload =
  op_detected_text :: str
  op_normalized_text :: str
  op_confidence :: "real option"
  op_bounding_box_json :: "json option"

text \<open>The dictionary \<^verbatim>\<open>participants_by_bib\<close>: the last participant with a token wins.\<close>

definition participants_by_bib :: "participant list \<Rightarrow> str \<Rightarrow> participant option" where
  "participants_by_bib rows token =
     map_of (rev (map (\<lambda>p. (normalize_match_token (pa_bib_number p), p))
        (filter (\<lambda>p. normalize_match_token (pa_bib_number p) \<noteq> []) rows))) token"

definition event_participants :: "uuid \<Rightarrow> db \<Rightarrow> participant list" where
  "event_participants event_id d = filter (\<lambda>p. pa_event_id p = event_id) (participants d)"

definition match_candidate ::
    "time \<Rightarrow> photo \<Rightarrow> (str \<Rightarrow> participant option) \<Rightarrow> text_detection \<Rightarrow> session \<Rightarrow> str \<Rightarrow> session" where
  "match_candidate now photo by_bib detection s candidate_value =
    (case by_bib candidate_value of
       None \<Rightarrow> s
     | Some participant \<Rightarrow>
         upsert_final_photo_participant_match now (ph_event_id photo) (ph_id photo)
           (pa_id participant) SrcOcr candidate_value (td_confidence detection) s)"

definition create_ocr_participant_matches ::
    "time \<Rightarrow> photo \<Rightarrow> text_detection list \<Rightarrow> session \<Rightarrow> session" where
  "create_ocr_participant_matches now photo detections s =
    (let by_bib = participants_by_bib (event_participants (ph_event_id photo) (flushed s)) in
     foldl (\<lambda>s detection.
         foldl (match_candidate now photo by_bib detection) s
           (extract_match_candidates (td_detected_text detection))) s detections)"

text \<open>The detections whose two texts are not blank become rows, in order.\<close>

fun store_detections :: "time \<Rightarrow> (nat \<Rightarrow> uuid) \<Rightarrow> uuid \<Rightarrow> uuid \<Rightarrow> nat \<Rightarrow> ocr_payload list \<Rightarrow>
    text_detection list" where
  "store_detections now ids pid jid n [] = []"
| "store_detections now ids pid jid n (p # ps) =
     (let detected_text = strip (op_detected_text p);
          normalized_text = strip (op_normalized_text p)
      in if detected_text = [] \<or> normalized_text = [] then store_detections now ids pid jid n ps
         else \<lparr>td_id = ids n, td_photo_id = pid, td_photo_job_id = jid,
                td_detected_text = detected_text, td_normalized_text = normalized_text,
                td_confidence = op_confidence p, td_bounding_box_json = op_bounding_box_json p,
                td_created_at = now\<rparr> # store_detections now ids pid jid (Suc n) ps)"

definition finish_job :: "time \<Rightarrow> json \<Rightarrow> job \<Rightarrow> job" where
  "finish_job now raw job = job\<lparr>j_status := Completed, j_raw_response_json := Some raw,
     j_finished_at := Some now\<rparr>"

definition complete_photo_ocr_job ::
    "time \<Rightarrow> (nat \<Rightarrow> uuid) \<Rightarrow> job \<Rightarrow> photo \<Rightarrow> ocr_payload list \<Rightarrow> json option \<Rightarrow> session \<Rightarrow> session" where
  "complete_photo_ocr_job now ids job photo detections raw s =
    (let s1 = dml (\<lambda>d. d\<lparr>text_detections :=
                filter (\<lambda>t. td_photo_job_id t \<noteq> j_id job) (text_detections d)\<rparr>) s;
         stored = store_detections now ids (ph_id photo) (j_id job) 0 detections;
         s2 = flush (orm (\<lambda>d. d\<lparr>text_detections := text_detections d @ stored\<rparr>) s1);
         s3 = create_ocr_participant_matches now photo stored s2;
         s4 = flush (orm (update_job PhotoJobs (j_id job) (finish_job now
                (compact_worker_diagnostics raw
                  [(''detection_count'', JInt (int (length stored)))]))) s3)
     in commit (mark_photo_ready_if_jobs_done (ph_id photo) s4))"

section \<open>Faces of a photo\<close>

record face_payload =
  fp_face_index :: int
  fp_embedding :: "pyfloat list"
  fp_bounding_box_json :: "json option"
  fp_detection_score :: "real option"
  fp_quality_score :: "real option"

fun store_faces :: "time \<Rightarrow> (nat \<Rightarrow> uuid) \<Rightarrow> photo \<Rightarrow> uuid \<Rightarrow> nat \<Rightarrow> face_payload list \<Rightarrow>
    face_detection list" where
  "store_faces now ids photo jid n [] = []"
| "store_faces now ids photo jid n (p # ps) =
     (let embedding = normalize_float_list (fp_embedding p) in
      if embedding = [] then store_faces now ids photo jid n ps
      else \<lparr>fd_id = ids n, fd_event_id = ph_event_id photo, fd_photo_id = ph_id photo,
             fd_photo_job_id = jid, fd_face_index = fp_face_index p, fd_embedding_json = embedding,
             fd_bounding_box_json = fp_bounding_box_json p,
             fd_detection_score = fp_detection_score p, fd_quality_score = fp_quality_score p,
             fd_created_at = now\<rparr> # store_faces now ids photo jid (Suc n) ps)"

definition complete_photo_face_job ::
    "time \<Rightarrow> (nat \<Rightarrow> uuid) \<Rightarrow> job \<Rightarrow> photo \<Rightarrow> face_payload list \<Rightarrow> json option \<Rightarrow> session \<Rightarrow> session" where
  "complete_photo_face_job now ids job photo detections raw s =
    (let s1 = dml (\<lambda>d. d\<lparr>face_detections :=
                filter (\<lambda>f. fd_photo_job_id f \<noteq> j_id job) (face_detections d)\<rparr>) s;
         stored = store_faces now ids photo (j_id job) 0 detections;
         s2 = flush (orm (\<lambda>d. d\<lparr>face_detections := face_detections d @ stored\<rparr>) s1);
         s3 = flush (orm (update_job PhotoJobs (j_id job) (finish_job now
                (compact_worker_diagnostics raw [(''face_count'', JInt (int (length stored)))]))) s2)
     in commit (mark_photo_ready_if_jobs_done (ph_id photo) s3))"

definition fail_photo_job :: "time \<Rightarrow> job \<Rightarrow> uuid \<Rightarrow> str \<Rightarrow> session \<Rightarrow> session" where
  "fail_photo_job now job pid error_message s =
    (let s1 = flush (orm (update_job PhotoJobs (j_id job) (\<lambda>j. j\<lparr>j_status := Failed,
                j_error_message := Some (take 2000 error_message), j_finished_at := Some now\<rparr>)) s)
     in commit (mark_photo_ready_if_jobs_done pid s1))"

end
