(* ===== verification/Search.thy ===== *)
theory Search
  imports Completion
begin

text \<open>
  Face matching and face search, from \<^verbatim>\<open>backend/app/face.py\<close>: the matches of an enrolled
  participant (lines 531 to 564 and 1144 to 1235), the bounded selection of the best results of a
  search (885 to 945), its adaptive reinforcement (948 to 1016), the completion and failure of a
  search job (585 to 629, 872 to 882) and the bib-only session (632 to 667).
\<close>

section \<open>Matches of a detection with enrolled participants\<close>

definition merge_face_match :: "face_match \<Rightarrow> face_match \<Rightarrow> face_match" where
  "merge_face_match current excluded = current\<lparr>fm_similarity_score :=
     (if fm_similarity_score excluded \<le> fm_similarity_score current
      then fm_similarity_score current else fm_similarity_score excluded)\<rparr>"

fun best_by_participant ::
    "settings \<Rightarrow> face_detection \<Rightarrow> face_embedding list \<Rightarrow> (uuid \<times> real) list \<Rightarrow> (uuid \<times> real) list" where
  "best_by_participant cfg detection [] best = best"
| "best_by_participant cfg detection (e # es) best =
     (let score = cosine_similarity (fd_embedding_json detection) (fe_embedding_json e) in
      if score < face_match_similarity_threshold cfg then best_by_participant cfg detection es best
      else
        (case map_of best (fe_participant_id e) of
           None \<Rightarrow> best_by_participant cfg detection es (AList.update (fe_participant_id e) score best)
         | Some current \<Rightarrow>
             if score > current
             then best_by_participant cfg detection es (AList.update (fe_participant_id e) score best)
             else best_by_participant cfg detection es best))"

definition write_face_match :: "time \<Rightarrow> face_detection \<Rightarrow> session \<Rightarrow> uuid \<times> real \<Rightarrow> session" where
  "write_face_match now detection s item =
    (case item of (participant_id, score) \<Rightarrow>
       (let s1 = dml (\<lambda>d. d\<lparr>face_matches := upsert face_match_key merge_face_match
              \<lparr>fm_event_id = fd_event_id detection, fm_photo_id = fd_photo_id detection,
               fm_detection_id = fd_id detection, fm_participant_id = participant_id,
               fm_similarity_score = score, fm_created_at = now\<rparr> (face_matches d)\<rparr>) s
        in upsert_final_photo_participant_match now (fd_event_id detection) (fd_photo_id detection)
             participant_id SrcFace (format_fixed 4 score) (Some score) s1))"

definition create_face_matches ::
    "settings \<Rightarrow> time \<Rightarrow> face_detection \<Rightarrow> face_embedding list \<Rightarrow> session \<Rightarrow> int \<times> session" where
  "create_face_matches cfg now detection embeddings s =
    (let best = best_by_participant cfg detection embeddings []
     in (int (length best), foldl (write_face_match now detection) s best))"

definition create_face_participant_matches_for_detection ::
    "settings \<Rightarrow> time \<Rightarrow> face_detection \<Rightarrow> session \<Rightarrow> int \<times> session" where
  "create_face_participant_matches_for_detection cfg now detection s =
     create_face_matches cfg now detection
       (filter (\<lambda>e. fe_event_id e = fd_event_id detection) (face_embeddings (flushed s))) s"

definition create_face_participant_matches_for_participant ::
    "settings \<Rightarrow> time \<Rightarrow> uuid \<Rightarrow> uuid \<Rightarrow> session \<Rightarrow> int \<times> session" where
  "create_face_participant_matches_for_participant cfg now participant_id event_id s =
    (let detections = filter (\<lambda>f. fd_event_id f = event_id) (face_detections (flushed s));
         embeddings = filter (\<lambda>e. fe_event_id e = event_id \<and> fe_participant_id e = participant_id)
           (face_embeddings (flushed s))
     in foldl (\<lambda>(created_count, s) detection.
          (case create_face_matches cfg now detection embeddings s of
             (n, s') \<Rightarrow> (created_count + n, s'))) (0, s) detections)"

record embedding_payload =
  ep_embedding :: "pyfloat list"
  ep_bounding_box_json :: "json option"
  ep_detection_score :: "real option"
  ep_quality_score :: "real option"
  ep_raw_response_json :: "json option"

definition complete_participant_face_job ::
    "settings \<Rightarrow> time \<Rightarrow> job \<Rightarrow> embedding_payload \<Rightarrow> session \<Rightarrow> unit result \<times> session" where
  "complete_participant_face_job cfg now job p s =
    (let normalized = normalize_float_list (ep_embedding p) in
     if normalized = []
     then (Inl (ValueError ''Face enrollment result did not include an embedding.''), s)
     else
       (case j_parent job of
          OfFaceImage event_id participant_id image_id \<Rightarrow>
            (let s1 = orm (\<lambda>d. d\<lparr>face_embeddings := face_embeddings d @
                   [\<lparr>fe_event_id = event_id, fe_participant_id = participant_id,
                     fe_face_image_id = image_id, fe_embedding_json = normalized,
                     fe_bounding_box_json = ep_bounding_box_json p,
                     fe_detection_score = ep_detection_score p,
                     fe_quality_score = ep_quality_score p\<rparr>]\<rparr>) s;
                 s2 = orm (update_face_image image_id
                   (\<lambda>i. i\<lparr>fi_status := ImageReady, fi_error_message := None\<rparr>)) s1;
                 s3 = flush (orm (update_job ParticipantFaceJobs (j_id job) (finish_job now
                   (compact_worker_diagnostics (ep_raw_response_json p)
                     [(''face_count'', JInt 1)]))) s2);
                 s4 = snd (create_face_participant_matches_for_participant cfg now participant_id
                   event_id s3)
             in (Inr (), commit s4))
        | _ \<Rightarrow> (Inr (), s)))"

definition fail_participant_face_job :: "time \<Rightarrow> job \<Rightarrow> uuid \<Rightarrow> str \<Rightarrow> session \<Rightarrow> session" where
  "fail_participant_face_job now job image_id error_message s =
     commit (orm (update_face_image image_id (\<lambda>i. i\<lparr>fi_status := ImageFailed,
         fi_error_message := Some (take 2000 error_message)\<rparr>))
       (orm (update_job ParticipantFaceJobs (j_id job) (\<lambda>j. j\<lparr>j_status := Failed,
         j_error_message := Some (take 2000 error_message), j_finished_at := Some now\<rparr>)) s))"

section \<open>The best results of a search\<close>

text \<open>
  \<^verbatim>\<open>candidates\<close> is a \<^verbatim>\<open>heapq\<close> of tuples \<^verbatim>\<open>(score, str(id), id, photo_id)\<close>.  The code reads its
  least element, replaces it, and sorts it at the end: the model keeps the elements as an ascending
  list.  The lower-case form of a UUID orders as its 128-bit value, so the score and the identifier
  are the key.
\<close>

type_synonym candidate = "real \<times> uuid \<times> uuid"

definition candidate_key :: "candidate \<Rightarrow> real \<times> uuid" where
  "candidate_key c = (fst c, fst (snd c))"

definition offer :: "settings \<Rightarrow> candidate \<Rightarrow> candidate list \<Rightarrow> candidate list result" where
  "offer cfg item candidates =
    (if int (length candidates) < max_search_results cfg
     then Inr (insort_key candidate_key item candidates)
     else case candidates of
            [] \<Rightarrow> Inl (IndexError ''list index out of range'')
          | least # rest \<Rightarrow>
              if fst item > fst least then Inr (insort_key candidate_key item rest)
              else Inr candidates)"

fun collect_candidates ::
    "settings \<Rightarrow> real list \<Rightarrow> face_detection list \<Rightarrow> candidate list \<Rightarrow> candidate list result" where
  "collect_candidates cfg embedding [] candidates = Inr candidates"
| "collect_candidates cfg embedding (f # fs) candidates =
     (let score = cosine_similarity embedding (fd_embedding_json f) in
      if score < face_candidate_similarity_threshold cfg
      then collect_candidates cfg embedding fs candidates
      else case offer cfg (score, fd_id f, fd_photo_id f) candidates of
             Inl e \<Rightarrow> Inl e
           | Inr candidates' \<Rightarrow> collect_candidates cfg embedding fs candidates')"

definition merge_search_result :: "search_result \<Rightarrow> search_result \<Rightarrow> search_result" where
  "merge_search_result current excluded = current
     \<lparr>sr_similarity_score :=
        (if sr_similarity_score excluded \<le> sr_similarity_score current
         then sr_similarity_score current else sr_similarity_score excluded),
      sr_photo_id := sr_photo_id excluded\<rparr>"

definition result_row :: "time \<Rightarrow> uuid \<Rightarrow> uuid \<Rightarrow> candidate \<Rightarrow> search_result" where
  "result_row now event_id session_id c =
    (case c of (score, detection_id, photo_id) \<Rightarrow>
       \<lparr>sr_event_id = event_id, sr_search_session_id = session_id, sr_photo_id = photo_id,
        sr_detection_id = detection_id, sr_similarity_score = score, sr_created_at = now\<rparr>)"

definition write_results :: "search_result list \<Rightarrow> db \<Rightarrow> db" where
  "write_results rows d = d\<lparr>search_results :=
     foldl (\<lambda>t r. upsert search_result_key merge_search_result r t) (search_results d) rows\<rparr>"

definition event_faces :: "uuid \<Rightarrow> db \<Rightarrow> face_detection list" where
  "event_faces event_id d = filter (\<lambda>f. fd_event_id f = event_id) (face_detections d)"

definition create_face_search_results ::
    "settings \<Rightarrow> time \<Rightarrow> uuid \<Rightarrow> uuid \<Rightarrow> real list \<Rightarrow> session \<Rightarrow> int result \<times> session" where
  "create_face_search_results cfg now event_id session_id embedding s =
    (let faces = event_faces event_id (flushed s) in
     if int (length faces) > max_search_faces_per_event cfg then
       (Inl (RuntimeError
         ''This event is still being indexed for face search. Please try again later.''), s)
     else
       (case collect_candidates cfg embedding faces [] of
          Inl e \<Rightarrow> (Inl e, s)
        | Inr candidates \<Rightarrow>
            (Inr (int (length candidates)),
             dml (write_results (map (result_row now event_id session_id) (rev candidates))) s)))"

section \<open>Adaptive reinforcement\<close>

text \<open>
  The second round selects rows the identity map already holds.  They were changed by statements,
  which do not refresh it, so their \<^verbatim>\<open>similarity_score\<close> attribute is still the one the first round
  read, while \<^verbatim>\<open>ORDER BY\<close> uses the table: \<^verbatim>\<open>rf_cache\<close> is that part of the identity map.
\<close>

record reinforcement =
  rf_session :: session
  rf_total :: int
  rf_round :: int
  rf_ids :: "uuid list"
  rf_cache :: "((uuid \<times> uuid) \<times> real) list"

definition cached_score :: "((uuid \<times> uuid) \<times> real) list \<Rightarrow> search_result \<Rightarrow> real" where
  "cached_score cache r =
    (case map_of cache (search_result_key r) of Some x \<Rightarrow> x | None \<Rightarrow> sr_similarity_score r)"

definition passes :: "settings \<Rightarrow> bool \<Rightarrow> str \<Rightarrow> text_detection list \<Rightarrow> real \<Rightarrow> bool" where
  "passes cfg require_exact_bib bib texts score =
    (if require_exact_bib then
       has_exact_bib_match texts bib \<and> \<not> score < face_reinforcement_similarity_threshold cfg
     else should_reinforce_face cfg score (be_strength (score_bib_evidence texts bib)))"

text \<open>One round over its candidates: the flag says whether the bound was reached, which ends both
  rounds.\<close>

fun reinforce_round :: "settings \<Rightarrow> time \<Rightarrow> uuid \<Rightarrow> uuid \<Rightarrow> str \<Rightarrow> bool \<Rightarrow> search_result list \<Rightarrow>
    reinforcement \<Rightarrow> bool result \<times> reinforcement" where
  "reinforce_round cfg now event_id sid bib exact [] st = (Inr False, st)"
| "reinforce_round cfg now event_id sid bib exact (r # rs) st =
     (if face_reinforcement_max_embeddings cfg \<le> rf_total st then (Inr True, st)
      else
        (case (row_at ph_id (sr_photo_id r) (photos (flushed (rf_session st))),
               row_at fd_id (sr_detection_id r) (face_detections (flushed (rf_session st)))) of
           (Some photo, Some detection) \<Rightarrow>
             (let texts = photo_texts (flushed (rf_session st)) (ph_id photo);
                  embedding = normalize_embedding_payload (fd_embedding_json detection)
              in if \<not> passes cfg exact bib texts (cached_score (rf_cache st) r)
                    \<or> embedding = [] \<or> fd_id detection \<in> set (rf_ids st)
                 then reinforce_round cfg now event_id sid bib exact rs st
                 else
                   (case create_face_search_results cfg now event_id sid embedding
                           (rf_session st) of
                      (Inl e, s') \<Rightarrow> (Inl e, st\<lparr>rf_session := s'\<rparr>)
                    | (Inr _, s') \<Rightarrow>
                        reinforce_round cfg now event_id sid bib exact rs
                          (st\<lparr>rf_session := s', rf_ids := fd_id detection # rf_ids st,
                              rf_total := rf_total st + 1, rf_round := rf_round st + 1\<rparr>)))
         | _ \<Rightarrow> reinforce_round cfg now event_id sid bib exact rs st))"

definition round_candidates :: "settings \<Rightarrow> uuid \<Rightarrow> db \<Rightarrow> search_result list" where
  "round_candidates cfg sid d =
     order_limit (\<lambda>r. - sr_similarity_score r) (nat (max_search_results cfg))
       (filter (\<lambda>r. sr_search_session_id r = sid) (search_results d))"

definition load_candidates :: "search_result list \<Rightarrow> reinforcement \<Rightarrow> reinforcement" where
  "load_candidates rs st = st\<lparr>rf_round := 0,
     rf_cache := rf_cache st @ map (\<lambda>r. (search_result_key r, sr_similarity_score r)) rs\<rparr>"

fun reinforce_rounds :: "settings \<Rightarrow> time \<Rightarrow> uuid \<Rightarrow> uuid \<Rightarrow> str \<Rightarrow> bool \<Rightarrow> nat \<Rightarrow>
    reinforcement \<Rightarrow> int result \<times> reinforcement" where
  "reinforce_rounds cfg now event_id sid bib exact 0 st = (Inr (rf_total st), st)"
| "reinforce_rounds cfg now event_id sid bib exact (Suc n) st =
     (let candidates = round_candidates cfg sid (flushed (rf_session st)) in
      case reinforce_round cfg now event_id sid bib exact candidates (load_candidates candidates st) of
        (Inl e, st') \<Rightarrow> (Inl e, st')
      | (Inr True, st') \<Rightarrow> (Inr (rf_total st'), st')
      | (Inr False, st') \<Rightarrow>
          if rf_round st' = 0 then (Inr (rf_total st'), st')
          else reinforce_rounds cfg now event_id sid bib exact n st')"

definition apply_adaptive_reinforcement ::
    "settings \<Rightarrow> time \<Rightarrow> search_session \<Rightarrow> bool \<Rightarrow> session \<Rightarrow> int result \<times> session" where
  "apply_adaptive_reinforcement cfg now ss exact s =
    (case fs_participant_id ss of
       None \<Rightarrow> (Inr 0, s)
     | Some pid \<Rightarrow>
         (case row_at pa_id pid (participants (live s)) of
            None \<Rightarrow> (Inr 0, s)
          | Some participant \<Rightarrow>
              (case reinforce_rounds cfg now (fs_event_id ss) (fs_id ss) (pa_bib_number participant)
                      exact 2 \<lparr>rf_session = s, rf_total = 0, rf_round = 0, rf_ids = [], rf_cache = []\<rparr>
               of (r, st) \<Rightarrow> (r, rf_session st))))"

section \<open>The end of a search\<close>

definition mark_face_search_session_done_if_jobs_done :: "time \<Rightarrow> uuid \<Rightarrow> session \<Rightarrow> session" where
  "mark_face_search_session_done_if_jobs_done now sid s =
    (let statuses = search_job_statuses sid (flushed s) in
     if all_terminal statuses then
       orm (update_search_session sid (\<lambda>x. x\<lparr>fs_status :=
           (if \<exists>st \<in> set statuses. st = Completed then SessionCompleted else SessionFailed),
         fs_finished_at := Some now\<rparr>)) s
     else if statuses \<noteq> []
     then orm (update_search_session sid (\<lambda>x. x\<lparr>fs_status := SessionProcessing\<rparr>)) s
     else s)"

text \<open>The rows of the probe, written once its results are: lines 606 to 615.\<close>

definition probe_rows :: "time \<Rightarrow> job \<Rightarrow> uuid \<Rightarrow> embedding_payload \<Rightarrow> int \<Rightarrow> db \<Rightarrow> db" where
  "probe_rows now job image_id p matched_count d =
     update_job FaceSearchJobs (j_id job) (finish_job now
         (compact_worker_diagnostics (ep_raw_response_json p)
           [(''detection_score'', opt_json (ep_detection_score p)),
            (''quality_score'', opt_json (ep_quality_score p)),
            (''matched_count'', JInt matched_count)]))
       (update_search_image image_id
         (\<lambda>i. i\<lparr>si_status := ImageReady, si_error_message := None\<rparr>) d)"

definition reinforce_if_participant ::
    "settings \<Rightarrow> time \<Rightarrow> search_session \<Rightarrow> session \<Rightarrow> int result \<times> session" where
  "reinforce_if_participant cfg now ss s =
     (if fs_participant_id ss \<noteq> None then apply_adaptive_reinforcement cfg now ss False s
      else (Inr 0, s))"

definition complete_face_search_job ::
    "settings \<Rightarrow> time \<Rightarrow> job \<Rightarrow> search_session \<Rightarrow> embedding_payload \<Rightarrow> session \<Rightarrow>
     unit result \<times> session" where
  "complete_face_search_job cfg now job ss p s =
    (let normalized = normalize_float_list (ep_embedding p) in
     if normalized = []
     then (Inl (ValueError ''Face search result did not include an embedding.''), s)
     else
       (case j_parent job of
          OfSearch event_id sid image_id \<Rightarrow>
            (case create_face_search_results cfg now event_id sid normalized s of
               (Inl e, s1) \<Rightarrow> (Inl e, s1)
             | (Inr matched_count, s1) \<Rightarrow>
                 (case reinforce_if_participant cfg now ss
                         (orm (probe_rows now job image_id p matched_count) s1) of
                    (Inl e, s2) \<Rightarrow> (Inl e, s2)
                  | (Inr _, s2) \<Rightarrow>
                      (Inr (), commit (mark_face_search_session_done_if_jobs_done now sid s2))))
        | _ \<Rightarrow> (Inr (), s)))"

definition fail_face_search_job ::
    "time \<Rightarrow> job \<Rightarrow> uuid \<Rightarrow> uuid \<Rightarrow> str \<Rightarrow> session \<Rightarrow> session" where
  "fail_face_search_job now job sid image_id error_message s =
     commit (mark_face_search_session_done_if_jobs_done now sid
       (orm (update_search_image image_id (\<lambda>i. i\<lparr>si_status := ImageFailed,
           si_error_message := Some (take 2000 error_message)\<rparr>))
         (orm (update_job FaceSearchJobs (j_id job) (\<lambda>j. j\<lparr>j_status := Failed,
           j_error_message := Some (take 2000 error_message), j_finished_at := Some now\<rparr>)) s)))"

section \<open>A search from a bib number only\<close>

fun search_seeds ::
    "settings \<Rightarrow> time \<Rightarrow> uuid \<Rightarrow> uuid \<Rightarrow> real list list \<Rightarrow> session \<Rightarrow> unit result \<times> session" where
  "search_seeds cfg now event_id sid [] s = (Inr (), s)"
| "search_seeds cfg now event_id sid (e # es) s =
     (case create_face_search_results cfg now event_id sid e s of
        (Inl x, s') \<Rightarrow> (Inl x, s')
      | (Inr _, s') \<Rightarrow> search_seeds cfg now event_id sid es s')"

definition bib_only_session :: "settings \<Rightarrow> time \<Rightarrow> uuid \<Rightarrow> uuid \<Rightarrow> uuid \<Rightarrow> search_session" where
  "bib_only_session cfg now sid event_id participant_id =
     \<lparr>fs_id = sid, fs_event_id = event_id, fs_participant_id = Some participant_id,
      fs_status = SessionProcessing, fs_error_message = None,
      fs_expires_at = now + seconds (3600 * max 1 (biometric_retention_hours cfg)),
      fs_capability_hash = None, fs_owner_binding_hash = None, fs_created_at = now,
      fs_finished_at = None\<rparr>"

definition create_bib_only_face_search_session ::
    "settings \<Rightarrow> time \<Rightarrow> uuid \<Rightarrow> uuid \<Rightarrow> participant \<Rightarrow> session \<Rightarrow> (uuid \<times> int) result \<times> session" where
  "create_bib_only_face_search_session cfg now sid event_id participant s =
    (let ss = bib_only_session cfg now sid event_id (pa_id participant);
         s1 = flush (orm (\<lambda>d. d\<lparr>search_sessions := search_sessions d @ [ss]\<rparr>) s);
         seeds = select_bib_only_seed_embeddings cfg (flushed s1) event_id participant
     in case search_seeds cfg now event_id sid (take 3 seeds) s1 of
          (Inl e, s2) \<Rightarrow> (Inl e, s2)
        | (Inr _, s2) \<Rightarrow>
            (case (if seeds \<noteq> [] then apply_adaptive_reinforcement cfg now ss True s2
                   else (Inr 0, s2)) of
               (Inl e, s3) \<Rightarrow> (Inl e, s3)
             | (Inr _, s3) \<Rightarrow>
                 (Inr (sid, int (length seeds)),
                  commit (orm (update_search_session sid (\<lambda>x. x\<lparr>fs_status := SessionCompleted,
                    fs_finished_at := Some now\<rparr>)) s3))))"

end
