(* ===== verification/SearchFacts.thy ===== *)
theory SearchFacts
  imports Search EmbeddingFacts "HOL-Library.Multiset"
begin

text \<open>
  Properties of the face search: the bounded selection keeps the best candidates, its result rows
  are merged by key without losing a better score, and the reinforcement and the bib-only search
  write nothing but such rows of their own session.
\<close>

interpretation search_table: upsert_table search_result_key merge_search_result
  by unfold_locales (simp add: search_result_key_def merge_search_result_def)

section \<open>The selection of the best candidates\<close>

definition best_of :: "nat \<Rightarrow> candidate list \<Rightarrow> candidate list \<Rightarrow> bool" where
  "best_of k seen cs \<longleftrightarrow> sorted (map candidate_key cs) \<and> length cs = min k (length seen) \<and>
     mset cs \<subseteq># mset seen \<and> (\<forall>x \<in># mset seen - mset cs. \<forall>c \<in> set cs. fst x \<le> fst c)"

lemma candidate_key_fst: "candidate_key a \<le> candidate_key b \<Longrightarrow> fst a \<le> fst b"
  by (auto simp: candidate_key_def less_eq_prod_def)

lemma least_first:
  "sorted (map candidate_key (least # rest)) \<Longrightarrow> c \<in> set rest \<Longrightarrow> fst least \<le> fst c"
  by (auto intro: candidate_key_fst)

lemma best_of_grow:
  assumes "best_of k seen cs" and "length cs < k"
  shows "best_of k (seen @ [item]) (insort_key candidate_key item cs)"
proof -
  from assms have "length cs = length seen" "mset cs \<subseteq># mset seen" by (auto simp: best_of_def)
  then have "mset seen = mset cs"
    by (metis mset_subset_size size_mset subset_mset.le_neq_trans less_irrefl)
  with assms show ?thesis
    by (auto simp: best_of_def sorted_insort_key)
qed

lemma best_of_keep:
  assumes b: "best_of k seen (least # rest)" and full: "\<not> length (least # rest) < k"
    and le: "fst item \<le> fst least"
  shows "best_of k (seen @ [item]) (least # rest)"
proof -
  have sub: "mset (least # rest) \<subseteq># mset seen" and srt: "sorted (map candidate_key (least # rest))"
    using b by (auto simp: best_of_def)
  have "mset (seen @ [item]) - mset (least # rest) = (mset seen - mset (least # rest)) + {#item#}"
    using sub by (auto simp: mset_subset_eq_exists_conv)
  moreover have "\<forall>c \<in> set (least # rest). fst item \<le> fst c"
    using le least_first[OF srt] by fastforce
  ultimately show ?thesis using b full sub
    by (auto simp: best_of_def intro: subset_mset.order_trans)
qed

lemma best_of_replace:
  assumes b: "best_of k seen (least # rest)" and full: "\<not> length (least # rest) < k"
    and gt: "fst least < fst item"
  shows "best_of k (seen @ [item]) (insort_key candidate_key item rest)"
proof -
  let ?cs = "insort_key candidate_key item rest"
  have sub: "mset (least # rest) \<subseteq># mset seen" and srt: "sorted (map candidate_key (least # rest))"
    and len: "length (least # rest) = min k (length seen)"
    and old: "\<forall>x \<in># mset seen - mset (least # rest). \<forall>c \<in> set (least # rest). fst x \<le> fst c"
    using b unfolding best_of_def by blast+
  have d: "mset (seen @ [item]) - mset ?cs = (mset seen - mset (least # rest)) + {#least#}"
  proof -
    obtain M where M: "mset seen = mset (least # rest) + M" using sub by (metis mset_subset_eq_exists_conv)
    then show ?thesis by simp
  qed
  have "mset ?cs \<subseteq># mset (seen @ [item])"
  proof -
    have "mset rest \<subseteq># mset seen" using sub by (metis mset.simps(2) mset_subset_eq_insertD subset_mset.less_imp_le)
    then show ?thesis by simp
  qed
  moreover have "\<forall>c \<in> set ?cs. fst least \<le> fst c"
    using gt least_first[OF srt] by (auto simp: set_insort_key)
  moreover have "\<forall>x \<in># mset seen - mset (least # rest). \<forall>c \<in> set ?cs. fst x \<le> fst c"
    using old gt by (force simp: set_insort_key)
  moreover have "length ?cs = min k (length (seen @ [item]))" using len full by simp
  moreover have "sorted (map candidate_key ?cs)" using srt by (simp add: sorted_insort_key)
  ultimately show ?thesis unfolding best_of_def d by (simp add: ball_Un)
qed

lemma offer_best_of:
  assumes "0 < max_search_results cfg" and "best_of (nat (max_search_results cfg)) seen cs"
  shows "\<exists>cs'. offer cfg item cs = Inr cs' \<and> best_of (nat (max_search_results cfg)) (seen @ [item]) cs'"
proof (cases "int (length cs) < max_search_results cfg")
  case True
  then have "length cs < nat (max_search_results cfg)" by linarith
  with assms True show ?thesis by (auto simp: offer_def intro: best_of_grow)
next
  case False
  with assms(1) obtain least rest where cs: "cs = least # rest" by (cases cs) auto
  have full: "\<not> length (least # rest) < nat (max_search_results cfg)" using False cs by auto
  show ?thesis
  proof (cases "fst least < fst item")
    case True
    with best_of_replace[OF assms(2)[unfolded cs] full True] False show ?thesis
      by (simp add: offer_def cs)
  next
    case ge: False
    with best_of_keep[OF assms(2)[unfolded cs] full, of item] False show ?thesis
      by (simp add: offer_def cs)
  qed
qed

text \<open>The candidates of an event: its faces that reach the candidate threshold.\<close>

definition eligible :: "settings \<Rightarrow> real list \<Rightarrow> face_detection list \<Rightarrow> candidate list" where
  "eligible cfg e faces =
     map (\<lambda>f. (cosine_similarity e (fd_embedding_json f), fd_id f, fd_photo_id f))
       (filter (\<lambda>f. face_candidate_similarity_threshold cfg \<le> cosine_similarity e (fd_embedding_json f))
         faces)"

lemma collect_best_of:
  assumes "0 < max_search_results cfg" and "best_of (nat (max_search_results cfg)) seen cs"
  shows "\<exists>cs'. collect_candidates cfg e faces cs = Inr cs' \<and>
    best_of (nat (max_search_results cfg)) (seen @ eligible cfg e faces) cs'"
  using assms(2)
proof (induction faces arbitrary: seen cs)
  case (Cons f fs)
  let ?score = "cosine_similarity e (fd_embedding_json f)"
  show ?case
  proof (cases "?score < face_candidate_similarity_threshold cfg")
    case True
    with Cons show ?thesis by (simp add: eligible_def)
  next
    case False
    let ?item = "(?score, fd_id f, fd_photo_id f)"
    obtain cs' where "offer cfg ?item cs = Inr cs'"
      "best_of (nat (max_search_results cfg)) (seen @ [?item]) cs'"
      using offer_best_of[OF assms(1) Cons.prems] by blast
    with Cons.IH[of "seen @ [?item]" cs'] False show ?thesis by (simp add: eligible_def)
  qed
qed (simp add: eligible_def)

text \<open>C40 (functional): with a positive result bound the streaming selection never fails; it returns
  the bound's number of candidates, or all of them when there are fewer, all of them faces that
  reach the candidate threshold, and no face it dropped scores higher than one it kept.\<close>

theorem search_selects_best:
  assumes "0 < max_search_results cfg"
  shows "\<exists>cs. collect_candidates cfg e faces [] = Inr cs \<and>
    length cs = min (nat (max_search_results cfg)) (length (eligible cfg e faces)) \<and>
    mset cs \<subseteq># mset (eligible cfg e faces) \<and>
    (\<forall>x \<in># mset (eligible cfg e faces) - mset cs. \<forall>c \<in> set cs. fst x \<le> fst c)"
proof -
  have "best_of (nat (max_search_results cfg)) [] []" by (simp add: best_of_def)
  from collect_best_of[OF assms this, of e faces] show ?thesis by (auto simp: best_of_def)
qed

definition sample_face :: "uuid \<Rightarrow> real \<Rightarrow> face_detection" where
  "sample_face i x = \<lparr>fd_id = i, fd_event_id = 1, fd_photo_id = 2, fd_photo_job_id = 3,
     fd_face_index = 0, fd_embedding_json = [x], fd_bounding_box_json = None,
     fd_detection_score = None, fd_quality_score = None, fd_created_at = 0\<rparr>"

theorem search_selects_best_witness:
  "\<exists>c. collect_candidates (default_settings\<lparr>max_search_results := 1\<rparr>) [1]
      [sample_face 1 1, sample_face 2 1] [] = Inr [c]"
proof -
  let ?cfg = "default_settings\<lparr>max_search_results := 1\<rparr>" and ?fs = "[sample_face 1 1, sample_face 2 1]"
  have "length (eligible ?cfg [1] ?fs) = 2"
    by (simp add: eligible_def cosine_similarity_def dot_def vnorm_def sample_face_def
        default_settings_def)
  then show ?thesis using search_selects_best[of ?cfg "[1]" ?fs]
    by (auto simp: default_settings_def length_Suc_conv)
qed

section \<open>What a search writes\<close>

text \<open>The effect of a group of search steps: rows of one session upserted into the results table, each
  for a face of the event, with a score between the candidate threshold and 1.\<close>

definition result_ok :: "settings \<Rightarrow> uuid \<Rightarrow> uuid \<Rightarrow> db \<Rightarrow> search_result \<Rightarrow> bool" where
  "result_ok cfg event_id sid d r \<longleftrightarrow> sr_search_session_id r = sid \<and> sr_event_id r = event_id \<and>
     face_candidate_similarity_threshold cfg \<le> sr_similarity_score r \<and> sr_similarity_score r \<le> 1 \<and>
     (\<exists>f \<in> set (event_faces event_id d). fd_id f = sr_detection_id r \<and> fd_photo_id f = sr_photo_id r)"

definition writes_results :: "settings \<Rightarrow> uuid \<Rightarrow> uuid \<Rightarrow> session \<Rightarrow> session \<Rightarrow> bool" where
  "writes_results cfg event_id sid s s' \<longleftrightarrow>
     (\<exists>rows. s' = dml (write_results rows) s \<and> list_all (result_ok cfg event_id sid (flushed s)) rows)"

lemma write_results_frame [simp]:
  "photos (write_results rows d) = photos d" "face_detections (write_results rows d) = face_detections d"
  "participants (write_results rows d) = participants d"
  "event_faces e (write_results rows d) = event_faces e d"
  "jobs_of m (write_results rows d) = jobs_of m d"
  "search_job_statuses i (write_results rows d) = search_job_statuses i d"
  "search_sessions (write_results rows d) = search_sessions d"
  by (cases m; simp add: write_results_def event_faces_def search_job_statuses_def)+

lemma dml_dml: "dml f (dml g s) = dml (f \<circ> g) s"
  by (simp add: dml_def)

lemma write_results_append: "write_results b \<circ> write_results a = write_results (a @ b)"
  by (rule ext) (simp add: write_results_def)

lemma writes_refl: "writes_results cfg e sid s s"
proof -
  have "s = dml (write_results []) s" by (simp add: dml_def write_results_def)
  then show ?thesis unfolding writes_results_def by (metis list.pred_inject(1))
qed

lemma writes_trans:
  assumes "writes_results cfg e sid s t" and "writes_results cfg e sid t u"
  shows "writes_results cfg e sid s u"
proof -
  from assms obtain a b where a: "t = dml (write_results a) s" "list_all (result_ok cfg e sid (flushed s)) a"
    and b: "u = dml (write_results b) t" "list_all (result_ok cfg e sid (flushed t)) b"
    unfolding writes_results_def by blast
  have "result_ok cfg e sid (flushed t) = result_ok cfg e sid (flushed s)"
    by (rule ext) (simp add: a(1) result_ok_def)
  with a b have "u = dml (write_results (a @ b)) s" "list_all (result_ok cfg e sid (flushed s)) (a @ b)"
    by (simp_all add: dml_dml write_results_append)
  then show ?thesis unfolding writes_results_def by blast
qed

lemma collect_candidates_sound:
  "collect_candidates cfg e faces cs = Inr cs' \<Longrightarrow> c \<in> set cs' \<Longrightarrow>
   c \<in> set cs \<or> c \<in> set (eligible cfg e faces)"
proof (induction faces arbitrary: cs)
  case (Cons f fs)
  let ?score = "cosine_similarity e (fd_embedding_json f)"
  let ?item = "(?score, fd_id f, fd_photo_id f)"
  show ?case
  proof (cases "?score < face_candidate_similarity_threshold cfg")
    case True
    with Cons show ?thesis by (simp add: eligible_def)
  next
    case False
    with Cons.prems obtain cs1 where o: "offer cfg ?item cs = Inr cs1"
      and rest: "collect_candidates cfg e fs cs1 = Inr cs'" by (auto split: sum.splits)
    from o have "set cs1 \<subseteq> insert ?item (set cs)"
      by (auto simp: offer_def set_insort_key split: if_splits list.splits)
    with Cons.IH[OF rest Cons.prems(2)] False show ?thesis by (auto simp: eligible_def)
  qed
qed simp

lemma create_results_writes:
  "create_face_search_results cfg now event_id sid e s = (r, s') \<Longrightarrow> writes_results cfg event_id sid s s'"
proof -
  assume c: "create_face_search_results cfg now event_id sid e s = (r, s')"
  show ?thesis
  proof (cases "s' = s")
    case True
    then show ?thesis by (simp add: writes_refl)
  next
    case False
    with c obtain cs where col: "collect_candidates cfg e (event_faces event_id (flushed s)) [] = Inr cs"
      and s': "s' = dml (write_results (map (result_row now event_id sid) (rev cs))) s"
      by (auto simp: create_face_search_results_def Let_def split: sum.splits if_splits)
    have "list_all (result_ok cfg event_id sid (flushed s)) (map (result_row now event_id sid) (rev cs))"
      using collect_candidates_sound[OF col] cosine_bounds
      by (fastforce simp: list_all_iff eligible_def result_ok_def result_row_def)
    with s' show ?thesis unfolding writes_results_def by blast
  qed
qed

text \<open>A rule for the round: what every successful or failed search step keeps, the round keeps.\<close>

definition taken :: "reinforcement \<Rightarrow> session \<Rightarrow> uuid \<Rightarrow> reinforcement" where
  "taken st s' i = st\<lparr>rf_session := s', rf_ids := i # rf_ids st, rf_total := rf_total st + 1,
     rf_round := rf_round st + 1\<rparr>"

lemma reinforce_round_invariant:
  assumes "reinforce_round cfg now event_id sid bib exact rs st = (r, st')" and "P st"
    and take: "\<And>st e n s' i. P st \<Longrightarrow> rf_total st < face_reinforcement_max_embeddings cfg \<Longrightarrow>
      i \<notin> set (rf_ids st) \<Longrightarrow>
      create_face_search_results cfg now event_id sid e (rf_session st) = (Inr n, s') \<Longrightarrow> P (taken st s' i)"
    and fail: "\<And>st e x s'. P st \<Longrightarrow>
      create_face_search_results cfg now event_id sid e (rf_session st) = (Inl x, s') \<Longrightarrow>
      P (st\<lparr>rf_session := s'\<rparr>)"
  shows "P st'"
  using assms(1,2)
proof (induction rs arbitrary: st)
  case (Cons x rs)
  let ?p = "row_at ph_id (sr_photo_id x) (photos (flushed (rf_session st)))"
  let ?f = "row_at fd_id (sr_detection_id x) (face_detections (flushed (rf_session st)))"
  consider (full) "face_reinforcement_max_embeddings cfg \<le> rf_total st"
    | (gone) "rf_total st < face_reinforcement_max_embeddings cfg" "?p = None \<or> ?f = None"
    | (rows) photo f where "rf_total st < face_reinforcement_max_embeddings cfg"
        "?p = Some photo" "?f = Some f"
    by fastforce
  then show ?case
  proof cases
    case full
    with Cons.prems show ?thesis by auto
  next
    case gone
    with Cons.prems have "reinforce_round cfg now event_id sid bib exact rs st = (r, st')"
      by (auto split: option.splits)
    then show ?thesis using Cons.prems(2) by (rule Cons.IH)
  next
    case rows
    let ?e = "normalize_embedding_payload (fd_embedding_json f)"
    show ?thesis
    proof (cases "\<not> passes cfg exact bib (photo_texts (flushed (rf_session st)) (ph_id photo))
          (cached_score (rf_cache st) x) \<or> ?e = [] \<or> fd_id f \<in> set (rf_ids st)")
      case True
      with rows Cons.prems have "reinforce_round cfg now event_id sid bib exact rs st = (r, st')"
        by (auto simp: Let_def)
      then show ?thesis using Cons.prems(2) by (rule Cons.IH)
    next
      case False
      obtain q s1 where c: "create_face_search_results cfg now event_id sid ?e (rf_session st) = (q, s1)"
        by fastforce
      show ?thesis
      proof (cases q)
        case (Inl err)
        with c have "P (st\<lparr>rf_session := s1\<rparr>)" by (blast intro: fail Cons.prems(2))
        moreover have "st' = st\<lparr>rf_session := s1\<rparr>"
          using rows False c Cons.prems(1) Inl by (auto simp: Let_def)
        ultimately show ?thesis by simp
      next
        case (Inr n)
        with rows False c Cons.prems have "reinforce_round cfg now event_id sid bib exact rs
          (taken st s1 (fd_id f)) = (r, st')" by (simp add: Let_def taken_def)
        moreover have "P (taken st s1 (fd_id f))"
          using take[OF Cons.prems(2) rows(1) _ c[unfolded Inr]] False by blast
        ultimately show ?thesis by (rule Cons.IH)
      qed
    qed
  qed
qed simp

lemma reinforce_rounds_invariant:
  assumes "reinforce_rounds cfg now event_id sid bib exact k st = (r, st')" and "P st"
    and load: "\<And>st rs. P st \<Longrightarrow> P (load_candidates rs st)"
    and take: "\<And>st e n s' i. P st \<Longrightarrow> rf_total st < face_reinforcement_max_embeddings cfg \<Longrightarrow>
      i \<notin> set (rf_ids st) \<Longrightarrow>
      create_face_search_results cfg now event_id sid e (rf_session st) = (Inr n, s') \<Longrightarrow> P (taken st s' i)"
    and fail: "\<And>st e x s'. P st \<Longrightarrow>
      create_face_search_results cfg now event_id sid e (rf_session st) = (Inl x, s') \<Longrightarrow>
      P (st\<lparr>rf_session := s'\<rparr>)"
  shows "P st' \<and> (\<forall>n. r = Inr n \<longrightarrow> n = rf_total st')"
  using assms(1,2)
proof (induction k arbitrary: st)
  case (Suc k)
  let ?cs = "round_candidates cfg sid (flushed (rf_session st))"
  obtain q st1 where c: "reinforce_round cfg now event_id sid bib exact ?cs (load_candidates ?cs st) = (q, st1)"
    by fastforce
  have p: "P st1" by (rule reinforce_round_invariant[OF c load[OF Suc.prems(2)] take fail])
  show ?case
  proof (cases "q = Inr False \<and> rf_round st1 \<noteq> 0")
    case True
    with c Suc.prems(1) have "reinforce_rounds cfg now event_id sid bib exact k st1 = (r, st')"
      by (simp add: Let_def)
    then show ?thesis using p by (rule Suc.IH)
  next
    case False
    with c Suc.prems(1) have "st' = st1 \<and> (\<forall>n. r = Inr n \<longrightarrow> n = rf_total st1)"
      by (auto simp: Let_def split: sum.splits bool.splits if_splits)
    with p show ?thesis by simp
  qed
qed auto

text \<open>What a reinforcement keeps: it writes results only, and takes each detection at most once, within
  the configured bound.\<close>

definition reinforcing :: "settings \<Rightarrow> uuid \<Rightarrow> uuid \<Rightarrow> session \<Rightarrow> reinforcement \<Rightarrow> bool" where
  "reinforcing cfg event_id sid s st \<longleftrightarrow> writes_results cfg event_id sid s (rf_session st) \<and>
     rf_total st = int (length (rf_ids st)) \<and> distinct (rf_ids st) \<and>
     rf_total st \<le> max 0 (face_reinforcement_max_embeddings cfg)"

lemma reinforce_rounds_reinforcing:
  assumes "reinforce_rounds cfg now event_id sid bib exact k st = (r, st')"
    and "reinforcing cfg event_id sid s st"
  shows "reinforcing cfg event_id sid s st' \<and> (\<forall>n. r = Inr n \<longrightarrow> n = rf_total st')"
  using assms
proof (rule reinforce_rounds_invariant)
  fix st rs assume "reinforcing cfg event_id sid s st"
  then show "reinforcing cfg event_id sid s (load_candidates rs st)"
    by (simp add: reinforcing_def load_candidates_def)
next
  fix st e n s' i
  assume "reinforcing cfg event_id sid s st" "rf_total st < face_reinforcement_max_embeddings cfg"
    "i \<notin> set (rf_ids st)"
    "create_face_search_results cfg now event_id sid e (rf_session st) = (Inr n, s')"
  then show "reinforcing cfg event_id sid s (taken st s' i)"
    by (auto simp: reinforcing_def taken_def intro: writes_trans dest!: create_results_writes)
next
  fix st e x s'
  assume "reinforcing cfg event_id sid s st"
    "create_face_search_results cfg now event_id sid e (rf_session st) = (Inl x, s')"
  then show "reinforcing cfg event_id sid s (st\<lparr>rf_session := s'\<rparr>)"
    by (auto simp: reinforcing_def intro: writes_trans dest!: create_results_writes)
qed

lemma reinforcement_effect:
  assumes "apply_adaptive_reinforcement cfg now ss exact s = (r, s')"
  shows "writes_results cfg (fs_event_id ss) (fs_id ss) s s'"
    and "r = Inr n \<Longrightarrow> 0 \<le> n \<and> n \<le> max 0 (face_reinforcement_max_embeddings cfg)"
proof -
  have "writes_results cfg (fs_event_id ss) (fs_id ss) s s' \<and>
    (r = Inr n \<longrightarrow> 0 \<le> n \<and> n \<le> max 0 (face_reinforcement_max_embeddings cfg))"
  proof (cases "s' = s \<and> r = Inr 0")
    case True
    then show ?thesis by (simp add: writes_refl)
  next
    case False
    obtain pid where pid: "fs_participant_id ss = Some pid"
      using False assms by (cases "fs_participant_id ss") (auto simp: apply_adaptive_reinforcement_def)
    obtain participant where pa: "row_at pa_id pid (participants (live s)) = Some participant"
      using False assms pid
      by (cases "row_at pa_id pid (participants (live s))") (auto simp: apply_adaptive_reinforcement_def)
    obtain r1 st' where st': "reinforce_rounds cfg now (fs_event_id ss) (fs_id ss)
        (pa_bib_number participant) exact 2
        \<lparr>rf_session = s, rf_total = 0, rf_round = 0, rf_ids = [], rf_cache = []\<rparr> = (r1, st')"
      by (rule prod.exhaust)
    with assms pid pa have r1: "r1 = r" and s': "s' = rf_session st'"
      by (simp_all add: apply_adaptive_reinforcement_def)
    have "reinforcing cfg (fs_event_id ss) (fs_id ss) s
        \<lparr>rf_session = s, rf_total = 0, rf_round = 0, rf_ids = [], rf_cache = []\<rparr>"
      by (simp add: reinforcing_def writes_refl)
    from reinforce_rounds_reinforcing[OF st'[unfolded r1] this]
    have "reinforcing cfg (fs_event_id ss) (fs_id ss) s st'"
      and "r = Inr n \<Longrightarrow> n = rf_total st'" by blast+
    then show ?thesis unfolding reinforcing_def s' by auto
  qed
  then show "writes_results cfg (fs_event_id ss) (fs_id ss) s s'"
    and "r = Inr n \<Longrightarrow> 0 \<le> n \<and> n \<le> max 0 (face_reinforcement_max_embeddings cfg)" by blast+
qed

text \<open>Adaptive reinforcement, whether it ends or fails, changes nothing but the result rows
  of its own session, and what it writes are faces of the event whose score lies between the
  candidate threshold and 1; it uses at most the configured number of embeddings.\<close>

theorem reinforcement_bounded:
  "(case apply_adaptive_reinforcement cfg now ss exact s of (r, s') \<Rightarrow>
     writes_results cfg (fs_event_id ss) (fs_id ss) s s' \<and>
     (case r of Inl _ \<Rightarrow> True
      | Inr n \<Rightarrow> 0 \<le> n \<and> n \<le> max 0 (face_reinforcement_max_embeddings cfg)))"
  using reinforcement_effect[of cfg now ss exact s]
  by (auto split: prod.splits sum.splits)

section \<open>Result rows\<close>

abbreviation result_at :: "uuid \<times> uuid \<Rightarrow> db \<Rightarrow> search_result option" where
  "result_at k d \<equiv> row_at search_result_key k (search_results d)"

lemma write_results_mono:
  "result_at k d = Some r \<Longrightarrow>
   \<exists>r'. result_at k (write_results rows d) = Some r' \<and> sr_similarity_score r \<le> sr_similarity_score r'"
proof (induction rows arbitrary: d r)
  case (Cons x rows)
  let ?d = "d\<lparr>search_results := upsert search_result_key merge_search_result x (search_results d)\<rparr>"
  obtain r1 where r1: "result_at k ?d = Some r1" "sr_similarity_score r \<le> sr_similarity_score r1"
    using Cons.prems by (cases "k = search_result_key x")
      (auto simp: search_table.lookup_upsert merge_search_result_def)
  have "write_results (x # rows) d = write_results rows ?d" by (simp add: write_results_def)
  with Cons.IH[OF r1(1)] r1(2) show ?case by fastforce
qed (simp add: write_results_def)

lemma write_results_covers:
  "x \<in> set rows \<Longrightarrow> \<exists>r'. result_at (search_result_key x) (write_results rows d) = Some r' \<and>
     sr_similarity_score x \<le> sr_similarity_score r'"
proof (induction rows arbitrary: d)
  case (Cons y rows)
  let ?d = "d\<lparr>search_results := upsert search_result_key merge_search_result y (search_results d)\<rparr>"
  have step: "write_results (y # rows) d = write_results rows ?d" by (simp add: write_results_def)
  show ?case
  proof (cases "x \<in> set rows")
    case True
    with Cons.IH step show ?thesis by simp
  next
    case False
    with Cons.prems have y: "y = x" by simp
    obtain r1 where "result_at (search_result_key x) ?d = Some r1"
      "sr_similarity_score x \<le> sr_similarity_score r1"
      by (cases "result_at (search_result_key x) d")
        (auto simp: y search_table.lookup_upsert merge_search_result_def)
    with write_results_mono[OF this(1), of rows] step show ?thesis by fastforce
  qed
qed simp

lemma write_results_other:
  "k \<notin> search_result_key ` set rows \<Longrightarrow> result_at k (write_results rows d) = result_at k d"
  by (simp add: write_results_def search_table.lookup_other_foldl)

lemma write_results_unique:
  "distinct (map search_result_key (search_results d)) \<Longrightarrow>
   distinct (map search_result_key (search_results (write_results rows d)))"
  by (simp add: write_results_def search_table.unique_foldl)

text \<open>What a chain of search steps does to the results table.\<close>

lemma writes_results_merge:
  assumes "writes_results cfg event_id sid s s'"
  shows "distinct (map search_result_key (search_results (flushed s))) \<Longrightarrow>
      distinct (map search_result_key (search_results (flushed s')))"
    and "result_at k (flushed s) = Some r \<Longrightarrow> \<exists>r'. result_at k (flushed s') = Some r' \<and>
      sr_similarity_score r \<le> sr_similarity_score r'"
    and "fst k \<noteq> sid \<Longrightarrow> result_at k (flushed s') = result_at k (flushed s)"
    and "committed s' = committed s"
proof -
  from assms obtain rows where rows: "s' = dml (write_results rows) s"
    "list_all (result_ok cfg event_id sid (flushed s)) rows" unfolding writes_results_def by blast
  show "distinct (map search_result_key (search_results (flushed s))) \<Longrightarrow>
      distinct (map search_result_key (search_results (flushed s')))"
    by (simp add: rows write_results_unique)
  show "result_at k (flushed s) = Some r \<Longrightarrow> \<exists>r'. result_at k (flushed s') = Some r' \<and>
      sr_similarity_score r \<le> sr_similarity_score r'"
    by (simp add: rows write_results_mono)
  show "fst k \<noteq> sid \<Longrightarrow> result_at k (flushed s') = result_at k (flushed s)"
    using rows(2) by (auto simp: rows(1) list_all_iff result_ok_def search_result_key_def
        intro!: write_results_other)
  show "committed s' = committed s" by (simp add: rows)
qed

lemma upsert_others:
  assumes "\<And>r. key r = key x \<Longrightarrow> \<not> q r \<and> \<not> q (merge r x)" and "\<not> q x"
  shows "filter q (upsert key merge x rows) = filter q rows"
proof -
  have "filter q (update_where (\<lambda>r. key r = key x) (\<lambda>r. merge r x) rows) = filter q rows"
    using assms(1) by (induction rows) (auto simp: update_where_def)
  with assms(2) show ?thesis by (simp add: upsert_def)
qed

lemma writes_others:
  assumes "writes_results cfg event_id sid s s'"
  shows "filter (\<lambda>r. sr_search_session_id r \<noteq> sid) (search_results (live s')) =
    filter (\<lambda>r. sr_search_session_id r \<noteq> sid) (search_results (live s))"
proof -
  from assms obtain rows where rows: "s' = dml (write_results rows) s"
    "list_all (\<lambda>r. sr_search_session_id r = sid) rows"
    unfolding writes_results_def by (auto simp: result_ok_def list_all_iff)
  have "filter (\<lambda>r. sr_search_session_id r \<noteq> sid)
      (foldl (\<lambda>t r. upsert search_result_key merge_search_result r t) t rows) =
    filter (\<lambda>r. sr_search_session_id r \<noteq> sid) t" for t
    using rows(2)
  proof (induction rows arbitrary: t)
    case (Cons x rows)
    then have "filter (\<lambda>r. sr_search_session_id r \<noteq> sid)
        (upsert search_result_key merge_search_result x t) =
      filter (\<lambda>r. sr_search_session_id r \<noteq> sid) t"
      by (intro upsert_others) (auto simp: search_result_key_def merge_search_result_def)
    with Cons show ?case by simp
  qed simp
  then show ?thesis by (simp add: rows write_results_def)
qed

text \<open>One search step that succeeds keeps the rows of the results table unique by
  session and detection, keeps the rows of every other session as they are, never lowers a score, and
  leaves every one of the candidates it selected with a row that scores at least as high.\<close>

theorem search_results_merge:
  assumes "create_face_search_results cfg now event_id sid e s = (Inr n, s')"
    and "collect_candidates cfg e (event_faces event_id (flushed s)) [] = Inr cs"
    and "distinct (map search_result_key (search_results (flushed s)))"
  shows "n = int (length cs) \<and>
    distinct (map search_result_key (search_results (flushed s'))) \<and>
    (\<forall>k. fst k \<noteq> sid \<longrightarrow> result_at k (flushed s') = result_at k (flushed s)) \<and>
    (\<forall>k r. result_at k (flushed s) = Some r \<longrightarrow>
      (\<exists>r'. result_at k (flushed s') = Some r' \<and> sr_similarity_score r \<le> sr_similarity_score r')) \<and>
    (\<forall>c \<in> set cs. \<exists>r'. result_at (sid, fst (snd c)) (flushed s') = Some r' \<and>
      fst c \<le> sr_similarity_score r')"
proof -
  from assms(1,2) have n: "n = int (length cs)"
    and s': "s' = dml (write_results (map (result_row now event_id sid) (rev cs))) s"
    by (auto simp: create_face_search_results_def Let_def split: if_splits)
  have "\<forall>c \<in> set cs. \<exists>r'. result_at (sid, fst (snd c)) (flushed s') = Some r' \<and>
      fst c \<le> sr_similarity_score r'"
  proof
    fix c assume "c \<in> set cs"
    then have "result_row now event_id sid c \<in> set (map (result_row now event_id sid) (rev cs))" by auto
    from write_results_covers[OF this, of "flushed s"]
    show "\<exists>r'. result_at (sid, fst (snd c)) (flushed s') = Some r' \<and> fst c \<le> sr_similarity_score r'"
      by (cases c) (simp add: s' result_row_def search_result_key_def)
  qed
  with n writes_results_merge[OF create_results_writes[OF assms(1)]] assms(3) show ?thesis by blast
qed

lemma collect_sample:
  "collect_candidates default_settings [1] [sample_face 9 1] [] = Inr [(1, 9, 2)]"
  by (simp add: offer_def cosine_similarity_def dot_def vnorm_def sample_face_def default_settings_def)

theorem search_results_merge_witness:
  "\<exists>r. result_at (7, 9) (flushed (snd (create_face_search_results default_settings 0 1 7 [1]
      (open_session (empty_db\<lparr>face_detections := [sample_face 9 1]\<rparr>))))) = Some r \<and>
    1 \<le> sr_similarity_score r"
proof -
  let ?s = "open_session (empty_db\<lparr>face_detections := [sample_face 9 1]\<rparr>)"
  obtain q s' where c: "create_face_search_results default_settings 0 1 7 [1] ?s = (q, s')"
    by fastforce
  have f: "event_faces 1 (flushed ?s) = [sample_face 9 1]"
    by (simp add: event_faces_def sample_face_def)
  have col: "collect_candidates default_settings [1] (event_faces 1 (flushed ?s)) [] = Inr [(1, 9, 2)]"
    unfolding f by (rule collect_sample)
  have "max_search_faces_per_event default_settings = 25000" by (simp add: default_settings_def)
  with c f collect_sample have "q = Inr 1" by (simp add: create_face_search_results_def Let_def)
  from search_results_merge[OF c[unfolded this] col] c show ?thesis by (simp add: empty_db_def)
qed

section \<open>The end of a search\<close>

lemma search_job_statuses_frame [simp]:
  "search_job_statuses i (update_search_session k f d) = search_job_statuses i d"
  "search_job_statuses i (update_search_image k g d) = search_job_statuses i d"
  by (simp_all add: search_job_statuses_def update_search_session_def update_search_image_def)

lemma writes_statuses:
  assumes "writes_results cfg e sid s s'"
  shows "search_job_statuses i (flushed s') = search_job_statuses i (flushed s)"
    and "search_sessions (live s') = search_sessions (live s)"
    and "face_search_jobs (live s') = face_search_jobs (live s)"
  using assms by (auto simp: writes_results_def write_results_def search_job_statuses_def)

lemma updated_session_status:
  assumes "x \<in> set (search_sessions (update_search_session sid (\<lambda>x. x\<lparr>fs_status := st\<rparr>) d))"
    and "fs_id x = sid"
  shows "fs_status x = st"
proof -
  have "(\<exists>y. x = y\<lparr>fs_status := st\<rparr>) \<or> fs_id x \<noteq> sid"
    using assms(1) unfolding update_search_session_def update_where_def
    by (simp add: image_iff) blast
  then obtain y where "x = y\<lparr>fs_status := st\<rparr>" using assms(2) by blast
  then show ?thesis by simp
qed

lemma complete_search_steps:
  assumes "complete_face_search_job cfg now job ss p s = (Inr (), s')"
    and "j_parent job = OfSearch event_id sid image_id"
  shows "\<exists>m s1 r s2.
    create_face_search_results cfg now event_id sid (normalize_float_list (ep_embedding p)) s = (Inr m, s1) \<and>
    reinforce_if_participant cfg now ss (orm (probe_rows now job image_id p m) s1) = (Inr r, s2) \<and>
    s' = commit (mark_face_search_session_done_if_jobs_done now sid s2)"
proof -
  obtain q s1 where c: "create_face_search_results cfg now event_id sid
      (normalize_float_list (ep_embedding p)) s = (q, s1)" by fastforce
  from assms c obtain m where q: "q = Inr m"
    by (cases q) (auto simp: complete_face_search_job_def Let_def split: if_splits)
  obtain u s2 where r: "reinforce_if_participant cfg now ss
      (orm (probe_rows now job image_id p m) s1) = (u, s2)" by fastforce
  from assms c q r show ?thesis
    by (cases u) (auto simp: complete_face_search_job_def Let_def split: if_splits)
qed

lemma reinforce_if_writes:
  "reinforce_if_participant cfg now ss s = (r, s') \<Longrightarrow>
   writes_results cfg (fs_event_id ss) (fs_id ss) s s'"
  using reinforcement_effect(1)[of cfg now ss False s r s']
  by (auto simp: reinforce_if_participant_def writes_refl split: if_splits)

text \<open>A selfie search whose probe completes is not reported as completed.  The session's
  other statuses are read before the job's own change is flushed, so the job still counts as
  processing, and the search session is committed as processing; when it was the last probe, no later
  step changes it.\<close>

theorem completed_probe_leaves_session_processing:
  assumes "complete_face_search_job cfg now job ss p s = (Inr (), s')"
    and "job \<in> set (face_search_jobs (flushed s))" and "j_status job = Processing"
    and "j_parent job = OfSearch event_id sid image_id"
    and "x \<in> set (search_sessions (committed s'))" and "fs_id x = sid"
  shows "fs_status x = SessionProcessing"
proof -
  from complete_search_steps[OF assms(1,4)] obtain m s1 r s4 where
    c: "create_face_search_results cfg now event_id sid (normalize_float_list (ep_embedding p)) s =
      (Inr m, s1)"
    and s4: "reinforce_if_participant cfg now ss (orm (probe_rows now job image_id p m) s1) = (Inr r, s4)"
    and s': "s' = commit (mark_face_search_session_done_if_jobs_done now sid s4)" by blast
  let ?s3 = "orm (probe_rows now job image_id p m) s1"
  have "search_job_statuses sid (flushed s4) = search_job_statuses sid (flushed ?s3)"
    by (rule writes_statuses(1)[OF reinforce_if_writes[OF s4]])
  then have "search_job_statuses sid (flushed s4) = search_job_statuses sid (flushed s)"
    by (simp add: writes_statuses(1)[OF create_results_writes[OF c]])
  moreover have "Processing \<in> set (search_job_statuses sid (flushed s))"
    using assms(2,3,4) by (force simp: search_job_statuses_def)
  ultimately have "\<not> all_terminal (search_job_statuses sid (flushed s4))"
    and "search_job_statuses sid (flushed s4) \<noteq> []"
    by (auto simp: all_terminal_def TERMINAL_JOB_STATUSES_def)
  then have "live s' = update_search_session sid (\<lambda>x. x\<lparr>fs_status := SessionProcessing\<rparr>) (live s4)"
    by (simp add: s' mark_face_search_session_done_if_jobs_done_def)
  moreover have "x \<in> set (search_sessions (live s'))" using assms(5) s' by simp
  ultimately show ?thesis using assms(6) updated_session_status by metis
qed

definition sample_probe :: job where
  "sample_probe = \<lparr>j_id = 5, j_parent = OfSearch 1 7 6, j_job_type = FaceSearchProbe,
     j_status = Processing, j_attempt_count = 1, j_max_attempts = 5, j_attempt_id = Some 8,
     j_claimed_at = Some 0, j_lease_expires_at = Some 300000000, j_retry_after = None,
     j_dead_lettered_at = None, j_error_message = None, j_raw_response_json = None,
     j_created_at = 0, j_finished_at = None\<rparr>"

definition sample_session :: search_session where
  "sample_session = (bib_only_session default_settings 0 7 1 3)\<lparr>fs_participant_id := None\<rparr>"

definition sample_payload :: embedding_payload where
  "sample_payload = \<lparr>ep_embedding = map Fin (replicate 512 1), ep_bounding_box_json = None,
     ep_detection_score = None, ep_quality_score = None, ep_raw_response_json = None\<rparr>"

lemma sample_embedding: "normalize_float_list (ep_embedding sample_payload) \<noteq> []"
proof -
  have "(1::real) < sqrt 512" by simp
  then have "1 / 10 ^ 12 < vnorm (replicate 512 1)"
    unfolding vnorm_def by (simp add: sum_list_replicate del: real_sqrt_gt_1_iff)
  then have "normalize_embedding_payload (replicate 512 1) \<noteq> []" by (simp add: normalize_payload_eq)
  then show ?thesis by (simp add: normalize_embedding_payload_def sample_payload_def)
qed

theorem completed_probe_leaves_session_processing_witness:
  "\<exists>s'. complete_face_search_job default_settings 0 sample_probe sample_session sample_payload
      (open_session (empty_db\<lparr>face_search_jobs := [sample_probe], search_sessions := [sample_session]\<rparr>))
      = (Inr (), s') \<and>
    (\<exists>x. search_sessions (committed s') = [x] \<and> fs_status x = SessionProcessing)"
proof -
  let ?s = "open_session (empty_db\<lparr>face_search_jobs := [sample_probe], search_sessions := [sample_session]\<rparr>)"
  obtain r s' where c: "complete_face_search_job default_settings 0 sample_probe sample_session
      sample_payload ?s = (r, s')" by fastforce
  then have r: "r = Inr ()"
    using sample_embedding by (simp add: complete_face_search_job_def Let_def sample_probe_def
        create_face_search_results_def event_faces_def empty_db_def sample_session_def
        reinforce_if_participant_def default_settings_def)
  note steps = complete_search_steps[OF c[unfolded r], of 1 7 6]
  have "\<exists>x. search_sessions (committed s') = [x] \<and> fs_id x = 7"
    using c sample_embedding by (auto simp: complete_face_search_job_def Let_def sample_probe_def
        create_face_search_results_def event_faces_def empty_db_def sample_session_def
        reinforce_if_participant_def default_settings_def bib_only_session_def probe_rows_def
        mark_face_search_session_done_if_jobs_done_def update_search_session_def update_job_def
        update_search_image_def write_results_def)
  then obtain x where x: "search_sessions (committed s') = [x]" "fs_id x = 7" by blast
  have "fs_status x = SessionProcessing"
    by (rule completed_probe_leaves_session_processing[OF c[unfolded r], where event_id = 1
          and sid = 7 and image_id = 6]) (use x in \<open>simp_all add: sample_probe_def\<close>)
  with c r x show ?thesis by auto
qed

section \<open>A search from a bib number only\<close>

lemma search_seeds_writes:
  "search_seeds cfg now event_id sid es s = (r, s') \<Longrightarrow> writes_results cfg event_id sid s s'"
proof (induction es arbitrary: s)
  case (Cons e es)
  obtain q s1 where c: "create_face_search_results cfg now event_id sid e s = (q, s1)" by fastforce
  note w = create_results_writes[OF c]
  show ?case
  proof (cases q)
    case (Inl x)
    with c w Cons.prems show ?thesis by simp
  next
    case (Inr n)
    with c Cons.prems have "search_seeds cfg now event_id sid es s1 = (r, s')" by simp
    from writes_trans[OF w Cons.IH[OF this]] show ?thesis .
  qed
qed (simp add: writes_refl)

lemma bib_only_seeds_length: "length (select_bib_only_seed_embeddings cfg d event_id p) \<le> 3"
proof -
  have "length (select_consensus_seed_embeddings cfg faces n) \<le> 3" for faces n
    using consensus_seeds_props[OF refl] by blast
  then show ?thesis
    by (auto simp: select_bib_only_seed_embeddings_def finish_seeds_def Let_def split: option.splits)
qed

lemma bib_only_steps:
  assumes "create_bib_only_face_search_session cfg now sid event_id p (open_session d) = (r, s')"
  defines "d1 \<equiv> d\<lparr>search_sessions := search_sessions d @ [bib_only_session cfg now sid event_id (pa_id p)]\<rparr>"
  defines "s1 \<equiv> \<lparr>committed = d, flushed = d1, live = d1\<rparr>"
  shows "\<exists>s2. writes_results cfg event_id sid s1 s2 \<and>
    (case r of Inl _ \<Rightarrow> s' = s2
     | Inr (i, n) \<Rightarrow> i = sid \<and> n = int (length (select_bib_only_seed_embeddings cfg d1 event_id p)) \<and>
         s' = commit (orm (update_search_session sid (\<lambda>x. x\<lparr>fs_status := SessionCompleted,
           fs_finished_at := Some now\<rparr>)) s2))"
proof -
  let ?ss = "bib_only_session cfg now sid event_id (pa_id p)"
  let ?seeds = "select_bib_only_seed_embeddings cfg d1 event_id p"
  have s1: "flush (orm (\<lambda>d. d\<lparr>search_sessions := search_sessions d @ [?ss]\<rparr>) (open_session d)) = s1"
    by (simp add: flush_def orm_def open_session_def s1_def d1_def)
  have f1: "flushed s1 = d1" by (simp add: s1_def)
  obtain q t where seeds: "search_seeds cfg now event_id sid (take 3 ?seeds) s1 = (q, t)" by fastforce
  note w1 = search_seeds_writes[OF seeds]
  obtain u v where re: "(if ?seeds \<noteq> [] then apply_adaptive_reinforcement cfg now ?ss True t
      else (Inr 0, t)) = (u, v)" by fastforce
  have w2: "writes_results cfg event_id sid t v"
    using re reinforcement_effect(1)[of cfg now ?ss True t u v]
    by (auto simp: bib_only_session_def writes_refl split: if_splits)
  note w = writes_trans[OF w1 w2]
  have step: "(case (q, t) of (Inl e, s2) \<Rightarrow> (Inl e, s2)
      | (Inr _, s2) \<Rightarrow> (case (if ?seeds \<noteq> [] then apply_adaptive_reinforcement cfg now ?ss True s2
            else (Inr 0, s2)) of
          (Inl e, s3) \<Rightarrow> (Inl e, s3)
        | (Inr _, s3) \<Rightarrow> (Inr (sid, int (length ?seeds)),
            commit (orm (update_search_session sid (\<lambda>x. x\<lparr>fs_status := SessionCompleted,
              fs_finished_at := Some now\<rparr>)) s3)))) = (r, s')"
    using assms(1) unfolding create_bib_only_face_search_session_def Let_def s1 f1 seeds .
  show ?thesis
  proof (cases q)
    case (Inl x)
    with step w1 show ?thesis by auto
  next
    case (Inr n)
    have fin: "(case (u, v) of (Inl e, s3) \<Rightarrow> (Inl e, s3)
        | (Inr _, s3) \<Rightarrow> (Inr (sid, int (length ?seeds)),
            commit (orm (update_search_session sid (\<lambda>x. x\<lparr>fs_status := SessionCompleted,
              fs_finished_at := Some now\<rparr>)) s3))) = (r, s')"
      using step unfolding Inr prod.case sum.case re .
    show ?thesis using fin w by (intro exI[of _ v]) (cases u; auto)
  qed
qed


end
