(* ===== verification/WorkerRequests.thy ===== *)
theory WorkerRequests
  imports Search "HOL-Library.List_Lexorder" "HOL-Library.Char_ord"
begin

text \<open>
  The requests of the worker API and their validation, from \<^verbatim>\<open>backend/app/worker_api.py\<close> (lines 31
  to 278).  The framework parses the body; the typed value it hands to the validators of the code
  is the input here, so a number of a request is still a \<^verbatim>\<open>pyfloat\<close>.  A rejected request is
  answered with status 422 before its handler runs.
\<close>

definition MAX_OCR_DETECTIONS :: nat where "MAX_OCR_DETECTIONS = 2000"
definition MAX_FACE_DETECTIONS :: nat where "MAX_FACE_DETECTIONS = 256"
definition EMBEDDING_DIMENSIONS :: nat where "EMBEDDING_DIMENSIONS = 512"
definition MAX_RAW_JSON_BYTES :: nat where "MAX_RAW_JSON_BYTES = 256 * 1024"
definition MAX_BOUNDING_BOX_BYTES :: nat where "MAX_BOUNDING_BOX_BYTES = 16 * 1024"

section \<open>The compact JSON encoding\<close>

text \<open>
  \<^verbatim>\<open>json.dumps(value, allow_nan=False, ensure_ascii=False, separators=(",", ":"))\<close>.  The decimal
  representation of a finite float is the argument \<^verbatim>\<open>float_repr\<close>; a float that is not finite is a
  \<^verbatim>\<open>ValueError\<close>, \<^term>\<open>None\<close>.
\<close>

definition json_char :: "char \<Rightarrow> str" where
  "json_char c =
    (let n = char_code c in
     if n = 34 then [CHR 92, CHR 34] else if n = 92 then [CHR 92, CHR 92]
     else if n = 10 then [CHR 92, CHR 110] else if n = 13 then [CHR 92, CHR 114]
     else if n = 9 then [CHR 92, CHR 116] else if n = 12 then [CHR 92, CHR 102]
     else if n = 8 then [CHR 92, CHR 98]
     else if n < 32 then CHR 92 # CHR 117 # padded_digits 16 4 n
     else [c])"

definition json_string :: "str \<Rightarrow> str" where
  "json_string s = CHR 34 # concat (map json_char s) @ [CHR 34]"

fun json_encode :: "(real \<Rightarrow> str) \<Rightarrow> json \<Rightarrow> str option"
  and json_encode_list :: "(real \<Rightarrow> str) \<Rightarrow> json list \<Rightarrow> str list option"
  and json_encode_items :: "(real \<Rightarrow> str) \<Rightarrow> (str \<times> json) list \<Rightarrow> str list option" where
  "json_encode fr JNull = Some ''null''"
| "json_encode fr (JBool b) = Some (if b then ''true'' else ''false'')"
| "json_encode fr (JInt i) = Some (int_str i)"
| "json_encode fr (JFloat f) = (case f of Fin r \<Rightarrow> Some (fr r) | _ \<Rightarrow> None)"
| "json_encode fr (JStr s) = Some (json_string s)"
| "json_encode fr (JList xs) =
     (case json_encode_list fr xs of None \<Rightarrow> None
      | Some ws \<Rightarrow> Some (''['' @ join '','' ws @ '']''))"
| "json_encode fr (JDict kvs) =
     (case json_encode_items fr kvs of None \<Rightarrow> None
      | Some ws \<Rightarrow> Some (''{'' @ join '','' ws @ ''}''))"
| "json_encode_list fr [] = Some []"
| "json_encode_list fr (x # xs) =
     (case (json_encode fr x, json_encode_list fr xs) of
        (Some w, Some ws) \<Rightarrow> Some (w # ws) | _ \<Rightarrow> None)"
| "json_encode_items fr [] = Some []"
| "json_encode_items fr ((k, v) # kvs) =
     (case (json_encode fr v, json_encode_items fr kvs) of
        (Some w, Some ws) \<Rightarrow> Some ((json_string k @ '':'' @ w) # ws) | _ \<Rightarrow> None)"

section \<open>Bounds on nested JSON\<close>

text \<open>\<^verbatim>\<open>label\<close> is kept in the message.  The explicit stack of the loop has its top at the head of the
  list: \<^verbatim>\<open>stack.extend(items)\<close> followed by \<^verbatim>\<open>stack.pop()\<close> takes the last item first.\<close>

fun children :: "json \<Rightarrow> json list" where
  "children (JDict kvs) = map snd kvs"
| "children (JList xs) = xs"
| "children _ = []"

lemma size_children: "sum_list (map (Suc \<circ> size) (children v)) < Suc (size v)"
proof (cases v)
  case (JList xs)
  have "sum_list (map (Suc \<circ> size) xs) = size_list size xs" by (induction xs) auto
  with JList show ?thesis by simp
next
  case (JDict kvs)
  have "sum_list (map (Suc \<circ> size \<circ> snd) kvs) \<le> size_list (size_prod (\<lambda>_. 0) size) kvs"
    by (induction kvs) auto
  with JDict show ?thesis by (simp add: o_assoc)
qed simp_all

function walk :: "str \<Rightarrow> (json \<times> nat) list \<Rightarrow> nat \<Rightarrow> unit result" where
  "walk label [] item_count = Inr ()"
| "walk label ((current, depth) # stack) item_count =
     (if depth > 10 then Inl (ValueError (label @ '' is nested too deeply.''))
      else
        (let item_count = item_count + length (children current) in
         if item_count > 10000 then Inl (ValueError (label @ '' contains too many values.''))
         else walk label (rev (map (\<lambda>item. (item, depth + 1)) (children current)) @ stack) item_count))"
  by pat_completeness auto
termination
proof (relation "measure (\<lambda>(_, stack, _). sum_list (map (Suc \<circ> size \<circ> fst) stack))")
  fix label current depth stack item_count x
  have "map (Suc \<circ> size \<circ> fst) (rev (map (\<lambda>item. (item, depth + 1)) (children current))) =
      rev (map (Suc \<circ> size) (children current))"
    by (simp add: rev_map o_def)
  then show "((label, rev (map (\<lambda>item. (item, depth + 1)) (children current)) @ stack, x),
      (label, (current, depth) # stack, item_count))
      \<in> measure (\<lambda>(_, stack, _). sum_list (map (Suc \<circ> size \<circ> fst) stack))"
    using size_children[of current] by (simp add: sum_list_rev)
qed simp

definition validate_bounded_json ::
    "(real \<Rightarrow> str) \<Rightarrow> json option \<Rightarrow> nat \<Rightarrow> str \<Rightarrow> json option result" where
  "validate_bounded_json fr value max_bytes label =
    (case value of
       None \<Rightarrow> Inr None
     | Some v \<Rightarrow>
         (case json_encode fr v of
            None \<Rightarrow> Inl (ValueError (label @ '' must contain valid finite JSON values.''))
          | Some encoded \<Rightarrow>
              if length encoded > max_bytes
              then Inl (ValueError (label @ '' exceeds the '' @ int_str (int max_bytes) @ ''-byte limit.''))
              else case walk label [(v, 0)] 0 of Inl e \<Rightarrow> Inl e | Inr _ \<Rightarrow> Inr (Some v)))"

section \<open>Numbers\<close>

definition finite_float :: "pyfloat \<Rightarrow> bool" where
  "finite_float f = (case f of Fin _ \<Rightarrow> True | _ \<Rightarrow> False)"

definition float_value :: "pyfloat \<Rightarrow> real" where
  "float_value f = (case f of Fin r \<Rightarrow> r | _ \<Rightarrow> 0)"

definition validate_embedding :: "pyfloat list \<Rightarrow> pyfloat list result" where
  "validate_embedding value =
    (if length value \<noteq> EMBEDDING_DIMENSIONS
     then Inl (ValueError ''Embedding must have exactly 512 dimensions.'')
     else if \<not> list_all finite_float value
     then Inl (ValueError ''Embedding values must all be finite.'')
     else if sum_list (map (\<lambda>f. float_value f * float_value f) value) \<le> 0
     then Inl (ValueError ''Embedding must have a non-zero norm.'')
     else Inr value)"

definition validate_score :: "pyfloat option \<Rightarrow> real option result" where
  "validate_score value =
    (case value of
       None \<Rightarrow> Inr None
     | Some (Fin r) \<Rightarrow>
         if r < 0 \<or> 1 < r
         then Inl (ValueError ''Score must be a finite number between 0 and 1.'') else Inr (Some r)
     | Some _ \<Rightarrow> Inl (ValueError ''Score must be a finite number between 0 and 1.''))"

section \<open>Requests\<close>

definition validate_job_types :: "str list \<Rightarrow> str list result" where
  "validate_job_types value =
    (if value = [] \<or> 2 < length value
     then Inl (ValueError ''Request between one and two job types.'')
     else if card (set value) \<noteq> length value
     then Inl (ValueError ''Duplicate job types are not allowed.'')
     else case filter (\<lambda>t. t \<notin> {''ocr'', ''face_photo_scan''}) value of
            [] \<Rightarrow> Inr value
          | unsupported \<Rightarrow>
              Inl (ValueError (''Unsupported photo job type: '' @ hd (sort unsupported))))"

record claim_request =
  cr_job_types :: "str list"

record ocr_request =
  or_detected_text :: str
  or_normalized_text :: str
  or_confidence :: "pyfloat option"
  or_bounding_box_json :: "json option"

record face_request =
  fq_face_index :: int
  fq_embedding :: "pyfloat list"
  fq_bounding_box_json :: "json option"
  fq_detection_score :: "pyfloat option"
  fq_quality_score :: "pyfloat option"

record photo_request =
  pq_attempt_id :: uuid
  pq_detections :: "ocr_request list"
  pq_face_detections :: "face_request list"
  pq_raw_response_json :: "json option"

record embedding_request =
  eq_attempt_id :: uuid
  eq_embedding :: "pyfloat list"
  eq_bounding_box_json :: "json option"
  eq_detection_score :: "pyfloat option"
  eq_quality_score :: "pyfloat option"
  eq_raw_response_json :: "json option"

record heartbeat_request =
  hq_worker_id :: str
  hq_worker_version :: str
  hq_started_at :: time
  hq_status :: str
  hq_current_job_id :: "uuid option"
  hq_current_job_type :: "str option"

text \<open>\<^verbatim>\<open>Field(min_length=..., max_length=..., pattern=...)\<close>.\<close>

definition length_between :: "nat \<Rightarrow> nat \<Rightarrow> str \<Rightarrow> bool" where
  "length_between lo hi s \<longleftrightarrow> lo \<le> length s \<and> length s \<le> hi"

definition field_error :: "str \<Rightarrow> 'a result" where
  "field_error name = Inl (ValueError (''Invalid value: '' @ name))"

text \<open>Validators that run one after the other: the first error is the answer.\<close>

definition and_then :: "'a result \<Rightarrow> ('a \<Rightarrow> 'b result) \<Rightarrow> 'b result" where
  "and_then r f = (case r of Inl e \<Rightarrow> Inl e | Inr x \<Rightarrow> f x)"

fun validate_all :: "('a \<Rightarrow> 'b result) \<Rightarrow> 'a list \<Rightarrow> 'b list result" where
  "validate_all f [] = Inr []"
| "validate_all f (x # xs) =
     and_then (f x) (\<lambda>y. and_then (validate_all f xs) (\<lambda>ys. Inr (y # ys)))"

definition validate_ocr :: "(real \<Rightarrow> str) \<Rightarrow> ocr_request \<Rightarrow> ocr_payload result" where
  "validate_ocr fr r =
    (if \<not> length_between 1 4096 (or_detected_text r) then field_error ''detected_text''
     else if \<not> length_between 1 4096 (or_normalized_text r) then field_error ''normalized_text''
     else and_then (validate_score (or_confidence r)) (\<lambda>confidence.
       and_then (validate_bounded_json fr (or_bounding_box_json r) MAX_BOUNDING_BOX_BYTES
           ''Bounding box'') (\<lambda>box.
         Inr \<lparr>op_detected_text = or_detected_text r, op_normalized_text = or_normalized_text r,
              op_confidence = confidence, op_bounding_box_json = box\<rparr>)))"

definition validate_face :: "(real \<Rightarrow> str) \<Rightarrow> face_request \<Rightarrow> face_payload result" where
  "validate_face fr r =
    (if fq_face_index r < 0 \<or> int MAX_FACE_DETECTIONS - 1 < fq_face_index r
     then field_error ''face_index''
     else and_then (validate_embedding (fq_embedding r)) (\<lambda>embedding.
       and_then (validate_bounded_json fr (fq_bounding_box_json r) MAX_BOUNDING_BOX_BYTES
           ''Bounding box'') (\<lambda>box.
         and_then (validate_score (fq_detection_score r)) (\<lambda>detection_score.
           and_then (validate_score (fq_quality_score r)) (\<lambda>quality_score.
             Inr \<lparr>fp_face_index = fq_face_index r, fp_embedding = embedding,
                  fp_bounding_box_json = box, fp_detection_score = detection_score,
                  fp_quality_score = quality_score\<rparr>)))))"

record photo_payload =
  pp_attempt_id :: uuid
  pp_detections :: "ocr_payload list"
  pp_face_detections :: "face_payload list"
  pp_raw_response_json :: "json option"

definition validate_detection_count :: "'a list \<Rightarrow> 'a list result" where
  "validate_detection_count value =
    (if MAX_OCR_DETECTIONS < length value
     then Inl (ValueError ''At most 2000 OCR detections are accepted.'') else Inr value)"

definition validate_face_count :: "face_payload list \<Rightarrow> face_payload list result" where
  "validate_face_count value =
    (if MAX_FACE_DETECTIONS < length value
     then Inl (ValueError ''At most 256 face detections are accepted.'')
     else if length value \<noteq> card (set (map fp_face_index value))
     then Inl (ValueError ''Face indexes must be unique within a result.'') else Inr value)"

definition validate_photo_request :: "(real \<Rightarrow> str) \<Rightarrow> photo_request \<Rightarrow> photo_payload result" where
  "validate_photo_request fr r =
     and_then (validate_all (validate_ocr fr) (pq_detections r)) (\<lambda>detections.
       and_then (validate_detection_count detections) (\<lambda>detections.
         and_then (validate_all (validate_face fr) (pq_face_detections r)) (\<lambda>faces.
           and_then (validate_face_count faces) (\<lambda>faces.
             and_then (validate_bounded_json fr (pq_raw_response_json r) MAX_RAW_JSON_BYTES
                 ''Raw response'') (\<lambda>raw.
               Inr \<lparr>pp_attempt_id = pq_attempt_id r, pp_detections = detections,
                    pp_face_detections = faces, pp_raw_response_json = raw\<rparr>)))))"

definition validate_embedding_request ::
    "(real \<Rightarrow> str) \<Rightarrow> embedding_request \<Rightarrow> embedding_payload result" where
  "validate_embedding_request fr r =
     and_then (validate_embedding (eq_embedding r)) (\<lambda>embedding.
       and_then (validate_bounded_json fr (eq_bounding_box_json r) MAX_BOUNDING_BOX_BYTES
           ''Bounding box'') (\<lambda>box.
         and_then (validate_score (eq_detection_score r)) (\<lambda>detection_score.
           and_then (validate_score (eq_quality_score r)) (\<lambda>quality_score.
             and_then (validate_bounded_json fr (eq_raw_response_json r) MAX_RAW_JSON_BYTES
                 ''Raw response'') (\<lambda>raw.
               Inr \<lparr>ep_embedding = embedding, ep_bounding_box_json = box,
                    ep_detection_score = detection_score, ep_quality_score = quality_score,
                    ep_raw_response_json = raw\<rparr>)))))"

definition code_char :: "char \<Rightarrow> bool" where
  "code_char c \<longleftrightarrow> is_lower c \<or> is_digit c \<or> c \<in> set ''_.-''"

definition validate_fail_request :: "fail_request \<Rightarrow> fail_request result" where
  "validate_fail_request r =
    (if \<not> length_between 1 2000 (fr_error_message r) then field_error ''error_message''
     else case fr_error_code r of
            None \<Rightarrow> Inr r
          | Some c \<Rightarrow> if length_between 1 64 c \<and> list_all code_char c then Inr r
              else field_error ''error_code'')"

definition worker_char :: "char \<Rightarrow> bool" where
  "worker_char c \<longleftrightarrow> is_upper c \<or> is_lower c \<or> is_digit c \<or> c \<in> set ''_.-''"

fun worker_status_of :: "str \<Rightarrow> worker_status option" where
  "worker_status_of s =
    (if s = ''idle'' then Some WorkerIdle else if s = ''active'' then Some WorkerActive
     else if s = ''draining'' then Some WorkerDraining else None)"

fun job_type_of :: "str \<Rightarrow> job_type option" where
  "job_type_of s =
    (if s = ''ocr'' then Some Ocr else if s = ''face_photo_scan'' then Some FacePhotoScan
     else if s = ''face_selfie_enroll'' then Some FaceSelfieEnroll
     else if s = ''face_search_probe'' then Some FaceSearchProbe else None)"

text \<open>A heartbeat after validation: \<^verbatim>\<open>wh_last_seen_at\<close> is the receipt time the handler fills in.
  The start time carries a time zone and is an absolute time.\<close>

definition validate_heartbeat_request :: "heartbeat_request \<Rightarrow> worker_heartbeat result" where
  "validate_heartbeat_request r =
    (if \<not> (length_between 1 128 (hq_worker_id r) \<and> list_all worker_char (hq_worker_id r))
     then field_error ''worker_id''
     else if \<not> (length_between 1 64 (hq_worker_version r) \<and>
         list_all (\<lambda>c. worker_char c \<or> c \<in> set '':+'') (hq_worker_version r))
     then field_error ''worker_version''
     else case worker_status_of (hq_status r) of
            None \<Rightarrow> Inl (ValueError ''Worker status must be idle, active, or draining.'')
          | Some st \<Rightarrow>
              and_then (case hq_current_job_type r of
                  None \<Rightarrow> Inr None
                | Some t \<Rightarrow> (case job_type_of t of
                      None \<Rightarrow> Inl (ValueError ''Unsupported current worker job type.'')
                    | Some jt \<Rightarrow> Inr (Some jt))) (\<lambda>jt.
                Inr \<lparr>wh_worker_id = hq_worker_id r, wh_worker_version = hq_worker_version r,
                     wh_status = st, wh_current_job_id = hq_current_job_id r,
                     wh_current_job_type = jt, wh_started_at = hq_started_at r,
                     wh_last_seen_at = hq_started_at r\<rparr>))"

section \<open>The worker token\<close>

text \<open>\<^verbatim>\<open>authorization.split(" ", 1)[1].strip()\<close> of a header that starts with \<^verbatim>\<open>bearer \<close>.\<close>

definition bearer_value :: "str option \<Rightarrow> str" where
  "bearer_value authorization =
    (case authorization of
       None \<Rightarrow> []
     | Some a \<Rightarrow> if startswith (lower a) ''bearer ''
         then strip (drop 1 (dropWhile (\<lambda>c. c \<noteq> CHR '' '') a)) else [])"

definition require_worker_token :: "settings \<Rightarrow> str option \<Rightarrow> str option \<Rightarrow> unit result" where
  "require_worker_token cfg authorization x_worker_token =
    (if worker_api_token cfg = []
     then Inl (HTTPException 503 ''Worker API token is not configured.'')
     else
       (let expected = worker_api_token cfg;
            bearer_valid = (bearer_value authorization = expected);
            header_valid = ((case x_worker_token of None \<Rightarrow> [] | Some t \<Rightarrow> t) = expected)
        in if \<not> (bearer_valid \<or> header_valid)
           then Inl (HTTPException 401 ''Invalid worker token.'') else Inr ()))"

section \<open>Facts\<close>

lemma child_smaller: "x \<in> set (children v) \<Longrightarrow> size x < size v"
proof -
  have "x \<in> set xs \<Longrightarrow> Suc (size x) \<le> sum_list (map (Suc \<circ> size) xs)" for xs
    by (induction xs) auto
  then show "x \<in> set (children v) \<Longrightarrow> size x < size v" using size_children[of v] by fastforce
qed

function nesting :: "json \<Rightarrow> nat" where
  "nesting v = foldr max (map (\<lambda>x. Suc (nesting x)) (children v)) 0"
  by pat_completeness simp
termination
  by (relation "measure size") (simp_all add: child_smaller)

function value_count :: "json \<Rightarrow> nat" where
  "value_count v = length (children v) + sum_list (map value_count (children v))"
  by pat_completeness simp
termination
  by (relation "measure size") (simp_all add: child_smaller)

declare nesting.simps [simp del] value_count.simps [simp del]

lemma foldr_max_le: "foldr max xs 0 \<le> (n::nat) \<longleftrightarrow> (\<forall>x \<in> set xs. x \<le> n)"
  by (induction xs) auto

lemma nesting_le:
  "depth + nesting v \<le> n \<longleftrightarrow> depth \<le> n \<and> (\<forall>c \<in> set (children v). depth + 1 + nesting c \<le> n)"
proof -
  have "nesting v \<le> n - depth \<longleftrightarrow> (\<forall>c \<in> set (children v). Suc (nesting c) \<le> n - depth)"
    by (subst nesting.simps) (simp only: foldr_max_le set_map ball_simps(9))
  then show ?thesis by (cases "depth \<le> n") (auto simp: le_diff_conv2)
qed

lemma walk_iff:
  "item_count \<le> 10000 \<Longrightarrow> walk label stack item_count = Inr () \<longleftrightarrow>
    (\<forall>(v, depth) \<in> set stack. depth + nesting v \<le> 10) \<and>
    item_count + sum_list (map (value_count \<circ> fst) stack) \<le> 10000"
proof (induction label stack item_count rule: walk.induct)
  case (2 label current depth stack item_count)
  let ?n = "item_count + length (children current)"
  have count: "value_count current = length (children current) + sum_list (map value_count (children current))"
    by (rule value_count.simps)
  show ?case
  proof (cases "depth > 10 \<or> ?n > 10000")
    case True
    then show ?thesis by (auto simp: Let_def count)
  next
    case False
    let ?stack = "rev (map (\<lambda>item. (item, depth + 1)) (children current)) @ stack"
    have "sum_list (map (value_count \<circ> fst) ?stack) =
        sum_list (map value_count (children current)) + sum_list (map (value_count \<circ> fst) stack)"
      by (simp add: rev_map[symmetric] sum_list_rev o_def)
    moreover have "(\<forall>(v, d) \<in> set ?stack. d + nesting v \<le> 10) \<longleftrightarrow>
        (\<forall>(v, d) \<in> set ((current, depth) # stack). d + nesting v \<le> 10)"
      using False nesting_le[of depth current 10] by (auto simp: ball_Un)
    moreover have "walk label ((current, depth) # stack) item_count = walk label ?stack ?n"
      using False by (simp add: Let_def)
    ultimately show ?thesis
      using 2(1)[OF _ refl] False by (simp add: count o_def add.assoc)
  qed
qed simp

text \<open>The explicit-stack walk over a nested JSON value, which stops at the first
  violation it meets, accepts exactly the values nested at most ten levels deep that hold at most
  10000 values in all, whatever the order in which it visits them; it always ends.\<close>

theorem json_walk_exact:
  "walk label [(v, 0)] 0 = Inr () \<longleftrightarrow> nesting v \<le> 10 \<and> value_count v \<le> 10000"
  by (subst walk_iff) simp_all

lemma validate_score_range: "validate_score v = Inr (Some r) \<Longrightarrow> 0 \<le> r \<and> r \<le> 1"
  by (auto simp: validate_score_def split: option.splits pyfloat.splits if_splits)

lemma and_then_Inr: "and_then r f = Inr y \<longleftrightarrow> (\<exists>x. r = Inr x \<and> f x = Inr y)"
  by (cases r) (auto simp: and_then_def)

lemma validate_all_Inr:
  "validate_all f xs = Inr ys \<Longrightarrow> list_all2 (\<lambda>x y. f x = Inr y) xs ys"
  by (induction xs arbitrary: ys) (auto simp: and_then_Inr)

end
