(* ===== verification/WorkerApi.thy ===== *)
theory WorkerApi
  imports WorkerRequests JobProtocol
begin

text \<open>
  The handlers of the worker API, from \<^verbatim>\<open>backend/app/worker_api.py\<close> (lines 438 to 448 and 496 to
  825), each from its validated request to its answer and the database it leaves committed.  A
  handler that raises is not committed: its session is closed, and what it had not committed is
  gone.  \<^verbatim>\<open>serve\<close> dispatches a call: the token is checked first, then the request, then the handler
  runs.
\<close>

section \<open>Names in answers\<close>

fun job_type_str :: "job_type \<Rightarrow> str" where
  "job_type_str Ocr = ''ocr''"
| "job_type_str FacePhotoScan = ''face_photo_scan''"
| "job_type_str FaceSelfieEnroll = ''face_selfie_enroll''"
| "job_type_str FaceSearchProbe = ''face_search_probe''"

fun job_status_str :: "job_status \<Rightarrow> str" where
  "job_status_str Queued = ''queued''"
| "job_status_str Processing = ''processing''"
| "job_status_str Completed = ''completed''"
| "job_status_str Failed = ''failed''"
| "job_status_str DeadLettered = ''dead_lettered''"

fun attempt_state_str :: "attempt_state \<Rightarrow> str" where
  "attempt_state_str (InState s) = job_status_str s"
| "attempt_state_str RetryScheduled = ''retry_scheduled''"

section \<open>Loading a job\<close>

definition load_job :: "job_model \<Rightarrow> str \<Rightarrow> uuid \<Rightarrow> session \<Rightarrow> job result" where
  "load_job m missing job_id s =
    (case job_at m job_id (flushed s) of
       None \<Rightarrow> Inl (HTTPException 404 missing) | Some j \<Rightarrow> Inr j)"

definition load_photo_job :: "uuid \<Rightarrow> session \<Rightarrow> job result" where
  "load_photo_job = load_job PhotoJobs ''Photo job not found.''"

definition load_participant_face_job :: "uuid \<Rightarrow> session \<Rightarrow> job result" where
  "load_participant_face_job = load_job ParticipantFaceJobs ''Face job not found.''"

definition load_face_search_job :: "uuid \<Rightarrow> session \<Rightarrow> job result" where
  "load_face_search_job = load_job FaceSearchJobs ''Face search job not found.''"

fun load_of :: "job_model \<Rightarrow> uuid \<Rightarrow> session \<Rightarrow> job result" where
  "load_of PhotoJobs = load_photo_job"
| "load_of ParticipantFaceJobs = load_participant_face_job"
| "load_of FaceSearchJobs = load_face_search_job"

section \<open>Claims\<close>

record job_claim =
  jc_id :: str
  jc_job_type :: job_type
  jc_attempt_count :: int
  jc_max_attempts :: int
  jc_attempt_id :: "uuid option"
  jc_lease_expires_at :: "time option"
  jc_lease_seconds :: int
  jc_heartbeat_path :: str

definition job_claim_metadata :: "settings \<Rightarrow> job \<Rightarrow> str \<Rightarrow> job_claim" where
  "job_claim_metadata cfg job heartbeat_path = \<lparr>jc_id = uuid_str (j_id job),
     jc_job_type = j_job_type job, jc_attempt_count = j_attempt_count job,
     jc_max_attempts = j_max_attempts job, jc_attempt_id = j_attempt_id job,
     jc_lease_expires_at = j_lease_expires_at job, jc_lease_seconds = WORKER_LEASE_SECONDS cfg,
     jc_heartbeat_path = heartbeat_path\<rparr>"

text \<open>The object to process: \<^verbatim>\<open>access_url\<close> is \<^verbatim>\<open>safe_photo_access_url\<close>.\<close>

record claim_object =
  co_id :: str
  co_event_id :: uuid
  co_participant_id :: "uuid option"
  co_search_session_id :: "uuid option"
  co_object_key :: str
  co_download_url :: "str option"
  co_file_name :: str
  co_content_type :: str

definition heartbeat_path :: "str \<Rightarrow> job \<Rightarrow> str" where
  "heartbeat_path kind job = ''/internal/worker/'' @ kind @ ''/'' @ uuid_str (j_id job) @ ''/heartbeat''"

type_synonym claim_answer = "(job_claim \<times> claim_object) option"

definition claim_photo_job ::
    "settings \<Rightarrow> (str \<Rightarrow> str option) \<Rightarrow> claim_env \<Rightarrow> str list \<Rightarrow> session \<Rightarrow> claim_answer result \<times> session" where
  "claim_photo_job cfg access_url env job_types s =
    (case claim_job cfg PhotoJobs (\<lambda>j. job_type_str (j_job_type j) \<in> set job_types) env s of
       (None, s1) \<Rightarrow> (Inr None, s1)
     | (Some job, s1) \<Rightarrow>
         (case parent_photo (j_parent job) of
            None \<Rightarrow> (Inl (AttributeError ''photo''), s1)
          | Some pid \<Rightarrow>
              (case row_at ph_id pid (photos (flushed s1)) of
                 None \<Rightarrow> (Inl (AttributeError ''photo''), s1)
               | Some photo \<Rightarrow>
                   (Inr (Some (job_claim_metadata cfg job (heartbeat_path ''photo-jobs'' job),
                      \<lparr>co_id = uuid_str (ph_id photo), co_event_id = ph_event_id photo,
                       co_participant_id = None, co_search_session_id = None,
                       co_object_key = ph_original_object_key photo,
                       co_download_url = access_url (ph_original_object_key photo),
                       co_file_name = ph_file_name photo,
                       co_content_type = ph_content_type photo\<rparr>)), s1))))"

definition claim_participant_face_job ::
    "settings \<Rightarrow> (str \<Rightarrow> str option) \<Rightarrow> claim_env \<Rightarrow> session \<Rightarrow> claim_answer result \<times> session" where
  "claim_participant_face_job cfg access_url env s =
    (case claim_job cfg ParticipantFaceJobs (\<lambda>j. j_job_type j = FaceSelfieEnroll) env s of
       (None, s1) \<Rightarrow> (Inr None, s1)
     | (Some job, s1) \<Rightarrow>
         (case j_parent job of
            OfFaceImage event_id participant_id image_id \<Rightarrow>
              (case row_at fi_id image_id (face_images (flushed s1)) of
                 None \<Rightarrow> (Inl (AttributeError ''face_image''), s1)
               | Some img \<Rightarrow>
                   (Inr (Some (job_claim_metadata cfg job (heartbeat_path ''face-jobs'' job),
                      \<lparr>co_id = uuid_str (fi_id img), co_event_id = event_id,
                       co_participant_id = Some participant_id, co_search_session_id = None,
                       co_object_key = fi_object_key img,
                       co_download_url = access_url (fi_object_key img),
                       co_file_name = fi_file_name img,
                       co_content_type = fi_content_type img\<rparr>)), s1))
          | _ \<Rightarrow> (Inl (AttributeError ''face_image''), s1)))"

definition claim_face_search_job ::
    "settings \<Rightarrow> (str \<Rightarrow> str option) \<Rightarrow> claim_env \<Rightarrow> session \<Rightarrow> claim_answer result \<times> session" where
  "claim_face_search_job cfg access_url env s =
    (case claim_job cfg FaceSearchJobs (\<lambda>j. j_job_type j = FaceSearchProbe) env s of
       (None, s1) \<Rightarrow> (Inr None, s1)
     | (Some job, s1) \<Rightarrow>
         (case j_parent job of
            OfSearch event_id session_id image_id \<Rightarrow>
              (case row_at si_id image_id (search_images (flushed s1)) of
                 None \<Rightarrow> (Inl (AttributeError ''search_image''), s1)
               | Some img \<Rightarrow>
                   (Inr (Some (job_claim_metadata cfg job (heartbeat_path ''face-search-jobs'' job),
                      \<lparr>co_id = uuid_str (si_id img), co_event_id = event_id,
                       co_participant_id = None, co_search_session_id = Some session_id,
                       co_object_key = si_object_key img,
                       co_download_url = access_url (si_object_key img),
                       co_file_name = si_file_name img,
                       co_content_type = si_content_type img\<rparr>)), s1))
          | _ \<Rightarrow> (Inl (AttributeError ''search_image''), s1)))"

section \<open>Completion\<close>

definition not_completable :: "attempt_state \<Rightarrow> exn" where
  "not_completable current =
     HTTPException 409 (''Job cannot complete from state '' @ attempt_state_str current @ ''.'')"

definition clear_lease :: "job_model \<Rightarrow> uuid \<Rightarrow> db \<Rightarrow> db" where
  "clear_lease m i = update_job m i (\<lambda>j. j\<lparr>j_lease_expires_at := None, j_retry_after := None\<rparr>)"

text \<open>The guard the three completion handlers share: load the job, verify the attempt, and answer
  at once when the job is already completed.\<close>

definition completing :: "job_model \<Rightarrow> time \<Rightarrow> uuid \<Rightarrow> uuid \<Rightarrow>
    (job \<Rightarrow> session \<Rightarrow> unit result \<times> session) \<Rightarrow> session \<Rightarrow> attempt_state result \<times> session" where
  "completing m verify_now job_id attempt_id work s =
    (case load_of m job_id s of
       Inl e \<Rightarrow> (Inl e, s)
     | Inr job \<Rightarrow>
         (case verify_active_attempt verify_now job attempt_id True of
            Inl e \<Rightarrow> (Inl e, s)
          | Inr current \<Rightarrow>
              if current = InState Completed then (Inr current, s)
              else if current \<noteq> InState Processing then (Inl (not_completable current), s)
              else (case work job (orm (clear_lease m job_id) s) of
                      (Inl e, s1) \<Rightarrow> (Inl e, s1)
                    | (Inr _, s1) \<Rightarrow> (Inr (InState Completed), s1))))"

record complete_env =
  cx_verify_now :: time
  cx_now :: time
  cx_ids :: "nat \<Rightarrow> uuid"

definition photo_work :: "complete_env \<Rightarrow> photo_payload \<Rightarrow> job \<Rightarrow> session \<Rightarrow> unit result \<times> session" where
  "photo_work env p job s =
    (case parent_photo (j_parent job) of
       None \<Rightarrow> (Inl (AttributeError ''photo''), s)
     | Some pid \<Rightarrow>
         (case row_at ph_id pid (photos (flushed s)) of
            None \<Rightarrow> (Inl (AttributeError ''photo''), s)
          | Some photo \<Rightarrow>
              if j_job_type job = Ocr then
                if pp_face_detections p \<noteq> []
                then (Inl (HTTPException 422 ''OCR jobs cannot return face detections.''), s)
                else (Inr (), complete_photo_ocr_job (cx_now env) (cx_ids env) job photo
                        (pp_detections p) (pp_raw_response_json p) s)
              else if j_job_type job = FacePhotoScan then
                if pp_detections p \<noteq> []
                then (Inl (HTTPException 422 ''Face scan jobs cannot return OCR detections.''), s)
                else (Inr (), complete_photo_face_job (cx_now env) (cx_ids env) job photo
                        (pp_face_detections p) (pp_raw_response_json p) s)
              else (Inl (HTTPException 400 ''Unsupported photo job type.''), s)))"

definition complete_photo_job ::
    "complete_env \<Rightarrow> uuid \<Rightarrow> photo_payload \<Rightarrow> session \<Rightarrow> attempt_state result \<times> session" where
  "complete_photo_job env job_id p s =
     completing PhotoJobs (cx_verify_now env) job_id (pp_attempt_id p) (photo_work env p) s"

definition complete_worker_participant_face_job :: "settings \<Rightarrow> complete_env \<Rightarrow> uuid \<Rightarrow> uuid \<Rightarrow>
    embedding_payload \<Rightarrow> session \<Rightarrow> attempt_state result \<times> session" where
  "complete_worker_participant_face_job cfg env job_id attempt_id p s =
     completing ParticipantFaceJobs (cx_verify_now env) job_id attempt_id
       (\<lambda>job s. complete_participant_face_job cfg (cx_now env) job p s) s"

definition search_work :: "settings \<Rightarrow> complete_env \<Rightarrow> embedding_payload \<Rightarrow> job \<Rightarrow> session \<Rightarrow>
    unit result \<times> session" where
  "search_work cfg env p job s =
    (case parent_session (j_parent job) of
       None \<Rightarrow> (Inl (AttributeError ''search_session''), s)
     | Some sid \<Rightarrow>
         (case row_at fs_id sid (search_sessions (flushed s)) of
            None \<Rightarrow> (Inl (AttributeError ''search_session''), s)
          | Some ss \<Rightarrow> complete_face_search_job cfg (cx_now env) job ss p s))"

definition complete_worker_face_search_job :: "settings \<Rightarrow> complete_env \<Rightarrow> uuid \<Rightarrow> uuid \<Rightarrow>
    embedding_payload \<Rightarrow> session \<Rightarrow> attempt_state result \<times> session" where
  "complete_worker_face_search_job cfg env job_id attempt_id p s =
     completing FaceSearchJobs (cx_verify_now env) job_id attempt_id (search_work cfg env p) s"

section \<open>Failure and heartbeat\<close>

definition fail_worker_job :: "settings \<Rightarrow> job_model \<Rightarrow> fail_env \<Rightarrow> uuid \<Rightarrow> fail_request \<Rightarrow> session \<Rightarrow>
    job_response result \<times> session" where
  "fail_worker_job cfg m env job_id req s =
    (case load_of m job_id s of
       Inl e \<Rightarrow> (Inl e, s) | Inr job \<Rightarrow> fail_job cfg m env job req s)"

definition heartbeat_worker_job :: "settings \<Rightarrow> job_model \<Rightarrow> time \<Rightarrow> time \<Rightarrow> uuid \<Rightarrow> uuid \<Rightarrow> session \<Rightarrow>
    job_response result \<times> session" where
  "heartbeat_worker_job cfg m verify_now now job_id attempt_id s =
    (case load_of m job_id s of
       Inl e \<Rightarrow> (Inl e, s) | Inr job \<Rightarrow> heartbeat_job cfg m verify_now now job attempt_id s)"

definition merge_heartbeat :: "worker_heartbeat \<Rightarrow> worker_heartbeat \<Rightarrow> worker_heartbeat" where
  "merge_heartbeat current excluded = current
     \<lparr>wh_worker_version := wh_worker_version excluded, wh_status := wh_status excluded,
      wh_current_job_id := wh_current_job_id excluded,
      wh_current_job_type := wh_current_job_type excluded,
      wh_started_at := wh_started_at excluded, wh_last_seen_at := wh_last_seen_at excluded\<rparr>"

definition record_worker_heartbeat :: "time \<Rightarrow> worker_heartbeat \<Rightarrow> session \<Rightarrow> time result \<times> session" where
  "record_worker_heartbeat now w s =
    (let has_job_id = (wh_current_job_id w \<noteq> None); has_job_type = (wh_current_job_type w \<noteq> None) in
     if has_job_id \<noteq> has_job_type
     then (Inl (HTTPException 422 ''Current job ID and type must be provided together.''), s)
     else if wh_status w = WorkerActive \<and> \<not> has_job_id
     then (Inl (HTTPException 422 ''An active worker must report its current job.''), s)
     else if wh_status w \<noteq> WorkerActive \<and> (has_job_id \<or> has_job_type)
     then (Inl (HTTPException 422 ''Only an active worker may report a current job.''), s)
     else (Inr now, commit (dml (\<lambda>d. d\<lparr>worker_heartbeats :=
             upsert wh_worker_id merge_heartbeat (w\<lparr>wh_last_seen_at := now\<rparr>) (worker_heartbeats d)\<rparr>) s)))"

section \<open>The service\<close>

datatype worker_call =
    CallClaimPhoto claim_env "str list"
  | CallClaimFace claim_env
  | CallClaimSearch claim_env
  | CallHeartbeat job_model time time uuid uuid
  | CallFail job_model fail_env uuid fail_request
  | CallCompletePhoto complete_env uuid photo_request
  | CallCompleteFace complete_env uuid embedding_request
  | CallCompleteSearch complete_env uuid embedding_request
  | CallWorkerHeartbeat time heartbeat_request

datatype worker_answer =
    AnsClaim claim_answer
  | AnsJob job_response
  | AnsState attempt_state
  | AnsTime time

record service_env =
  se_access_url :: "str \<Rightarrow> str option"
  se_float_repr :: "real \<Rightarrow> str"

text \<open>An invalid request is answered with status 422.\<close>

definition unprocessable :: "exn \<Rightarrow> exn" where
  "unprocessable e = HTTPException 422 (case e of ValueError m \<Rightarrow> m | _ \<Rightarrow> [])"

definition answer :: "('a \<Rightarrow> worker_answer) \<Rightarrow> 'a result \<times> session \<Rightarrow> worker_answer result \<times> session" where
  "answer f rs = (case rs of (Inl e, s) \<Rightarrow> (Inl e, s) | (Inr x, s) \<Rightarrow> (Inr (f x), s))"

definition with_request :: "'a result \<Rightarrow> ('a \<Rightarrow> worker_answer result \<times> session) \<Rightarrow> session \<Rightarrow>
    worker_answer result \<times> session" where
  "with_request r f s = (case r of Inl e \<Rightarrow> (Inl (unprocessable e), s) | Inr x \<Rightarrow> f x)"

fun handle :: "settings \<Rightarrow> service_env \<Rightarrow> worker_call \<Rightarrow> session \<Rightarrow> worker_answer result \<times> session" where
  "handle cfg se (CallClaimPhoto env types) s = with_request (validate_job_types types)
     (\<lambda>ts. answer AnsClaim (claim_photo_job cfg (se_access_url se) env ts s)) s"
| "handle cfg se (CallClaimFace env) s =
     answer AnsClaim (claim_participant_face_job cfg (se_access_url se) env s)"
| "handle cfg se (CallClaimSearch env) s =
     answer AnsClaim (claim_face_search_job cfg (se_access_url se) env s)"
| "handle cfg se (CallHeartbeat m verify_now now job_id attempt_id) s =
     answer AnsJob (heartbeat_worker_job cfg m verify_now now job_id attempt_id s)"
| "handle cfg se (CallFail m env job_id req) s = with_request (validate_fail_request req)
     (\<lambda>req. answer AnsJob (fail_worker_job cfg m env job_id req s)) s"
| "handle cfg se (CallCompletePhoto env job_id req) s =
     with_request (validate_photo_request (se_float_repr se) req)
       (\<lambda>p. answer AnsState (complete_photo_job env job_id p s)) s"
| "handle cfg se (CallCompleteFace env job_id req) s =
     with_request (validate_embedding_request (se_float_repr se) req) (\<lambda>p. answer AnsState
       (complete_worker_participant_face_job cfg env job_id (eq_attempt_id req) p s)) s"
| "handle cfg se (CallCompleteSearch env job_id req) s =
     with_request (validate_embedding_request (se_float_repr se) req) (\<lambda>p. answer AnsState
       (complete_worker_face_search_job cfg env job_id (eq_attempt_id req) p s)) s"
| "handle cfg se (CallWorkerHeartbeat now req) s = with_request (validate_heartbeat_request req)
     (\<lambda>w. answer AnsTime (record_worker_heartbeat now w s)) s"

definition serve :: "settings \<Rightarrow> service_env \<Rightarrow> str option \<Rightarrow> str option \<Rightarrow> worker_call \<Rightarrow> db \<Rightarrow>
    worker_answer result \<times> db" where
  "serve cfg se authorization x_worker_token call d =
    (case require_worker_token cfg authorization x_worker_token of
       Inl e \<Rightarrow> (Inl e, d)
     | Inr _ \<Rightarrow> (case handle cfg se call (open_session d) of (r, s) \<Rightarrow> (r, committed s)))"

end
