(* ===== verification/CompletionFacts.thy ===== *)
theory CompletionFacts
  imports Search EmbeddingFacts "HOL-Library.Multiset"
begin

text \<open>
  Properties of the completion of photo jobs and of participant matches: the status a photo is left
  with, the invariant of the table of final matches, and the independence of the merged evidence
  from the order in which it arrives.
\<close>

interpretation match_table: upsert_table photo_match_key merge_photo_match
  by unfold_locales (simp add: photo_match_key_def merge_photo_match_def)

interpretation face_match_table: upsert_table face_match_key merge_face_match
  by unfold_locales (simp add: face_match_key_def merge_face_match_def)

section \<open>Merging evidence\<close>

type_synonym evidence = "real option \<times> match_source"

definition evidence_of :: "photo_match \<Rightarrow> evidence" where
  "evidence_of m = (pm_confidence m, pm_match_source m)"

definition join_evidence :: "evidence \<Rightarrow> evidence \<Rightarrow> evidence" where
  "join_evidence a b = (merged_confidence (fst a) (fst b), merged_source (snd a) (snd b))"

lemma merged_confidence_commute: "merged_confidence a b = merged_confidence b a"
  by (cases a; cases b) auto

lemma merged_confidence_assoc:
  "merged_confidence (merged_confidence a b) c = merged_confidence a (merged_confidence b c)"
  by (cases a; cases b; cases c) auto

lemma merged_source_commute: "merged_source a b = merged_source b a"
  by (cases a; cases b) (simp_all add: merged_source_def)

lemma merged_source_assoc: "merged_source (merged_source a b) c = merged_source a (merged_source b c)"
  by (cases a; cases b; cases c) (simp_all add: merged_source_def)

lemma join_evidence_swap: "join_evidence (join_evidence a b) c = join_evidence (join_evidence a c) b"
  by (metis (no_types, lifting) fst_conv join_evidence_def merged_confidence_assoc
      merged_confidence_commute merged_source_assoc merged_source_commute snd_conv)

lemma evidence_merge: "evidence_of (merge_photo_match a b) = join_evidence (evidence_of a) (evidence_of b)"
  by (simp add: evidence_of_def join_evidence_def merge_photo_match_def)

text \<open>The evidence the table holds for a key, and what one more report makes of it.\<close>

abbreviation evidence_at :: "uuid \<times> uuid \<Rightarrow> photo_match list \<Rightarrow> evidence option" where
  "evidence_at k t \<equiv> map_option evidence_of (row_at photo_match_key k t)"

definition absorb :: "uuid \<times> uuid \<Rightarrow> photo_match \<Rightarrow> evidence option \<Rightarrow> evidence option" where
  "absorb k m e = (if photo_match_key m = k
     then Some (case e of None \<Rightarrow> evidence_of m | Some x \<Rightarrow> join_evidence x (evidence_of m)) else e)"

lemma absorb_commute: "absorb k m \<circ> absorb k n = absorb k n \<circ> absorb k m"
proof
  fix e
  have "join_evidence (evidence_of n) (evidence_of m) = join_evidence (evidence_of m) (evidence_of n)"
    by (simp add: join_evidence_def merged_confidence_commute[of "fst (evidence_of n)"]
        merged_source_commute[of "snd (evidence_of n)"])
  then show "(absorb k m \<circ> absorb k n) e = (absorb k n \<circ> absorb k m) e"
    by (cases e) (auto simp: absorb_def join_evidence_swap)
qed

lemma evidence_at_upserts:
  "evidence_at k (foldl (\<lambda>t m. upsert photo_match_key merge_photo_match m t) t ms) =
   fold (absorb k) ms (evidence_at k t)"
proof (induction ms arbitrary: t)
  case (Cons m ms)
  have "evidence_at k (upsert photo_match_key merge_photo_match m t) = absorb k m (evidence_at k t)"
    by (simp add: match_table.lookup_upsert absorb_def evidence_merge split: option.splits)
  with Cons show ?case by simp
qed simp


definition sample_match :: "match_source \<Rightarrow> real \<Rightarrow> photo_match" where
  "sample_match src c = \<lparr>pm_event_id = 1, pm_photo_id = 2, pm_participant_id = 3,
     pm_match_source = src, pm_matched_value = ''42'', pm_confidence = Some c, pm_created_at = 0\<rparr>"


section \<open>The table of final matches\<close>

definition match_ok :: "photo_match \<Rightarrow> bool" where
  "match_ok m \<longleftrightarrow> photo_match_constraints m \<and> pm_matched_value m \<noteq> [] \<and> length (pm_matched_value m) \<le> 255"

definition matches_ok :: "db \<Rightarrow> bool" where
  "matches_ok d \<longleftrightarrow> distinct (map photo_match_key (photo_matches d)) \<and> list_all match_ok (photo_matches d)"

lemma merge_ok: "match_ok a \<Longrightarrow> match_ok b \<Longrightarrow> match_ok (merge_photo_match a b)"
  by (cases "pm_confidence a"; cases "pm_confidence b")
    (auto simp: match_ok_def photo_match_constraints_def merge_photo_match_def merged_value_def)

lemma upsert_all: "list_all q rows \<Longrightarrow> q x \<Longrightarrow> (\<And>r. q r \<Longrightarrow> q (merge r x)) \<Longrightarrow>
   list_all q (upsert key merge x rows)"
  by (auto simp: upsert_def update_where_def list_all_iff)

lemma upsert_matches_ok: "matches_ok d \<Longrightarrow> match_ok m \<Longrightarrow> matches_ok (upsert_photo_match m d)"
  by (auto simp: matches_ok_def upsert_photo_match_def intro: match_table.unique_upsert upsert_all merge_ok)

lemma clamp_ok: "clamp_match_value v \<noteq> [] \<and> length (clamp_match_value v) \<le> 255"
  by (simp add: clamp_match_value_def Let_def)

definition score_in_range :: "real option \<Rightarrow> bool" where
  "score_in_range c \<longleftrightarrow> (case c of None \<Rightarrow> True | Some x \<Rightarrow> -1 \<le> x \<and> x \<le> 1)"

lemma final_match_ok:
  "matches_ok (live s) \<Longrightarrow> score_in_range c \<Longrightarrow>
   matches_ok (live (upsert_final_photo_participant_match now e p i src v c s))"
  by (simp add: upsert_final_photo_participant_match_def upsert_matches_ok match_ok_def
      photo_match_constraints_def score_in_range_def clamp_ok)

lemma ocr_matches_ok:
  assumes "matches_ok (live s)" and "list_all (\<lambda>t. score_in_range (td_confidence t)) ts"
  shows "matches_ok (live (create_ocr_participant_matches now photo ts s))"
proof -
  have "matches_ok (live (match_candidate now photo by_bib t s c))"
    if "matches_ok (live s)" "t \<in> set ts" for s t c by_bib
    using that assms(2) by (auto simp: match_candidate_def list_all_iff final_match_ok split: option.splits)
  then have inner: "matches_ok (live (foldl (match_candidate now photo by_bib t) s cs))"
    if "matches_ok (live s)" "t \<in> set ts" for s t cs by_bib
    using that by (intro foldl_invariant[where P = "\<lambda>s. matches_ok (live s)"]) auto
  show ?thesis unfolding create_ocr_participant_matches_def Let_def
    by (rule foldl_invariant[where P = "\<lambda>s. matches_ok (live s)"]) (simp_all only: assms(1) inner)
qed

lemma stored_in_range:
  "list_all (\<lambda>p. score_in_range (op_confidence p)) ps \<Longrightarrow>
   list_all (\<lambda>t. score_in_range (td_confidence t)) (store_detections now ids pid jid n ps)"
  by (induction ps arbitrary: n) (auto simp: Let_def)

lemma best_in_range:
  "(\<forall>x \<in> set best. -1 \<le> snd x \<and> snd x \<le> 1) \<Longrightarrow>
   \<forall>x \<in> set (best_by_participant cfg f es best). -1 \<le> snd x \<and> snd x \<le> (1::real)"
proof (induction es arbitrary: best)
  case (Cons e es)
  let ?score = "cosine_similarity (fd_embedding_json f) (fe_embedding_json e)"
  have "\<forall>x \<in> set (AList.update (fe_participant_id e) ?score best). -1 \<le> snd x \<and> snd x \<le> 1"
    using Cons.prems cosine_bounds by (induction best) auto
  note updated = Cons.IH[OF this] and same = Cons.IH[OF Cons.prems]
  have "best_by_participant cfg f (e # es) best = best_by_participant cfg f es best \<or>
    best_by_participant cfg f (e # es) best =
      best_by_participant cfg f es (AList.update (fe_participant_id e) ?score best)"
    by (simp add: Let_def split: option.splits)
  with updated same show ?case by metis
qed simp

lemma face_matches_ok:
  assumes "matches_ok (live s)"
  shows "matches_ok (live (snd (create_face_matches cfg now f es s)))"
proof -
  have "matches_ok (live (write_face_match now f s x))"
    if "matches_ok (live s)" "-1 \<le> snd x \<and> snd x \<le> 1" for s x
    using that by (cases x) (simp add: write_face_match_def, intro final_match_ok,
        auto simp: matches_ok_def score_in_range_def)
  moreover have "\<forall>x \<in> set (best_by_participant cfg f es []). -1 \<le> snd x \<and> snd x \<le> 1"
    by (rule best_in_range) simp
  ultimately show ?thesis unfolding create_face_matches_def Let_def snd_conv
    by (intro foldl_invariant[where P = "\<lambda>s. matches_ok (live s)"] assms) auto
qed

lemma participant_matches_ok:
  assumes "matches_ok (live s)"
  shows "matches_ok (live (snd (create_face_participant_matches_for_participant cfg now pid eid s)))"
proof -
  have "matches_ok (live (snd (foldl (\<lambda>(n, s) f. case create_face_matches cfg now f es s of
      (k, s') \<Rightarrow> (n + k, s')) (m, s) fs)))" for es m fs
    using assms
  proof (induction fs arbitrary: m s)
    case (Cons f fs)
    obtain k s' where c: "create_face_matches cfg now f es s = (k, s')" by fastforce
    then have "matches_ok (live s')" using face_matches_ok[OF Cons.prems, of cfg now f es] by simp
    with Cons.IH c show ?case by simp
  qed simp
  then show ?thesis by (simp add: create_face_participant_matches_for_participant_def Let_def)
qed

lemma matches_ok_frame [simp]:
  "matches_ok (update_job m i f d) = matches_ok d" "matches_ok (update_photo i g d) = matches_ok d"
  "matches_ok (update_face_image i h d) = matches_ok d"
  "matches_ok (d\<lparr>text_detections := a\<rparr>) = matches_ok d"
  "matches_ok (d\<lparr>face_detections := b\<rparr>) = matches_ok d"
  "matches_ok (d\<lparr>face_embeddings := c\<rparr>) = matches_ok d"
  by (cases m; simp add: matches_ok_def update_job_def update_photo_def update_face_image_def)+

lemma mark_ready_matches [simp]:
  "matches_ok (live (mark_photo_ready_if_jobs_done i s)) = matches_ok (live s)"
  by (simp add: mark_photo_ready_if_jobs_done_def Let_def)

lemma completion_matches:
  assumes "matches_ok (live s)" and "list_all (\<lambda>p. score_in_range (op_confidence p)) texts"
  shows "matches_ok (live (complete_photo_ocr_job now ids job photo texts raw s)) \<and>
    matches_ok (live (complete_photo_face_job now ids job photo faces raw s)) \<and>
    matches_ok (live (snd (complete_participant_face_job cfg now job p s)))"
proof (intro conjI)
  show "matches_ok (live (complete_photo_ocr_job now ids job photo texts raw s))"
    using assms by (simp add: complete_photo_ocr_job_def Let_def ocr_matches_ok stored_in_range)
  show "matches_ok (live (complete_photo_face_job now ids job photo faces raw s))"
    using assms by (simp add: complete_photo_face_job_def Let_def)
  show "matches_ok (live (snd (complete_participant_face_job cfg now job p s)))"
    using assms(1)
    by (auto simp: complete_participant_face_job_def Let_def intro!: participant_matches_ok
        split: job_parent.splits)
qed

text \<open>C30 (invariant): the table of final matches keeps one row per photo and participant, a confidence
  between -1 and 1, and a value that is not empty and fits its 255 characters, when an OCR job whose
  confidences are in range completes, when a face scan completes, and when an enrolment completes or
  is refused.\<close>

theorem matches_invariant:
  assumes "matches_ok (live s)" and "list_all (\<lambda>p. score_in_range (op_confidence p)) texts"
  shows "matches_ok (live (complete_photo_ocr_job now ids job photo texts raw s)) \<and>
    matches_ok (live (complete_photo_face_job now ids job photo faces raw s)) \<and>
    matches_ok (live (snd (complete_participant_face_job cfg now job p s)))"
  using assms by (rule completion_matches)

definition sample_participant :: participant where
  "sample_participant = \<lparr>pa_id = 3, pa_event_id = 1, pa_bib_number = ''42'', pa_full_name = ''Ana'',
     pa_bib_lookup = ''42'', pa_name_lookup = ''ana'', pa_created_at = 0\<rparr>"

definition sample_photo :: photo where
  "sample_photo = \<lparr>ph_id = 2, ph_event_id = 1, ph_original_object_key = ''k'',
     ph_thumbnail_object_key = None, ph_file_name = ''a.jpg'', ph_content_type = ''image/jpeg'',
     ph_file_size = 1, ph_checksum_sha256 = None, ph_idempotency_key = None,
     ph_status = PhotoProcessing, ph_created_at = 0\<rparr>"

definition sample_ocr_job :: job where
  "sample_ocr_job = \<lparr>j_id = 4, j_parent = OfPhoto 2, j_job_type = Ocr, j_status = Processing,
     j_attempt_count = 1, j_max_attempts = 5, j_attempt_id = Some 8, j_claimed_at = Some 0,
     j_lease_expires_at = Some 300000000, j_retry_after = None, j_dead_lettered_at = None,
     j_error_message = None, j_raw_response_json = None, j_created_at = 0, j_finished_at = None\<rparr>"

definition sample_text :: ocr_payload where
  "sample_text = \<lparr>op_detected_text = ''42'', op_normalized_text = ''42'',
     op_confidence = Some (9/10), op_bounding_box_json = None\<rparr>"

definition sample_db :: db where
  "sample_db = empty_db\<lparr>photos := [sample_photo], participants := [sample_participant],
     photo_jobs := [sample_ocr_job]\<rparr>"

theorem matches_invariant_witness:
  "matches_ok (live (complete_photo_ocr_job 0 (\<lambda>n. 5) sample_ocr_job sample_photo [sample_text] None
      (open_session sample_db)))"
proof -
  have "matches_ok (live (open_session sample_db))"
    by (simp add: matches_ok_def sample_db_def empty_db_def)
  moreover have "list_all (\<lambda>p. score_in_range (op_confidence p)) [sample_text]"
    by (simp add: score_in_range_def sample_text_def)
  ultimately show ?thesis by (rule matches_invariant[THEN conjunct1])
qed

section \<open>The status of the photo\<close>

definition photo_status_of :: "job_status list \<Rightarrow> photo_status" where
  "photo_status_of statuses =
    (if \<not> list_all (\<lambda>st. st \<in> {Completed, Failed, DeadLettered}) statuses then PhotoProcessing
     else if list_all (\<lambda>st. st = Completed) statuses then PhotoReady
     else if Completed \<in> set statuses then PhotoPartiallyReady
     else PhotoFailed)"

lemma update_photo_rows:
  assumes "x \<in> set (photos (update_photo pid (\<lambda>p. p\<lparr>ph_status := st\<rparr>) d))"
  shows "ph_id x = pid \<Longrightarrow> ph_status x = st" and "ph_id x \<noteq> pid \<Longrightarrow> x \<in> set (photos d)"
proof -
  from assms obtain y where y: "y \<in> set (photos d)" "x = (if ph_id y = pid then y\<lparr>ph_status := st\<rparr> else y)"
    by (fastforce simp: update_photo_def update_where_def)
  then show "ph_id x = pid \<Longrightarrow> ph_status x = st" and "ph_id x \<noteq> pid \<Longrightarrow> x \<in> set (photos d)"
    by (cases "ph_id y = pid"; simp)+
qed

lemma mark_ready_status:
  assumes "photo_job_statuses pid (flushed s) \<noteq> []"
  shows "live (mark_photo_ready_if_jobs_done pid s) =
    update_photo pid (\<lambda>p. p\<lparr>ph_status := photo_status_of (photo_job_statuses pid (flushed s))\<rparr>) (live s)"
proof -
  let ?sts = "photo_job_statuses pid (flushed s)"
  have all: "length (filter (\<lambda>st. st = Completed) ?sts) = length ?sts \<longleftrightarrow> list_all (\<lambda>st. st = Completed) ?sts"
    by (metis (mono_tags, lifting) Ball_set filter_True length_filter_less order_less_irrefl)
  have some: "filter (\<lambda>st. st = Completed) ?sts = [] \<longleftrightarrow> Completed \<notin> set ?sts"
    by (auto simp: filter_empty_conv)
  have ending: "all_terminal ?sts = list_all (\<lambda>st. st \<in> {Completed, Failed, DeadLettered}) ?sts"
    using assms by (simp add: all_terminal_def TERMINAL_JOB_STATUSES_def list_all_iff)
  show ?thesis
    using assms by (simp add: mark_photo_ready_if_jobs_done_def Let_def all some ending photo_status_of_def)
qed

lemma create_ocr_frame [simp]:
  "jobs_of m (live (create_ocr_participant_matches now photo ts s)) = jobs_of m (live s)"
proof -
  have one: "jobs_of m (live (match_candidate now photo by_bib t s c)) = jobs_of m (live s)" for by_bib t s c
    by (cases m) (simp_all add: match_candidate_def upsert_final_photo_participant_match_def
        upsert_photo_match_def split: option.splits)
  have inner: "jobs_of m (live (foldl (match_candidate now photo by_bib t) s cs)) = jobs_of m (live s)"
    for by_bib t s cs by (induction cs arbitrary: s) (simp_all add: one)
  have "jobs_of m (live (foldl (\<lambda>s t. foldl (match_candidate now photo by_bib t) s
      (extract_match_candidates (td_detected_text t))) s ts)) = jobs_of m (live s)" for by_bib s
    by (induction ts arbitrary: s) (simp_all add: inner)
  then show ?thesis unfolding create_ocr_participant_matches_def Let_def .
qed

lemma create_ocr_photo_jobs [simp]:
  "photo_jobs (live (create_ocr_participant_matches now photo ts s)) = photo_jobs (live s)"
  using create_ocr_frame[of PhotoJobs now photo ts s] unfolding jobs_of.simps .

text \<open>Both completions end the same way.\<close>

lemma completion_ends:
  assumes "s' = complete_photo_ocr_job now ids job photo texts raw s \<or>
    s' = complete_photo_face_job now ids job photo faces raw s"
  shows "\<exists>t r. s' = commit (mark_photo_ready_if_jobs_done (ph_id photo) t) \<and> flushed t = live t \<and>
    photo_jobs (live t) = update_where (\<lambda>j. j_id j = j_id job) (finish_job now r) (photo_jobs (live s))"
proof -
  let ?r1 = "compact_worker_diagnostics raw [(''detection_count'',
    JInt (int (length (store_detections now ids (ph_id photo) (j_id job) 0 texts))))]"
  let ?r2 = "compact_worker_diagnostics raw [(''face_count'',
    JInt (int (length (store_faces now ids photo (j_id job) 0 faces))))]"
  have 1: "\<exists>t. complete_photo_ocr_job now ids job photo texts raw s =
      commit (mark_photo_ready_if_jobs_done (ph_id photo) t) \<and> flushed t = live t \<and>
      photo_jobs (live t) = update_where (\<lambda>j. j_id j = j_id job) (finish_job now ?r1) (photo_jobs (live s))"
    unfolding complete_photo_ocr_job_def Let_def
    by (rule exI, rule conjI, rule refl) (simp add: update_job_def)
  have 2: "\<exists>t. complete_photo_face_job now ids job photo faces raw s =
      commit (mark_photo_ready_if_jobs_done (ph_id photo) t) \<and> flushed t = live t \<and>
      photo_jobs (live t) = update_where (\<lambda>j. j_id j = j_id job) (finish_job now ?r2) (photo_jobs (live s))"
    unfolding complete_photo_face_job_def Let_def
    by (rule exI, rule conjI, rule refl) (simp add: update_job_def)
  from assms 1 2 show ?thesis by blast
qed

text \<open>Completing an OCR or a face job of a photo marks the job completed and sets the
  photo to the status its jobs, including the one just completed, imply: processing while one of
  them is not terminal, else ready when all completed, and partially ready otherwise.\<close>

theorem photo_completion_status:
  assumes "s' = complete_photo_ocr_job now ids job photo texts raw s \<or>
      s' = complete_photo_face_job now ids job photo faces raw s"
    and "job \<in> set (photo_jobs (live s))" and "j_parent job = OfPhoto (ph_id photo)"
  shows "(\<forall>x \<in> set (photos (committed s')). ph_id x = ph_id photo \<longrightarrow>
      ph_status x = photo_status_of (photo_job_statuses (ph_id photo) (committed s')) \<and>
      ph_status x \<noteq> PhotoFailed) \<and>
    (\<forall>j \<in> set (photo_jobs (committed s')). j_id j = j_id job \<longrightarrow> j_status j = Completed)"
proof -
  from completion_ends[OF assms(1)] obtain t r where
    s': "s' = commit (mark_photo_ready_if_jobs_done (ph_id photo) t)" and t: "flushed t = live t" and
    jobs: "photo_jobs (live t) = update_where (\<lambda>j. j_id j = j_id job) (finish_job now r) (photo_jobs (live s))"
    by blast
  let ?sts = "photo_job_statuses (ph_id photo) (live t)"
  have "finish_job now r job \<in> set (photo_jobs (live t))"
    using assms(2) by (force simp: jobs update_where_def)
  then have fin: "Completed \<in> set ?sts"
    using assms(3) by (force simp: photo_job_statuses_def finish_job_def)
  then have ne: "photo_job_statuses (ph_id photo) (flushed t) \<noteq> []" by (auto simp: t)
  have live: "committed s' =
      update_photo (ph_id photo) (\<lambda>p. p\<lparr>ph_status := photo_status_of ?sts\<rparr>) (live t)"
    using mark_ready_status[OF ne] by (simp add: s' t)
  then have sts: "photo_job_statuses (ph_id photo) (committed s') = ?sts"
    and pj: "photo_jobs (committed s') = photo_jobs (live t)"
    by (simp_all add: photo_job_statuses_def update_photo_def)
  have "photo_status_of ?sts \<noteq> PhotoFailed" using fin by (simp add: photo_status_of_def)
  moreover have "\<forall>x \<in> set (photos (committed s')). ph_id x = ph_id photo \<longrightarrow> ph_status x = photo_status_of ?sts"
    unfolding live using update_photo_rows(1) by blast
  moreover have "\<forall>j \<in> set (photo_jobs (committed s')). j_id j = j_id job \<longrightarrow> j_status j = Completed"
    by (auto simp: pj jobs update_where_def finish_job_def)
  ultimately show ?thesis by (simp add: sts)
qed

theorem photo_completion_status_witness:
  "filter (\<lambda>j. j_id j = 4 \<and> j_status j \<noteq> Completed) (photo_jobs (committed (complete_photo_ocr_job 0 (\<lambda>n. 5)
      sample_ocr_job sample_photo [sample_text] None (open_session sample_db)))) = []"
proof -
  have "sample_ocr_job \<in> set (photo_jobs (live (open_session sample_db)))"
    and "j_parent sample_ocr_job = OfPhoto (ph_id sample_photo)" and "j_id sample_ocr_job = 4"
    by (simp_all add: sample_db_def sample_ocr_job_def sample_photo_def)
  with photo_completion_status[OF disjI1[OF refl] this(1,2), of 0 "\<lambda>n. 5" "[sample_text]" None]
  show ?thesis by (auto simp: filter_empty_conv)
qed

end
