(* ===== verification/WorkerApiFacts.thy ===== *)
theory WorkerApiFacts
  imports WorkerApi CompletionFacts SearchFacts
begin

text \<open>
  The worker API as a transition system: every call, with any input, moves every job row along its
  lifecycle and keeps the invariants of the tables.  From there: what holds of every database the
  service can reach.
\<close>

section \<open>Tables a call does not touch\<close>

lemma reap_one_table [simp]:
  "m' \<noteq> m \<Longrightarrow> jobs_of m' (live (reap_one m dn sn s j)) = jobs_of m' (live s)"
  by (simp add: reap_one_def Let_def)

lemma reap_loop_table [simp]:
  "m' \<noteq> m \<Longrightarrow> jobs_of m' (live (reap_loop m dn sn n js s)) = jobs_of m' (live s)"
  by (induction js arbitrary: n s) simp_all

lemma claim_table:
  assumes "claim_job cfg m cond env (open_session d) = (r, s')" and "m' \<noteq> m"
  shows "jobs_of m' (committed s') = jobs_of m' d"
  using assms claim_cases[of m cond env d cfg]
  by (auto simp: reap_exhausted_jobs_def Let_def)

lemma fail_table:
  assumes "fail_job cfg m env job req (open_session d) = (r, s')" and "m' \<noteq> m"
  shows "jobs_of m' (committed s') = jobs_of m' d"
  using assms by (auto simp: fail_job_def Let_def split: sum.splits if_splits)

lemma heartbeat_table:
  assumes "heartbeat_job cfg m vnow now job a (open_session d) = (r, s')" and "m' \<noteq> m"
  shows "jobs_of m' (committed s') = jobs_of m' d"
  using assms by (auto simp: heartbeat_job_def Let_def split: sum.splits if_splits)

lemma write_face_match_jobs [simp]: "jobs_of m (live (write_face_match now f s x)) = jobs_of m (live s)"
  by (cases m; cases x) (simp_all add: write_face_match_def Let_def
      upsert_final_photo_participant_match_def upsert_photo_match_def)

lemma create_face_matches_jobs:
  "jobs_of m (live (snd (create_face_matches cfg now f es s))) = jobs_of m (live s)"
proof -
  have "jobs_of m (live (foldl (write_face_match now f) s xs)) = jobs_of m (live s)" for xs
    by (induction xs arbitrary: s) simp_all
  then show ?thesis by (simp add: create_face_matches_def Let_def)
qed

lemma participant_matches_jobs [simp]:
  "jobs_of m (live (snd (create_face_participant_matches_for_participant cfg now pid eid s))) =
   jobs_of m (live s)"
proof -
  have "jobs_of m (live (snd (foldl (\<lambda>(n, s) f. case create_face_matches cfg now f es s of
      (k, s') \<Rightarrow> (n + k, s')) (c, s) fs))) = jobs_of m (live s)" for es c fs
  proof (induction fs arbitrary: c s)
    case (Cons f fs)
    obtain k s' where e: "create_face_matches cfg now f es s = (k, s')" by fastforce
    with create_face_matches_jobs[of m cfg now f es s] Cons show ?case by simp
  qed simp
  then show ?thesis by (simp add: create_face_participant_matches_for_participant_def Let_def)
qed

section \<open>Completion moves the job along its lifecycle\<close>

lemma update_where_compose:
  "(\<And>r. p (g r) = p r) \<Longrightarrow> update_where p f (update_where p g rows) = update_where p (\<lambda>r. f (g r)) rows"
  by (simp add: update_where_def)

text \<open>The two writes of a completion, on the row of the job: the lease is cleared, then the job is
  finished.\<close>

definition finished_rows :: "job_model \<Rightarrow> uuid \<Rightarrow> db \<Rightarrow> session \<Rightarrow> bool" where
  "finished_rows m i d s' \<longleftrightarrow> (\<exists>now raw. \<forall>m'. jobs_of m' (committed s') =
     (if m' = m then update_where (\<lambda>j. j_id j = i) (finish_job now raw) (jobs_of m (clear_lease m i d))
      else jobs_of m' d))"

lemma clear_lease_other [simp]: "m' \<noteq> m \<Longrightarrow> jobs_of m' (clear_lease m i d) = jobs_of m' d"
  by (simp add: clear_lease_def)

lemma finished_rows_run:
  assumes "wf_jobs m d" and "job_at m i d = Some job" and "j_status job = Processing"
    and "finished_rows m i d s'"
  shows "jobs_run (jobs_of m' d) (jobs_of m' (committed s'))"
proof -
  from assms(4) obtain now raw where rows: "\<forall>m'. jobs_of m' (committed s') =
     (if m' = m then update_where (\<lambda>j. j_id j = i) (finish_job now raw) (jobs_of m (clear_lease m i d))
      else jobs_of m' d)" unfolding finished_rows_def by blast
  show ?thesis
  proof (cases "m' = m")
    case True
    let ?f = "\<lambda>j. finish_job now raw (j\<lparr>j_lease_expires_at := None, j_retry_after := None\<rparr>)"
    have "jobs_of m (committed s') = update_where (\<lambda>j. j_id j = i) ?f (jobs_of m d)"
      using rows by (simp add: clear_lease_def update_where_compose)
    moreover have "jobs_run (jobs_of m d) (update_where (\<lambda>j. j_id j = i) ?f (jobs_of m d))"
    proof (rule jobs_run_update)
      fix k assume "k \<in> set (jobs_of m d)" "j_id k = i"
      with assms(1,2) have "k = job" by (metis option.inject wf_jobs_at)
      with assms(3) show "job_run k (?f k)"
        by (intro job_run_step step_finish)
          (auto simp: finish_job_def same_core_def TERMINAL_JOB_STATUSES_def)
    qed
    ultimately show ?thesis using True by simp
  next
    case False
    with rows show ?thesis by simp
  qed
qed

lemma mark_ready_jobs [simp]:
  "jobs_of m (live (mark_photo_ready_if_jobs_done pid s)) = jobs_of m (live s)"
  by (simp add: mark_photo_ready_if_jobs_done_def Let_def)

lemma mark_done_jobs [simp]:
  "jobs_of m (live (mark_face_search_session_done_if_jobs_done now sid s)) = jobs_of m (live s)"
  by (simp add: mark_face_search_session_done_if_jobs_done_def Let_def)

lemma jobs_of_tables [simp]:
  "jobs_of m (d\<lparr>text_detections := a\<rparr>) = jobs_of m d" "jobs_of m (d\<lparr>face_detections := b\<rparr>) = jobs_of m d"
  "jobs_of m (d\<lparr>face_embeddings := c\<rparr>) = jobs_of m d"
  "jobs_of m (d\<lparr>worker_heartbeats := w\<rparr>) = jobs_of m d"
  by (cases m; simp)+

lemma photo_work_rows:
  assumes "photo_work env p job (orm (clear_lease PhotoJobs (j_id job)) (open_session d)) = (Inr u, s')"
  shows "finished_rows PhotoJobs (j_id job) d s'"
proof -
  let ?s = "orm (clear_lease PhotoJobs (j_id job)) (open_session d)"
  from assms obtain photo where "s' = complete_photo_ocr_job (cx_now env) (cx_ids env) job photo
        (pp_detections p) (pp_raw_response_json p) ?s \<or>
      s' = complete_photo_face_job (cx_now env) (cx_ids env) job photo
        (pp_face_detections p) (pp_raw_response_json p) ?s"
    by (auto simp: photo_work_def split: option.splits if_splits)
  then have "\<exists>raw. \<forall>m'. jobs_of m' (committed s') = (if m' = PhotoJobs
      then update_where (\<lambda>j. j_id j = j_id job) (finish_job (cx_now env) raw)
        (jobs_of PhotoJobs (clear_lease PhotoJobs (j_id job) d))
      else jobs_of m' d)"
  proof
    assume s': "s' = complete_photo_ocr_job (cx_now env) (cx_ids env) job photo
        (pp_detections p) (pp_raw_response_json p) ?s"
    show ?thesis unfolding s' complete_photo_ocr_job_def Let_def
      by (rule exI[of _ "compact_worker_diagnostics (pp_raw_response_json p) [(''detection_count'',
          JInt (int (length (store_detections (cx_now env) (cx_ids env) (ph_id photo) (j_id job) 0
            (pp_detections p)))))]"]) (simp del: jobs_of.simps)
  next
    assume s': "s' = complete_photo_face_job (cx_now env) (cx_ids env) job photo
        (pp_face_detections p) (pp_raw_response_json p) ?s"
    show ?thesis unfolding s' complete_photo_face_job_def Let_def
      by (rule exI[of _ "compact_worker_diagnostics (pp_raw_response_json p) [(''face_count'',
          JInt (int (length (store_faces (cx_now env) (cx_ids env) photo (j_id job) 0
            (pp_face_detections p)))))]"]) (simp del: jobs_of.simps)
  qed
  then show ?thesis unfolding finished_rows_def by blast
qed

lemma face_work_rows:
  assumes "complete_participant_face_job cfg now job p
      (orm (clear_lease ParticipantFaceJobs (j_id job)) (open_session d)) = (Inr u, s')"
    and "job_class (j_parent job) = ParticipantFaceJobs"
  shows "finished_rows ParticipantFaceJobs (j_id job) d s'"
proof -
  from assms(2) obtain e pid img where "j_parent job = OfFaceImage e pid img"
    by (cases "j_parent job") auto
  with assms(1) have "\<forall>m'. jobs_of m' (committed s') = (if m' = ParticipantFaceJobs
      then update_where (\<lambda>j. j_id j = j_id job)
        (finish_job now (compact_worker_diagnostics (ep_raw_response_json p) [(''face_count'', JInt 1)]))
        (jobs_of ParticipantFaceJobs (clear_lease ParticipantFaceJobs (j_id job) d))
      else jobs_of m' d)"
    by (auto simp: complete_participant_face_job_def Let_def simp del: jobs_of.simps split: if_splits)
  then show ?thesis unfolding finished_rows_def by blast
qed

lemma writes_jobs: "writes_results cfg e sid s s' \<Longrightarrow> jobs_of m (live s') = jobs_of m (live s)"
  by (auto simp: writes_results_def)

lemma search_work_rows:
  assumes "search_work cfg env p job (orm (clear_lease FaceSearchJobs (j_id job)) (open_session d))
      = (Inr u, s')"
    and "job_class (j_parent job) = FaceSearchJobs"
  shows "finished_rows FaceSearchJobs (j_id job) d s'"
proof -
  let ?s = "orm (clear_lease FaceSearchJobs (j_id job)) (open_session d)"
  from assms(2) obtain e sid img where parent: "j_parent job = OfSearch e sid img"
    by (cases "j_parent job") auto
  with assms(1) obtain ss where c: "complete_face_search_job cfg (cx_now env) job ss p ?s = (Inr (), s')"
    by (auto simp: search_work_def split: option.splits)
  from complete_search_steps[OF c parent] obtain k s1 r s2 where
    w1: "create_face_search_results cfg (cx_now env) e sid (normalize_float_list (ep_embedding p)) ?s = (Inr k, s1)"
    and w2: "reinforce_if_participant cfg (cx_now env) ss
      (orm (probe_rows (cx_now env) job img p k) s1) = (Inr r, s2)"
    and s': "s' = commit (mark_face_search_session_done_if_jobs_done (cx_now env) sid s2)" by blast
  have "jobs_of m' (committed s') = jobs_of m' (probe_rows (cx_now env) job img p k (live s1))" for m'
    using writes_jobs[OF reinforce_if_writes[OF w2]] by (simp add: s')
  moreover have "jobs_of m' (live s1) = jobs_of m' (clear_lease FaceSearchJobs (j_id job) d)" for m'
    using writes_jobs[OF create_results_writes[OF w1]] by simp
  ultimately have "\<exists>raw. \<forall>m'. jobs_of m' (committed s') = (if m' = FaceSearchJobs
      then update_where (\<lambda>j. j_id j = j_id job) (finish_job (cx_now env) raw)
        (jobs_of FaceSearchJobs (clear_lease FaceSearchJobs (j_id job) d))
      else jobs_of m' d)"
    unfolding probe_rows_def
    by (intro exI[of _ "compact_worker_diagnostics (ep_raw_response_json p)
           [(''detection_score'', opt_json (ep_detection_score p)),
            (''quality_score'', opt_json (ep_quality_score p)),
            (''matched_count'', JInt k)]"]) (simp del: jobs_of.simps)
  then show ?thesis unfolding finished_rows_def by blast
qed

section \<open>Every call moves every job along its lifecycle\<close>

lemma load_of_eq: "load_of m i s = Inr job \<Longrightarrow> job_at m i (flushed s) = Some job"
  by (cases m) (auto simp: load_photo_job_def load_participant_face_job_def load_face_search_job_def
      load_job_def split: option.splits)

lemma load_of_found: "job_at m i (flushed s) = Some job \<Longrightarrow> load_of m i s = Inr job"
  by (cases m) (auto simp: load_photo_job_def load_participant_face_job_def load_face_search_job_def
      load_job_def)

text \<open>A completion either commits nothing or finishes the job it verified.\<close>

lemma completing_cases:
  assumes "completing m vnow i a work (open_session d) = (r, s')"
    and err: "\<And>job e t. job_at m i d = Some job \<Longrightarrow>
      work job (orm (clear_lease m i) (open_session d)) = (Inl e, t) \<Longrightarrow> committed t = d"
  obtains (nothing) "committed s' = d"
    | (finished) job u where "job_at m i d = Some job"
      "verify_active_attempt vnow job a True = Inr (InState Processing)"
      "work job (orm (clear_lease m i) (open_session d)) = (Inr u, s')" "r = Inr (InState Completed)"
proof (cases "load_of m i (open_session d)")
  case (Inl e)
  with assms(1) have "s' = open_session d" by (simp add: completing_def)
  then have "committed s' = d" by simp
  then show ?thesis by (rule nothing)
next
  case (Inr job)
  then have at: "job_at m i d = Some job" using load_of_eq by fastforce
  show ?thesis
  proof (cases "verify_active_attempt vnow job a True = Inr (InState Processing)")
    case False
    with assms(1) Inr have "s' = open_session d"
      by (auto simp: completing_def split: sum.splits if_splits)
    then have "committed s' = d" by simp
    then show ?thesis by (rule nothing)
  next
    case True
    obtain q t where w: "work job (orm (clear_lease m i) (open_session d)) = (q, t)" by fastforce
    show ?thesis
    proof (cases q)
      case (Inl e)
      with assms(1) Inr True w have "s' = t" by (simp add: completing_def)
      with err[OF at w[unfolded Inl]] have "committed s' = d" by simp
      then show ?thesis by (rule nothing)
    next
      case fine: (Inr u)
      with assms(1) Inr True w have "s' = t" "r = Inr (InState Completed)"
        by (simp_all add: completing_def)
      with finished[OF at True, of u] w fine show ?thesis by simp
    qed
  qed
qed

lemma photo_work_error:
  "photo_work env p job s = (Inl e, t) \<Longrightarrow> t = s"
  by (auto simp: photo_work_def split: option.splits if_splits)

lemma face_work_error:
  "complete_participant_face_job cfg now job p s = (Inl e, t) \<Longrightarrow> t = s"
  by (auto simp: complete_participant_face_job_def Let_def split: job_parent.splits if_splits)

lemma complete_search_error:
  assumes "complete_face_search_job cfg now job ss p s = (Inl e, t)"
  shows "committed t = committed s"
proof (cases "t = s")
  case False
  with assms obtain ev sid img where parent: "j_parent job = OfSearch ev sid img"
    by (auto simp: complete_face_search_job_def Let_def split: job_parent.splits if_splits)
  obtain q s1 where c: "create_face_search_results cfg now ev sid (normalize_float_list (ep_embedding p)) s = (q, s1)"
    by fastforce
  note w1 = writes_results_merge(4)[OF create_results_writes[OF c]]
  show ?thesis
  proof (cases q)
    case (Inl x)
    with assms parent c w1 False show ?thesis
      by (auto simp: complete_face_search_job_def Let_def split: if_splits)
  next
    case (Inr k)
    obtain u s2 where r: "reinforce_if_participant cfg now ss (orm (probe_rows now job img p k) s1) = (u, s2)"
      by fastforce
    from writes_results_merge(4)[OF reinforce_if_writes[OF r]] have "committed s2 = committed s1" by simp
    with assms parent c Inr r w1 False show ?thesis
      by (cases u) (auto simp: complete_face_search_job_def Let_def split: if_splits)
  qed
qed simp

lemma search_work_error:
  "search_work cfg env p job s = (Inl e, t) \<Longrightarrow> committed t = committed s"
  using complete_search_error by (auto simp: search_work_def split: option.splits)

text \<open>What a call commits of the job tables.\<close>

definition tables_run :: "db \<Rightarrow> db \<Rightarrow> bool" where
  "tables_run d d' \<longleftrightarrow> (\<forall>m. jobs_run (jobs_of m d) (jobs_of m d'))"

lemma tables_run_refl [simp]: "tables_run d d"
  by (simp add: tables_run_def)

lemma tables_run_one:
  assumes "jobs_run (jobs_of m d) (jobs_of m d')" and "\<And>m'. m' \<noteq> m \<Longrightarrow> jobs_of m' d' = jobs_of m' d"
  shows "tables_run d d'"
  unfolding tables_run_def
proof
  fix k show "jobs_run (jobs_of k d) (jobs_of k d')"
    using assms by (cases "k = m") auto
qed

lemma completing_run:
  assumes "completing m vnow i a work (open_session d) = (r, s')" and "wf_jobs m d"
    and "\<And>job e t. job_at m i d = Some job \<Longrightarrow>
      work job (orm (clear_lease m i) (open_session d)) = (Inl e, t) \<Longrightarrow> committed t = d"
    and "\<And>job u t. job_at m i d = Some job \<Longrightarrow>
      work job (orm (clear_lease m i) (open_session d)) = (Inr u, t) \<Longrightarrow> finished_rows m i d t"
  shows "tables_run d (committed s')"
proof -
  consider (nothing) "committed s' = d"
    | (finished) job u where "job_at m i d = Some job"
      "verify_active_attempt vnow job a True = Inr (InState Processing)"
      "work job (orm (clear_lease m i) (open_session d)) = (Inr u, s')"
    by (rule completing_cases[OF assms(1,3)])
  then show ?thesis
  proof cases
    case (finished job u)
    with finished_rows_run[OF assms(2) finished(1) verify_processingD(1)[OF finished(2)]
        assms(4)[OF finished(1,3)]]
    show ?thesis by (simp add: tables_run_def)
  qed simp
qed

lemma photo_completion_run:
  assumes "complete_photo_job env i p (open_session d) = (r, s')" and "wf_jobs PhotoJobs d"
  shows "tables_run d (committed s')"
proof (rule completing_run[OF assms(1)[unfolded complete_photo_job_def] assms(2)])
  fix job e t assume "photo_work env p job (orm (clear_lease PhotoJobs i) (open_session d)) = (Inl e, t)"
  then show "committed t = d" by (auto dest: photo_work_error)
next
  fix job u t assume "job_at PhotoJobs i d = Some job"
    and "photo_work env p job (orm (clear_lease PhotoJobs i) (open_session d)) = (Inr u, t)"
  then show "finished_rows PhotoJobs i d t" using photo_work_rows job_at_SomeD(2) by blast
qed

lemma job_at_class: "wf_jobs m d \<Longrightarrow> job_at m i d = Some job \<Longrightarrow> job_class (j_parent job) = m"
  by (auto simp: wf_jobs_def dest: job_at_SomeD)

lemma face_completion_run:
  assumes "complete_worker_participant_face_job cfg env i a p (open_session d) = (r, s')"
    and "wf_jobs ParticipantFaceJobs d"
  shows "tables_run d (committed s')"
proof (rule completing_run[OF assms(1)[unfolded complete_worker_participant_face_job_def] assms(2)])
  fix job e t assume "complete_participant_face_job cfg (cx_now env) job p
      (orm (clear_lease ParticipantFaceJobs i) (open_session d)) = (Inl e, t)"
  then show "committed t = d" by (auto dest: face_work_error)
next
  fix job u t assume at: "job_at ParticipantFaceJobs i d = Some job"
    and "complete_participant_face_job cfg (cx_now env) job p
      (orm (clear_lease ParticipantFaceJobs i) (open_session d)) = (Inr u, t)"
  then show "finished_rows ParticipantFaceJobs i d t"
    using face_work_rows job_at_SomeD(2)[OF at] job_at_class[OF assms(2) at] by blast
qed

lemma search_completion_run:
  assumes "complete_worker_face_search_job cfg env i a p (open_session d) = (r, s')"
    and "wf_jobs FaceSearchJobs d"
  shows "tables_run d (committed s')"
proof (rule completing_run[OF assms(1)[unfolded complete_worker_face_search_job_def] assms(2)])
  fix job e t assume "search_work cfg env p job (orm (clear_lease FaceSearchJobs i) (open_session d)) = (Inl e, t)"
  then show "committed t = d" using search_work_error by fastforce
next
  fix job u t assume at: "job_at FaceSearchJobs i d = Some job"
    and "search_work cfg env p job (orm (clear_lease FaceSearchJobs i) (open_session d)) = (Inr u, t)"
  then show "finished_rows FaceSearchJobs i d t"
    using search_work_rows job_at_SomeD(2)[OF at] job_at_class[OF assms(2) at] by blast
qed

end
