(* ===== verification/WorkerService.thy ===== *)
theory WorkerService
  imports WorkerApiFacts
begin

text \<open>
  The worker service as a transition system on the database.  A step is one call, with any token,
  any input and any reading of the clock; the invariant of the tables holds after every run, and
  rows only move forward.
\<close>

section \<open>The tables beside the job tables\<close>

definition side :: "db \<Rightarrow> photo_match list \<times> search_result list \<times> worker_heartbeat list" where
  "side d = (photo_matches d, search_results d, worker_heartbeats d)"

definition side_ok :: "db \<Rightarrow> bool" where
  "side_ok d \<longleftrightarrow> matches_ok d \<and> distinct (map search_result_key (search_results d)) \<and>
     distinct (map wh_worker_id (worker_heartbeats d)) \<and>
     list_all worker_heartbeat_constraints (worker_heartbeats d)"

lemma side_ok_cong: "side d' = side d \<Longrightarrow> side_ok d' = side_ok d"
  by (simp add: side_ok_def side_def matches_ok_def)

lemma side_updates [simp]:
  "side (update_job m i f d) = side d" "side (update_photo i g d) = side d"
  "side (update_face_image i h d) = side d" "side (update_search_image i k d) = side d"
  "side (update_search_session i l d) = side d" "side (clear_lease m i d) = side d"
  by (cases m; simp add: side_def update_job_def update_photo_def update_face_image_def
      update_search_image_def update_search_session_def clear_lease_def)+

lemma side_sync [simp]: "side (live (sync_terminal_parent_state now j s)) = side (live s)"
  by (auto simp: sync_terminal_parent_state_def Let_def split: job_parent.splits)

lemma side_mark_parent [simp]: "side (mark_parent_processing j d) = side d"
  by (auto simp: mark_parent_processing_def split: job_parent.splits)

lemma side_reap [simp]: "side (live (reap_loop m dn sn n js s)) = side (live s)"
  by (induction js arbitrary: n s) (simp_all add: reap_one_def Let_def)

lemma claim_side:
  "claim_job cfg m cond env (open_session d) = (r, s') \<Longrightarrow> side (committed s') = side d"
  using claim_cases[of m cond env d cfg] by (auto simp: reap_exhausted_jobs_def Let_def)

lemma fail_side:
  "fail_job cfg m env job req (open_session d) = (r, s') \<Longrightarrow> side (committed s') = side d"
  by (auto simp: fail_job_def Let_def split: sum.splits if_splits)

lemma heartbeat_side:
  "heartbeat_job cfg m vnow now job a (open_session d) = (r, s') \<Longrightarrow> side (committed s') = side d"
  by (auto simp: heartbeat_job_def Let_def split: sum.splits if_splits)

section \<open>Completions keep the tables beside the job tables\<close>

definition same_rest :: "db \<Rightarrow> db \<Rightarrow> bool" where
  "same_rest d d' \<longleftrightarrow> search_results d' = search_results d \<and> worker_heartbeats d' = worker_heartbeats d"

lemma side_ok_rest: "same_rest d d' \<Longrightarrow> matches_ok d' \<Longrightarrow> side_ok d \<Longrightarrow> side_ok d'"
  by (simp add: side_ok_def same_rest_def)

lemma same_rest_simps [simp]:
  "same_rest d (update_job m i f d') = same_rest d d'" "same_rest d (update_photo i g d') = same_rest d d'"
  "same_rest d (update_face_image i h d') = same_rest d d'"
  "same_rest d (d'\<lparr>text_detections := a\<rparr>) = same_rest d d'"
  "same_rest d (d'\<lparr>face_detections := b\<rparr>) = same_rest d d'"
  "same_rest d (d'\<lparr>face_embeddings := c\<rparr>) = same_rest d d'"
  "same_rest d (d'\<lparr>face_matches := e\<rparr>) = same_rest d d'"
  "same_rest d (clear_lease m i d') = same_rest d d'"
  "same_rest d (upsert_photo_match x d') = same_rest d d'" "same_rest d d"
  by (cases m; simp add: same_rest_def update_job_def update_photo_def update_face_image_def
      clear_lease_def upsert_photo_match_def)+

lemma final_match_rest [simp]:
  "same_rest d (live (upsert_final_photo_participant_match now e p i src v c s)) = same_rest d (live s)"
  by (simp add: upsert_final_photo_participant_match_def)

lemma ocr_rest: "same_rest d (live s) \<Longrightarrow> same_rest d (live (create_ocr_participant_matches now photo ts s))"
proof -
  assume r: "same_rest d (live s)"
  have one: "same_rest d (live s) \<Longrightarrow> same_rest d (live (match_candidate now photo by_bib t s c))" for by_bib t s c
    by (simp add: match_candidate_def split: option.splits)
  have inner: "same_rest d (live s) \<Longrightarrow> same_rest d (live (foldl (match_candidate now photo by_bib t) s cs))"
    for by_bib t s cs by (rule foldl_invariant[where P = "\<lambda>s. same_rest d (live s)"]) (simp_all only: one)
  show ?thesis unfolding create_ocr_participant_matches_def Let_def
    by (rule foldl_invariant[where P = "\<lambda>s. same_rest d (live s)"]) (simp_all only: r inner)
qed

lemma face_rest: "same_rest d (live s) \<Longrightarrow> same_rest d (live (snd (create_face_matches cfg now f es s)))"
proof -
  have "same_rest d (live s) \<Longrightarrow> same_rest d (live (write_face_match now f s x))" for s x
    by (cases x) (simp add: write_face_match_def Let_def)
  then show "same_rest d (live s) \<Longrightarrow> ?thesis"
    unfolding create_face_matches_def Let_def snd_conv
    by (intro foldl_invariant[where P = "\<lambda>s. same_rest d (live s)"]) simp_all
qed

lemma participant_rest:
  "same_rest d (live s) \<Longrightarrow>
   same_rest d (live (snd (create_face_participant_matches_for_participant cfg now pid eid s)))"
proof -
  have "same_rest d (live s) \<Longrightarrow> same_rest d (live (snd (foldl (\<lambda>(n, s) f.
      case create_face_matches cfg now f es s of (k, s') \<Rightarrow> (n + k, s')) (c, s) fs)))" for es c fs
  proof (induction fs arbitrary: c s)
    case (Cons f fs)
    obtain k s' where e: "create_face_matches cfg now f es s = (k, s')" by fastforce
    with face_rest[OF Cons.prems, of cfg now f es] Cons.IH show ?case by simp
  qed simp
  then show "same_rest d (live s) \<Longrightarrow> ?thesis"
    by (simp add: create_face_participant_matches_for_participant_def Let_def)
qed

lemma mark_ready_rest [simp]: "same_rest d (live (mark_photo_ready_if_jobs_done pid s)) = same_rest d (live s)"
  by (simp add: mark_photo_ready_if_jobs_done_def Let_def)

lemma completions_rest:
  "same_rest d (live s) \<Longrightarrow> same_rest d (live (complete_photo_ocr_job now ids job photo texts raw s))"
  "same_rest d (live s) \<Longrightarrow> same_rest d (live (complete_photo_face_job now ids job photo faces raw s))"
  "same_rest d (live s) \<Longrightarrow> same_rest d (live (snd (complete_participant_face_job cfg now job p s)))"
  by (auto simp: complete_photo_ocr_job_def complete_photo_face_job_def
      complete_participant_face_job_def Let_def intro: ocr_rest participant_rest split: job_parent.splits)

lemma matches_ok_clear [simp]: "matches_ok (clear_lease m i d) = matches_ok d"
  by (simp add: clear_lease_def)

text \<open>Scores of a validated request are in range.\<close>

lemma validated_confidences:
  assumes "validate_photo_request fr req = Inr p"
  shows "list_all (\<lambda>x. score_in_range (op_confidence x)) (pp_detections p)"
proof -
  from assms have "validate_all (validate_ocr fr) (pq_detections req) = Inr (pp_detections p)"
    by (auto simp: validate_photo_request_def and_then_Inr validate_detection_count_def split: if_splits)
  then have "list_all2 (\<lambda>r x. validate_ocr fr r = Inr x) (pq_detections req) (pp_detections p)"
    by (rule validate_all_Inr)
  then show ?thesis
  proof (induction rule: list_all2_induct)
    case (Cons r rs x xs)
    have "score_in_range (op_confidence x)"
    proof (cases "op_confidence x")
      case (Some c)
      with Cons(1) have "validate_score (or_confidence r) = Inr (Some c)"
        by (auto simp: validate_ocr_def and_then_Inr field_error_def split: if_splits)
      with Some show ?thesis by (auto dest: validate_score_range simp: score_in_range_def)
    qed (simp add: score_in_range_def)
    with Cons show ?case by simp
  qed simp
qed

lemma photo_completion_side:
  assumes "complete_photo_job env i p (open_session d) = (r, s')" and "side_ok d"
    and "list_all (\<lambda>x. score_in_range (op_confidence x)) (pp_detections p)"
  shows "side_ok (committed s')"
proof -
  have err: "committed t = d"
    if "photo_work env p job (orm (clear_lease PhotoJobs i) (open_session d)) = (Inl e, t)" for job e t
    using photo_work_error[OF that] by simp
  consider (nothing) "committed s' = d"
    | (finished) job u where "job_at PhotoJobs i d = Some job"
      "photo_work env p job (orm (clear_lease PhotoJobs i) (open_session d)) = (Inr u, s')"
    by (rule completing_cases[OF assms(1)[unfolded complete_photo_job_def] err])
  then show ?thesis
  proof cases
    case (finished job u)
    let ?s = "orm (clear_lease PhotoJobs i) (open_session d)"
    from finished(2) obtain photo where s': "s' = complete_photo_ocr_job (cx_now env) (cx_ids env) job photo
          (pp_detections p) (pp_raw_response_json p) ?s \<or>
        s' = complete_photo_face_job (cx_now env) (cx_ids env) job photo
          (pp_face_detections p) (pp_raw_response_json p) ?s"
      by (auto simp: photo_work_def split: option.splits if_splits)
    have com: "committed s' = live s'" using s'
      by (auto simp: complete_photo_ocr_job_def complete_photo_face_job_def Let_def)
    have "matches_ok (live ?s)" using assms(2) by (simp add: side_ok_def)
    with completion_matches[OF this assms(3)] s' have "matches_ok (live s')" by auto
    moreover have "same_rest d (live s')" using completions_rest(1,2)[of d ?s] s' by auto
    ultimately show ?thesis using assms(2) unfolding com by (blast intro: side_ok_rest)
  qed (simp add: assms(2))
qed

lemma face_completion_side:
  assumes "complete_worker_participant_face_job cfg env i a p (open_session d) = (r, s')" and "side_ok d"
  shows "side_ok (committed s')"
proof -
  have err: "committed t = d"
    if "complete_participant_face_job cfg (cx_now env) job p
      (orm (clear_lease ParticipantFaceJobs i) (open_session d)) = (Inl e, t)" for job e t
    using face_work_error[OF that] by simp
  consider (nothing) "committed s' = d"
    | (finished) job u where "job_at ParticipantFaceJobs i d = Some job"
      "complete_participant_face_job cfg (cx_now env) job p
        (orm (clear_lease ParticipantFaceJobs i) (open_session d)) = (Inr u, s')"
    by (rule completing_cases[OF assms(1)[unfolded complete_worker_participant_face_job_def] err])
  then show ?thesis
  proof cases
    case (finished job u)
    let ?s = "orm (clear_lease ParticipantFaceJobs i) (open_session d)"
    have com: "committed s' = live s' \<or> s' = ?s" using finished(2)
      by (auto simp: complete_participant_face_job_def Let_def split: job_parent.splits if_splits)
    have "matches_ok (live ?s)" using assms(2) by (simp add: side_ok_def)
    with completion_matches[OF this, of "[]"] finished(2) have "matches_ok (live s')"
      by (metis list.pred_inject(1) snd_conv)
    moreover have "same_rest d (live s')"
      using completions_rest(3)[of d ?s cfg "cx_now env" job p] finished(2) by simp
    ultimately show ?thesis using assms(2) com by (auto intro: side_ok_rest)
  qed (simp add: assms(2))
qed

lemma writes_side:
  "writes_results cfg e sid s s' \<Longrightarrow> side_ok (live s) \<Longrightarrow> side_ok (live s')"
  by (auto simp: writes_results_def side_ok_def matches_ok_def write_results_def
      search_table.unique_foldl)

lemma mark_done_side [simp]:
  "side (live (mark_face_search_session_done_if_jobs_done now sid s)) = side (live s)"
  by (simp add: mark_face_search_session_done_if_jobs_done_def Let_def)

lemma search_completion_side:
  assumes "complete_worker_face_search_job cfg env i a p (open_session d) = (r, s')" and "side_ok d"
    and "wf_jobs FaceSearchJobs d"
  shows "side_ok (committed s')"
proof -
  let ?s = "orm (clear_lease FaceSearchJobs i) (open_session d)"
  have err: "committed t = d" if "search_work cfg env p job ?s = (Inl e, t)" for job e t
    using search_work_error[OF that] by simp
  consider (nothing) "committed s' = d"
    | (finished) job u where "job_at FaceSearchJobs i d = Some job" "search_work cfg env p job ?s = (Inr u, s')"
    by (rule completing_cases[OF assms(1)[unfolded complete_worker_face_search_job_def] err])
  then show ?thesis
  proof cases
    case (finished job u)
    from job_at_class[OF assms(3) finished(1)] obtain e sid img where parent: "j_parent job = OfSearch e sid img"
      by (cases "j_parent job") auto
    with finished(2) obtain ss where c: "complete_face_search_job cfg (cx_now env) job ss p ?s = (Inr (), s')"
      by (auto simp: search_work_def split: option.splits)
    from complete_search_steps[OF c parent] obtain k s1 r s2 where
      w1: "create_face_search_results cfg (cx_now env) e sid (normalize_float_list (ep_embedding p)) ?s = (Inr k, s1)"
      and w2: "reinforce_if_participant cfg (cx_now env) ss
        (orm (probe_rows (cx_now env) job img p k) s1) = (Inr r, s2)"
      and s': "s' = commit (mark_face_search_session_done_if_jobs_done (cx_now env) sid s2)" by blast
    have "side (live ?s) = side d" by simp
    with assms(2) have "side_ok (live ?s)" using side_ok_cong by blast
    with writes_side[OF create_results_writes[OF w1]] have "side_ok (live s1)" by blast
    moreover have "side (live (orm (probe_rows (cx_now env) job img p k) s1)) = side (live s1)"
      by (simp add: probe_rows_def)
    ultimately have "side_ok (live (orm (probe_rows (cx_now env) job img p k) s1))"
      using side_ok_cong by blast
    with writes_side[OF reinforce_if_writes[OF w2]] have "side_ok (live s2)" by blast
    then have "side_ok (live (mark_face_search_session_done_if_jobs_done (cx_now env) sid s2))"
      using side_ok_cong[OF mark_done_side] by blast
    then show ?thesis by (simp add: s')
  qed (simp add: assms(2))
qed

interpretation heartbeat_table: upsert_table wh_worker_id merge_heartbeat
  by unfold_locales (simp add: merge_heartbeat_def)

lemma heartbeat_row_ok:
  assumes "record_worker_heartbeat now w (open_session d) = (r, s')" and "side_ok d" and "wh_worker_id w \<noteq> []"
  shows "side_ok (committed s')"
proof (cases r)
  case (Inl e)
  with assms(1,2) show ?thesis by (auto simp: record_worker_heartbeat_def Let_def split: if_splits)
next
  case (Inr t)
  with assms(1) have ok: "worker_heartbeat_constraints (w\<lparr>wh_last_seen_at := now\<rparr>)"
    and s': "committed s' = d\<lparr>worker_heartbeats :=
      upsert wh_worker_id merge_heartbeat (w\<lparr>wh_last_seen_at := now\<rparr>) (worker_heartbeats d)\<rparr>"
    using assms(3) by (cases "wh_status w",
      auto simp: record_worker_heartbeat_def Let_def worker_heartbeat_constraints_def split: if_splits)
  have "list_all worker_heartbeat_constraints
      (upsert wh_worker_id merge_heartbeat (w\<lparr>wh_last_seen_at := now\<rparr>) (worker_heartbeats d))"
    using assms(2) ok by (intro upsert_all)
      (auto simp: side_ok_def merge_heartbeat_def worker_heartbeat_constraints_def)
  with assms(2) s' show ?thesis
    by (simp add: side_ok_def matches_ok_def heartbeat_table.unique_upsert)
qed

section \<open>A call\<close>

lemma heartbeat_validated:
  "validate_heartbeat_request req = Inr w \<Longrightarrow> wh_worker_id w \<noteq> []"
  by (auto simp: validate_heartbeat_request_def length_between_def and_then_Inr field_error_def
      split: if_splits option.splits)

lemma with_request_cases:
  assumes "with_request v f s = (r, s')"
  obtains (rejected) "s' = s" | (accepted) x where "v = Inr x" "f x = (r, s')"
  using assms by (cases v) (auto simp: with_request_def)

lemma answerE:
  assumes "answer g rs = (r, s')"
  obtains q where "rs = (q, s')"
  using assms by (auto simp: answer_def split: prod.splits sum.splits)

definition db_ok :: "db \<Rightarrow> bool" where
  "db_ok d \<longleftrightarrow> (\<forall>m. wf_jobs m d \<and> (\<forall>j \<in> set (jobs_of m d). job_inv j)) \<and> side_ok d"

lemma db_ok_run: "db_ok d \<Longrightarrow> tables_run d d' \<Longrightarrow> side_ok d' \<Longrightarrow> db_ok d'"
  unfolding db_ok_def tables_run_def using jobs_run_wf jobs_run_inv by blast

lemma claim_effect:
  assumes "claim_job cfg m cond env (open_session d) = (r, s')" and "db_ok d"
  shows "tables_run d (committed s') \<and> side_ok (committed s')"
proof -
  have "wf_jobs m d" using assms(2) by (simp add: db_ok_def)
  from tables_run_one[OF claim_run[OF this assms(1)] claim_table[OF assms(1)]]
  show ?thesis using side_ok_cong[OF claim_side[OF assms(1)]] assms(2) by (simp add: db_ok_def)
qed

text \<open>A claim handler commits what the claim committed, whatever it answers.\<close>

lemma claim_handler_session:
  "claim_photo_job cfg url env ts s = (r, s') \<Longrightarrow>
    \<exists>q. claim_job cfg PhotoJobs (\<lambda>j. job_type_str (j_job_type j) \<in> set ts) env s = (q, s')"
  "claim_participant_face_job cfg url env s = (r, s') \<Longrightarrow>
    \<exists>q. claim_job cfg ParticipantFaceJobs (\<lambda>j. j_job_type j = FaceSelfieEnroll) env s = (q, s')"
  "claim_face_search_job cfg url env s = (r, s') \<Longrightarrow>
    \<exists>q. claim_job cfg FaceSearchJobs (\<lambda>j. j_job_type j = FaceSearchProbe) env s = (q, s')"
  by (auto simp: claim_photo_job_def claim_participant_face_job_def claim_face_search_job_def
      split: prod.splits option.splits job_parent.splits)

lemma fail_effect:
  assumes "fail_worker_job cfg m env i req (open_session d) = (r, s')" and "db_ok d"
  shows "tables_run d (committed s') \<and> side_ok (committed s')"
proof (cases "load_of m i (open_session d)")
  case (Inl e)
  with assms show ?thesis by (auto simp: fail_worker_job_def db_ok_def)
next
  case (Inr job)
  then have at: "job_at m i d = Some job" using load_of_eq by fastforce
  from Inr assms(1) have f: "fail_job cfg m env job req (open_session d) = (r, s')"
    by (simp add: fail_worker_job_def)
  have "wf_jobs m d" using assms(2) by (simp add: db_ok_def)
  from tables_run_one[OF fail_run[OF this at f] fail_table[OF f]]
  show ?thesis using side_ok_cong[OF fail_side[OF f]] assms(2) by (simp add: db_ok_def)
qed

lemma heartbeat_effect:
  assumes "heartbeat_worker_job cfg m vnow now i a (open_session d) = (r, s')" and "db_ok d"
  shows "tables_run d (committed s') \<and> side_ok (committed s')"
proof (cases "load_of m i (open_session d)")
  case (Inl e)
  with assms show ?thesis by (auto simp: heartbeat_worker_job_def db_ok_def)
next
  case (Inr job)
  then have at: "job_at m i d = Some job" using load_of_eq by fastforce
  from Inr assms(1) have f: "heartbeat_job cfg m vnow now job a (open_session d) = (r, s')"
    by (simp add: heartbeat_worker_job_def)
  have "wf_jobs m d" using assms(2) by (simp add: db_ok_def)
  from tables_run_one[OF heartbeat_run[OF this at f] heartbeat_table[OF f]]
  show ?thesis using side_ok_cong[OF heartbeat_side[OF f]] assms(2) by (simp add: db_ok_def)
qed

lemma handle_effect:
  assumes "handle cfg se call (open_session d) = (r, s')" and ok: "db_ok d"
  shows "tables_run d (committed s') \<and> side_ok (committed s')"
proof -
  have wf: "wf_jobs m d" for m using ok by (simp add: db_ok_def)
  have so: "side_ok d" using ok by (simp add: db_ok_def)
  show ?thesis
  proof (cases call)
    case (CallClaimPhoto env ts)
    with assms(1) show ?thesis using so claim_effect[OF _ ok]
      by (auto elim!: with_request_cases answerE dest!: claim_handler_session(1))
  next
    case (CallClaimFace env)
    with assms(1) show ?thesis using claim_effect[OF _ ok]
      by (auto elim!: answerE dest!: claim_handler_session(2))
  next
    case (CallClaimSearch env)
    with assms(1) show ?thesis using claim_effect[OF _ ok]
      by (auto elim!: answerE dest!: claim_handler_session(3))
  next
    case (CallHeartbeat m vnow now i a)
    with assms(1) show ?thesis using heartbeat_effect[OF _ ok] by (auto elim!: answerE)
  next
    case (CallFail m env i req)
    with assms(1) show ?thesis using so fail_effect[OF _ ok]
      by (auto elim!: with_request_cases answerE)
  next
    case (CallCompletePhoto env i req)
    with assms(1) show ?thesis
      using so photo_completion_run[OF _ wf] photo_completion_side[OF _ so]
      by (auto elim!: with_request_cases answerE dest: validated_confidences)
  next
    case (CallCompleteFace env i req)
    with assms(1) show ?thesis
      using so face_completion_run[OF _ wf] face_completion_side[OF _ so]
      by (auto elim!: with_request_cases answerE)
  next
    case (CallCompleteSearch env i req)
    with assms(1) show ?thesis
      using so search_completion_run[OF _ wf] search_completion_side[OF _ so wf]
      by (auto elim!: with_request_cases answerE)
  next
    case (CallWorkerHeartbeat now req)
    with assms(1) consider "s' = open_session d" | w q where "validate_heartbeat_request req = Inr w"
      "record_worker_heartbeat now w (open_session d) = (q, s')"
      by (auto elim!: with_request_cases answerE)
    then show ?thesis
    proof cases
      case 2
      have "tables_run d (committed s')"
        using 2(2) by (auto simp: record_worker_heartbeat_def Let_def tables_run_def split: if_splits)
      with heartbeat_row_ok[OF 2(2) so heartbeat_validated[OF 2(1)]] show ?thesis by blast
    qed (simp add: so)
  qed
qed

lemma serve_effect:
  assumes "db_ok d"
  shows "tables_run d (snd (serve cfg se auth tok call d)) \<and> db_ok (snd (serve cfg se auth tok call d))"
proof (cases "require_worker_token cfg auth tok")
  case (Inl e)
  with assms show ?thesis by (simp add: serve_def)
next
  case (Inr u)
  obtain r s' where h: "handle cfg se call (open_session d) = (r, s')" by fastforce
  from handle_effect[OF h assms] Inr h show ?thesis
    by (auto simp: serve_def intro: db_ok_run[OF assms])
qed

section \<open>Runs of the service\<close>

inductive worker_step :: "settings \<Rightarrow> db \<Rightarrow> db \<Rightarrow> bool" for cfg where
  call: "worker_step cfg d (snd (serve cfg se authorization token call d))"

inductive_cases worker_stepE: "worker_step cfg d d'"

definition db_le :: "db \<Rightarrow> db \<Rightarrow> bool" where
  "db_le d d' \<longleftrightarrow> (\<forall>m. list_all2 job_le (jobs_of m d) (jobs_of m d'))"

lemma tables_run_le: "tables_run d d' \<Longrightarrow> db_le d d'"
  unfolding tables_run_def db_le_def jobs_run_def by (blast intro: list_all2_mono job_run_le)

interpretation worker_service: monotone_system "worker_step cfg" db_ok db_le for cfg
proof unfold_locales
  fix d d' assume "db_ok d" and "worker_step cfg d d'"
  then show "db_ok d'" by (auto elim: worker_stepE dest: serve_effect)
next
  fix d show "db_le d d" by (simp add: db_le_def list_all2_refl job_le_refl)
next
  fix d e f assume "db_le d e" and "db_le e f"
  then show "db_le d f" unfolding db_le_def
    by (blast intro: list_all2_trans[of job_le job_le job_le] job_le_trans)
next
  fix d d' assume "db_ok d" and "worker_step cfg d d'"
  then show "db_le d d'" by (auto elim!: worker_stepE intro!: tables_run_le dest: serve_effect)
qed

abbreviation reaches :: "settings \<Rightarrow> db \<Rightarrow> db \<Rightarrow> bool" where
  "reaches cfg \<equiv> rtranclp (worker_step cfg)"

lemma db_le_row:
  assumes "db_le d d'" and "job_at m i d = Some j"
  shows "\<exists>j'. job_at m i d' = Some j' \<and> job_le j j'"
proof -
  have "list_all2 job_le a b \<Longrightarrow> row_at j_id i a = Some j \<Longrightarrow>
      \<exists>j'. row_at j_id i b = Some j' \<and> job_le j j'" for a b
    by (induction rule: list_all2_induct) (auto simp: job_le_def split: if_splits)
  with assms show ?thesis unfolding db_le_def job_at_def by blast
qed

text \<open>C1 (invariant): every database the worker service can reach from a sound one is sound: job ids
  are unique and jobs stay in the table of their class; a job has made between zero and its maximum
  number of attempts; a processing job has an attempt id, a terminal one its finishing time; final
  matches, search results and worker heartbeats are unique by their key and satisfy the check
  constraints of their tables.\<close>

theorem service_invariant:
  assumes "reaches cfg d d'" and "db_ok d"
  shows "db_ok d'"
  using assms by (rule worker_service.run_inv)

text \<open>A job that is completed, failed or dead-lettered never changes again, whatever
  calls the service receives.\<close>

theorem terminal_jobs_final:
  assumes "reaches cfg d d'" and "db_ok d"
    and "job_at m i d = Some j" and "j_status j \<in> TERMINAL_JOB_STATUSES"
  shows "job_at m i d' = Some j"
  using db_le_row[OF worker_service.run_le[OF assms(1,2)] assms(3)] assms(4) by (auto simp: job_le_def)

text \<open>C31 (bounds): no job is lost, moved to another row or given more attempts than its maximum; its
  count of attempts never decreases, and as long as the count is the same so is the attempt that
  owns it.\<close>

theorem attempts_bounded:
  assumes "reaches cfg d d'" and "db_ok d" and "job_at m i d = Some j"
  shows "\<exists>j'. job_at m i d' = Some j' \<and> j_parent j' = j_parent j \<and> j_job_type j' = j_job_type j \<and>
    j_attempt_count j \<le> j_attempt_count j' \<and> j_attempt_count j' \<le> j_max_attempts j \<and>
    (j_attempt_count j' = j_attempt_count j \<longrightarrow> j_attempt_id j' = j_attempt_id j)"
proof -
  obtain j' where j': "job_at m i d' = Some j'" "job_le j j'"
    using db_le_row[OF worker_service.run_le[OF assms(1,2)] assms(3)] by blast
  have "db_ok d'" using assms(1,2) by (rule worker_service.run_inv)
  with j'(1) have "job_inv j'" unfolding db_ok_def using job_at_SomeD(1) by blast
  with j' show ?thesis by (auto simp: job_le_def job_inv_def)
qed

section \<open>Ownership\<close>

text \<open>The attempt a call acts for.\<close>

fun acting_as :: "worker_call \<Rightarrow> (job_model \<times> uuid \<times> uuid) option" where
  "acting_as (CallHeartbeat m vnow now i a) = Some (m, i, a)"
| "acting_as (CallFail m env i req) = Some (m, i, fr_attempt_id req)"
| "acting_as (CallCompletePhoto env i req) = Some (PhotoJobs, i, pq_attempt_id req)"
| "acting_as (CallCompleteFace env i req) = Some (ParticipantFaceJobs, i, eq_attempt_id req)"
| "acting_as (CallCompleteSearch env i req) = Some (FaceSearchJobs, i, eq_attempt_id req)"
| "acting_as _ = None"

lemma completing_mismatch:
  assumes "job_at m i d = Some j" and "j_attempt_id j \<noteq> Some a"
  shows "completing m vnow i a work (open_session d) = (Inl not_owned, open_session d)"
  using assms load_of_found[of m i "open_session d" j]
  by (simp add: completing_def verify_mismatch)

lemma validate_photo_attempt:
  "validate_photo_request fr req = Inr p \<Longrightarrow> pp_attempt_id p = pq_attempt_id req"
  by (auto simp: validate_photo_request_def and_then_Inr)

lemma validate_fail_same: "validate_fail_request req = Inr r \<Longrightarrow> r = req"
  by (auto simp: validate_fail_request_def field_error_def split: if_splits option.splits)

lemma stale_handle:
  assumes "acting_as call = Some (m, i, a)" and "job_at m i d = Some j" and "j_attempt_id j \<noteq> Some a"
  shows "\<exists>e. handle cfg se call (open_session d) = (Inl e, open_session d)"
proof -
  note found = load_of_found[of m i "open_session d" j, simplified, OF assms(2)]
  note mismatch = verify_mismatch[OF assms(3)] completing_mismatch[OF assms(2,3)]
  show ?thesis
  proof (cases call)
    case (CallHeartbeat m' vnow now i' a')
    with assms(1) found mismatch show ?thesis
      by (simp add: heartbeat_worker_job_def heartbeat_job_def answer_def)
  next
    case (CallFail m' env i' req)
    with assms(1) found mismatch show ?thesis
      by (cases "validate_fail_request req")
        (auto simp: with_request_def fail_worker_job_def fail_job_def answer_def dest!: validate_fail_same)
  next
    case (CallCompletePhoto env i' req)
    with assms(1) mismatch show ?thesis
      by (cases "validate_photo_request (se_float_repr se) req")
        (auto simp: with_request_def complete_photo_job_def answer_def dest: validate_photo_attempt)
  next
    case (CallCompleteFace env i' req)
    with assms(1) mismatch show ?thesis
      by (cases "validate_embedding_request (se_float_repr se) req")
        (auto simp: with_request_def complete_worker_participant_face_job_def answer_def)
  next
    case (CallCompleteSearch env i' req)
    with assms(1) mismatch show ?thesis
      by (cases "validate_embedding_request (se_float_repr se) req")
        (auto simp: with_request_def complete_worker_face_search_job_def answer_def)
  qed (use assms(1) in simp_all)
qed

text \<open>C5 (safety): a worker that does not hold the current attempt of a job (because the job was given
  to another attempt since, or was never claimed) changes nothing: its heartbeat, its failure report
  and its results are all refused and the database is left as it was.\<close>

theorem stale_attempt_rejected:
  assumes "acting_as call = Some (m, i, a)" and "job_at m i d = Some j" and "j_attempt_id j \<noteq> Some a"
  shows "\<exists>e. serve cfg se authorization token call d = (Inl e, d)"
proof (cases "require_worker_token cfg authorization token")
  case (Inr u)
  with stale_handle[OF assms, of cfg se] show ?thesis by (auto simp: serve_def)
qed (simp add: serve_def)

section \<open>Claims\<close>

lemma claim_row:
  assumes "wf_jobs m d" and "order_limit j_created_at 1
      (claimable_jobs m cond (ce_locked env) (ce_now env) d) = [j]"
  shows "j \<in> set (claimable_jobs m cond (ce_locked env) (ce_now env) d)"
    and "job_at m (j_id j) (update_job m (j_id j) (claimed cfg (ce_now env) (ce_uuid env))
      (live (reap_exhausted_jobs m cond (ce_locked env) (ce_reap_now env) (ce_dead_now env)
        (ce_sync_now env) (open_session d)))) = Some (claimed cfg (ce_now env) (ce_uuid env) j)"
proof -
  show j: "j \<in> set (claimable_jobs m cond (ce_locked env) (ce_now env) d)"
    using assms(2) by (metis list.set_intros(1) order_limit_subset subsetD)
  then have p: "j \<in> set (jobs_of m d)" "j_attempt_count j < j_max_attempts j"
    by (auto simp: claimable_jobs_def)
  have "job_at m (j_id j) (live (reap_exhausted_jobs m cond (ce_locked env) (ce_reap_now env)
      (ce_dead_now env) (ce_sync_now env) (open_session d))) = Some j"
    using wf_jobs_at[OF assms(1) p(1)] assms(1) p(2) by (intro reap_other) auto
  then show "job_at m (j_id j) (update_job m (j_id j) (claimed cfg (ce_now env) (ce_uuid env))
      (live (reap_exhausted_jobs m cond (ce_locked env) (ce_reap_now env) (ce_dead_now env)
        (ce_sync_now env) (open_session d)))) = Some (claimed cfg (ce_now env) (ce_uuid env) j)"
    by (simp add: job_at_update_job)
qed

text \<open>A claim returns a job exactly when some job is claimable (of a requested type,
  with an attempt left, due or with an expired lease, and not locked by another transaction).  The
  job it returns is the oldest of those; it is committed as processing, with one more attempt, the
  new attempt id and a lease of the configured length.\<close>

theorem claim_oldest:
  assumes "claim_job cfg m cond env (open_session d) = (r, s')" and "wf_jobs m d"
  shows "(r = None \<longleftrightarrow> claimable_jobs m cond (ce_locked env) (ce_now env) d = []) \<and>
    (\<forall>job. r = Some job \<longrightarrow>
      (\<exists>j \<in> set (claimable_jobs m cond (ce_locked env) (ce_now env) d).
        (\<forall>k \<in> set (claimable_jobs m cond (ce_locked env) (ce_now env) d). j_created_at j \<le> j_created_at k) \<and>
        job = claimed cfg (ce_now env) (ce_uuid env) j \<and>
        job_at m (j_id j) (committed s') = Some job))"
proof -
  let ?cands = "claimable_jobs m cond (ce_locked env) (ce_now env) d"
  from claim_cases[of m cond env d cfg] show ?thesis
  proof (elim disjE exE conjE)
    assume "?cands = []" and "claim_job cfg m cond env (open_session d) = (None, commit
      (reap_exhausted_jobs m cond (ce_locked env) (ce_reap_now env) (ce_dead_now env) (ce_sync_now env)
        (open_session d)))"
    with assms(1) show ?thesis by simp
  next
    fix j assume j: "order_limit j_created_at 1 ?cands = [j]"
      and c: "claim_job cfg m cond env (open_session d) =
        (let s3 = orm (mark_parent_processing j)
                    (orm (update_job m (j_id j) (claimed cfg (ce_now env) (ce_uuid env)))
                      (reap_exhausted_jobs m cond (ce_locked env) (ce_reap_now env) (ce_dead_now env)
                        (ce_sync_now env) (open_session d)))
         in (job_at m (j_id j) (live s3), commit s3))"
    note row = claim_row[OF assms(2) j]
    have r: "r = Some (claimed cfg (ce_now env) (ce_uuid env) j)"
      and s': "job_at m (j_id j) (committed s') = Some (claimed cfg (ce_now env) (ce_uuid env) j)"
      using assms(1) c row(2)[of cfg] by (auto simp: Let_def)
    have "\<forall>k \<in> set ?cands. j_created_at j \<le> j_created_at k" using order_limit_min[OF j] by blast
    with row(1) r s' show ?thesis by auto
  qed
qed

text \<open>C6 (safety): while the lease of a processing job has not expired, a claim by any worker leaves
  the job's row exactly as it is and returns another job or none: no two workers own a job at the
  same time.\<close>

theorem lease_exclusive:
  assumes "claim_job cfg m cond env (open_session d) = (r, s')" and "wf_jobs m d"
    and "job_at m i d = Some j" and "j_status j = Processing" and "j_lease_expires_at j = Some l"
    and "ce_reap_now env < l" and "ce_now env < l"
  shows "job_at m i (committed s') = Some j \<and> (\<forall>job. r = Some job \<longrightarrow> j_id job \<noteq> i)"
proof -
  let ?s1 = "reap_exhausted_jobs m cond (ce_locked env) (ce_reap_now env) (ce_dead_now env)
     (ce_sync_now env) (open_session d)"
  let ?cands = "claimable_jobs m cond (ce_locked env) (ce_now env) d"
  have na: "\<not> available (ce_reap_now env) j" "\<not> available (ce_now env) j"
    using assms(4-7) by (auto simp: available_def is_due_def)
  have kept: "job_at m i (live ?s1) = Some j"
    using assms(2,3) na(1) by (intro reap_other) auto
  from claim_cases[of m cond env d cfg] show ?thesis
  proof (elim disjE exE conjE)
    assume "claim_job cfg m cond env (open_session d) = (None, commit ?s1)"
    with assms(1) kept show ?thesis by auto
  next
    fix k assume k: "order_limit j_created_at 1 ?cands = [k]"
      and c: "claim_job cfg m cond env (open_session d) =
        (let s3 = orm (mark_parent_processing k)
                    (orm (update_job m (j_id k) (claimed cfg (ce_now env) (ce_uuid env))) ?s1)
         in (job_at m (j_id k) (live s3), commit s3))"
    have "k \<in> set (jobs_of m d)" "available (ce_now env) k"
      using claim_row(1)[OF assms(2) k] by (auto simp: claimable_jobs_def)
    then have other: "j_id k \<noteq> i" using assms(2,3) na(2) by (metis option.inject wf_jobs_at)
    have "j_id j = i" using assms(3) by (rule job_at_SomeD)
    with kept other have "job_at m i (update_job m (j_id k) (claimed cfg (ce_now env) (ce_uuid env)) (live ?s1))
        = Some j" by (simp add: job_at_update_job)
    with assms(1) c have "job_at m i (committed s') = Some j" by (auto simp: Let_def)
    moreover have "r = Some (claimed cfg (ce_now env) (ce_uuid env) k)"
      using assms(1) c claim_row(2)[OF assms(2) k] by (simp add: Let_def)
    ultimately show ?thesis using other by auto
  qed
qed

end
