(* ===== verification/WorkerReports.thy ===== *)
theory WorkerReports
  imports WorkerService
begin

text \<open>
  What a report of a worker does, and what repeating it does: failures with retries and
  dead-lettering, the idempotence of reports, and the status of the parent rows; and closed
  instances of the theorems on runs of the service.
\<close>

section \<open>Failure\<close>

lemma fail_job_outcome:
  assumes "wf_jobs m d" and "job_at m i d = Some job"
    and "verify_active_attempt (fe_verify_now env) job (fr_attempt_id req) True = Inr (InState Processing)"
    and "8 / 10 \<le> fe_random env" and "fe_random env \<le> 12 / 10"
    and "fail_job cfg m env job req (open_session d) = (r, s')"
  shows "\<exists>job2. job_at m i (committed s') = Some job2 \<and>
    j_attempt_count job2 = j_attempt_count job \<and> j_error_message job2 = Some (failure_message req) \<and>
    (if fr_retryable req \<and> j_attempt_count job < j_max_attempts job
     then j_status job2 = Queued \<and> (\<exists>delay. 1 \<le> delay \<and> 10 * delay \<le> 12 * WORKER_RETRY_MAX_SECONDS cfg \<and>
       j_retry_after job2 = Some (fe_now env + seconds delay) \<and>
       r = Inr (RetryAt (fe_now env + seconds delay)))
     else j_status job2 = (if fr_retryable req then DeadLettered else Failed) \<and>
       j_retry_after job2 = None \<and> j_finished_at job2 \<noteq> None \<and>
       r = Inr (JobStatus (InState (j_status job2))))"
proof (cases "fr_retryable req \<and> j_attempt_count job < j_max_attempts job")
  case True
  define delay where "delay = retry_delay cfg (fe_random env) (j_attempt_count job)"
  define job2 where "job2 = job\<lparr>j_error_message := Some (failure_message req), j_lease_expires_at := None,
    j_status := Queued, j_retry_after := Some (fe_now env + seconds delay), j_finished_at := None\<rparr>"
  from assms(2) have id: "j_id job = i" by (rule job_at_SomeD)
  have delay: "1 \<le> delay" "10 * delay \<le> 12 * WORKER_RETRY_MAX_SECONDS cfg"
    using retry_delay_bounds[OF assms(4,5), of cfg "j_attempt_count job"] by (simp_all add: delay_def)
  have "committed s' = update_job m i (\<lambda>_. job2) d" "r = Inr (RetryAt (fe_now env + seconds delay))"
    using assms(3,6) True id by (auto simp: fail_job_def Let_def job2_def delay_def)
  moreover have "job_at m i (update_job m i (\<lambda>_. job2) d) = Some job2"
    using assms(2) id by (intro job_at_write_same) (simp_all add: job2_def)
  ultimately show ?thesis using True delay by (auto simp: job2_def)
next
  case False
  define job1 where
    "job1 = job\<lparr>j_error_message := Some (failure_message req), j_lease_expires_at := None\<rparr>"
  define job2 where
    "job2 = (if fr_retryable req then dead_letter (fe_dead_now env) (failure_message req) job1
       else job1\<lparr>j_status := Failed, j_retry_after := None, j_finished_at := Some (fe_now env)\<rparr>)"
  from assms(2) have id: "j_id job = i" by (rule job_at_SomeD)
  have "s' = commit (sync_terminal_parent_state (fe_sync_now env) job2
      (orm (update_job m i (\<lambda>_. job2)) (open_session d)))"
    and r: "r = Inr (JobStatus (InState (j_status job2)))"
    using assms(3,6) False id
    by (cases "fr_retryable req"; auto simp: fail_job_def Let_def job2_def job1_def)+
  then have "job_at m i (committed s') = job_at m i (update_job m i (\<lambda>_. job2) d)"
    by (simp add: job_at_def)
  moreover have "job_at m i (update_job m i (\<lambda>_. job2) d) = Some job2"
    using assms(2) id by (intro job_at_write_same) (simp_all add: job2_def job1_def)
  moreover have "take 2000 (failure_message req) = failure_message req"
    by (simp only: failure_message_def Let_def take_take min.idem)
  ultimately show ?thesis using False r by (auto simp: job2_def job1_def dead_letter_def)
qed

text \<open>The failure of a job its worker owns.  A retryable failure with an attempt left
  puts the job back in the queue, due after a delay of at least a second and at most 1.2 times the
  configured maximum; a retryable one without dead-letters it; any other fails it.  The answer says
  which.\<close>

theorem fail_outcome:
  assumes "wf_jobs m d" and "job_at m i d = Some job"
    and "verify_active_attempt (fe_verify_now env) job (fr_attempt_id req) True = Inr (InState Processing)"
    and "8 / 10 \<le> fe_random env" and "fe_random env \<le> 12 / 10"
    and "fail_job cfg m env job req (open_session d) = (r, s')"
  shows "\<exists>job2. job_at m i (committed s') = Some job2 \<and>
    j_attempt_count job2 = j_attempt_count job \<and> j_error_message job2 = Some (failure_message req) \<and>
    (if fr_retryable req \<and> j_attempt_count job < j_max_attempts job
     then j_status job2 = Queued \<and> (\<exists>delay. 1 \<le> delay \<and> 10 * delay \<le> 12 * WORKER_RETRY_MAX_SECONDS cfg \<and>
       j_retry_after job2 = Some (fe_now env + seconds delay) \<and>
       r = Inr (RetryAt (fe_now env + seconds delay)))
     else j_status job2 = (if fr_retryable req then DeadLettered else Failed) \<and>
       j_retry_after job2 = None \<and> j_finished_at job2 \<noteq> None \<and>
       r = Inr (JobStatus (InState (j_status job2))))"
  using assms by (rule fail_job_outcome)

text \<open>A failure report, whether it retries, fails or dead-letters the job, never changes the
  status of a photo or of a search session.  The status of the parent is computed from a query that
  does not see the job's own change, so even when the last job of a photo fails, the photo is
  committed with the status it had.\<close>

theorem failure_leaves_parent:
  assumes "db_ok d"
  shows "photos (snd (serve cfg se authorization token (CallFail m env i req) d)) = photos d \<and>
    search_sessions (snd (serve cfg se authorization token (CallFail m env i req) d)) = search_sessions d"
proof -
  have wf: "wf_jobs m d" using assms by (simp add: db_ok_def)
  have "photos (committed s') = photos d \<and> search_sessions (committed s') = search_sessions d"
    if h: "handle cfg se (CallFail m env i req) (open_session d) = (r, s')" for r s'
  proof -
    from h consider "s' = open_session d" | req' q where "fail_worker_job cfg m env i req' (open_session d) = (q, s')"
      by (auto elim!: with_request_cases answerE)
    then show ?thesis
    proof cases
      case 2
      show ?thesis
      proof (cases "load_of m i (open_session d)")
        case (Inl e)
        with 2 show ?thesis by (auto simp: fail_worker_job_def)
      next
        case (Inr job)
        then have "job_at m i d = Some job" using load_of_eq by fastforce
        moreover have "fail_job cfg m env job req' (open_session d) = (q, s')"
          using 2 Inr by (simp add: fail_worker_job_def)
        ultimately show ?thesis by (rule fail_keeps_parent[OF wf])
      qed
    qed simp
  qed
  then show ?thesis unfolding serve_def by (auto split: sum.splits prod.splits)
qed

section \<open>Repeated reports\<close>

text \<open>The same report sent again later: the times, the random draw and the new identifiers may differ.\<close>

fun resend :: "fail_env \<Rightarrow> complete_env \<Rightarrow> worker_call \<Rightarrow> worker_call" where
  "resend fe ce (CallFail m env i req) = CallFail m fe i req"
| "resend fe ce (CallCompletePhoto env i req) = CallCompletePhoto ce i req"
| "resend fe ce (CallCompleteFace env i req) = CallCompleteFace ce i req"
| "resend fe ce (CallCompleteSearch env i req) = CallCompleteSearch ce i req"
| "resend fe ce call = call"

fun is_report :: "worker_call \<Rightarrow> bool" where
  "is_report (CallFail m env i req) = True"
| "is_report (CallCompletePhoto env i req) = True"
| "is_report (CallCompleteFace env i req) = True"
| "is_report (CallCompleteSearch env i req) = True"
| "is_report _ = False"

text \<open>A job an attempt has reported on: no longer processing, still carrying the attempt.\<close>

definition reported :: "job_model \<Rightarrow> uuid \<Rightarrow> uuid \<Rightarrow> job_status set \<Rightarrow> db \<Rightarrow> bool" where
  "reported m i a sts d \<longleftrightarrow>
     (\<exists>j. job_at m i d = Some j \<and> j_attempt_id j = Some a \<and> j_status j \<in> sts)"

lemma completing_repeat:
  assumes "reported m i a {Completed} d"
  shows "completing m vnow i a work (open_session d) = (Inr (InState Completed), open_session d)"
proof -
  from assms obtain j where j: "job_at m i d = Some j" "j_attempt_id j = Some a" "j_status j = Completed"
    by (auto simp: reported_def)
  have "verify_active_attempt vnow j a True = Inr (InState Completed)"
    using verify_terminal[of j a vnow] j by (simp add: TERMINAL_JOB_STATUSES_def)
  with load_of_found[of m i "open_session d" j] j(1) show ?thesis by (simp add: completing_def)
qed

lemma completing_reported:
  assumes "completing m vnow i a work (open_session d) = (Inr x, s')" and "wf_jobs m d"
    and err: "\<And>job e t. job_at m i d = Some job \<Longrightarrow>
      work job (orm (clear_lease m i) (open_session d)) = (Inl e, t) \<Longrightarrow> committed t = d"
    and fine: "\<And>job u t. job_at m i d = Some job \<Longrightarrow>
      work job (orm (clear_lease m i) (open_session d)) = (Inr u, t) \<Longrightarrow> finished_rows m i d t"
  shows "reported m i a {Completed} (committed s')"
proof -
  from assms(1) obtain job where load: "load_of m i (open_session d) = Inr job"
    by (auto simp: completing_def split: sum.splits)
  then have at: "job_at m i d = Some job" using load_of_eq by fastforce
  from assms(1) load obtain st where v: "verify_active_attempt vnow job a True = Inr st"
    by (auto simp: completing_def split: sum.splits)
  show ?thesis
  proof (cases "st = InState Processing")
    case False
    with assms(1) load v have c: "st = InState Completed" "s' = open_session d"
      by (auto simp: completing_def split: if_splits)
    from v c(1) have "j_attempt_id job = Some a" "j_status job = Completed"
      by (auto simp: verify_active_attempt_def Let_def attempt_matches_def split: if_splits option.splits)
    with at c(2) show ?thesis by (simp add: reported_def)
  next
    case True
    note own = verify_processingD[OF v[unfolded True]]
    from assms(1) load v True obtain u where
      w: "work job (orm (clear_lease m i) (open_session d)) = (Inr u, s')"
      by (auto simp: completing_def split: sum.splits prod.splits)
    from fine[OF at w] obtain now raw where "jobs_of m (committed s') =
        update_where (\<lambda>j. j_id j = i) (finish_job now raw) (jobs_of m (clear_lease m i d))"
      unfolding finished_rows_def by auto
    then have "job_at m i (committed s') = Some (finish_job now raw
        (job\<lparr>j_lease_expires_at := None, j_retry_after := None\<rparr>))"
      using at job_at_SomeD(2)[OF at]
      by (simp add: job_at_def clear_lease_def update_where_compose row_at_update_where finish_job_def)
    then show ?thesis using own(2) by (simp add: reported_def finish_job_def)
  qed
qed

lemma fail_repeat:
  assumes "reported m i (fr_attempt_id req) (TERMINAL_JOB_STATUSES \<union> {Queued}) d"
  shows "\<exists>y. fail_worker_job cfg m env i req (open_session d) = (Inr y, open_session d)"
proof -
  from assms obtain j where j: "job_at m i d = Some j" "j_attempt_id j = Some (fr_attempt_id req)"
    "j_status j \<in> TERMINAL_JOB_STATUSES \<union> {Queued}" by (auto simp: reported_def)
  have "\<exists>st. verify_active_attempt (fe_verify_now env) j (fr_attempt_id req) True = Inr st \<and>
      st \<noteq> InState Processing"
    using j(2,3) verify_terminal[of j "fr_attempt_id req"] verify_queued[of j "fr_attempt_id req"]
    by (auto simp: TERMINAL_JOB_STATUSES_def)
  with load_of_found[of m i "open_session d" j] j(1) show ?thesis
    by (auto simp: fail_worker_job_def fail_job_def)
qed

lemma fail_reported:
  assumes "fail_worker_job cfg m env i req (open_session d) = (Inr x, s')"
  shows "reported m i (fr_attempt_id req) (TERMINAL_JOB_STATUSES \<union> {Queued}) (committed s')"
proof -
  from assms obtain job where load: "load_of m i (open_session d) = Inr job"
    and f: "fail_job cfg m env job req (open_session d) = (Inr x, s')"
    by (auto simp: fail_worker_job_def split: sum.splits)
  from load have at: "job_at m i d = Some job" using load_of_eq by fastforce
  from f obtain st where v: "verify_active_attempt (fe_verify_now env) job (fr_attempt_id req) True = Inr st"
    by (auto simp: fail_job_def split: sum.splits)
  show ?thesis
  proof (cases "st = InState Processing")
    case False
    with f v have "s' = open_session d" by (auto simp: fail_job_def split: if_splits)
    moreover from v False have "j_attempt_id job = Some (fr_attempt_id req)"
      "j_status job \<in> TERMINAL_JOB_STATUSES \<union> {Queued}"
      by (auto simp: verify_active_attempt_def Let_def attempt_matches_def
          split: if_splits option.splits)
    ultimately show ?thesis using at by (auto simp: reported_def)
  next
    case True
    show ?thesis
      by (rule fail_processing_result[OF at v[unfolded True] f])
        (auto simp: reported_def TERMINAL_JOB_STATUSES_def)
  qed
qed

lemma photo_reported:
  assumes "complete_photo_job env i p (open_session d) = (Inr x, s')" and "wf_jobs PhotoJobs d"
  shows "reported PhotoJobs i (pp_attempt_id p) {Completed} (committed s')"
proof (rule completing_reported[OF assms(1)[unfolded complete_photo_job_def] assms(2)])
  fix job e t assume "photo_work env p job (orm (clear_lease PhotoJobs i) (open_session d)) = (Inl e, t)"
  then show "committed t = d" by (auto dest: photo_work_error)
next
  fix job u t assume "job_at PhotoJobs i d = Some job"
    and "photo_work env p job (orm (clear_lease PhotoJobs i) (open_session d)) = (Inr u, t)"
  then show "finished_rows PhotoJobs i d t" using photo_work_rows job_at_SomeD(2) by blast
qed

lemma face_reported:
  assumes "complete_worker_participant_face_job cfg env i a p (open_session d) = (Inr x, s')"
    and "wf_jobs ParticipantFaceJobs d"
  shows "reported ParticipantFaceJobs i a {Completed} (committed s')"
proof (rule completing_reported[OF assms(1)[unfolded complete_worker_participant_face_job_def] assms(2)])
  fix job e t assume "complete_participant_face_job cfg (cx_now env) job p
      (orm (clear_lease ParticipantFaceJobs i) (open_session d)) = (Inl e, t)"
  then show "committed t = d" by (auto dest: face_work_error)
next
  fix job u t assume at: "job_at ParticipantFaceJobs i d = Some job"
    and "complete_participant_face_job cfg (cx_now env) job p
      (orm (clear_lease ParticipantFaceJobs i) (open_session d)) = (Inr u, t)"
  then show "finished_rows ParticipantFaceJobs i d t"
    using face_work_rows job_at_SomeD(2)[OF at] job_at_class[OF assms(2) at] by blast
qed

lemma search_reported:
  assumes "complete_worker_face_search_job cfg env i a p (open_session d) = (Inr x, s')"
    and "wf_jobs FaceSearchJobs d"
  shows "reported FaceSearchJobs i a {Completed} (committed s')"
proof (rule completing_reported[OF assms(1)[unfolded complete_worker_face_search_job_def] assms(2)])
  fix job e t assume "search_work cfg env p job (orm (clear_lease FaceSearchJobs i) (open_session d)) = (Inl e, t)"
  then show "committed t = d" using search_work_error by fastforce
next
  fix job u t assume at: "job_at FaceSearchJobs i d = Some job"
    and "search_work cfg env p job (orm (clear_lease FaceSearchJobs i) (open_session d)) = (Inr u, t)"
  then show "finished_rows FaceSearchJobs i d t"
    using search_work_rows job_at_SomeD(2)[OF at] job_at_class[OF assms(2) at] by blast
qed

lemma answer_Inr: "answer g rs = (Inr y, s) \<longleftrightarrow> (\<exists>q. rs = (Inr q, s) \<and> y = g q)"
  by (auto simp: answer_def split: prod.splits sum.splits)

lemma with_request_Inr:
  "with_request v f s = (Inr y, t) \<longleftrightarrow> (\<exists>x. v = Inr x \<and> f x = (Inr y, t))"
  by (cases v) (auto simp: with_request_def)

lemma handle_repeat:
  assumes "db_ok d" and "is_report call" and "handle cfg se call (open_session d) = (Inr x, s')"
  shows "\<exists>y. handle cfg se (resend fe ce call) (open_session (committed s')) = (Inr y, open_session (committed s'))"
proof -
  have wf: "wf_jobs m d" for m using assms(1) by (simp add: db_ok_def)
  show ?thesis
  proof (cases call)
    case (CallFail m env i req)
    with assms(3) obtain q where v: "validate_fail_request req = Inr req"
      and f: "fail_worker_job cfg m env i req (open_session d) = (Inr q, s')"
      by (auto simp: with_request_Inr answer_Inr dest: validate_fail_same)
    from fail_repeat[OF fail_reported[OF f], of cfg fe] v CallFail show ?thesis
      by (auto simp: with_request_Inr answer_Inr)
  next
    case (CallCompletePhoto env i req)
    with assms(3) obtain p q where v: "validate_photo_request (se_float_repr se) req = Inr p"
      and c: "complete_photo_job env i p (open_session d) = (Inr q, s')"
      by (auto simp: with_request_Inr answer_Inr)
    from completing_repeat[OF photo_reported[OF c wf]] v CallCompletePhoto show ?thesis
      by (auto simp: with_request_Inr answer_Inr complete_photo_job_def)
  next
    case (CallCompleteFace env i req)
    with assms(3) obtain p q where v: "validate_embedding_request (se_float_repr se) req = Inr p"
      and c: "complete_worker_participant_face_job cfg env i (eq_attempt_id req) p (open_session d) = (Inr q, s')"
      by (auto simp: with_request_Inr answer_Inr)
    from completing_repeat[OF face_reported[OF c wf]] v CallCompleteFace show ?thesis
      by (auto simp: with_request_Inr answer_Inr complete_worker_participant_face_job_def)
  next
    case (CallCompleteSearch env i req)
    with assms(3) obtain p q where v: "validate_embedding_request (se_float_repr se) req = Inr p"
      and c: "complete_worker_face_search_job cfg env i (eq_attempt_id req) p (open_session d) = (Inr q, s')"
      by (auto simp: with_request_Inr answer_Inr)
    from completing_repeat[OF search_reported[OF c wf]] v CallCompleteSearch show ?thesis
      by (auto simp: with_request_Inr answer_Inr complete_worker_face_search_job_def)
  qed (use assms(2) in simp_all)
qed

text \<open>C32 (safety): reports are idempotent.  Once a failure report or the results of a job were
  accepted, the worker may send the same report again, at any later time and before the job is
  claimed anew: it is accepted again and changes nothing.\<close>

theorem reports_idempotent:
  assumes "db_ok d" and "is_report call"
    and "serve cfg se authorization token call d = (Inr x, d')"
  shows "\<exists>y. serve cfg se authorization token (resend fe ce call) d' = (Inr y, d')"
proof -
  from assms(3) obtain u where tok: "require_worker_token cfg authorization token = Inr u"
    by (auto simp: serve_def split: sum.splits)
  obtain r s' where h: "handle cfg se call (open_session d) = (r, s')" by fastforce
  with assms(3) tok have "r = Inr x" "d' = committed s'" by (simp_all add: serve_def)
  with handle_repeat[OF assms(1,2) h[unfolded this(1)], of fe ce] tok show ?thesis
    by (auto simp: serve_def)
qed

section \<open>Instances\<close>

definition demo_settings :: settings where
  "demo_settings = default_settings\<lparr>worker_api_token := ''token''\<rparr>"

definition demo_service :: service_env where
  "demo_service = \<lparr>se_access_url = (\<lambda>_. None), se_float_repr = (\<lambda>_. ''0.5'')\<rparr>"

definition demo_claim :: claim_env where
  "demo_claim = \<lparr>ce_reap_now = 10, ce_dead_now = (\<lambda>_. 10), ce_sync_now = (\<lambda>_. 10), ce_now = 11,
     ce_uuid = 9, ce_locked = (\<lambda>_. False)\<rparr>"

definition demo_fail :: fail_env where
  "demo_fail = \<lparr>fe_verify_now = 20, fe_now = 21, fe_dead_now = 22, fe_sync_now = 23, fe_random = 1\<rparr>"

definition demo_report :: fail_request where
  "demo_report = \<lparr>fr_attempt_id = 8, fr_error_message = ''no face'', fr_retryable = True,
     fr_error_code = None\<rparr>"

definition queued_job :: job where
  "queued_job = sample_ocr_job\<lparr>j_status := Queued, j_attempt_count := 0, j_attempt_id := None,
     j_lease_expires_at := None\<rparr>"

definition done_job :: job where
  "done_job = sample_ocr_job\<lparr>j_status := Completed, j_finished_at := Some 5\<rparr>"

definition demo_db :: "job \<Rightarrow> db" where
  "demo_db j = empty_db\<lparr>photos := [sample_photo], photo_jobs := [j]\<rparr>"

lemma demo_rows: "jobs_of m (demo_db j) = (if m = PhotoJobs then [j] else [])"
  by (cases m) (simp_all add: demo_db_def empty_db_def)

lemma demo_db_ok:
  "job_class (j_parent j) = PhotoJobs \<Longrightarrow> job_inv j \<Longrightarrow> db_ok (demo_db j)"
proof -
  have "side_ok (demo_db j)" by (simp add: side_ok_def matches_ok_def demo_db_def empty_db_def)
  then show "job_class (j_parent j) = PhotoJobs \<Longrightarrow> job_inv j \<Longrightarrow> db_ok (demo_db j)"
    by (simp add: db_ok_def wf_jobs_def demo_rows)
qed

lemma sample_job_fields:
  "j_id sample_ocr_job = 4" "j_status sample_ocr_job = Processing" "j_attempt_count sample_ocr_job = 1"
  "j_max_attempts sample_ocr_job = 5" "j_attempt_id sample_ocr_job = Some 8"
  "j_lease_expires_at sample_ocr_job = Some 300000000" "job_class (j_parent sample_ocr_job) = PhotoJobs"
  by (simp_all add: sample_ocr_job_def)

lemma demo_jobs_ok:
  "db_ok (demo_db sample_ocr_job)" "db_ok (demo_db done_job)" "db_ok (demo_db queued_job)"
  by (rule demo_db_ok; simp add: job_inv_def done_job_def queued_job_def sample_job_fields
      TERMINAL_JOB_STATUSES_def)+

lemma demo_job_at: "job_at PhotoJobs i (demo_db j) = (if j_id j = i then Some j else None)"
  by (simp add: job_at_def demo_db_def)

lemma demo_wf: "job_class (j_parent j) = PhotoJobs \<Longrightarrow> wf_jobs PhotoJobs (demo_db j)"
  by (simp add: wf_jobs_def demo_rows)

abbreviation demo_step :: "worker_call \<Rightarrow> db \<Rightarrow> db" where
  "demo_step c d \<equiv> snd (serve demo_settings demo_service None (Some ''token'') c d)"

theorem service_invariant_witness:
  "db_ok (demo_step (CallClaimPhoto demo_claim [''ocr'']) (demo_db queued_job))"
  using service_invariant[OF r_into_rtranclp[of "worker_step demo_settings"] demo_jobs_ok(3)]
  by (simp add: call)

theorem terminal_jobs_final_witness:
  "job_at PhotoJobs 4 (demo_step (CallClaimPhoto demo_claim [''ocr'']) (demo_db done_job)) = Some done_job"
  by (rule terminal_jobs_final[OF r_into_rtranclp[of "worker_step demo_settings"] demo_jobs_ok(2)])
    (simp_all add: call demo_job_at done_job_def sample_job_fields TERMINAL_JOB_STATUSES_def)

theorem attempts_bounded_witness:
  "\<exists>j'. job_at PhotoJobs 4 (demo_step (CallClaimPhoto demo_claim [''ocr'']) (demo_db queued_job)) = Some j' \<and>
     j_attempt_count j' \<le> 5"
  using attempts_bounded[OF r_into_rtranclp[of "worker_step demo_settings", OF call] demo_jobs_ok(3),
      of PhotoJobs 4 queued_job demo_service None "Some ''token''" "CallClaimPhoto demo_claim [''ocr'']"]
  by (auto simp: demo_job_at queued_job_def sample_job_fields)

theorem stale_attempt_rejected_witness:
  "\<exists>e. serve demo_settings demo_service None (Some ''token'') (CallHeartbeat PhotoJobs 20 21 4 7)
     (demo_db sample_ocr_job) = (Inl e, demo_db sample_ocr_job)"
  by (rule stale_attempt_rejected[of _ PhotoJobs 4 7 _ sample_ocr_job])
    (simp_all add: demo_job_at sample_job_fields)

theorem claim_oldest_witness:
  "fst (claim_job demo_settings PhotoJobs (\<lambda>j. j_job_type j = Ocr) demo_claim (open_session (demo_db queued_job))) =
     Some (claimed demo_settings 11 9 queued_job)"
proof -
  let ?c = "claim_job demo_settings PhotoJobs (\<lambda>j. j_job_type j = Ocr) demo_claim
    (open_session (demo_db queued_job))"
  obtain r s' where c: "?c = (r, s')" by fastforce
  have cands: "claimable_jobs PhotoJobs (\<lambda>j. j_job_type j = Ocr) (ce_locked demo_claim) (ce_now demo_claim)
      (demo_db queued_job) = [queued_job]"
    by (simp add: claimable_jobs_def demo_db_def queued_job_def sample_ocr_job_def demo_claim_def
        available_def is_due_def)
  have "wf_jobs PhotoJobs (demo_db queued_job)"
    by (rule demo_wf) (simp add: queued_job_def sample_job_fields)
  from claim_oldest[OF c this] cands c show ?thesis by (cases r) (auto simp: demo_claim_def)
qed

theorem lease_exclusive_witness:
  "job_at PhotoJobs 4 (committed (snd (claim_job demo_settings PhotoJobs (\<lambda>_. True) demo_claim
     (open_session (demo_db sample_ocr_job))))) = Some sample_ocr_job"
proof -
  obtain r s' where c: "claim_job demo_settings PhotoJobs (\<lambda>_. True) demo_claim
    (open_session (demo_db sample_ocr_job)) = (r, s')" by fastforce
  have "job_at PhotoJobs 4 (committed s') = Some sample_ocr_job \<and> (\<forall>job. r = Some job \<longrightarrow> j_id job \<noteq> 4)"
    by (rule lease_exclusive[OF c demo_wf, where l = 300000000])
      (simp_all add: demo_job_at sample_job_fields demo_claim_def)
  with c show ?thesis by simp
qed

lemma demo_verify:
  "verify_active_attempt (fe_verify_now demo_fail) sample_ocr_job (fr_attempt_id demo_report) True
     = Inr (InState Processing)"
  by (simp add: verify_processing_iff demo_fail_def demo_report_def sample_job_fields)

theorem fail_outcome_witness:
  "\<exists>job2. job_at PhotoJobs 4 (committed (snd (fail_job demo_settings PhotoJobs demo_fail sample_ocr_job
     demo_report (open_session (demo_db sample_ocr_job))))) = Some job2 \<and> j_status job2 = Queued"
proof -
  obtain r s' where f: "fail_job demo_settings PhotoJobs demo_fail sample_ocr_job demo_report
    (open_session (demo_db sample_ocr_job)) = (r, s')" by fastforce
  have at: "job_at PhotoJobs 4 (demo_db sample_ocr_job) = Some sample_ocr_job"
    by (simp add: demo_job_at sample_job_fields)
  from fail_outcome[OF demo_wf at demo_verify _ _ f] f show ?thesis
    by (auto simp: demo_fail_def demo_report_def sample_job_fields)
qed

theorem failure_leaves_parent_witness:
  "photos (demo_step (CallFail PhotoJobs demo_fail 4 demo_report) (demo_db sample_ocr_job)) = [sample_photo]"
  using failure_leaves_parent[OF demo_jobs_ok(1), THEN conjunct1]
  by (simp add: demo_db_def)

theorem reports_idempotent_witness:
  "\<exists>y d'. serve demo_settings demo_service None (Some ''token'')
     (CallFail PhotoJobs (demo_fail\<lparr>fe_verify_now := 90\<rparr>) 4 demo_report) d' = (Inr y, d') \<and>
     d' = demo_step (CallFail PhotoJobs demo_fail 4 demo_report) (demo_db sample_ocr_job)"
proof -
  let ?call = "CallFail PhotoJobs demo_fail 4 demo_report"
  have load: "load_of PhotoJobs 4 (open_session (demo_db sample_ocr_job)) = Inr sample_ocr_job"
    by (rule load_of_found) (simp add: demo_job_at sample_job_fields)
  have "validate_fail_request demo_report = Inr demo_report"
    by (simp add: validate_fail_request_def demo_report_def length_between_def)
  moreover have "require_worker_token demo_settings None (Some ''token'') = Inr ()"
    by (simp add: require_worker_token_def demo_settings_def Let_def)
  moreover have "\<exists>x s'. fail_job demo_settings PhotoJobs demo_fail sample_ocr_job demo_report
      (open_session (demo_db sample_ocr_job)) = (Inr x, s')"
    using demo_verify by (simp add: fail_job_def Let_def)
  ultimately have "\<exists>x d'. serve demo_settings demo_service None (Some ''token'') ?call
      (demo_db sample_ocr_job) = (Inr x, d')"
    using load by (auto simp: serve_def with_request_def fail_worker_job_def answer_def)
  then obtain x d' where s: "serve demo_settings demo_service None (Some ''token'') ?call
      (demo_db sample_ocr_job) = (Inr x, d')" by blast
  from reports_idempotent[OF demo_jobs_ok(1) _ s, of "demo_fail\<lparr>fe_verify_now := 90\<rparr>"] s
  show ?thesis by auto
qed

end
