(* ===== verification/Maintenance.thy ===== *)
theory Maintenance
  imports Completion
begin

text \<open>
  The maintenance tasks of \<^verbatim>\<open>backend/app/maintenance.py\<close>: the outbox of objects to delete from
  the object storage, with leases, retries and dead-lettering, and the purges of expired searches,
  diagnostics, rate limits, finished deletion tasks and silent workers.  Every function commits what
  it does, so each maps a committed database to the next one.  The reconciliation of the storage,
  \<^verbatim>\<open>backend/app/storage_reconcile.py\<close>, feeds the outbox.
\<close>

section \<open>The outbox\<close>

definition requeue :: "time \<Rightarrow> deletion_task \<Rightarrow> deletion_task" where
  "requeue now t = t\<lparr>dt_status := TaskQueued, dt_attempt_count := 0, dt_attempt_id := None,
     dt_retry_at := None, dt_claimed_at := None, dt_lease_expires_at := None, dt_last_error := None,
     dt_completed_at := None, dt_dead_lettered_at := None, dt_updated_at := now\<rparr>"

definition new_task :: "time \<Rightarrow> uuid \<Rightarrow> str \<Rightarrow> deletion_task" where
  "new_task now i key = \<lparr>dt_id = i, dt_object_key = key, dt_status = TaskQueued,
     dt_attempt_count = 0, dt_max_attempts = 10, dt_attempt_id = None, dt_retry_at = None,
     dt_claimed_at = None, dt_lease_expires_at = None, dt_last_error = None, dt_created_at = now,
     dt_updated_at = now, dt_completed_at = None, dt_dead_lettered_at = None\<rparr>"

definition merge_task :: "deletion_task \<Rightarrow> deletion_task \<Rightarrow> deletion_task" where
  "merge_task current excluded = requeue (dt_updated_at excluded) current"

definition enqueue_object_deletion :: "time \<Rightarrow> uuid \<Rightarrow> str option \<Rightarrow> db \<Rightarrow> db" where
  "enqueue_object_deletion now i object_key d =
    (case object_key of
       None \<Rightarrow> d
     | Some key \<Rightarrow>
         if key = [] then d
         else d\<lparr>deletion_tasks := upsert dt_object_key merge_task (new_task now i key) (deletion_tasks d)\<rparr>)"

text \<open>\<^verbatim>\<open>max(1, min(limit or settings.deletion_retry_batch_size, 1_000))\<close>: a limit of zero counts as no
  limit given.\<close>

definition batch_size :: "settings \<Rightarrow> int option \<Rightarrow> int" where
  "batch_size cfg limit = max 1 (min (case limit of None \<Rightarrow> deletion_retry_batch_size cfg
     | Some n \<Rightarrow> if n = 0 then deletion_retry_batch_size cfg else n) 1000)"

definition lease_over :: "time \<Rightarrow> deletion_task \<Rightarrow> bool" where
  "lease_over now t = (case dt_lease_expires_at t of None \<Rightarrow> True | Some l \<Rightarrow> l \<le> now)"

definition lost_task :: "time \<Rightarrow> deletion_task \<Rightarrow> bool" where
  "lost_task now t \<longleftrightarrow> dt_status t = TaskProcessing \<and> dt_max_attempts t \<le> dt_attempt_count t \<and>
     lease_over now t"

definition bury_task :: "time \<Rightarrow> time \<Rightarrow> deletion_task \<Rightarrow> deletion_task" where
  "bury_task now touched t = t\<lparr>dt_status := TaskDeadLettered, dt_dead_lettered_at := Some now,
     dt_lease_expires_at := None, dt_attempt_id := None, dt_retry_at := None,
     dt_last_error := Some ''Maximum object-deletion attempts exhausted after a lost lease.'',
     dt_updated_at := touched\<rparr>"

definition ready_task :: "time \<Rightarrow> deletion_task \<Rightarrow> bool" where
  "ready_task now t \<longleftrightarrow>
     (dt_status t = TaskQueued \<or> (dt_status t = TaskProcessing \<and> lease_over now t)) \<and>
     dt_attempt_count t < dt_max_attempts t \<and>
     (case dt_retry_at t of None \<Rightarrow> True | Some r \<Rightarrow> r \<le> now)"

definition claim_task :: "time \<Rightarrow> time \<Rightarrow> uuid \<Rightarrow> deletion_task \<Rightarrow> deletion_task" where
  "claim_task now touched a t = t\<lparr>dt_status := TaskProcessing, dt_attempt_id := Some a,
     dt_claimed_at := Some now, dt_lease_expires_at := Some (now + seconds 120),
     dt_attempt_count := dt_attempt_count t + 1, dt_updated_at := touched\<rparr>"

definition update_task :: "uuid \<Rightarrow> (deletion_task \<Rightarrow> deletion_task) \<Rightarrow> db \<Rightarrow> db" where
  "update_task i f d = d\<lparr>deletion_tasks := update_where (\<lambda>t. dt_id t = i) f (deletion_tasks d)\<rparr>"

text \<open>The outside of one call: the clock when it starts, the clock and the name of the exception
  \<^verbatim>\<open>delete_object\<close> raises for the n-th task (\<^term>\<open>None\<close> when it returns), the attempt ids it draws,
  the rows other transactions hold locked, and what other transactions commit before the n-th task
  is loaded again.\<close>

record deletion_env =
  de_now :: time
  de_touch :: time
  de_clock :: "nat \<Rightarrow> time"
  de_outcome :: "nat \<Rightarrow> str \<Rightarrow> str option"
  de_uuids :: "nat \<Rightarrow> uuid"
  de_locked :: "uuid \<Rightarrow> bool"
  de_others :: "nat \<Rightarrow> db \<Rightarrow> db"

definition retry_seconds :: "int \<Rightarrow> int" where
  "retry_seconds attempt_count = min 3600 (2 ^ nat (min attempt_count 10))"

definition failed_task :: "time \<Rightarrow> str \<Rightarrow> deletion_task \<Rightarrow> deletion_task" where
  "failed_task now name t =
    (let t1 = t\<lparr>dt_last_error := Some (take 2000 (name @ '': object deletion failed'')),
                dt_lease_expires_at := None, dt_attempt_id := None, dt_updated_at := now\<rparr>
     in if dt_max_attempts t1 \<le> dt_attempt_count t1
        then t1\<lparr>dt_status := TaskDeadLettered, dt_dead_lettered_at := Some now, dt_retry_at := None\<rparr>
        else t1\<lparr>dt_status := TaskQueued,
                dt_retry_at := Some (now + seconds (retry_seconds (dt_attempt_count t1)))\<rparr>)"

definition completed_task :: "time \<Rightarrow> deletion_task \<Rightarrow> deletion_task" where
  "completed_task now t = t\<lparr>dt_status := TaskCompleted, dt_completed_at := Some now,
     dt_lease_expires_at := None, dt_attempt_id := None, dt_retry_at := None,
     dt_last_error := None, dt_updated_at := now\<rparr>"

fun delete_loop :: "deletion_env \<Rightarrow> nat \<Rightarrow> (uuid \<times> uuid) list \<Rightarrow> int \<Rightarrow> int \<Rightarrow> db \<Rightarrow> (int \<times> int) \<times> db" where
  "delete_loop env n [] completed failed d = ((completed, failed), d)"
| "delete_loop env n ((task_id, expected) # attempts) completed failed d =
     (let d1 = de_others env n d in
      case row_at dt_id task_id (deletion_tasks d1) of
        None \<Rightarrow> delete_loop env (Suc n) attempts completed failed d1
      | Some task \<Rightarrow>
          if dt_status task \<noteq> TaskProcessing \<or> dt_attempt_id task \<noteq> Some expected
          then delete_loop env (Suc n) attempts completed failed d1
          else
            (case de_outcome env n (dt_object_key task) of
               Some name \<Rightarrow> delete_loop env (Suc n) attempts completed (failed + 1)
                 (update_task task_id (\<lambda>_. failed_task (de_clock env n) name task) d1)
             | None \<Rightarrow> delete_loop env (Suc n) attempts (completed + 1) failed
                 (update_task task_id (\<lambda>_. completed_task (de_clock env n) task) d1)))"

definition bury_lost :: "deletion_env \<Rightarrow> db \<Rightarrow> db" where
  "bury_lost env d = d\<lparr>deletion_tasks :=
     update_where (lost_task (de_now env)) (bury_task (de_now env) (de_touch env)) (deletion_tasks d)\<rparr>"

definition batch :: "settings \<Rightarrow> deletion_env \<Rightarrow> int option \<Rightarrow> db \<Rightarrow> deletion_task list" where
  "batch cfg env limit d = order_limit dt_created_at (nat (batch_size cfg limit))
     (filter (\<lambda>t. ready_task (de_now env) t \<and> \<not> de_locked env (dt_id t)) (deletion_tasks d))"

fun claim_tasks :: "deletion_env \<Rightarrow> nat \<Rightarrow> deletion_task list \<Rightarrow> db \<Rightarrow> (uuid \<times> uuid) list \<times> db" where
  "claim_tasks env n [] d = ([], d)"
| "claim_tasks env n (t # ts) d =
     (case claim_tasks env (Suc n) ts
             (update_task (dt_id t) (claim_task (de_now env) (de_touch env) (de_uuids env n)) d) of
        (attempts, d') \<Rightarrow> ((dt_id t, de_uuids env n) # attempts, d'))"

definition process_object_deletions ::
    "settings \<Rightarrow> deletion_env \<Rightarrow> int option \<Rightarrow> db \<Rightarrow> (int \<times> int) \<times> db" where
  "process_object_deletions cfg env limit d =
    (let d1 = bury_lost env d in
     case claim_tasks env 0 (batch cfg env limit d1) d1 of
       (attempts, d2) \<Rightarrow> delete_loop env 0 attempts 0 0 d2)"

section \<open>Purges\<close>

definition expired_sessions :: "time \<Rightarrow> (uuid \<Rightarrow> bool) \<Rightarrow> int \<Rightarrow> db \<Rightarrow> search_session list" where
  "expired_sessions now locked limit d = order_limit fs_expires_at (nat (max 1 (min limit 5000)))
     (filter (\<lambda>x. fs_expires_at x \<le> now \<and> \<not> locked (fs_id x)) (search_sessions d))"

text \<open>\<^verbatim>\<open>session.delete\<close> cascades to the images, the jobs and the results of the session.\<close>

definition delete_search_session :: "uuid \<Rightarrow> db \<Rightarrow> db" where
  "delete_search_session sid d = d
     \<lparr>search_sessions := filter (\<lambda>x. fs_id x \<noteq> sid) (search_sessions d),
      search_images := filter (\<lambda>i. si_search_session_id i \<noteq> sid) (search_images d),
      face_search_jobs := filter (\<lambda>j. parent_session (j_parent j) \<noteq> Some sid) (face_search_jobs d),
      search_results := filter (\<lambda>r. sr_search_session_id r \<noteq> sid) (search_results d)\<rparr>"

definition enqueue_keys :: "time \<Rightarrow> (str \<Rightarrow> uuid) \<Rightarrow> str list \<Rightarrow> db \<Rightarrow> db" where
  "enqueue_keys now ids keys d = foldl (\<lambda>d k. enqueue_object_deletion now (ids k) (Some k) d) d keys"

definition purge_session :: "time \<Rightarrow> (str \<Rightarrow> uuid) \<Rightarrow> db \<Rightarrow> search_session \<Rightarrow> db" where
  "purge_session now ids d x =
     delete_search_session (fs_id x)
       (enqueue_keys now ids
          (map si_object_key (filter (\<lambda>i. si_search_session_id i = fs_id x) (search_images d))) d)"

definition purge_expired_face_searches ::
    "time \<Rightarrow> (uuid \<Rightarrow> bool) \<Rightarrow> (str \<Rightarrow> uuid) \<Rightarrow> int \<Rightarrow> db \<Rightarrow> int \<times> db" where
  "purge_expired_face_searches now locked ids limit d =
    (let sessions = expired_sessions now locked limit d
     in (int (length sessions), foldl (purge_session now ids) d sessions))"

definition old_diagnostics :: "time \<Rightarrow> job \<Rightarrow> bool" where
  "old_diagnostics cutoff j \<longleftrightarrow>
     (case j_finished_at j of None \<Rightarrow> False | Some t \<Rightarrow> t < cutoff) \<and> j_raw_response_json j \<noteq> None"

definition purge_table :: "time \<Rightarrow> int \<times> db \<Rightarrow> job_model \<Rightarrow> int \<times> db" where
  "purge_table cutoff acc m =
    (case acc of (affected, d) \<Rightarrow>
       (affected + int (length (filter (old_diagnostics cutoff) (jobs_of m d))),
        set_jobs m (update_where (old_diagnostics cutoff) (\<lambda>j. j\<lparr>j_raw_response_json := None\<rparr>)
          (jobs_of m d)) d))"

definition purge_old_job_diagnostics :: "settings \<Rightarrow> time \<Rightarrow> db \<Rightarrow> int \<times> db" where
  "purge_old_job_diagnostics cfg now d =
    (let cutoff = now - seconds (3600 * max 1 (raw_response_retention_hours cfg))
     in foldl (purge_table cutoff) (0, d) [PhotoJobs, ParticipantFaceJobs, FaceSearchJobs])"

definition purge_expired_rate_limits :: "time \<Rightarrow> db \<Rightarrow> int \<times> db" where
  "purge_expired_rate_limits now d =
     (int (length (filter (\<lambda>b. rb_expires_at b < now) (rate_buckets d))),
      d\<lparr>rate_buckets := filter (\<lambda>b. \<not> rb_expires_at b < now) (rate_buckets d)\<rparr>)"

definition finished_task :: "time \<Rightarrow> deletion_task \<Rightarrow> bool" where
  "finished_task cutoff t \<longleftrightarrow> dt_status t = TaskCompleted \<and>
     (case dt_completed_at t of None \<Rightarrow> False | Some c \<Rightarrow> c < cutoff)"

definition purge_completed_deletion_tasks :: "settings \<Rightarrow> time \<Rightarrow> db \<Rightarrow> int \<times> db" where
  "purge_completed_deletion_tasks cfg now d =
    (let cutoff = now - seconds (86400 * max 1 (deletion_task_retention_days cfg)) in
     (int (length (filter (finished_task cutoff) (deletion_tasks d))),
      d\<lparr>deletion_tasks := filter (\<lambda>t. \<not> finished_task cutoff t) (deletion_tasks d)\<rparr>))"

definition purge_stale_worker_heartbeats :: "settings \<Rightarrow> time \<Rightarrow> db \<Rightarrow> int \<times> db" where
  "purge_stale_worker_heartbeats cfg now d =
    (let cutoff = now - seconds (86400 * max 1 (worker_heartbeat_retention_days cfg)) in
     (int (length (filter (\<lambda>w. wh_last_seen_at w < cutoff) (worker_heartbeats d))),
      d\<lparr>worker_heartbeats := filter (\<lambda>w. \<not> wh_last_seen_at w < cutoff) (worker_heartbeats d)\<rparr>))"

record maintenance_result =
  mr_expired_searches :: int
  mr_deletion_completed :: int
  mr_deletion_failed :: int
  mr_diagnostics_purged :: int
  mr_rate_limit_buckets_purged :: int
  mr_completed_deletion_tasks_purged :: int
  mr_stale_worker_heartbeats_purged :: int

definition run_once ::
    "settings \<Rightarrow> (nat \<Rightarrow> time) \<Rightarrow> (str \<Rightarrow> uuid) \<Rightarrow> deletion_env \<Rightarrow> db \<Rightarrow> maintenance_result \<times> db" where
  "run_once cfg clock ids env d =
    (case purge_expired_face_searches (clock 0) (de_locked env) ids 500 d of (searches, d1) \<Rightarrow>
     case process_object_deletions cfg env None d1 of ((completed, failed), d2) \<Rightarrow>
     case purge_old_job_diagnostics cfg (clock 1) d2 of (diagnostics, d3) \<Rightarrow>
     case purge_expired_rate_limits (clock 2) d3 of (buckets, d4) \<Rightarrow>
     case purge_completed_deletion_tasks cfg (clock 3) d4 of (tasks, d5) \<Rightarrow>
     case purge_stale_worker_heartbeats cfg (clock 4) d5 of (workers, d6) \<Rightarrow>
       (\<lparr>mr_expired_searches = searches, mr_deletion_completed = completed,
         mr_deletion_failed = failed, mr_diagnostics_purged = diagnostics,
         mr_rate_limit_buckets_purged = buckets, mr_completed_deletion_tasks_purged = tasks,
         mr_stale_worker_heartbeats_purged = workers\<rparr>, d6))"

section \<open>Reconciliation of the storage\<close>

definition is_sensitive_temporary_key :: "str \<Rightarrow> bool" where
  "is_sensitive_temporary_key key \<longleftrightarrow> contains key ''/face-search/'' \<or>
     (contains key ''/participants/'' \<and> contains key ''/faces/'')"

definition referenced_keys :: "db \<Rightarrow> str set" where
  "referenced_keys d = ph_original_object_key ` set (photos d)
     \<union> set (filter (\<lambda>k. k \<noteq> []) (List.map_filter ph_thumbnail_object_key (photos d)))
     \<union> si_object_key ` set (search_images d) \<union> fi_object_key ` set (face_images d)"

text \<open>\<^verbatim>\<open>r2_keys\<close> is the set of keys the storage lists, as a list without duplicates: its order is the
  one in which the orphans are queued.\<close>

definition sensitive_orphans :: "str list \<Rightarrow> db \<Rightarrow> str list" where
  "sensitive_orphans r2_keys d =
     filter (\<lambda>k. k \<notin> referenced_keys d \<and> is_sensitive_temporary_key k) r2_keys"

definition reconcile :: "settings \<Rightarrow> time \<Rightarrow> (str \<Rightarrow> uuid) \<Rightarrow> deletion_env \<Rightarrow> str list \<Rightarrow> bool \<Rightarrow> db \<Rightarrow>
    (int \<times> int) \<times> db" where
  "reconcile cfg now ids env r2_keys apply_it d =
    (let missing = card (referenced_keys d - set r2_keys);
         orphans = sensitive_orphans r2_keys d;
         count = length orphans
     in ((int missing, int count),
         if apply_it
         then snd (process_object_deletions cfg env (Some (if count = 0 then 1 else int count))
                (enqueue_keys now ids orphans d))
         else d))"

end
