(* ===== verification/MaintenanceFacts.thy ===== *)
theory MaintenanceFacts
  imports Maintenance JobLifecycle
begin

text \<open>
  Properties of the maintenance tasks: what one run of the deletion outbox does to each task, that
  purging a search queues every object it held, and that a diagnostics purge leaves nothing for a
  second one.
\<close>

interpretation outbox: upsert_table dt_object_key merge_task
  by unfold_locales (simp add: merge_task_def requeue_def)

abbreviation task_at :: "uuid \<Rightarrow> db \<Rightarrow> deletion_task option" where
  "task_at i d \<equiv> row_at dt_id i (deletion_tasks d)"

lemma task_at_update:
  assumes "\<And>t. dt_id t = i \<Longrightarrow> dt_id (f t) = i"
  shows "task_at k (update_task i f d) = (if k = i then map_option f (task_at k d) else task_at k d)"
proof -
  have "task_at k (update_task i f d) = map_option (\<lambda>t. if dt_id t = i then f t else t) (task_at k d)"
    using assms by (simp add: update_task_def row_at_update_where)
  then show ?thesis by (cases "task_at k d") (auto dest: row_at_Some_iff)
qed

lemma task_ids [simp]:
  "dt_id (claim_task now u a t) = dt_id t" "dt_id (bury_task now u t) = dt_id t"
  "dt_id (failed_task now name t) = dt_id t" "dt_id (completed_task now t) = dt_id t"
  "dt_object_key (claim_task now u a t) = dt_object_key t"
  "dt_status (claim_task now u a t) = TaskProcessing" "dt_attempt_id (claim_task now u a t) = Some a"
  by (simp_all add: claim_task_def bury_task_def failed_task_def completed_task_def Let_def)

section \<open>One run of the outbox\<close>

text \<open>The end of a claimed task, by the outcome of its deletion.\<close>

definition finish_task :: "deletion_env \<Rightarrow> nat \<Rightarrow> deletion_task \<Rightarrow> deletion_task" where
  "finish_task env n t = (case de_outcome env n (dt_object_key t) of
     Some name \<Rightarrow> failed_task (de_clock env n) name t | None \<Rightarrow> completed_task (de_clock env n) t)"

lemma finish_task_id [simp]: "dt_id (finish_task env n t) = dt_id t"
  by (simp add: finish_task_def split: option.splits)

text \<open>No other transaction touches the tasks while the run deletes.\<close>

definition alone :: "deletion_env \<Rightarrow> bool" where
  "alone env \<longleftrightarrow> de_others env = (\<lambda>_ d. d)"

lemma delete_loop_outcome:
  assumes "alone env" and "distinct (map fst attempts)"
    and "\<And>i a. (i, a) \<in> set attempts \<Longrightarrow>
      \<exists>t. task_at i d = Some t \<and> dt_status t = TaskProcessing \<and> dt_attempt_id t = Some a"
    and "delete_loop env n attempts c f d = ((c', f'), d')"
  shows "c' + f' = c + f + int (length attempts) \<and>
    (\<forall>i. i \<notin> fst ` set attempts \<longrightarrow> task_at i d' = task_at i d) \<and>
    (\<forall>i \<in> fst ` set attempts. \<exists>k. task_at i d' = map_option (finish_task env k) (task_at i d))"
  using assms(2-4)
proof (induction attempts arbitrary: n c f d)
  case (Cons x attempts)
  obtain i a where x: "x = (i, a)" by (cases x)
  from Cons.prems(2)[of i a] x obtain t where t: "task_at i d = Some t"
    "dt_status t = TaskProcessing" "dt_attempt_id t = Some a" by auto
  have id: "dt_id t = i" using t(1) row_at_Some_iff by fastforce
  define d1 where "d1 = update_task i (\<lambda>_. finish_task env n t) d"
  obtain c1 f1 where step: "delete_loop env (Suc n) attempts c1 f1 d1 = ((c', f'), d')" "c1 + f1 = c + f + 1"
    using Cons.prems(3) t assms(1) x
    by (auto simp: alone_def finish_task_def d1_def split: option.splits)
  have at1: "task_at k d1 = (if k = i then Some (finish_task env n t) else task_at k d)" for k
    unfolding d1_def using t(1) id by (subst task_at_update) auto
  have fresh: "i \<notin> fst ` set attempts" using Cons.prems(1) x by force
  have "\<exists>t. task_at k d1 = Some t \<and> dt_status t = TaskProcessing \<and> dt_attempt_id t = Some b"
    if "(k, b) \<in> set attempts" for k b
    using Cons.prems(2)[of k b] that fresh at1[of k] by force
  from Cons.IH[OF _ this step(1)] Cons.prems(1)
  have ih: "c' + f' = c1 + f1 + int (length attempts) \<and>
    (\<forall>k. k \<notin> fst ` set attempts \<longrightarrow> task_at k d' = task_at k d1) \<and>
    (\<forall>k \<in> fst ` set attempts. \<exists>m. task_at k d' = map_option (finish_task env m) (task_at k d1))" by simp
  have "\<exists>k. task_at i d' = map_option (finish_task env k) (task_at i d)"
    using ih fresh at1[of i] t(1) by auto
  moreover have "\<forall>k \<in> fst ` set attempts. \<exists>m. task_at k d' = map_option (finish_task env m) (task_at k d)"
    using ih at1 fresh by metis
  ultimately show ?case using ih step(2) at1 x by auto
qed simp

lemma claim_tasks_effect:
  assumes "distinct (map dt_id ts)" and "claim_tasks env n ts d = (attempts, d')"
  shows "map fst attempts = map dt_id ts \<and>
    (\<forall>i. i \<notin> dt_id ` set ts \<longrightarrow> task_at i d' = task_at i d) \<and>
    (\<forall>(i, a) \<in> set attempts.
      task_at i d' = map_option (claim_task (de_now env) (de_touch env) a) (task_at i d))"
  using assms
proof (induction ts arbitrary: n d attempts)
  case (Cons t ts)
  define d1 where "d1 = update_task (dt_id t) (claim_task (de_now env) (de_touch env) (de_uuids env n)) d"
  from Cons.prems(2) obtain rest where rest: "claim_tasks env (Suc n) ts d1 = (rest, d')"
    "attempts = (dt_id t, de_uuids env n) # rest"
    by (auto simp: d1_def split: prod.splits)
  have at1: "task_at k d1 = (if k = dt_id t then map_option (claim_task (de_now env) (de_touch env)
      (de_uuids env n)) (task_at k d) else task_at k d)" for k
    unfolding d1_def by (rule task_at_update) simp
  have fresh: "dt_id t \<notin> dt_id ` set ts" and "distinct (map dt_id ts)" using Cons.prems(1) by auto
  note ih = Cons.IH[OF this(2) rest(1)]
  have "fst ` set rest = dt_id ` set ts" using ih by (metis list.set_map)
  then have other: "i \<noteq> dt_id t" if "(i, a) \<in> set rest" for i a using fresh that by force
  have "map fst attempts = map dt_id (t # ts)" using ih rest(2) by simp
  moreover have "task_at i d' = task_at i d" if "i \<notin> dt_id ` set (t # ts)" for i
    using ih at1[of i] that by simp
  moreover have "task_at i d' = map_option (claim_task (de_now env) (de_touch env) a) (task_at i d)"
    if "(i, a) \<in> set attempts" for i a
  proof (cases "(i, a) \<in> set rest")
    case True
    with ih other[OF True] at1[of i] show ?thesis by fastforce
  next
    case False
    with that rest(2) have "i = dt_id t" "a = de_uuids env n" by auto
    with ih fresh at1[of i] show ?thesis by simp
  qed
  ultimately show ?case by blast
qed simp

text \<open>The contract of one run, on one task: it is left alone, buried because its last attempt lost its
  lease, or claimed and finished.\<close>

inductive outbox_step :: "deletion_env \<Rightarrow> deletion_task \<Rightarrow> deletion_task \<Rightarrow> bool" for env where
  kept: "outbox_step env t t"
| buried: "lost_task (de_now env) t \<Longrightarrow> outbox_step env t (bury_task (de_now env) (de_touch env) t)"
| finished: "ready_task (de_now env) t \<Longrightarrow>
    outbox_step env t (finish_task env k (claim_task (de_now env) (de_touch env) a t))"

inductive_cases outbox_stepE: "outbox_step env t t'"

lemma bury_lost_at: "task_at i (bury_lost env d) =
    map_option (\<lambda>t. if lost_task (de_now env) t then bury_task (de_now env) (de_touch env) t else t) (task_at i d)"
  by (simp add: bury_lost_def row_at_update_where)

lemma bury_not_ready: "\<not> ready_task now (bury_task now u t)"
  by (simp add: ready_task_def bury_task_def)

lemma process_outcome:
  assumes "alone env" and "distinct (map dt_id (deletion_tasks d))"
    and "process_object_deletions cfg env limit d = ((c, f), d')"
  shows "c + f = int (length (batch cfg env limit (bury_lost env d)))"
    and "task_at i d = Some t \<Longrightarrow> \<exists>t'. task_at i d' = Some t' \<and> outbox_step env t t'"
    and "task_at i d = None \<Longrightarrow> task_at i d' = None"
proof -
  let ?d1 = "bury_lost env d"
  let ?ts = "batch cfg env limit ?d1"
  obtain attempts d2 where claim: "claim_tasks env 0 ?ts ?d1 = (attempts, d2)" by fastforce
  with assms(3) have loop: "delete_loop env 0 attempts 0 0 d2 = ((c, f), d')"
    by (simp add: process_object_deletions_def Let_def)
  have ids: "map dt_id (deletion_tasks ?d1) = map dt_id (deletion_tasks d)"
    by (simp add: bury_lost_def update_where_key)
  with assms(2) have distinct1: "distinct (map dt_id (deletion_tasks ?d1))" by simp
  then have dts: "distinct (map dt_id ?ts)" unfolding batch_def by (rule distinct_map_order_limit)
  have batch: "t \<in> set ?ts \<Longrightarrow> task_at (dt_id t) ?d1 = Some t \<and> ready_task (de_now env) t" for t
    unfolding batch_def using order_limit_subset[of dt_created_at] row_at_unique[OF distinct1]
    by fastforce
  note cl = claim_tasks_effect[OF dts claim]
  have fsts: "fst ` set attempts = dt_id ` set ?ts" using cl by (metis list.set_map)
  have claimed: "\<exists>t. t \<in> set ?ts \<and> dt_id t = k \<and>
      task_at k d2 = Some (claim_task (de_now env) (de_touch env) a t)" if "(k, a) \<in> set attempts" for k a
  proof -
    from that fsts obtain t where t: "t \<in> set ?ts" "dt_id t = k" by force
    with batch[OF t(1)] cl that show ?thesis by fastforce
  qed
  have "\<exists>t. task_at k d2 = Some t \<and> dt_status t = TaskProcessing \<and> dt_attempt_id t = Some a"
    if "(k, a) \<in> set attempts" for k a using claimed[OF that] by force
  note lo = delete_loop_outcome[OF assms(1) _ this loop]
  have da: "distinct (map fst attempts)" using cl dts by simp
  have "length attempts = length ?ts" using cl by (metis length_map)
  with lo[OF da] show "c + f = int (length ?ts)" by simp
  show "\<exists>t'. task_at i d' = Some t' \<and> outbox_step env t t'" if t: "task_at i d = Some t"
  proof (cases "i \<in> fst ` set attempts")
    case True
    then obtain a where ia: "(i, a) \<in> set attempts" by force
    from claimed[OF ia] obtain u where u: "u \<in> set ?ts" "dt_id u = i"
      "task_at i d2 = Some (claim_task (de_now env) (de_touch env) a u)" by blast
    with batch[OF u(1)] have at1: "task_at i ?d1 = Some u" "ready_task (de_now env) u" by auto
    with t have "u = t" using bury_not_ready by (auto simp: bury_lost_at split: if_splits)
    moreover obtain k where "task_at i d' = map_option (finish_task env k) (task_at i d2)"
      using lo[OF da] True by blast
    ultimately show ?thesis using u(3) at1(2) by (auto intro: finished)
  next
    case False
    with lo[OF da] cl fsts have "task_at i d' = task_at i ?d1" by auto
    with t show ?thesis by (auto simp: bury_lost_at intro: kept buried)
  qed
  show "task_at i d' = None" if "task_at i d = None"
  proof -
    from that have n: "task_at i ?d1 = None" by (simp add: bury_lost_at)
    then have "i \<notin> dt_id ` set ?ts" using batch by force
    with n lo[OF da] cl fsts show ?thesis by auto
  qed
qed

definition task_ok :: "deletion_task \<Rightarrow> bool" where
  "task_ok t \<longleftrightarrow> 0 \<le> dt_attempt_count t \<and> dt_attempt_count t \<le> dt_max_attempts t \<and>
     (dt_status t = TaskProcessing \<longrightarrow> dt_attempt_id t \<noteq> None) \<and>
     (dt_status t = TaskQueued \<longrightarrow> dt_attempt_count t < dt_max_attempts t)"

lemma outbox_step_ok: "outbox_step env t t' \<Longrightarrow> task_ok t \<Longrightarrow> task_ok t'"
  by (erule outbox_stepE)
    (auto simp: task_ok_def bury_task_def finish_task_def claim_task_def failed_task_def
      completed_task_def lost_task_def ready_task_def Let_def split: option.splits)

lemma outbox_step_completed:
  "outbox_step env t t' \<Longrightarrow> dt_status t' = TaskCompleted \<Longrightarrow>
   t' = t \<or> (\<exists>k. de_outcome env k (dt_object_key t) = None)"
  by (erule outbox_stepE)
    (auto simp: bury_task_def finish_task_def failed_task_def Let_def split: option.splits if_splits)

text \<open>C7 (refinement): a run of the deletion outbox that no other process interferes with finishes every
  task of its batch, one way or the other, and does nothing else: each task is kept as it was, buried
  because the lease of its last attempt was lost, or claimed once and then completed, rescheduled or
  dead-lettered.  No task appears or disappears, no task gets more attempts than its maximum, a
  queued task always has an attempt left, so that none waits for ever, and a task becomes completed only when
  the deletion of its object returned.\<close>

theorem outbox_run:
  assumes "alone env" and "distinct (map dt_id (deletion_tasks d))"
    and "process_object_deletions cfg env limit d = ((c, f), d')"
    and "\<forall>t \<in> set (deletion_tasks d). task_ok t"
  shows "c + f = int (length (batch cfg env limit (bury_lost env d))) \<and>
    (\<forall>i. (task_at i d' = None) = (task_at i d = None)) \<and>
    (\<forall>i t. task_at i d = Some t \<longrightarrow> (\<exists>t'. task_at i d' = Some t' \<and> outbox_step env t t' \<and> task_ok t' \<and>
      (dt_status t' = TaskCompleted \<longrightarrow> t' = t \<or> (\<exists>k. de_outcome env k (dt_object_key t) = None))))"
proof (intro conjI allI impI)
  note out = process_outcome[OF assms(1-3)]
  show "c + f = int (length (batch cfg env limit (bury_lost env d)))" by (rule out(1))
  show "(task_at i d' = None) = (task_at i d = None)" for i
    using out(2,3)[of i] by (cases "task_at i d") auto
  fix i t assume t: "task_at i d = Some t"
  then obtain t' where "task_at i d' = Some t'" "outbox_step env t t'" using out(2) by blast
  moreover have "task_ok t" using t assms(4) row_at_Some_iff by fastforce
  ultimately show "\<exists>t'. task_at i d' = Some t' \<and> outbox_step env t t' \<and> task_ok t' \<and>
      (dt_status t' = TaskCompleted \<longrightarrow> t' = t \<or> (\<exists>k. de_outcome env k (dt_object_key t) = None))"
    using outbox_step_ok outbox_step_completed by blast
qed

definition demo_deletion :: deletion_env where
  "demo_deletion = \<lparr>de_now = 10, de_touch = 10, de_clock = (\<lambda>_. 11), de_outcome = (\<lambda>_ _. Some ''OSError''),
     de_uuids = (\<lambda>_. 5), de_locked = (\<lambda>_. False), de_others = (\<lambda>_ d. d)\<rparr>"

definition demo_outbox :: db where
  "demo_outbox = empty_db\<lparr>deletion_tasks := [new_task 0 1 ''a'']\<rparr>"

theorem outbox_run_witness:
  "\<exists>t'. task_at 1 (snd (process_object_deletions default_settings demo_deletion None demo_outbox)) = Some t' \<and>
     outbox_step demo_deletion (new_task 0 1 ''a'') t' \<and> dt_status t' \<noteq> TaskCompleted"
proof -
  obtain c f d' where p: "process_object_deletions default_settings demo_deletion None demo_outbox = ((c, f), d')"
    by (metis prod.collapse)
  have a: "alone demo_deletion" by (simp add: alone_def demo_deletion_def)
  have t: "task_at 1 demo_outbox = Some (new_task 0 1 ''a'')"
    and ok: "\<forall>t \<in> set (deletion_tasks demo_outbox). task_ok t"
    and ids: "distinct (map dt_id (deletion_tasks demo_outbox))"
    by (simp_all add: demo_outbox_def new_task_def task_ok_def)
  have "de_outcome demo_deletion k key \<noteq> None" for k key by (simp add: demo_deletion_def)
  moreover have "dt_status (new_task 0 1 ''a'') \<noteq> TaskCompleted" by (simp add: new_task_def)
  ultimately show ?thesis using outbox_run[OF a ids p ok] t p by (metis snd_conv)
qed

section \<open>Purges\<close>

text \<open>The request to delete an object, in the outbox: queued, with all its attempts.\<close>

definition requested :: "str \<Rightarrow> db \<Rightarrow> bool" where
  "requested key d \<longleftrightarrow> (\<exists>t. row_at dt_object_key key (deletion_tasks d) = Some t \<and>
     dt_status t = TaskQueued \<and> dt_attempt_count t = 0 \<and> dt_retry_at t = None)"

lemma enqueue_requests:
  "key \<noteq> [] \<Longrightarrow> requested key (enqueue_object_deletion now i (Some key) d)"
  by (auto simp: enqueue_object_deletion_def requested_def outbox.lookup_upsert new_task_def
      merge_task_def requeue_def split: option.splits)

lemma enqueue_keeps:
  "requested key d \<Longrightarrow> requested key (enqueue_object_deletion now i k d)"
  by (auto simp: enqueue_object_deletion_def requested_def outbox.lookup_upsert new_task_def
      merge_task_def requeue_def split: option.splits)

lemma enqueue_keys_requests:
  "k \<in> set keys \<Longrightarrow> k \<noteq> [] \<Longrightarrow> requested k (enqueue_keys now ids keys d)"
proof -
  have keep: "requested k d \<Longrightarrow> requested k (enqueue_keys now ids keys d)" for keys d
    unfolding enqueue_keys_def by (rule foldl_invariant) (simp_all add: enqueue_keeps)
  show "k \<in> set keys \<Longrightarrow> k \<noteq> [] \<Longrightarrow> requested k (enqueue_keys now ids keys d)"
  proof (induction keys arbitrary: d)
    case (Cons x keys)
    show ?case
    proof (cases "x = k")
      case True
      then have "requested k (enqueue_object_deletion now (ids x) (Some x) d)"
        using Cons.prems(2) by (simp add: enqueue_requests)
      from keep[OF this, of keys] show ?thesis by (simp add: enqueue_keys_def)
    next
      case False
      with Cons show ?thesis by (simp add: enqueue_keys_def)
    qed
  qed simp
qed

lemma enqueue_keys_keeps: "requested k d \<Longrightarrow> requested k (enqueue_keys now ids keys d)"
  unfolding enqueue_keys_def by (rule foldl_invariant) (simp_all add: enqueue_keeps)

lemma enqueue_keys_frame [simp]:
  "search_sessions (enqueue_keys now ids keys d) = search_sessions d"
  "search_images (enqueue_keys now ids keys d) = search_images d"
  "face_search_jobs (enqueue_keys now ids keys d) = face_search_jobs d"
  "search_results (enqueue_keys now ids keys d) = search_results d"
  unfolding enqueue_keys_def by (induction keys arbitrary: d)
    (simp_all add: enqueue_object_deletion_def)

lemma requested_delete [simp]: "requested k (delete_search_session sid d) = requested k d"
  by (simp add: requested_def delete_search_session_def)

lemma purge_session_frame:
  "search_sessions (purge_session now ids d x) = filter (\<lambda>y. fs_id y \<noteq> fs_id x) (search_sessions d)"
  "search_images (purge_session now ids d x) =
     filter (\<lambda>i. si_search_session_id i \<noteq> fs_id x) (search_images d)"
  "face_search_jobs (purge_session now ids d x) =
     filter (\<lambda>j. parent_session (j_parent j) \<noteq> Some (fs_id x)) (face_search_jobs d)"
  "search_results (purge_session now ids d x) =
     filter (\<lambda>r. sr_search_session_id r \<noteq> fs_id x) (search_results d)"
  by (simp_all add: purge_session_def delete_search_session_def)

lemma purge_sessions_effect:
  fixes xs :: "search_session list"
  defines "gone \<equiv> fs_id ` set xs"
  shows "search_sessions (foldl (purge_session now ids) d xs) =
      filter (\<lambda>y. fs_id y \<notin> gone) (search_sessions d) \<and>
    search_images (foldl (purge_session now ids) d xs) =
      filter (\<lambda>i. si_search_session_id i \<notin> gone) (search_images d) \<and>
    face_search_jobs (foldl (purge_session now ids) d xs) =
      filter (\<lambda>j. \<forall>s \<in> gone. parent_session (j_parent j) \<noteq> Some s) (face_search_jobs d) \<and>
    search_results (foldl (purge_session now ids) d xs) =
      filter (\<lambda>r. sr_search_session_id r \<notin> gone) (search_results d) \<and>
    (\<forall>i \<in> set (search_images d). si_search_session_id i \<in> gone \<longrightarrow> si_object_key i \<noteq> [] \<longrightarrow>
      requested (si_object_key i) (foldl (purge_session now ids) d xs)) \<and>
    (\<forall>k. requested k d \<longrightarrow> requested k (foldl (purge_session now ids) d xs))"
  unfolding gone_def
proof (induction xs arbitrary: d)
  case (Cons x xs)
  let ?d1 = "purge_session now ids d x"
  have req: "requested (si_object_key i) ?d1"
    if "i \<in> set (search_images d)" "si_search_session_id i = fs_id x" "si_object_key i \<noteq> []" for i
    using that by (auto simp: purge_session_def intro!: enqueue_keys_requests)
  have keep: "requested k d \<Longrightarrow> requested k ?d1" for k
    by (simp add: purge_session_def enqueue_keys_keeps)
  note ih = Cons.IH[of ?d1, unfolded purge_session_frame]
  have "\<forall>i \<in> set (search_images d). si_search_session_id i \<in> fs_id ` set (x # xs) \<longrightarrow>
      si_object_key i \<noteq> [] \<longrightarrow> requested (si_object_key i) (foldl (purge_session now ids) ?d1 xs)"
  proof (intro ballI impI)
    fix i assume i: "i \<in> set (search_images d)" "si_search_session_id i \<in> fs_id ` set (x # xs)"
      "si_object_key i \<noteq> []"
    show "requested (si_object_key i) (foldl (purge_session now ids) ?d1 xs)"
    proof (cases "si_search_session_id i = fs_id x")
      case True
      with req i ih show ?thesis by blast
    next
      case False
      with i have "i \<in> set (filter (\<lambda>i. si_search_session_id i \<noteq> fs_id x) (search_images d))"
        "si_search_session_id i \<in> fs_id ` set xs" by auto
      with ih i(3) show ?thesis by blast
    qed
  qed
  moreover have "\<forall>k. requested k d \<longrightarrow> requested k (foldl (purge_session now ids) ?d1 xs)"
    using ih keep by blast
  ultimately show ?case using ih by (simp add: conj_commute)
qed simp

lemma expired_sessionsD:
  "x \<in> set (expired_sessions now locked limit d) \<Longrightarrow>
   x \<in> set (search_sessions d) \<and> fs_expires_at x \<le> now \<and> \<not> locked (fs_id x)"
  unfolding expired_sessions_def using order_limit_subset by fastforce

lemma expired_sessions_all:
  assumes "length (filter (\<lambda>x. fs_expires_at x \<le> now \<and> \<not> locked (fs_id x)) (search_sessions d))
      \<le> nat (max 1 (min limit 5000))"
    and "x \<in> set (search_sessions d)" and "fs_expires_at x \<le> now" and "\<not> locked (fs_id x)"
  shows "x \<in> set (expired_sessions now locked limit d)"
  using assms by (simp add: expired_sessions_def order_limit_def)

text \<open>The purge of expired searches removes only sessions that have expired, and every one
  of them that no other transaction holds when they are no more than the limit.  With a session go all
  its images, jobs and results; the object of every image it removes is queued for deletion, with all
  its attempts, so no biometric image is forgotten in the storage; every other session keeps its
  images, jobs and results.\<close>

theorem expired_searches_purged:
  assumes "purge_expired_face_searches now locked ids limit d = (n, d')"
    and "gone = fs_id ` set (expired_sessions now locked limit d)"
  shows "(\<forall>x \<in> set (expired_sessions now locked limit d). fs_expires_at x \<le> now) \<and>
    n \<le> max 1 (min limit 5000) \<and>
    search_sessions d' = filter (\<lambda>y. fs_id y \<notin> gone) (search_sessions d) \<and>
    search_images d' = filter (\<lambda>i. si_search_session_id i \<notin> gone) (search_images d) \<and>
    face_search_jobs d' = filter (\<lambda>j. \<forall>s \<in> gone. parent_session (j_parent j) \<noteq> Some s) (face_search_jobs d) \<and>
    search_results d' = filter (\<lambda>r. sr_search_session_id r \<notin> gone) (search_results d) \<and>
    (\<forall>i \<in> set (search_images d). si_search_session_id i \<in> gone \<longrightarrow> si_object_key i \<noteq> [] \<longrightarrow>
      requested (si_object_key i) d') \<and>
    (length (filter (\<lambda>x. fs_expires_at x \<le> now \<and> \<not> locked (fs_id x)) (search_sessions d))
        \<le> nat (max 1 (min limit 5000)) \<longrightarrow>
      (\<forall>x \<in> set (search_sessions d'). now < fs_expires_at x \<or> locked (fs_id x)))"
proof -
  let ?xs = "expired_sessions now locked limit d"
  from assms(1) have d': "d' = foldl (purge_session now ids) d ?xs" and n: "n = int (length ?xs)"
    by (simp_all add: purge_expired_face_searches_def Let_def)
  have "n \<le> max 1 (min limit 5000)" by (simp add: n expired_sessions_def)
  moreover have "\<forall>x \<in> set ?xs. fs_expires_at x \<le> now" using expired_sessionsD by blast
  moreover have eff: "search_sessions d' = filter (\<lambda>y. fs_id y \<notin> gone) (search_sessions d)"
    "search_images d' = filter (\<lambda>i. si_search_session_id i \<notin> gone) (search_images d)"
    "face_search_jobs d' = filter (\<lambda>j. \<forall>s \<in> gone. parent_session (j_parent j) \<noteq> Some s) (face_search_jobs d)"
    "search_results d' = filter (\<lambda>r. sr_search_session_id r \<notin> gone) (search_results d)"
    "\<forall>i \<in> set (search_images d). si_search_session_id i \<in> gone \<longrightarrow> si_object_key i \<noteq> [] \<longrightarrow>
      requested (si_object_key i) d'"
    using purge_sessions_effect[of now ids d ?xs] unfolding assms(2) d' by blast+
  moreover have "now < fs_expires_at x \<or> locked (fs_id x)"
    if "length (filter (\<lambda>x. fs_expires_at x \<le> now \<and> \<not> locked (fs_id x)) (search_sessions d))
        \<le> nat (max 1 (min limit 5000))" "x \<in> set (search_sessions d')" for x
    using expired_sessions_all[OF that(1), of x] that(2) by (auto simp: assms(2) eff(1) not_le)
  ultimately show ?thesis by (intro conjI impI ballI) blast+
qed

definition demo_search_image :: search_image where
  "demo_search_image = \<lparr>si_id = 2, si_event_id = 1, si_search_session_id = 7,
     si_object_key = ''events/face-search/a'', si_file_name = ''a.jpg'', si_content_type = ''image/jpeg'',
     si_file_size = 1, si_status = ImageReady, si_error_message = None, si_created_at = 0\<rparr>"

definition demo_search_session :: search_session where
  "demo_search_session = \<lparr>fs_id = 7, fs_event_id = 1, fs_participant_id = None,
     fs_status = SessionCompleted, fs_error_message = None, fs_expires_at = 5,
     fs_capability_hash = None, fs_owner_binding_hash = None, fs_created_at = 0, fs_finished_at = None\<rparr>"

definition demo_search_db :: db where
  "demo_search_db = empty_db\<lparr>search_sessions := [demo_search_session], search_images := [demo_search_image]\<rparr>"

theorem expired_searches_purged_witness:
  "search_sessions (snd (purge_expired_face_searches 10 (\<lambda>_. False) (\<lambda>_. 1) 500 demo_search_db)) = [] \<and>
   requested ''events/face-search/a'' (snd (purge_expired_face_searches 10 (\<lambda>_. False) (\<lambda>_. 1) 500 demo_search_db))"
proof -
  obtain n d' where p: "purge_expired_face_searches 10 (\<lambda>_. False) (\<lambda>_. 1) 500 demo_search_db = (n, d')"
    by fastforce
  have e: "expired_sessions 10 (\<lambda>_. False) 500 demo_search_db = [demo_search_session]"
    by (simp add: expired_sessions_def order_limit_def demo_search_db_def demo_search_session_def)
  from expired_searches_purged[OF p refl, unfolded e] p show ?thesis
    by (simp add: demo_search_db_def demo_search_image_def demo_search_session_def)
qed

text \<open>A diagnostics purge is complete: a second one with the same or an earlier cutoff finds nothing.\<close>

lemma purged_table:
  "filter (old_diagnostics c) (update_where (old_diagnostics c) (\<lambda>j. j\<lparr>j_raw_response_json := None\<rparr>) js) = []"
  by (induction js) (auto simp: old_diagnostics_def)

text \<open>The purge of old diagnostics clears every diagnosis of a job that finished before
  the retention period, in all three job tables, changes nothing else of a job, and leaves nothing
  for a second purge at the same time: the rows it cleared are not selected again.\<close>

theorem diagnostics_purged_once:
  "(case purge_old_job_diagnostics cfg now d of (n, d') \<Rightarrow>
     purge_old_job_diagnostics cfg now d' = (0, d') \<and>
     (\<forall>m. jobs_of m d' = map (\<lambda>j. if old_diagnostics
         (now - seconds (3600 * max 1 (raw_response_retention_hours cfg))) j
       then j\<lparr>j_raw_response_json := None\<rparr> else j) (jobs_of m d)) \<and>
     n = (\<Sum>m \<leftarrow> [PhotoJobs, ParticipantFaceJobs, FaceSearchJobs]. int (length (filter (old_diagnostics
         (now - seconds (3600 * max 1 (raw_response_retention_hours cfg)))) (jobs_of m d)))))"
proof -
  let ?c = "now - seconds (3600 * max 1 (raw_response_retention_hours cfg))"
  have idem: "update_where (old_diagnostics ?c) (\<lambda>j. j\<lparr>j_raw_response_json := None\<rparr>)
      (update_where (old_diagnostics ?c) (\<lambda>j. j\<lparr>j_raw_response_json := None\<rparr>) js) =
    update_where (old_diagnostics ?c) (\<lambda>j. j\<lparr>j_raw_response_json := None\<rparr>) js" for js
    by (induction js) (auto simp: old_diagnostics_def)
  show ?thesis
    by (auto simp: purge_old_job_diagnostics_def Let_def purge_table_def purged_table idem
        update_where_def[symmetric] split: prod.splits)
      (rename_tac m, case_tac m, simp_all add: update_where_def)
qed

end
