(* ===== verification/RateLimits.thy ===== *)
theory RateLimits
  imports Interfaces Maintenance
begin

text \<open>
  The rate limits: the fixed windows of \<^verbatim>\<open>backend/app/rate_limits.py\<close>, whose counters are rows of
  the database shared by all processes, and the process-local guards of
  \<^verbatim>\<open>backend/app/web_security.py\<close>, a sliding window per key and a count of requests in flight.

  Waiting for a lock or for the database does not appear: the definitions are the critical
  sections themselves, which the event loop and the database run one at a time.  Python's
  \<^verbatim>\<open>time.monotonic()\<close> is a real number of seconds.
\<close>

section \<open>Fixed windows in the database\<close>

text \<open>\<^verbatim>\<open>hmac_hex key value\<close> stands for \<^verbatim>\<open>hmac.new(key, value, sha256).hexdigest()\<close>.\<close>

definition privacy_hash :: "(str \<Rightarrow> str \<Rightarrow> str) \<Rightarrow> settings \<Rightarrow> str \<Rightarrow> str" where
  "privacy_hash hmac_hex cfg value =
     hmac_hex (if app_secret_key cfg = [] then ''raceframe-development-only'' else app_secret_key cfg) value"

definition window_start :: "time \<Rightarrow> int \<Rightarrow> time" where
  "window_start now window_seconds =
     (let epoch = now div 1000000 in seconds (epoch - epoch mod window_seconds))"

definition merge_bucket :: "rate_bucket \<Rightarrow> rate_bucket \<Rightarrow> rate_bucket" where
  "merge_bucket current excluded = current\<lparr>rb_count := rb_count current + rb_count excluded,
     rb_expires_at := rb_expires_at excluded, rb_updated_at := rb_updated_at excluded\<rparr>"

definition new_bucket :: "str \<Rightarrow> str \<Rightarrow> time \<Rightarrow> time \<Rightarrow> int \<Rightarrow> int \<Rightarrow> rate_bucket" where
  "new_bucket bucket key_hash start now window_seconds units =
     \<lparr>rb_bucket = bucket, rb_key_hash = key_hash, rb_window_start = start, rb_count = units,
      rb_expires_at = start + seconds (window_seconds * 2), rb_updated_at = now\<rparr>"

definition hit_persistent_limit ::
    "(str \<Rightarrow> str \<Rightarrow> str) \<Rightarrow> settings \<Rightarrow> time \<Rightarrow> str \<Rightarrow> str \<Rightarrow> int \<Rightarrow> int \<Rightarrow> int \<Rightarrow> db \<Rightarrow>
     int option result \<times> db" where
  "hit_persistent_limit hmac_hex cfg now bucket key limit window_seconds units d =
    (if limit \<le> 0 \<or> window_seconds \<le> 0 \<or> units \<le> 0
     then (Inl (RuntimeError ''Rate limit configuration must be positive.''), d)
     else
       let start = window_start now window_seconds;
           row = new_bucket (take 64 bucket) (privacy_hash hmac_hex cfg key) start now window_seconds units;
           d' = d\<lparr>rate_buckets := upsert rate_bucket_key merge_bucket row (rate_buckets d)\<rparr>;
           total = (case row_at rate_bucket_key (rate_bucket_key row) (rate_buckets d') of
                      None \<Rightarrow> 0 | Some b \<Rightarrow> rb_count b)
       in (Inr (if total \<le> limit then None
                else Some (max 1 ((start + seconds window_seconds - now) div 1000000 + 1))), d'))"

interpretation bucket_table: upsert_table rate_bucket_key merge_bucket
  by unfold_locales (simp add: merge_bucket_def rate_bucket_key_def)

section \<open>A sliding window per key, in the process\<close>

text \<open>The ordered dictionary is the list of its items, the least recently used first.\<close>

type_synonym window_entries = "((str \<times> str) \<times> real list) list"

definition entry_of :: "str \<times> str \<Rightarrow> window_entries \<Rightarrow> real list" where
  "entry_of k es = (case map_of es k of None \<Rightarrow> [] | Some ts \<Rightarrow> ts)"

definition py_int :: "real \<Rightarrow> int" where
  "py_int x = (if x < 0 then \<lceil>x\<rceil> else \<lfloor>x\<rfloor>)"

definition without :: "str \<times> str \<Rightarrow> window_entries \<Rightarrow> window_entries" where
  "without k es = filter (\<lambda>e. fst e \<noteq> k) es"

definition evict :: "nat \<Rightarrow> window_entries \<Rightarrow> window_entries" where
  "evict max_keys es = drop (length es - max_keys) es"

definition sliding_hit ::
    "nat \<Rightarrow> real \<Rightarrow> str \<Rightarrow> str \<Rightarrow> int \<Rightarrow> int \<Rightarrow> window_entries \<Rightarrow> int option result \<times> window_entries" where
  "sliding_hit max_keys now bucket key limit window_seconds es =
    (let k = (bucket, key);
         timestamps = dropWhile (\<lambda>t. t \<le> now - real_of_int window_seconds) (entry_of k es)
     in if limit \<le> int (length timestamps)
        then (case timestamps of
                [] \<Rightarrow> Inl (IndexError ''deque index out of range'')
              | t # _ \<Rightarrow> Inr (Some (max 1 (py_int (real_of_int window_seconds - (now - t)) + 1))),
              without k es @ [(k, timestamps)])
        else (Inr None, evict max_keys (without k es @ [(k, timestamps @ [now])])))"

section \<open>Requests in flight\<close>

type_synonym in_flight = "str \<rightharpoonup> int"

definition in_flight_count :: "str \<Rightarrow> in_flight \<Rightarrow> int" where
  "in_flight_count category counts = (case counts category of None \<Rightarrow> 0 | Some n \<Rightarrow> n)"

definition in_flight_enter :: "str \<Rightarrow> int \<Rightarrow> in_flight \<Rightarrow> bool \<times> in_flight" where
  "in_flight_enter category limit counts =
    (let current = in_flight_count category counts
     in if limit \<le> current then (False, counts) else (True, counts(category \<mapsto> current + 1)))"

definition in_flight_leave :: "str \<Rightarrow> in_flight \<Rightarrow> in_flight" where
  "in_flight_leave category counts =
    (let current = in_flight_count category counts
     in if current \<le> 1 then counts(category := None) else counts(category \<mapsto> current - 1))"

end
