(* ===== verification/RateLimitFacts.thy ===== *)
theory RateLimitFacts
  imports RateLimits
begin

text \<open>
  What the rate limits promise: a window of the database never admits more units than its limit,
  whatever the maintenance purge does in between, and says when to come back; the sliding window
  never admits more than its limit in any window of time; the requests in flight never exceed
  theirs.
\<close>

section \<open>Facts on the fixed windows\<close>

lemma seconds_add: "seconds (a + b) = seconds a + seconds b"
  by (simp add: seconds_def)

lemma window_start_bounds:
  assumes "0 < w"
  shows "window_start now w \<le> now" "now < window_start now w + seconds w"
proof -
  let ?e = "now div 1000000"
  have m: "0 \<le> ?e mod w" "?e mod w < w" using assms by simp_all
  have e: "1000000 * ?e \<le> now" "now < 1000000 * (?e + 1)" by presburger+
  have ws: "window_start now w = 1000000 * ?e - 1000000 * (?e mod w)"
    by (simp add: window_start_def Let_def seconds_def)
  from ws m(1) e(1) show "window_start now w \<le> now" by linarith
  have "?e mod w + 1 \<le> w" using m(2) by simp
  then have "1000000 * (?e mod w) + 1000000 \<le> seconds w"
    by (simp add: seconds_def algebra_simps)
  with ws e(2) show "now < window_start now w + seconds w" by linarith
qed

text \<open>The units counted against a key in a window.\<close>

definition spent :: "str \<Rightarrow> str \<Rightarrow> time \<Rightarrow> db \<Rightarrow> int" where
  "spent bucket key_hash start d =
    (case row_at rate_bucket_key (bucket, key_hash, start) (rate_buckets d) of
       None \<Rightarrow> 0 | Some b \<Rightarrow> rb_count b)"

lemma key_new_bucket [simp]:
  "rate_bucket_key (new_bucket b h s now w u) = (b, h, s)"
  by (simp add: new_bucket_def rate_bucket_key_def)

lemma count_new_bucket [simp]: "rb_count (new_bucket b h s now w u) = u"
  by (simp add: new_bucket_def)

lemma spent_upsert:
  "spent b' h' s' (d\<lparr>rate_buckets := upsert rate_bucket_key merge_bucket
       (new_bucket b h s now w u) (rate_buckets d)\<rparr>) =
   (if (b', h', s') = (b, h, s) then spent b h s d + u else spent b' h' s' d)"
  by (auto simp: spent_def bucket_table.lookup_upsert merge_bucket_def split: option.splits)

lemma hit_result:
  assumes "0 < limit" "0 < w" "0 < u"
    and "hit_persistent_limit hm cfg now bucket key limit w u d = (r, d')"
  defines "b \<equiv> take 64 bucket" and "h \<equiv> privacy_hash hm cfg key" and "s \<equiv> window_start now w"
  shows "r = Inr (if spent b h s d + u \<le> limit then None
           else Some (max 1 ((s + seconds w - now) div 1000000 + 1)))"
    and "spent b' h' s' d' = (if (b', h', s') = (b, h, s) then spent b h s d + u else spent b' h' s' d)"
    and "d' = d\<lparr>rate_buckets := upsert rate_bucket_key merge_bucket (new_bucket b h s now w u) (rate_buckets d)\<rparr>"
proof -
  let ?d = "d\<lparr>rate_buckets := upsert rate_bucket_key merge_bucket (new_bucket b h s now w u) (rate_buckets d)\<rparr>"
  have d': "d' = ?d" and r: "r = Inr (if (case row_at rate_bucket_key (b, h, s) (rate_buckets ?d) of
        None \<Rightarrow> 0 | Some b \<Rightarrow> rb_count b) \<le> limit then None
           else Some (max 1 ((s + seconds w - now) div 1000000 + 1)))"
    using assms(1-4) by (auto simp: hit_persistent_limit_def Let_def b_def h_def s_def)
  then show "d' = ?d" by simp
  show "spent b' h' s' d' = (if (b', h', s') = (b, h, s) then spent b h s d + u else spent b' h' s' d)"
    unfolding d' by (rule spent_upsert)
  show "r = Inr (if spent b h s d + u \<le> limit then None
           else Some (max 1 ((s + seconds w - now) div 1000000 + 1)))"
    unfolding r using spent_upsert[of b h s b h s now w u d, unfolded spent_def] by (simp add: spent_def)
qed

lemma retry_range:
  fixes now :: time
  assumes "0 < w"
  defines "remaining \<equiv> window_start now w + seconds w - now"
  shows "1 \<le> remaining div 1000000 + 1" "remaining div 1000000 + 1 \<le> w + 1"
    and "now + seconds (remaining div 1000000) \<le> window_start now w + seconds w"
    and "window_start now w + seconds w < now + seconds (remaining div 1000000 + 1)"
proof -
  have r: "0 < remaining" "remaining \<le> seconds w"
    using window_start_bounds[OF assms(1), of now] by (simp_all add: remaining_def)
  have q: "1000000 * (remaining div 1000000) \<le> remaining"
    "remaining < 1000000 * (remaining div 1000000 + 1)" by presburger+
  show "1 \<le> remaining div 1000000 + 1" using r(1) by simp
  have "1000000 * (remaining div 1000000) \<le> 1000000 * w"
    using q(1) r(2) by (simp add: seconds_def)
  then show "remaining div 1000000 + 1 \<le> w + 1" by linarith
  show "now + seconds (remaining div 1000000) \<le> window_start now w + seconds w"
    using q(1) by (simp add: remaining_def seconds_def)
  show "window_start now w + seconds w < now + seconds (remaining div 1000000 + 1)"
    using q(2) by (simp add: remaining_def seconds_def)
qed


text \<open>A run of the limiter: hits on any bucket, and the purge of \<^verbatim>\<open>maintenance.py\<close> in between.\<close>

datatype limit_event = Hit str str int int int | Purge

fun hit_in :: "(str \<Rightarrow> str \<Rightarrow> str) \<Rightarrow> settings \<Rightarrow> str \<times> str \<times> time \<Rightarrow> time \<times> limit_event \<Rightarrow> bool" where
  "hit_in hm cfg k (t, Hit bucket key limit w u) \<longleftrightarrow>
     0 < w \<and> k = (take 64 bucket, privacy_hash hm cfg key, window_start t w)"
| "hit_in hm cfg k (t, Purge) \<longleftrightarrow> False"

fun admitted :: "(str \<Rightarrow> str \<Rightarrow> str) \<Rightarrow> settings \<Rightarrow> str \<times> str \<times> time \<Rightarrow> (time \<times> limit_event) list \<Rightarrow> db \<Rightarrow> int" where
  "admitted hm cfg k [] d = 0"
| "admitted hm cfg k ((t, Purge) # es) d = admitted hm cfg k es (snd (purge_expired_rate_limits t d))"
| "admitted hm cfg k ((t, Hit bucket key limit w u) # es) d =
    (case hit_persistent_limit hm cfg t bucket key limit w u d of
       (r, d') \<Rightarrow> (if r = Inr None \<and> hit_in hm cfg k (t, Hit bucket key limit w u) then u else 0)
         + admitted hm cfg k es d')"

text \<open>Every hit on the bucket uses its limit and its window.\<close>

fun configured :: "str \<Rightarrow> int \<Rightarrow> int \<Rightarrow> limit_event \<Rightarrow> bool" where
  "configured b l w (Hit bucket key limit window u) \<longleftrightarrow> (take 64 bucket = b \<longrightarrow> limit = l \<and> window = w)"
| "configured b l w Purge \<longleftrightarrow> True"

definition expiry_ok :: "str \<times> str \<times> time \<Rightarrow> int \<Rightarrow> db \<Rightarrow> bool" where
  "expiry_ok k w d \<longleftrightarrow> (\<forall>r \<in> set (rate_buckets d). rate_bucket_key r = k \<longrightarrow>
     rb_expires_at r = snd (snd k) + seconds (w * 2))"

lemma admitted_none:
  "(\<And>e. e \<in> set es \<Longrightarrow> \<not> hit_in hm cfg k e) \<Longrightarrow> admitted hm cfg k es d = 0"
proof (induction es arbitrary: d)
  case (Cons e es)
  obtain t ev where e: "e = (t, ev)" by (cases e)
  from Cons.prems have n: "\<not> hit_in hm cfg k e" "\<And>e. e \<in> set es \<Longrightarrow> \<not> hit_in hm cfg k e" by auto
  with Cons.IH show ?case unfolding e by (cases ev) (auto split: prod.splits)
qed simp

lemma hit_in_time:
  "hit_in hm cfg k (t, e) \<Longrightarrow> configured (fst k) l w e \<Longrightarrow>
   t < snd (snd k) + seconds w"
  by (cases e) (auto dest: window_start_bounds(2))

lemma hit_expiry:
  assumes "hit_persistent_limit hm cfg t bucket key limit w' u d = (r, d')"
    and "expiry_ok (b, h, s) w d" and "configured b l w (Hit bucket key limit w' u)"
  shows "expiry_ok (b, h, s) w d'"
proof (cases "limit \<le> 0 \<or> w' \<le> 0 \<or> u \<le> 0")
  case True
  then show ?thesis using assms(1,2) by (auto simp: hit_persistent_limit_def)
next
  case False
  then have "0 < limit" "0 < w'" "0 < u" by auto
  note d' = hit_result(3)[OF this assms(1)]
  show ?thesis
    unfolding expiry_ok_def
  proof (intro ballI impI)
    fix x assume x: "x \<in> set (rate_buckets d')" and k: "rate_bucket_key x = (b, h, s)"
    show "rb_expires_at x = snd (snd (b, h, s)) + seconds (w * 2)"
    proof (cases "x \<in> set (rate_buckets d)")
      case True
      with assms(2) k show ?thesis by (auto simp: expiry_ok_def)
    next
      case False
      with x d' k assms(3) show ?thesis
        by (auto simp: upsert_def in_update_where merge_bucket_def new_bucket_def rate_bucket_key_def
            split: if_splits)
    qed
  qed
qed

lemma row_at_filter:
  "(\<And>r. r \<in> set rows \<Longrightarrow> key r = k \<Longrightarrow> p r) \<Longrightarrow> row_at key k (filter p rows) = row_at key k rows"
  by (induction rows) auto

lemma purge_keeps:
  assumes "expiry_ok k w d" "t \<le> snd (snd k) + seconds (w * 2)"
  shows "spent (fst k) (fst (snd k)) (snd (snd k)) (snd (purge_expired_rate_limits t d)) =
      spent (fst k) (fst (snd k)) (snd (snd k)) d"
    and "expiry_ok k w (snd (purge_expired_rate_limits t d))"
  using assms by (auto simp: spent_def purge_expired_rate_limits_def expiry_ok_def row_at_filter)

lemma admitted_bound:
  assumes "0 < l" "0 < w" "sorted (map fst es)" "\<forall>e \<in> set es. configured b l w (snd e)"
    and "expiry_ok (b, h, s) w d"
  shows "admitted hm cfg (b, h, s) es d \<le> max 0 (l - spent b h s d)"
  using assms(3-5)
proof (induction es arbitrary: d)
  case (Cons e es)
  obtain t ev where e: "e = (t, ev)" by (cases e)
  note IH = Cons.IH
  from Cons.prems have later: "sorted (map fst es)" "\<forall>e \<in> set es. configured b l w (snd e)"
    and c: "configured b l w ev" and t: "\<And>x. x \<in> set es \<Longrightarrow> t \<le> fst x" by (auto simp: e)
  show ?case
  proof (cases ev)
    case Purge
    show ?thesis
    proof (cases "t \<le> s + seconds (w * 2)")
      case True
      then show ?thesis
        using IH[OF later, of "snd (purge_expired_rate_limits t d)"] Cons.prems(3)
          purge_keeps[of "(b, h, s)" w d t] by (simp add: e Purge)
    next
      case False
      have "\<not> hit_in hm cfg (b, h, s) x" if "x \<in> set es" for x
      proof
        assume "hit_in hm cfg (b, h, s) x"
        then have "fst x < s + seconds w"
          using hit_in_time[of hm cfg "(b, h, s)" "fst x" "snd x" l w] later(2) that by auto
        moreover have "seconds w \<le> seconds (w * 2)" using assms(2) by simp
        ultimately show False using False t[OF that] by linarith
      qed
      then show ?thesis by (simp add: e Purge admitted_none)
    qed
  next
    case (Hit bucket key limit w' u)
    obtain r d' where h: "hit_persistent_limit hm cfg t bucket key limit w' u d = (r, d')"
      by (cases "hit_persistent_limit hm cfg t bucket key limit w' u d")
    have ok: "expiry_ok (b, h, s) w d'"
      using hit_expiry[OF h Cons.prems(3), of l] c by (simp add: Hit)
    note rest = IH[OF later ok]
    show ?thesis
    proof (cases "limit \<le> 0 \<or> w' \<le> 0 \<or> u \<le> 0")
      case True
      then have "r \<noteq> Inr None" "d' = d" using h by (auto simp: hit_persistent_limit_def)
      then show ?thesis using rest by (simp add: e Hit h)
    next
      case False
      then have p: "0 < limit" "0 < w'" "0 < u" by auto
      note res = hit_result(1,2)[OF p h]
      let ?own = "(b, h, s) = (take 64 bucket, privacy_hash hm cfg key, window_start t w')"
      show ?thesis
      proof (cases ?own)
        case True
        then have "limit = l" using c by (simp add: Hit)
        with True have "r = Inr None \<longleftrightarrow> spent b h s d + u \<le> l" and "spent b h s d' = spent b h s d + u"
          using res by auto
        then show ?thesis using rest p(3) by (auto simp: e Hit h)
      next
        case False
        then have "spent b h s d' = spent b h s d" using res(2)[of b h s] by auto
        then show ?thesis using rest False by (auto simp: e Hit h)
      qed
    qed
  qed
qed simp


section \<open>Facts on the sliding window\<close>

lemma entry_of_without [simp]:
  "entry_of k (without k' es) = (if k = k' then [] else entry_of k es)"
  by (induction es) (auto simp: without_def entry_of_def)

lemma entry_of_snoc:
  "entry_of k (without k' es @ [(k', ts)]) = (if k = k' then ts else entry_of k es)"
proof -
  have "map_of (without k' es) k = (if k = k' then None else map_of es k)"
    by (induction es) (auto simp: without_def)
  then show ?thesis by (auto simp: entry_of_def map_add_def split: option.splits)
qed

lemma keys_snoc:
  "fst ` set (without k es @ [(k, ts)]) = insert k (fst ` set es)"
  by (auto simp: without_def image_iff)

lemma distinct_snoc:
  "distinct (map fst es) \<Longrightarrow> distinct (map fst (without k es @ [(k, ts)]))"
  unfolding without_def by (induction es) (auto simp: image_iff)

lemma evict_small: "length es \<le> n \<Longrightarrow> evict n es = es"
  by (simp add: evict_def)

lemma length_keys:
  assumes "distinct (map fst es)" "fst ` set es \<subseteq> K" "finite K"
  shows "length es \<le> card K"
proof -
  have "length es = card (fst ` set es)"
    using assms(1) distinct_card[of "map fst es"] by simp
  also have "... \<le> card K" using assms(2,3) by (simp add: card_mono)
  finally show ?thesis .
qed

lemma dropWhile_sorted:
  "sorted (ts :: real list) \<Longrightarrow> dropWhile (\<lambda>t. t \<le> c) ts = filter (\<lambda>t. c < t) ts"
proof (induction ts)
  case (Cons t ts)
  show ?case
  proof (cases "t \<le> c")
    case False
    with Cons.prems have "filter (\<lambda>t. c < t) ts = ts" by (auto intro!: filter_True)
    with False show ?thesis by simp
  qed (use Cons in auto)
qed simp

text \<open>A run of the limiter with the admissions of one key, the latest last.\<close>

type_synonym sliding_call = "real \<times> str \<times> str"

fun admissions :: "nat \<Rightarrow> (str \<Rightarrow> int) \<Rightarrow> (str \<Rightarrow> int) \<Rightarrow> str \<times> str \<Rightarrow> sliding_call list \<Rightarrow> real list \<Rightarrow>
    window_entries \<Rightarrow> real list" where
  "admissions n lims wins k [] hist es = hist"
| "admissions n lims wins k ((t, b, key) # calls) hist es =
    (case sliding_hit n t b key (lims b) (wins b) es of
       (r, es') \<Rightarrow> admissions n lims wins k calls
         (if r = Inr None \<and> (b, key) = k then hist @ [t] else hist) es')"

definition within_limit :: "int \<Rightarrow> int \<Rightarrow> real list \<Rightarrow> bool" where
  "within_limit l w hist \<longleftrightarrow> (\<forall>t \<in> set hist.
     int (length (filter (\<lambda>x. t - real_of_int w < x \<and> x \<le> t) hist)) \<le> l)"

text \<open>The deque of the key holds every admission that a later call may still have to count.\<close>

definition remembers :: "int \<Rightarrow> str \<times> str \<Rightarrow> real \<Rightarrow> real list \<Rightarrow> window_entries \<Rightarrow> bool" where
  "remembers w k now hist es \<longleftrightarrow> sorted hist \<and> (\<forall>t \<in> set hist. t \<le> now) \<and> sorted (entry_of k es) \<and>
     filter (\<lambda>t. now - real_of_int w < t) (entry_of k es) = filter (\<lambda>t. now - real_of_int w < t) hist \<and>
     set (entry_of k es) \<subseteq> set hist"

lemma remembers_later:
  assumes "remembers w k now hist es" "now \<le> t"
  shows "remembers w k t hist es"
proof -
  let ?c = "now - real_of_int w" and ?c' = "t - real_of_int w"
  have split: "filter (\<lambda>x. ?c' < x) xs = filter (\<lambda>x. ?c' < x) (filter (\<lambda>x. ?c < x) xs)" for xs
    unfolding filter_filter using assms(2) by (intro filter_cong) auto
  have "filter (\<lambda>x. ?c' < x) (entry_of k es) = filter (\<lambda>x. ?c' < x) hist"
    unfolding split[of "entry_of k es"] split[of hist] using assms(1) by (simp only: remembers_def)
  moreover have "\<forall>x \<in> set hist. x \<le> t"
    using assms by (auto simp only: remembers_def intro: order_trans)
  ultimately show ?thesis using assms(1) by (simp only: remembers_def)
qed

lemma within_limit_snoc:
  assumes "within_limit l w hist" "\<forall>x \<in> set hist. x \<le> t" "0 < w"
    and "int (length (filter (\<lambda>x. t - real_of_int w < x) hist)) < l"
  shows "within_limit l w (hist @ [t])"
  unfolding within_limit_def
proof
  fix y assume y: "y \<in> set (hist @ [t])"
  show "int (length (filter (\<lambda>x. y - real_of_int w < x \<and> x \<le> y) (hist @ [t]))) \<le> l"
  proof (cases "t \<le> y")
    case True
    with y assms(2) have "y = t" by (auto intro: antisym)
    moreover have "filter (\<lambda>x. t - real_of_int w < x \<and> x \<le> t) hist = filter (\<lambda>x. t - real_of_int w < x) hist"
      using assms(2) by (auto intro!: filter_cong)
    ultimately show ?thesis using assms(4) by simp
  next
    case False
    with y have "y \<in> set hist" by auto
    with assms(1) False show ?thesis by (auto simp: within_limit_def)
  qed
qed

lemma sliding_hit_step:
  assumes "sliding_hit n t b key (lims b) (wins b) es = (r, es')"
    and "distinct (map fst es)" "fst ` set es \<subseteq> K" "finite K" "card K \<le> n" "(b, key) \<in> K"
    and "\<forall>b. 0 < lims b \<and> 0 < wins b"
    and "remembers (wins (fst k)) k now hist es" "within_limit (lims (fst k)) (wins (fst k)) hist" "now \<le> t"
  defines "hist' \<equiv> if r = Inr None \<and> (b, key) = k then hist @ [t] else hist"
  shows "distinct (map fst es') \<and> fst ` set es' \<subseteq> K \<and>
    remembers (wins (fst k)) k t hist' es' \<and> within_limit (lims (fst k)) (wins (fst k)) hist'"
proof -
  let ?ts = "dropWhile (\<lambda>x. x \<le> t - real_of_int (wins b)) (entry_of (b, key) es)"
  have small: "evict n (without (b, key) es @ [((b, key), xs)]) = without (b, key) es @ [((b, key), xs)]" for xs
    by (rule evict_small, rule order_trans[OF length_keys[OF distinct_snoc[OF assms(2)] _ assms(4)]])
      (use assms(3,5,6) in \<open>auto simp: keys_snoc simp del: set_append\<close>)
  define xs where "xs = (if lims b \<le> int (length ?ts) then ?ts else ?ts @ [t])"
  have es': "es' = without (b, key) es @ [((b, key), xs)]"
    and r: "r = Inr None \<longleftrightarrow> \<not> lims b \<le> int (length ?ts)"
    using assms(1) small by (auto simp: sliding_hit_def Let_def xs_def split: list.splits if_splits)
  have keys: "distinct (map fst es') \<and> fst ` set es' \<subseteq> K"
    unfolding es' using distinct_snoc[OF assms(2)] assms(3,6) by (simp only: keys_snoc) simp
  note rem = remembers_later[OF assms(8,10)]
  have "remembers (wins (fst k)) k t hist' es' \<and> within_limit (lims (fst k)) (wins (fst k)) hist'"
  proof (cases "(b, key) = k")
    case False
    then have "entry_of k es' = entry_of k es" by (auto simp: es' entry_of_snoc)
    with False rem assms(9) show ?thesis by (auto simp: hist'_def remembers_def)
  next
    case True
    let ?w = "real_of_int (wins b)"
    from rem have srt: "sorted (entry_of k es)" and le: "\<forall>x \<in> set hist. x \<le> t" and sl: "sorted hist"
      and sub: "set (entry_of k es) \<subseteq> set hist"
      and eq: "filter (\<lambda>x. t - ?w < x) (entry_of k es) = filter (\<lambda>x. t - ?w < x) hist"
      using True by (auto simp: remembers_def)
    have ts: "?ts = filter (\<lambda>x. t - ?w < x) hist"
      using dropWhile_sorted[OF srt] eq True by simp
    have wpos: "0 < wins b" using assms(7) by simp
    have e: "entry_of k es' = xs" using True by (simp add: es' entry_of_snoc)
    have k: "fst k = b" using True by auto
    have srt': "sorted (filter (\<lambda>x. t - ?w < x) hist @ [t])"
      using sl le by (auto simp: sorted_append sorted_wrt_filter)
    show ?thesis
    proof (cases "r = Inr None")
      case False
      with r have "xs = filter (\<lambda>x. t - ?w < x) hist" by (simp add: xs_def ts)
      with False sl le srt' assms(9) show ?thesis
        by (auto simp: remembers_def e k hist'_def sorted_append)
    next
      case adm: True
      with r have "xs = filter (\<lambda>x. t - ?w < x) hist @ [t]" by (simp add: xs_def ts)
      moreover have "within_limit (lims b) (wins b) (hist @ [t])"
        using within_limit_snoc[OF _ le wpos] assms(9) k adm r ts by auto
      ultimately show ?thesis
        using adm True sl le srt' by (auto simp: remembers_def e k hist'_def sorted_append)
    qed
  qed
  with keys show ?thesis by blast
qed

lemma admissions_within:
  assumes "finite K" "card K \<le> n" "\<forall>b. 0 < lims b \<and> 0 < wins b"
  shows "sorted (map fst calls) \<Longrightarrow> snd ` set calls \<subseteq> K \<Longrightarrow> (\<forall>c \<in> set calls. now \<le> fst c) \<Longrightarrow>
    distinct (map fst es) \<Longrightarrow> fst ` set es \<subseteq> K \<Longrightarrow> remembers (wins (fst k)) k now hist es \<Longrightarrow>
    within_limit (lims (fst k)) (wins (fst k)) hist \<Longrightarrow>
    within_limit (lims (fst k)) (wins (fst k)) (admissions n lims wins k calls hist es)"
proof (induction calls arbitrary: now hist es)
  case (Cons c calls)
  obtain t b key where c: "c = (t, b, key)" by (cases c)
  obtain r es' where h: "sliding_hit n t b key (lims b) (wins b) es = (r, es')"
    by (cases "sliding_hit n t b key (lims b) (wins b) es")
  have "(b, key) \<in> K" "now \<le> t" using Cons.prems(2,3) c by auto
  note step = sliding_hit_step[OF h Cons.prems(4,5) assms(1,2) this(1) assms(3) Cons.prems(6,7) this(2)]
  have "within_limit (lims (fst k)) (wins (fst k)) (admissions n lims wins k calls
      (if r = Inr None \<and> (b, key) = k then hist @ [t] else hist) es')"
    using step Cons.prems(1,2) c by (intro Cons.IH[of t]) auto
  then show ?case by (simp add: c h)
qed simp


section \<open>Facts on the requests in flight\<close>

text \<open>The gate and the requests that are inside it: a request enters when the limit lets it, and a
  request inside leaves.\<close>

inductive gate_step :: "int \<Rightarrow> in_flight \<times> str list \<Rightarrow> in_flight \<times> str list \<Rightarrow> bool" for limit where
  entered: "in_flight_enter c limit counts = (True, counts') \<Longrightarrow>
    gate_step limit (counts, inside) (counts', c # inside)"
| refused: "in_flight_enter c limit counts = (False, counts') \<Longrightarrow>
    gate_step limit (counts, inside) (counts', inside)"
| left: "c \<in> set inside \<Longrightarrow> gate_step limit (counts, inside) (in_flight_leave c counts, remove1 c inside)"

inductive_cases gate_stepE: "gate_step limit (counts, inside) s"

definition gate_inv :: "int \<Rightarrow> in_flight \<times> str list \<Rightarrow> bool" where
  "gate_inv limit s \<longleftrightarrow> (\<forall>c. in_flight_count c (fst s) = int (count_list (snd s) c) \<and>
     int (count_list (snd s) c) \<le> max 0 limit \<and> (fst s c = None \<longleftrightarrow> c \<notin> set (snd s)))"

lemma in_flight_count_update [simp]:
  "in_flight_count c (counts(c' \<mapsto> n)) = (if c = c' then n else in_flight_count c counts)"
  "in_flight_count c (counts(c' := None)) = (if c = c' then 0 else in_flight_count c counts)"
  by (simp_all add: in_flight_count_def)

lemma count_list_remove1:
  "count_list (remove1 c xs) c' = count_list xs c' - (if c = c' then 1 else 0)"
  by (induction xs) (auto simp: count_list_0_iff Suc_diff_le)

lemma count_list_pos: "c \<in> set xs \<Longrightarrow> 1 \<le> count_list xs c"
  using count_list_0_iff[of xs c] by linarith

lemma gate_step_inv:
  assumes "gate_inv limit s" and "gate_step limit s s'"
  shows "gate_inv limit s'"
  using assms(2,1)
proof cases
  case (entered c counts counts' inside)
  with assms(1) show ?thesis
    by (auto simp: gate_inv_def in_flight_enter_def Let_def split: if_splits)
next
  case (refused c counts counts' inside)
  with assms(1) show ?thesis by (auto simp: in_flight_enter_def Let_def split: if_splits)
next
  case (left c inside counts)
  have pos: "1 \<le> count_list inside c" by (rule count_list_pos) (rule left(3))
  have n: "in_flight_count c counts = int (count_list inside c)"
    using assms(1) by (simp add: left(1) gate_inv_def)
  have mem: "x \<in> set (remove1 c inside) \<longleftrightarrow>
      (if x = c then 2 \<le> count_list inside c else x \<in> set inside)" for x
    using count_list_0_iff[of "remove1 c inside" x] count_list_remove1[of c inside x] pos
    by (cases "x = c") auto
  have at: "in_flight_count x counts = int (count_list inside x) \<and>
      int (count_list inside x) \<le> max 0 limit \<and> (counts x = None \<longleftrightarrow> x \<notin> set inside)" for x
    using assms(1) by (simp add: left(1) gate_inv_def)
  show ?thesis
    unfolding left(2) gate_inv_def
  proof (intro allI)
    fix x
    show "in_flight_count x (fst (in_flight_leave c counts, remove1 c inside)) =
        int (count_list (snd (in_flight_leave c counts, remove1 c inside)) x) \<and>
      int (count_list (snd (in_flight_leave c counts, remove1 c inside)) x) \<le> max 0 limit \<and>
      (fst (in_flight_leave c counts, remove1 c inside) x = None \<longleftrightarrow>
        x \<notin> set (snd (in_flight_leave c counts, remove1 c inside)))"
      using at[of x] pos n mem[of x]
      by (cases "x = c") (auto simp: in_flight_leave_def Let_def count_list_remove1 of_nat_diff)
  qed
qed

interpretation gate: invariant_system "gate_step limit" "gate_inv limit"
  by unfold_locales (rule gate_step_inv)

lemma gate_start: "gate_inv limit (Map.empty, [])"
  by (simp add: gate_inv_def in_flight_count_def)

section \<open>The properties\<close>

text \<open>C38 (bounds): a fixed window never admits more units than its limit.  Whatever hits of whatever
  buckets and whatever runs of the maintenance purge arrive in the order of their times, the units
  admitted to one bucket and key in one window are at most what the limit leaves above those already
  counted, as long as all hits on the bucket use its limit and its window length: the purge never
  forgives a window that is still open.\<close>

theorem persistent_limit_holds:
  assumes "0 < l" "0 < w" "sorted (map fst es)" "\<forall>e \<in> set es. configured b l w (snd e)"
    and "expiry_ok (b, h, s) w d"
  shows "admitted hm cfg (b, h, s) es d \<le> max 0 (l - spent b h s d)"
  using assms by (rule admitted_bound)

theorem persistent_limit_holds_witness:
  "admitted (\<lambda>k v. v) default_settings (''upload'', ''x'', 0)
     [(0, Hit ''upload'' ''x'' 3 60 2), (1, Purge), (2, Hit ''other'' ''x'' 1 1 1),
      (3, Hit ''upload'' ''x'' 3 60 2)] empty_db \<le> 3"
  using persistent_limit_holds[of 3 60 "[(0, Hit ''upload'' ''x'' 3 60 2), (1, Purge),
      (2, Hit ''other'' ''x'' 1 1 1), (3, Hit ''upload'' ''x'' 3 60 2)]" "''upload''" "''x''" 0 empty_db]
  by (simp add: expiry_ok_def empty_db_def spent_def)

text \<open>The answer of the database limiter.  A configuration that is not positive is an
  error that counts nothing.  Otherwise the units are added to the count of the bucket, key and
  current window and to nothing else, the hit is admitted exactly when the new count is within the
  limit, and the refusal tells a number of seconds between 1 and the window length plus 1 that is the
  smallest after which the window is over.\<close>

theorem persistent_limit_answer:
  fixes now :: time
  assumes "hit_persistent_limit hm cfg now bucket key limit w u d = (r, d')"
  defines "b \<equiv> take 64 bucket" and "h \<equiv> privacy_hash hm cfg key" and "s \<equiv> window_start now w"
  shows "if limit \<le> 0 \<or> w \<le> 0 \<or> u \<le> 0
    then d' = d \<and> r = Inl (RuntimeError ''Rate limit configuration must be positive.'')
    else (\<forall>b' h' s'. spent b' h' s' d' =
            (if (b', h', s') = (b, h, s) then spent b h s d + u else spent b' h' s' d)) \<and>
      (case r of
         Inl e \<Rightarrow> False
       | Inr None \<Rightarrow> spent b h s d' \<le> limit
       | Inr (Some n) \<Rightarrow> limit < spent b h s d' \<and> 1 \<le> n \<and> n \<le> w + 1 \<and>
           s \<le> now \<and> now < s + seconds w \<and>
           s + seconds w < now + seconds n \<and> now + seconds (n - 1) \<le> s + seconds w)"
proof (cases "limit \<le> 0 \<or> w \<le> 0 \<or> u \<le> 0")
  case True
  then show ?thesis using assms(1) by (auto simp: hit_persistent_limit_def)
next
  case False
  then have p: "0 < limit" "0 < w" "0 < u" by auto
  note res = hit_result(1,2)[OF p assms(1), folded b_def h_def s_def]
  note ret = retry_range[OF p(2), of now, folded s_def]
  have own: "spent b h s d' = spent b h s d + u" using res(2)[of b h s] by simp
  have max1: "max 1 ((s + seconds w - now) div 1000000 + 1) = (s + seconds w - now) div 1000000 + 1"
    using ret(1) by simp
  note win = window_start_bounds[OF p(2), of now, folded s_def]
  have "case r of Inl e \<Rightarrow> False | Inr None \<Rightarrow> spent b h s d' \<le> limit
     | Inr (Some n) \<Rightarrow> limit < spent b h s d' \<and> 1 \<le> n \<and> n \<le> w + 1 \<and> s \<le> now \<and> now < s + seconds w \<and>
         s + seconds w < now + seconds n \<and> now + seconds (n - 1) \<le> s + seconds w"
    using res(1) own ret win unfolding max1 by (cases "spent b h s d + u \<le> limit") simp_all
  with False res(2) show ?thesis by simp
qed

theorem persistent_limit_answer_witness:
  "\<exists>d'. hit_persistent_limit (\<lambda>k v. v) default_settings 61500000 ''upload'' ''x'' 3 60 4 empty_db = (Inr (Some 59), d') \<and>
     spent ''upload'' ''x'' 60000000 d' = 4"
proof -
  obtain r d' where h: "hit_persistent_limit (\<lambda>k v. v) default_settings 61500000 ''upload'' ''x'' 3 60 4 empty_db = (r, d')"
    by (cases "hit_persistent_limit (\<lambda>k v. v) default_settings 61500000 ''upload'' ''x'' 3 60 4 empty_db")
  have w: "window_start 61500000 60 = 60000000" by (simp add: window_start_def seconds_def)
  have k: "privacy_hash (\<lambda>k v. v) default_settings ''x'' = ''x''" by (simp add: privacy_hash_def)
  have s: "spent ''upload'' ''x'' 60000000 empty_db = 0" by (simp add: spent_def empty_db_def)
  have "spent ''upload'' ''x'' 60000000 d' = 4"
    using persistent_limit_answer[OF h] by (auto simp: w k s)
  moreover have "r = Inr (Some 59)"
    using hit_result(1)[OF _ _ _ h] by (simp add: w k s seconds_def)
  ultimately show ?thesis using h by blast
qed

text \<open>C39 (bounds): the sliding window.  In a run of calls in the order of their times, with at most as
  many keys as the limiter holds, and with the fixed positive limit and window of each bucket, the
  admissions of a key never exceed the limit of its bucket in any window of time that ends with an
  admission.\<close>

theorem sliding_window_holds:
  assumes "card (snd ` set calls) \<le> n" "\<forall>b. 0 < lims b \<and> 0 < wins b" "sorted (map fst calls)"
  shows "within_limit (lims (fst k)) (wins (fst k)) (admissions n lims wins k calls [] [])"
proof (cases calls)
  case (Cons c cs)
  have "remembers (wins (fst k)) k (fst c) [] []" by (simp add: remembers_def entry_of_def)
  moreover have "\<forall>x \<in> set calls. fst c \<le> fst x" using assms(3) Cons by auto
  ultimately show ?thesis
    using assms by (intro admissions_within[where K = "snd ` set calls" and now = "fst c"])
      (auto simp: within_limit_def)
qed (simp add: within_limit_def)

theorem sliding_window_holds_witness:
  "within_limit 2 60 (admissions 5 (\<lambda>_. 2) (\<lambda>_. 60) (''b'', ''k'')
     [(1, ''b'', ''k''), (2, ''b'', ''k''), (3, ''b'', ''k''), (62, ''b'', ''k'')] [] [])"
  by (rule sliding_window_holds[where lims = "\<lambda>_. 2" and wins = "\<lambda>_. 60", simplified])
    (auto simp: card_insert_if)

text \<open>The requests in flight.  Starting from an empty gate, in every order of requests
  that enter, are refused and leave, the counter of a category is the number of its requests inside,
  it never exceeds the limit, and the dictionary holds no category without a request inside.\<close>

theorem in_flight_bounded:
  assumes "rtranclp (gate_step limit) (Map.empty, []) (counts, inside)"
  shows "in_flight_count c counts = int (count_list inside c) \<and>
    in_flight_count c counts \<le> max 0 limit \<and> (counts c = None \<longleftrightarrow> c \<notin> set inside)"
  using gate.run_inv[OF assms gate_start] by (auto simp: gate_inv_def)

theorem in_flight_bounded_witness:
  "\<exists>counts. rtranclp (gate_step 1) (Map.empty, []) (counts, [''search'']) \<and>
     in_flight_count ''search'' counts \<le> 1"
proof -
  have "gate_step 1 (Map.empty, []) ([''search'' \<mapsto> 1], [''search''])"
    by (rule gate_step.entered) (simp add: in_flight_enter_def in_flight_count_def)
  then have r: "rtranclp (gate_step 1) (Map.empty, []) ([''search'' \<mapsto> 1], [''search''])" by simp
  show ?thesis using r in_flight_bounded[OF r, of "''search''"] by (intro exI[of _ "[''search'' \<mapsto> 1]"]) simp
qed

end
