(* ===== verification/WebSecurity.thy ===== *)
theory WebSecurity
  imports Settings TextFormat
begin

text \<open>
  The configuration checks and the cross-site request protection of
  \<^verbatim>\<open>backend/app/web_security.py\<close>, with \<^verbatim>\<open>urllib.parse.urlsplit\<close> on ASCII text.  A bracketed host is
  checked by the standard library's \<^verbatim>\<open>ipaddress\<close>: that check is the argument \<^verbatim>\<open>bracketed_ok\<close>.
\<close>

section \<open>Environments\<close>

definition PRODUCTION_ENVIRONMENTS :: "str list" where
  "PRODUCTION_ENVIRONMENTS = [''production'', ''prod'', ''staging'']"

definition KNOWN_ENVIRONMENTS :: "str list" where
  "KNOWN_ENVIRONMENTS = PRODUCTION_ENVIRONMENTS @ [''development'', ''dev'', ''test'']"

definition CSRF_COOKIE :: str where
  "CSRF_COOKIE = ''raceframe_csrf''"

definition VISITOR_COOKIE :: str where
  "VISITOR_COOKIE = ''raceframe_visitor''"

definition SAFE_METHODS :: "str list" where
  "SAFE_METHODS = [''GET'', ''HEAD'', ''OPTIONS'']"

definition is_production :: "settings \<Rightarrow> bool" where
  "is_production cfg \<longleftrightarrow> environment cfg \<in> set PRODUCTION_ENVIRONMENTS"

text \<open>\<^verbatim>\<open>and\<close> binds stronger than \<^verbatim>\<open>or\<close>.\<close>

definition secure_cookies :: "settings \<Rightarrow> bool" where
  "secure_cookies cfg \<longleftrightarrow> is_production cfg \<or>
     (public_origins cfg \<noteq> [] \<and> (\<forall>origin \<in> set (public_origins cfg). startswith (lower origin) ''https://''))"

section \<open>Splitting URLs\<close>

record split_url =
  su_scheme :: str
  su_netloc :: str
  su_path :: str
  su_query :: str
  su_fragment :: str

text \<open>\<^verbatim>\<open>str.partition\<close> and \<^verbatim>\<open>str.rpartition\<close> at one character: what precedes it, whether it occurs, and
  what follows it.\<close>

definition partition_at :: "char \<Rightarrow> str \<Rightarrow> str \<times> bool \<times> str" where
  "partition_at c s =
    (let w = takeWhile (\<lambda>x. x \<noteq> c) s
     in (w, c \<in> set s, drop (length w + 1) s))"

definition rpartition_at :: "char \<Rightarrow> str \<Rightarrow> str \<times> bool \<times> str" where
  "rpartition_at c s =
    (case partition_at c (rev s) of
       (after, found, before) \<Rightarrow> if found then (rev before, True, rev after) else ([], False, s))"

definition scheme_char :: "char \<Rightarrow> bool" where
  "scheme_char c \<longleftrightarrow> is_alnum c \<or> c \<in> {CHR ''+'', CHR ''-'', CHR ''.''}"

definition split_scheme :: "str \<Rightarrow> str \<times> str" where
  "split_scheme url =
    (case partition_at CHR '':'' url of
       (before, found, after) \<Rightarrow>
         if found \<and> before \<noteq> [] \<and> (is_upper (hd before) \<or> is_lower (hd before)) \<and> (\<forall>c \<in> set before. scheme_char c)
         then (lower before, after) else ([], url))"

definition split_netloc :: "str \<Rightarrow> str \<times> str" where
  "split_netloc url =
    (if startswith url ''//''
     then (let rest = drop 2 url; n = takeWhile (\<lambda>c. c \<notin> {CHR ''/'', CHR ''?'', CHR ''#''}) rest
           in (n, drop (length n) rest))
     else ([], url))"

definition unsafe_url_char :: "char \<Rightarrow> bool" where
  "unsafe_url_char c \<longleftrightarrow> char_code c \<in> {9, 10, 13}"

definition urlsplit :: "(str \<Rightarrow> bool) \<Rightarrow> str \<Rightarrow> split_url option" where
  "urlsplit bracketed_ok value =
    (let url = filter (\<lambda>c. \<not> unsafe_url_char c) (dropWhile (\<lambda>c. char_code c \<le> 32) value) in
     case split_scheme url of (scheme, url1) \<Rightarrow>
     case split_netloc url1 of (netloc, url2) \<Rightarrow>
       (let has_open = (CHR ''['' \<in> set netloc); has_close = (CHR '']'' \<in> set netloc);
            host = fst (partition_at CHR '']'' (snd (snd (partition_at CHR ''['' netloc))))
        in if has_open \<noteq> has_close then None
           else if has_open \<and> \<not> bracketed_ok host then None
           else
             case partition_at CHR ''#'' url2 of (url3, _, fragment) \<Rightarrow>
             case partition_at CHR ''?'' url3 of (path, _, query) \<Rightarrow>
               Some \<lparr>su_scheme = scheme, su_netloc = netloc, su_path = path, su_query = query,
                     su_fragment = fragment\<rparr>))"

definition userinfo :: "split_url \<Rightarrow> str option \<times> str option" where
  "userinfo u =
    (case rpartition_at CHR ''@'' (su_netloc u) of
       (info, found, _) \<Rightarrow>
         if found
         then (case partition_at CHR '':'' info of
                 (user, has_password, password) \<Rightarrow> (Some user, if has_password then Some password else None))
         else (None, None))"

definition username :: "split_url \<Rightarrow> str option" where
  "username u = fst (userinfo u)"

definition password :: "split_url \<Rightarrow> str option" where
  "password u = snd (userinfo u)"

definition hostinfo :: "split_url \<Rightarrow> str \<times> str option" where
  "hostinfo u =
    (case rpartition_at CHR ''@'' (su_netloc u) of (_, _, info) \<Rightarrow>
     case partition_at CHR ''['' info of (_, bracket, bracketed) \<Rightarrow>
       (let (hostname, port) =
              (if bracket
               then (case partition_at CHR '']'' bracketed of
                       (h, _, p) \<Rightarrow> (h, snd (snd (partition_at CHR '':'' p))))
               else (case partition_at CHR '':'' info of (h, _, p) \<Rightarrow> (h, p)))
        in (hostname, if port = [] then None else Some port)))"

definition hostname :: "split_url \<Rightarrow> str option" where
  "hostname u =
    (let h = fst (hostinfo u) in
     if h = [] then None
     else case partition_at CHR ''%'' h of
       (name, percent, zone) \<Rightarrow> Some (lower name @ (if percent then ''%'' @ zone else [])))"

definition digits_value :: "str \<Rightarrow> nat" where
  "digits_value ds = foldl (\<lambda>n c. n * 10 + (char_code c - 48)) 0 ds"

text \<open>\<^verbatim>\<open>parsed.port\<close>: an error for a port that is not a number up to 65535.\<close>

definition port :: "split_url \<Rightarrow> int option result" where
  "port u =
    (case snd (hostinfo u) of
       None \<Rightarrow> Inr None
     | Some p \<Rightarrow>
         if \<forall>c \<in> set p. is_digit c
         then (if digits_value p \<le> 65535 then Inr (Some (int (digits_value p)))
               else Inl (ValueError ''Port out of range 0-65535''))
         else Inl (ValueError ''Port could not be cast to integer value''))"

definition present :: "str option \<Rightarrow> bool" where
  "present x \<longleftrightarrow> x \<noteq> None \<and> x \<noteq> Some []"

section \<open>Refusing an unsafe production configuration\<close>

definition origin_problem :: "(str \<Rightarrow> bool) \<Rightarrow> settings \<Rightarrow> str \<Rightarrow> str option result" where
  "origin_problem bracketed_ok cfg origin =
    (case urlsplit bracketed_ok origin of
       None \<Rightarrow> Inl (ValueError ''Invalid IPv6 URL'')
     | Some parsed \<Rightarrow>
         if su_scheme parsed \<noteq> ''https'' \<or> hostname parsed = None \<or> su_path parsed \<notin> {[], ''/''} \<or>
            su_query parsed \<noteq> [] \<or> su_fragment parsed \<noteq> [] \<or> present (username parsed) \<or>
            present (password parsed)
         then Inr (Some (''PUBLIC_ORIGINS contains an invalid production origin: '' @ origin))
         else (case hostname parsed of
                 None \<Rightarrow> Inr None
               | Some h \<Rightarrow>
                   if lower h \<notin> set (map lower (allowed_hosts cfg))
                   then Inr (Some (''PUBLIC_ORIGINS host is missing from ALLOWED_HOSTS: '' @ h))
                   else Inr None))"

fun origin_problems :: "(str \<Rightarrow> bool) \<Rightarrow> settings \<Rightarrow> str list \<Rightarrow> str list result" where
  "origin_problems bracketed_ok cfg [] = Inr []"
| "origin_problems bracketed_ok cfg (origin # origins) =
    (case origin_problem bracketed_ok cfg origin of
       Inl e \<Rightarrow> Inl e
     | Inr p \<Rightarrow>
         (case origin_problems bracketed_ok cfg origins of
            Inl e \<Rightarrow> Inl e
          | Inr ps \<Rightarrow> Inr (case p of None \<Rightarrow> ps | Some x \<Rightarrow> x # ps)))"

definition problem_if :: "bool \<Rightarrow> str \<Rightarrow> str list" where
  "problem_if b m = (if b then [m] else [])"

definition missing_r2 :: "settings \<Rightarrow> str list" where
  "missing_r2 cfg = map fst (filter (\<lambda>(name, value). value = [])
     [(''CLOUDFLARE_R2_ACCOUNT_ID'', r2_account_id cfg),
      (''CLOUDFLARE_R2_BUCKET_NAME'', r2_bucket_name cfg),
      (''CLOUDFLARE_R2_ENDPOINT'', r2_endpoint cfg),
      (''CLOUDFLARE_R2_ACCESS_KEY_ID'', r2_access_key_id cfg),
      (''CLOUDFLARE_R2_SECRET_ACCESS_KEY'', r2_secret_access_key cfg)])"

definition positive_limits :: "settings \<Rightarrow> (str \<times> int) list" where
  "positive_limits cfg =
     [(''MAX_PHOTO_UPLOAD_BYTES'', max_photo_upload_bytes cfg),
      (''MAX_SELFIE_UPLOAD_BYTES'', max_selfie_upload_bytes cfg),
      (''MAX_PHOTO_BATCH_FILES'', max_photo_batch_files cfg),
      (''MAX_SELFIE_BATCH_FILES'', max_selfie_batch_files cfg),
      (''MAX_FACE_SEARCH_BACKLOG'', max_face_search_backlog cfg),
      (''MAX_PHOTO_JOB_BACKLOG'', max_photo_job_backlog cfg),
      (''SEARCH_CAPABILITY_TTL_SECONDS'', search_capability_ttl_seconds cfg),
      (''MAX_PHOTO_REQUEST_BYTES'', max_photo_request_bytes cfg),
      (''MAX_FORM_REQUEST_BYTES'', max_form_request_bytes cfg),
      (''WORKER_HEARTBEAT_STALE_SECONDS'', worker_heartbeat_stale_seconds cfg),
      (''WORKER_LEASE_SECONDS'', worker_lease_seconds cfg),
      (''WORKER_MAX_ATTEMPTS'', worker_max_attempts cfg),
      (''WORKER_RETRY_BASE_SECONDS'', worker_retry_base_seconds cfg),
      (''WORKER_RETRY_MAX_SECONDS'', worker_retry_max_seconds cfg),
      (''DELETION_TASK_RETENTION_DAYS'', deletion_task_retention_days cfg),
      (''WORKER_HEARTBEAT_RETENTION_DAYS'', worker_heartbeat_retention_days cfg)]"

definition unsafe_host :: "str \<Rightarrow> bool" where
  "unsafe_host host \<longleftrightarrow> contains host ''*'' \<or> contains host ''://'' \<or> contains host ''/''"

definition problems_before_origins :: "settings \<Rightarrow> str list" where
  "problems_before_origins cfg =
     problem_if (startswith (lower (database_url cfg)) ''sqlite'')
       ''DATABASE_URL must use a production database, not SQLite'' @
     problem_if (length (app_secret_key cfg) < 32) ''RACEFRAME_SECRET_KEY must contain at least 32 bytes'' @
     problem_if (length (worker_api_token cfg) < 32) ''WORKER_API_TOKEN must contain at least 32 bytes'' @
     problem_if (length (metrics_api_token cfg) < 32) ''METRICS_API_TOKEN must contain at least 32 bytes'' @
     problem_if (allowed_hosts cfg = [] \<or> (\<exists>host \<in> set (allowed_hosts cfg). unsafe_host host))
       ''ALLOWED_HOSTS must contain explicit hostnames'' @
     problem_if (public_origins cfg = []) ''PUBLIC_ORIGINS must contain the public HTTPS origin''"

definition problems_after_origins :: "settings \<Rightarrow> str list" where
  "problems_after_origins cfg =
     problem_if (missing_r2 cfg \<noteq> []) (''R2 configuration is incomplete: '' @ join '', '' (missing_r2 cfg)) @
     problem_if (r2_endpoint cfg \<noteq> [] \<and> \<not> startswith (lower (r2_endpoint cfg)) ''https://'')
       ''CLOUDFLARE_R2_ENDPOINT must use HTTPS'' @
     map (\<lambda>(name, value). name @ '' must be positive'')
       (filter (\<lambda>(name, value). value \<le> 0) (positive_limits cfg)) @
     problem_if (\<not> (30 \<le> worker_lease_seconds cfg \<and> worker_lease_seconds cfg \<le> 3600))
       ''WORKER_LEASE_SECONDS must be between 30 and 3600'' @
     problem_if (\<not> (1 \<le> worker_max_attempts cfg \<and> worker_max_attempts cfg \<le> 20))
       ''WORKER_MAX_ATTEMPTS must be between 1 and 20'' @
     problem_if (\<not> (1 \<le> worker_retry_base_seconds cfg \<and> worker_retry_base_seconds cfg \<le> 3600))
       ''WORKER_RETRY_BASE_SECONDS must be between 1 and 3600'' @
     problem_if (\<not> (worker_retry_base_seconds cfg \<le> worker_retry_max_seconds cfg \<and>
         worker_retry_max_seconds cfg \<le> 86400))
       ''WORKER_RETRY_MAX_SECONDS must be between the retry base and 86400''"

text \<open>The message quotes the values it names as they are, where Python prints their \<^verbatim>\<open>repr\<close>.\<close>

definition validate_production_configuration :: "(str \<Rightarrow> bool) \<Rightarrow> settings \<Rightarrow> unit result" where
  "validate_production_configuration bracketed_ok cfg =
    (if environment cfg \<notin> set KNOWN_ENVIRONMENTS
     then Inl (RuntimeError (''Unknown APP_ENV value: '' @ environment cfg))
     else if \<not> is_production cfg
     then (if \<not> startswith (lower (database_url cfg)) ''sqlite'' \<and> r2_bucket_name cfg \<noteq> [] \<and>
              environment cfg \<in> {''development'', ''dev''}
           then Inl (RuntimeError ''APP_ENV must explicitly identify a deployed environment.'')
           else Inr ())
     else
       case origin_problems bracketed_ok cfg (public_origins cfg) of
         Inl e \<Rightarrow> Inl e
       | Inr ps \<Rightarrow>
           (let problems = problems_before_origins cfg @ ps @ problems_after_origins cfg
            in if problems \<noteq> []
               then Inl (RuntimeError (''Unsafe production configuration:'' @ [CHR 10] @ ''- '' @
                      join ([CHR 10] @ ''- '') problems))
               else Inr ()))"

section \<open>Origins and the double-submit token\<close>

definition normalized_origin :: "(str \<Rightarrow> bool) \<Rightarrow> str \<Rightarrow> str option" where
  "normalized_origin bracketed_ok value =
    (case urlsplit bracketed_ok value of
       None \<Rightarrow> None
     | Some parsed \<Rightarrow>
         (case hostname parsed of
            None \<Rightarrow> None
          | Some h \<Rightarrow>
              if su_scheme parsed \<notin> {''http'', ''https''} \<or> present (username parsed) \<or> present (password parsed)
              then None
              else
                let default_port = (if su_scheme parsed = ''http'' then 80 else 443) in
                case port parsed of
                  Inl _ \<Rightarrow> None
                | Inr p \<Rightarrow>
                    let q = (case p of None \<Rightarrow> default_port | Some n \<Rightarrow> if n = 0 then default_port else n)
                    in Some (su_scheme parsed @ ''://'' @ lower h @
                         (if q = default_port then [] else '':'' @ int_str q))))"

text \<open>What the checks read of a request: its method and path, the headers by lower-case name, the
  cookies, the scheme of its URL and the address of the peer.\<close>

record request =
  rq_method :: str
  rq_path :: str
  rq_headers :: "str \<rightharpoonup> str"
  rq_cookies :: "str \<rightharpoonup> str"
  rq_scheme :: str
  rq_client :: "str option"

definition header :: "request \<Rightarrow> str \<Rightarrow> str" where
  "header rq name = (case rq_headers rq name of None \<Rightarrow> [] | Some v \<Rightarrow> v)"

definition cookie :: "request \<Rightarrow> str \<Rightarrow> str" where
  "cookie rq name = (case rq_cookies rq name of None \<Rightarrow> [] | Some v \<Rightarrow> v)"

definition allowed_origins :: "(str \<Rightarrow> bool) \<Rightarrow> settings \<Rightarrow> request \<Rightarrow> str list" where
  "allowed_origins bracketed_ok cfg rq =
     List.map_filter (normalized_origin bracketed_ok) (public_origins cfg) @
     (if \<not> is_production cfg \<and> header rq ''host'' \<noteq> []
      then [rq_scheme rq @ ''://'' @ lower (header rq ''host'')] else [])"

text \<open>\<^verbatim>\<open>headers.get("origin") or headers.get("referer")\<close>: an empty origin counts as absent, an empty
  referer does not.\<close>

definition origin_source :: "request \<Rightarrow> str option" where
  "origin_source rq = (if header rq ''origin'' \<noteq> [] then Some (header rq ''origin'')
     else rq_headers rq ''referer'')"

definition request_origin_is_allowed :: "(str \<Rightarrow> bool) \<Rightarrow> settings \<Rightarrow> request \<Rightarrow> bool" where
  "request_origin_is_allowed bracketed_ok cfg rq =
    (case origin_source rq of
       None \<Rightarrow> True
     | Some source \<Rightarrow>
         (case normalized_origin bracketed_ok source of
            None \<Rightarrow> False
          | Some supplied \<Rightarrow> supplied \<in> set (allowed_origins bracketed_ok cfg rq)))"

definition require_browser_csrf ::
    "(str \<Rightarrow> bool) \<Rightarrow> settings \<Rightarrow> str option \<Rightarrow> str option \<Rightarrow> request \<Rightarrow> unit result" where
  "require_browser_csrf bracketed_ok cfg csrf_token x_csrf_token rq =
    (if upper (rq_method rq) \<in> set SAFE_METHODS then Inr ()
     else
       let expected = cookie rq CSRF_COOKIE;
           supplied = or_text x_csrf_token (or_text csrf_token [])
       in if expected = [] \<or> supplied = [] \<or> expected \<noteq> supplied
          then Inl (HTTPException 403 ''Invalid or missing CSRF token.'')
          else if \<not> request_origin_is_allowed bracketed_ok cfg rq
          then Inl (HTTPException 403 ''Request origin is not allowed.'')
          else Inr ())"

section \<open>Splitting at a character\<close>

lemma partition_at_join:
  "c \<notin> set s \<Longrightarrow> partition_at c (s @ c # t) = (s, True, t)"
proof -
  assume "c \<notin> set s"
  then have "takeWhile (\<lambda>x. x \<noteq> c) (s @ c # t) = s" by (auto simp: takeWhile_tail)
  then show ?thesis by (simp add: partition_at_def)
qed

lemma partition_at_split:
  assumes "partition_at c s = (w, True, t)"
  shows "s = w @ c # t"
proof -
  have "c \<in> set s \<Longrightarrow> s = takeWhile (\<lambda>x. x \<noteq> c) s @ c # drop (Suc (length (takeWhile (\<lambda>x. x \<noteq> c) s))) s"
    by (induction s) auto
  with assms show ?thesis by (auto simp: partition_at_def Let_def)
qed

end
