(* ===== verification/WebSecurityFacts.thy ===== *)
theory WebSecurityFacts
  imports WebSecurity
begin

text \<open>
  What a production configuration that boots guarantees, and what the cross-site protection lets
  through under it.
\<close>

section \<open>A configuration that boots\<close>

lemma problem_if_Nil [simp]: "problem_if b m = [] \<longleftrightarrow> \<not> b"
  by (simp add: problem_if_def)

lemma validate_ok_production:
  assumes "validate_production_configuration bok cfg = Inr ()" "is_production cfg"
  shows "problems_before_origins cfg = []" "problems_after_origins cfg = []"
    "origin_problems bok cfg (public_origins cfg) = Inr []"
proof -
  have "environment cfg \<in> set KNOWN_ENVIRONMENTS"
    using assms(2) by (auto simp: is_production_def KNOWN_ENVIRONMENTS_def)
  then obtain ps where ps: "origin_problems bok cfg (public_origins cfg) = Inr ps"
    and e: "problems_before_origins cfg @ ps @ problems_after_origins cfg = []"
    using assms by (auto simp: validate_production_configuration_def Let_def split: sum.splits if_splits)
  from e show "problems_before_origins cfg = []" "problems_after_origins cfg = []" by simp_all
  from ps e show "origin_problems bok cfg (public_origins cfg) = Inr []" by simp
qed

lemma origin_problems_Nil:
  "origin_problems bok cfg os = Inr [] \<Longrightarrow> origin \<in> set os \<Longrightarrow> origin_problem bok cfg origin = Inr None"
  by (induction os) (auto split: sum.splits option.splits)

lemma origin_ok:
  assumes "origin_problem bok cfg origin = Inr None"
  obtains u h where "urlsplit bok origin = Some u" "su_scheme u = ''https''" "hostname u = Some h"
    "lower h \<in> set (map lower (allowed_hosts cfg))"
  using assms by (auto simp: origin_problem_def split: option.splits if_splits)

section \<open>The host of an origin\<close>

lemma partition_at_no: "c \<notin> set (fst (partition_at c s))"
  by (auto simp: partition_at_def Let_def dest: set_takeWhileD)

lemma partition_at_sub:
  "set (fst (partition_at c s)) \<subseteq> set s" "set (snd (snd (partition_at c s))) \<subseteq> set s"
  by (auto simp: partition_at_def Let_def dest: set_takeWhileD in_set_dropD)

lemma rpartition_at_sub: "set (snd (snd (rpartition_at c s))) \<subseteq> set s"
proof -
  obtain a f b where p: "partition_at c (rev s) = (a, f, b)" by (metis prod_cases3)
  then have "set a \<subseteq> set s" using partition_at_sub(1)[of c "rev s"] by simp
  then show ?thesis by (simp add: rpartition_at_def p)
qed

lemma hostinfo_plain:
  assumes "CHR ''['' \<notin> set (su_netloc u)"
  shows "CHR '':'' \<notin> set (fst (hostinfo u))"
proof -
  obtain i f info where i: "rpartition_at CHR ''@'' (su_netloc u) = (i, f, info)" by (metis prod_cases3)
  obtain b br bracketed where b: "partition_at CHR ''['' info = (b, br, bracketed)" by (metis prod_cases3)
  obtain h s p where h: "partition_at CHR '':'' info = (h, s, p)" by (metis prod_cases3)
  have "CHR ''['' \<notin> set info" using rpartition_at_sub[of "CHR ''@''" "su_netloc u"] assms i by auto
  then have "\<not> br" using b by (auto simp: partition_at_def Let_def)
  moreover have "CHR '':'' \<notin> set h" using partition_at_no[of "CHR '':''" info] h by simp
  ultimately show ?thesis by (simp add: hostinfo_def i b h)
qed

lemma lower_char_colon [simp]: "lower_char c = CHR '':'' \<longleftrightarrow> c = CHR '':''"
proof -
  have "is_upper c \<Longrightarrow> char_code (lower_char c) = char_code c + 32"
    by (simp add: lower_char_def char_code_def is_upper_def)
  moreover have "char_code CHR '':'' = 58" by (simp add: char_code_def)
  ultimately show ?thesis
    by (cases "is_upper c") (auto simp: is_upper_def lower_char_def dest: arg_cong[of _ _ char_code])
qed

lemma colon_in_lower [simp]: "CHR '':'' \<in> set (lower s) \<longleftrightarrow> CHR '':'' \<in> set s"
  by (induction s) (auto simp: lower_def eq_commute[of "CHR '':''"])

lemma hostname_plain:
  assumes "CHR ''['' \<notin> set (su_netloc u)" "hostname u = Some h"
  shows "CHR '':'' \<notin> set (lower h)"
proof -
  have "CHR '':'' \<notin> set (fst (hostinfo u))" by (rule hostinfo_plain) (rule assms(1))
  moreover obtain name percent zone where p: "partition_at CHR ''%'' (fst (hostinfo u)) = (name, percent, zone)"
    by (metis prod_cases3)
  moreover have "set name \<subseteq> set (fst (hostinfo u))" "set zone \<subseteq> set (fst (hostinfo u))"
    using partition_at_sub[of "CHR ''%''" "fst (hostinfo u)"] p by simp_all
  ultimately have "CHR '':'' \<notin> set (lower name)" "CHR '':'' \<notin> set zone" by auto
  moreover have "h = lower name @ (if percent then ''%'' @ zone else [])"
    using assms(2) p by (auto simp: hostname_def Let_def split: if_splits)
  ultimately show ?thesis by auto
qed

lemma takeWhile_colon:
  "CHR '':'' \<notin> set h \<Longrightarrow> takeWhile (\<lambda>c. c \<noteq> CHR '':'') (h @ (if b then [] else '':'' @ x)) = h"
  by (auto intro: takeWhile_eq_all_conv[THEN iffD2] simp: takeWhile_append)

lemma if_None_Some: "(if P then None else Some x) = Some y \<Longrightarrow> y = x"
  by (simp split: if_splits)

lemma normalized_origin_split:
  assumes "normalized_origin bok s = Some n"
  obtains u h b p where "urlsplit bok s = Some u" "hostname u = Some h"
    "su_scheme u \<in> {''http'', ''https''}" "n = su_scheme u @ ''://'' @ lower h @ (if b then [] else '':'' @ p)"
proof -
  obtain u where u: "urlsplit bok s = Some u"
    using assms by (auto simp: normalized_origin_def split: option.splits)
  obtain h where h: "hostname u = Some h"
    using assms u by (auto simp: normalized_origin_def split: option.splits)
  have sc: "su_scheme u \<in> {''http'', ''https''}"
    using assms u h by (auto simp: normalized_origin_def split: if_splits)
  obtain q where "port u = Inr q"
    using assms u h by (auto simp: normalized_origin_def Let_def split: if_splits sum.splits)
  then have q: "port u = Inr q" .
  let ?d = "if su_scheme u = ''http'' then 80 else 443 :: int"
  let ?q = "case q of None \<Rightarrow> ?d | Some n \<Rightarrow> if n = 0 then ?d else n"
  let ?no = "su_scheme u \<notin> {''http'', ''https''} \<or> present (username u) \<or> present (password u)"
  have "(if ?no then None else Some (su_scheme u @ ''://'' @ lower h @
      (if ?q = ?d then [] else '':'' @ int_str ?q))) = Some n"
    using assms by (simp only: normalized_origin_def u h q option.case sum.case Let_def)
  then have "n = su_scheme u @ ''://'' @ lower h @ (if ?q = ?d then [] else '':'' @ int_str ?q)"
    by (rule if_None_Some)
  then show thesis by (rule that[OF u h sc])
qed

lemma urlsplit_netloc_sub:
  assumes "urlsplit bok s = Some u"
  shows "set (su_netloc u) \<subseteq> set s"
proof -
  let ?url = "filter (\<lambda>c. \<not> unsafe_url_char c) (dropWhile (\<lambda>c. char_code c \<le> 32) s)"
  obtain sc url1 where 1: "split_scheme ?url = (sc, url1)" by (cases "split_scheme ?url")
  obtain nl url2 where 2: "split_netloc url1 = (nl, url2)" by (cases "split_netloc url1")
  have "set url1 \<subseteq> set ?url"
    using 1 partition_at_sub(2)[of "CHR '':''" ?url]
    by (auto simp: split_scheme_def split: prod.splits if_splits)
  moreover have "set nl \<subseteq> set url1"
    using 2 by (auto simp: split_netloc_def Let_def dest!: set_takeWhileD in_set_dropD split: if_splits)
  moreover have "set ?url \<subseteq> set s" by (auto dest: set_dropWhileD)
  moreover have "su_netloc u = nl"
    using assms by (auto simp: urlsplit_def 1 2 Let_def split: if_splits prod.splits)
  ultimately show ?thesis by blast
qed

lemma same_origin:
  assumes "normalized_origin bok s = Some n" "normalized_origin bok t = Some n"
    and "urlsplit bok s = Some u" "urlsplit bok t = Some v" "hostname u = Some h" "hostname v = Some k"
    and "CHR ''['' \<notin> set s" "CHR ''['' \<notin> set t"
  shows "lower h = lower k"
proof -
  obtain b p where s: "n = su_scheme u @ ''://'' @ lower h @ (if b then [] else '':'' @ p)"
      "su_scheme u \<in> {''http'', ''https''}"
    using assms(1,3,5) by (auto elim!: normalized_origin_split)
  obtain b' p' where t: "n = su_scheme v @ ''://'' @ lower k @ (if b' then [] else '':'' @ p')"
      "su_scheme v \<in> {''http'', ''https''}"
    using assms(2,4,6) by (auto elim!: normalized_origin_split)
  from s t have e: "lower h @ (if b then [] else '':'' @ p) = lower k @ (if b' then [] else '':'' @ p')"
    by (elim insertE emptyE) simp_all
  have "CHR '':'' \<notin> set (lower h)" "CHR '':'' \<notin> set (lower k)"
    using hostname_plain[OF _ assms(5)] hostname_plain[OF _ assms(6)] urlsplit_netloc_sub[OF assms(3)]
      urlsplit_netloc_sub[OF assms(4)] assms(7,8) by blast+
  then show ?thesis using takeWhile_colon e by metis
qed

lemma same_scheme:
  assumes "normalized_origin bok s = Some n" "normalized_origin bok t = Some n"
    and "urlsplit bok s = Some u" "urlsplit bok t = Some v"
  shows "su_scheme u = su_scheme v"
proof -
  obtain x where s: "n = su_scheme u @ ''://'' @ x" "su_scheme u \<in> {''http'', ''https''}"
    using assms(1,3) by (auto elim!: normalized_origin_split)
  obtain y where t: "n = su_scheme v @ ''://'' @ y" "su_scheme v \<in> {''http'', ''https''}"
    using assms(2,4) by (auto elim!: normalized_origin_split)
  from s t show ?thesis by (elim insertE emptyE) simp_all
qed


section \<open>The properties\<close>

definition demo_production :: settings where
  "demo_production = default_settings\<lparr>environment := ''production'', app_secret_key := replicate 32 CHR ''k'',
     worker_api_token := replicate 32 CHR ''w'', metrics_api_token := replicate 32 CHR ''m'',
     database_url := ''postgresql://db/raceframe'', allowed_hosts := [''race.example''],
     public_origins := [''https://race.example''], r2_account_id := ''a'', r2_bucket_name := ''b'',
     r2_endpoint := ''https://r2.example'', r2_access_key_id := ''i'', r2_secret_access_key := ''s''\<rparr>"

lemma demo_production_valid: "validate_production_configuration (\<lambda>_. False) demo_production = Inr ()"
  by code_simp

lemma demo_production_is: "is_production demo_production"
  by code_simp



text \<open>C35 (safety): cross-site requests in production.  When the process booted with a valid production
  configuration without bracketed hosts, a request with an unsafe method that the guard accepts
  carries the token of its cookie, and if it names its source at all, by an origin or a referer, then
  that source is a URL with scheme HTTPS whose normalised origin is that of a public origin, and its
  host, when it is not bracketed, is an allowed host.\<close>

theorem cross_site_requests_refused:
  assumes "validate_production_configuration bok cfg = Inr ()" "is_production cfg"
    and "\<forall>origin \<in> set (public_origins cfg). CHR ''['' \<notin> set origin"
    and "upper (rq_method rq) \<notin> set SAFE_METHODS"
    and "require_browser_csrf bok cfg form_token header_token rq = Inr ()"
  shows "cookie rq CSRF_COOKIE \<noteq> [] \<and> cookie rq CSRF_COOKIE = or_text header_token (or_text form_token []) \<and>
    (case origin_source rq of
       None \<Rightarrow> header rq ''origin'' = [] \<and> rq_headers rq ''referer'' = None
     | Some source \<Rightarrow> \<exists>u h. urlsplit bok source = Some u \<and> su_scheme u = ''https'' \<and> hostname u = Some h \<and>
         normalized_origin bok source \<in> normalized_origin bok ` set (public_origins cfg) \<and>
         (CHR ''['' \<notin> set source \<longrightarrow> lower h \<in> set (map lower (allowed_hosts cfg))))"
proof -
  note ok = validate_ok_production[OF assms(1,2)]
  have tok: "cookie rq CSRF_COOKIE \<noteq> []" "cookie rq CSRF_COOKIE = or_text header_token (or_text form_token [])"
    and org: "request_origin_is_allowed bok cfg rq"
    using assms(4,5) by (auto simp: require_browser_csrf_def Let_def split: if_splits)
  show ?thesis
  proof (cases "origin_source rq")
    case None
    then have "header rq ''origin'' = []" "rq_headers rq ''referer'' = None"
      by (simp_all add: origin_source_def split: if_splits)
    with None tok show ?thesis by simp
  next
    case (Some source)
    then obtain n where n: "normalized_origin bok source = Some n" "n \<in> set (allowed_origins bok cfg rq)"
      using org by (auto simp: request_origin_is_allowed_def split: option.splits)
    then have "n \<in> set (List.map_filter (normalized_origin bok) (public_origins cfg))"
      using assms(2) by (simp add: allowed_origins_def)
    then obtain p where p: "p \<in> set (public_origins cfg)" "normalized_origin bok p = Some n"
      by (auto simp: map_filter_def)
    obtain v k where v: "urlsplit bok p = Some v" "su_scheme v = ''https''" "hostname v = Some k"
      "lower k \<in> set (map lower (allowed_hosts cfg))"
      by (rule origin_ok[OF origin_problems_Nil[OF ok(3) p(1)]])
    obtain u h b q where u: "urlsplit bok source = Some u" "hostname u = Some h"
      using n(1) by (rule normalized_origin_split)
    have sc: "su_scheme u = ''https''" using same_scheme[OF n(1) p(2) u(1) v(1)] v(2) by simp
    have im: "normalized_origin bok source \<in> normalized_origin bok ` set (public_origins cfg)"
      using n(1) p by (metis imageI)
    have "lower h \<in> set (map lower (allowed_hosts cfg))" if "CHR ''['' \<notin> set source"
    proof -
      have "lower h = lower k"
        using same_origin[OF n(1) p(2) u(1) v(1) u(2) v(3) that] assms(3) p(1) by blast
      moreover have "lower k \<in> set (map lower (allowed_hosts cfg))"
        by (rule v(4))
      ultimately show ?thesis by simp
    qed
    with tok Some u sc im show ?thesis by auto
  qed
qed

theorem cross_site_requests_refused_witness:
  "\<exists>rq. require_browser_csrf (\<lambda>_. False) demo_production (Some ''t'') None rq = Inr () \<and>
     origin_source rq = Some ''https://race.example/user'' \<and>
     (\<exists>u h. urlsplit (\<lambda>_. False) ''https://race.example/user'' = Some u \<and> su_scheme u = ''https'' \<and>
        hostname u = Some h \<and> lower h = ''race.example'')"
proof -
  let ?rq = "\<lparr>rq_method = ''POST'', rq_path = ''/user'', rq_headers = [''referer'' \<mapsto> ''https://race.example/user''],
    rq_cookies = [CSRF_COOKIE \<mapsto> ''t''], rq_scheme = ''https'', rq_client = None\<rparr>"
  have a: "require_browser_csrf (\<lambda>_. False) demo_production (Some ''t'') None ?rq = Inr ()" by code_simp
  have s: "origin_source ?rq = Some ''https://race.example/user''" by code_simp
  have m: "upper (rq_method ?rq) \<notin> set SAFE_METHODS" by code_simp
  have o: "\<forall>origin \<in> set (public_origins demo_production). CHR ''['' \<notin> set origin" by code_simp
  have h: "set (map lower (allowed_hosts demo_production)) = {''race.example''}" by code_simp
  have b: "CHR ''['' \<notin> set ''https://race.example/user''" by simp
  show ?thesis
    using cross_site_requests_refused[OF demo_production_valid demo_production_is o m a] a s b unfolding h
    by (intro exI[of _ ?rq]) auto
qed

end
