(* ===== verification/Encoding.thy ===== *)
theory Encoding
  imports Models TextFormat "HOL-Library.AList"
begin

text \<open>
  What the capabilities of \<^verbatim>\<open>backend/app/web_security.py\<close> use of the standard library: the URL-safe
  base64 without padding of \<^verbatim>\<open>_b64encode\<close> and the lenient decoder behind \<^verbatim>\<open>_b64decode\<close>, hexadecimal
  digests, and \<^verbatim>\<open>json.loads\<close>.  A byte is a character of the list, so bytes and text are both lists
  of characters.
\<close>

section \<open>Base64\<close>

definition b64_char :: "nat \<Rightarrow> char" where
  "b64_char n = char_of (if n < 26 then 65 + n else if n < 52 then 71 + n
     else if n < 62 then n - 4 else if n = 62 then 45 else 95)"

text \<open>\<^verbatim>\<open>urlsafe_b64decode\<close> maps \<^verbatim>\<open>-\<close> and \<^verbatim>\<open>_\<close> to \<^verbatim>\<open>+\<close> and \<^verbatim>\<open>/\<close> first, so both pairs are accepted.\<close>

definition b64_value :: "char \<Rightarrow> nat option" where
  "b64_value c =
    (if is_upper c then Some (char_code c - 65)
     else if is_lower c then Some (char_code c - 71)
     else if is_digit c then Some (char_code c + 4)
     else if char_code c \<in> {45, 43} then Some 62
     else if char_code c \<in> {95, 47} then Some 63 else None)"

text \<open>\<^verbatim>\<open>base64.urlsafe_b64encode(value).rstrip(b"=")\<close>\<close>

fun b64encode :: "str \<Rightarrow> str" where
  "b64encode [] = []"
| "b64encode [x] =
    (let a = char_code x in [b64_char (a div 4), b64_char (a mod 4 * 16)])"
| "b64encode [x, y] =
    (let a = char_code x; b = char_code y
     in [b64_char (a div 4), b64_char (a mod 4 * 16 + b div 16), b64_char (b mod 16 * 4)])"
| "b64encode (x # y # z # rest) =
    (let a = char_code x; b = char_code y; c = char_code z
     in b64_char (a div 4) # b64_char (a mod 4 * 16 + b div 16) #
        b64_char (b mod 16 * 4 + c div 64) # b64_char (c mod 64) # b64encode rest)"

text \<open>The decoder of \<^verbatim>\<open>binascii\<close>, not strict: characters outside the alphabet are skipped, padding that
  completes a group ends the input, and what is left of a group at the end is an error.  The
  arguments are the position in the group, the bits left over and the padding seen.\<close>

fun a2b :: "nat \<Rightarrow> nat \<Rightarrow> nat \<Rightarrow> str \<Rightarrow> str option" where
  "a2b pos left pads [] = (if pos = 0 then Some [] else None)"
| "a2b pos left pads (c # cs) =
    (if char_code c = 61
     then (if 2 \<le> pos
           then (if 4 \<le> pos + (pads + 1) then Some [] else a2b pos left (pads + 1) cs)
           else a2b pos left pads cs)
     else case b64_value c of
       None \<Rightarrow> a2b pos left pads cs
     | Some v \<Rightarrow>
         if pos = 0 then a2b 1 v 0 cs
         else if pos = 1 then map_option ((#) (char_of (left * 4 + v div 16))) (a2b 2 (v mod 16) 0 cs)
         else if pos = 2 then map_option ((#) (char_of (left * 16 + v div 4))) (a2b 3 (v mod 4) 0 cs)
         else map_option ((#) (char_of (left * 64 + v))) (a2b 0 0 0 cs))"

definition b64decode :: "str \<Rightarrow> str option" where
  "b64decode value = a2b 0 0 0 (value @ replicate (nat (- int (length value) mod 4)) CHR ''='')"

definition hexdigest :: "str \<Rightarrow> str" where
  "hexdigest bytes = concat (map (\<lambda>c. padded_digits 16 2 (char_code c)) bytes)"

lemma code_b64_char:
  "n < 64 \<Longrightarrow> char_code (b64_char n) = (if n < 26 then 65 + n else if n < 52 then 71 + n
     else if n < 62 then n - 4 else if n = 62 then 45 else 95)"
  by (auto simp: b64_char_def char_code_def)

lemma b64_value_char [simp]: "n < 64 \<Longrightarrow> b64_value (b64_char n) = Some n"
  by (auto simp: b64_value_def is_upper_def is_lower_def is_digit_def code_b64_char)

lemma b64_char_not_pad [simp]: "n < 64 \<Longrightarrow> char_code (b64_char n) \<noteq> 61"
  by (auto simp: code_b64_char)

lemma char_code_less [simp]: "char_code c < 256"
  unfolding char_code_def by (metis of_char_mod_256 mod_less_divisor zero_less_numeral)

lemma char_of_code [simp]: "char_of (char_code c) = c"
  by (simp add: char_code_def)

lemma char_code_bounds [simp]:
  "char_code c div 4 < 64" "char_code c div 16 < 16" "char_code c div 64 < 4"
  using char_code_less[of c] by linarith+

lemma b64_bounds [simp]:
  fixes m n :: nat
  shows "n < 16 \<Longrightarrow> m mod 4 * 16 + n < 64" "n < 4 \<Longrightarrow> m mod 16 * 4 + n < 64"
    "m mod 4 * 16 < 64" "m mod 16 * 4 < 64"
  using mod_less_divisor[of 4 m] mod_less_divisor[of 16 m] by linarith+

lemma b64_joins [simp]:
  fixes m n :: nat
  shows "n < 16 \<Longrightarrow> (m * 16 + n) div 16 = m" "n < 16 \<Longrightarrow> (m * 16 + n) mod 16 = n"
    "n < 4 \<Longrightarrow> (m * 4 + n) div 4 = m" "n < 4 \<Longrightarrow> (m * 4 + n) mod 4 = n"
  by simp_all

text \<open>The rules by which the decoder consumes one encoded character.\<close>

lemma a2b_char:
  assumes "v < 64"
  shows "a2b 0 left pads (b64_char v # cs) = a2b 1 v 0 cs"
    and "a2b 1 left pads (b64_char v # cs) =
      map_option ((#) (char_of (left * 4 + v div 16))) (a2b 2 (v mod 16) 0 cs)"
    and "a2b 2 left pads (b64_char v # cs) =
      map_option ((#) (char_of (left * 16 + v div 4))) (a2b 3 (v mod 4) 0 cs)"
    and "a2b 3 left pads (b64_char v # cs) =
      map_option ((#) (char_of (left * 64 + v))) (a2b 0 0 0 cs)"
  using assms by simp_all

lemma a2b_pad: "a2b 2 left 0 ''=='' = Some []" "a2b 3 left 0 ''='' = Some []"
  by (simp_all add: char_code_def)

declare a2b.simps [simp del]

lemma a2b_group:
  "a2b 0 0 0 (b64encode (x # y # z # rest) @ cs) =
   map_option ((#) x) (map_option ((#) y) (map_option ((#) z) (a2b 0 0 0 (b64encode rest @ cs))))"
  by (simp add: Let_def a2b_char del: One_nat_def)

lemma a2b_tail:
  "a2b 0 0 0 (b64encode [x] @ ''=='') = Some [x]"
  "a2b 0 0 0 (b64encode [x, y] @ ''='') = Some [x, y]"
  by (simp_all add: Let_def a2b_char a2b_pad del: One_nat_def)

lemma b64_padding:
  "replicate (nat (- int (length (b64encode [x])) mod 4)) CHR ''='' = ''==''"
  "replicate (nat (- int (length (b64encode [x, y])) mod 4)) CHR ''='' = ''=''"
proof -
  have l: "int (length (b64encode [x])) = 2" "int (length (b64encode [x, y])) = 3"
    by (simp_all add: Let_def)
  show "replicate (nat (- int (length (b64encode [x])) mod 4)) CHR ''='' = ''==''"
    unfolding l by (simp add: numeral_2_eq_2)
  show "replicate (nat (- int (length (b64encode [x, y])) mod 4)) CHR ''='' = ''=''"
    unfolding l by simp
qed

lemma a2b_encode:
  "a2b 0 0 0 (b64encode s @ replicate (nat (- int (length (b64encode s)) mod 4)) CHR ''='') = Some s"
proof (induction s rule: b64encode.induct)
  case (4 x y z rest)
  have "int (length (b64encode (x # y # z # rest))) = int (length (b64encode rest)) + 4"
    by (simp add: Let_def)
  then have "- int (length (b64encode (x # y # z # rest))) mod 4 = - int (length (b64encode rest)) mod 4"
    by presburger
  with 4 show ?case by (simp only: a2b_group) simp
next
  case (2 x)
  show ?case by (simp only: b64_padding a2b_tail)
next
  case (3 x y)
  show ?case by (simp only: b64_padding a2b_tail)
qed (simp add: a2b.simps)

lemma b64decode_encode [simp]: "b64decode (b64encode s) = Some s"
  by (simp add: b64decode_def a2b_encode)


section \<open>Reading JSON\<close>

text \<open>
  \<^verbatim>\<open>json.loads\<close> on ASCII text: white space around values and punctuation, strings with escapes and
  without control characters, the number grammar (a fraction or an exponent makes a float, here its
  exact value), the three literals and the three non-finite floats.  A repeated key overwrites the
  value at its first position, as a dict does.  A \<^verbatim>\<open>\u\<close> escape of a character outside ASCII is
  refused: such text is outside the model.  Every call of the mutual recursion but the first has
  consumed a character, so the length of the text is enough fuel.
\<close>

definition json_space :: "char \<Rightarrow> bool" where
  "json_space c \<longleftrightarrow> char_code c \<in> {32, 9, 10, 13}"

definition skip_space :: "str \<Rightarrow> str" where
  "skip_space s = dropWhile json_space s"

definition hex_value :: "char \<Rightarrow> nat option" where
  "hex_value c =
    (if is_digit c then Some (char_code c - 48)
     else if 97 \<le> char_code c \<and> char_code c \<le> 102 then Some (char_code c - 87)
     else if 65 \<le> char_code c \<and> char_code c \<le> 70 then Some (char_code c - 55) else None)"

definition escape_value :: "char \<Rightarrow> char option" where
  "escape_value c = map_of [(CHR 34, CHR 34), (CHR 92, CHR 92), (CHR 47, CHR 47), (CHR ''b'', CHR 8),
     (CHR ''f'', CHR 12), (CHR ''n'', CHR 10), (CHR ''r'', CHR 13), (CHR ''t'', CHR 9)] c"

definition unicode_escape :: "char \<Rightarrow> char \<Rightarrow> char \<Rightarrow> char \<Rightarrow> char option" where
  "unicode_escape a b c d =
    (case (hex_value a, hex_value b, hex_value c, hex_value d) of
       (Some a, Some b, Some c, Some d) \<Rightarrow>
         (let n = ((a * 16 + b) * 16 + c) * 16 + d in if n < 128 then Some (char_of n) else None)
     | _ \<Rightarrow> None)"

fun json_read_string :: "str \<Rightarrow> (str \<times> str) option" where
  "json_read_string [] = None"
| "json_read_string (c # cs) =
    (if char_code c = 34 then Some ([], cs)
     else if char_code c = 92
     then (case cs of
             [] \<Rightarrow> None
           | e # cs' \<Rightarrow>
               if e = CHR ''u''
               then (case cs' of
                       h1 # h2 # h3 # h4 # cs'' \<Rightarrow>
                         (case unicode_escape h1 h2 h3 h4 of
                            None \<Rightarrow> None
                          | Some x \<Rightarrow> map_option (\<lambda>(s, r). (x # s, r)) (json_read_string cs''))
                     | _ \<Rightarrow> None)
               else (case escape_value e of
                       None \<Rightarrow> None
                     | Some x \<Rightarrow> map_option (\<lambda>(s, r). (x # s, r)) (json_read_string cs')))
     else if char_code c < 32 then None
     else map_option (\<lambda>(s, r). (c # s, r)) (json_read_string cs))"

definition decimal :: "str \<Rightarrow> nat" where
  "decimal ds = foldl (\<lambda>n c. n * 10 + (char_code c - 48)) 0 ds"

text \<open>The fraction and the exponent of a number, when they follow.\<close>

definition read_fraction :: "str \<Rightarrow> (str \<times> str) option" where
  "read_fraction s =
    (case s of c # cs \<Rightarrow> if c = CHR ''.'' \<and> takeWhile is_digit cs \<noteq> []
                        then Some (takeWhile is_digit cs, dropWhile is_digit cs) else None
     | [] \<Rightarrow> None)"

definition read_exponent :: "str \<Rightarrow> (int \<times> str) option" where
  "read_exponent s =
    (case s of
       [] \<Rightarrow> None
     | c # cs \<Rightarrow>
         if c \<in> {CHR ''e'', CHR ''E''}
         then (let neg = (cs \<noteq> [] \<and> hd cs = CHR ''-'');
                   ds = (if cs \<noteq> [] \<and> hd cs \<in> {CHR ''-'', CHR ''+''} then tl cs else cs)
               in if takeWhile is_digit ds = [] then None
                  else Some ((if neg then - 1 else 1) * int (decimal (takeWhile is_digit ds)), dropWhile is_digit ds))
         else None)"

definition power10 :: "int \<Rightarrow> real" where
  "power10 e = (if 0 \<le> e then 10 ^ nat e else 1 / 10 ^ nat (- e))"

definition leading_digits :: "str \<Rightarrow> str" where
  "leading_digits s = (if s \<noteq> [] \<and> hd s = CHR ''0'' then [CHR ''0''] else takeWhile is_digit s)"

definition json_read_number :: "str \<Rightarrow> (json \<times> str) option" where
  "json_read_number s =
    (let neg = (s \<noteq> [] \<and> hd s = CHR ''-'');
         s1 = (if neg then tl s else s);
         ds = leading_digits s1;
         r = drop (length ds) s1
     in if ds = [] then None
        else case (read_fraction r, read_exponent (case read_fraction r of None \<Rightarrow> r | Some (_, r') \<Rightarrow> r')) of
          (None, None) \<Rightarrow> Some (JInt ((if neg then - 1 else 1) * int (decimal ds)), r)
        | (f, e) \<Rightarrow>
            (let fs = (case f of None \<Rightarrow> [] | Some (fs, _) \<Rightarrow> fs);
                 r1 = (case f of None \<Rightarrow> r | Some (_, r') \<Rightarrow> r');
                 ex = (case e of None \<Rightarrow> 0 | Some (ex, _) \<Rightarrow> ex);
                 r2 = (case e of None \<Rightarrow> r1 | Some (_, r') \<Rightarrow> r')
             in Some (JFloat (Fin ((if neg then - 1 else 1) * real (decimal (ds @ fs)) *
                    power10 (ex - int (length fs)))), r2)))"

definition read_word :: "(str \<times> json) list \<Rightarrow> str \<Rightarrow> (json \<times> str) option" where
  "read_word ws s =
    (case filter (\<lambda>(w, _). prefix w s) ws of [] \<Rightarrow> None | (w, v) # _ \<Rightarrow> Some (v, drop (length w) s))"

definition json_words :: "(str \<times> json) list" where
  "json_words = [(''null'', JNull), (''true'', JBool True), (''false'', JBool False),
     (''NaN'', JFloat NaN), (''Infinity'', JFloat PosInf), (''-Infinity'', JFloat NegInf)]"

definition dict_of :: "(str \<times> json) list \<Rightarrow> (str \<times> json) list" where
  "dict_of kvs = foldl (\<lambda>d (k, v). AList.update k v d) [] kvs"

fun json_read :: "nat \<Rightarrow> str \<Rightarrow> (json \<times> str) option"
  and json_read_list :: "nat \<Rightarrow> str \<Rightarrow> (json list \<times> str) option"
  and json_read_members :: "nat \<Rightarrow> str \<Rightarrow> ((str \<times> json) list \<times> str) option" where
  "json_read 0 s = None"
| "json_read (Suc n) s =
    (case s of
       [] \<Rightarrow> None
     | c # cs \<Rightarrow>
         if char_code c = 34 then map_option (\<lambda>(w, r). (JStr w, r)) (json_read_string cs)
         else if c = CHR ''{''
         then (if prefix ''}'' (skip_space cs) then Some (JDict [], tl (skip_space cs))
               else map_option (\<lambda>(kvs, r). (JDict (dict_of kvs), r)) (json_read_members n (skip_space cs)))
         else if c = CHR ''[''
         then (if prefix '']'' (skip_space cs) then Some (JList [], tl (skip_space cs))
               else map_option (\<lambda>(xs, r). (JList xs, r)) (json_read_list n (skip_space cs)))
         else (case read_word json_words s of
                 Some x \<Rightarrow> Some x
               | None \<Rightarrow> json_read_number s))"
| "json_read_list 0 s = None"
| "json_read_list (Suc n) s =
    (case json_read n s of
       None \<Rightarrow> None
     | Some (x, r) \<Rightarrow>
         (case skip_space r of
            [] \<Rightarrow> None
          | c # cs \<Rightarrow>
              if c = CHR '']'' then Some ([x], cs)
              else if c = CHR '',''
              then map_option (\<lambda>(xs, r). (x # xs, r)) (json_read_list n (skip_space cs))
              else None))"
| "json_read_members 0 s = None"
| "json_read_members (Suc n) s =
    (case s of
       [] \<Rightarrow> None
     | q # qs \<Rightarrow>
         if char_code q \<noteq> 34 then None
         else case json_read_string qs of
           None \<Rightarrow> None
         | Some (k, r) \<Rightarrow>
             (case skip_space r of
                [] \<Rightarrow> None
              | c # cs \<Rightarrow>
                  if c \<noteq> CHR '':'' then None
                  else case json_read n (skip_space cs) of
                    None \<Rightarrow> None
                  | Some (v, r') \<Rightarrow>
                      (case skip_space r' of
                         [] \<Rightarrow> None
                       | c' # cs' \<Rightarrow>
                           if c' = CHR ''}'' then Some ([(k, v)], cs')
                           else if c' = CHR '',''
                           then map_option (\<lambda>(kvs, r). ((k, v) # kvs, r)) (json_read_members n (skip_space cs'))
                           else None)))"

definition json_loads :: "str \<Rightarrow> json option" where
  "json_loads s =
    (case json_read (length s + 1) (skip_space s) of
       None \<Rightarrow> None
     | Some (v, r) \<Rightarrow> if skip_space r = [] then Some v else None)"

subsection \<open>Reading back plain text and natural numbers\<close>

text \<open>Characters that a JSON string contains as they are.\<close>

definition plain_char :: "char \<Rightarrow> bool" where
  "plain_char c \<longleftrightarrow> 32 \<le> char_code c \<and> char_code c \<noteq> 34 \<and> char_code c \<noteq> 92"

lemma read_plain_string:
  "\<forall>c \<in> set s. plain_char c \<Longrightarrow> json_read_string (s @ CHR 34 # r) = Some (s, r)"
  by (induction s) (auto simp: plain_char_def char_code_def)

lemma code_digit_char [simp]: "n < 10 \<Longrightarrow> char_code (digit_char n) = 48 + n"
  by (simp add: char_code_def digit_char_def)

lemma nat_digits_digits: "\<forall>c \<in> set (nat_digits n). is_digit c"
  by (induction n rule: nat_digits.induct) (subst nat_digits.simps, auto simp: is_digit_def)

lemma decimal_snoc [simp]: "decimal (ds @ [c]) = decimal ds * 10 + (char_code c - 48)"
  by (simp add: decimal_def)

lemma decimal_nat_digits: "decimal (nat_digits n) = n"
proof (induction n rule: nat_digits.induct)
  case (1 n)
  then show ?case by (subst nat_digits.simps) (auto simp: decimal_def)
qed

lemma nat_digits_not_Nil [simp]: "nat_digits n \<noteq> []"
  by (subst nat_digits.simps) simp

lemma nat_digits_leading: "hd (nat_digits n) = CHR ''0'' \<Longrightarrow> nat_digits n = ''0''"
proof (induction n rule: nat_digits.induct)
  case (1 n)
  show ?case
  proof (cases "n < 10")
    case True
    with 1 show ?thesis by (simp add: nat_digits.simps)
  next
    case False
    then have "hd (nat_digits n) = hd (nat_digits (n div 10))" by (subst nat_digits.simps) simp
    with 1 False have "nat_digits (n div 10) = ''0''" by simp
    then have "n div 10 = 0" using decimal_nat_digits[of "n div 10"] by (simp add: decimal_def char_code_def)
    with False show ?thesis by simp
  qed
qed

lemma digit_not_minus: "is_digit c \<Longrightarrow> c \<noteq> CHR ''-'' \<and> char_code c \<noteq> 34 \<and> c \<noteq> CHR ''{'' \<and> c \<noteq> CHR ''['' \<and>
    c \<notin> {CHR ''n'', CHR ''t'', CHR ''f'', CHR ''N'', CHR ''I''}"
  by (auto simp: is_digit_def char_code_def)

lemma takeWhile_run:
  "\<forall>c \<in> set ds. p c \<Longrightarrow> \<not> p x \<Longrightarrow> takeWhile p (ds @ x # r) = ds"
  by (simp add: takeWhile_tail)

lemma read_nat:
  assumes "\<not> is_digit x" "x \<notin> {CHR ''.'', CHR ''e'', CHR ''E''}"
  shows "json_read_number (nat_digits n @ x # r) = Some (JInt (int n), x # r)"
proof -
  let ?d = "nat_digits n"
  have hd: "is_digit (hd ?d)" using nat_digits_digits nat_digits_not_Nil by (meson hd_in_set)
  have ds: "leading_digits (?d @ x # r) = ?d"
    using nat_digits_leading[of n] takeWhile_run[of ?d is_digit x r] nat_digits_digits assms(1)
    by (auto simp: leading_digits_def)
  have "read_fraction (x # r) = None" "read_exponent (x # r) = None"
    using assms(2) by (auto simp: read_fraction_def read_exponent_def)
  with ds digit_not_minus[OF hd] show ?thesis
    by (simp add: json_read_number_def Let_def decimal_nat_digits)
qed

end
