(* ===== verification/Capability.thy ===== *)
theory Capability
  imports Encoding WebSecurity WorkerRequests
begin

text \<open>
  The search capabilities of \<^verbatim>\<open>backend/app/web_security.py\<close>: a signed cookie that lets one visitor
  read the results of one search of one event until it expires, and the functions of
  \<^verbatim>\<open>backend/app/main.py\<close> that bind a capability to a search session.

  The primitives of \<^verbatim>\<open>hashlib\<close> and \<^verbatim>\<open>hmac\<close> are fields of a record: nothing is assumed of them.
  A call of \<^verbatim>\<open>secrets.token_urlsafe\<close> is an argument.
\<close>

record crypto =
  hmac_sha256 :: "str \<Rightarrow> str \<Rightarrow> str"
  sha256 :: "str \<Rightarrow> str"
  ephemeral_secret :: str

definition signing_key :: "crypto \<Rightarrow> settings \<Rightarrow> str" where
  "signing_key cr cfg = (if app_secret_key cfg = [] then ephemeral_secret cr else app_secret_key cfg)"

definition secret_hash :: "crypto \<Rightarrow> str \<Rightarrow> str" where
  "secret_hash cr value = hexdigest (sha256 cr value)"

definition owner_binding_hash :: "crypto \<Rightarrow> settings \<Rightarrow> str \<Rightarrow> str" where
  "owner_binding_hash cr cfg visitor_id = hexdigest (hmac_sha256 cr (signing_key cr cfg) visitor_id)"

definition signature_of :: "crypto \<Rightarrow> settings \<Rightarrow> str \<Rightarrow> str" where
  "signature_of cr cfg encoded_payload = b64encode (hmac_sha256 cr (signing_key cr cfg) encoded_payload)"

record search_capability =
  sc_session_id :: str
  sc_event_id :: str
  sc_secret :: str
  sc_expires_at :: time
  sc_capability_hash :: str
  sc_owner_hash :: str

text \<open>The payload with its keys sorted.\<close>

definition capability_payload :: "str \<Rightarrow> str \<Rightarrow> str \<Rightarrow> int \<Rightarrow> str \<Rightarrow> json" where
  "capability_payload session_id event_id raw_secret expiry owner =
     JDict [(''cap'', JStr raw_secret), (''eid'', JStr event_id), (''exp'', JInt expiry),
            (''own'', JStr owner), (''sid'', JStr session_id)]"

definition json_dumps :: "json \<Rightarrow> str" where
  "json_dumps j = (case json_encode (\<lambda>_. []) j of None \<Rightarrow> [] | Some s \<Rightarrow> s)"

definition issue_search_capability ::
    "crypto \<Rightarrow> settings \<Rightarrow> time \<Rightarrow> str \<Rightarrow> str \<Rightarrow> str \<Rightarrow> str \<Rightarrow> search_capability" where
  "issue_search_capability cr cfg now raw_secret session_id event_id visitor_id =
    (let expires_at = now + seconds (search_capability_ttl_seconds cfg);
         bound_owner_hash = owner_binding_hash cr cfg visitor_id;
         payload = capability_payload session_id event_id raw_secret (expires_at div 1000000) bound_owner_hash;
         encoded_payload = b64encode (json_dumps payload);
         signature = signature_of cr cfg encoded_payload
     in \<lparr>sc_session_id = session_id, sc_event_id = event_id,
         sc_secret = encoded_payload @ ''.'' @ signature, sc_expires_at = expires_at,
         sc_capability_hash = secret_hash cr raw_secret, sc_owner_hash = bound_owner_hash\<rparr>)"

text \<open>\<^verbatim>\<open>payload["key"]\<close>: \<^term>\<open>None\<close> is the \<^verbatim>\<open>TypeError\<close> of a payload that is no dict or the \<^verbatim>\<open>KeyError\<close> of
  a missing key.\<close>

definition json_field :: "str \<Rightarrow> json \<Rightarrow> json option" where
  "json_field k j = (case j of JDict kvs \<Rightarrow> map_of kvs k | _ \<Rightarrow> None)"

text \<open>\<^verbatim>\<open>int(s)\<close> of a string: a sign, digits with single underscores between them, at most 4300 digits.\<close>

definition int_of_str :: "str \<Rightarrow> int option" where
  "int_of_str value =
    (let s = strip value;
         neg = (s \<noteq> [] \<and> hd s = CHR ''-'');
         ds = (if s \<noteq> [] \<and> hd s \<in> {CHR ''-'', CHR ''+''} then tl s else s);
         groups = split_on CHR ''_'' ds
     in if (\<forall>g \<in> set groups. g \<noteq> [] \<and> (\<forall>c \<in> set g. is_digit c)) \<and> length (concat groups) \<le> 4300
        then Some ((if neg then - 1 else 1) * int (decimal (concat groups))) else None)"

text \<open>\<^verbatim>\<open>int(x)\<close> of a JSON value: \<^term>\<open>Inr None\<close> is a \<^verbatim>\<open>ValueError\<close> or a \<^verbatim>\<open>TypeError\<close>.\<close>

definition int_of_json :: "json \<Rightarrow> int option result" where
  "int_of_json j =
    (case j of
       JInt i \<Rightarrow> Inr (Some i)
     | JBool b \<Rightarrow> Inr (Some (if b then 1 else 0))
     | JFloat (Fin x) \<Rightarrow> Inr (Some (if x < 0 then \<lceil>x\<rceil> else \<lfloor>x\<rfloor>))
     | JFloat NaN \<Rightarrow> Inr None
     | JFloat _ \<Rightarrow> Inl (OverflowError ''cannot convert float infinity to integer'')
     | JStr s \<Rightarrow> Inr (int_of_str s)
     | _ \<Rightarrow> Inr None)"

text \<open>\<^verbatim>\<open>datetime.fromtimestamp(n, tz=utc)\<close>: beyond the years 1 to 9999 a \<^verbatim>\<open>ValueError\<close> (\<^term>\<open>None\<close>),
  beyond what \<^verbatim>\<open>gmtime_r\<close> and \<^verbatim>\<open>time_t\<close> hold an exception that is not caught.\<close>

definition from_timestamp :: "int \<Rightarrow> time option result" where
  "from_timestamp n =
    (if - 62135596800 \<le> n \<and> n \<le> 253402300799 then Inr (Some (seconds n))
     else if - 67768040609740800 \<le> n \<and> n \<le> 67768036191676799 then Inr None
     else if - (2 ^ 63) \<le> n \<and> n < 2 ^ 63 then Inl (OSError ''Value too large for defined data type'')
     else Inl (OverflowError ''timestamp out of range for platform time_t''))"

text \<open>\<^verbatim>\<open>str(x)\<close> of a JSON value; \<^verbatim>\<open>repr_of\<close> renders the values that are not strings.\<close>

definition str_of_json :: "(json \<Rightarrow> str) \<Rightarrow> json \<Rightarrow> str" where
  "str_of_json repr_of j = (case j of JStr s \<Rightarrow> s | _ \<Rightarrow> repr_of j)"

definition accept_payload ::
    "crypto \<Rightarrow> settings \<Rightarrow> (json \<Rightarrow> str) \<Rightarrow> time \<Rightarrow> str \<Rightarrow> str \<Rightarrow> str \<Rightarrow> json \<Rightarrow> time \<Rightarrow> search_capability option" where
  "accept_payload cr cfg repr_of now value event_id visitor_id payload expires_at =
    (if expires_at \<le> now then None
     else
       case json_field ''eid'' payload of
         None \<Rightarrow> None
       | Some eid \<Rightarrow>
           if str_of_json repr_of eid \<noteq> event_id then None
           else
             case json_field ''own'' payload of
               None \<Rightarrow> None
             | Some own \<Rightarrow>
                 if str_of_json repr_of own \<noteq> owner_binding_hash cr cfg visitor_id then None
                 else
                   case (json_field ''cap'' payload, json_field ''sid'' payload) of
                     (Some cap, Some sid) \<Rightarrow>
                       Some \<lparr>sc_session_id = str_of_json repr_of sid, sc_event_id = event_id,
                         sc_secret = value, sc_expires_at = expires_at,
                         sc_capability_hash = secret_hash cr (str_of_json repr_of cap),
                         sc_owner_hash = owner_binding_hash cr cfg visitor_id\<rparr>
                   | _ \<Rightarrow> None)"

definition decode_search_capability ::
    "crypto \<Rightarrow> settings \<Rightarrow> (json \<Rightarrow> str) \<Rightarrow> time \<Rightarrow> str \<Rightarrow> str \<Rightarrow> str \<Rightarrow> search_capability option result" where
  "decode_search_capability cr cfg repr_of now value event_id visitor_id =
    (case partition_at CHR ''.'' value of (encoded_payload, found, supplied_signature) \<Rightarrow>
      if \<not> found \<or> supplied_signature \<noteq> signature_of cr cfg encoded_payload then Inr None
      else
        case Option.bind (b64decode encoded_payload) json_loads of
          None \<Rightarrow> Inr None
        | Some payload \<Rightarrow>
            (case json_field ''exp'' payload of
               None \<Rightarrow> Inr None
             | Some expiry \<Rightarrow>
                 (case int_of_json expiry of
                    Inl e \<Rightarrow> Inl e
                  | Inr None \<Rightarrow> Inr None
                  | Inr (Some n) \<Rightarrow>
                      (case from_timestamp n of
                         Inl e \<Rightarrow> Inl e
                       | Inr None \<Rightarrow> Inr None
                       | Inr (Some expires_at) \<Rightarrow>
                           Inr (accept_payload cr cfg repr_of now value event_id visitor_id payload expires_at)))))"

definition SEARCH_COOKIE_PREFIX :: str where
  "SEARCH_COOKIE_PREFIX = ''raceframe_search_''"

definition search_cookie_name :: "str \<Rightarrow> str" where
  "search_cookie_name event_id = SEARCH_COOKIE_PREFIX @ take 40 (filter is_alnum (lower event_id))"

text \<open>A cookie the response sets, with its attributes.\<close>

record set_cookie =
  ck_name :: str
  ck_value :: str
  ck_max_age :: int
  ck_path :: str
  ck_secure :: bool
  ck_httponly :: bool
  ck_samesite :: str

definition set_search_capability_cookie :: "settings \<Rightarrow> str \<Rightarrow> search_capability \<Rightarrow> set_cookie" where
  "set_search_capability_cookie cfg event_id capability =
     \<lparr>ck_name = search_cookie_name event_id, ck_value = sc_secret capability,
      ck_max_age = search_capability_ttl_seconds cfg, ck_path = ''/user/events/'' @ event_id,
      ck_secure = secure_cookies cfg, ck_httponly = True, ck_samesite = ''lax''\<rparr>"

definition request_search_capability ::
    "crypto \<Rightarrow> settings \<Rightarrow> (json \<Rightarrow> str) \<Rightarrow> time \<Rightarrow> (str \<rightharpoonup> str) \<Rightarrow> str \<Rightarrow> str \<Rightarrow> search_capability option result" where
  "request_search_capability cr cfg repr_of now cookies visitor_id event_id =
    (let cookie_value = (case cookies (search_cookie_name event_id) of None \<Rightarrow> [] | Some v \<Rightarrow> v)
     in if visitor_id = [] \<or> cookie_value = [] then Inr None
        else decode_search_capability cr cfg repr_of now cookie_value event_id visitor_id)"

section \<open>Binding a capability to a search session\<close>

definition bind_session :: "search_capability \<Rightarrow> search_session \<Rightarrow> search_session" where
  "bind_session capability s = s\<lparr>fs_expires_at := sc_expires_at capability,
     fs_capability_hash := Some (sc_capability_hash capability),
     fs_owner_binding_hash := Some (sc_owner_hash capability)\<rparr>"

definition bind_search_capability ::
    "crypto \<Rightarrow> settings \<Rightarrow> time \<Rightarrow> str \<Rightarrow> str \<Rightarrow> uuid \<Rightarrow> uuid \<Rightarrow> db \<Rightarrow> search_capability \<times> db" where
  "bind_search_capability cr cfg now raw_secret visitor_id event_id session_id d =
    (let capability = issue_search_capability cr cfg now raw_secret (uuid_str session_id) (uuid_str event_id) visitor_id
     in (capability, update_search_session session_id (bind_session capability) d))"

end
