(* ===== verification/Listing.thy ===== *)
theory Listing
  imports Capability Completion "HOL-Library.Product_Lexorder"
begin

text \<open>
  What visitors and photographers see: the listings of \<^verbatim>\<open>backend/app/photographer.py\<close> (events,
  statistics, the photos of an event, the photos a search found) and the functions of
  \<^verbatim>\<open>backend/app/main.py\<close> that decide whether a request may see search results.

  Presigned URLs come from the object-storage client: \<^verbatim>\<open>safe_photo_access_url\<close> is the argument
  \<^verbatim>\<open>url\<close>.
\<close>

section \<open>Parsing identifiers\<close>

definition hex_digit_value :: "char \<Rightarrow> nat" where
  "hex_digit_value c = (case hex_value c of None \<Rightarrow> 0 | Some n \<Rightarrow> n)"

fun remove_all :: "str \<Rightarrow> str \<Rightarrow> str" where
  "remove_all w [] = []"
| "remove_all w (c # cs) =
     (if w \<noteq> [] \<and> prefix w (c # cs) then remove_all w (drop (length w - 1) cs)
      else c # remove_all w cs)"

text \<open>\<^verbatim>\<open>int(s, 16)\<close> on text without minus signs.\<close>

definition int16 :: "str \<Rightarrow> nat option" where
  "int16 value =
    (let s = strip value;
         s1 = (if s \<noteq> [] \<and> hd s = CHR ''+'' then tl s else s);
         s2 = (if prefix ''0x'' s1 \<or> prefix ''0X'' s1
               then (if prefix ''_'' (drop 2 s1) then drop 3 s1 else drop 2 s1) else s1);
         groups = split_on CHR ''_'' s2
     in if \<forall>g \<in> set groups. g \<noteq> [] \<and> (\<forall>c \<in> set g. hex_value c \<noteq> None)
        then Some (foldl (\<lambda>n c. n * 16 + hex_digit_value c) 0 (concat groups)) else None)"

text \<open>\<^verbatim>\<open>uuid.UUID(value)\<close>: \<^term>\<open>None\<close> is its \<^verbatim>\<open>ValueError\<close>.\<close>

definition parse_uuid :: "str \<Rightarrow> uuid option" where
  "parse_uuid value =
    (let s = filter (\<lambda>c. c \<noteq> CHR ''-'')
               (strip_chars (\<lambda>c. c = CHR ''{'' \<or> c = CHR ''}'') (remove_all ''uuid:'' (remove_all ''urn:'' value)))
     in if length s \<noteq> 32 then None else map_option of_nat (int16 s))"

section \<open>Events\<close>

text \<open>\<^verbatim>\<open>ORDER BY event_date ASC, created_at DESC\<close>: undated events come first here, as in SQLite;
  PostgreSQL puts them last.\<close>

definition event_order :: "event \<Rightarrow> int \<times> int \<times> int" where
  "event_order e = (case ev_date e of None \<Rightarrow> (0, 0, - ev_created_at e) | Some t \<Rightarrow> (1, t, - ev_created_at e))"

definition list_published_events :: "db \<Rightarrow> event list" where
  "list_published_events d = sort_key event_order (filter (\<lambda>e. ev_status e = Published) (events d))"

record user_event_item =
  ue_event :: event
  ue_participant_count :: nat
  ue_photo_count :: nat

text \<open>The counts are of distinct ids: the two outer joins multiply the rows of an event.\<close>

definition list_user_events :: "db \<Rightarrow> user_event_item list" where
  "list_user_events d = map (\<lambda>e. \<lparr>ue_event = e,
       ue_participant_count = card (pa_id ` set (filter (\<lambda>p. pa_event_id p = ev_id e) (participants d))),
       ue_photo_count = card (ph_id ` set (filter (\<lambda>p. ph_event_id p = ev_id e) (photos d)))\<rparr>)
     (list_published_events d)"

definition get_published_event :: "db \<Rightarrow> str \<Rightarrow> event option" where
  "get_published_event d event_id =
    (case parse_uuid event_id of
       None \<Rightarrow> None
     | Some i \<Rightarrow> find (\<lambda>e. ev_id e = i \<and> ev_status e = Published) (events d))"

definition count_event_participants :: "db \<Rightarrow> uuid \<Rightarrow> nat" where
  "count_event_participants d event_id = length (filter (\<lambda>p. pa_event_id p = event_id) (participants d))"

section \<open>Statistics\<close>

definition event_photos :: "db \<Rightarrow> uuid \<Rightarrow> photo list" where
  "event_photos d event_id = filter (\<lambda>p. ph_event_id p = event_id) (photos d)"

text \<open>The rows of a table that belong to photos of the event, as the joins with \<^verbatim>\<open>Photo\<close> select them.\<close>

definition of_event :: "db \<Rightarrow> uuid \<Rightarrow> uuid \<Rightarrow> bool" where
  "of_event d event_id photo_id \<longleftrightarrow> photo_id \<in> ph_id ` set (event_photos d event_id)"

definition event_photo_jobs :: "db \<Rightarrow> uuid \<Rightarrow> job list" where
  "event_photo_jobs d event_id = filter (\<lambda>j. case parent_photo (j_parent j) of
      None \<Rightarrow> False | Some p \<Rightarrow> of_event d event_id p) (photo_jobs d)"

record photo_stats =
  st_total :: int
  st_uploaded :: int
  st_processing :: int
  st_ready :: int
  st_failed :: int
  st_queued_jobs :: int
  st_processing_jobs :: int
  st_completed_jobs :: int
  st_failed_jobs :: int
  st_ocr_jobs :: int
  st_face_scan_jobs :: int
  st_text_detections :: int
  st_face_detections :: int
  st_participant_matches :: int
  st_face_matches :: int
  st_thumbnails :: int
  st_missing_thumbnails :: int
  st_total_file_size_bytes :: int
  st_total_file_size_mb :: real
  st_average_file_size_mb :: real

definition count_where :: "('a \<Rightarrow> bool) \<Rightarrow> 'a list \<Rightarrow> int" where
  "count_where p xs = int (length (filter p xs))"

definition round_to :: "nat \<Rightarrow> real \<Rightarrow> real" where
  "round_to k x = of_int (round_half_even (x * 10 ^ k)) / 10 ^ k"

definition build_event_photo_stats :: "db \<Rightarrow> uuid \<Rightarrow> photo_stats" where
  "build_event_photo_stats d event_id =
    (let ps = event_photos d event_id; js = event_photo_jobs d event_id;
         total = int (length ps);
         size_bytes = sum_list (map ph_file_size ps);
         thumbnails = count_where (\<lambda>p. ph_thumbnail_object_key p \<noteq> None) ps
     in \<lparr>st_total = total,
         st_uploaded = count_where (\<lambda>p. ph_status p = PhotoUploaded) ps,
         st_processing = count_where (\<lambda>p. ph_status p = PhotoProcessing) ps,
         st_ready = count_where (\<lambda>p. ph_status p = PhotoReady) ps,
         st_failed = count_where (\<lambda>p. ph_status p = PhotoFailed) ps,
         st_queued_jobs = count_where (\<lambda>j. j_status j = Queued) js,
         st_processing_jobs = count_where (\<lambda>j. j_status j = Processing) js,
         st_completed_jobs = count_where (\<lambda>j. j_status j = Completed) js,
         st_failed_jobs = count_where (\<lambda>j. j_status j = Failed) js,
         st_ocr_jobs = count_where (\<lambda>j. j_job_type j = Ocr) js,
         st_face_scan_jobs = count_where (\<lambda>j. j_job_type j = FacePhotoScan) js,
         st_text_detections = count_where (\<lambda>t. of_event d event_id (td_photo_id t)) (text_detections d),
         st_face_detections = count_where (\<lambda>f. of_event d event_id (fd_photo_id f)) (face_detections d),
         st_participant_matches = count_where (\<lambda>m. pm_event_id m = event_id) (photo_matches d),
         st_face_matches = count_where (\<lambda>m. fm_event_id m = event_id) (face_matches d),
         st_thumbnails = thumbnails,
         st_missing_thumbnails = max (total - thumbnails) 0,
         st_total_file_size_bytes = size_bytes,
         st_total_file_size_mb = round_to 1 (of_int size_bytes / (1024 * 1024)),
         st_average_file_size_mb = round_to 2 (of_int size_bytes / of_int (max total 1) / (1024 * 1024))\<rparr>)"

section \<open>The photos of an event\<close>

definition photo_job_list :: "db \<Rightarrow> uuid \<Rightarrow> job list" where
  "photo_job_list d photo_id = sort_key (\<lambda>j. - j_created_at j)
     (filter (\<lambda>j. parent_photo (j_parent j) = Some photo_id) (photo_jobs d))"

definition photo_match_list :: "db \<Rightarrow> uuid \<Rightarrow> photo_match list" where
  "photo_match_list d photo_id = sort_key (\<lambda>m. - pm_created_at m)
     (filter (\<lambda>m. pm_photo_id m = photo_id) (photo_matches d))"

definition safe_photo_preview_url :: "(str \<Rightarrow> str option) \<Rightarrow> photo \<Rightarrow> str option" where
  "safe_photo_preview_url url p = url (or_text (ph_thumbnail_object_key p) (ph_original_object_key p))"

record photo_list_item =
  pl_photo :: photo
  pl_latest_job :: "job option"
  pl_photo_url :: "str option"

definition list_event_photo_items :: "(str \<Rightarrow> str option) \<Rightarrow> db \<Rightarrow> uuid \<Rightarrow> photo_list_item list" where
  "list_event_photo_items url d event_id = map (\<lambda>p. \<lparr>pl_photo = p,
       pl_latest_job = (case photo_job_list d (ph_id p) of [] \<Rightarrow> None | j # _ \<Rightarrow> Some j),
       pl_photo_url = safe_photo_preview_url url p\<rparr>)
     (sort_key (\<lambda>p. - ph_created_at p) (event_photos d event_id))"

definition get_event_photo :: "db \<Rightarrow> uuid \<Rightarrow> str \<Rightarrow> photo option" where
  "get_event_photo d event_id photo_id =
    (case parse_uuid photo_id of
       None \<Rightarrow> None
     | Some i \<Rightarrow> find (\<lambda>p. ph_id p = i \<and> ph_event_id p = event_id) (photos d))"

section \<open>The photos a search found\<close>

record search_item =
  it_photo :: photo
  it_photo_url :: "str option"
  it_participants :: "participant list"
  it_values :: "str list"
  it_labels :: "str list"

definition match_label :: "photo_match \<Rightarrow> str" where
  "match_label m =
    (case pm_match_source m of
       SrcOcr \<Rightarrow> ''OCR bib '' @ pm_matched_value m
     | SrcFace \<Rightarrow> (case pm_confidence m of None \<Rightarrow> ''Face match'' | Some c \<Rightarrow> ''Face score '' @ format_fixed 2 c)
     | SrcOcrFace \<Rightarrow> (case pm_confidence m of None \<Rightarrow> ''OCR + face'' | Some c \<Rightarrow> ''OCR + face '' @ format_fixed 2 c))"

definition build_photo_evidence_labels :: "db \<Rightarrow> uuid \<Rightarrow> uuid list \<Rightarrow> str list" where
  "build_photo_evidence_labels d photo_id matched_participant_ids =
    (let n = length (photo_faces d photo_id) in
     map match_label (filter (\<lambda>m. matched_participant_ids = [] \<or>
         pm_participant_id m \<in> set matched_participant_ids) (photo_match_list d photo_id)) @
     (if n = 0 then [] else [int_str (int n) @ '' face'' @ (if n \<noteq> 1 then ''s'' else []) @ '' detected'']))"

definition strength_title :: "strength \<Rightarrow> str" where
  "strength_title s = (case s of Strong \<Rightarrow> ''Strong'' | Medium \<Rightarrow> ''Medium'' | Weak \<Rightarrow> ''Weak'' | NoEvidence \<Rightarrow> ''None'')"

definition build_hybrid_evidence_labels :: "real option \<Rightarrow> strength \<Rightarrow> strength \<Rightarrow> str list \<Rightarrow> str list" where
  "build_hybrid_evidence_labels face_score face_strength bib_strength bib_values =
    (if bib_strength = Strong then [''Strong bib match'']
     else if bib_strength = Weak then [''Partial bib match''] else []) @
    (case face_score of
       Some s \<Rightarrow>
         if face_strength \<noteq> NoEvidence then [strength_title face_strength @ '' face score '' @ format_fixed 2 s]
         else if bib_strength = Strong then [''Accepted by bib; no usable face match''] else []
     | None \<Rightarrow> if bib_strength = Strong then [''Accepted by bib; no usable face match''] else []) @
    (if bib_values \<noteq> [] then [''Matched text: '' @ join '', '' bib_values] else [])"

text \<open>\<^verbatim>\<open>dict.fromkeys\<close>: the first occurrence of every key, in order.\<close>

definition dict_keys :: "'a list \<Rightarrow> 'a list" where
  "dict_keys xs = rev (remdups (rev xs))"

definition event_results :: "db \<Rightarrow> uuid \<Rightarrow> uuid \<Rightarrow> search_result list" where
  "event_results d session_id event_id = filter (\<lambda>r. sr_search_session_id r = session_id \<and>
     sr_event_id r = event_id) (search_results d)"

definition best_score :: "search_result list \<Rightarrow> uuid \<Rightarrow> real" where
  "best_score rs photo_id = Max (sr_similarity_score ` set (filter (\<lambda>r. sr_photo_id r = photo_id) rs))"

definition best_face_scores :: "settings \<Rightarrow> db \<Rightarrow> uuid \<Rightarrow> uuid \<Rightarrow> (uuid \<times> real) list" where
  "best_face_scores cfg d session_id event_id =
    (let rs = event_results d session_id event_id
     in order_limit (\<lambda>(_, s). - s) (nat (max_search_results cfg))
          (map (\<lambda>p. (p, best_score rs p)) (dict_keys (map sr_photo_id rs))))"

definition ocr_photo_ids :: "settings \<Rightarrow> db \<Rightarrow> uuid \<Rightarrow> uuid \<Rightarrow> uuid list" where
  "ocr_photo_ids cfg d event_id participant_id = map pm_photo_id
     (order_limit (\<lambda>m. - pm_created_at m) (nat (max_search_results cfg))
        (filter (\<lambda>m. pm_event_id m = event_id \<and> pm_participant_id m = participant_id \<and>
           pm_match_source m \<in> {SrcOcr, SrcOcrFace}) (photo_matches d)))"

definition candidate_photo_ids :: "settings \<Rightarrow> db \<Rightarrow> uuid \<Rightarrow> uuid \<Rightarrow> uuid \<Rightarrow> uuid list" where
  "candidate_photo_ids cfg d session_id event_id participant_id =
     take (nat (max_search_results cfg)) (dict_keys (map fst (best_face_scores cfg d session_id event_id) @
       ocr_photo_ids cfg d event_id participant_id))"

text \<open>The item of one candidate photo, when it is accepted.\<close>

definition hybrid_item :: "settings \<Rightarrow> db \<Rightarrow> bool \<Rightarrow> (uuid \<times> real) list \<Rightarrow> participant \<Rightarrow> photo \<Rightarrow> search_item option" where
  "hybrid_item cfg d is_bib_only scores participant photo =
    (let texts = photo_texts d (ph_id photo);
         face_score = map_of scores (ph_id photo);
         face_strength = classify_face_score cfg face_score;
         exact = exact_bib_match_values texts (pa_bib_number participant);
         evidence = score_bib_evidence texts (pa_bib_number participant);
         bib_strength = (if is_bib_only then (if exact \<noteq> [] then Strong else NoEvidence) else be_strength evidence);
         bib_values = (if is_bib_only then exact else be_matched_values evidence);
         refused = (if is_bib_only then face_strength \<noteq> Strong \<and> bib_strength \<noteq> Strong
                    else \<not> should_accept_hybrid_result face_strength bib_strength)
     in if refused then None
        else Some \<lparr>it_photo = photo, it_photo_url = None, it_participants = [participant],
          it_values = bib_values,
          it_labels = build_hybrid_evidence_labels face_score face_strength bib_strength bib_values @
            build_photo_evidence_labels d (ph_id photo) [pa_id participant]\<rparr>)"

definition item_rank :: "db \<Rightarrow> bool \<Rightarrow> (uuid \<times> real) list \<Rightarrow> participant \<Rightarrow> search_item \<Rightarrow> real \<times> int \<times> int" where
  "item_rank d is_bib_only scores participant it =
    (let photo = it_photo it; texts = photo_texts d (ph_id photo);
         strong = (if is_bib_only then exact_bib_match_values texts (pa_bib_number participant) \<noteq> []
                   else be_strength (score_bib_evidence texts (pa_bib_number participant)) = Strong)
     in (- (case map_of scores (ph_id photo) of None \<Rightarrow> 0 | Some s \<Rightarrow> s),
         - (if strong then 1 else 0), - ph_created_at photo))"

definition hybrid_items :: "settings \<Rightarrow> db \<Rightarrow> search_session \<Rightarrow> uuid \<Rightarrow> participant \<Rightarrow> search_item list" where
  "hybrid_items cfg d s event_id participant =
    (let is_bib_only = (filter (\<lambda>i. si_search_session_id i = fs_id s) (search_images d) = []);
         scores = best_face_scores cfg d (fs_id s) event_id;
         ids = candidate_photo_ids cfg d (fs_id s) event_id (pa_id participant);
         ps = sort_key (\<lambda>p. - ph_created_at p)
           (filter (\<lambda>p. ph_event_id p = event_id \<and> ph_id p \<in> set ids) (photos d))
     in sort_key (item_rank d is_bib_only scores participant)
          (List.map_filter (hybrid_item cfg d is_bib_only scores participant) ps))"

text \<open>The loop over the results of a session without a participant keeps the best score per photo.\<close>

definition best_step :: "settings \<Rightarrow> db \<Rightarrow> (uuid \<times> photo \<times> real) list \<Rightarrow> search_result \<Rightarrow> (uuid \<times> photo \<times> real) list" where
  "best_step cfg d best r =
    (case row_at ph_id (sr_photo_id r) (photos d) of
       None \<Rightarrow> best
     | Some p \<Rightarrow>
         if sr_similarity_score r < face_strong_similarity_threshold cfg then best
         else (case map_of best (sr_photo_id r) of
                 None \<Rightarrow> best @ [(sr_photo_id r, p, sr_similarity_score r)]
               | Some (_, s) \<Rightarrow>
                   if s < sr_similarity_score r
                   then AList.update (sr_photo_id r) (p, sr_similarity_score r) best else best))"

definition list_legacy_face_search_photo_items :: "settings \<Rightarrow> db \<Rightarrow> uuid \<Rightarrow> uuid \<Rightarrow> search_item list" where
  "list_legacy_face_search_photo_items cfg d session_id event_id =
    (let rows = order_limit (\<lambda>r. (- sr_similarity_score r, - sr_created_at r)) (nat (max_search_results cfg))
           (event_results d session_id event_id);
         best = map snd (foldl (best_step cfg d) [] rows)
     in map (\<lambda>(p, s). \<lparr>it_photo = p, it_photo_url = None, it_participants = [], it_values = [],
           it_labels = (''Strong face score '' @ format_fixed 2 s) # build_photo_evidence_labels d (ph_id p) []\<rparr>)
         (sort_key (\<lambda>(p, s). (- s, - ph_created_at p)) best))"

definition paginate_user_search_photo_items ::
    "(str \<Rightarrow> str option) \<Rightarrow> search_item list \<Rightarrow> int \<Rightarrow> int \<Rightarrow> search_item list" where
  "paginate_user_search_photo_items url items offset limit =
    (let safe_offset = max 0 offset; safe_limit = max 1 (min limit 20)
     in map (\<lambda>it. it\<lparr>it_photo_url := safe_photo_preview_url url (it_photo it)\<rparr>)
          (take (nat safe_limit) (drop (nat safe_offset) items)))"

definition session_items :: "settings \<Rightarrow> db \<Rightarrow> search_session \<Rightarrow> uuid \<Rightarrow> search_item list" where
  "session_items cfg d s event_id =
    (case Option.bind (fs_participant_id s) (\<lambda>p. row_at pa_id p (participants d)) of
       None \<Rightarrow> list_legacy_face_search_photo_items cfg d (fs_id s) event_id
     | Some participant \<Rightarrow> hybrid_items cfg d s event_id participant)"

definition list_face_search_photo_items ::
    "settings \<Rightarrow> (str \<Rightarrow> str option) \<Rightarrow> db \<Rightarrow> uuid \<Rightarrow> str \<Rightarrow> int \<Rightarrow> int \<Rightarrow>
     search_session option \<times> search_item list \<times> int" where
  "list_face_search_photo_items cfg url d event_id face_session_id offset limit =
    (case parse_uuid face_session_id of
       None \<Rightarrow> (None, [], 0)
     | Some i \<Rightarrow>
         (case find (\<lambda>s. fs_id s = i \<and> fs_event_id s = event_id) (search_sessions d) of
            None \<Rightarrow> (None, [], 0)
          | Some s \<Rightarrow>
              (let items = session_items cfg d s event_id
               in (Some s, paginate_user_search_photo_items url items offset limit, int (length items)))))"

section \<open>Who may see the results\<close>

definition SEARCH_RESULTS_PAGE_SIZE :: int where
  "SEARCH_RESULTS_PAGE_SIZE = 20"

definition session_matches :: "crypto \<Rightarrow> settings \<Rightarrow> time \<Rightarrow> str \<Rightarrow> search_capability \<Rightarrow> search_session \<Rightarrow> bool" where
  "session_matches cr cfg now visitor_id capability s \<longleftrightarrow>
     now < fs_expires_at s \<and>
     (case fs_capability_hash s of None \<Rightarrow> False | Some h \<Rightarrow> h \<noteq> [] \<and> h = sc_capability_hash capability) \<and>
     (case fs_owner_binding_hash s of None \<Rightarrow> False
      | Some h \<Rightarrow> h \<noteq> [] \<and> h = sc_owner_hash capability \<and> h = owner_binding_hash cr cfg visitor_id)"

definition authorized_search_results ::
    "crypto \<Rightarrow> settings \<Rightarrow> (json \<Rightarrow> str) \<Rightarrow> (str \<Rightarrow> str option) \<Rightarrow> time \<Rightarrow> (str \<rightharpoonup> str) \<Rightarrow> str \<Rightarrow> db \<Rightarrow> uuid \<Rightarrow>
     int \<Rightarrow> int \<Rightarrow> (search_session option \<times> search_item list \<times> int) result" where
  "authorized_search_results cr cfg repr_of url now cookies visitor_id d event_id offset limit =
    (case request_search_capability cr cfg repr_of now cookies visitor_id (uuid_str event_id) of
       Inl e \<Rightarrow> Inl e
     | Inr None \<Rightarrow> Inr (None, [], 0)
     | Inr (Some capability) \<Rightarrow>
         (case list_face_search_photo_items cfg url d event_id (sc_session_id capability) offset limit of
            (None, _) \<Rightarrow> Inr (None, [], 0)
          | (Some s, results, found) \<Rightarrow>
              if session_matches cr cfg now visitor_id capability s then Inr (Some s, results, found)
              else Inr (None, [], 0)))"

text \<open>\<^verbatim>\<open>page\<close> is the query parameter, \<^verbatim>\<open>"1"\<close> when it is absent.\<close>

definition search_results_page_number :: "settings \<Rightarrow> str \<Rightarrow> int" where
  "search_results_page_number cfg page =
    (case int_of_str page of
       None \<Rightarrow> 1
     | Some n \<Rightarrow>
         (let max_page = max 1 ((max_search_results cfg + SEARCH_RESULTS_PAGE_SIZE - 1) div SEARCH_RESULTS_PAGE_SIZE)
          in max 1 (min n max_page)))"

definition find_event_participant :: "db \<Rightarrow> uuid \<Rightarrow> str \<Rightarrow> participant option" where
  "find_event_participant d event_id query =
    (case take 2 (filter (\<lambda>p. pa_event_id p = event_id \<and> pa_bib_lookup p = normalize_bib_lookup query) (participants d)) of
       [p] \<Rightarrow> Some p
     | _ \<Rightarrow>
         (case take 2 (filter (\<lambda>p. pa_event_id p = event_id \<and> pa_name_lookup p = normalize_name_lookup query) (participants d)) of
            [p] \<Rightarrow> Some p
          | _ \<Rightarrow> None))"

text \<open>\<^verbatim>\<open>user_download_all_photos\<close> fetches page after page until the total is reached.  The fuel of the
  loop is the number of fetches it may make; \<^term>\<open>None\<close> is running out of it.  \<^verbatim>\<open>fetch\<close> is the call
  of \<^verbatim>\<open>authorized_search_results\<close> at an offset.\<close>

fun download_loop :: "nat \<Rightarrow> (int \<Rightarrow> (search_session option \<times> search_item list \<times> int) result) \<Rightarrow>
    int \<Rightarrow> int \<Rightarrow> photo list \<Rightarrow> photo list result option" where
  "download_loop 0 fetch offset found acc = None"
| "download_loop (Suc n) fetch offset found acc =
    (if \<not> offset < found then Some (Inr acc)
     else
       case fetch offset of
         Inl e \<Rightarrow> Some (Inl e)
       | Inr (None, _) \<Rightarrow>
           Some (Inl (HTTPException 403 ''Search results are no longer available. Start a new search.''))
       | Inr (Some _, items, total') \<Rightarrow>
           if items = [] then Some (Inr acc)
           else download_loop n fetch (offset + SEARCH_RESULTS_PAGE_SIZE) total' (acc @ map it_photo items))"

definition downloadable :: "photo list \<Rightarrow> photo list result" where
  "downloadable ps =
    (if ps = [] then Inl (HTTPException 404 ''No matched photos are available to download.'')
     else if 3500000000 < sum_list (map ph_file_size ps)
     then Inl (HTTPException 413 ''This result set is too large for one archive. Download photos individually.'')
     else Inr ps)"

end
