(* ===== verification/CapabilityFacts.thy ===== *)
theory CapabilityFacts
  imports Capability
begin

text \<open>
  What a search capability promises: the cookie the server issues is read back by the same visitor
  for the same event until it expires, and by nobody else.
\<close>

section \<open>Reading back a payload\<close>

text \<open>The values of a payload: plain text and natural numbers.\<close>

fun simple_value :: "json \<Rightarrow> bool" where
  "simple_value (JStr s) \<longleftrightarrow> (\<forall>c \<in> set s. plain_char c)"
| "simple_value (JInt i) \<longleftrightarrow> 0 \<le> i"
| "simple_value _ \<longleftrightarrow> False"

definition ends_value :: "char \<Rightarrow> bool" where
  "ends_value c \<longleftrightarrow> c = CHR '','' \<or> c = CHR ''}''"

lemma json_char_plain: "plain_char c \<Longrightarrow> json_char c = [c]"
  by (auto simp: json_char_def plain_char_def Let_def)

lemma json_string_plain: "\<forall>c \<in> set s. plain_char c \<Longrightarrow> json_string s = CHR 34 # s @ [CHR 34]"
  by (induction s) (auto simp: json_string_def json_char_plain)

lemma read_word_none:
  assumes "is_digit c"
  shows "read_word json_words (c # cs) = None"
proof -
  have "c \<notin> {CHR ''n'', CHR ''t'', CHR ''f'', CHR ''N'', CHR ''I'', CHR ''-''}"
    using digit_not_minus[OF assms] by blast
  then have "filter (\<lambda>(w, _). prefix w (c # cs)) json_words = []"
    unfolding json_words_def by (simp only: filter.simps prod.case Cons_prefix_Cons) auto
  then show ?thesis by (simp add: read_word_def)
qed

lemma read_simple:
  assumes "simple_value v" "ends_value x" "json_encode fr v = Some w"
  shows "json_read (Suc m) (w @ x # r) = Some (v, x # r)"
  using assms
proof (cases v)
  case (JStr s)
  with assms have w: "w = CHR 34 # s @ [CHR 34]" and p: "\<forall>c \<in> set s. plain_char c"
    by (auto simp: json_string_plain)
  have "json_read_string (s @ CHR 34 # x # r) = Some (s, x # r)" using p by (rule read_plain_string)
  then show ?thesis by (simp add: w JStr char_code_def)
next
  case (JInt i)
  with assms have w: "w = nat_digits (nat i)" and i: "0 \<le> i" by (auto simp: int_str_def)
  obtain c cs where c: "nat_digits (nat i) = c # cs"
    by (cases "nat_digits (nat i)") (use nat_digits_not_Nil in auto)
  then have d: "is_digit c" using nat_digits_digits[of "nat i"] by simp
  have n: "json_read_number (c # cs @ x # r) = Some (JInt i, x # r)"
    using read_nat[of x "nat i" r] assms(2) i
    by (auto simp: ends_value_def is_digit_def char_code_def c)
  show ?thesis
    using digit_not_minus[OF d] n read_word_none[OF d] by (simp add: w JInt c)
qed auto

definition item :: "(real \<Rightarrow> str) \<Rightarrow> str \<times> json \<Rightarrow> str" where
  "item fr kv = json_string (fst kv) @ '':'' @ (case json_encode fr (snd kv) of None \<Rightarrow> [] | Some w \<Rightarrow> w)"

lemma simple_encodes: "simple_value v \<Longrightarrow> \<exists>c w. json_encode fr v = Some (c # w) \<and> \<not> json_space c"
proof (cases v)
  case (JInt i)
  assume "simple_value v"
  with JInt have "0 \<le> i" by simp
  moreover obtain c cs where c: "nat_digits (nat i) = c # cs"
    by (cases "nat_digits (nat i)") (use nat_digits_not_Nil in auto)
  moreover have "is_digit c" using nat_digits_digits[of "nat i"] c by simp
  ultimately show ?thesis using JInt by (auto simp: int_str_def json_space_def is_digit_def)
qed (auto simp: json_string_def json_space_def char_code_def)

lemma skip_space_id: "\<not> json_space c \<Longrightarrow> skip_space (c # s) = c # s"
  by (simp add: skip_space_def)

lemma punctuation_not_space [simp]:
  "\<not> json_space CHR '':''" "\<not> json_space CHR '',''" "\<not> json_space CHR ''}''" "\<not> json_space CHR ''{''"
  "\<not> json_space CHR 34"
  by (simp_all add: json_space_def char_code_def)

lemma read_member:
  assumes "\<forall>c \<in> set k. plain_char c" "simple_value v" "ends_value x"
  shows "json_read_members (Suc (Suc n)) (item fr (k, v) @ x # r) =
    (if x = CHR ''}'' then Some ([(k, v)], r)
     else map_option (\<lambda>(kvs, r). ((k, v) # kvs, r)) (json_read_members (Suc n) (skip_space r)))"
proof -
  obtain c w where w: "json_encode fr v = Some (c # w)" and sp: "\<not> json_space c"
    using simple_encodes[OF assms(2)] by blast
  have e: "item fr (k, v) @ x # r = CHR 34 # k @ CHR 34 # CHR '':'' # (c # w) @ x # r"
    by (simp add: item_def w json_string_plain[OF assms(1)])
  have k: "json_read_string (k @ CHR 34 # CHR '':'' # (c # w) @ x # r) = Some (k, CHR '':'' # (c # w) @ x # r)"
    using assms(1) by (rule read_plain_string)
  have v: "json_read (Suc n) ((c # w) @ x # r) = Some (v, x # r)"
    by (rule read_simple[OF assms(2,3) w])
  have nx: "\<not> json_space x" using assms(3) by (auto simp: ends_value_def)
  show ?thesis
    unfolding e using k v nx sp assms(3)
    by (auto simp: skip_space_id ends_value_def char_code_def simp del: json_read.simps)
qed

lemma read_members:
  "kvs \<noteq> [] \<Longrightarrow> \<forall>(k, v) \<in> set kvs. (\<forall>c \<in> set k. plain_char c) \<and> simple_value v \<Longrightarrow> length kvs < n \<Longrightarrow>
   json_read_members n (join '','' (map (item fr) kvs) @ CHR ''}'' # r) = Some (kvs, r)"
proof (induction kvs arbitrary: n)
  case (Cons kv kvs)
  obtain k v where kv: "kv = (k, v)" by (cases kv)
  from Cons.prems(2) kv have p: "\<forall>c \<in> set k. plain_char c" "simple_value v" by auto
  obtain m where n: "n = Suc (Suc m)" using Cons.prems(3) by (cases n; cases "n - 1") auto
  show ?case
  proof (cases kvs)
    case Nil
    then show ?thesis using read_member[OF p, of "CHR ''}''" m fr r] by (simp add: n kv ends_value_def)
  next
    case (Cons kv' kvs')
    define rest where "rest = join '','' (map (item fr) kvs) @ CHR ''}'' # r"
    have j: "join '','' (map (item fr) (kv # kvs)) @ CHR ''}'' # r = item fr (k, v) @ CHR '','' # rest"
      by (simp add: kv Cons rest_def)
    obtain x xs where rx: "rest = CHR 34 # xs"
      by (simp add: rest_def Cons item_def json_string_def) (cases kvs'; simp)
    have "json_read_members (Suc m) rest = Some (kvs, r)"
      using Cons.IH[of "Suc m"] Cons.prems n Cons unfolding rest_def by auto
    then show ?thesis
      unfolding j n using read_member[OF p, of "CHR '',''" m fr rest]
      by (simp add: ends_value_def rx skip_space_id kv)
  qed
qed simp


lemma encode_items:
  "\<forall>(k, v) \<in> set kvs. simple_value v \<Longrightarrow> json_encode_items fr kvs = Some (map (item fr) kvs)"
proof (induction kvs)
  case (Cons kv kvs)
  obtain k v where kv: "kv = (k, v)" by (cases kv)
  with Cons.prems obtain w where "json_encode fr v = Some w"
    using simple_encodes[of v fr] by auto
  with Cons show ?case by (simp add: kv item_def)
qed simp

lemma dict_of_distinct:
  "distinct (map fst kvs) \<Longrightarrow> dict_of kvs = kvs"
proof (induction kvs rule: rev_induct)
  case (snoc kv kvs)
  obtain k v where kv: "kv = (k, v)" by (cases kv)
  have "k \<notin> fst ` set kvs \<Longrightarrow> AList.update k v kvs = kvs @ [(k, v)]"
    by (induction kvs) auto
  with snoc kv show ?case by (auto simp: dict_of_def)
qed (simp add: dict_of_def)

lemma length_join: "length ws \<le> length (join '','' ws) + 1"
  by (induction "'',''" ws rule: join.induct) auto

text \<open>\<^verbatim>\<open>json.loads\<close> inverts \<^verbatim>\<open>json.dumps\<close> on dicts of plain text and natural numbers.\<close>

lemma loads_dumps:
  assumes "kvs \<noteq> []" "distinct (map fst kvs)"
    and "\<forall>(k, v) \<in> set kvs. (\<forall>c \<in> set k. plain_char c) \<and> simple_value v"
  shows "json_loads (json_dumps (JDict kvs)) = Some (JDict kvs)"
proof -
  let ?body = "join '','' (map (item (\<lambda>_. [])) kvs)"
  have "\<forall>(k, v) \<in> set kvs. simple_value v" using assms(3) by fast
  then have d: "json_dumps (JDict kvs) = CHR ''{'' # ?body @ ''}''"
    by (simp add: json_dumps_def encode_items)
  obtain x xs where q: "?body = CHR 34 # xs"
    using assms(1) by (cases kvs; cases "tl kvs") (auto simp: item_def json_string_def)
  have fuel: "length kvs < length (json_dumps (JDict kvs))"
    using length_join[of "map (item (\<lambda>_. [])) kvs"] by (simp add: d)
  have m: "json_read_members (length (json_dumps (JDict kvs))) (?body @ CHR ''}'' # []) = Some (kvs, [])"
    by (rule read_members[OF assms(1,3) fuel])
  have "char_code CHR ''{'' \<noteq> 34" by (simp add: char_code_def)
  with m have "json_read (Suc (length (json_dumps (JDict kvs)))) (CHR ''{'' # ?body @ ''}'') = Some (JDict kvs, [])"
    by (simp add: q skip_space_id dict_of_distinct[OF assms(2)])
  moreover have "skip_space (json_dumps (JDict kvs)) = CHR ''{'' # ?body @ ''}''"
    by (simp add: d skip_space_id)
  ultimately show ?thesis by (simp add: json_loads_def skip_space_def)
qed

section \<open>Signatures and digests\<close>

lemma b64_no_dot: "CHR ''.'' \<notin> set (b64encode s)"
proof -
  have b: "n < 64 \<Longrightarrow> CHR ''.'' \<noteq> b64_char n" for n
    using code_b64_char[of n] by (auto simp: char_code_def split: if_splits dest!: arg_cong[of _ _ char_code])
  show ?thesis by (induction s rule: b64encode.induct) (auto simp: Let_def b)
qed

lemma plain_digit_char: "n < 16 \<Longrightarrow> plain_char (digit_char n)"
  by (auto simp: plain_char_def digit_char_def char_code_def)

lemma plain_padded: "\<forall>c \<in> set (padded_digits 16 k n). plain_char c"
  by (induction k arbitrary: n) (auto intro: plain_digit_char)

lemma plain_hexdigest: "\<forall>c \<in> set (hexdigest s). plain_char c"
  using plain_padded by (auto simp: hexdigest_def)

lemma plain_uuid: "\<forall>c \<in> set (uuid_str u). plain_char c"
proof -
  have "plain_char CHR ''-''" by (simp add: plain_char_def char_code_def)
  then show ?thesis
    using plain_padded[of 32 "unat u"] by (auto simp: uuid_str_def Let_def dest: in_set_takeD in_set_dropD)
qed

lemma plain_keys:
  "\<forall>c \<in> set ''cap''. plain_char c" "\<forall>c \<in> set ''eid''. plain_char c" "\<forall>c \<in> set ''exp''. plain_char c"
  "\<forall>c \<in> set ''own''. plain_char c" "\<forall>c \<in> set ''sid''. plain_char c"
  by (simp_all add: plain_char_def char_code_def)

lemma payload_readable:
  assumes "\<forall>c \<in> set sid. plain_char c" "\<forall>c \<in> set eid. plain_char c" "\<forall>c \<in> set cap. plain_char c"
    and "0 \<le> n"
  shows "json_loads (json_dumps (capability_payload sid eid cap n (hexdigest h))) =
    Some (capability_payload sid eid cap n (hexdigest h))"
  unfolding capability_payload_def
  by (rule loads_dumps) (use assms plain_keys plain_hexdigest[of h] in simp_all)

text \<open>The outcome of decoding a cookie the server issued: it depends only on the clock, the event and
  the owner.\<close>

definition expiry_second :: "settings \<Rightarrow> time \<Rightarrow> int" where
  "expiry_second cfg now = (now + seconds (search_capability_ttl_seconds cfg)) div 1000000"

lemma decode_issued:
  fixes cr :: crypto and vis :: str
  assumes "\<forall>c \<in> set sid. plain_char c" "\<forall>c \<in> set eid. plain_char c" "\<forall>c \<in> set cap. plain_char c"
    and "0 \<le> expiry_second cfg now" "expiry_second cfg now \<le> 253402300799"
  defines "issued \<equiv> issue_search_capability cr cfg now cap sid eid vis"
  shows "decode_search_capability cr cfg repr_of now' (sc_secret issued) eid' vis' =
    Inr (if now' < seconds (expiry_second cfg now) \<and> eid' = eid \<and>
            owner_binding_hash cr cfg vis' = owner_binding_hash cr cfg vis
         then Some (issued\<lparr>sc_expires_at := seconds (expiry_second cfg now)\<rparr>) else None)"
proof -
  let ?own = "owner_binding_hash cr cfg vis" and ?n = "expiry_second cfg now"
  let ?payload = "capability_payload sid eid cap ?n ?own"
  let ?enc = "b64encode (json_dumps ?payload)"
  have sec: "sc_secret issued = ?enc @ CHR ''.'' # signature_of cr cfg ?enc"
    by (simp add: issued_def issue_search_capability_def Let_def expiry_second_def)
  have issued: "issued\<lparr>sc_expires_at := seconds ?n\<rparr> = \<lparr>sc_session_id = sid, sc_event_id = eid,
      sc_secret = sc_secret issued, sc_expires_at = seconds ?n, sc_capability_hash = secret_hash cr cap,
      sc_owner_hash = ?own\<rparr>"
    by (simp add: issued_def issue_search_capability_def Let_def)
  have part: "partition_at CHR ''.'' (sc_secret issued) = (?enc, True, signature_of cr cfg ?enc)"
    unfolding sec by (rule partition_at_join) (rule b64_no_dot)
  have load: "json_loads (json_dumps ?payload) = Some ?payload"
    using payload_readable[OF assms(1-4)] by (simp add: owner_binding_hash_def)
  have expf: "json_field ''exp'' ?payload = Some (JInt ?n)" "json_field ''eid'' ?payload = Some (JStr eid)"
    "json_field ''own'' ?payload = Some (JStr ?own)" "json_field ''cap'' ?payload = Some (JStr cap)"
    "json_field ''sid'' ?payload = Some (JStr sid)"
    by (simp_all add: json_field_def capability_payload_def)
  have ts: "from_timestamp ?n = Inr (Some (seconds ?n))"
    using assms(4,5) by (simp add: from_timestamp_def)
  have "decode_search_capability cr cfg repr_of now' (sc_secret issued) eid' vis' =
      Inr (accept_payload cr cfg repr_of now' (sc_secret issued) eid' vis' ?payload (seconds ?n))"
    by (simp add: decode_search_capability_def part load expf(1) int_of_json_def ts)
  also have "... = Inr (if now' < seconds ?n \<and> eid' = eid \<and> owner_binding_hash cr cfg vis' = ?own
         then Some (issued\<lparr>sc_expires_at := seconds ?n\<rparr>) else None)"
    unfolding issued
    by (auto simp: accept_payload_def json_field_def capability_payload_def str_of_json_def)
  finally show ?thesis .
qed

text \<open>Whatever is accepted carries the server's signature, names the event and the visitor, and has not
  expired.\<close>

lemma decode_accepts:
  assumes "decode_search_capability cr cfg repr_of now value eid vis = Inr (Some c)"
  shows "\<exists>p. value = p @ ''.'' @ signature_of cr cfg p"
    and "now < sc_expires_at c" "sc_event_id c = eid" "sc_owner_hash c = owner_binding_hash cr cfg vis"
proof -
  obtain p f s where part: "partition_at CHR ''.'' value = (p, f, s)" by (metis prod_cases3)
  with assms have f: "f" "s = signature_of cr cfg p"
    by (auto simp: decode_search_capability_def split: if_splits)
  have "value = p @ CHR ''.'' # s"
    using part f(1) by (simp add: partition_at_split)
  with f(2) show "\<exists>p. value = p @ ''.'' @ signature_of cr cfg p" by auto
  obtain payload e where "accept_payload cr cfg repr_of now value eid vis payload e = Some c"
    using assms part f by (auto simp: decode_search_capability_def split: option.splits sum.splits if_splits)
  then show "now < sc_expires_at c" "sc_event_id c = eid" "sc_owner_hash c = owner_binding_hash cr cfg vis"
    by (auto simp: accept_payload_def split: option.splits if_splits)
qed

end
