(* ===== verification/ListingFacts.thy ===== *)
theory ListingFacts
  imports Listing CapabilityFacts
begin

text \<open>
  Who sees which photos: identifiers are read back as printed, a request sees search results only
  with a live capability of its own session and event, the capability bound to a session does open
  its results, and the download of all results visits every one of them.
\<close>

section \<open>Identifiers are read back as printed\<close>

definition hex_lower :: "char \<Rightarrow> bool" where
  "hex_lower c \<longleftrightarrow> is_digit c \<or> (97 \<le> char_code c \<and> char_code c \<le> 102)"

lemma hex_lower_digit_char: "n < 16 \<Longrightarrow> hex_lower (digit_char n)"
  by (auto simp: hex_lower_def is_digit_def digit_char_def char_code_def)

lemma hex_lower_padded: "\<forall>c \<in> set (padded_digits 16 k n). hex_lower c"
  by (induction k arbitrary: n) (auto intro: hex_lower_digit_char)

lemma length_padded [simp]: "length (padded_digits b k n) = k"
  by (induction k arbitrary: n) auto

lemma hex_digit_value_char: "n < 16 \<Longrightarrow> hex_digit_value (digit_char n) = n"
  by (auto simp: hex_digit_value_def hex_value_def is_digit_def digit_char_def char_code_def)

lemma padded_value:
  "foldl (\<lambda>n c. n * 16 + hex_digit_value c) a (padded_digits 16 k n) = a * 16 ^ k + n mod 16 ^ k"
proof (induction k arbitrary: n)
  case (Suc k)
  have m: "n mod 16 ^ Suc k = 16 * (n div 16 mod 16 ^ k) + n mod 16"
    by (simp add: mod_mult2_eq)
  have "hex_digit_value (digit_char (n mod 16)) = n mod 16" by (rule hex_digit_value_char) simp
  then show ?case unfolding m by (simp only: padded_digits.simps foldl_append foldl.simps Suc.IH) simp
qed simp

lemma remove_all_id: "hd w \<notin> set s \<Longrightarrow> w \<noteq> [] \<Longrightarrow> remove_all w s = s"
  by (induction s) (auto simp: prefix_def neq_Nil_conv)

lemma strip_chars_id: "\<forall>c \<in> set s. \<not> p c \<Longrightarrow> strip_chars p s = s"
proof -
  assume n: "\<forall>c \<in> set s. \<not> p c"
  then have "dropWhile p t = t" if "set t \<subseteq> set s" for t using that by (cases t) auto
  then show ?thesis by (simp add: strip_chars_def)
qed

lemma split_on_none: "x \<notin> set s \<Longrightarrow> split_on x s = [s]"
  by (induction s) auto

lemma hex_lower_not:
  assumes "hex_lower c"
  shows "c \<noteq> CHR ''u''" "c \<noteq> CHR ''x''" "c \<noteq> CHR ''X''" "c \<noteq> CHR ''_''" "c \<noteq> CHR ''-''" "c \<noteq> CHR ''+''"
    "c \<noteq> CHR ''{''" "c \<noteq> CHR ''}''" "\<not> is_space c" "hex_value c \<noteq> None"
  using assms by (auto simp: hex_lower_def is_digit_def is_space_def hex_value_def char_code_def)

lemma not_hex_lower [simp]:
  "\<not> hex_lower CHR ''u''" "\<not> hex_lower CHR ''{''" "\<not> hex_lower CHR ''}''" "CHR ''u'' \<noteq> CHR ''-''"
  by (simp_all add: hex_lower_def is_digit_def char_code_def)

lemma int16_hex:
  assumes "\<forall>c \<in> set h. hex_lower c" "h \<noteq> []"
  shows "int16 h = Some (foldl (\<lambda>n c. n * 16 + hex_digit_value c) 0 h)"
proof -
  have s: "strip h = h" unfolding strip_def using assms(1) hex_lower_not(9) by (intro strip_chars_id) blast
  have "hd h \<in> set h" using assms(2) by simp
  then have p: "hd h \<noteq> CHR ''+''" using assms(1) hex_lower_not(6) by blast
  have "CHR ''x'' \<notin> set h" "CHR ''X'' \<notin> set h" using assms(1) hex_lower_not(2,3) by blast+
  then have "\<not> prefix ''0x'' h" "\<not> prefix ''0X'' h" by (auto simp: prefix_def)
  moreover have "split_on CHR ''_'' h = [h]" using assms(1) hex_lower_not(4) by (intro split_on_none) blast
  moreover have "\<forall>c \<in> set h. hex_value c \<noteq> None" using assms(1) hex_lower_not(10) by blast
  ultimately show ?thesis using p assms(2) by (simp add: int16_def s)
qed

lemma uuid_groups:
  assumes "length h = 32"
  shows "take 8 h @ take 4 (drop 8 h) @ take 4 (drop 12 h) @ take 4 (drop 16 h) @ drop 20 h = h"
proof -
  have "drop 16 h = take 4 (drop 16 h) @ drop 20 h" using append_take_drop_id[of 4 "drop 16 h"] by simp
  moreover have "drop 12 h = take 4 (drop 12 h) @ drop 16 h" using append_take_drop_id[of 4 "drop 12 h"] by simp
  moreover have "drop 8 h = take 4 (drop 8 h) @ drop 12 h" using append_take_drop_id[of 4 "drop 8 h"] by simp
  ultimately show ?thesis by (metis append_take_drop_id)
qed

lemma filter_groups:
  assumes "\<forall>c \<in> set h. c \<noteq> x" "length h = 32"
  shows "filter (\<lambda>c. c \<noteq> x) (take 8 h @ [x] @ take 4 (drop 8 h) @ [x] @ take 4 (drop 12 h) @ [x] @
    take 4 (drop 16 h) @ [x] @ drop 20 h) = h"
proof -
  have f: "filter (\<lambda>c. c \<noteq> x) t = t" if "set t \<subseteq> set h" for t
    using that assms(1) by (auto intro: filter_True)
  have sub: "set (take i h) \<subseteq> set h" "set (take j (drop i h)) \<subseteq> set h" "set (drop i h) \<subseteq> set h" for i j
    by (meson in_set_takeD in_set_dropD subsetI)+
  show ?thesis
    unfolding filter_append f[OF sub(1)] f[OF sub(2)] f[OF sub(3)] by (simp add: uuid_groups[OF assms(2)])
qed

lemma parse_uuid_str [simp]: "parse_uuid (uuid_str u) = Some u"
proof -
  let ?h = "padded_digits 16 32 (unat u)"
  have h: "\<forall>c \<in> set ?h. hex_lower c" by (rule hex_lower_padded)
  have sub: "set (take i ?h) \<subseteq> set ?h" "set (take j (drop i ?h)) \<subseteq> set ?h" "set (drop i ?h) \<subseteq> set ?h" for i j
    by (meson in_set_takeD in_set_dropD subsetI)+
  have "set (uuid_str u) \<subseteq> insert CHR ''-'' (set ?h)"
    unfolding uuid_str_def Let_def set_append using sub by (intro Un_least) (simp_all add: subset_insertI2)
  then have chars: "hex_lower c \<or> c = CHR ''-''" if "c \<in> set (uuid_str u)" for c
    using that h by blast
  have no: "CHR ''u'' \<notin> set (uuid_str u)" "CHR ''{'' \<notin> set (uuid_str u)" "CHR ''}'' \<notin> set (uuid_str u)"
    using chars[of "CHR ''u''"] chars[of "CHR ''{''"] chars[of "CHR ''}''"] by auto
  then have r: "remove_all ''uuid:'' (remove_all ''urn:'' (uuid_str u)) = uuid_str u"
    by (simp add: remove_all_id)
  have s: "strip_chars (\<lambda>c. c = CHR ''{'' \<or> c = CHR ''}'') (uuid_str u) = uuid_str u"
    using no by (intro strip_chars_id) blast
  have nd: "\<forall>c \<in> set ?h. c \<noteq> CHR ''-''" using h hex_lower_not(5) by blast
  have f: "filter (\<lambda>c. c \<noteq> CHR ''-'') (uuid_str u) = ?h"
    unfolding uuid_str_def Let_def by (rule filter_groups[OF nd]) simp
  have ne: "?h \<noteq> []" by (simp flip: length_greater_0_conv)
  have "int16 ?h = Some (unat u mod 16 ^ 32)"
    unfolding int16_hex[OF h ne] padded_value by simp
  moreover have "unat u < 16 ^ 32" using unsigned_less[of u] by simp
  ultimately show ?thesis by (simp add: parse_uuid_def Let_def r s f)
qed


section \<open>What a listing contains\<close>

lemma set_dict_keys [simp]: "set (dict_keys xs) = set xs"
  by (simp add: dict_keys_def)

definition listed_photo :: "db \<Rightarrow> uuid \<Rightarrow> uuid \<Rightarrow> photo \<Rightarrow> bool" where
  "listed_photo d session_id event_id p \<longleftrightarrow> p \<in> set (photos d) \<and>
     (ph_event_id p = event_id \<or> (\<exists>r \<in> set (event_results d session_id event_id). sr_photo_id r = ph_id p))"

lemma hybrid_item_photo: "hybrid_item cfg d b scores pa p = Some it \<Longrightarrow> it_photo it = p"
  by (auto simp: hybrid_item_def Let_def split: if_splits)

lemma set_map_filter_Some: "y \<in> set (List.map_filter f xs) \<longleftrightarrow> (\<exists>x \<in> set xs. f x = Some y)"
  by (force simp: map_filter_def)

lemma hybrid_items_listed:
  assumes "it \<in> set (hybrid_items cfg d s e pa)"
  shows "listed_photo d (fs_id s) e (it_photo it)"
  using assms
  by (auto simp: hybrid_items_def Let_def set_map_filter_Some listed_photo_def dest: hybrid_item_photo)

lemma length_filter_keys:
  assumes "distinct (map key xs)"
  shows "length (filter (\<lambda>x. p x \<and> key x \<in> set ks) xs) \<le> length ks"
proof -
  let ?ys = "filter (\<lambda>x. p x \<and> key x \<in> set ks) xs"
  have "distinct (map key ?ys)" using assms by (induction xs) auto
  then have "length ?ys = card (key ` set ?ys)" using distinct_card[of "map key ?ys"] by simp
  also have "... \<le> card (set ks)" by (rule card_mono) auto
  also have "... \<le> length ks" by (rule card_length)
  finally show ?thesis .
qed

lemma hybrid_items_bound:
  assumes "distinct (map ph_id (photos d))"
  shows "length (hybrid_items cfg d s e pa) \<le> nat (max_search_results cfg)"
proof -
  let ?ids = "candidate_photo_ids cfg d (fs_id s) e (pa_id pa)"
  have "length (hybrid_items cfg d s e pa) \<le>
      length (filter (\<lambda>p. ph_event_id p = e \<and> ph_id p \<in> set ?ids) (photos d))"
    using length_map_filter by (fastforce simp: hybrid_items_def Let_def intro: order_trans)
  also have "... \<le> length ?ids" using assms by (rule length_filter_keys)
  also have "... \<le> nat (max_search_results cfg)" by (simp add: candidate_photo_ids_def)
  finally show ?thesis .
qed

lemma best_step_inv:
  assumes "\<forall>(i, p, x) \<in> set best. p \<in> set (photos d) \<and> ph_id p \<in> sr_photo_id ` R" "r \<in> R"
  shows "\<forall>(i, p, x) \<in> set (best_step cfg d best r). p \<in> set (photos d) \<and> ph_id p \<in> sr_photo_id ` R"
    and "length (best_step cfg d best r) \<le> Suc (length best)"
proof -
  have upd: "set (AList.update k v ys) \<subseteq> insert (k, v) (set ys)" for k v and ys :: "(uuid \<times> photo \<times> real) list"
    by (induction ys) auto
  have len: "length (AList.update k v ys) \<le> Suc (length ys)" for k v and ys :: "(uuid \<times> photo \<times> real) list"
    by (induction ys) auto
  have row: "row_at ph_id (sr_photo_id r) (photos d) = Some p \<Longrightarrow> p \<in> set (photos d) \<and> ph_id p \<in> sr_photo_id ` R" for p
    using assms(2) row_at_Some_iff by fastforce
  show "\<forall>(i, p, x) \<in> set (best_step cfg d best r). p \<in> set (photos d) \<and> ph_id p \<in> sr_photo_id ` R"
  proof (cases "row_at ph_id (sr_photo_id r) (photos d)")
    case None
    then show ?thesis using assms(1) by (simp add: best_step_def)
  next
    case (Some p)
    have "set (best_step cfg d best r) \<subseteq> insert (sr_photo_id r, p, sr_similarity_score r) (set best)"
      using upd[of "sr_photo_id r" "(p, sr_similarity_score r)" best]
      by (auto simp: best_step_def Some split: option.splits if_splits)
    then show ?thesis using assms(1) row[OF Some] by fast
  qed
  show "length (best_step cfg d best r) \<le> Suc (length best)"
    using len by (auto simp: best_step_def split: option.splits if_splits)
qed

lemma best_fold:
  "set rs \<subseteq> R \<Longrightarrow> (\<forall>(i, p, x) \<in> set best. p \<in> set (photos d) \<and> ph_id p \<in> sr_photo_id ` R) \<Longrightarrow>
   (\<forall>(i, p, x) \<in> set (foldl (best_step cfg d) best rs). p \<in> set (photos d) \<and> ph_id p \<in> sr_photo_id ` R) \<and>
   length (foldl (best_step cfg d) best rs) \<le> length best + length rs"
proof (induction rs arbitrary: best)
  case (Cons r rs)
  have "r \<in> R" "set rs \<subseteq> R" using Cons.prems(1) by auto
  note step = best_step_inv[OF Cons.prems(2) this(1), of cfg]
  from Cons.IH[OF \<open>set rs \<subseteq> R\<close> step(1)] step(2) show ?case by auto
qed simp

lemma legacy_items:
  shows "it \<in> set (list_legacy_face_search_photo_items cfg d sid e) \<Longrightarrow> listed_photo d sid e (it_photo it)"
    and "length (list_legacy_face_search_photo_items cfg d sid e) \<le> nat (max_search_results cfg)"
proof -
  let ?rows = "order_limit (\<lambda>r. (- sr_similarity_score r, - sr_created_at r)) (nat (max_search_results cfg))
      (event_results d sid e)"
  have b: "(\<forall>(i, p, x) \<in> set (foldl (best_step cfg d) [] ?rows). p \<in> set (photos d) \<and>
        ph_id p \<in> sr_photo_id ` set (event_results d sid e)) \<and>
      length (foldl (best_step cfg d) [] ?rows) \<le> length ?rows"
    using best_fold[of ?rows "set (event_results d sid e)" "[]" d cfg] by (simp add: order_limit_subset)
  then show "length (list_legacy_face_search_photo_items cfg d sid e) \<le> nat (max_search_results cfg)"
    by (auto simp: list_legacy_face_search_photo_items_def Let_def)
  show "listed_photo d sid e (it_photo it)" if "it \<in> set (list_legacy_face_search_photo_items cfg d sid e)"
    using that b by (fastforce simp: list_legacy_face_search_photo_items_def Let_def listed_photo_def)
qed

lemma session_items_listed:
  shows "it \<in> set (session_items cfg d s e) \<Longrightarrow> listed_photo d (fs_id s) e (it_photo it)"
    and "distinct (map ph_id (photos d)) \<Longrightarrow> length (session_items cfg d s e) \<le> nat (max_search_results cfg)"
  by (auto simp: session_items_def legacy_items hybrid_items_listed hybrid_items_bound split: option.splits)

lemma page_photos:
  "it \<in> set (paginate_user_search_photo_items url items offset limit) \<Longrightarrow> \<exists>it' \<in> set items. it_photo it = it_photo it'"
  by (auto simp: paginate_user_search_photo_items_def Let_def dest!: in_set_takeD in_set_dropD)

lemma page_length: "length (paginate_user_search_photo_items url items offset limit) \<le> 20"
  by (simp add: paginate_user_search_photo_items_def Let_def)

lemma find_SomeD: "find p xs = Some x \<Longrightarrow> x \<in> set xs \<and> p x"
  by (induction xs) (auto split: if_splits)

lemma authorized_cases:
  assumes "authorized_search_results cr cfg repr_of url now cookies vis d e offset limit = Inr (Some s, items, n)"
  obtains c where "request_search_capability cr cfg repr_of now cookies vis (uuid_str e) = Inr (Some c)"
    "s \<in> set (search_sessions d)" "fs_event_id s = e" "session_matches cr cfg now vis c s"
    "items = paginate_user_search_photo_items url (session_items cfg d s e) offset limit"
    "n = int (length (session_items cfg d s e))"
proof -
  obtain c where c: "request_search_capability cr cfg repr_of now cookies vis (uuid_str e) = Inr (Some c)"
    using assms by (auto simp: authorized_search_results_def split: sum.splits option.splits)
  have l: "list_face_search_photo_items cfg url d e (sc_session_id c) offset limit = (Some s, items, n)"
    and m: "session_matches cr cfg now vis c s"
    using assms by (auto simp: authorized_search_results_def c split: prod.splits option.splits if_splits)
  from l have "s \<in> set (search_sessions d)" "fs_event_id s = e"
    "items = paginate_user_search_photo_items url (session_items cfg d s e) offset limit"
    "n = int (length (session_items cfg d s e))"
    by (auto simp: list_face_search_photo_items_def Let_def split: option.splits dest!: find_SomeD)
  then show thesis using that c m by blast
qed


section \<open>Binding a capability\<close>

lemma find_unique:
  "distinct (map key xs) \<Longrightarrow> x \<in> set xs \<Longrightarrow> q x \<Longrightarrow> find (\<lambda>y. key y = key x \<and> q y) xs = Some x"
  by (induction xs) (auto simp: image_iff)

lemma bound_session_found:
  assumes "distinct (map fs_id (search_sessions d))" "s \<in> set (search_sessions d)" "fs_event_id s = e"
  shows "find (\<lambda>x. fs_id x = fs_id s \<and> fs_event_id x = e)
      (search_sessions (update_search_session (fs_id s) (bind_session c) d)) = Some (bind_session c s)"
proof -
  let ?rows = "search_sessions (update_search_session (fs_id s) (bind_session c) d)"
  have rows: "?rows = update_where (\<lambda>x. fs_id x = fs_id s) (bind_session c) (search_sessions d)"
    by (simp add: update_search_session_def)
  have "distinct (map fs_id ?rows)"
    unfolding rows using assms(1) by (subst update_where_key) (simp_all add: bind_session_def)
  moreover have "bind_session c s \<in> set ?rows"
    unfolding rows using assms(2) by (force simp: in_update_where)
  moreover have "fs_id (bind_session c s) = fs_id s" "fs_event_id (bind_session c s) = e"
    using assms(3) by (simp_all add: bind_session_def)
  ultimately show ?thesis using find_unique[of fs_id ?rows "bind_session c s" "\<lambda>x. fs_event_id x = e"] by simp
qed

lemma issued_fields:
  "sc_session_id (issue_search_capability cr cfg now cap sid eid vis) = sid"
  "sc_expires_at (issue_search_capability cr cfg now cap sid eid vis) = now + seconds (search_capability_ttl_seconds cfg)"
  "sc_owner_hash (issue_search_capability cr cfg now cap sid eid vis) = owner_binding_hash cr cfg vis"
  "sc_capability_hash (issue_search_capability cr cfg now cap sid eid vis) = secret_hash cr cap"
  "sc_secret (issue_search_capability cr cfg now cap sid eid vis) \<noteq> []"
  by (simp_all add: issue_search_capability_def Let_def)

lemma hexdigest_not_Nil: "s \<noteq> [] \<Longrightarrow> hexdigest s \<noteq> []"
  by (cases s) (simp_all add: hexdigest_def numeral_2_eq_2)

lemma bound_capability_decides:
  assumes "distinct (map fs_id (search_sessions d))" "s \<in> set (search_sessions d)" "fs_event_id s = e"
    and "\<forall>ch \<in> set secret. plain_char ch" "vis' \<noteq> []"
    and "0 \<le> expiry_second cfg now" "expiry_second cfg now \<le> 253402300799"
    and "\<forall>k x. hmac_sha256 cr k x \<noteq> []" "\<forall>x. sha256 cr x \<noteq> []"
    and "bind_search_capability cr cfg now secret vis e (fs_id s) d = (c, d')"
    and "cookies (search_cookie_name (uuid_str e)) = Some (sc_secret c)"
  shows "authorized_search_results cr cfg repr_of url now' cookies vis' d' e offset limit =
    Inr (if now' < seconds (expiry_second cfg now) \<and> owner_binding_hash cr cfg vis' = owner_binding_hash cr cfg vis
      then (Some (bind_session c s),
            paginate_user_search_photo_items url (session_items cfg d' (bind_session c s) e) offset limit,
            int (length (session_items cfg d' (bind_session c s) e)))
      else (None, [], 0))"
proof -
  let ?issued = "issue_search_capability cr cfg now secret (uuid_str (fs_id s)) (uuid_str e) vis"
  let ?n = "expiry_second cfg now"
  have c: "c = ?issued" and d': "d' = update_search_session (fs_id s) (bind_session c) d"
    using assms(10) by (auto simp: bind_search_capability_def Let_def)
  have dec: "decode_search_capability cr cfg repr_of now' (sc_secret c) (uuid_str e) vis' =
    Inr (if now' < seconds ?n \<and> owner_binding_hash cr cfg vis' = owner_binding_hash cr cfg vis
         then Some (c\<lparr>sc_expires_at := seconds ?n\<rparr>) else None)"
    unfolding c by (subst decode_issued[OF plain_uuid plain_uuid assms(4,6,7)]) simp
  have req: "request_search_capability cr cfg repr_of now' cookies vis' (uuid_str e) =
    Inr (if now' < seconds ?n \<and> owner_binding_hash cr cfg vis' = owner_binding_hash cr cfg vis
         then Some (c\<lparr>sc_expires_at := seconds ?n\<rparr>) else None)"
    using dec assms(5,11) issued_fields(5) by (simp add: request_search_capability_def c)
  show ?thesis
  proof (cases "now' < seconds ?n \<and> owner_binding_hash cr cfg vis' = owner_binding_hash cr cfg vis")
    case False
    then show ?thesis unfolding authorized_search_results_def req if_not_P[OF False] by simp
  next
    case True
    have found: "find (\<lambda>x. fs_id x = fs_id s \<and> fs_event_id x = e) (search_sessions d') = Some (bind_session c s)"
      unfolding d' by (rule bound_session_found[OF assms(1-3)])
    have "parse_uuid (sc_session_id c) = Some (fs_id s)" by (simp add: c issued_fields)
    then have l: "list_face_search_photo_items cfg url d' e (sc_session_id c) offset limit = (Some (bind_session c s),
        paginate_user_search_photo_items url (session_items cfg d' (bind_session c s) e) offset limit,
        int (length (session_items cfg d' (bind_session c s) e)))"
      by (simp add: list_face_search_photo_items_def found Let_def)
    have "seconds ?n \<le> now + seconds (search_capability_ttl_seconds cfg)"
      by (simp add: expiry_second_def seconds_def)
    then have "now' < fs_expires_at (bind_session c s)" using True by (simp add: bind_session_def c issued_fields)
    moreover have "owner_binding_hash cr cfg vis \<noteq> []" "secret_hash cr secret \<noteq> []"
      using assms(8,9) by (simp_all add: owner_binding_hash_def secret_hash_def hexdigest_not_Nil)
    ultimately have m: "session_matches cr cfg now' vis' (c\<lparr>sc_expires_at := seconds ?n\<rparr>) (bind_session c s)"
      using True by (simp add: session_matches_def bind_session_def c issued_fields)
    then show ?thesis
      unfolding authorized_search_results_def req if_P[OF True] by (simp add: l)
  qed
qed

section \<open>Downloading every page\<close>

lemma download_loop_pages:
  assumes "\<And>off. fetch off = Inr (Some s, paginate_user_search_photo_items url items off 20, int (length items))"
    and "length items < 20 * (k + n)"
  shows "download_loop (Suc n) fetch (20 * int k) (int (length items)) (map it_photo (take (20 * k) items)) =
    Some (Inr (map it_photo items))"
  using assms(2)
proof (induction n arbitrary: k)
  case 0
  then show ?case by simp
next
  case (Suc n)
  show ?case
  proof (cases "20 * k < length items")
    case False
    then show ?thesis by simp
  next
    case True
    let ?page = "paginate_user_search_photo_items url items (20 * int k) 20"
    have "map it_photo ?page = map it_photo (take 20 (drop (20 * k) items))"
      by (simp add: paginate_user_search_photo_items_def Let_def nat_mult_distrib comp_def)
    then have "map it_photo (take (20 * k) items) @ map it_photo ?page = map it_photo (take (20 * Suc k) items)"
      by (metis add.commute map_append mult_Suc_right take_add)
    moreover have "?page \<noteq> []"
      using True by (simp add: paginate_user_search_photo_items_def Let_def nat_mult_distrib)
    moreover have "download_loop (Suc n) fetch (20 * int (Suc k)) (int (length items))
        (map it_photo (take (20 * Suc k) items)) = Some (Inr (map it_photo items))"
      using Suc.prems by (intro Suc.IH) simp
    ultimately show ?thesis
      using True assms(1)[of "20 * int k"]
      by (subst download_loop.simps) (simp add: SEARCH_RESULTS_PAGE_SIZE_def algebra_simps)
  qed
qed

section \<open>The properties\<close>

lemma page_count: "n < 20 * (0 + (n div 20 + 2))" for n :: nat
  by presburger


text \<open>C10 (roundtrip): a capability opens the results of its session, for its visitor, until it expires.
  After a capability has been bound to a search session, a request that carries its cookie is shown
  that session exactly when it comes from a visitor with the same owner hash before the second the
  capability expires in; the identifiers, the signed payload and the hashes survive the trip through
  JSON, base64, the cookie and the database.  The digests are assumed not to be empty.\<close>

theorem capability_opens_results:
  assumes "distinct (map fs_id (search_sessions d))" "s \<in> set (search_sessions d)" "fs_event_id s = e"
    and "\<forall>ch \<in> set secret. plain_char ch" "vis' \<noteq> []"
    and "0 \<le> expiry_second cfg now" "expiry_second cfg now \<le> 253402300799"
    and "\<forall>k x. hmac_sha256 cr k x \<noteq> []" "\<forall>x. sha256 cr x \<noteq> []"
    and "bind_search_capability cr cfg now secret vis e (fs_id s) d = (c, d')"
    and "cookies (search_cookie_name (uuid_str e)) = Some (sc_secret c)"
  shows "authorized_search_results cr cfg repr_of url now' cookies vis' d' e offset limit =
    Inr (if now' < seconds (expiry_second cfg now) \<and> owner_binding_hash cr cfg vis' = owner_binding_hash cr cfg vis
      then (Some (bind_session c s),
            paginate_user_search_photo_items url (session_items cfg d' (bind_session c s) e) offset limit,
            int (length (session_items cfg d' (bind_session c s) e)))
      else (None, [], 0))"
  using assms by (rule bound_capability_decides)

text \<open>The download of all results ends and misses none.  When a visitor may see the
  results and neither they nor the clock change, the loop over the pages returns after at most
  \<^verbatim>\<open>total div 20 + 3\<close> rounds, with the photos of all items of the session, in their order.\<close>

theorem download_all_complete:
  assumes "\<And>off. authorized_search_results cr cfg repr_of url now cookies vis d e off 20 =
      Inr (Some s, paginate_user_search_photo_items url (session_items cfg d s e) off 20,
           int (length (session_items cfg d s e)))"
  shows "download_loop (length (session_items cfg d s e) div 20 + 3)
      (\<lambda>off. authorized_search_results cr cfg repr_of url now cookies vis d e off 20) 0 1 [] =
    Some (Inr (map it_photo (session_items cfg d s e)))"
proof -
  let ?items = "session_items cfg d s e"
  let ?fetch = "\<lambda>off. authorized_search_results cr cfg repr_of url now cookies vis d e off 20"
  have q: "length ?items div 20 + 3 = Suc (length ?items div 20 + 2)" by simp
  show ?thesis
  proof (cases "?items = []")
    case True
    then show ?thesis
      using assms[of 0] unfolding q download_loop.simps by (simp add: paginate_user_search_photo_items_def)
  next
    case False
    have "length ?items < 20 * (0 + (length ?items div 20 + 2))"
      by (rule page_count)
    from download_loop_pages[OF assms this]
    have "download_loop (Suc (length ?items div 20 + 2)) ?fetch 0 (int (length ?items)) [] =
        Some (Inr (map it_photo ?items))"
      by (simp only: int_ops(1) mult_zero_right mult_0_right take_0 list.map)
    moreover have "download_loop (Suc (length ?items div 20 + 2)) ?fetch 0 1 [] =
        download_loop (Suc (length ?items div 20 + 2)) ?fetch 0 (int (length ?items)) []"
      using False by (simp only: download_loop.simps) simp
    ultimately show ?thesis unfolding q by simp
  qed
qed

section \<open>Witnesses\<close>

definition demo_crypto :: crypto where
  "demo_crypto = \<lparr>hmac_sha256 = (\<lambda>k x. ''h''), sha256 = (\<lambda>x. ''s''), ephemeral_secret = ''e''\<rparr>"

definition demo_session :: search_session where
  "demo_session = \<lparr>fs_id = 7, fs_event_id = 1, fs_participant_id = None, fs_status = SessionCompleted,
     fs_error_message = None, fs_expires_at = 0, fs_capability_hash = None, fs_owner_binding_hash = None,
     fs_created_at = 0, fs_finished_at = None\<rparr>"

definition demo_results :: db where
  "demo_results = empty_db\<lparr>search_sessions := [demo_session]\<rparr>"

definition demo_bound :: "search_capability \<times> db" where
  "demo_bound = bind_search_capability demo_crypto default_settings 0 ''cap'' ''v'' 1 7 demo_results"

definition demo_cookies :: "str \<rightharpoonup> str" where
  "demo_cookies = [search_cookie_name (uuid_str 1) \<mapsto> sc_secret (fst demo_bound)]"

lemma demo_hypotheses:
  "distinct (map fs_id (search_sessions demo_results))" "demo_session \<in> set (search_sessions demo_results)"
  "fs_event_id demo_session = 1" "\<forall>ch \<in> set ''cap''. plain_char ch" "''v'' \<noteq> []"
  "0 \<le> expiry_second default_settings 0" "expiry_second default_settings 0 \<le> 253402300799"
  "\<forall>k x. hmac_sha256 demo_crypto k x \<noteq> []" "\<forall>x. sha256 demo_crypto x \<noteq> []"
  "bind_search_capability demo_crypto default_settings 0 ''cap'' ''v'' 1 (fs_id demo_session) demo_results =
     (fst demo_bound, snd demo_bound)"
  "demo_cookies (search_cookie_name (uuid_str 1)) = Some (sc_secret (fst demo_bound))"
  by (simp_all add: demo_results_def demo_session_def plain_char_def char_code_def expiry_second_def
      default_settings_def seconds_def demo_crypto_def demo_bound_def demo_cookies_def)

lemma demo_photos [simp]: "photos (snd demo_bound) = []"
  by (simp add: demo_bound_def bind_search_capability_def Let_def demo_results_def empty_db_def update_search_session_def)

lemma demo_time: "0 < seconds (expiry_second default_settings 0)"
  by (simp add: expiry_second_def default_settings_def seconds_def)

lemma demo_authorized:
  "authorized_search_results demo_crypto default_settings (\<lambda>_. []) (\<lambda>_. None) 0 demo_cookies ''v''
     (snd demo_bound) 1 off 20 = Inr (Some (bind_session (fst demo_bound) demo_session),
       paginate_user_search_photo_items (\<lambda>_. None)
         (session_items default_settings (snd demo_bound) (bind_session (fst demo_bound) demo_session) 1) off 20,
       int (length (session_items default_settings (snd demo_bound) (bind_session (fst demo_bound) demo_session) 1)))"
  using bound_capability_decides[where cookies = demo_cookies and now' = 0, OF demo_hypotheses] demo_time by simp


theorem capability_opens_results_witness:
  "\<exists>s items n. authorized_search_results demo_crypto default_settings (\<lambda>_. []) (\<lambda>_. None) 0 demo_cookies ''v''
     (snd demo_bound) 1 0 20 = Inr (Some s, items, n)"
  using capability_opens_results[where cookies = demo_cookies and now' = 0, OF demo_hypotheses] demo_time by auto

theorem download_all_complete_witness:
  "\<exists>n ps. download_loop n (\<lambda>off. authorized_search_results demo_crypto default_settings (\<lambda>_. []) (\<lambda>_. None) 0
     demo_cookies ''v'' (snd demo_bound) 1 off 20) 0 1 [] = Some (Inr ps)"
  using download_all_complete[OF demo_authorized] by blast

end
