(* ===== verification/Archive.thy ===== *)
theory Archive
  imports WebSecurity
begin

unbundle bit_operations_syntax

text \<open>
  \<^verbatim>\<open>backend/app/photo_archive.py\<close>: the names of the downloaded files and the ZIP archive that is
  streamed while the photos are read from the object storage.

  \<^verbatim>\<open>struct.pack\<close> writes little-endian fields and fails when a value does not fit; \<^verbatim>\<open>zlib.crc32\<close> is the
  bitwise checksum on 32-bit words.  The object storage is the argument \<^verbatim>\<open>fetch\<close>: the content of an
  object, or the exception that reading it raises.  The archive is the concatenation of what the
  generator yields; when an exception ends it, what was yielded before is kept.
\<close>

type_synonym byte = "8 word"

section \<open>File names\<close>

text \<open>\<^verbatim>\<open>PurePath(p).name\<close>: the last component that is neither empty nor a single dot.\<close>

definition path_name :: "str \<Rightarrow> str" where
  "path_name p = (case rev (filter (\<lambda>c. c \<noteq> [] \<and> c \<noteq> ''.'') (split_on CHR ''/'' p)) of [] \<Rightarrow> [] | c # _ \<Rightarrow> c)"

definition safe_download_name :: "str \<Rightarrow> str \<Rightarrow> str" where
  "safe_download_name file_name fallback =
    (let normalized = map (\<lambda>c. if c = CHR 92 then CHR ''/'' else c) file_name;
         name = filter (\<lambda>c. 32 \<le> char_code c \<and> c \<noteq> CHR 34 \<and> c \<noteq> CHR '':'') (path_name normalized);
         cut = strip_chars (\<lambda>c. c = CHR '' '' \<or> c = CHR ''.'') (take 200 name)
     in if cut = [] then fallback else cut)"

definition suffixed :: "str \<Rightarrow> nat \<Rightarrow> str" where
  "suffixed name k =
    (case rpartition_at CHR ''.'' name of
       (stem, dot, extension) \<Rightarrow>
         if dot then (if stem = [] then name else stem) @ ''-'' @ int_str (int k) @ ''.'' @ extension
         else name @ ''-'' @ int_str (int k))"

text \<open>The loop \<^verbatim>\<open>while candidate.casefold() in used\<close>; its fuel is the number of candidates it may try.\<close>

fun free_name :: "nat \<Rightarrow> str list \<Rightarrow> str \<Rightarrow> str \<Rightarrow> nat \<Rightarrow> str option" where
  "free_name 0 used name candidate k = None"
| "free_name (Suc n) used name candidate k =
    (if lower candidate \<in> set used then free_name n used name (suffixed name k) (k + 1)
     else Some candidate)"

fun unique_names :: "nat \<Rightarrow> str list \<Rightarrow> str list \<Rightarrow> str list option" where
  "unique_names index used [] = Some []"
| "unique_names index used (raw_name # rest) =
    (let name = safe_download_name raw_name (''photo-'' @ int_str (int index) @ ''.jpg'') in
     case free_name (Suc (length used)) used name name 2 of
       None \<Rightarrow> None
     | Some candidate \<Rightarrow>
         map_option ((#) candidate) (unique_names (index + 1) (lower candidate # used) rest))"

definition unique_download_names :: "str list \<Rightarrow> str list option" where
  "unique_download_names file_names = unique_names 1 [] file_names"

section \<open>Packing\<close>

fun le_bytes :: "nat \<Rightarrow> nat \<Rightarrow> byte list" where
  "le_bytes 0 n = []"
| "le_bytes (Suc k) n = of_nat (n mod 256) # le_bytes k (n div 256)"

text \<open>\<^verbatim>\<open>struct.pack\<close> with a little-endian format: the width and the value of every field.\<close>

definition struct_pack :: "(nat \<times> nat) list \<Rightarrow> byte list result" where
  "struct_pack fs =
    (if \<forall>(k, n) \<in> set fs. n < 256 ^ k then Inr (concat (map (\<lambda>(k, n). le_bytes k n) fs))
     else Inl (RuntimeError ''struct.error''))"

definition encode_text :: "str \<Rightarrow> byte list" where
  "encode_text s = map (\<lambda>c. of_nat (char_code c)) s"

definition crc_bit :: "32 word \<Rightarrow> 32 word" where
  "crc_bit c = (if odd c then drop_bit 1 c XOR 0xEDB88320 else drop_bit 1 c)"

definition crc_byte :: "32 word \<Rightarrow> byte \<Rightarrow> 32 word" where
  "crc_byte c b = (crc_bit ^^ 8) (c XOR ucast b)"

definition crc32 :: "byte list \<Rightarrow> 32 word \<Rightarrow> 32 word" where
  "crc32 data crc = NOT (foldl crc_byte (NOT crc) data)"

section \<open>The archive\<close>

definition ZIP32_MAX :: nat where
  "ZIP32_MAX = 0xFFFFFFFF"

definition ZIP_CHUNK_SIZE :: nat where
  "ZIP_CHUNK_SIZE = 256 * 1024"

record clock_time =
  ct_year :: int
  ct_month :: int
  ct_day :: int
  ct_hour :: int
  ct_minute :: int
  ct_second :: int

definition dos_timestamp :: "clock_time \<Rightarrow> int \<times> int" where
  "dos_timestamp now =
    (let year = max 1980 (min (ct_year now) 2107);
         dos_time = push_bit 11 (ct_hour now) OR push_bit 5 (ct_minute now) OR (ct_second now div 2);
         dos_date = push_bit 9 (year - 1980) OR push_bit 5 (ct_month now) OR ct_day now
     in (dos_time, dos_date))"

record central_record =
  ce_name :: "byte list"
  ce_crc :: "32 word"
  ce_file_size :: nat
  ce_local_offset :: nat
  ce_dos_time :: nat
  ce_dos_date :: nat

definition zip_flags :: nat where
  "zip_flags = 0x0008 OR 0x0800"

definition local_header :: "byte list \<Rightarrow> nat \<Rightarrow> nat \<Rightarrow> byte list result" where
  "local_header name dos_time dos_date = map_sum id (\<lambda>h. h @ name) (struct_pack
     [(4, 0x04034B50), (2, 20), (2, zip_flags), (2, 0), (2, dos_time), (2, dos_date), (4, 0), (4, 0), (4, 0),
      (2, length name), (2, 0)])"

definition descriptor :: "32 word \<Rightarrow> nat \<Rightarrow> byte list result" where
  "descriptor crc file_size = struct_pack
     [(4, 0x08074B50), (4, unat (crc AND of_nat ZIP32_MAX)), (4, file_size), (4, file_size)]"

definition central_header :: "central_record \<Rightarrow> byte list result" where
  "central_header r = map_sum id (\<lambda>h. h @ ce_name r) (struct_pack
     [(4, 0x02014B50), (2, 20), (2, 20), (2, zip_flags), (2, 0), (2, ce_dos_time r), (2, ce_dos_date r),
      (4, unat (ce_crc r)), (4, ce_file_size r), (4, ce_file_size r), (2, length (ce_name r)), (2, 0), (2, 0),
      (2, 0), (2, 0), (4, 0), (4, ce_local_offset r)])"

definition end_record :: "nat \<Rightarrow> nat \<Rightarrow> nat \<Rightarrow> byte list result" where
  "end_record entry_count central_size central_offset = struct_pack
     [(4, 0x06054B50), (2, 0), (2, 0), (2, entry_count), (2, entry_count), (4, central_size), (4, central_offset), (2, 0)]"

text \<open>The loop over the chunks of one object: the checksum, the size and what was yielded.  The fuel is
  the number of reads; the length of the content is enough for the last, empty one.\<close>

fun read_chunks :: "nat \<Rightarrow> byte list \<Rightarrow> 32 word \<Rightarrow> nat \<Rightarrow> byte list \<Rightarrow> (exn option \<times> 32 word \<times> nat \<times> byte list)" where
  "read_chunks 0 body crc sz out = (None, crc, sz, out)"
| "read_chunks (Suc n) body crc sz out =
    (let chunk = take ZIP_CHUNK_SIZE body in
     if chunk = [] then (None, crc, sz, out)
     else
       let crc' = crc32 chunk crc; sz' = sz + length chunk in
       if ZIP32_MAX < sz'
       then (Some (RuntimeError ''A photo is too large for this archive format.''), crc', sz', out)
       else read_chunks n (drop ZIP_CHUNK_SIZE body) crc' sz' (out @ chunk))"

record zip_state =
  zs_out :: "byte list"
  zs_offset :: nat
  zs_central :: "central_record list"

definition emit :: "byte list \<Rightarrow> zip_state \<Rightarrow> zip_state" where
  "emit bytes st = st\<lparr>zs_out := zs_out st @ bytes, zs_offset := zs_offset st + length bytes\<rparr>"

definition finish_entry :: "byte list \<Rightarrow> nat \<Rightarrow> nat \<Rightarrow> nat \<Rightarrow> 32 word \<Rightarrow> nat \<Rightarrow> zip_state \<Rightarrow> exn option \<times> zip_state" where
  "finish_entry name dos_time dos_date local_offset crc file_size st =
    (case descriptor crc file_size of
       Inl e \<Rightarrow> (Some e, st)
     | Inr bytes \<Rightarrow>
         (let st1 = emit bytes st in
          if ZIP32_MAX < zs_offset st1 then (Some (RuntimeError ''The requested archive is too large.''), st1)
          else (None, st1\<lparr>zs_central := zs_central st1 @ [\<lparr>ce_name = name, ce_crc = crc AND of_nat ZIP32_MAX,
            ce_file_size = file_size, ce_local_offset = local_offset, ce_dos_time = dos_time,
            ce_dos_date = dos_date\<rparr>]\<rparr>)))"

definition write_entry :: "(str \<Rightarrow> byte list result) \<Rightarrow> clock_time \<Rightarrow> str \<Rightarrow> str \<Rightarrow> zip_state \<Rightarrow> exn option \<times> zip_state" where
  "write_entry fetch now object_key safe_name st =
    (let name = encode_text safe_name;
         dos_time = nat (fst (dos_timestamp now)); dos_date = nat (snd (dos_timestamp now))
     in case local_header name dos_time dos_date of
          Inl e \<Rightarrow> (Some e, st)
        | Inr head \<Rightarrow>
            (let st1 = emit head st in
             case fetch object_key of
               Inl e \<Rightarrow> (Some e, st1)
             | Inr body \<Rightarrow>
                 (case read_chunks (Suc (length body)) body 0 0 [] of
                    (Some e, _, _, out) \<Rightarrow> (Some e, emit out st1)
                  | (None, crc, file_size, out) \<Rightarrow>
                      finish_entry name dos_time dos_date (zs_offset st) crc file_size (emit out st1))))"

fun write_entries :: "(str \<Rightarrow> byte list result) \<Rightarrow> (nat \<Rightarrow> clock_time) \<Rightarrow> nat \<Rightarrow> (str \<times> str) list \<Rightarrow> zip_state \<Rightarrow>
    exn option \<times> zip_state" where
  "write_entries fetch clock n [] st = (None, st)"
| "write_entries fetch clock n ((object_key, safe_name) # rest) st =
    (case write_entry fetch (clock n) object_key safe_name st of
       (Some e, st') \<Rightarrow> (Some e, st')
     | (None, st') \<Rightarrow> write_entries fetch clock (Suc n) rest st')"

fun write_central :: "central_record list \<Rightarrow> zip_state \<Rightarrow> exn option \<times> zip_state" where
  "write_central [] st = (None, st)"
| "write_central (r # rs) st =
    (case central_header r of
       Inl e \<Rightarrow> (Some e, st)
     | Inr bytes \<Rightarrow> write_central rs (emit bytes st))"

definition write_end :: "nat \<Rightarrow> zip_state \<Rightarrow> exn option \<times> zip_state" where
  "write_end central_offset st =
    (case end_record (length (zs_central st)) (zs_offset st - central_offset) central_offset of
       Inl e \<Rightarrow> (Some e, st)
     | Inr bytes \<Rightarrow> (None, st\<lparr>zs_out := zs_out st @ bytes\<rparr>))"

text \<open>The archive of the entries (object key, file name), and the exception that ended it, if any.\<close>

definition stream_photo_zip ::
    "(str \<Rightarrow> byte list result) \<Rightarrow> (nat \<Rightarrow> clock_time) \<Rightarrow> (str \<times> str) list \<Rightarrow> (exn option \<times> byte list) option" where
  "stream_photo_zip fetch clock entries =
    (case unique_download_names (map snd entries) of
       None \<Rightarrow> None
     | Some names \<Rightarrow>
         (case write_entries fetch clock 0 (zip (map fst entries) names)
                 \<lparr>zs_out = [], zs_offset = 0, zs_central = []\<rparr> of
            (Some e, st) \<Rightarrow> Some (Some e, zs_out st)
          | (None, st) \<Rightarrow>
              (case write_central (zs_central st) st of
                 (Some e, st') \<Rightarrow> Some (Some e, zs_out st')
               | (None, st') \<Rightarrow>
                   (case write_end (zs_offset st) st' of (e, st'') \<Rightarrow> Some (e, zs_out st'')))))"

end
