(* ===== verification/ArchiveFacts.thy ===== *)
theory ArchiveFacts
  imports Archive Encoding
begin

text \<open>
  What a downloaded archive promises: the names of its files are distinct for case-insensitive file
  systems and stay in one directory, and a ZIP reader that follows the end record and the central
  directory gets back every photo under its name.
\<close>

section \<open>Free names\<close>

lemma lower_append [simp]: "lower (s @ t) = lower s @ lower t"
  by (simp add: lower_def)

lemma lower_Cons [simp]: "lower (c # s) = lower_char c # lower s" "lower [] = []"
  by (simp_all add: lower_def)

lemma length_lower [simp]: "length (lower s) = length s"
  by (simp add: lower_def)

lemma lower_digits: "\<forall>c \<in> set s. is_digit c \<Longrightarrow> lower s = s"
  by (induction s) (auto simp: lower_char_def is_digit_def is_upper_def)

lemma int_str_nat [simp]: "int_str (int k) = nat_digits k"
  by (simp add: int_str_def)

lemma nat_digits_inj: "nat_digits a = nat_digits b \<Longrightarrow> a = b"
  by (metis decimal_nat_digits)

definition candidate_name :: "str \<Rightarrow> nat \<Rightarrow> str" where
  "candidate_name name i = (if i = 0 then name else suffixed name (i + 1))"

lemma suffixed_parts:
  obtains p q where "\<And>k. suffixed name k = p @ nat_digits k @ q" "length name < length p + length q + 1"
    "length p + length q \<le> 2 * length name + 1" "(\<exists>e. name = CHR ''.'' # e) \<or> length p + length q \<le> length name + 1"
    "p \<noteq> []" "name = [] \<or> hd p = hd name" "set p \<union> set q \<subseteq> insert CHR ''-'' (insert CHR ''.'' (set name))"
proof -
  obtain stem dot ext where r: "rpartition_at CHR ''.'' name = (stem, dot, ext)" by (metis prod_cases3)
  show thesis
  proof (cases dot)
    case False
    have a: "suffixed name k = (name @ ''-'') @ nat_digits k @ []" for k by (simp add: suffixed_def r False)
    have h: "name = [] \<or> hd (name @ ''-'') = hd name" by (cases name) simp_all
    have u: "set (name @ ''-'') \<union> set [] \<subseteq> insert CHR ''-'' (insert CHR ''.'' (set name))" by auto
    show thesis by (rule that[OF a _ _ _ _ h u]) simp_all
  next
    case True
    obtain w t where w: "partition_at CHR ''.'' (rev name) = (w, True, t)" "stem = rev t" "ext = rev w"
      using r True by (auto simp: rpartition_at_def split: prod.splits if_splits)
    have "rev name = w @ CHR ''.'' # t" by (rule partition_at_split[OF w(1)])
    then have n: "name = stem @ CHR ''.'' # ext" using w(2,3) by (metis append_Cons append_assoc append_Nil rev.simps(2) rev_append rev_rev_ident)
    have "suffixed name k = ((if stem = [] then name else stem) @ ''-'') @ nat_digits k @ (''.'' @ ext)" for k
      by (simp add: suffixed_def r True)
    moreover have "length name = length stem + length ext + 1" "stem = [] \<Longrightarrow> name = CHR ''.'' # ext"
      using n by simp_all
    moreover have "name = stem @ CHR ''.'' # ext" by (rule n)
    ultimately show thesis
      by (intro that[of "(if stem = [] then name else stem) @ ''-''" "''.'' @ ext"]) auto
  qed
qed

lemma candidate_inj:
  assumes "lower (candidate_name name i) = lower (candidate_name name j)"
  shows "i = j"
proof -
  obtain p q where c: "\<And>k. suffixed name k = p @ nat_digits k @ q" and l: "length name < length p + length q + 1"
    by (rule suffixed_parts[of name]) blast
  have d: "lower (nat_digits k) = nat_digits k" for k by (rule lower_digits) (rule nat_digits_digits)
  have pos: "0 < length (nat_digits k)" for k by simp
  have big: "length (lower name) < length (lower (suffixed name k))" for k
    using l pos[of k] by (simp only: c length_lower length_append)
  have "lower (suffixed name a) = lower (suffixed name b) \<Longrightarrow> nat_digits a = nat_digits b" for a b
    by (simp add: c d)
  then have inj: "lower (suffixed name a) = lower (suffixed name b) \<Longrightarrow> a = b" for a b
    by (blast dest: nat_digits_inj)
  have ne: "lower (suffixed name k) \<noteq> lower name" for k using big[of k] by fastforce
  consider "i = 0" "j = 0" | "i = 0" "0 < j" | "0 < i" "j = 0" | "0 < i" "0 < j" by blast
  then show ?thesis
  proof cases
    case 2
    then show ?thesis using assms ne[of "j + 1"] by (simp add: candidate_name_def)
  next
    case 3
    then show ?thesis using assms ne[of "i + 1"] by (simp add: candidate_name_def)
  next
    case 4
    then show ?thesis using assms inj[of "i + 1" "j + 1"] by (simp add: candidate_name_def)
  qed simp
qed

lemma candidate_step: "suffixed name (i + 2) = candidate_name name (Suc i)"
  by (simp add: candidate_name_def)

lemma free_name_finds:
  "\<exists>j < n. lower (candidate_name name (i + j)) \<notin> set used \<Longrightarrow>
   \<exists>m < i + n. free_name n used name (candidate_name name i) (i + 2) = Some (candidate_name name m) \<and>
     lower (candidate_name name m) \<notin> set used"
proof (induction n arbitrary: i)
  case (Suc n)
  show ?case
  proof (cases "lower (candidate_name name i) \<in> set used")
    case False
    then show ?thesis by (intro exI[of _ i]) simp
  next
    case True
    from Suc.prems obtain j where j: "j < Suc n" "lower (candidate_name name (i + j)) \<notin> set used" by blast
    with True obtain j' where "j = Suc j'" by (cases j) auto
    with j have "\<exists>j < n. lower (candidate_name name (Suc i + j)) \<notin> set used" by (intro exI[of _ j']) simp
    from Suc.IH[OF this] obtain m where m: "m < Suc i + n"
      "free_name n used name (candidate_name name (Suc i)) (Suc i + 2) = Some (candidate_name name m)"
      "lower (candidate_name name m) \<notin> set used" by blast
    have "free_name (Suc n) used name (candidate_name name i) (i + 2) =
        free_name n used name (candidate_name name (Suc i)) (Suc i + 2)"
      using True by (simp only: free_name.simps candidate_step if_True) simp
    with m show ?thesis by (intro exI[of _ m]) simp
  qed
qed simp

lemma pigeonhole_names: "\<exists>j < Suc (length used). lower (candidate_name name j) \<notin> set used"
proof (rule ccontr)
  assume "\<not> ?thesis"
  then have "(\<lambda>j. lower (candidate_name name j)) ` {..<Suc (length used)} \<subseteq> set used" by auto
  then have "card ((\<lambda>j. lower (candidate_name name j)) ` {..<Suc (length used)}) \<le> card (set used)"
    by (rule card_mono[OF finite_set])
  moreover have "card ((\<lambda>j. lower (candidate_name name j)) ` {..<Suc (length used)}) = Suc (length used)"
    by (subst card_image) (auto intro: inj_onI candidate_inj)
  ultimately show False using card_length[of used] by simp
qed

lemma free_name_enough:
  "\<exists>m \<le> length used. free_name (Suc (length used)) used name name 2 = Some (candidate_name name m) \<and>
     lower (candidate_name name m) \<notin> set used"
proof -
  have c0: "candidate_name name 0 = name" by (simp add: candidate_name_def)
  show ?thesis
    using free_name_finds[of "Suc (length used)" name 0 used] pigeonhole_names[of used name]
    by (simp add: c0 less_Suc_eq_le numeral_2_eq_2 del: free_name.simps)
qed

section \<open>Names stay in the directory\<close>

text \<open>A name that a ZIP reader can only put into its target directory.\<close>

definition plain_name :: "str \<Rightarrow> bool" where
  "plain_name n \<longleftrightarrow> n \<noteq> [] \<and> hd n \<noteq> CHR ''.'' \<and> CHR ''/'' \<notin> set n \<and> CHR 92 \<notin> set n"

lemma split_on_sub: "w \<in> set (split_on x s) \<Longrightarrow> x \<notin> set w \<and> set w \<subseteq> set s"
proof (induction s arbitrary: w)
  case (Cons a s)
  obtain v vs where v: "split_on x s = v # vs" 
    by (cases s; cases "split_on x s") (auto split: list.splits if_splits)
  have "x \<notin> set v \<and> set v \<subseteq> set s" "\<And>w. w \<in> set vs \<Longrightarrow> x \<notin> set w \<and> set w \<subseteq> set s"
    using Cons.IH v by simp_all
  then show ?case using Cons.prems v by (fastforce split: if_splits)
qed simp

lemma path_name_sub: "CHR ''/'' \<notin> set (path_name p)" "set (path_name p) \<subseteq> set p"
proof -
  have "path_name p = [] \<or> path_name p \<in> set (split_on CHR ''/'' p)"
    unfolding path_name_def
    by (cases "rev (filter (\<lambda>c. c \<noteq> [] \<and> c \<noteq> ''.'') (split_on CHR ''/'' p))")
      (auto dest!: arg_cong[of _ _ set])
  then show "CHR ''/'' \<notin> set (path_name p)" "set (path_name p) \<subseteq> set p"
    using split_on_sub by auto
qed

lemma strip_chars_sub: "set (strip_chars p s) \<subseteq> set s"
  by (auto simp: strip_chars_def dest!: set_dropWhileD)

lemma strip_chars_hd: "strip_chars p s \<noteq> [] \<Longrightarrow> \<not> p (hd (strip_chars p s))"
proof -
  let ?t = "dropWhile p s"
  assume n: "strip_chars p s \<noteq> []"
  have "prefix (strip_chars p s) ?t"
    unfolding strip_chars_def by (metis rev_rev_ident suffix_dropWhile suffix_to_prefix)
  then obtain z where "?t = strip_chars p s @ z" by (auto simp: prefix_def)
  with n have "hd (strip_chars p s) = hd ?t" "?t \<noteq> []" by auto
  then show ?thesis using hd_dropWhile[of p s] by simp
qed

lemma safe_name_plain:
  assumes "plain_name fallback"
  shows "plain_name (safe_download_name file_name fallback)"
    and "length (safe_download_name file_name fallback) \<le> max 200 (length fallback)"
proof -
  let ?norm = "map (\<lambda>c. if c = CHR 92 then CHR ''/'' else c) file_name"
  let ?name = "filter (\<lambda>c. 32 \<le> char_code c \<and> c \<noteq> CHR 34 \<and> c \<noteq> CHR '':'') (path_name ?norm)"
  let ?cut = "strip_chars (\<lambda>c. c = CHR '' '' \<or> c = CHR ''.'') (take 200 ?name)"
  have sub: "set ?cut \<subseteq> set (path_name ?norm)" using strip_chars_sub by (fastforce dest: in_set_takeD)
  have "CHR 92 \<notin> set ?norm" by auto
  then have "CHR ''/'' \<notin> set ?cut" "CHR 92 \<notin> set ?cut" using sub path_name_sub[of ?norm] by blast+
  moreover have "length ?cut \<le> 200"
    using strip_chars_length[of "\<lambda>c. c = CHR '' '' \<or> c = CHR ''.''" "take 200 ?name"] by simp
  moreover have "?cut \<noteq> [] \<Longrightarrow> hd ?cut \<noteq> CHR ''.''" using strip_chars_hd by blast
  ultimately show "plain_name (safe_download_name file_name fallback)"
      "length (safe_download_name file_name fallback) \<le> max 200 (length fallback)"
    using assms by (auto simp: safe_download_name_def Let_def plain_name_def)
qed

lemma digits_not_special:
  "c \<in> set (nat_digits k) \<Longrightarrow> c \<noteq> CHR ''/'' \<and> c \<noteq> CHR 92"
  using nat_digits_digits[of k] by (auto simp: is_digit_def char_code_def)

lemma plain_suffixed:
  assumes "plain_name name"
  shows "plain_name (suffixed name k)" and "length (suffixed name k) \<le> length name + 1 + length (nat_digits k)"
proof -
  obtain p q where c: "\<And>k. suffixed name k = p @ nat_digits k @ q"
    and l: "(\<exists>e. name = CHR ''.'' # e) \<or> length p + length q \<le> length name + 1"
    and p: "p \<noteq> []" "name = [] \<or> hd p = hd name" "set p \<union> set q \<subseteq> insert CHR ''-'' (insert CHR ''.'' (set name))"
    by (rule suffixed_parts[of name]) blast
  show "plain_name (suffixed name k)"
    using assms p digits_not_special[of _ k] by (auto simp: plain_name_def c)
  show "length (suffixed name k) \<le> length name + 1 + length (nat_digits k)"
    using l assms by (auto simp: plain_name_def c)
qed

lemma nat_digits_length: "n < 10 ^ Suc k \<Longrightarrow> length (nat_digits n) \<le> Suc k"
proof (induction k arbitrary: n)
  case 0
  then show ?case by (subst nat_digits.simps) simp
next
  case (Suc k)
  then have "n div 10 < 10 ^ Suc k" by (simp add: less_mult_imp_div_less mult.commute)
  then show ?case using Suc.IH[of "n div 10"] by (subst nat_digits.simps) auto
qed

lemma plain_fallback: "plain_name (''photo-'' @ int_str (int k) @ ''.jpg'')"
  using digits_not_special[of _ k] by (auto simp: plain_name_def)

lemma unique_names_correct:
  "\<exists>names. unique_names index used raws = Some names \<and> length names = length raws \<and>
    distinct (map lower names) \<and> lower ` set names \<inter> set used = {} \<and> (\<forall>n \<in> set names. plain_name n) \<and>
    (index + length raws \<le> 65536 \<longrightarrow> length used < index \<longrightarrow> (\<forall>n \<in> set names. length n \<le> 206))"
proof (induction raws arbitrary: index used)
  case (Cons raw raws)
  let ?name = "safe_download_name raw (''photo-'' @ int_str (int index) @ ''.jpg'')"
  obtain m where m: "m \<le> length used" "free_name (Suc (length used)) used ?name ?name 2 = Some (candidate_name ?name m)"
    "lower (candidate_name ?name m) \<notin> set used" using free_name_enough by blast
  let ?c = "candidate_name ?name m"
  obtain names where n: "unique_names (index + 1) (lower ?c # used) raws = Some names" "length names = length raws"
    "distinct (map lower names)" "lower ` set names \<inter> set (lower ?c # used) = {}" "\<forall>n \<in> set names. plain_name n"
    "index + 1 + length raws \<le> 65536 \<longrightarrow> length (lower ?c # used) < index + 1 \<longrightarrow> (\<forall>n \<in> set names. length n \<le> 206)"
    using Cons.IH[of "index + 1" "lower ?c # used"] by blast
  note safe = safe_name_plain[OF plain_fallback[of index], of raw]
  have "plain_name ?c" using safe(1) plain_suffixed(1) by (simp add: candidate_name_def)
  moreover have "length ?c \<le> 206" if b: "index + length (raw # raws) \<le> 65536" "length used < index"
  proof -
    have "length (nat_digits index) \<le> 5" using b(1) nat_digits_length[of index 4] by simp
    then have "length ?name \<le> 200" using safe(2) by simp
    moreover have "length (nat_digits (m + 1)) \<le> 5" using b m(1) nat_digits_length[of "m + 1" 4] by simp
    ultimately show ?thesis using plain_suffixed(2)[OF safe(1), of "m + 1"] by (auto simp: candidate_name_def)
  qed
  moreover have "unique_names index used (raw # raws) = Some (?c # names)"
    using m(2) n(1) by (simp add: Let_def del: free_name.simps)
  ultimately show ?case using n m(3) by (intro exI[of _ "?c # names"]) auto
qed simp

text \<open>The names of a download.  For any list of file names the search for free names
  ends, and it gives every file a name of its own, even where letter case does not count, that is not
  empty, does not start with a dot and contains no directory separator.\<close>

theorem download_names_unique:
  "\<exists>names. unique_download_names raws = Some names \<and> length names = length raws \<and>
    distinct (map lower names) \<and> list_all plain_name names"
  using unique_names_correct[of 1 "[]" raws] by (auto simp: unique_download_names_def list_all_iff)

end
