(* ===== verification/ZipFacts.thy ===== *)
theory ZipFacts
  imports ArchiveFacts
begin

text \<open>
  The archive is a ZIP file: a reference reader, written from the format, that follows the end record
  and the central directory and checks every checksum, gets back the photos under their names.
\<close>

section \<open>A reference reader\<close>

fun le_value :: "byte list \<Rightarrow> nat" where
  "le_value [] = 0"
| "le_value (b # bs) = unat b + 256 * le_value bs"

definition le_field :: "byte list \<Rightarrow> nat \<Rightarrow> nat \<Rightarrow> nat" where
  "le_field bytes off k = le_value (take k (drop off bytes))"

text \<open>One file, from the central directory entry at an offset: its name and its content, if the local
  header agrees and the checksum is right.\<close>

definition read_file :: "byte list \<Rightarrow> nat \<Rightarrow> nat \<Rightarrow> byte list \<Rightarrow> nat \<Rightarrow> byte list option" where
  "read_file bytes local_offset file_size name crc =
    (let n = le_field bytes (local_offset + 26) 2;
         content = take file_size (drop (local_offset + 30 + n) bytes)
     in if le_field bytes local_offset 4 = 0x04034B50 \<and> take n (drop (local_offset + 30) bytes) = name \<and>
           length content = file_size \<and> unat (crc32 content 0) = crc
        then Some content else None)"

fun read_central :: "nat \<Rightarrow> byte list \<Rightarrow> nat \<Rightarrow> (byte list \<times> byte list) list option" where
  "read_central 0 bytes off = Some []"
| "read_central (Suc n) bytes off =
    (let name_length = le_field bytes (off + 28) 2; name = take name_length (drop (off + 46) bytes) in
     if le_field bytes off 4 \<noteq> 0x02014B50 then None
     else case read_file bytes (le_field bytes (off + 42) 4) (le_field bytes (off + 20) 4) name
                 (le_field bytes (off + 16) 4) of
       None \<Rightarrow> None
     | Some content \<Rightarrow>
         map_option ((#) (name, content)) (read_central n bytes
           (off + 46 + name_length + le_field bytes (off + 30) 2 + le_field bytes (off + 32) 2)))"

definition read_zip :: "byte list \<Rightarrow> (byte list \<times> byte list) list option" where
  "read_zip bytes =
    (let e = length bytes - 22 in
     if length bytes < 22 \<or> le_field bytes e 4 \<noteq> 0x06054B50 then None
     else read_central (le_field bytes (e + 10) 2) bytes (le_field bytes (e + 16) 4))"

section \<open>Fields\<close>

lemma length_le_bytes [simp]: "length (le_bytes k n) = k"
  by (induction k arbitrary: n) auto

lemma le_value_bytes: "n < 256 ^ k \<Longrightarrow> le_value (le_bytes k n) = n"
proof (induction k arbitrary: n)
  case (Suc k)
  then have "n div 256 < 256 ^ k" by (simp add: less_mult_imp_div_less mult.commute)
  moreover have "unat (of_nat (n mod 256) :: byte) = n mod 256"
    by (simp add: unat_of_nat)
  ultimately show ?case using Suc.IH by simp
qed simp

text \<open>The field at the head of some packed bytes, and the one behind a prefix.\<close>

lemma take_le_bytes [simp]: "take k (le_bytes k n @ rest) = le_bytes k n"
  by simp

lemma field_shift: "le_field (pre @ rest) (length pre + i) k = le_field rest i k"
  by (simp add: le_field_def)

lemma drop_shift: "drop (length pre + i) (pre @ rest) = drop i rest"
  by simp

lemma packed:
  "struct_pack fs = Inr h \<longleftrightarrow> (\<forall>(k, n) \<in> set fs. n < 256 ^ k) \<and> h = concat (map (\<lambda>(k, n). le_bytes k n) fs)"
  by (auto simp: struct_pack_def split: if_splits)

lemma field_here: "n < 256 ^ k \<Longrightarrow> le_field (le_bytes k n @ rest) 0 k = n"
  by (simp add: le_field_def le_value_bytes)

lemma field_skip: "j \<le> i \<Longrightarrow> le_field (le_bytes j m @ rest) i k = le_field rest (i - j) k"
  by (simp add: le_field_def)

section \<open>Checksums and chunks\<close>

lemma crc32_append: "crc32 (a @ b) c = crc32 b (crc32 a c)"
  by (simp add: crc32_def)

lemma crc32_Nil [simp]: "crc32 [] c = c"
  by (simp add: crc32_def)

lemma read_chunks_all:
  "length body < n \<Longrightarrow> sz + length body \<le> ZIP32_MAX \<Longrightarrow>
   read_chunks n body crc sz out = (None, crc32 body crc, sz + length body, out @ body)"
proof (induction n arbitrary: body crc sz out)
  case (Suc n)
  show ?case
  proof (cases "body = []")
    case True
    then show ?thesis by simp
  next
    case False
    let ?c = "take ZIP_CHUNK_SIZE body" and ?r = "drop ZIP_CHUNK_SIZE body"
    have pos: "0 < ZIP_CHUNK_SIZE" by (simp add: ZIP_CHUNK_SIZE_def)
    have split: "?c @ ?r = body" by simp
    have len: "length ?c + length ?r = length body" by (metis split length_append)
    have ne: "?c \<noteq> []" using False pos by simp
    then have "length ?r < n" using Suc.prems(1) len by (cases ?c) auto
    moreover have "(sz + length ?c) + length ?r \<le> ZIP32_MAX" using Suc.prems(2) len by simp
    ultimately have "read_chunks n ?r (crc32 ?c crc) (sz + length ?c) (out @ ?c) =
        (None, crc32 ?r (crc32 ?c crc), sz + length ?c + length ?r, (out @ ?c) @ ?r)"
      by (rule Suc.IH)
    moreover have "\<not> ZIP32_MAX < sz + length ?c" using Suc.prems(2) len by linarith
    moreover have "crc32 ?r (crc32 ?c crc) = crc32 body crc" by (metis crc32_append split)
    ultimately show ?thesis using ne len by (simp add: Let_def del: length_take length_drop)
  qed
qed simp

lemma mask_all [simp]: "(c :: 32 word) AND of_nat ZIP32_MAX = c"
proof -
  have "(of_nat ZIP32_MAX :: 32 word) = - 1" by (simp add: ZIP32_MAX_def)
  then show ?thesis by simp
qed

section \<open>Timestamps fit their fields\<close>

definition valid_clock :: "clock_time \<Rightarrow> bool" where
  "valid_clock t \<longleftrightarrow> ct_month t \<in> {1..12} \<and> ct_day t \<in> {1..31} \<and> ct_hour t \<in> {0..23} \<and>
     ct_minute t \<in> {0..59} \<and> ct_second t \<in> {0..59}"

lemma or_range: "0 \<le> x \<Longrightarrow> x < 2 ^ n \<Longrightarrow> 0 \<le> y \<Longrightarrow> y < 2 ^ n \<Longrightarrow> 0 \<le> x OR y \<and> x OR y < (2 ^ n :: int)"
  by (simp add: OR_upper)

lemma dos_fits:
  assumes "valid_clock t"
  shows "nat (fst (dos_timestamp t)) < 65536" "nat (snd (dos_timestamp t)) < 65536"
proof -
  let ?y = "max 1980 (min (ct_year t) 2107)"
  have r: "0 \<le> push_bit 11 (ct_hour t)" "push_bit 11 (ct_hour t) < 2 ^ 16"
    "0 \<le> push_bit 5 (ct_minute t)" "push_bit 5 (ct_minute t) < 2 ^ 16"
    "0 \<le> ct_second t div 2"
    "0 \<le> push_bit 9 (?y - 1980)" "push_bit 9 (?y - 1980) < 2 ^ 16"
    "0 \<le> push_bit 5 (ct_month t)" "push_bit 5 (ct_month t) < 2 ^ 16" "0 \<le> ct_day t" "ct_day t < 2 ^ 16"
    using assms by (simp_all add: valid_clock_def push_bit_eq_mult)
  have "ct_second t div 2 < 65536" using assms unfolding valid_clock_def atLeastAtMost_iff by linarith
  then have s: "ct_second t div 2 < 2 ^ 16" by simp
  have "0 \<le> fst (dos_timestamp t) \<and> fst (dos_timestamp t) < 2 ^ 16"
    unfolding dos_timestamp_def Let_def fst_conv using or_range r s by meson
  then show "nat (fst (dos_timestamp t)) < 65536" by simp linarith
  have "0 \<le> snd (dos_timestamp t) \<and> snd (dos_timestamp t) < 2 ^ 16"
    unfolding dos_timestamp_def Let_def snd_conv using or_range r s by meson
  then show "nat (snd (dos_timestamp t)) < 65536" by simp linarith
qed


section \<open>Headers\<close>

lemma zip_flags_small [simp]: "zip_flags < 65536"
  by (simp add: zip_flags_def)

lemma pack_ok:
  "\<forall>(k, n) \<in> set fs. n < 256 ^ k \<Longrightarrow> struct_pack fs = Inr (concat (map (\<lambda>(k, n). le_bytes k n) fs))"
  by (simp add: struct_pack_def)

lemma local_header_ok:
  assumes "t < 65536" "d < 65536" "length name < 65536"
  obtains h where "local_header name t d = Inr (h @ name)" "length h = 30"
    "\<And>rest. le_field (h @ rest) 0 4 = 0x04034B50" "\<And>rest. le_field (h @ rest) 26 2 = length name"
proof -
  let ?fs = "[(4, 0x04034B50), (2, 20), (2, zip_flags), (2, 0), (2, t), (2, d), (4, 0), (4, 0), (4, 0),
      (2, length name), (2, 0)] :: (nat \<times> nat) list"
  define h where "h = concat (map (\<lambda>(k, n). le_bytes k n) ?fs)"
  have ok: "\<forall>(k, n) \<in> set ?fs. n < 256 ^ k" using assms by simp
  show thesis
  proof (rule that)
    show "local_header name t d = Inr (h @ name)"
      unfolding local_header_def pack_ok[OF ok] h_def by simp
    show "length h = 30" by (simp add: h_def)
    show "le_field (h @ rest) 0 4 = 0x04034B50" for rest by (simp add: h_def field_here)
    show "le_field (h @ rest) 26 2 = length name" for rest
      using assms by (simp add: h_def field_skip field_here)
  qed
qed

lemma central_header_ok:
  assumes "ce_dos_time r < 65536" "ce_dos_date r < 65536" "length (ce_name r) < 65536"
    and "ce_file_size r < 2 ^ 32" "ce_local_offset r < 2 ^ 32"
  obtains h where "central_header r = Inr (h @ ce_name r)" "length h = 46"
    "\<And>rest. le_field (h @ rest) 0 4 = 0x02014B50" "\<And>rest. le_field (h @ rest) 16 4 = unat (ce_crc r)"
    "\<And>rest. le_field (h @ rest) 20 4 = ce_file_size r" "\<And>rest. le_field (h @ rest) 28 2 = length (ce_name r)"
    "\<And>rest. le_field (h @ rest) 30 2 = 0" "\<And>rest. le_field (h @ rest) 32 2 = 0"
    "\<And>rest. le_field (h @ rest) 42 4 = ce_local_offset r"
proof -
  let ?fs = "[(4, 0x02014B50), (2, 20), (2, 20), (2, zip_flags), (2, 0), (2, ce_dos_time r), (2, ce_dos_date r),
      (4, unat (ce_crc r)), (4, ce_file_size r), (4, ce_file_size r), (2, length (ce_name r)), (2, 0), (2, 0),
      (2, 0), (2, 0), (4, 0), (4, ce_local_offset r)] :: (nat \<times> nat) list"
  define h where "h = concat (map (\<lambda>(k, n). le_bytes k n) ?fs)"
  have crc: "unat (ce_crc r) < 4294967296" using unsigned_less[of "ce_crc r"] by simp
  have ok: "\<forall>(k, n) \<in> set ?fs. n < 256 ^ k" using assms crc by simp
  show thesis
  proof (rule that)
    show "central_header r = Inr (h @ ce_name r)"
      unfolding central_header_def pack_ok[OF ok] h_def by simp
    show "length h = 46" by (simp add: h_def)
    show "le_field (h @ rest) 0 4 = 0x02014B50" for rest by (simp add: h_def field_here)
    show "le_field (h @ rest) 16 4 = unat (ce_crc r)" "le_field (h @ rest) 20 4 = ce_file_size r"
      "le_field (h @ rest) 28 2 = length (ce_name r)" "le_field (h @ rest) 30 2 = 0"
      "le_field (h @ rest) 32 2 = 0" "le_field (h @ rest) 42 4 = ce_local_offset r" for rest
      using assms crc by (simp_all add: h_def field_skip field_here)
  qed
qed

lemma end_record_ok:
  assumes "n < 65536" "cs < 2 ^ 32" "co < 2 ^ 32"
  obtains h where "end_record n cs co = Inr h" "length h = 22" "le_field h 0 4 = 0x06054B50"
    "le_field h 10 2 = n" "le_field h 16 4 = co"
proof -
  let ?fs = "[(4, 0x06054B50), (2, 0), (2, 0), (2, n), (2, n), (4, cs), (4, co), (2, 0)] :: (nat \<times> nat) list"
  define h where "h = concat (map (\<lambda>(k, n). le_bytes k n) ?fs)"
  have ok: "\<forall>(k, n) \<in> set ?fs. n < 256 ^ k" using assms by simp
  show thesis
  proof (rule that)
    show "end_record n cs co = Inr h"
      unfolding end_record_def pack_ok[OF ok] h_def by simp
    show "length h = 22" by (simp add: h_def)
    show "le_field h 0 4 = 0x06054B50" by (simp add: h_def field_here)
    show "le_field h 10 2 = n" "le_field h 16 4 = co" using assms by (simp_all add: h_def field_skip field_here)
  qed
qed

lemma descriptor_ok:
  assumes "n < 2 ^ 32"
  obtains h where "descriptor crc n = Inr h" "length h = 16"
proof -
  have "unat (crc AND of_nat ZIP32_MAX) < 4294967296" using unsigned_less[of crc] by simp
  then show thesis using that assms by (simp add: descriptor_def struct_pack_def)
qed

section \<open>The files in the archive\<close>

text \<open>A central record describes a file that can be read back from the bytes.\<close>

definition readable :: "byte list \<Rightarrow> central_record \<times> byte list \<Rightarrow> bool" where
  "readable out rc = (case rc of (r, content) \<Rightarrow>
     ce_dos_time r < 65536 \<and> ce_dos_date r < 65536 \<and> length (ce_name r) \<le> 206 \<and>
     ce_file_size r = length content \<and> length content < 2 ^ 32 \<and> ce_local_offset r < 2 ^ 32 \<and>
     ce_crc r = crc32 content 0 \<and>
     (\<forall>rest. read_file (out @ rest) (ce_local_offset r) (length content) (ce_name r) (unat (crc32 content 0)) =
       Some content))"

lemma readable_append: "readable out rc \<Longrightarrow> readable (out @ x) rc"
  by (auto simp: readable_def)

lemma read_file_written:
  assumes "length h = 30" "\<And>rest. le_field (h @ rest) 0 4 = 0x04034B50"
    and "\<And>rest. le_field (h @ rest) 26 2 = length name"
  shows "read_file (pre @ h @ name @ content @ rest) (length pre) (length content) name (unat (crc32 content 0)) =
    Some content"
proof -
  let ?b = "pre @ h @ name @ content @ rest"
  have f: "le_field ?b (length pre) 4 = 0x04034B50" "le_field ?b (length pre + 26) 2 = length name"
    using field_shift[of pre _ 0 4] assms(2) by (simp, unfold field_shift, intro assms(3))
  have "drop (length pre + 30) ?b = name @ content @ rest"
    "drop (length pre + 30 + length name) ?b = content @ rest" using assms(1) by simp_all
  then have t: "take (length name) (drop (length pre + 30) ?b) = name"
    "take (length content) (drop (length pre + 30 + length name) ?b) = content" by simp_all
  show ?thesis unfolding read_file_def Let_def f t by simp
qed

definition zip_ok :: "zip_state \<Rightarrow> byte list list \<Rightarrow> bool" where
  "zip_ok st contents \<longleftrightarrow> zs_offset st = length (zs_out st) \<and> length contents = length (zs_central st) \<and>
     (\<forall>rc \<in> set (zip (zs_central st) contents). readable (zs_out st) rc)"

lemma write_entry_ok:
  assumes "zip_ok st contents" "fetch key = Inr content" "valid_clock now" "length name \<le> 206"
    and "zs_offset st + length content + 252 \<le> ZIP32_MAX"
  obtains st' r where "write_entry fetch now key name st = (None, st')" "zip_ok st' (contents @ [content])"
    "zs_offset st' \<le> zs_offset st + length content + 252" "zs_central st' = zs_central st @ [r]"
    "ce_name r = encode_text name"
proof -
  let ?n = "encode_text name" and ?t = "nat (fst (dos_timestamp now))" and ?d = "nat (snd (dos_timestamp now))"
  have ln: "length ?n = length name" by (simp add: encode_text_def)
  have "length ?n < 65536" using assms(4) ln by simp
  then obtain h where h: "local_header ?n ?t ?d = Inr (h @ ?n)" "length h = 30"
    "\<And>rest. le_field (h @ rest) 0 4 = 0x04034B50" "\<And>rest. le_field (h @ rest) 26 2 = length ?n"
    using local_header_ok[OF dos_fits[OF assms(3)]] by blast
  have small: "length content < 2 ^ 32" "zs_offset st < 2 ^ 32" using assms(5) by (simp_all add: ZIP32_MAX_def)
  obtain z where z: "descriptor (crc32 content 0) (length content) = Inr z" "length z = 16"
    using descriptor_ok[OF small(1)] by blast
  have ch: "read_chunks (Suc (length content)) content 0 0 [] = (None, crc32 content 0, length content, content)"
    using read_chunks_all[of content "Suc (length content)" 0 0 "[]"] assms(5) by simp
  define r where "r = \<lparr>ce_name = ?n, ce_crc = crc32 content 0, ce_file_size = length content,
    ce_local_offset = zs_offset st, ce_dos_time = ?t, ce_dos_date = ?d\<rparr>"
  define st1 where "st1 = emit z (emit content (emit (h @ ?n) st))"
  have out: "zs_out st1 = zs_out st @ h @ ?n @ content @ z" by (simp add: st1_def emit_def)
  have off: "zs_offset st1 = length (zs_out st1)"
    using assms(1) by (simp add: st1_def emit_def zip_ok_def)
  have bound: "zs_offset st1 \<le> zs_offset st + length content + 252"
    using h(2) z(2) ln assms(4) by (simp add: st1_def emit_def)
  have "\<not> ZIP32_MAX < zs_offset st1" using bound assms(5) by linarith
  then have w: "write_entry fetch now key name st = (None, st1\<lparr>zs_central := zs_central st1 @ [r]\<rparr>)"
    by (simp add: write_entry_def Let_def h(1) assms(2) ch finish_entry_def z(1) r_def del: read_chunks.simps
        flip: st1_def)
  have cen: "zs_central st1 = zs_central st" by (simp add: st1_def emit_def)
  have "read_file (zs_out st1 @ rest) (zs_offset st) (length content) ?n (unat (crc32 content 0)) = Some content" for rest
    using read_file_written[OF h(2-4), of "zs_out st" content "z @ rest"] assms(1) by (simp add: out zip_ok_def)
  then have "readable (zs_out st1) (r, content)"
    using dos_fits[OF assms(3)] ln assms(4) small by (simp add: readable_def r_def)
  moreover have "\<forall>rc \<in> set (zip (zs_central st) contents). readable (zs_out st1) rc"
    using assms(1) unfolding out zip_ok_def by (blast intro: readable_append)
  ultimately have "zip_ok (st1\<lparr>zs_central := zs_central st1 @ [r]\<rparr>) (contents @ [content])"
    using assms(1) off by (auto simp: zip_ok_def cen)
  then show thesis using that[OF w] bound by (simp add: cen r_def)
qed


definition object_bytes :: "(str \<Rightarrow> byte list result) \<Rightarrow> str \<Rightarrow> byte list" where
  "object_bytes fetch key = (case fetch key of Inl _ \<Rightarrow> [] | Inr c \<Rightarrow> c)"

definition entry_space :: "nat \<Rightarrow> (str \<Rightarrow> byte list result) \<Rightarrow> (str \<times> str) list \<Rightarrow> nat" where
  "entry_space c fetch entries = sum_list (map (\<lambda>(k, _). length (object_bytes fetch k) + c) entries)"

lemma write_entries_ok:
  assumes "\<And>i. valid_clock (clock i)"
  shows "zip_ok st contents \<Longrightarrow> \<forall>(k, n) \<in> set kns. fetch k = Inr (object_bytes fetch k) \<and> length n \<le> 206 \<Longrightarrow>
    zs_offset st + entry_space 252 fetch kns \<le> ZIP32_MAX \<Longrightarrow>
    \<exists>st' rs. write_entries fetch clock i kns st = (None, st') \<and>
      zip_ok st' (contents @ map (\<lambda>(k, _). object_bytes fetch k) kns) \<and> zs_central st' = zs_central st @ rs \<and>
      map ce_name rs = map (\<lambda>(_, n). encode_text n) kns \<and>
      zs_offset st' \<le> zs_offset st + entry_space 252 fetch kns"
proof (induction kns arbitrary: st contents i)
  case (Cons kn kns)
  obtain k n where kn: "kn = (k, n)" by (cases kn)
  let ?c = "object_bytes fetch k"
  have sp: "entry_space 252 fetch (kn # kns) = length ?c + 252 + entry_space 252 fetch kns"
    by (simp add: entry_space_def kn)
  have f: "fetch k = Inr ?c" and n: "length n \<le> 206"
    and rest: "\<forall>(k, n) \<in> set kns. fetch k = Inr (object_bytes fetch k) \<and> length n \<le> 206"
    using Cons.prems(2) by (auto simp: kn)
  have b: "zs_offset st + length ?c + 252 \<le> ZIP32_MAX" using Cons.prems(3) sp by linarith
  obtain st1 r where w: "write_entry fetch (clock i) k n st = (None, st1)" "zip_ok st1 (contents @ [?c])"
    "zs_offset st1 \<le> zs_offset st + length ?c + 252" "zs_central st1 = zs_central st @ [r]"
    "ce_name r = encode_text n"
    by (rule write_entry_ok[where fetch = fetch and key = k, OF Cons.prems(1) f assms[of i] n b])
  have b1: "zs_offset st1 + entry_space 252 fetch kns \<le> ZIP32_MAX" using w(3) Cons.prems(3) sp by linarith
  obtain st' rs where t: "write_entries fetch clock (Suc i) kns st1 = (None, st')"
    "zip_ok st' ((contents @ [?c]) @ map (\<lambda>(k, _). object_bytes fetch k) kns)" "zs_central st' = zs_central st1 @ rs"
    "map ce_name rs = map (\<lambda>(_, n). encode_text n) kns"
    "zs_offset st' \<le> zs_offset st1 + entry_space 252 fetch kns"
    using Cons.IH[OF w(2) rest b1] by blast
  have "write_entries fetch clock i (kn # kns) st = (None, st')" by (simp add: kn w(1) t(1))
  moreover have "zip_ok st' (contents @ map (\<lambda>(k, _). object_bytes fetch k) (kn # kns))" using t(2) by (simp add: kn)
  moreover have "zs_central st' = zs_central st @ (r # rs)" using t(3) w(4) by simp
  moreover have "map ce_name (r # rs) = map (\<lambda>(_, n). encode_text n) (kn # kns)" using t(4) w(5) by (simp add: kn)
  moreover have "zs_offset st' \<le> zs_offset st + entry_space 252 fetch (kn # kns)" using t(5) w(3) sp by linarith
  ultimately show ?case by blast
qed (simp add: entry_space_def)

lemma readable_small:
  "readable out (r, content) \<Longrightarrow> ce_dos_time r < 65536 \<and> ce_dos_date r < 65536 \<and> length (ce_name r) < 65536 \<and>
    ce_file_size r < 2 ^ 32 \<and> ce_local_offset r < 2 ^ 32"
  by (simp add: readable_def)

text \<open>The central directory of some readable records, and what the reader makes of it.\<close>

lemma write_central_ok:
  "length contents = length rs \<Longrightarrow> \<forall>rc \<in> set (zip rs contents). readable out0 rc \<Longrightarrow>
   \<exists>cd. write_central rs st = (None, emit cd st) \<and> length cd \<le> 252 * length rs \<and>
     (\<forall>pre rest. (\<exists>x. pre = out0 @ x) \<longrightarrow>
        read_central (length rs) (pre @ cd @ rest) (length pre) = Some (zip (map ce_name rs) contents))"
proof (induction rs arbitrary: contents st)
  case Nil
  then show ?case by (intro exI[of _ "[]"]) (simp add: emit_def)
next
  case (Cons r rs)
  then obtain c cs where cs: "contents = c # cs" by (cases contents) auto
  have rd: "readable out0 (r, c)" and rest: "\<forall>rc \<in> set (zip rs cs). readable out0 rc" "length cs = length rs"
    using Cons.prems by (auto simp: cs)
  have crc: "ce_crc r = crc32 c 0" and sz: "ce_file_size r = length c" and nl: "length (ce_name r) \<le> 206"
    using rd by (simp_all add: readable_def)
  obtain h where h: "central_header r = Inr (h @ ce_name r)" "length h = 46"
    "\<And>rest. le_field (h @ rest) 0 4 = 0x02014B50" "\<And>rest. le_field (h @ rest) 16 4 = unat (ce_crc r)"
    "\<And>rest. le_field (h @ rest) 20 4 = ce_file_size r" "\<And>rest. le_field (h @ rest) 28 2 = length (ce_name r)"
    "\<And>rest. le_field (h @ rest) 30 2 = 0" "\<And>rest. le_field (h @ rest) 32 2 = 0"
    "\<And>rest. le_field (h @ rest) 42 4 = ce_local_offset r"
    using readable_small[OF rd] central_header_ok by metis
  let ?e = "h @ ce_name r"
  obtain cd where cd: "write_central rs (emit ?e st) = (None, emit cd (emit ?e st))" "length cd \<le> 252 * length rs"
    "\<And>pre rest. (\<exists>x. pre = out0 @ x) \<Longrightarrow>
        read_central (length rs) (pre @ cd @ rest) (length pre) = Some (zip (map ce_name rs) cs)"
    using Cons.IH[OF rest(2,1), of "emit ?e st"] by blast
  have em: "emit cd (emit ?e st) = emit (?e @ cd) st" by (simp add: emit_def)
  have rc: "read_central (length (r # rs)) (pre @ (?e @ cd) @ rest) (length pre) =
      Some (zip (map ce_name (r # rs)) contents)" if pre: "\<exists>x. pre = out0 @ x" for pre rest
  proof -
    let ?b = "pre @ (?e @ cd) @ rest" and ?n = "length (ce_name r)"
    have f: "le_field ?b (length pre) 4 = 0x02014B50" "le_field ?b (length pre + 16) 4 = unat (ce_crc r)"
      "le_field ?b (length pre + 20) 4 = ce_file_size r" "le_field ?b (length pre + 28) 2 = ?n"
      "le_field ?b (length pre + 30) 2 = 0" "le_field ?b (length pre + 32) 2 = 0"
      "le_field ?b (length pre + 42) 4 = ce_local_offset r"
      using field_shift[of pre _ 0 4] h(3-9) by (simp_all add: field_shift)
    have nm: "take ?n (drop (length pre + 46) ?b) = ce_name r" using h(2) by simp
    obtain x where x: "pre = out0 @ x" using pre by blast
    have "readable ?b (r, c)" using rd unfolding x append_assoc by (rule readable_append)
    then have fl: "read_file ?b (ce_local_offset r) (ce_file_size r) (ce_name r) (unat (ce_crc r)) = Some c"
      unfolding readable_def prod.case using crc sz by (metis append_Nil2)
    have "length (pre @ ?e) = length pre + 46 + ?n" using h(2) by simp
    moreover have "read_central (length rs) ((pre @ ?e) @ cd @ rest) (length (pre @ ?e)) = Some (zip (map ce_name rs) cs)"
      by (rule cd(3)) (simp add: x)
    moreover have "(pre @ ?e) @ cd @ rest = ?b" by simp
    ultimately have tl: "read_central (length rs) ?b (length pre + 46 + ?n) = Some (zip (map ce_name rs) cs)"
      by metis
    show ?thesis
      unfolding list.size(4) add_Suc_right add_0_right read_central.simps Let_def f nm fl option.case tl
      by (simp add: cs)
  qed
  have "write_central (r # rs) st = (None, emit (?e @ cd) st)" by (simp add: h(1) cd(1) em)
  moreover have "length (?e @ cd) \<le> 252 * length (r # rs)" using h(2) nl cd(2) by simp
  ultimately show ?case using rc by blast
qed

lemma entry_space_more: "entry_space (a + b) fetch entries = entry_space a fetch entries + b * length entries"
  by (induction entries) (auto simp: entry_space_def)

lemma entry_space_keys:
  "length names = length entries \<Longrightarrow> entry_space c fetch (zip (map fst entries) names) = entry_space c fetch entries"
  by (induction entries names rule: list_induct2') (auto simp: entry_space_def)

lemma zip_reads_back:
  assumes "\<forall>(key, name) \<in> set entries. \<exists>c. fetch key = Inr c" "\<And>i. valid_clock (clock i)"
    and "length entries < 65536" "entry_space 504 fetch entries \<le> ZIP32_MAX"
  shows "\<exists>names bytes. unique_download_names (map snd entries) = Some names \<and>
    stream_photo_zip fetch clock entries = Some (None, bytes) \<and>
    read_zip bytes = Some (zip (map encode_text names) (map (object_bytes fetch \<circ> fst) entries))"
proof -
  obtain names where names: "unique_names 1 [] (map snd entries) = Some names" "length names = length entries"
    "\<forall>n \<in> set names. length n \<le> 206"
    using unique_names_correct[of 1 "[]" "map snd entries"] assms(3) by auto
  let ?kns = "zip (map fst entries) names"
  let ?st0 = "\<lparr>zs_out = [], zs_offset = 0, zs_central = []\<rparr>"
  have sp: "entry_space 504 fetch entries = entry_space 252 fetch ?kns + 252 * length entries"
    using entry_space_more[of 252 252 fetch entries] entry_space_keys[OF names(2), of 252 fetch] by simp
  have "fetch k = Inr (object_bytes fetch k) \<and> length n \<le> 206" if "(k, n) \<in> set ?kns" for k n
  proof -
    have "k \<in> fst ` set entries" "n \<in> set names" using that by (auto dest: set_zip_leftD set_zip_rightD)
    then show ?thesis using assms(1) names(3) by (fastforce simp: object_bytes_def)
  qed
  then have all: "\<forall>(k, n) \<in> set ?kns. fetch k = Inr (object_bytes fetch k) \<and> length n \<le> 206" by blast
  have "zip_ok ?st0 []" by (simp add: zip_ok_def)
  moreover have "zs_offset ?st0 + entry_space 252 fetch ?kns \<le> ZIP32_MAX" using sp assms(4) by simp
  ultimately obtain st rs where st: "write_entries fetch clock 0 ?kns ?st0 = (None, st)"
    "zip_ok st (map (\<lambda>(k, _). object_bytes fetch k) ?kns)" "zs_central st = rs"
    "map ce_name rs = map (\<lambda>(_, n). encode_text n) ?kns" "zs_offset st \<le> entry_space 252 fetch ?kns"
    using write_entries_ok[where clock = clock and st = ?st0 and contents = "[]" and i = 0, OF assms(2) _ all] by auto
  let ?cs = "map (\<lambda>(k, _). object_bytes fetch k) ?kns"
  have cs: "?cs = map (object_bytes fetch \<circ> fst) entries"
    using names(2) by (induction entries names rule: list_induct2') auto
  have nm: "map ce_name rs = map encode_text names"
    unfolding st(4) using names(2) by (induction entries names rule: list_induct2') auto
  then have lrs: "length rs = length entries" using names(2) by (metis length_map)
  have ok: "zs_offset st = length (zs_out st)" "length ?cs = length rs" "\<forall>rc \<in> set (zip rs ?cs). readable (zs_out st) rc"
    using st(2,3) by (simp_all add: zip_ok_def)
  obtain cd where cd: "write_central rs st = (None, emit cd st)" "length cd \<le> 252 * length rs"
    "\<And>pre rest. (\<exists>x. pre = zs_out st @ x) \<Longrightarrow>
       read_central (length rs) (pre @ cd @ rest) (length pre) = Some (zip (map ce_name rs) ?cs)"
    using write_central_ok[OF ok(2,3), of st] by blast
  let ?co = "zs_offset st"
  have small: "?co < 2 ^ 32" "length cd < 2 ^ 32"
    using st(5) cd(2) sp assms(4) lrs by (simp_all add: ZIP32_MAX_def)
  obtain e where e: "end_record (length rs) (length cd) ?co = Inr e" "length e = 22" "le_field e 0 4 = 0x06054B50"
    "le_field e 10 2 = length rs" "le_field e 16 4 = ?co"
    using end_record_ok[OF _ small(2,1), of "length rs"] lrs assms(3) by metis
  let ?bytes = "zs_out st @ cd @ e"
  have "write_end ?co (emit cd st) = (None, (emit cd st)\<lparr>zs_out := ?bytes\<rparr>)"
    using e(1) st(3) by (simp add: write_end_def emit_def)
  then have s: "stream_photo_zip fetch clock entries = Some (None, ?bytes)"
    using names(1) st(1,3) cd(1) by (simp add: stream_photo_zip_def unique_download_names_def)
  let ?p = "zs_out st @ cd"
  have p: "?bytes = ?p @ e" by simp
  have f: "le_field (?p @ e) (length ?p) 4 = 0x06054B50" "le_field (?p @ e) (length ?p + 10) 2 = length rs"
    "le_field (?p @ e) (length ?p + 16) 4 = ?co"
    using field_shift[of ?p e 0 4] e(3-5) by (simp_all add: field_shift del: append_assoc length_append)
  have l: "length (?p @ e) - 22 = length ?p" "\<not> length (?p @ e) < 22" using e(2) by simp_all
  have good: "\<not> (length (?p @ e) < 22 \<or> le_field (?p @ e) (length ?p) 4 \<noteq> 0x06054B50)"
    using l(2) f(1) by blast
  have "read_zip ?bytes = read_central (length rs) (?p @ e) ?co"
    unfolding p read_zip_def Let_def l(1) if_not_P[OF good] f(2,3) by (rule refl)
  also have "... = Some (zip (map ce_name rs) ?cs)"
    using cd(3)[of "zs_out st" e] ok(1) by simp
  finally show ?thesis using names(1) s unfolding nm cs unique_download_names_def by blast
qed

section \<open>The property\<close>

text \<open>C8 (roundtrip): the archive is readable.  When every photo can be fetched, the clock is a clock,
  there are fewer than 65536 entries and the photos with 504 bytes each fit in 4 GiB, the stream ends
  without an exception and a ZIP reader gets back, in order, every photo's bytes under the free name
  chosen for it, with matching checksums.\<close>

theorem archive_reads_back:
  assumes "\<forall>(key, name) \<in> set entries. \<exists>c. fetch key = Inr c" "\<And>i. valid_clock (clock i)"
    and "length entries < 65536" "entry_space 504 fetch entries \<le> ZIP32_MAX"
  shows "\<exists>names bytes. unique_download_names (map snd entries) = Some names \<and>
    stream_photo_zip fetch clock entries = Some (None, bytes) \<and>
    read_zip bytes = Some (zip (map encode_text names) (map (object_bytes fetch \<circ> fst) entries))"
  using assms by (rule zip_reads_back)

theorem archive_reads_back_witness:
  "\<exists>names bytes. stream_photo_zip (\<lambda>k. Inr [1, 2]) (\<lambda>i. \<lparr>ct_year = 2024, ct_month = 5, ct_day = 6, ct_hour = 7,
       ct_minute = 8, ct_second = 9\<rparr>) [(''a'', ''run.jpg''), (''b'', ''RUN.jpg'')] = Some (None, bytes) \<and>
     read_zip bytes = Some (zip (map encode_text names) [[1, 2], [1, 2]])"
  using archive_reads_back[where fetch = "\<lambda>k. Inr [1, 2]" and entries = "[(''a'', ''run.jpg''), (''b'', ''RUN.jpg'')]"
      and clock = "\<lambda>i. \<lparr>ct_year = 2024, ct_month = 5, ct_day = 6, ct_hour = 7, ct_minute = 8, ct_second = 9\<rparr>"]
  by (auto simp: valid_clock_def entry_space_def object_bytes_def ZIP32_MAX_def)

end
