(* ===== verification/Requests.thy ===== *)
theory Requests
  imports Capability RateLimits
begin

text \<open>
  The request middleware of \<^verbatim>\<open>backend/app/web_security.py\<close>: the limit on request bodies, enforced
  while the bytes arrive, and the browser middleware that admits searches and uploads, hands the
  request on and finishes every response.

  An ASGI application is a tree: it answers, it lets the exception of the body limit through, or it
  receives a message and goes on with what it got, \<^term>\<open>None\<close> being that exception.
\<close>

section \<open>The limit on request bodies\<close>

datatype message = HttpRequest str | OtherMessage

datatype 'r app = Respond 'r | TooLarge | Receive "message option \<Rightarrow> 'r app"

definition limit_for :: "settings \<Rightarrow> str \<Rightarrow> str \<Rightarrow> str \<Rightarrow> int option" where
  "limit_for cfg kind rq_verb path =
    (if kind \<noteq> ''http'' \<or> upper rq_verb \<in> set SAFE_METHODS then None
     else if startswith path ''/internal/worker/'' then None
     else
       let overhead = 1024 * 1024 in
       if startswith path ''/upload/events/''
       then Some (min (max_photo_upload_bytes cfg * max_photo_batch_files cfg + overhead) (max_photo_request_bytes cfg))
       else if startswith path ''/user/events/'' \<and> endswith path ''/selfies''
       then Some (max_selfie_upload_bytes cfg * max_selfie_batch_files cfg + overhead)
       else if startswith path ''/admin/events/'' \<and> endswith path ''/participants/upload''
       then Some (max_participant_upload_bytes cfg + overhead)
       else if path = ''/admin/events/new'' \<or> (startswith path ''/admin/events/'' \<and> endswith path ''/edit'')
       then Some (max_event_thumbnail_upload_bytes cfg + overhead)
       else Some (max_form_request_bytes cfg))"

text \<open>What \<^verbatim>\<open>await self.app(scope, receive, send)\<close> comes to, \<^term>\<open>None\<close> being the exception, without and
  with the limited receive.  \<^verbatim>\<open>msgs n\<close> is the n-th message of the connection.\<close>

primrec run_app :: "'r app \<Rightarrow> (nat \<Rightarrow> message) \<Rightarrow> nat \<Rightarrow> 'r option" where
  "run_app (Respond r) msgs n = Some r"
| "run_app TooLarge msgs n = None"
| "run_app (Receive f) msgs n = run_app (f (Some (msgs n))) msgs (Suc n)"

primrec run_limited :: "'r app \<Rightarrow> int \<Rightarrow> (nat \<Rightarrow> message) \<Rightarrow> nat \<Rightarrow> int \<Rightarrow> 'r option" where
  "run_limited (Respond r) limit msgs n consumed = Some r"
| "run_limited TooLarge limit msgs n consumed = None"
| "run_limited (Receive f) limit msgs n consumed =
    (case msgs n of
       OtherMessage \<Rightarrow> run_limited (f (Some OtherMessage)) limit msgs (Suc n) consumed
     | HttpRequest body \<Rightarrow>
         (let consumed' = consumed + int (length body)
          in if limit < consumed' then run_limited (f None) limit msgs (Suc n) consumed'
             else run_limited (f (Some (HttpRequest body))) limit msgs (Suc n) consumed'))"

text \<open>The outcome of the middleware: a plain response of its own, or what the application answered.\<close>

datatype 'r outcome = Plain int str | Answered 'r

definition too_large :: "'r outcome" where
  "too_large = Plain 413 ''Request body is too large.''"

definition answered :: "'r option \<Rightarrow> 'r outcome" where
  "answered x = (case x of None \<Rightarrow> too_large | Some r \<Rightarrow> Answered r)"

definition body_limit_call :: "settings \<Rightarrow> str \<Rightarrow> str \<Rightarrow> str \<Rightarrow> (str \<times> str) list \<Rightarrow> 'r app \<Rightarrow> (nat \<Rightarrow> message) \<Rightarrow>
    'r outcome" where
  "body_limit_call cfg kind rq_verb path headers app msgs =
    (case limit_for cfg kind rq_verb path of
       None \<Rightarrow> answered (run_app app msgs 0)
     | Some limit \<Rightarrow>
         (case map_of (rev (map (\<lambda>(n, v). (lower n, v)) headers)) ''content-length'' of
            None \<Rightarrow> answered (run_limited app limit msgs 0 0)
          | Some declared \<Rightarrow>
              (case int_of_str declared of
                 None \<Rightarrow> Plain 400 ''Invalid Content-Length header.''
               | Some n \<Rightarrow>
                   if n < 0 then Plain 400 ''Invalid Content-Length header.''
                   else if limit < n then too_large
                   else answered (run_limited app limit msgs 0 0))))"

section \<open>Browser tokens and addresses\<close>

definition valid_browser_token :: "str \<Rightarrow> bool" where
  "valid_browser_token value \<longleftrightarrow> 20 \<le> length value \<and> length value \<le> 128 \<and>
     (\<forall>c \<in> set value. is_alnum c \<or> c \<in> {CHR ''-'', CHR ''_''})"

text \<open>\<^verbatim>\<open>canonical_ip\<close> stands for \<^verbatim>\<open>str(ipaddress.ip_address(x))\<close>, \<^term>\<open>None\<close> for its \<^verbatim>\<open>ValueError\<close>.\<close>

definition client_ip :: "(str \<Rightarrow> str option) \<Rightarrow> settings \<Rightarrow> request \<Rightarrow> str" where
  "client_ip canonical_ip cfg rq =
    (let peer = (case rq_client rq of None \<Rightarrow> ''unknown'' | Some h \<Rightarrow> h);
         forwarded = fst (partition_at CHR '','' (header rq ''x-forwarded-for''));
         candidate = (if trust_proxy_headers cfg
           then (if header rq ''cf-connecting-ip'' \<noteq> [] then header rq ''cf-connecting-ip''
                 else if forwarded \<noteq> [] then forwarded else peer)
           else peer)
     in (case canonical_ip (strip candidate) of None \<Rightarrow> ''unknown'' | Some ip \<Rightarrow> ip))"

definition has_browser_admission_context :: "(str \<Rightarrow> bool) \<Rightarrow> settings \<Rightarrow> request \<Rightarrow> bool" where
  "has_browser_admission_context bok cfg rq \<longleftrightarrow>
     valid_browser_token (cookie rq CSRF_COOKIE) \<and> request_origin_is_allowed bok cfg rq"

section \<open>Responses\<close>

record response =
  rs_status :: int
  rs_detail :: str
  rs_json :: bool
  rs_headers :: "str \<rightharpoonup> str"
  rs_cookies :: "set_cookie list"

definition limit_response :: "request \<Rightarrow> int \<Rightarrow> str \<Rightarrow> int \<Rightarrow> response" where
  "limit_response rq status_code detail retry_after =
     \<lparr>rs_status = status_code, rs_detail = detail,
      rs_json = contains (header rq ''accept'') ''application/json'',
      rs_headers = [''Retry-After'' \<mapsto> int_str retry_after], rs_cookies = []\<rparr>"

text \<open>The tokens of one request: the cookies it came with or fresh ones, and the nonce.\<close>

record browser_tokens =
  bt_csrf :: str
  bt_visitor :: str
  bt_new_csrf :: bool
  bt_new_visitor :: bool
  bt_nonce :: str

definition browser_tokens_of :: "str \<Rightarrow> str \<Rightarrow> str \<Rightarrow> request \<Rightarrow> browser_tokens" where
  "browser_tokens_of fresh_csrf fresh_visitor nonce rq =
    (let new_csrf = (\<not> valid_browser_token (cookie rq CSRF_COOKIE));
         new_visitor = (\<not> valid_browser_token (cookie rq VISITOR_COOKIE))
     in \<lparr>bt_csrf = (if new_csrf then fresh_csrf else cookie rq CSRF_COOKIE),
         bt_visitor = (if new_visitor then fresh_visitor else cookie rq VISITOR_COOKIE),
         bt_new_csrf = new_csrf, bt_new_visitor = new_visitor, bt_nonce = nonce\<rparr>)"

definition content_security_policy :: "str \<Rightarrow> str" where
  "content_security_policy nonce =
     ''default-src 'self'; '' @
     ''base-uri 'self'; object-src 'none'; frame-ancestors 'none'; form-action 'self'; '' @
     ''script-src 'self' 'nonce-'' @ nonce @ CHR 39 # ''; '' @
     ''style-src 'self' https://fonts.googleapis.com; img-src 'self' data: https:; '' @
     ''font-src 'self' https://fonts.gstatic.com; connect-src 'self'; '' @
     ''media-src 'none'; worker-src 'none'; manifest-src 'self'' @ [CHR 39]"

definition security_headers :: "(str \<times> str) list" where
  "security_headers =
     [(''Referrer-Policy'', ''strict-origin-when-cross-origin''), (''X-Content-Type-Options'', ''nosniff''),
      (''X-Frame-Options'', ''DENY''), (''Permissions-Policy'', ''camera=(), microphone=(), geolocation=(), payment=()''),
      (''Cross-Origin-Opener-Policy'', ''same-origin''), (''Cross-Origin-Resource-Policy'', ''same-origin''),
      (''X-Permitted-Cross-Domain-Policies'', ''none'')]"

definition private_path :: "str \<Rightarrow> bool" where
  "private_path path \<longleftrightarrow> startswith path ''/admin'' \<or> startswith path ''/upload'' \<or> startswith path ''/user''"

definition finalize_headers :: "settings \<Rightarrow> str \<Rightarrow> str \<Rightarrow> (str \<rightharpoonup> str) \<Rightarrow> (str \<rightharpoonup> str)" where
  "finalize_headers cfg nonce path headers =
    (let h1 = (if is_production cfg \<or> path \<notin> {''/docs'', ''/redoc'', ''/openapi.json''}
               then headers(''Content-Security-Policy'' \<mapsto> content_security_policy nonce) else headers);
         h2 = h1 ++ map_of security_headers;
         h3 = (if is_production cfg
               then h2(''Strict-Transport-Security'' \<mapsto> ''max-age=31536000; includeSubDomains'') else h2)
     in if private_path path
        then h3(''Cache-Control'' \<mapsto> ''no-store, max-age=0'', ''Pragma'' \<mapsto> ''no-cache'',
                ''X-Robots-Tag'' \<mapsto> ''noindex, nofollow, noarchive'')
        else h3)"

definition browser_cookie :: "settings \<Rightarrow> str \<Rightarrow> str \<Rightarrow> int \<Rightarrow> str \<Rightarrow> set_cookie" where
  "browser_cookie cfg name value max_age samesite =
     \<lparr>ck_name = name, ck_value = value, ck_max_age = max_age, ck_path = ''/'',
      ck_secure = secure_cookies cfg, ck_httponly = True, ck_samesite = samesite\<rparr>"

definition finalize_response :: "settings \<Rightarrow> request \<Rightarrow> browser_tokens \<Rightarrow> response \<Rightarrow> response" where
  "finalize_response cfg rq bt rs =
     rs\<lparr>rs_headers := finalize_headers cfg (bt_nonce bt) (rq_path rq) (rs_headers rs),
        rs_cookies := rs_cookies rs @
          (if bt_new_csrf bt then [browser_cookie cfg CSRF_COOKIE (bt_csrf bt) (12 * 60 * 60) ''strict''] else []) @
          (if bt_new_visitor bt then [browser_cookie cfg VISITOR_COOKIE (bt_visitor bt) (24 * 60 * 60) ''lax''] else [])\<rparr>"

section \<open>Admission\<close>

record middleware =
  mw_windows :: window_entries
  mw_in_flight :: in_flight

text \<open>What admission decides: the request goes on, perhaps counted in a category, it is refused, or the
  limiter raises.\<close>

datatype admission = Admit "str option" | Refuse response | Raised exn

fun check_windows :: "nat \<Rightarrow> (nat \<Rightarrow> real) \<Rightarrow> nat \<Rightarrow> (str \<times> str \<times> int \<times> int) list \<Rightarrow> window_entries \<Rightarrow>
    int option result \<times> window_entries" where
  "check_windows max_keys clock n [] es = (Inr None, es)"
| "check_windows max_keys clock n ((bucket, key, limit, window) # checks) es =
    (case sliding_hit max_keys (clock n) bucket key limit window es of
       (Inl e, es') \<Rightarrow> (Inl e, es')
     | (Inr (Some retry_after), es') \<Rightarrow> (Inr (Some retry_after), es')
     | (Inr None, es') \<Rightarrow> check_windows max_keys clock (Suc n) checks es')"

definition event_key :: "str \<Rightarrow> str" where
  "event_key path = (let parts = split_on CHR ''/'' path in if 3 < length parts then parts ! 3 else ''unknown'')"

definition is_search_path :: "str \<Rightarrow> bool" where
  "is_search_path path \<longleftrightarrow> startswith path ''/user/events/'' \<and> (endswith path ''/selfies'' \<or> endswith path ''/bib-only'')"

definition admit :: "request \<Rightarrow> str \<Rightarrow> (nat \<Rightarrow> real) \<Rightarrow> (str \<times> str \<times> int \<times> int) list \<Rightarrow> str \<Rightarrow> str \<Rightarrow>
    middleware \<Rightarrow> admission \<times> middleware" where
  "admit rq category clock checks too_many too_full mw =
    (case check_windows 50000 clock 0 checks (mw_windows mw) of
       (Inl e, es) \<Rightarrow> (Raised e, mw\<lparr>mw_windows := es\<rparr>)
     | (Inr (Some retry_after), es) \<Rightarrow> (Refuse (limit_response rq 429 too_many retry_after), mw\<lparr>mw_windows := es\<rparr>)
     | (Inr None, es) \<Rightarrow>
         (case in_flight_enter category 4 (mw_in_flight mw) of
            (False, counts) \<Rightarrow> (Refuse (limit_response rq 503 too_full 10), mw\<lparr>mw_windows := es, mw_in_flight := counts\<rparr>)
          | (True, counts) \<Rightarrow> (Admit (Some category), mw\<lparr>mw_windows := es, mw_in_flight := counts\<rparr>)))"

definition admission :: "(str \<Rightarrow> bool) \<Rightarrow> (str \<Rightarrow> str option) \<Rightarrow> settings \<Rightarrow> (nat \<Rightarrow> real) \<Rightarrow> str \<Rightarrow> request \<Rightarrow> middleware \<Rightarrow>
    admission \<times> middleware" where
  "admission bok canonical_ip cfg clock visitor rq mw =
    (if rq_method rq = ''POST'' \<and> has_browser_admission_context bok cfg rq \<and> is_search_path (rq_path rq)
     then admit rq ''public-search'' clock
       [(''public-search-visitor'', visitor, 5, 60), (''public-search-ip'', client_ip canonical_ip cfg rq, 300, 600),
        (''public-search-event'', event_key (rq_path rq), 500, 600)]
       ''Too many searches. Please wait before trying again.''
       ''Search capacity is temporarily full. Please retry shortly.'' mw
     else if rq_method rq = ''POST'' \<and> has_browser_admission_context bok cfg rq \<and> startswith (rq_path rq) ''/upload/events/''
     then admit rq ''photo-upload'' clock [(''photo-upload-visitor'', visitor, 120, 60)]
       ''Upload rate limit exceeded. Please pause before retrying.''
       ''Upload capacity is temporarily full. Please retry shortly.'' mw
     else (Admit None, mw))"

text \<open>\<^verbatim>\<open>call_next\<close> runs the rest of the application: it answers or raises, and other requests may change
  the middleware's state meanwhile.  The counter is released in both cases.\<close>

definition release :: "str option \<Rightarrow> middleware \<Rightarrow> middleware" where
  "release category mw = (case category of None \<Rightarrow> mw
     | Some c \<Rightarrow> mw\<lparr>mw_in_flight := in_flight_leave c (mw_in_flight mw)\<rparr>)"

definition dispatch :: "(str \<Rightarrow> bool) \<Rightarrow> (str \<Rightarrow> str option) \<Rightarrow> settings \<Rightarrow> (nat \<Rightarrow> real) \<Rightarrow> browser_tokens \<Rightarrow> request \<Rightarrow>
    (middleware \<Rightarrow> response result \<times> middleware) \<Rightarrow> middleware \<Rightarrow> response result \<times> middleware" where
  "dispatch bok canonical_ip cfg clock bt rq call_next mw =
    (case admission bok canonical_ip cfg clock (bt_visitor bt) rq mw of
       (Raised e, mw') \<Rightarrow> (Inl e, mw')
     | (Refuse rs, mw') \<Rightarrow> (Inr (finalize_response cfg rq bt rs), mw')
     | (Admit category, mw') \<Rightarrow>
         (case call_next mw' of
            (Inl e, mw'') \<Rightarrow> (Inl e, release category mw'')
          | (Inr rs, mw'') \<Rightarrow> (Inr (finalize_response cfg rq bt rs), release category mw'')))"

end
