(* ===== verification/RequestFacts.thy ===== *)
theory RequestFacts
  imports Requests RateLimitFacts
begin

text \<open>
  What the request middleware promises: an application never gets more body bytes than the limit of its
  path and is not disturbed below it, and a request through the browser middleware leaves the counters
  of the requests in flight as it found them and gets a response with the security headers.
\<close>

section \<open>Request bodies\<close>

text \<open>The same application, answering with the body bytes it was handed.\<close>

primrec tally :: "'r app \<Rightarrow> str \<Rightarrow> str app" where
  "tally (Respond r) seen = Respond seen"
| "tally TooLarge seen = Respond seen"
| "tally (Receive f) seen =
     Receive (\<lambda>m. tally (f m) (case m of Some (HttpRequest body) \<Rightarrow> seen @ body | _ \<Rightarrow> seen))"

definition body_length :: "message \<Rightarrow> int" where
  "body_length m = (case m of HttpRequest b \<Rightarrow> int (length b) | OtherMessage \<Rightarrow> 0)"

definition arrived :: "(nat \<Rightarrow> message) \<Rightarrow> nat \<Rightarrow> int" where
  "arrived msgs n = (\<Sum>i<n. body_length (msgs i))"

lemma run_limited_tally:
  assumes "int (length seen) \<le> consumed" "int (length seen) \<le> limit"
  shows "\<exists>got. run_limited (tally app seen) limit msgs n consumed = Some got \<and> int (length got) \<le> limit"
  using assms
proof (induction app arbitrary: n consumed seen)
  case (Receive f)
  show ?case
  proof (cases "msgs n")
    case (HttpRequest body)
    let ?c = "consumed + int (length body)"
    show ?thesis
    proof (cases "limit < ?c")
      case True
      have "\<exists>got. run_limited (tally (f None) seen) limit msgs (Suc n) ?c = Some got \<and> int (length got) \<le> limit"
        by (rule Receive.IH) (use Receive.prems in simp_all)
      with True show ?thesis by (simp add: HttpRequest)
    next
      case False
      have "\<exists>got. run_limited (tally (f (Some (HttpRequest body))) (seen @ body)) limit msgs (Suc n) ?c = Some got \<and>
          int (length got) \<le> limit"
        by (rule Receive.IH) (use Receive.prems False in simp_all)
      with False show ?thesis by (simp add: HttpRequest)
    qed
  next
    case OtherMessage
    have "\<exists>got. run_limited (tally (f (Some OtherMessage)) seen) limit msgs (Suc n) consumed = Some got \<and>
        int (length got) \<le> limit"
      by (rule Receive.IH) (use Receive.prems in simp_all)
    then show ?thesis by (simp add: OtherMessage)
  qed
qed simp_all

lemma run_limited_transparent:
  assumes "\<And>k. arrived msgs k \<le> limit"
  shows "run_limited app limit msgs n (arrived msgs n) = run_app app msgs n"
proof (induction app arbitrary: n)
  case (Receive f)
  have s: "arrived msgs (Suc n) = arrived msgs n + body_length (msgs n)" by (simp add: arrived_def)
  have "run_limited (f (Some (msgs n))) limit msgs (Suc n) (arrived msgs (Suc n)) = run_app (f (Some (msgs n))) msgs (Suc n)"
    by (rule Receive.IH) simp
  then show ?case
    using assms[of "Suc n"] unfolding s by (cases "msgs n") (simp_all add: body_length_def)
qed simp_all

definition declared_length :: "(str \<times> str) list \<Rightarrow> str option" where
  "declared_length headers = map_of (rev (map (\<lambda>(n, v). (lower n, v)) headers)) ''content-length''"

text \<open>C34 (safety): the limit on request bodies.  On a limited path, whatever the application does and
  whatever arrives, it never receives more body bytes than the limit; a declared length above the limit
  is answered with 413 before the application runs; and a request whose bytes stay within the limit,
  with no declared length or an honest one, is answered exactly as without the middleware.\<close>

theorem body_limit_enforced:
  assumes "limit_for cfg kind rq_verb path = Some limit" "0 \<le> limit"
  shows "(\<exists>got. run_limited (tally app []) limit msgs 0 0 = Some got \<and> int (length got) \<le> limit) \<and>
    (\<forall>v n. declared_length headers = Some v \<longrightarrow> int_of_str v = Some n \<longrightarrow> limit < n \<longrightarrow>
       body_limit_call cfg kind rq_verb path headers app msgs = Plain 413 ''Request body is too large.'') \<and>
    ((\<forall>k. arrived msgs k \<le> limit) \<longrightarrow>
     (case declared_length headers of None \<Rightarrow> True
      | Some v \<Rightarrow> (case int_of_str v of None \<Rightarrow> False | Some n \<Rightarrow> 0 \<le> n \<and> n \<le> limit)) \<longrightarrow>
       body_limit_call cfg kind rq_verb path headers app msgs = answered (run_app app msgs 0))"
proof (intro conjI allI impI)
  show "\<exists>got. run_limited (tally app []) limit msgs 0 0 = Some got \<and> int (length got) \<le> limit"
    by (rule run_limited_tally) (use assms(2) in simp_all)
next
  fix v n assume "declared_length headers = Some v" "int_of_str v = Some n" "limit < n"
  then show "body_limit_call cfg kind rq_verb path headers app msgs = Plain 413 ''Request body is too large.''"
    using assms by (simp add: body_limit_call_def declared_length_def too_large_def)
next
  assume a: "\<forall>k. arrived msgs k \<le> limit"
    and h: "case declared_length headers of None \<Rightarrow> True
      | Some v \<Rightarrow> (case int_of_str v of None \<Rightarrow> False | Some n \<Rightarrow> 0 \<le> n \<and> n \<le> limit)"
  have "run_limited app limit msgs 0 0 = run_app app msgs 0"
    using run_limited_transparent[of msgs limit app 0] a by (simp add: arrived_def)
  then show "body_limit_call cfg kind rq_verb path headers app msgs = answered (run_app app msgs 0)"
    using assms(1) h by (auto simp: body_limit_call_def declared_length_def[symmetric] split: option.splits)
qed

theorem body_limit_enforced_witness:
  "body_limit_call (default_settings\<lparr>max_form_request_bytes := 2048\<rparr>) ''http'' ''POST'' ''/search'' [(''Content-Length'', ''5000'')]
     (Respond ()) (\<lambda>_. OtherMessage) = Plain 413 ''Request body is too large.''"
proof -
  have u: "upper ''POST'' \<notin> set SAFE_METHODS"
    "\<not> startswith ''/search'' ''/internal/worker/''" "\<not> startswith ''/search'' ''/upload/events/''"
    "\<not> startswith ''/search'' ''/user/events/''" "\<not> startswith ''/search'' ''/admin/events/''"
    "''/search'' \<noteq> ''/admin/events/new''"
    by code_simp+
  have g: "limit_for cfg ''http'' ''POST'' ''/search'' = Some (max_form_request_bytes cfg)" for cfg
    by (simp only: limit_for_def u Let_def if_False simp_thms)
  have l: "limit_for (default_settings\<lparr>max_form_request_bytes := 2048\<rparr>) ''http'' ''POST'' ''/search'' = Some 2048"
    unfolding g by simp
  have d: "declared_length [(''Content-Length'', ''5000'')] = Some ''5000''" by code_simp
  have cc: "char_code CHR ''5'' = 53" "char_code CHR ''0'' = 48" by code_simp+
  have cc: "char_code CHR ''5'' = 53" "char_code CHR ''0'' = 48" by code_simp+
  have e: "strip ''5000'' = ''5000''" "split_on CHR ''_'' ''5000'' = [''5000'']" "decimal ''5000'' = 5000"
    by (code_simp, code_simp, simp add: decimal_def cc)
  have dg: "is_digit CHR ''5''" "is_digit CHR ''0''" by code_simp+
  have i: "int_of_str ''5000'' = Some 5000" by (simp add: int_of_str_def e dg)
  have z: "0 \<le> (2048::int)" by simp
  have c: "(2048::int) < 5000" by simp
  show ?thesis
    by (rule body_limit_enforced[OF l z, THEN conjunct2, THEN conjunct1, rule_format, OF d i c])
qed

section \<open>The browser middleware\<close>

lemma leave_enter:
  assumes "in_flight_enter c 4 counts = (True, counts')" "counts c \<noteq> Some 0" "0 \<le> in_flight_count c counts"
  shows "in_flight_leave c counts' = counts"
proof -
  have "counts' = counts(c \<mapsto> in_flight_count c counts + 1)"
    using assms(1) by (auto simp: in_flight_enter_def Let_def split: if_splits)
  then show ?thesis
    using assms(2,3)
    by (auto simp: in_flight_leave_def in_flight_count_def Let_def fun_eq_iff split: option.splits)
qed

lemma finalize_secures:
  "finalize_headers cfg nonce path h ''X-Content-Type-Options'' = Some ''nosniff''"
  "finalize_headers cfg nonce path h ''X-Frame-Options'' = Some ''DENY''"
  "is_production cfg \<Longrightarrow> finalize_headers cfg nonce path h ''Content-Security-Policy'' = Some (content_security_policy nonce)"
  "is_production cfg \<Longrightarrow> finalize_headers cfg nonce path h ''Strict-Transport-Security'' =
     Some ''max-age=31536000; includeSubDomains''"
  "private_path path \<Longrightarrow> finalize_headers cfg nonce path h ''Cache-Control'' = Some ''no-store, max-age=0''"
  by (simp_all add: finalize_headers_def Let_def map_add_def security_headers_def)

text \<open>What every response of the browser middleware carries.\<close>

definition secured :: "settings \<Rightarrow> request \<Rightarrow> browser_tokens \<Rightarrow> response \<Rightarrow> bool" where
  "secured cfg rq bt rs \<longleftrightarrow>
     rs_headers rs ''X-Content-Type-Options'' = Some ''nosniff'' \<and> rs_headers rs ''X-Frame-Options'' = Some ''DENY'' \<and>
     (is_production cfg \<longrightarrow>
        rs_headers rs ''Content-Security-Policy'' = Some (content_security_policy (bt_nonce bt)) \<and>
        rs_headers rs ''Strict-Transport-Security'' = Some ''max-age=31536000; includeSubDomains'') \<and>
     (private_path (rq_path rq) \<longrightarrow> rs_headers rs ''Cache-Control'' = Some ''no-store, max-age=0'') \<and>
     (bt_new_csrf bt \<longrightarrow> browser_cookie cfg CSRF_COOKIE (bt_csrf bt) 43200 ''strict'' \<in> set (rs_cookies rs)) \<and>
     (bt_new_visitor bt \<longrightarrow> browser_cookie cfg VISITOR_COOKIE (bt_visitor bt) 86400 ''lax'' \<in> set (rs_cookies rs))"

lemma finalize_secured: "secured cfg rq bt (finalize_response cfg rq bt rs)"
  by (simp add: secured_def finalize_response_def finalize_secures)

lemma check_windows_retry:
  "check_windows m clock n checks es = (Inr (Some r), es') \<Longrightarrow> 1 \<le> r"
proof (induction checks arbitrary: n es)
  case (Cons c checks)
  obtain b k l w where c: "c = (b, k, l, w)" by (metis prod_cases4)
  obtain x es1 where h: "sliding_hit m (clock n) b k l w es = (x, es1)" by (metis surj_pair)
  show ?case
  proof (cases x)
    case (Inl e)
    with Cons.prems show ?thesis by (simp add: c h)
  next
    case (Inr y)
    show ?thesis
    proof (cases y)
      case None
      with Cons Inr show ?thesis by (simp add: c h)
    next
      case (Some r')
      with Cons.prems Inr have r: "r = r'" by (simp add: c h)
      from h Some Inr have "1 \<le> r'"
        by (auto simp: sliding_hit_def Let_def split: if_splits list.splits)
      then show ?thesis using r by simp
    qed
  qed
qed simp

definition counts_ok :: "middleware \<Rightarrow> bool" where
  "counts_ok mw \<longleftrightarrow> (\<forall>c n. mw_in_flight mw c = Some n \<longrightarrow> 0 < n)"

lemma admit_cases:
  assumes "admit rq category clock checks many full mw = (a, mw')" "counts_ok mw"
  shows "(\<exists>e. a = Raised e \<and> mw_in_flight mw' = mw_in_flight mw) \<or>
    (\<exists>r detail. a = Refuse (limit_response rq 429 detail r) \<and> 1 \<le> r \<and> mw_in_flight mw' = mw_in_flight mw) \<or>
    (\<exists>detail. a = Refuse (limit_response rq 503 detail 10) \<and> mw_in_flight mw' = mw_in_flight mw) \<or>
    (a = Admit (Some category) \<and> in_flight_leave category (mw_in_flight mw') = mw_in_flight mw \<and>
       in_flight_count category (mw_in_flight mw) < 4)"
proof -
  obtain x es where w: "check_windows 50000 clock 0 checks (mw_windows mw) = (x, es)" by (metis surj_pair)
  obtain ok counts where g: "in_flight_enter category 4 (mw_in_flight mw) = (ok, counts)" by (metis surj_pair)
  have "mw_in_flight mw category \<noteq> Some 0" "0 \<le> in_flight_count category (mw_in_flight mw)"
    using assms(2) by (auto simp: counts_ok_def in_flight_count_def intro: less_imp_le split: option.splits)
  then have l: "ok \<Longrightarrow> in_flight_leave category counts = mw_in_flight mw" using leave_enter g by simp
  have n: "\<not> ok \<Longrightarrow> counts = mw_in_flight mw" "ok \<Longrightarrow> in_flight_count category (mw_in_flight mw) < 4"
    using g by (auto simp: in_flight_enter_def Let_def split: if_splits)
  show ?thesis
  proof (cases x)
    case (Inl e)
    with assms(1) w show ?thesis by (auto simp: admit_def)
  next
    case (Inr y)
    show ?thesis
    proof (cases y)
      case None
      with assms(1) w g Inr l n show ?thesis by (cases ok) (auto simp: admit_def)
    next
      case (Some r)
      with assms(1) w Inr check_windows_retry[of 50000 clock 0 checks "mw_windows mw" r es] show ?thesis
        by (auto simp: admit_def)
    qed
  qed
qed

text \<open>The category a request is counted in.\<close>

definition counted_as :: "(str \<Rightarrow> bool) \<Rightarrow> settings \<Rightarrow> request \<Rightarrow> str option" where
  "counted_as bok cfg rq =
    (if rq_method rq = ''POST'' \<and> has_browser_admission_context bok cfg rq
     then (if is_search_path (rq_path rq) then Some ''public-search''
           else if startswith (rq_path rq) ''/upload/events/'' then Some ''photo-upload'' else None)
     else None)"

lemma admission_cases:
  assumes a: "admission bok ip cfg clock visitor rq mw = (a, mw')" and ok: "counts_ok mw"
  shows "(\<exists>e. a = Raised e \<and> mw_in_flight mw' = mw_in_flight mw) \<or>
    (\<exists>s detail r. a = Refuse (limit_response rq s detail r) \<and> s \<in> {429, 503} \<and> 1 \<le> r \<and>
       mw_in_flight mw' = mw_in_flight mw) \<or>
    (a = Admit (counted_as bok cfg rq) \<and> mw_in_flight (release (counted_as bok cfg rq) mw') = mw_in_flight mw \<and>
       (\<forall>c. counted_as bok cfg rq = Some c \<longrightarrow> in_flight_count c (mw_in_flight mw) < 4))"
proof (cases "counted_as bok cfg rq")
  case None
  then have "a = Admit None" "mw' = mw"
    using a by (simp_all add: counted_as_def admission_def split: if_splits)
  then show ?thesis by (simp add: None release_def)
next
  case (Some c)
  then obtain checks many full where "admit rq c clock checks many full mw = (a, mw')"
    using a by (simp add: counted_as_def admission_def split: if_splits)
  from admit_cases[OF this ok] show ?thesis
    by (elim disjE exE conjE) (simp_all add: Some release_def, (intro exI conjI, rule refl, simp, simp)+)
qed

lemma dispatch_counts:
  assumes "counts_ok mw" "\<And>m. mw_in_flight (snd (call_next m)) = mw_in_flight m"
  shows "mw_in_flight (snd (dispatch bok ip cfg clock bt rq call_next mw)) = mw_in_flight mw"
proof -
  obtain a mw1 where a: "admission bok ip cfg clock (bt_visitor bt) rq mw = (a, mw1)" by (metis surj_pair)
  obtain x mw2 where c: "call_next mw1 = (x, mw2)" by (metis surj_pair)
  have m: "mw_in_flight mw2 = mw_in_flight mw1" using assms(2)[of mw1] c by simp
  have r: "mw_in_flight (release k mw2) = mw_in_flight (release k mw1)" for k
    using m by (cases k) (simp_all add: release_def)
  from admission_cases[OF a assms(1)] show ?thesis
    by (elim disjE exE conjE; cases x) (simp_all add: dispatch_def a c r)
qed

lemma dispatch_secured:
  assumes "dispatch bok ip cfg clock bt rq call_next mw = (Inr rs, mw')"
  shows "secured cfg rq bt rs"
proof -
  obtain a mw1 where a: "admission bok ip cfg clock (bt_visitor bt) rq mw = (a, mw1)" by (metis surj_pair)
  obtain x mw2 where c: "call_next mw1 = (x, mw2)" by (metis surj_pair)
  from assms have "\<exists>rs0. rs = finalize_response cfg rq bt rs0"
    by (cases a; cases x) (auto simp: dispatch_def a c)
  then show ?thesis using finalize_secured by blast
qed

lemma dispatch_full:
  assumes "counts_ok mw" "counted_as bok cfg rq = Some c" "4 \<le> in_flight_count c (mw_in_flight mw)"
  shows "(\<exists>e mw'. \<forall>call_next. dispatch bok ip cfg clock bt rq call_next mw = (Inl e, mw')) \<or>
    (\<exists>s detail r mw'. s \<in> {429, 503} \<and> 1 \<le> r \<and> (\<forall>call_next. dispatch bok ip cfg clock bt rq call_next mw =
        (Inr (finalize_response cfg rq bt (limit_response rq s detail r)), mw')))"
proof -
  obtain a mw1 where a: "admission bok ip cfg clock (bt_visitor bt) rq mw = (a, mw1)" by (metis surj_pair)
  from admission_cases[OF a assms(1)]
  consider (raise) e where "a = Raised e"
    | (refuse) s detail r where "a = Refuse (limit_response rq s detail r)" "s \<in> {429, 503}" "1 \<le> r"
    using assms(2,3) by fastforce
  then show ?thesis
  proof cases
    case raise
    then have "\<forall>call_next. dispatch bok ip cfg clock bt rq call_next mw = (Inl e, mw1)"
      by (simp add: dispatch_def a)
    then show ?thesis by blast
  next
    case refuse
    then have "\<forall>call_next. dispatch bok ip cfg clock bt rq call_next mw =
        (Inr (finalize_response cfg rq bt (limit_response rq s detail r)), mw1)"
      by (simp add: dispatch_def a)
    with refuse show ?thesis by blast
  qed
qed

text \<open>C33 (safety): the browser middleware.  A request leaves the counters of the requests in flight as it
  found them, whether the application answers or raises; every response it gives, a refusal included,
  carries the security headers and the cookies of fresh tokens; and with four requests of its category in
  flight a search or an upload is turned away without the application running, with 429 or 503
  and a waiting time of at least one second, unless the limiter itself raises.\<close>

theorem dispatch_guards:
  assumes "counts_ok mw" "\<And>m. mw_in_flight (snd (call_next m)) = mw_in_flight m"
  shows "mw_in_flight (snd (dispatch bok ip cfg clock bt rq call_next mw)) = mw_in_flight mw \<and>
    (\<forall>rs mw'. dispatch bok ip cfg clock bt rq call_next mw = (Inr rs, mw') \<longrightarrow> secured cfg rq bt rs) \<and>
    (\<forall>c. counted_as bok cfg rq = Some c \<longrightarrow> 4 \<le> in_flight_count c (mw_in_flight mw) \<longrightarrow>
      (\<exists>e mw'. \<forall>call. dispatch bok ip cfg clock bt rq call mw = (Inl e, mw')) \<or>
      (\<exists>s detail r mw'. s \<in> {429, 503} \<and> 1 \<le> r \<and> (\<forall>call. dispatch bok ip cfg clock bt rq call mw =
          (Inr (finalize_response cfg rq bt (limit_response rq s detail r)), mw'))))"
  using dispatch_counts[OF assms, of bok ip cfg clock bt rq]
    dispatch_secured[of bok ip cfg clock bt rq call_next mw]
    dispatch_full[OF assms(1), of bok cfg rq _ ip clock bt]
  by blast

definition demo_page_request :: request where
  "demo_page_request = \<lparr>rq_method = ''GET'', rq_path = ''/events'', rq_headers = Map.empty, rq_cookies = Map.empty, rq_scheme = ''http'',
     rq_client = None\<rparr>"

theorem dispatch_guards_witness:
  "mw_in_flight (snd (dispatch (\<lambda>_. True) Some default_settings (\<lambda>_. 0)
      (browser_tokens_of ''csrf'' ''visitor'' ''nonce'' demo_page_request) demo_page_request
      (\<lambda>m. (Inl (OverflowError []), m)) \<lparr>mw_windows = [], mw_in_flight = [''photo-upload'' \<mapsto> 3]\<rparr>)) =
    [''photo-upload'' \<mapsto> 3]"
proof -
  have "counts_ok \<lparr>mw_windows = [], mw_in_flight = [''photo-upload'' \<mapsto> 3]\<rparr>" by (simp add: counts_ok_def)
  from dispatch_guards[OF this, of "\<lambda>m. (Inl (OverflowError []), m)", THEN conjunct1] show ?thesis by simp
qed

end
