(* ===== verification/Uploads.thy ===== *)
theory Uploads
  imports Archive Capability Completion
begin

text \<open>
  What an upload has to pass before it is stored: \<^verbatim>\<open>backend/app/uploads.py\<close>, the checks of
  \<^verbatim>\<open>backend/app/face.py\<close> (73 to 119) and \<^verbatim>\<open>backend/app/photographer.py\<close> (670 to 707), and the keys
  under which objects are stored.

  Decoding an image is Pillow's: \<^verbatim>\<open>decode\<close> gives what the source reads of the decoded image or how
  decoding failed.  \<^verbatim>\<open>digest\<close> is \<^verbatim>\<open>hashlib.sha256(content).hexdigest()\<close>.
\<close>

section \<open>Paths\<close>

text \<open>\<^verbatim>\<open>Path(p).suffix\<close> and \<^verbatim>\<open>Path(p).stem\<close>: a dot that opens or ends the name splits nothing.\<close>

definition path_suffix :: "str \<Rightarrow> str" where
  "path_suffix p =
    (case rpartition_at CHR ''.'' (path_name p) of
       (stem, found, extension) \<Rightarrow> if found \<and> stem \<noteq> [] \<and> extension \<noteq> [] then CHR ''.'' # extension else [])"

definition path_stem :: "str \<Rightarrow> str" where
  "path_stem p =
    (case rpartition_at CHR ''.'' (path_name p) of
       (stem, found, extension) \<Rightarrow> if found \<and> stem \<noteq> [] \<and> extension \<noteq> [] then stem else path_name p)"

definition key_char :: "char \<Rightarrow> bool" where
  "key_char c \<longleftrightarrow> is_alnum c \<or> c = CHR ''.'' \<or> c = CHR ''_'' \<or> c = CHR ''-''"

text \<open>\<^verbatim>\<open>re.sub(r"[...]+", rep, s)\<close>, the characters outside the class being \<^verbatim>\<open>ok\<close>.\<close>

fun sub_runs :: "(char \<Rightarrow> bool) \<Rightarrow> char \<Rightarrow> bool \<Rightarrow> str \<Rightarrow> str" where
  "sub_runs ok rep in_run [] = []"
| "sub_runs ok rep in_run (c # cs) =
     (if ok c then c # sub_runs ok rep False cs
      else if in_run then sub_runs ok rep True cs
      else rep # sub_runs ok rep True cs)"

definition safe_base_name :: "str \<Rightarrow> str \<Rightarrow> str" where
  "safe_base_name file_name fallback =
    (let base = strip_chars (\<lambda>c. c = CHR ''-'') (sub_runs key_char CHR ''-'' False (path_stem file_name))
     in if base = [] then fallback else base)"

definition key_extension :: "str \<Rightarrow> str" where
  "key_extension file_name =
    (let extension = lower (path_suffix file_name) in if extension = [] then ''.jpg'' else extension)"

section \<open>Object keys\<close>

definition build_face_selfie_object_key :: "uuid \<Rightarrow> uuid \<Rightarrow> uuid \<Rightarrow> str \<Rightarrow> str" where
  "build_face_selfie_object_key event_id participant_id face_image_id file_name =
     ''events/'' @ uuid_str event_id @ ''/participants/'' @ uuid_str participant_id @ ''/faces/'' @
     uuid_str face_image_id @ ''-'' @ safe_base_name file_name ''selfie'' @ key_extension file_name"

definition build_face_search_object_key :: "uuid \<Rightarrow> uuid \<Rightarrow> uuid \<Rightarrow> str \<Rightarrow> str" where
  "build_face_search_object_key event_id search_session_id search_image_id file_name =
     ''events/'' @ uuid_str event_id @ ''/face-search/'' @ uuid_str search_session_id @ ''/'' @
     uuid_str search_image_id @ ''-'' @ safe_base_name file_name ''face-photo'' @ key_extension file_name"

definition build_original_object_key :: "uuid \<Rightarrow> uuid \<Rightarrow> str \<Rightarrow> str" where
  "build_original_object_key event_id photo_id file_name =
     ''events/'' @ uuid_str event_id @ ''/originals/'' @ uuid_str photo_id @ ''-'' @
     safe_base_name file_name ''photo'' @ key_extension file_name"

definition build_thumbnail_object_key :: "uuid \<Rightarrow> uuid \<Rightarrow> str \<Rightarrow> str" where
  "build_thumbnail_object_key event_id photo_id file_name =
     ''events/'' @ uuid_str event_id @ ''/thumbnails/'' @ uuid_str photo_id @ ''-'' @
     safe_base_name file_name ''photo'' @ ''.jpg''"

section \<open>Declared properties of an upload\<close>

definition IMAGE_EXTENSIONS :: "str list" where
  "IMAGE_EXTENSIONS = [''.jpg'', ''.jpeg'', ''.png'', ''.webp'']"

definition IMAGE_CONTENT_TYPES :: "str list" where
  "IMAGE_CONTENT_TYPES = [''image/jpeg'', ''image/png'', ''image/webp'']"

definition guess_content_type :: "str \<Rightarrow> str" where
  "guess_content_type extension =
    (if extension \<in> {''.jpg'', ''.jpeg''} then ''image/jpeg''
     else if extension = ''.png'' then ''image/png'' else ''image/webp'')"

definition megabytes :: "int \<Rightarrow> str" where
  "megabytes n = int_str (n div (1024 * 1024)) @ '' MB upload limit.''"

definition validate_selfie_upload :: "settings \<Rightarrow> str \<Rightarrow> str \<Rightarrow> int \<Rightarrow> str result" where
  "validate_selfie_upload cfg file_name content_type file_size =
    (let extension = lower (path_suffix file_name);
         normalized = (if content_type \<noteq> [] then lower (strip content_type) else [])
     in if extension \<notin> set IMAGE_EXTENSIONS then Inl (ValueError ''Upload JPG, PNG, or WEBP selfies only.'')
        else if file_size \<le> 0 then Inl (ValueError ''Uploaded selfie is empty.'')
        else if max_selfie_upload_bytes cfg < file_size
        then Inl (ValueError (''Selfie exceeds the '' @ megabytes (max_selfie_upload_bytes cfg)))
        else if normalized \<noteq> [] \<and> normalized \<notin> set IMAGE_CONTENT_TYPES
        then Inl (ValueError ''Unsupported selfie type. Use JPG, PNG, or WEBP.'')
        else if normalized \<noteq> [] then Inr normalized
        else Inr (guess_content_type extension))"

definition validate_image_upload :: "settings \<Rightarrow> str \<Rightarrow> str \<Rightarrow> int \<Rightarrow> str result" where
  "validate_image_upload cfg file_name content_type file_size =
    (let extension = lower (path_suffix file_name);
         normalized = (if content_type \<noteq> [] then lower (strip content_type) else [])
     in if extension \<notin> set IMAGE_EXTENSIONS then Inl (ValueError ''Upload JPG, PNG, or WEBP images only.'')
        else if file_size \<le> 0 then Inl (ValueError ''Uploaded file is empty.'')
        else if max_photo_upload_bytes cfg < file_size
        then Inl (ValueError (''Image exceeds the '' @ megabytes (max_photo_upload_bytes cfg)))
        else if normalized \<noteq> [] \<and> normalized \<notin> set IMAGE_CONTENT_TYPES
        then Inl (ValueError ''Unsupported image type. Use JPG, PNG, or WEBP.'')
        else if normalized = [] then Inr (guess_content_type extension)
        else Inr normalized)"

section \<open>The bytes of an upload\<close>

record upload =
  up_content_length :: "str option"
  up_content :: "byte list"

definition check_declared_length :: "upload \<Rightarrow> int \<Rightarrow> unit result" where
  "check_declared_length up limit =
    (case up_content_length up of
       None \<Rightarrow> Inr ()
     | Some declared \<Rightarrow>
         if declared = [] then Inr ()
         else (case int_of_str declared of
                 None \<Rightarrow> Inl (HTTPException 400 ''Invalid Content-Length header.'')
               | Some n \<Rightarrow> if limit < n then Inl (HTTPException 413 ''Upload is too large.'') else Inr ()))"

definition read_upload_limited :: "upload \<Rightarrow> int \<Rightarrow> byte list result" where
  "read_upload_limited up limit =
    (if limit \<le> 0 then Inl (RuntimeError ''Upload limit must be positive.'')
     else case check_declared_length up limit of
            Inl e \<Rightarrow> Inl e
          | Inr _ \<Rightarrow>
              (let content = take (nat (limit + 1)) (up_content up)
               in if limit < int (length content) then Inl (HTTPException 413 ''Upload is too large.'')
                  else if content = [] then Inl (HTTPException 400 ''Uploaded file is empty.'')
                  else Inr content))"

text \<open>How decoding ends: the format, width, height and number of frames; one of the two exceptions for
  decompression bombs; an exception the source takes for a broken image; or another one.\<close>

datatype decoded =
    Decoded str int int int
  | Bomb
  | Unreadable
  | Broken exn

record validated_image =
  vi_content_type :: str
  vi_width :: int
  vi_height :: int
  vi_sha256 :: str

definition ALLOWED_IMAGE_FORMATS :: "str \<rightharpoonup> str \<times> str list" where
  "ALLOWED_IMAGE_FORMATS =
     [''JPEG'' \<mapsto> (''image/jpeg'', [''.jpg'', ''.jpeg'']), ''PNG'' \<mapsto> (''image/png'', [''.png'']),
      ''WEBP'' \<mapsto> (''image/webp'', [''.webp''])]"

definition declared_type :: "str option \<Rightarrow> str" where
  "declared_type declared = lower (strip (fst (partition_at CHR '';'' (case declared of None \<Rightarrow> [] | Some t \<Rightarrow> t))))"

text \<open>The checks on a decoded image.\<close>

definition check_decoded :: "settings \<Rightarrow> (byte list \<Rightarrow> str) \<Rightarrow> byte list \<Rightarrow> str \<Rightarrow> str option \<Rightarrow> str \<Rightarrow> int \<Rightarrow> int \<Rightarrow> int \<Rightarrow>
    validated_image result" where
  "check_decoded cfg digest content file_name declared fmt width height frames =
    (case ALLOWED_IMAGE_FORMATS (upper fmt) of
       None \<Rightarrow> Inl (ValueError ''Upload JPG, PNG, or WEBP images only.'')
     | Some (actual, extensions) \<Rightarrow>
         if lower (path_suffix file_name) \<notin> set extensions
         then Inl (ValueError ''The file extension does not match the image contents.'')
         else if declared_type declared \<noteq> [] \<and> declared_type declared \<noteq> actual
         then Inl (ValueError ''The declared image type does not match the image contents.'')
         else if width \<le> 0 \<or> height \<le> 0 then Inl (ValueError ''Image dimensions are invalid.'')
         else if max_image_dimension cfg < width \<or> max_image_dimension cfg < height
         then Inl (ValueError ''Image width or height exceeds the configured limit.'')
         else if max_image_pixels cfg < width * height
         then Inl (ValueError ''Image pixel count exceeds the configured limit.'')
         else if (if frames = 0 then 1 else frames) \<noteq> 1
         then Inl (ValueError ''Animated or multi-frame images are not supported.'')
         else Inr \<lparr>vi_content_type = actual, vi_width = width, vi_height = height, vi_sha256 = digest content\<rparr>)"

definition validate_image_bytes ::
    "settings \<Rightarrow> (byte list \<Rightarrow> decoded) \<Rightarrow> (byte list \<Rightarrow> str) \<Rightarrow> byte list \<Rightarrow> str \<Rightarrow> str option \<Rightarrow> int \<Rightarrow>
     validated_image result" where
  "validate_image_bytes cfg decode digest content file_name declared max_bytes =
    (if content = [] then Inl (ValueError ''Uploaded image is empty.'')
     else if max_bytes < int (length content)
     then Inl (ValueError (''Image exceeds the '' @ megabytes max_bytes))
     else if 255 < length file_name then Inl (ValueError ''Image file name is too long.'')
     else case decode content of
            Bomb \<Rightarrow> Inl (ValueError ''Image dimensions are too large.'')
          | Unreadable \<Rightarrow> Inl (ValueError ''The uploaded file is not a valid supported image.'')
          | Broken e \<Rightarrow> Inl e
          | Decoded fmt width height frames \<Rightarrow>
              check_decoded cfg digest content file_name declared fmt width height frames)"

end
