(* ===== verification/Ingest.thy ===== *)
theory Ingest
  imports Uploads Maintenance Listing
begin

text \<open>
  How an upload becomes rows and stored objects: \<^verbatim>\<open>ingest_photo_upload\<close> of
  \<^verbatim>\<open>backend/app/photographer.py\<close> and the two selfie uploads of \<^verbatim>\<open>backend/app/face.py\<close> (122 to 367).

  The object storage is a map from keys to contents.  A call of the storage client may raise, before or
  after its effect; which calls do is the argument \<^verbatim>\<open>env\<close>, as is whether the database can
  commit and whether the row can be read again afterwards.  A commit that raises writes nothing.
\<close>

section \<open>The object storage\<close>

type_synonym storage = "str \<rightharpoonup> byte list"

text \<open>\<^term>\<open>Raises True\<close>: the call raises although the storage has done the work.\<close>

datatype fault = Works | Raises bool

record storage_env =
  se_put :: "nat \<Rightarrow> fault"
  se_delete :: "nat \<Rightarrow> fault"
  se_commit :: bool
  se_refresh :: bool

definition put_object :: "fault \<Rightarrow> str \<Rightarrow> byte list \<Rightarrow> storage \<Rightarrow> bool \<times> storage" where
  "put_object f key content st =
    (case f of
       Works \<Rightarrow> (True, st(key \<mapsto> content))
     | Raises happened \<Rightarrow> (False, if happened then st(key \<mapsto> content) else st))"

definition delete_object :: "fault \<Rightarrow> str \<Rightarrow> storage \<Rightarrow> bool \<times> storage" where
  "delete_object f key st =
    (if key = [] then (True, st)
     else case f of
            Works \<Rightarrow> (True, st(key := None))
          | Raises happened \<Rightarrow> (False, if happened then st(key := None) else st))"

text \<open>The compensation: every key is deleted, an exception is logged and the next one is tried.\<close>

fun delete_keys :: "storage_env \<Rightarrow> nat \<Rightarrow> str list \<Rightarrow> storage \<Rightarrow> storage" where
  "delete_keys env n [] st = st"
| "delete_keys env n (k # ks) st = delete_keys env (Suc n) ks (snd (delete_object (se_delete env n) k st))"

section \<open>Rows of an upload\<close>

definition queued_row :: "settings \<Rightarrow> time \<Rightarrow> uuid \<Rightarrow> job_parent \<Rightarrow> job_type \<Rightarrow> job" where
  "queued_row cfg now i parent type = \<lparr>j_id = i, j_parent = parent, j_job_type = type, j_status = Queued,
     j_attempt_count = 0, j_max_attempts = worker_max_attempts cfg, j_attempt_id = None, j_claimed_at = None,
     j_lease_expires_at = None, j_retry_after = None, j_dead_lettered_at = None, j_error_message = None,
     j_raw_response_json = None, j_created_at = now, j_finished_at = None\<rparr>"

text \<open>The two unique constraints of the table of photos: null is no duplicate of null.\<close>

definition photo_keys_unique :: "photo list \<Rightarrow> bool" where
  "photo_keys_unique ps \<longleftrightarrow>
     distinct (List.map_filter (\<lambda>p. map_option (Pair (ph_event_id p)) (ph_idempotency_key p)) ps) \<and>
     distinct (List.map_filter (\<lambda>p. map_option (Pair (ph_event_id p)) (ph_checksum_sha256 p)) ps)"

section \<open>Uploading a photo\<close>

record upload_result =
  ur_file_name :: str
  ur_photo :: "photo option"
  ur_success :: bool
  ur_message :: str

definition refused :: "str \<Rightarrow> str \<Rightarrow> upload_result" where
  "refused file_name message =
     \<lparr>ur_file_name = file_name, ur_photo = None, ur_success = False, ur_message = message\<rparr>"

definition accepted :: "str \<Rightarrow> photo \<Rightarrow> str \<Rightarrow> upload_result" where
  "accepted file_name photo message =
     \<lparr>ur_file_name = file_name, ur_photo = Some photo, ur_success = True, ur_message = message\<rparr>"

definition normalized_idempotency_key :: "str option \<Rightarrow> str option" where
  "normalized_idempotency_key key =
    (let k = take 128 (strip (case key of None \<Rightarrow> [] | Some k \<Rightarrow> k)) in if k = [] then None else Some k)"

text \<open>The photo an upload repeats; the unique constraints leave at most one.\<close>

definition existing_photo :: "uuid \<Rightarrow> str option \<Rightarrow> str \<Rightarrow> db \<Rightarrow> photo option" where
  "existing_photo event_id key checksum d =
     find (\<lambda>p. ph_event_id p = event_id \<and>
       (case key of Some k \<Rightarrow> ph_idempotency_key p = Some k | None \<Rightarrow> ph_checksum_sha256 p = Some checksum))
       (photos d)"

definition backlog :: "job list \<Rightarrow> int" where
  "backlog js = int (length (filter (\<lambda>j. j_status j \<in> {Queued, Processing}) js))"

text \<open>Making the thumbnail is Pillow's: \<^verbatim>\<open>resize max_edge quality content\<close>, \<^term>\<open>None\<close> when it raises.\<close>

definition create_photo_thumbnail ::
    "settings \<Rightarrow> (int \<Rightarrow> int \<Rightarrow> byte list \<Rightarrow> byte list option) \<Rightarrow> byte list \<Rightarrow> byte list option" where
  "create_photo_thumbnail cfg resize content =
     resize (max 128 (photo_thumbnail_max_edge cfg)) (min 95 (max 40 (photo_thumbnail_quality cfg))) content"

definition store_photo :: "storage_env \<Rightarrow> byte list option \<Rightarrow> str \<Rightarrow> str \<Rightarrow> byte list \<Rightarrow> storage \<Rightarrow> bool \<times> storage" where
  "store_photo env thumbnail object_key thumbnail_key content st =
    (case thumbnail of
       None \<Rightarrow> (False, st)
     | Some thumbnail_bytes \<Rightarrow>
         (case put_object (se_put env 0) object_key content st of
            (False, st1) \<Rightarrow> (False, st1)
          | (True, st1) \<Rightarrow> put_object (se_put env 1) thumbnail_key thumbnail_bytes st1))"

text \<open>\<^verbatim>\<open>ids 0\<close> is the id of the photo, \<^verbatim>\<open>ids 1\<close> and \<^verbatim>\<open>ids 2\<close> those of its jobs.\<close>

definition new_photo :: "time \<Rightarrow> uuid \<Rightarrow> event \<Rightarrow> str \<Rightarrow> validated_image \<Rightarrow> byte list \<Rightarrow> str option \<Rightarrow> photo" where
  "new_photo now photo_id event file_name img content key =
     \<lparr>ph_id = photo_id, ph_event_id = ev_id event,
      ph_original_object_key = build_original_object_key (ev_id event) photo_id file_name,
      ph_thumbnail_object_key = Some (build_thumbnail_object_key (ev_id event) photo_id file_name),
      ph_file_name = file_name, ph_content_type = vi_content_type img, ph_file_size = int (length content),
      ph_checksum_sha256 = Some (vi_sha256 img), ph_idempotency_key = key,
      ph_status = PhotoProcessing, ph_created_at = now\<rparr>"

definition add_photo :: "settings \<Rightarrow> time \<Rightarrow> (nat \<Rightarrow> uuid) \<Rightarrow> photo \<Rightarrow> db \<Rightarrow> db" where
  "add_photo cfg now ids photo d = d\<lparr>photos := photos d @ [photo],
     photo_jobs := photo_jobs d @
       [queued_row cfg now (ids 1) (OfPhoto (ph_id photo)) Ocr,
        queued_row cfg now (ids 2) (OfPhoto (ph_id photo)) FacePhotoScan]\<rparr>"

definition publish_photo ::
    "settings \<Rightarrow> storage_env \<Rightarrow> time \<Rightarrow> (nat \<Rightarrow> uuid) \<Rightarrow> photo \<Rightarrow> session \<Rightarrow> storage \<Rightarrow>
     upload_result \<times> session \<times> storage" where
  "publish_photo cfg env now ids photo s st =
    (let s1 = orm (add_photo cfg now ids photo) s;
         committed_ok = (se_commit env \<and> photo_keys_unique (photos (live s1)) \<and> photo_constraints photo);
         s2 = (if committed_ok then commit s1 else s1)
     in if committed_ok \<and> se_refresh env
        then (accepted (ph_file_name photo) photo ''Uploaded and queued for OCR and face recognition.'', s2, st)
        else (refused (ph_file_name photo) ''The photo could not be queued. Please retry later.'', rollback s2,
              delete_keys env 0 [or_text (ph_thumbnail_object_key photo) [], ph_original_object_key photo] st))"

definition ingest_new_photo ::
    "settings \<Rightarrow> (int \<Rightarrow> int \<Rightarrow> byte list \<Rightarrow> byte list option) \<Rightarrow> storage_env \<Rightarrow> time \<Rightarrow> (nat \<Rightarrow> uuid) \<Rightarrow> event \<Rightarrow>
     str \<Rightarrow> validated_image \<Rightarrow> byte list \<Rightarrow> str option \<Rightarrow> session \<Rightarrow> storage \<Rightarrow> upload_result \<times> session \<times> storage" where
  "ingest_new_photo cfg resize env now ids event file_name img content key s st =
    (let object_key = build_original_object_key (ev_id event) (ids 0) file_name;
         thumbnail_key = build_thumbnail_object_key (ev_id event) (ids 0) file_name
     in case store_photo env (create_photo_thumbnail cfg resize content) object_key thumbnail_key content st of
          (False, st1) \<Rightarrow>
            (refused file_name ''The photo could not be stored. Please retry later.'', s,
             delete_keys env 0 [thumbnail_key, object_key] st1)
        | (True, st1) \<Rightarrow>
            publish_photo cfg env now ids (new_photo now (ids 0) event file_name img content key) s st1)"

text \<open>The checks an image file has to pass, \<^verbatim>\<open>except ValueError\<close> included: \<^term>\<open>Inr\<close> of an image or of the
  message of a \<^verbatim>\<open>ValueError\<close>; another exception is not handled.\<close>

definition validated ::
    "(str \<Rightarrow> str \<Rightarrow> int \<Rightarrow> str result) \<Rightarrow> settings \<Rightarrow> (byte list \<Rightarrow> decoded) \<Rightarrow> (byte list \<Rightarrow> str) \<Rightarrow> str \<Rightarrow> str \<Rightarrow>
     byte list \<Rightarrow> int \<Rightarrow> (str + validated_image) result" where
  "validated check cfg decode digest file_name content_type content max_bytes =
    (case check file_name content_type (int (length content)) of
       Inl (ValueError m) \<Rightarrow> Inr (Inl m)
     | Inl e \<Rightarrow> Inl e
     | Inr _ \<Rightarrow>
         (case validate_image_bytes cfg decode digest content file_name (Some content_type) max_bytes of
            Inl (ValueError m) \<Rightarrow> Inr (Inl m)
          | Inl e \<Rightarrow> Inl e
          | Inr img \<Rightarrow> Inr (Inr img)))"

definition ingest_photo_upload ::
    "settings \<Rightarrow> (byte list \<Rightarrow> decoded) \<Rightarrow> (byte list \<Rightarrow> str) \<Rightarrow> (int \<Rightarrow> int \<Rightarrow> byte list \<Rightarrow> byte list option) \<Rightarrow>
     storage_env \<Rightarrow> time \<Rightarrow> (nat \<Rightarrow> uuid) \<Rightarrow> event \<Rightarrow> str \<Rightarrow> str \<Rightarrow> byte list \<Rightarrow> str option \<Rightarrow> session \<Rightarrow> storage \<Rightarrow>
     upload_result result \<times> session \<times> storage" where
  "ingest_photo_upload cfg decode digest resize env now ids event file_name content_type content idempotency_key s st =
    (let file = strip file_name in
     if file = [] then (Inr (refused ''Unnamed file'' ''Missing file name.''), s, st)
     else case validated (validate_image_upload cfg) cfg decode digest file content_type content
                 (max_photo_upload_bytes cfg) of
            Inl e \<Rightarrow> (Inl e, s, st)
          | Inr (Inl m) \<Rightarrow> (Inr (refused file m), s, st)
          | Inr (Inr img) \<Rightarrow>
              (let key = normalized_idempotency_key idempotency_key in
               case existing_photo (ev_id event) key (vi_sha256 img) (flushed s) of
                 Some photo \<Rightarrow>
                   (Inr (accepted file photo
                      ''This photo was already accepted; the existing upload was reused.''), s, st)
               | None \<Rightarrow>
                   if max_photo_job_backlog cfg \<le> backlog (photo_jobs (flushed s))
                   then (Inr (refused file ''The processing queue is currently full. Please retry later.''), s, st)
                   else map_prod Inr id
                          (ingest_new_photo cfg resize env now ids event file img content key s st)))"

section \<open>Uploading a face\<close>

record selfie_result =
  sf_file_name :: str
  sf_face_image :: "face_image option"
  sf_success :: bool
  sf_message :: str

definition selfie_refused :: "str \<Rightarrow> str \<Rightarrow> selfie_result" where
  "selfie_refused file_name message =
     \<lparr>sf_file_name = file_name, sf_face_image = None, sf_success = False, sf_message = message\<rparr>"

definition face_image_constraints :: "face_image \<Rightarrow> bool" where
  "face_image_constraints i \<longleftrightarrow> 0 < fi_file_size i"

definition add_selfie :: "settings \<Rightarrow> time \<Rightarrow> (nat \<Rightarrow> uuid) \<Rightarrow> face_image \<Rightarrow> db \<Rightarrow> db" where
  "add_selfie cfg now ids img d = d\<lparr>face_images := face_images d @ [img],
     participant_face_jobs := participant_face_jobs d @
       [queued_row cfg now (ids 1)
          (OfFaceImage (fi_event_id img) (fi_participant_id img) (fi_id img)) FaceSelfieEnroll]\<rparr>"

definition publish_selfie ::
    "settings \<Rightarrow> storage_env \<Rightarrow> time \<Rightarrow> (nat \<Rightarrow> uuid) \<Rightarrow> face_image \<Rightarrow> session \<Rightarrow> storage \<Rightarrow>
     selfie_result \<times> session \<times> storage" where
  "publish_selfie cfg env now ids img s st =
    (let s1 = orm (add_selfie cfg now ids img) s;
         committed_ok = (se_commit env \<and> face_image_constraints img);
         s2 = (if committed_ok then commit s1 else s1)
     in if committed_ok \<and> se_refresh env
        then (\<lparr>sf_file_name = fi_file_name img, sf_face_image = Some img, sf_success = True,
               sf_message = ''Selfie uploaded and queued for face enrollment.''\<rparr>, s2, st)
        else (selfie_refused (fi_file_name img) ''The selfie could not be queued. Please try again later.'',
              rollback s2, delete_keys env 0 [fi_object_key img] st))"

definition ingest_participant_selfie_upload ::
    "settings \<Rightarrow> (byte list \<Rightarrow> decoded) \<Rightarrow> (byte list \<Rightarrow> str) \<Rightarrow> storage_env \<Rightarrow> time \<Rightarrow> (nat \<Rightarrow> uuid) \<Rightarrow>
     participant \<Rightarrow> str \<Rightarrow> str \<Rightarrow> byte list \<Rightarrow> session \<Rightarrow> storage \<Rightarrow> selfie_result result \<times> session \<times> storage" where
  "ingest_participant_selfie_upload cfg decode digest env now ids participant file_name content_type content s st =
    (let file = strip file_name in
     if file = [] then (Inr (selfie_refused ''Unnamed selfie'' ''Missing file name.''), s, st)
     else case validated (validate_selfie_upload cfg) cfg decode digest file content_type content
                 (max_selfie_upload_bytes cfg) of
            Inl e \<Rightarrow> (Inl e, s, st)
          | Inr (Inl m) \<Rightarrow> (Inr (selfie_refused file m), s, st)
          | Inr (Inr img) \<Rightarrow>
              (let key = build_face_selfie_object_key (pa_event_id participant) (pa_id participant) (ids 0) file in
               case put_object (se_put env 0) key content st of
                 (False, st1) \<Rightarrow>
                   (Inr (selfie_refused file ''The selfie could not be stored. Please try again later.''), s, st1)
               | (True, st1) \<Rightarrow>
                   map_prod Inr id (publish_selfie cfg env now ids
                     \<lparr>fi_id = ids 0, fi_event_id = pa_event_id participant, fi_participant_id = pa_id participant,
                      fi_object_key = key, fi_file_name = file, fi_content_type = vi_content_type img,
                      fi_file_size = int (length content), fi_status = ImageQueued, fi_error_message = None,
                      fi_created_at = now\<rparr> s st1)))"

record search_upload_result =
  su_file_name :: str
  su_search_session :: "search_session option"
  su_search_image :: "search_image option"
  su_success :: bool
  su_message :: str

definition search_refused :: "str \<Rightarrow> search_session option \<Rightarrow> str \<Rightarrow> search_upload_result" where
  "search_refused file_name found message = \<lparr>su_file_name = file_name, su_search_session = found,
     su_search_image = None, su_success = False, su_message = message\<rparr>"

definition new_search_session :: "settings \<Rightarrow> time \<Rightarrow> uuid \<Rightarrow> uuid \<Rightarrow> uuid option \<Rightarrow> search_session" where
  "new_search_session cfg now i event_id participant_id =
     \<lparr>fs_id = i, fs_event_id = event_id, fs_participant_id = participant_id, fs_status = SessionQueued,
      fs_error_message = None, fs_expires_at = now + seconds (3600 * max 1 (biometric_retention_hours cfg)),
      fs_capability_hash = None, fs_owner_binding_hash = None, fs_created_at = now, fs_finished_at = None\<rparr>"

definition add_search_image :: "settings \<Rightarrow> time \<Rightarrow> (nat \<Rightarrow> uuid) \<Rightarrow> search_image \<Rightarrow> db \<Rightarrow> db" where
  "add_search_image cfg now ids img d = d\<lparr>search_images := search_images d @ [img],
     face_search_jobs := face_search_jobs d @
       [queued_row cfg now (ids 2)
          (OfSearch (si_event_id img) (si_search_session_id img) (si_id img)) FaceSearchProbe]\<rparr>"

definition publish_search_image ::
    "settings \<Rightarrow> storage_env \<Rightarrow> time \<Rightarrow> (nat \<Rightarrow> uuid) \<Rightarrow> search_session \<Rightarrow> search_image \<Rightarrow> session \<Rightarrow> storage \<Rightarrow>
     search_upload_result \<times> session \<times> storage" where
  "publish_search_image cfg env now ids found img s st =
    (let s1 = orm (add_search_image cfg now ids img) s;
         committed_ok = (se_commit env \<and> 0 < si_file_size img);
         s2 = (if committed_ok then commit s1 else s1)
     in if committed_ok \<and> se_refresh env
        then (\<lparr>su_file_name = si_file_name img, su_search_session = Some found, su_search_image = Some img,
               su_success = True, su_message = ''Face photo uploaded and queued for search.''\<rparr>, s2, st)
        else (search_refused (si_file_name img) None ''The selfie could not be queued. Please try again later.'',
              rollback s2, delete_keys env 0 [si_object_key img] st))"

text \<open>\<^verbatim>\<open>ids 0\<close> is the id of a created session, \<^verbatim>\<open>ids 1\<close> that of the image, \<^verbatim>\<open>ids 2\<close> that of the job.\<close>

definition ingest_face_search_upload ::
    "settings \<Rightarrow> (byte list \<Rightarrow> decoded) \<Rightarrow> (byte list \<Rightarrow> str) \<Rightarrow> storage_env \<Rightarrow> time \<Rightarrow> (nat \<Rightarrow> uuid) \<Rightarrow> event \<Rightarrow>
     search_session option \<Rightarrow> uuid option \<Rightarrow> str \<Rightarrow> str \<Rightarrow> byte list \<Rightarrow> session \<Rightarrow> storage \<Rightarrow>
     search_upload_result result \<times> session \<times> storage" where
  "ingest_face_search_upload cfg decode digest env now ids event found participant_id file_name content_type content s st =
    (let file = strip file_name in
     if file = [] then (Inr (search_refused ''Unnamed face photo'' found ''Missing file name.''), s, st)
     else if max_face_search_backlog cfg \<le> backlog (face_search_jobs (flushed s))
     then (Inr (search_refused file found ''The face-search queue is full. Please retry later.''), s, st)
     else case validated (validate_selfie_upload cfg) cfg decode digest file content_type content
                 (max_selfie_upload_bytes cfg) of
            Inl e \<Rightarrow> (Inl e, s, st)
          | Inr (Inl m) \<Rightarrow> (Inr (search_refused file found m), s, st)
          | Inr (Inr img) \<Rightarrow>
              (let search = (case found of Some x \<Rightarrow> x
                     | None \<Rightarrow> new_search_session cfg now (ids 0) (ev_id event) participant_id);
                   s1 = (case found of Some _ \<Rightarrow> s
                     | None \<Rightarrow> flush (orm (\<lambda>d. d\<lparr>search_sessions := search_sessions d @ [search]\<rparr>) s));
                   key = build_face_search_object_key (ev_id event) (fs_id search) (ids 1) file
               in case put_object (se_put env 0) key content st of
                    (False, st1) \<Rightarrow>
                      (Inr (search_refused file found ''The selfie could not be stored. Please try again later.''),
                       rollback s1, st1)
                  | (True, st1) \<Rightarrow>
                      map_prod Inr id (publish_search_image cfg env now ids search
                        \<lparr>si_id = ids 1, si_event_id = ev_id event, si_search_session_id = fs_id search,
                         si_object_key = key, si_file_name = file, si_content_type = vi_content_type img,
                         si_file_size = int (length content), si_status = ImageQueued, si_error_message = None,
                         si_created_at = now\<rparr> s1 st1)))"

text \<open>The face images of some participants, newest first, grouped in the order the groups appear.\<close>

definition list_participant_face_images :: "db \<Rightarrow> uuid list \<Rightarrow> (uuid \<times> face_image list) list" where
  "list_participant_face_images d ids =
    (let rows = sort_key (\<lambda>i. - fi_created_at i) (filter (\<lambda>i. fi_participant_id i \<in> set ids) (face_images d))
     in map (\<lambda>p. (p, filter (\<lambda>i. fi_participant_id i = p) rows)) (dict_keys (map fi_participant_id rows)))"

end
