(* ===== verification/IngestFacts.thy ===== *)
theory IngestFacts
  imports Ingest
begin

text \<open>
  What an upload leaves behind: a photo is either published with its two objects or leaves no trace,
  and whatever a face upload may leave in the storage is a key the reconciliation takes for an orphan.
\<close>

section \<open>Keys\<close>

lemma photo_keys_distinct [simp]:
  "build_original_object_key e p f \<noteq> build_thumbnail_object_key e p f"
  "build_original_object_key e p f \<noteq> []" "build_thumbnail_object_key e p f \<noteq> []"
  "[] \<noteq> build_original_object_key e p f" "[] \<noteq> build_thumbnail_object_key e p f"
  by (simp_all add: build_original_object_key_def build_thumbnail_object_key_def)

lemma contains_append: "contains (a @ w @ b) w"
  by (simp add: contains_def)

lemma search_key_sensitive: "is_sensitive_temporary_key (build_face_search_object_key e x i f)"
proof -
  have "contains ((''events/'' @ uuid_str e) @ ''/face-search/'' @ uuid_str x @ ''/'' @ uuid_str i @ ''-'' @
      safe_base_name f ''face-photo'' @ key_extension f) ''/face-search/''"
    by (rule contains_append)
  then show ?thesis
    by (simp add: is_sensitive_temporary_key_def build_face_search_object_key_def)
qed

lemma selfie_key_sensitive: "is_sensitive_temporary_key (build_face_selfie_object_key e p i f)"
proof -
  have "contains ((''events/'' @ uuid_str e) @ ''/participants/'' @ uuid_str p @ ''/faces/'' @
      uuid_str i @ ''-'' @ safe_base_name f ''selfie'' @ key_extension f) ''/participants/''"
    by (rule contains_append)
  moreover have "contains ((''events/'' @ uuid_str e @ ''/participants/'' @ uuid_str p) @ ''/faces/'' @
      uuid_str i @ ''-'' @ safe_base_name f ''selfie'' @ key_extension f) ''/faces/''"
    by (rule contains_append)
  ultimately show ?thesis
    by (simp add: is_sensitive_temporary_key_def build_face_selfie_object_key_def)
qed

section \<open>Storage calls\<close>

lemma put_object_cases:
  "put_object f k c st = (ok, st') \<Longrightarrow> (ok \<and> f = Works \<and> st' = st(k \<mapsto> c)) \<or> (\<not> ok \<and> st' \<in> {st, st(k \<mapsto> c)})"
  by (auto simp: put_object_def split: fault.splits if_splits)

lemma delete_object_elsewhere: "k' \<noteq> k \<Longrightarrow> snd (delete_object f k st) k' = st k'"
  by (auto simp: delete_object_def split: fault.splits)

lemma delete_keys_elsewhere: "k \<notin> set ks \<Longrightarrow> delete_keys env n ks st k = st k"
proof (induction ks arbitrary: n st)
  case (Cons a ks)
  then show ?case using delete_object_elsewhere[of k a] by simp
qed simp

lemma delete_keys_works:
  assumes "\<And>n. se_delete env n = Works" "[] \<notin> set ks"
  shows "delete_keys env n ks st = (\<lambda>k. if k \<in> set ks then None else st k)"
  using assms(2)
proof (induction ks arbitrary: n st)
  case (Cons a ks)
  then show ?case by (auto simp: delete_object_def assms(1) fun_eq_iff)
qed simp

section \<open>Publishing a photo\<close>

lemma store_photo_cases:
  assumes "store_photo env thumbnail ok tk content st = (stored, st')"
  shows "(\<exists>t. stored \<and> thumbnail = Some t \<and> st' = st(ok \<mapsto> content, tk \<mapsto> t)) \<or>
    (\<not> stored \<and> (\<forall>k. k \<noteq> ok \<longrightarrow> k \<noteq> tk \<longrightarrow> st' k = st k))"
proof (cases thumbnail)
  case None
  with assms show ?thesis by (simp add: store_photo_def)
next
  case (Some t)
  obtain b st1 where 1: "put_object (se_put env 0) ok content st = (b, st1)" by (metis surj_pair)
  from put_object_cases[OF 1] show ?thesis
  proof (elim disjE conjE)
    assume b: "b" "st1 = st(ok \<mapsto> content)"
    then have "put_object (se_put env 1) tk t st1 = (stored, st')" using assms Some 1 by (simp add: store_photo_def)
    from put_object_cases[OF this] b Some show ?thesis by auto
  next
    assume "\<not> b" "st1 \<in> {st, st(ok \<mapsto> content)}"
    with assms Some 1 show ?thesis by (auto simp: store_photo_def)
  qed
qed

text \<open>What the code relies on outside: deleting works, and a row just committed can be read again.\<close>

definition recoverable :: "storage_env \<Rightarrow> bool" where
  "recoverable env \<longleftrightarrow> (\<forall>n. se_delete env n = Works) \<and> se_refresh env"

definition published :: "settings \<Rightarrow> time \<Rightarrow> (nat \<Rightarrow> uuid) \<Rightarrow> photo \<Rightarrow> byte list \<Rightarrow> db \<Rightarrow> db \<Rightarrow> storage \<Rightarrow> storage \<Rightarrow> bool" where
  "published cfg now ids p content d d' st st' \<longleftrightarrow>
     d' = add_photo cfg now ids p d \<and> photo_keys_unique (photos d') \<and> ph_file_size p = int (length content) \<and>
     (\<exists>t tk. ph_thumbnail_object_key p = Some tk \<and> st' = st(ph_original_object_key p \<mapsto> content, tk \<mapsto> t))"

lemma ingest_new_photo_atomic:
  assumes run: "ingest_new_photo cfg resize env now ids event file img content key (open_session d) st = (r, s', st')"
    and env: "recoverable env"
    and fresh: "st (build_original_object_key (ev_id event) (ids 0) file) = None"
      "st (build_thumbnail_object_key (ev_id event) (ids 0) file) = None"
  shows "(\<not> ur_success r \<and> committed s' = d \<and> st' = st) \<or>
    (\<exists>p. r = accepted file p ''Uploaded and queued for OCR and face recognition.'' \<and>
       ph_checksum_sha256 p = Some (vi_sha256 img) \<and> published cfg now ids p content d (committed s') st st')"
proof -
  let ?ok = "build_original_object_key (ev_id event) (ids 0) file"
  let ?tk = "build_thumbnail_object_key (ev_id event) (ids 0) file"
  let ?p = "new_photo now (ids 0) event file img content key"
  have gone: "delete_keys env 0 [?tk, ?ok] st0 = st" if "\<forall>k. k \<noteq> ?ok \<longrightarrow> k \<noteq> ?tk \<longrightarrow> st0 k = st k" for st0
    using that env fresh by (subst delete_keys_works) (auto simp: recoverable_def fun_eq_iff)
  obtain stored st1 where 1: "store_photo env (create_photo_thumbnail cfg resize content) ?ok ?tk content st = (stored, st1)"
    by (metis surj_pair)
  from store_photo_cases[OF 1] show ?thesis
  proof (elim disjE exE conjE)
    fix t assume t: "stored" "st1 = st(?ok \<mapsto> content, ?tk \<mapsto> t)"
    have pub: "(r, s', st') = publish_photo cfg env now ids ?p (open_session d) st1"
      using run 1 t(1) by (simp add: ingest_new_photo_def Let_def)
    show ?thesis
    proof (cases "se_commit env \<and> photo_keys_unique (photos (add_photo cfg now ids ?p d)) \<and> photo_constraints ?p")
      case True
      have p: "ph_file_name ?p = file" "ph_checksum_sha256 ?p = Some (vi_sha256 img)"
          "ph_file_size ?p = int (length content)" "ph_original_object_key ?p = ?ok"
          "ph_thumbnail_object_key ?p = Some ?tk"
        by (simp_all add: new_photo_def)
      have "r = accepted file ?p ''Uploaded and queued for OCR and face recognition.''"
          "committed s' = add_photo cfg now ids ?p d" "st' = st1"
        using pub True env by (simp_all add: publish_photo_def recoverable_def Let_def p(1))
      moreover have "published cfg now ids ?p content d (add_photo cfg now ids ?p d) st st1"
        unfolding published_def p t(2) using True by (intro conjI exI[of _ t] exI[of _ ?tk]) simp_all
      ultimately show ?thesis using p(2) by (intro disjI2 exI[of _ ?p]) simp
    next
      case False
      have "delete_keys env 0 [?tk, ?ok] st1 = st" by (rule gone) (simp add: t(2))
      then show ?thesis
        using pub False by (auto simp: publish_photo_def refused_def new_photo_def or_text_def Let_def)
    qed
  next
    assume t: "\<not> stored" "\<forall>k. k \<noteq> ?ok \<longrightarrow> k \<noteq> ?tk \<longrightarrow> st1 k = st k"
    then show ?thesis
      using run 1 gone[OF t(2)] by (auto simp: ingest_new_photo_def Let_def refused_def simp del: delete_keys.simps)
  qed
qed

text \<open>Every upload of a photo: nothing happened, an earlier photo was found, or a photo was published.\<close>

lemma ingest_photo_atomic:
  assumes run: "ingest_photo_upload cfg decode digest resize env now ids event name type content ikey (open_session d) st = (r, s', st')"
    and env: "recoverable env"
    and fresh: "st (build_original_object_key (ev_id event) (ids 0) (strip name)) = None"
      "st (build_thumbnail_object_key (ev_id event) (ids 0) (strip name)) = None"
  shows "(committed s' = d \<and> st' = st \<and> (\<forall>res. r = Inr res \<longrightarrow> ur_success res \<longrightarrow>
       (\<exists>p \<in> set (photos d). ph_event_id p = ev_id event \<and> ur_photo res = Some p))) \<or>
    (\<exists>p. r = Inr (accepted (strip name) p ''Uploaded and queued for OCR and face recognition.'') \<and>
       ph_checksum_sha256 p = Some (digest content) \<and> int (length content) \<le> max_photo_upload_bytes cfg \<and>
       backlog (photo_jobs d) < max_photo_job_backlog cfg \<and>
       published cfg now ids p content d (committed s') st st')"
proof (cases "strip name = []")
  case True
  with run show ?thesis by (auto simp: ingest_photo_upload_def refused_def)
next
  case named: False
  let ?v = "validated (validate_image_upload cfg) cfg decode digest (strip name) type content (max_photo_upload_bytes cfg)"
  show ?thesis
  proof (cases "\<exists>img. ?v = Inr (Inr img)")
    case False
    then consider e where "?v = Inl e" | m where "?v = Inr (Inl m)" by (metis sum.exhaust)
    then show ?thesis
      using run named by cases (auto simp: ingest_photo_upload_def refused_def)
  next
    case True
    then obtain img where v: "?v = Inr (Inr img)" by blast
    have valid: "validate_image_bytes cfg decode digest content (strip name) (Some type) (max_photo_upload_bytes cfg) = Inr img"
      using v by (simp add: validated_def split: sum.splits exn.splits)
    have digest: "vi_sha256 img = digest content" "int (length content) \<le> max_photo_upload_bytes cfg"
      using valid by (auto simp: validate_image_bytes_def check_decoded_def split: if_splits decoded.splits option.splits)
    let ?k = "normalized_idempotency_key ikey"
    show ?thesis
    proof (cases "existing_photo (ev_id event) ?k (vi_sha256 img) d")
      case (Some p)
      then have "p \<in> set (photos d)" "ph_event_id p = ev_id event"
        by (auto simp: existing_photo_def find_Some_iff)
      then show ?thesis
        using run named v Some by (auto simp: ingest_photo_upload_def accepted_def Let_def)
    next
      case None
      show ?thesis
      proof (cases "max_photo_job_backlog cfg \<le> backlog (photo_jobs d)")
        case True
        then show ?thesis
          using run named v None by (auto simp: ingest_photo_upload_def refused_def Let_def)
      next
        case False
        then obtain res where res: "r = Inr res"
          "ingest_new_photo cfg resize env now ids event (strip name) img content ?k (open_session d) st = (res, s', st')"
          using run named v None by (auto simp: ingest_photo_upload_def Let_def map_prod_def split: prod.splits)
        from ingest_new_photo_atomic[OF res(2) env fresh] show ?thesis
          using False digest by (auto simp: res(1))
      qed
    qed
  qed
qed

section \<open>Uploading a face\<close>

lemma publish_selfie_storage:
  "publish_selfie cfg env now ids img s st = (r, s', st') \<Longrightarrow> k \<noteq> fi_object_key img \<Longrightarrow> st' k = st k"
  by (auto simp: publish_selfie_def Let_def delete_keys_elsewhere delete_object_elsewhere split: if_splits)

lemma publish_search_storage:
  "publish_search_image cfg env now ids x img s st = (r, s', st') \<Longrightarrow> k \<noteq> si_object_key img \<Longrightarrow> st' k = st k"
  by (auto simp: publish_search_image_def Let_def delete_keys_elsewhere delete_object_elsewhere split: if_splits)

lemma put_object_elsewhere: "put_object f key c st = (ok, st') \<Longrightarrow> k \<noteq> key \<Longrightarrow> st' k = st k"
  using put_object_cases by fastforce

lemma selfie_upload_storage:
  assumes run: "ingest_participant_selfie_upload cfg decode digest env now ids participant name type content s st = (r, s', st')"
    and k: "\<not> is_sensitive_temporary_key k"
  shows "st' k = st k"
proof -
  let ?key = "build_face_selfie_object_key (pa_event_id participant) (pa_id participant) (ids 0) (strip name)"
  have ne: "k \<noteq> ?key" using k selfie_key_sensitive by blast
  obtain ok st1 where 1: "put_object (se_put env 0) ?key content st = (ok, st1)" by (metis surj_pair)
  then have 2: "st1 k = st k" using put_object_elsewhere ne by blast
  from run 1 2 ne show ?thesis
    by (auto simp: ingest_participant_selfie_upload_def Let_def map_prod_def publish_selfie_storage
        split: if_splits sum.splits bool.splits prod.splits)
qed

lemma search_upload_storage:
  assumes run: "ingest_face_search_upload cfg decode digest env now ids event found participant_id name type content s st = (r, s', st')"
    and k: "\<not> is_sensitive_temporary_key k"
  shows "st' k = st k"
proof -
  define search where "search = (case found of Some x \<Rightarrow> x | None \<Rightarrow> new_search_session cfg now (ids 0) (ev_id event) participant_id)"
  let ?key = "build_face_search_object_key (ev_id event) (fs_id search) (ids 1) (strip name)"
  have ne: "k \<noteq> ?key" using k search_key_sensitive by blast
  obtain ok st1 where 1: "put_object (se_put env 0) ?key content st = (ok, st1)" by (metis surj_pair)
  then have 2: "st1 k = st k" using put_object_elsewhere ne by blast
  from run 1 2 ne show ?thesis
    by (auto simp: ingest_face_search_upload_def Let_def map_prod_def publish_search_storage search_def[symmetric]
        split: if_splits sum.splits bool.splits prod.splits)
qed

section \<open>The promises of an upload\<close>

text \<open>The database points at no missing object.\<close>

definition photos_stored :: "db \<Rightarrow> storage \<Rightarrow> bool" where
  "photos_stored d st \<longleftrightarrow> (\<forall>p \<in> set (photos d). st (ph_original_object_key p) \<noteq> None \<and>
     (\<forall>k. ph_thumbnail_object_key p = Some k \<longrightarrow> st k \<noteq> None))"

lemma published_stored:
  assumes "published cfg now ids p content d d' st st'" "photos_stored d st"
  shows "photos_stored d' st'"
  using assms by (auto simp: published_def photos_stored_def add_photo_def)


definition demo_storage_env :: storage_env where
  "demo_storage_env = \<lparr>se_put = (\<lambda>n. if n = 0 then Works else Raises True), se_delete = (\<lambda>_. Works),
     se_commit = True, se_refresh = True\<rparr>"

definition demo_event :: event where
  "demo_event = \<lparr>ev_id = 1, ev_name = ''Run'', ev_slug = ''run'', ev_date = None, ev_location = None,
     ev_status = Published, ev_thumbnail_object_key = None, ev_created_at = 0\<rparr>"


lemma distinct_map_filter_same:
  "distinct (List.map_filter f xs) \<Longrightarrow> x \<in> set xs \<Longrightarrow> y \<in> set xs \<Longrightarrow> f x = Some v \<Longrightarrow> f y = Some v \<Longrightarrow> x = y"
proof (induction xs)
  case (Cons a xs)
  have in_rest: "v \<in> set (List.map_filter f xs)" if "z \<in> set xs" "f z = Some v" for z
    using that by (force simp: List.map_filter_def)
  show ?case
  proof (cases "f a")
    case None
    with Cons show ?thesis by (auto simp: List.map_filter_def)
  next
    case (Some w)
    with Cons.prems have d: "w \<notin> set (List.map_filter f xs)" "distinct (List.map_filter f xs)"
      by (simp_all add: List.map_filter_def)
    show ?thesis
    proof (cases "x = a \<or> y = a")
      case True
      with Cons.prems Some d(1) in_rest show ?thesis by auto
    next
      case False
      with Cons d(2) show ?thesis by simp
    qed
  qed
qed simp

lemma existing_photo_unique:
  assumes "photo_keys_unique (photos d)" "p \<in> set (photos d)" "ph_event_id p = e"
    "case key of Some k \<Rightarrow> ph_idempotency_key p = Some k | None \<Rightarrow> ph_checksum_sha256 p = Some c"
  shows "existing_photo e key c d = Some p"
proof -
  let ?P = "\<lambda>p. ph_event_id p = e \<and>
       (case key of Some k \<Rightarrow> ph_idempotency_key p = Some k | None \<Rightarrow> ph_checksum_sha256 p = Some c)"
  obtain q where q: "find ?P (photos d) = Some q"
    using assms(2-4) by (cases "find ?P (photos d)") (auto simp: find_None_iff)
  then have q': "q \<in> set (photos d)" "?P q" by (auto simp: find_Some_iff)
  have "q = p"
  proof (cases key)
    case None
    with assms q' show ?thesis
      using distinct_map_filter_same[of "\<lambda>p. map_option (Pair (ph_event_id p)) (ph_checksum_sha256 p)" "photos d" q p "(e, c)"]
      by (simp add: photo_keys_unique_def)
  next
    case (Some k)
    with assms q' show ?thesis
      using distinct_map_filter_same[of "\<lambda>p. map_option (Pair (ph_event_id p)) (ph_idempotency_key p)" "photos d" q p "(e, k)"]
      by (simp add: photo_keys_unique_def)
  qed
  with q show ?thesis by (simp add: existing_photo_def)
qed

lemma checksum_taken:
  assumes "q \<in> set ps" "ph_event_id q = ph_event_id p" "ph_checksum_sha256 q = Some c" "ph_checksum_sha256 p = Some c"
  shows "\<not> photo_keys_unique (ps @ [p])"
proof -
  have "(ph_event_id p, c) \<in> set (List.map_filter (\<lambda>p. map_option (Pair (ph_event_id p)) (ph_checksum_sha256 p)) ps)"
    using assms by (force simp: List.map_filter_def)
  then show ?thesis
    using assms(4) by (auto simp: photo_keys_unique_def List.map_filter_def)
qed

lemma add_photo_differs: "d \<noteq> add_photo cfg now ids p d"
proof
  assume "d = add_photo cfg now ids p d"
  then have "length (photos d) = length (photos (add_photo cfg now ids p d))" by simp
  then show False by (simp add: add_photo_def)
qed

lemma repeated_content_refused:
  assumes run: "ingest_new_photo cfg resize env now ids event file img content key (open_session d) st = (r, s', st')"
    and env: "recoverable env"
    and fresh: "st (build_original_object_key (ev_id event) (ids 0) file) = None"
      "st (build_thumbnail_object_key (ev_id event) (ids 0) file) = None"
    and q: "q \<in> set (photos d)" "ph_event_id q = ev_id event" "ph_checksum_sha256 q = Some (vi_sha256 img)"
  shows "\<not> ur_success r \<and> committed s' = d \<and> st' = st"
proof -
  let ?p = "new_photo now (ids 0) event file img content key"
  have "\<not> photo_keys_unique (photos d @ [?p])"
    by (rule checksum_taken[OF q(1), of _ "vi_sha256 img"]) (simp_all add: q new_photo_def)
  then have no: "\<not> photo_keys_unique (photos (add_photo cfg now ids ?p d))" by (simp add: add_photo_def)
  have "committed s' = d"
    using run no
    by (auto simp: ingest_new_photo_def publish_photo_def Let_def split: prod.splits bool.splits)
  then show ?thesis
    using ingest_new_photo_atomic[OF run env fresh] add_photo_differs by (auto simp: published_def)
qed

text \<open>Uploading the same photo again.  With its idempotency key, or with the same
  content and no key, a valid upload is answered with the stored photo and changes nothing.  With a
  new key, the same content is turned away as a photo that could not be stored or queued: the stored
  photo is not found under the key, and its checksum is taken.\<close>

theorem repeated_upload:
  assumes "photo_keys_unique (photos d)" and q: "q \<in> set (photos d)" "ph_event_id q = ev_id event"
    and named: "strip name \<noteq> []"
    and valid: "validated (validate_image_upload cfg) cfg decode digest (strip name) type content
      (max_photo_upload_bytes cfg) = Inr (Inr img)"
    and run: "ingest_photo_upload cfg decode digest resize env now ids event name type content ikey (open_session d) st = (r, s', st')"
  shows "((case normalized_idempotency_key ikey of Some k \<Rightarrow> ph_idempotency_key q = Some k
       | None \<Rightarrow> ph_checksum_sha256 q = Some (vi_sha256 img)) \<longrightarrow>
      r = Inr (accepted (strip name) q ''This photo was already accepted; the existing upload was reused.'') \<and>
      s' = open_session d \<and> st' = st) \<and>
    (ph_checksum_sha256 q = Some (vi_sha256 img) \<longrightarrow>
      existing_photo (ev_id event) (normalized_idempotency_key ikey) (vi_sha256 img) d = None \<longrightarrow>
      recoverable env \<longrightarrow> st (build_original_object_key (ev_id event) (ids 0) (strip name)) = None \<longrightarrow>
      st (build_thumbnail_object_key (ev_id event) (ids 0) (strip name)) = None \<longrightarrow>
      (\<exists>res. r = Inr res \<and> \<not> ur_success res) \<and> committed s' = d \<and> st' = st)"
proof (intro conjI impI)
  let ?k = "normalized_idempotency_key ikey"
  assume "case ?k of Some k \<Rightarrow> ph_idempotency_key q = Some k | None \<Rightarrow> ph_checksum_sha256 q = Some (vi_sha256 img)"
  from existing_photo_unique[OF assms(1) q this]
  have "existing_photo (ev_id event) ?k (vi_sha256 img) d = Some q" .
  then have "(r, s', st') = (Inr (accepted (strip name) q
      ''This photo was already accepted; the existing upload was reused.''), open_session d, st)"
    using run named valid by (simp add: ingest_photo_upload_def Let_def)
  then show "r = Inr (accepted (strip name) q ''This photo was already accepted; the existing upload was reused.'')"
    "s' = open_session d" "st' = st" by simp_all
next
  let ?k = "normalized_idempotency_key ikey"
  assume q': "ph_checksum_sha256 q = Some (vi_sha256 img)" and none: "existing_photo (ev_id event) ?k (vi_sha256 img) d = None"
    and env: "recoverable env" and fresh: "st (build_original_object_key (ev_id event) (ids 0) (strip name)) = None"
      "st (build_thumbnail_object_key (ev_id event) (ids 0) (strip name)) = None"
  have "(\<exists>res. r = Inr res \<and> \<not> ur_success res) \<and> committed s' = d \<and> st' = st"
  proof (cases "max_photo_job_backlog cfg \<le> backlog (photo_jobs d)")
    case True
    then show ?thesis
      using run named valid none by (auto simp: ingest_photo_upload_def refused_def Let_def)
  next
    case False
    then obtain res where res: "r = Inr res"
      "ingest_new_photo cfg resize env now ids event (strip name) img content ?k (open_session d) st = (res, s', st')"
      using run named valid none by (auto simp: ingest_photo_upload_def Let_def map_prod_def split: prod.splits)
    from repeated_content_refused[OF res(2) env fresh q q'] show ?thesis by (simp add: res(1))
  qed
  then show "\<exists>res. r = Inr res \<and> \<not> ur_success res" "committed s' = d" "st' = st" by simp_all
qed

definition demo_photo :: photo where
  "demo_photo = \<lparr>ph_id = 7, ph_event_id = 1, ph_original_object_key = ''a'', ph_thumbnail_object_key = None,
     ph_file_name = ''a.jpg'', ph_content_type = ''image/jpeg'', ph_file_size = 2,
     ph_checksum_sha256 = Some (replicate 64 CHR ''a''), ph_idempotency_key = None,
     ph_status = PhotoReady, ph_created_at = 0\<rparr>"

definition demo_image :: validated_image where
  "demo_image = \<lparr>vi_content_type = ''image/jpeg'', vi_width = 640, vi_height = 480, vi_sha256 = replicate 64 CHR ''a''\<rparr>"

definition roomy_settings :: settings where
  "roomy_settings = default_settings\<lparr>max_photo_upload_bytes := 100, max_selfie_upload_bytes := 100, max_image_dimension := 1000,
     max_image_pixels := 1000000\<rparr>"

lemma demo_validated:
  "\<And>check. check ''a.jpg'' ''image/jpeg'' 2 = Inr ''image/jpeg'' \<Longrightarrow>
     validated check roomy_settings (\<lambda>_. Decoded ''JPEG'' 640 480 1) (\<lambda>_. replicate 64 CHR ''a'') ''a.jpg'' ''image/jpeg''
       [255, 216] 100 = Inr (Inr demo_image)"
  "validate_image_upload roomy_settings ''a.jpg'' ''image/jpeg'' 2 = Inr ''image/jpeg''"
  "validate_selfie_upload roomy_settings ''a.jpg'' ''image/jpeg'' 2 = Inr ''image/jpeg''"
proof -
  have p: "lower (path_suffix ''a.jpg'') = ''.jpg''" "lower (strip ''image/jpeg'') = ''image/jpeg''"
    "''.jpg'' \<in> set IMAGE_EXTENSIONS" "''image/jpeg'' \<in> set IMAGE_CONTENT_TYPES"
    "upper ''JPEG'' = ''JPEG''" "declared_type (Some ''image/jpeg'') = ''image/jpeg''"
    by code_simp+
  show "validate_image_upload roomy_settings ''a.jpg'' ''image/jpeg'' 2 = Inr ''image/jpeg''"
    by (simp add: validate_image_upload_def roomy_settings_def p)
  show "validate_selfie_upload roomy_settings ''a.jpg'' ''image/jpeg'' 2 = Inr ''image/jpeg''"
    by (simp add: validate_selfie_upload_def roomy_settings_def p)
  have f: "ALLOWED_IMAGE_FORMATS ''JPEG'' = Some (''image/jpeg'', [''.jpg'', ''.jpeg''])"
    by (simp add: ALLOWED_IMAGE_FORMATS_def)
  have d: "check_decoded roomy_settings (\<lambda>_. replicate 64 CHR ''a'') [255, 216] ''a.jpg'' (Some ''image/jpeg'') ''JPEG'' 640 480 1
      = Inr demo_image"
    by (simp add: check_decoded_def roomy_settings_def demo_image_def p f)
  then have v: "validate_image_bytes roomy_settings (\<lambda>_. Decoded ''JPEG'' 640 480 1) (\<lambda>_. replicate 64 CHR ''a'')
      [255, 216] ''a.jpg'' (Some ''image/jpeg'') 100 = Inr demo_image"
    by (simp add: validate_image_bytes_def)
  show "validated check roomy_settings (\<lambda>_. Decoded ''JPEG'' 640 480 1) (\<lambda>_. replicate 64 CHR ''a'') ''a.jpg'' ''image/jpeg''
       [255, 216] 100 = Inr (Inr demo_image)" if "check ''a.jpg'' ''image/jpeg'' 2 = Inr ''image/jpeg''" for check
    by (simp add: validated_def that v)
qed

theorem repeated_upload_witness:
  "\<exists>r s' st'. ingest_photo_upload roomy_settings (\<lambda>_. Decoded ''JPEG'' 640 480 1) (\<lambda>_. replicate 64 CHR ''a'')
       (\<lambda>e q c. Some [1]) demo_storage_env 0 (\<lambda>n. of_nat n) demo_event ''a.jpg'' ''image/jpeg'' [255, 216] None
       (open_session (empty_db\<lparr>photos := [demo_photo]\<rparr>)) Map.empty = (r, s', st') \<and>
     r = Inr (accepted ''a.jpg'' demo_photo ''This photo was already accepted; the existing upload was reused.'')"
proof -
  let ?d = "empty_db\<lparr>photos := [demo_photo]\<rparr>"
  obtain r s' st' where run: "ingest_photo_upload roomy_settings (\<lambda>_. Decoded ''JPEG'' 640 480 1)
      (\<lambda>_. replicate 64 CHR ''a'') (\<lambda>e q c. Some [1]) demo_storage_env 0 (\<lambda>n. of_nat n) demo_event ''a.jpg''
      ''image/jpeg'' [255, 216] None (open_session ?d) Map.empty = (r, s', st')" by (metis surj_pair)
  have u: "photo_keys_unique (photos ?d)" by (simp add: photo_keys_unique_def List.map_filter_def demo_photo_def)
  have q: "demo_photo \<in> set (photos ?d)" "ph_event_id demo_photo = ev_id demo_event"
    by (simp_all add: demo_photo_def demo_event_def)
  have n: "strip ''a.jpg'' = ''a.jpg''" by code_simp
  have m: "max_photo_upload_bytes roomy_settings = 100" by (simp add: roomy_settings_def)
  have k: "case normalized_idempotency_key None of Some k \<Rightarrow> ph_idempotency_key demo_photo = Some k
      | None \<Rightarrow> ph_checksum_sha256 demo_photo = Some (vi_sha256 demo_image)"
    by (simp add: normalized_idempotency_key_def strip_def strip_chars_def demo_photo_def demo_image_def)
  have v: "validated (validate_image_upload roomy_settings) roomy_settings (\<lambda>_. Decoded ''JPEG'' 640 480 1)
      (\<lambda>_. replicate 64 CHR ''a'') (strip ''a.jpg'') ''image/jpeg'' [255, 216] (max_photo_upload_bytes roomy_settings)
      = Inr (Inr demo_image)"
    unfolding n m by (rule demo_validated(1)[where check = "validate_image_upload roomy_settings", OF demo_validated(2)])
  have s: "strip ''a.jpg'' \<noteq> []" by (simp add: n)
  show ?thesis
    using repeated_upload[OF u q s v run, THEN conjunct1, rule_format, OF k] run by (simp add: n)
qed

text \<open>A photo lost after its upload.  When the row is committed but cannot be read again, the
  compensation deletes both objects and the upload is reported as failed, while the row stays: the
  database points at objects that are gone.\<close>

theorem refresh_loses_objects:
  assumes "ingest_new_photo cfg resize env now ids event file img content key (open_session d) st = (r, s', st')"
    and "\<not> se_refresh env" "se_commit env" "\<And>n. se_put env n = Works" "\<And>n. se_delete env n = Works"
    and "create_photo_thumbnail cfg resize content = Some t"
    and "photo_keys_unique (photos (add_photo cfg now ids (new_photo now (ids 0) event file img content key) d))"
    and "photo_constraints (new_photo now (ids 0) event file img content key)"
  shows "\<not> ur_success r \<and> \<not> photos_stored (committed s') st' \<and>
    committed s' = add_photo cfg now ids (new_photo now (ids 0) event file img content key) d"
proof -
  let ?p = "new_photo now (ids 0) event file img content key"
  let ?ok = "build_original_object_key (ev_id event) (ids 0) file"
  let ?tk = "build_thumbnail_object_key (ev_id event) (ids 0) file"
  have p: "ph_original_object_key ?p = ?ok" "ph_thumbnail_object_key ?p = Some ?tk"
    by (simp_all add: new_photo_def)
  have "(r, s', st') = publish_photo cfg env now ids ?p (open_session d) (st(?ok \<mapsto> content, ?tk \<mapsto> t))"
    using assms(1,4,6) by (simp add: ingest_new_photo_def Let_def store_photo_def put_object_def)
  then have r: "\<not> ur_success r" "committed s' = add_photo cfg now ids ?p d"
      "st' = delete_keys env 0 [?tk, ?ok] (st(?ok \<mapsto> content, ?tk \<mapsto> t))"
    using assms(2,3,7,8) by (simp_all add: publish_photo_def Let_def refused_def p or_text_def del: delete_keys.simps)
  have "st' ?ok = None"
    unfolding r(3) by (subst delete_keys_works) (simp_all add: assms(5))
  moreover have "?p \<in> set (photos (committed s'))" by (simp add: r(2) add_photo_def)
  ultimately have "\<not> photos_stored (committed s') st'" unfolding photos_stored_def using p(1) by metis
  with r show ?thesis by simp
qed

theorem refresh_loses_objects_witness:
  "\<exists>r s' st'. ingest_new_photo default_settings (\<lambda>e q c. Some [1])
       \<lparr>se_put = \<lambda>_. Works, se_delete = \<lambda>_. Works, se_commit = True, se_refresh = False\<rparr> 0 (\<lambda>n. of_nat n) demo_event
       ''a.jpg'' demo_image [255, 216] None (open_session empty_db) Map.empty = (r, s', st') \<and>
     \<not> photos_stored (committed s') st'"
proof -
  let ?env = "\<lparr>se_put = \<lambda>_. Works, se_delete = \<lambda>_. Works, se_commit = True, se_refresh = False\<rparr>"
  obtain r s' st' where run: "ingest_new_photo default_settings (\<lambda>e q c. Some [1]) ?env 0 (\<lambda>n. of_nat n) demo_event
      ''a.jpg'' demo_image [255, 216] None (open_session empty_db) Map.empty = (r, s', st')" by (metis surj_pair)
  have "photo_keys_unique (photos (add_photo default_settings 0 (\<lambda>n. of_nat n)
      (new_photo 0 (of_nat 0) demo_event ''a.jpg'' demo_image [255, 216] None) empty_db))"
    by (simp add: photo_keys_unique_def List.map_filter_def add_photo_def empty_db_def new_photo_def)
  moreover have "photo_constraints (new_photo 0 (of_nat 0) demo_event ''a.jpg'' demo_image [255, 216] None)"
    by (simp add: photo_constraints_def new_photo_def demo_image_def)
  ultimately have "\<not> photos_stored (committed s') st'"
    using refresh_loses_objects[OF run, of "[1]", THEN conjunct2, THEN conjunct1] by (simp add: create_photo_thumbnail_def)
  with run show ?thesis by blast
qed

text \<open>What a face upload may leave behind.  Whatever fails, and whether or not compensation
  works, the storage differs after the upload of a selfie or of a search photo only at a key that marks a
  temporary face image; so an object without a row is queued for deletion by the next
  reconciliation that lists it.\<close>

theorem face_uploads_recoverable:
  assumes "(\<exists>r. ingest_participant_selfie_upload cfg decode digest env now ids participant name type content s st = (r, s', st'))
    \<or> (\<exists>r. ingest_face_search_upload cfg decode digest env now ids event found participant_id name type content s st = (r, s', st'))"
    and "st' k \<noteq> st k"
  shows "is_sensitive_temporary_key k \<and>
    (k \<in> set r2_keys \<longrightarrow> k \<notin> referenced_keys (committed s') \<longrightarrow> k \<in> set (sensitive_orphans r2_keys (committed s')))"
proof -
  have "is_sensitive_temporary_key k"
    using assms selfie_upload_storage search_upload_storage by metis
  then show ?thesis by (simp add: sensitive_orphans_def)
qed

definition demo_participant :: participant where
  "demo_participant = \<lparr>pa_id = 2, pa_event_id = 1, pa_bib_number = ''7'', pa_full_name = ''A'', pa_bib_lookup = ''7'',
     pa_name_lookup = ''A'', pa_created_at = 0\<rparr>"

theorem face_uploads_recoverable_witness:
  "is_sensitive_temporary_key (build_face_selfie_object_key 1 2 3 ''a.jpg'')"
proof -
  let ?env = "\<lparr>se_put = \<lambda>_. Raises True, se_delete = \<lambda>_. Works, se_commit = True, se_refresh = True\<rparr>"
  let ?key = "build_face_selfie_object_key 1 2 3 ''a.jpg''"
  have n: "strip ''a.jpg'' = ''a.jpg''" by code_simp
  have m: "max_selfie_upload_bytes roomy_settings = 100" by (simp add: roomy_settings_def)
  have p: "pa_event_id demo_participant = 1" "pa_id demo_participant = 2" by (simp_all add: demo_participant_def)
  note v = demo_validated(1)[where check = "validate_selfie_upload roomy_settings", OF demo_validated(3)]
  have ex: "\<exists>r. ingest_participant_selfie_upload roomy_settings (\<lambda>_. Decoded ''JPEG'' 640 480 1) (\<lambda>_. replicate 64 CHR ''a'') ?env 0
      (\<lambda>_. 3) demo_participant ''a.jpg'' ''image/jpeg'' [255, 216] (open_session empty_db) Map.empty =
    (r, open_session empty_db, Map.empty(?key \<mapsto> [255, 216]))"
    by (simp add: ingest_participant_selfie_upload_def Let_def n m v p put_object_def)
  from face_uploads_recoverable[OF disjI1[OF ex], of ?key]
  show ?thesis by simp
qed

end
