(* ===== verification/PhotoAdmin.thy ===== *)
theory PhotoAdmin
  imports Maintenance Listing
begin

text \<open>
  Deleting photos and rebuilding matches: \<^verbatim>\<open>backend/app/photographer.py\<close>, 759 to 888.  The outbox run
  that follows a deletion is \<^verbatim>\<open>process_object_deletions\<close>; it commits on its own, so a deletion maps a
  session to a fresh session on the database it leaves.
\<close>

section \<open>Deleting photos\<close>

text \<open>The rows that mention a photo, deleted by statements on the connection.\<close>

definition cleanup_photo_identity_data :: "uuid list \<Rightarrow> session \<Rightarrow> session" where
  "cleanup_photo_identity_data ids s =
    (if ids = [] then s
     else
       let detection_ids = map fd_id (filter (\<lambda>f. fd_photo_id f \<in> set ids) (face_detections (flushed s)));
           s1 = (if detection_ids = [] then s
             else dml (\<lambda>d. d\<lparr>search_results := filter (\<lambda>r. sr_detection_id r \<notin> set detection_ids) (search_results d),
                    face_matches := filter (\<lambda>m. fm_detection_id m \<notin> set detection_ids) (face_matches d)\<rparr>) s)
       in dml (\<lambda>d. d\<lparr>search_results := filter (\<lambda>r. sr_photo_id r \<notin> set ids) (search_results d),
            face_matches := filter (\<lambda>m. fm_photo_id m \<notin> set ids) (face_matches d),
            photo_matches := filter (\<lambda>m. pm_photo_id m \<notin> set ids) (photo_matches d),
            text_detections := filter (\<lambda>t. td_photo_id t \<notin> set ids) (text_detections d),
            face_detections := filter (\<lambda>f. fd_photo_id f \<notin> set ids) (face_detections d),
            photo_jobs := filter (\<lambda>j. case parent_photo (j_parent j) of
              None \<Rightarrow> True | Some p \<Rightarrow> p \<notin> set ids) (photo_jobs d)\<rparr>) s1)"

text \<open>\<^verbatim>\<open>session.delete(photo)\<close> with its cascades.\<close>

definition remove_photo :: "uuid \<Rightarrow> db \<Rightarrow> db" where
  "remove_photo i d = d\<lparr>photos := filter (\<lambda>p. ph_id p \<noteq> i) (photos d),
     photo_jobs := filter (\<lambda>j. parent_photo (j_parent j) \<noteq> Some i) (photo_jobs d),
     text_detections := filter (\<lambda>t. td_photo_id t \<noteq> i) (text_detections d),
     photo_matches := filter (\<lambda>m. pm_photo_id m \<noteq> i) (photo_matches d),
     face_detections := filter (\<lambda>f. fd_photo_id f \<noteq> i) (face_detections d),
     face_matches := filter (\<lambda>m. fm_photo_id m \<noteq> i) (face_matches d)\<rparr>"

definition discard_photo :: "time \<Rightarrow> (str \<Rightarrow> uuid) \<Rightarrow> session \<Rightarrow> photo \<Rightarrow> session" where
  "discard_photo now ids s photo =
    (let s1 = dml (enqueue_object_deletion now (ids (ph_original_object_key photo)) (Some (ph_original_object_key photo))) s;
         s2 = dml (enqueue_object_deletion now (ids (or_text (ph_thumbnail_object_key photo) []))
                (ph_thumbnail_object_key photo)) s1
     in orm (remove_photo (ph_id photo)) s2)"

definition run_outbox :: "settings \<Rightarrow> deletion_env \<Rightarrow> int \<Rightarrow> session \<Rightarrow> session" where
  "run_outbox cfg env limit s = open_session (snd (process_object_deletions cfg env (Some limit) (committed s)))"

definition delete_photo :: "settings \<Rightarrow> deletion_env \<Rightarrow> time \<Rightarrow> (str \<Rightarrow> uuid) \<Rightarrow> photo \<Rightarrow> session \<Rightarrow> session" where
  "delete_photo cfg env now ids photo s =
     run_outbox cfg env 2
       (commit (discard_photo now ids (cleanup_photo_identity_data [ph_id photo] s) photo))"

definition delete_all_event_photos ::
    "settings \<Rightarrow> deletion_env \<Rightarrow> time \<Rightarrow> (str \<Rightarrow> uuid) \<Rightarrow> uuid \<Rightarrow> session \<Rightarrow> int \<times> session" where
  "delete_all_event_photos cfg env now ids event_id s =
    (let ps = event_photos (flushed s) event_id;
         s1 = cleanup_photo_identity_data (map ph_id ps) s;
         s2 = foldl (discard_photo now ids) s1 ps;
         deleted_count = int (length ps)
     in (deleted_count,
         run_outbox cfg env (min (deleted_count * 2) (deletion_retry_batch_size cfg)) (commit s2)))"

section \<open>Rebuilding the matches of an event\<close>

text \<open>Matches that rest on the text of a photo are dropped; of a combined match the face stays.\<close>

definition relabel_match :: "photo_match \<Rightarrow> photo_match" where
  "relabel_match m =
    (if pm_match_source m = SrcOcrFace
     then m\<lparr>pm_match_source := SrcFace, pm_matched_value := ''face-preserved-after-ocr-rebuild''\<rparr> else m)"

definition drop_text_matches :: "uuid \<Rightarrow> db \<Rightarrow> db" where
  "drop_text_matches event_id d = d\<lparr>photo_matches :=
     update_where (\<lambda>m. pm_event_id m = event_id) relabel_match
       (filter (\<lambda>m. \<not> (pm_event_id m = event_id \<and> pm_match_source m = SrcOcr)) (photo_matches d))\<rparr>"

definition create_participant_matches :: "time \<Rightarrow> photo \<Rightarrow> text_detection list \<Rightarrow> session \<Rightarrow> session" where
  "create_participant_matches now photo detections s =
    (let by_bib = participants_by_bib (event_participants (ph_event_id photo) (flushed s));
         s1 = foldl (\<lambda>s detection. foldl (match_candidate now photo by_bib detection) s
                (photographer_extract_match_candidates (td_detected_text detection))) s detections;
         matched_any = (\<exists>t \<in> set detections. \<exists>c \<in> set (photographer_extract_match_candidates (td_detected_text t)).
                by_bib c \<noteq> None)
     in if matched_any then commit s1 else s1)"

definition rebuild_photo :: "time \<Rightarrow> int \<times> session \<Rightarrow> photo \<Rightarrow> int \<times> session" where
  "rebuild_photo now acc photo =
    (case acc of (rebuilt_count, s) \<Rightarrow>
       let detections = photo_texts (flushed s) (ph_id photo) in
       if detections = [] then (rebuilt_count, s)
       else (rebuilt_count + 1, create_participant_matches now photo detections s))"

definition rebuild_event_photo_matches :: "time \<Rightarrow> uuid \<Rightarrow> session \<Rightarrow> int \<times> session" where
  "rebuild_event_photo_matches now event_id s =
    (let s1 = commit (orm (drop_text_matches event_id) s)
     in foldl (rebuild_photo now) (0, s1)
          (sort_key (\<lambda>p. - ph_created_at p) (event_photos (flushed s1) event_id)))"

end
