(* ===== verification/Administration.thy ===== *)
theory Administration
  imports PhotoAdmin Uploads "HOL-Library.List_Lexorder"
begin

text \<open>
  Administering events and participants: \<^verbatim>\<open>backend/app/admin.py\<close> but for the parsers of participant
  files.  Deletions end with a run of the outbox, as in \<^verbatim>\<open>PhotoAdmin\<close>.
\<close>

section \<open>Events\<close>

definition slugify :: "str \<Rightarrow> str" where
  "slugify value =
    (let normalized = strip_chars (\<lambda>c. c = CHR ''-'')
           (sub_runs (\<lambda>c. is_lower c \<or> is_digit c) CHR ''-'' False (lower value))
     in if normalized = [] then ''event'' else normalized)"

record event_list_item =
  el_event :: event
  el_participant_count :: nat

definition list_events :: "db \<Rightarrow> event_list_item list" where
  "list_events d = map (\<lambda>e. \<lparr>el_event = e,
       el_participant_count = length (filter (\<lambda>p. pa_event_id p = ev_id e) (participants d))\<rparr>)
     (sort_key (\<lambda>e. - ev_created_at e) (events d))"

text \<open>\<^verbatim>\<open>ORDER BY bib_number\<close> compares by code points, as SQLite does.\<close>

definition list_participants :: "db \<Rightarrow> uuid \<Rightarrow> participant list" where
  "list_participants d event_id = sort_key (\<lambda>p. (map char_code (pa_bib_number p), pa_created_at p))
     (event_participants event_id d)"

definition get_event :: "db \<Rightarrow> str \<Rightarrow> event option" where
  "get_event d event_id = Option.bind (parse_uuid event_id) (\<lambda>i. row_at ev_id i (events d))"

definition get_participant :: "db \<Rightarrow> str \<Rightarrow> participant option" where
  "get_participant d participant_id =
     Option.bind (parse_uuid participant_id) (\<lambda>i. row_at pa_id i (participants d))"

definition slug_exists :: "db \<Rightarrow> str option \<Rightarrow> str \<Rightarrow> bool" where
  "slug_exists d exclude slug \<longleftrightarrow>
    (let excluded = (case exclude of None \<Rightarrow> None | Some x \<Rightarrow> if x = [] then None else parse_uuid x)
     in \<exists>e \<in> set (events d). ev_slug e = slug \<and> Some (ev_id e) \<noteq> excluded)"

definition numbered :: "str \<Rightarrow> nat \<Rightarrow> str" where
  "numbered base k = base @ ''-'' @ int_str (int k)"

text \<open>The loop \<^verbatim>\<open>while slug_exists(...)\<close>; its fuel is the number of candidates it may try.\<close>

fun free_slug :: "nat \<Rightarrow> (str \<Rightarrow> bool) \<Rightarrow> str \<Rightarrow> str \<Rightarrow> nat \<Rightarrow> str option" where
  "free_slug 0 taken base candidate k = None"
| "free_slug (Suc n) taken base candidate k =
     (if taken candidate then free_slug n taken base (numbered base k) (k + 1) else Some candidate)"

definition generate_unique_slug :: "db \<Rightarrow> str \<Rightarrow> str option \<Rightarrow> str option" where
  "generate_unique_slug d name exclude =
    (let base_slug = slugify name
     in free_slug (Suc (length (events d))) (slug_exists d exclude) base_slug base_slug 2)"

text \<open>The unique constraint of the slug: a commit that breaks it raises and writes nothing.\<close>

definition slugs_unique :: "db \<Rightarrow> bool" where
  "slugs_unique d \<longleftrightarrow> distinct (map ev_slug (events d))"

definition commit_events :: "session \<Rightarrow> session result" where
  "commit_events s =
    (if slugs_unique (live s) then Inr (commit s) else Inl (IntegrityError ''UNIQUE constraint failed: events.slug''))"

definition create_event :: "time \<Rightarrow> uuid \<Rightarrow> str \<Rightarrow> str \<Rightarrow> int option \<Rightarrow> str option \<Rightarrow> event_status \<Rightarrow> session \<Rightarrow>
    session result" where
  "create_event now i name slug date location status s = commit_events (orm (\<lambda>d. d\<lparr>events := events d @
     [\<lparr>ev_id = i, ev_name = name, ev_slug = slug, ev_date = date, ev_location = location, ev_status = status,
       ev_thumbnail_object_key = None, ev_created_at = now\<rparr>]\<rparr>) s)"

definition update_event :: "uuid \<Rightarrow> str \<Rightarrow> str \<Rightarrow> int option \<Rightarrow> str option \<Rightarrow> event_status \<Rightarrow> session \<Rightarrow>
    session result" where
  "update_event i name slug date location status s = commit_events (orm (\<lambda>d. d\<lparr>events :=
     update_where (\<lambda>e. ev_id e = i) (\<lambda>e. e\<lparr>ev_name := name, ev_slug := slug, ev_date := date,
       ev_location := location, ev_status := status\<rparr>) (events d)\<rparr>) s)"

text \<open>\<^verbatim>\<open>session.delete(event)\<close>: every foreign key to the event cascades, and the keys to the rows that go
  with it; audit rows only lose the reference.\<close>

definition remove_event :: "uuid \<Rightarrow> db \<Rightarrow> db" where
  "remove_event i d =
    (let gone = ph_id ` set (event_photos d i);
         sessions_gone = fs_id ` {x \<in> set (search_sessions d). fs_event_id x = i}
     in d\<lparr>events := filter (\<lambda>e. ev_id e \<noteq> i) (events d),
       participants := filter (\<lambda>p. pa_event_id p \<noteq> i) (participants d),
       photos := filter (\<lambda>p. ph_event_id p \<noteq> i) (photos d),
       photo_jobs := filter (\<lambda>j. \<forall>p \<in> gone. parent_photo (j_parent j) \<noteq> Some p) (photo_jobs d),
       text_detections := filter (\<lambda>t. td_photo_id t \<notin> gone) (text_detections d),
       photo_matches := filter (\<lambda>m. pm_event_id m \<noteq> i) (photo_matches d),
       face_images := filter (\<lambda>f. fi_event_id f \<noteq> i) (face_images d),
       face_embeddings := filter (\<lambda>e. fe_event_id e \<noteq> i) (face_embeddings d),
       participant_face_jobs := filter (\<lambda>j. case j_parent j of OfFaceImage e _ _ \<Rightarrow> e \<noteq> i | _ \<Rightarrow> True)
         (participant_face_jobs d),
       face_detections := filter (\<lambda>f. fd_event_id f \<noteq> i) (face_detections d),
       face_matches := filter (\<lambda>m. fm_event_id m \<noteq> i) (face_matches d),
       search_sessions := filter (\<lambda>x. fs_event_id x \<noteq> i) (search_sessions d),
       search_images := filter (\<lambda>x. si_event_id x \<noteq> i \<and> si_search_session_id x \<notin> sessions_gone) (search_images d),
       face_search_jobs := filter (\<lambda>j. case j_parent j of OfSearch e x _ \<Rightarrow> e \<noteq> i \<and> x \<notin> sessions_gone | _ \<Rightarrow> True)
         (face_search_jobs d),
       search_results := filter (\<lambda>r. sr_event_id r \<noteq> i \<and> sr_search_session_id r \<notin> sessions_gone) (search_results d),
       audit_rows := update_where (\<lambda>a. al_event_id a = Some i) (\<lambda>a. a\<lparr>al_event_id := None\<rparr>) (audit_rows d)\<rparr>)"

definition event_object_keys :: "db \<Rightarrow> event \<Rightarrow> str list" where
  "event_object_keys d event =
     map si_object_key (filter (\<lambda>i. si_event_id i = ev_id event) (search_images d)) @
     map fi_object_key (filter (\<lambda>i. fi_event_id i = ev_id event) (face_images d)) @
     (case ev_thumbnail_object_key event of None \<Rightarrow> [] | Some k \<Rightarrow> if k = [] then [] else [k])"

definition delete_event :: "settings \<Rightarrow> deletion_env \<Rightarrow> time \<Rightarrow> (str \<Rightarrow> uuid) \<Rightarrow> event \<Rightarrow> session \<Rightarrow> session" where
  "delete_event cfg env now ids event s =
    (let keys = event_object_keys (flushed s) event;
         s1 = dml (enqueue_keys now ids keys) s
     in run_outbox cfg env (min (int (length keys)) (deletion_retry_batch_size cfg))
          (commit (orm (remove_event (ev_id event)) s1)))"

section \<open>Importing participants\<close>

record cleaned_row =
  cr_bib_number :: str
  cr_full_name :: str
  cr_bib_lookup :: str
  cr_name_lookup :: str

text \<open>One row of a file, as its bib number and full name; \<^term>\<open>None\<close> is a skipped row.\<close>

definition clean_row :: "str \<times> str \<Rightarrow> cleaned_row option" where
  "clean_row row =
    (let bib_number = strip (fst row); full_name = strip (snd row); bib_lookup = normalize_bib_lookup bib_number
     in if bib_number = [] \<or> full_name = [] then None
        else if 64 < length bib_number \<or> 255 < length full_name then None
        else if bib_lookup = [] then None
        else Some \<lparr>cr_bib_number = bib_number, cr_full_name = full_name, cr_bib_lookup = bib_lookup,
               cr_name_lookup = normalize_name_lookup full_name\<rparr>)"

text \<open>\<^verbatim>\<open>{row["bib_lookup"]: row for row in cleaned_rows}\<close>: the last row of a bib, where the first one stood.\<close>

definition deduped_by_bib :: "cleaned_row list \<Rightarrow> (str \<times> cleaned_row) list" where
  "deduped_by_bib rows = foldl (\<lambda>acc r. AList.update (cr_bib_lookup r) r acc) [] rows"

record participant_upload_result =
  pr_processed_rows :: int
  pr_inserted_rows :: int
  pr_updated_rows :: int
  pr_skipped_rows :: int

definition new_participant :: "time \<Rightarrow> uuid \<Rightarrow> uuid \<Rightarrow> cleaned_row \<Rightarrow> participant" where
  "new_participant now i event_id r = \<lparr>pa_id = i, pa_event_id = event_id, pa_bib_number = cr_bib_number r,
     pa_full_name = cr_full_name r, pa_bib_lookup = cr_bib_lookup r, pa_name_lookup = cr_name_lookup r,
     pa_created_at = now\<rparr>"

definition write_participant :: "cleaned_row \<Rightarrow> participant \<Rightarrow> participant" where
  "write_participant r p = p\<lparr>pa_bib_number := cr_bib_number r, pa_full_name := cr_full_name r,
     pa_bib_lookup := cr_bib_lookup r, pa_name_lookup := cr_name_lookup r\<rparr>"

text \<open>The state of the loop over the deduplicated rows: how many were inserted and updated, and the table.
  \<^verbatim>\<open>existing\<close> is read once, before the loop; \<^verbatim>\<open>ids\<close> draws the id of a new participant by its bib key.\<close>

definition import_row :: "time \<Rightarrow> (str \<Rightarrow> uuid) \<Rightarrow> uuid \<Rightarrow> (str \<rightharpoonup> participant) \<Rightarrow> int \<times> int \<times> participant list \<Rightarrow>
    str \<times> cleaned_row \<Rightarrow> int \<times> int \<times> participant list" where
  "import_row now ids event_id existing acc entry =
    (case acc of (inserted, updated, ps) \<Rightarrow> case entry of (bib_lookup, r) \<Rightarrow>
       (case existing bib_lookup of
          None \<Rightarrow> (inserted + 1, updated, ps @ [new_participant now (ids bib_lookup) event_id r])
        | Some p \<Rightarrow>
            if pa_full_name p \<noteq> cr_full_name r \<or> pa_bib_number p \<noteq> cr_bib_number r
            then (inserted, updated + 1, update_where (\<lambda>q. pa_id q = pa_id p) (write_participant r) ps)
            else (inserted, updated, ps)))"

definition existing_by_bib :: "db \<Rightarrow> uuid \<Rightarrow> cleaned_row list \<Rightarrow> str \<rightharpoonup> participant" where
  "existing_by_bib d event_id rows = map_of (rev (map (\<lambda>p. (pa_bib_lookup p, p))
     (filter (\<lambda>p. pa_event_id p = event_id \<and> pa_bib_lookup p \<in> cr_bib_lookup ` set rows) (participants d))))"

definition upsert_participants :: "time \<Rightarrow> (str \<Rightarrow> uuid) \<Rightarrow> uuid \<Rightarrow> (str \<times> str) list \<Rightarrow> session \<Rightarrow>
    participant_upload_result \<times> session" where
  "upsert_participants now ids event_id rows s =
    (let cleaned = List.map_filter clean_row rows;
         skipped = int (length rows - length cleaned)
     in if cleaned = []
        then (\<lparr>pr_processed_rows = 0, pr_inserted_rows = 0, pr_updated_rows = 0, pr_skipped_rows = skipped\<rparr>, s)
        else
          let deduped = deduped_by_bib cleaned in
          (case foldl (import_row now ids event_id (existing_by_bib (flushed s) event_id cleaned))
                  (0, 0, participants (live s)) deduped of
             (inserted, updated, ps) \<Rightarrow>
               (\<lparr>pr_processed_rows = int (length deduped), pr_inserted_rows = inserted, pr_updated_rows = updated,
                 pr_skipped_rows = skipped + int (length cleaned - length deduped)\<rparr>,
                commit (orm (\<lambda>d. d\<lparr>participants := ps\<rparr>) s))))"

section \<open>Single participants\<close>

definition add_participant :: "time \<Rightarrow> uuid \<Rightarrow> uuid \<Rightarrow> str \<Rightarrow> str \<Rightarrow> session \<Rightarrow> session result" where
  "add_participant now i event_id bib_number full_name s =
    (let bib = strip bib_number; name = strip full_name; bib_lookup = normalize_bib_lookup bib
     in if bib_lookup = [] \<or> name = [] then Inl (ValueError ''Bib number and full name are required.'')
        else if (\<exists>p \<in> set (participants (flushed s)). pa_event_id p = event_id \<and> pa_bib_lookup p = bib_lookup)
        then Inl (ValueError ''That bib number already exists for this event.'')
        else Inr (commit (orm (\<lambda>d. d\<lparr>participants := participants d @
          [new_participant now i event_id \<lparr>cr_bib_number = bib, cr_full_name = name, cr_bib_lookup = bib_lookup,
             cr_name_lookup = normalize_name_lookup name\<rparr>]\<rparr>) s)))"

definition update_participant :: "participant \<Rightarrow> str \<Rightarrow> str \<Rightarrow> session \<Rightarrow> session result" where
  "update_participant participant bib_number full_name s =
    (let bib = strip bib_number; name = strip full_name; bib_lookup = normalize_bib_lookup bib
     in if bib_lookup = [] \<or> name = [] then Inl (ValueError ''Bib number and full name are required.'')
        else if (\<exists>p \<in> set (participants (flushed s)). pa_event_id p = pa_event_id participant \<and>
                   pa_bib_lookup p = bib_lookup \<and> pa_id p \<noteq> pa_id participant)
        then Inl (ValueError ''That bib number already exists for this event.'')
        else Inr (commit (orm (\<lambda>d. d\<lparr>participants := update_where (\<lambda>p. pa_id p = pa_id participant)
          (write_participant \<lparr>cr_bib_number = bib, cr_full_name = name, cr_bib_lookup = bib_lookup,
             cr_name_lookup = normalize_name_lookup name\<rparr>) (participants d)\<rparr>) s)))"

section \<open>Deleting participants\<close>

definition job_of_face_images :: "uuid set \<Rightarrow> uuid set \<Rightarrow> job \<Rightarrow> bool" where
  "job_of_face_images participant_ids image_ids j \<longleftrightarrow> (case j_parent j of
     OfFaceImage _ p i \<Rightarrow> p \<in> participant_ids \<or> i \<in> image_ids | _ \<Rightarrow> False)"

definition job_of_searches :: "uuid set \<Rightarrow> uuid set \<Rightarrow> job \<Rightarrow> bool" where
  "job_of_searches session_ids image_ids j \<longleftrightarrow> (case j_parent j of
     OfSearch _ x i \<Rightarrow> x \<in> session_ids \<or> i \<in> image_ids | _ \<Rightarrow> False)"

definition cleanup_searches :: "time \<Rightarrow> (str \<Rightarrow> uuid) \<Rightarrow> uuid set \<Rightarrow> session \<Rightarrow> session" where
  "cleanup_searches now ids session_ids s =
    (let images = filter (\<lambda>i. si_search_session_id i \<in> session_ids) (search_images (flushed s));
         image_ids = si_id ` set images
     in dml (\<lambda>d. d\<lparr>search_results := filter (\<lambda>r. sr_search_session_id r \<notin> session_ids) (search_results d),
            face_search_jobs := filter (\<lambda>j. \<not> job_of_searches session_ids image_ids j) (face_search_jobs d),
            search_images := filter (\<lambda>i. si_search_session_id i \<notin> session_ids) (search_images d),
            search_sessions := filter (\<lambda>x. fs_id x \<notin> session_ids) (search_sessions d)\<rparr>)
          (dml (enqueue_keys now ids (map si_object_key images)) s))"

definition cleanup_participant_identity_data :: "time \<Rightarrow> (str \<Rightarrow> uuid) \<Rightarrow> uuid list \<Rightarrow> session \<Rightarrow> session" where
  "cleanup_participant_identity_data now ids participant_ids s =
    (if participant_ids = [] then s
     else
       let pids = set participant_ids;
           session_ids = fs_id ` {x \<in> set (search_sessions (flushed s)). \<exists>p \<in> pids. fs_participant_id x = Some p};
           s1 = (if session_ids = {} then s else cleanup_searches now ids session_ids s);
           images = filter (\<lambda>i. fi_participant_id i \<in> pids) (face_images (flushed s1));
           image_ids = fi_id ` set images
       in dml (\<lambda>d. d\<lparr>face_matches := filter (\<lambda>m. fm_participant_id m \<notin> pids) (face_matches d),
              photo_matches := filter (\<lambda>m. pm_participant_id m \<notin> pids) (photo_matches d),
              participant_face_jobs := filter (\<lambda>j. \<not> job_of_face_images pids image_ids j) (participant_face_jobs d),
              face_embeddings := filter (\<lambda>e. fe_participant_id e \<notin> pids \<and> fe_face_image_id e \<notin> image_ids)
                (face_embeddings d),
              face_images := filter (\<lambda>i. fi_participant_id i \<notin> pids) (face_images d)\<rparr>)
            (dml (enqueue_keys now ids (map fi_object_key images)) s1))"

definition remove_participants :: "uuid set \<Rightarrow> db \<Rightarrow> db" where
  "remove_participants pids d = d\<lparr>participants := filter (\<lambda>p. pa_id p \<notin> pids) (participants d)\<rparr>"

definition run_full_outbox :: "settings \<Rightarrow> deletion_env \<Rightarrow> session \<Rightarrow> session" where
  "run_full_outbox cfg env s = open_session (snd (process_object_deletions cfg env None (committed s)))"

definition delete_participant :: "settings \<Rightarrow> deletion_env \<Rightarrow> time \<Rightarrow> (str \<Rightarrow> uuid) \<Rightarrow> participant \<Rightarrow> session \<Rightarrow> session" where
  "delete_participant cfg env now ids participant s =
     run_full_outbox cfg env (commit (orm (remove_participants {pa_id participant})
       (cleanup_participant_identity_data now ids [pa_id participant] s)))"

definition delete_all_participants ::
    "settings \<Rightarrow> deletion_env \<Rightarrow> time \<Rightarrow> (str \<Rightarrow> uuid) \<Rightarrow> uuid \<Rightarrow> session \<Rightarrow> int \<times> session" where
  "delete_all_participants cfg env now ids event_id s =
    (let pids = map pa_id (event_participants event_id (flushed s));
         s1 = cleanup_participant_identity_data now ids pids s;
         n = length (event_participants event_id (flushed s1))
     in (int n, run_full_outbox cfg env (commit (dml (\<lambda>d. d\<lparr>participants :=
            filter (\<lambda>p. pa_event_id p \<noteq> event_id) (participants d)\<rparr>) s1))))"

section \<open>The lock of the administration\<close>

definition ADMIN_LOCK_ID :: int where "ADMIN_LOCK_ID = 1"

definition ADMIN_SESSION_TTL :: time where "ADMIN_SESSION_TTL = seconds (30 * 60)"

definition acquire_admin_lock :: "time \<Rightarrow> str \<Rightarrow> db \<Rightarrow> bool \<times> db" where
  "acquire_admin_lock now session_id d =
    (case row_at lk_id ADMIN_LOCK_ID (admin_locks d) of
       None \<Rightarrow> (True, d\<lparr>admin_locks := admin_locks d @
         [\<lparr>lk_id = ADMIN_LOCK_ID, lk_session_id = session_id, lk_last_seen_at = now\<rparr>]\<rparr>)
     | Some l \<Rightarrow>
         if lk_session_id l = session_id \<or> lk_last_seen_at l < now - ADMIN_SESSION_TTL
         then (True, d\<lparr>admin_locks := update_where (\<lambda>l. lk_id l = ADMIN_LOCK_ID)
                (\<lambda>l. l\<lparr>lk_session_id := session_id, lk_last_seen_at := now\<rparr>) (admin_locks d)\<rparr>)
         else (False, d))"

definition force_admin_lock :: "time \<Rightarrow> str \<Rightarrow> db \<Rightarrow> db" where
  "force_admin_lock now session_id d = d\<lparr>admin_locks := upsert lk_id
     (\<lambda>current new. current\<lparr>lk_session_id := lk_session_id new, lk_last_seen_at := lk_last_seen_at new\<rparr>)
     \<lparr>lk_id = ADMIN_LOCK_ID, lk_session_id = session_id, lk_last_seen_at = now\<rparr> (admin_locks d)\<rparr>"

end
