(* ===== verification/PhotoAdminFacts.thy ===== *)
theory PhotoAdminFacts
  imports PhotoAdmin MaintenanceFacts
begin

text \<open>
  What deleting and rebuilding promise: a deleted photo is gone from every table and its objects are in
  the outbox, and a rebuild makes the text matches of an event exactly those its detections justify.
\<close>

section \<open>The outbox run\<close>

lemma update_task_frame: "\<exists>ts. update_task i f d = d\<lparr>deletion_tasks := ts\<rparr>"
  unfolding update_task_def by blast

lemma delete_loop_frame:
  assumes "alone env"
  shows "\<exists>ts. snd (delete_loop env n attempts c f d) = d\<lparr>deletion_tasks := ts\<rparr>"
proof (induction attempts arbitrary: n c f d)
  case Nil
  show ?case by (intro exI[of _ "deletion_tasks d"]) simp
next
  case (Cons x attempts)
  obtain i a where x: "x = (i, a)" by (cases x)
  have step: "\<exists>ts. snd (delete_loop env m attempts c1 f1 (update_task i g d)) = d\<lparr>deletion_tasks := ts\<rparr>"
    for m c1 f1 g
  proof -
    obtain vs where v: "update_task i g d = d\<lparr>deletion_tasks := vs\<rparr>" using update_task_frame by blast
    show ?thesis using Cons.IH[of m c1 f1 "update_task i g d"] unfolding v by auto
  qed
  show ?case
    using Cons.IH step assms by (auto simp: x alone_def split: option.splits)
qed

lemma claim_tasks_frame: "\<exists>us. snd (claim_tasks env n ts d) = d\<lparr>deletion_tasks := us\<rparr>"
proof (induction ts arbitrary: n d)
  case Nil
  show ?case by (intro exI[of _ "deletion_tasks d"]) simp
next
  case (Cons t ts)
  let ?d1 = "update_task (dt_id t) (claim_task (de_now env) (de_touch env) (de_uuids env n)) d"
  obtain vs where v: "?d1 = d\<lparr>deletion_tasks := vs\<rparr>" using update_task_frame by blast
  obtain us where "snd (claim_tasks env (Suc n) ts ?d1) = ?d1\<lparr>deletion_tasks := us\<rparr>" using Cons.IH by blast
  then have "snd (claim_tasks env (Suc n) ts ?d1) = d\<lparr>deletion_tasks := us\<rparr>" unfolding v by simp
  then have "\<exists>us. snd (claim_tasks env (Suc n) ts ?d1) = d\<lparr>deletion_tasks := us\<rparr>" by blast
  then show ?case by (auto split: prod.splits)
qed

lemma process_frame:
  assumes "alone env"
  shows "\<exists>ts. snd (process_object_deletions cfg env limit d) = d\<lparr>deletion_tasks := ts\<rparr>"
proof -
  obtain attempts d2 where c: "claim_tasks env 0 (batch cfg env limit (bury_lost env d)) (bury_lost env d) = (attempts, d2)"
    by (metis surj_pair)
  obtain ts where "d2 = (bury_lost env d)\<lparr>deletion_tasks := ts\<rparr>"
    using claim_tasks_frame[of env 0 "batch cfg env limit (bury_lost env d)" "bury_lost env d"] c by auto
  then have "d2 = d\<lparr>deletion_tasks := ts\<rparr>" by (simp add: bury_lost_def)
  then show ?thesis
    using delete_loop_frame[OF assms, of 0 attempts 0 0 d2] c by (auto simp: process_object_deletions_def Let_def)
qed

lemma run_outbox_frame:
  assumes "alone env"
  shows "\<exists>ts. committed (run_outbox cfg env limit s) = (committed s)\<lparr>deletion_tasks := ts\<rparr>"
  using process_frame[OF assms] by (simp add: run_outbox_def)

lemma outbox_step_key: "outbox_step env t t' \<Longrightarrow> dt_object_key t' = dt_object_key t"
  by (erule outbox_stepE)
    (auto simp: bury_task_def finish_task_def failed_task_def completed_task_def Let_def split: option.splits)

text \<open>An object asked to be deleted is still in the outbox after a run, unless its deletion returned.\<close>

definition pending_or_deleted :: "deletion_env \<Rightarrow> str \<Rightarrow> db \<Rightarrow> bool" where
  "pending_or_deleted env k d \<longleftrightarrow> (\<exists>t \<in> set (deletion_tasks d). dt_object_key t = k \<and>
     (dt_status t = TaskCompleted \<longrightarrow> (\<exists>n. de_outcome env n k = None)))"

lemma run_outbox_keeps:
  assumes "alone env" "distinct (map dt_id (deletion_tasks (committed s)))" "requested k (committed s)"
  shows "pending_or_deleted env k (committed (run_outbox cfg env limit s))"
proof -
  obtain t where t: "t \<in> set (deletion_tasks (committed s))" "dt_object_key t = k" "dt_status t = TaskQueued"
    using assms(3) row_at_Some_iff unfolding requested_def by fastforce
  obtain c f d' where p: "process_object_deletions cfg env (Some limit) (committed s) = ((c, f), d')"
    by (metis prod.collapse)
  have "task_at (dt_id t) (committed s) = Some t" using row_at_unique[OF assms(2) t(1)] .
  from process_outcome(2)[OF assms(1,2) p this] obtain t' where
    t': "task_at (dt_id t) d' = Some t'" "outbox_step env t t'" by blast
  have "t' \<in> set (deletion_tasks d')" using t'(1) row_at_Some_iff by fastforce
  moreover have "dt_object_key t' = k" using outbox_step_key[OF t'(2)] t(2) by simp
  moreover have "\<exists>n. de_outcome env n k = None" if "dt_status t' = TaskCompleted"
    using outbox_step_completed[OF t'(2) that] t(2,3) that by auto
  ultimately have "pending_or_deleted env k d'" unfolding pending_or_deleted_def by blast
  then show ?thesis by (simp add: run_outbox_def p)
qed

section \<open>Deleting photos\<close>

lemma enqueue_frame [simp]:
  "photos (enqueue_object_deletion now i k d) = photos d"
  "photo_jobs (enqueue_object_deletion now i k d) = photo_jobs d"
  "text_detections (enqueue_object_deletion now i k d) = text_detections d"
  "photo_matches (enqueue_object_deletion now i k d) = photo_matches d"
  "face_detections (enqueue_object_deletion now i k d) = face_detections d"
  "face_matches (enqueue_object_deletion now i k d) = face_matches d"
  "search_results (enqueue_object_deletion now i k d) = search_results d"
  by (simp_all add: enqueue_object_deletion_def split: option.splits)

text \<open>The database without the photos of some ids: every table that mentions a photo.\<close>

definition without_photos :: "uuid set \<Rightarrow> db \<Rightarrow> db \<Rightarrow> bool" where
  "without_photos ids d d' \<longleftrightarrow>
     photos d' = filter (\<lambda>p. ph_id p \<notin> ids) (photos d) \<and>
     photo_jobs d' = filter (\<lambda>j. \<forall>i \<in> ids. parent_photo (j_parent j) \<noteq> Some i) (photo_jobs d) \<and>
     text_detections d' = filter (\<lambda>t. td_photo_id t \<notin> ids) (text_detections d) \<and>
     photo_matches d' = filter (\<lambda>m. pm_photo_id m \<notin> ids) (photo_matches d) \<and>
     face_detections d' = filter (\<lambda>f. fd_photo_id f \<notin> ids) (face_detections d) \<and>
     face_matches d' = filter (\<lambda>m. fm_photo_id m \<notin> ids \<and>
       fm_detection_id m \<notin> fd_id ` {f \<in> set (face_detections d). fd_photo_id f \<in> ids}) (face_matches d) \<and>
     search_results d' = filter (\<lambda>r. sr_photo_id r \<notin> ids \<and>
       sr_detection_id r \<notin> fd_id ` {f \<in> set (face_detections d). fd_photo_id f \<in> ids}) (search_results d)"

lemma not_parent_in: "(case x of None \<Rightarrow> True | Some p \<Rightarrow> p \<notin> I) = (\<forall>i \<in> I. x \<noteq> Some i)"
  by (cases x) auto

definition cleaned :: "uuid list \<Rightarrow> db \<Rightarrow> db" where
  "cleaned ids d = live (cleanup_photo_identity_data ids (open_session d))"

lemma cleaned_rows:
  "photos (cleaned ids d) = photos d"
  "deletion_tasks (cleaned ids d) = deletion_tasks d"
  "photo_jobs (cleaned ids d) = filter (\<lambda>j. \<forall>i \<in> set ids. parent_photo (j_parent j) \<noteq> Some i) (photo_jobs d)"
  "text_detections (cleaned ids d) = filter (\<lambda>t. td_photo_id t \<notin> set ids) (text_detections d)"
  "photo_matches (cleaned ids d) = filter (\<lambda>m. pm_photo_id m \<notin> set ids) (photo_matches d)"
  "face_detections (cleaned ids d) = filter (\<lambda>f. fd_photo_id f \<notin> set ids) (face_detections d)"
  by (simp_all add: cleaned_def cleanup_photo_identity_data_def Let_def not_parent_in)

lemma cleaned_refs:
  fixes ids :: "uuid list" and d :: db
  defines "dets \<equiv> fd_id ` {f \<in> set (face_detections d). fd_photo_id f \<in> set ids}"
  shows "search_results (cleaned ids d) =
      filter (\<lambda>r. sr_photo_id r \<notin> set ids \<and> sr_detection_id r \<notin> dets) (search_results d)"
    and "face_matches (cleaned ids d) =
      filter (\<lambda>m. fm_photo_id m \<notin> set ids \<and> fm_detection_id m \<notin> dets) (face_matches d)"
proof -
  let ?l = "map fd_id (filter (\<lambda>f. fd_photo_id f \<in> set ids) (face_detections d))"
  have l: "set ?l = dets" by (auto simp: dets_def)
  have e: "?l = [] \<Longrightarrow> dets = {}" using l by simp
  have "ids = [] \<Longrightarrow> dets = {}" by (simp add: dets_def)
  with l e show "search_results (cleaned ids d) =
      filter (\<lambda>r. sr_photo_id r \<notin> set ids \<and> sr_detection_id r \<notin> dets) (search_results d)"
    and "face_matches (cleaned ids d) =
      filter (\<lambda>m. fm_photo_id m \<notin> set ids \<and> fm_detection_id m \<notin> dets) (face_matches d)"
    by (simp_all add: cleaned_def cleanup_photo_identity_data_def Let_def conj_commute del: set_map)
qed

lemma discard_live: "live (discard_photo now ids s p) = remove_photo (ph_id p)
    (enqueue_object_deletion now (ids (or_text (ph_thumbnail_object_key p) [])) (ph_thumbnail_object_key p)
      (enqueue_object_deletion now (ids (ph_original_object_key p)) (Some (ph_original_object_key p)) (live s)))"
  by (simp add: discard_photo_def Let_def)

lemma discards_rows:
  fixes s :: session and ps :: "photo list" and now :: time and ids :: "str \<Rightarrow> uuid"
  defines "d \<equiv> live s" and "d' \<equiv> live (foldl (discard_photo now ids) s ps)" and "I \<equiv> ph_id ` set ps"
  shows "photos d' = filter (\<lambda>p. ph_id p \<notin> I) (photos d) \<and>
    photo_jobs d' = filter (\<lambda>j. \<forall>i \<in> I. parent_photo (j_parent j) \<noteq> Some i) (photo_jobs d) \<and>
    text_detections d' = filter (\<lambda>t. td_photo_id t \<notin> I) (text_detections d) \<and>
    photo_matches d' = filter (\<lambda>m. pm_photo_id m \<notin> I) (photo_matches d) \<and>
    face_detections d' = filter (\<lambda>f. fd_photo_id f \<notin> I) (face_detections d) \<and>
    face_matches d' = filter (\<lambda>m. fm_photo_id m \<notin> I) (face_matches d) \<and>
    search_results d' = search_results d"
  unfolding d_def d'_def I_def
proof (induction ps arbitrary: s)
  case (Cons p ps)
  show ?case
    using Cons.IH[of "discard_photo now ids s p"]
    by (simp add: discard_live remove_photo_def conj_commute)
qed simp

lemma filter_same: "filter P (filter P xs) = filter P xs"
  by simp

lemma filter_absorb: "filter P (filter (\<lambda>x. P x \<and> Q x) xs) = filter (\<lambda>x. P x \<and> Q x) xs"
  by (induction xs) auto

lemma cleaned_without_photos:
  assumes "d' = live (foldl (discard_photo now ids) (cleanup_photo_identity_data (map ph_id ps) (open_session d)) ps)"
  shows "without_photos (ph_id ` set ps) d d'"
proof -
  let ?c = "cleaned (map ph_id ps) d"
  have "live (cleanup_photo_identity_data (map ph_id ps) (open_session d)) = ?c" by (simp add: cleaned_def)
  note rows = discards_rows[of now ids "cleanup_photo_identity_data (map ph_id ps) (open_session d)" ps, unfolded this, folded assms]
  show ?thesis
    unfolding without_photos_def using rows
    by (simp only: cleaned_rows cleaned_refs set_map filter_same filter_absorb simp_thms)
qed

subsection \<open>The requests\<close>

text \<open>The keys under which photos are stored.\<close>

definition photo_keys :: "photo list \<Rightarrow> str set" where
  "photo_keys ps = {k. k \<noteq> [] \<and> (\<exists>p \<in> set ps. ph_original_object_key p = k \<or> ph_thumbnail_object_key p = Some k)}"

text \<open>The ids drawn for the tasks of some keys are new, and one per key.\<close>

definition ids_fit :: "(str \<Rightarrow> uuid) \<Rightarrow> str set \<Rightarrow> db \<Rightarrow> bool" where
  "ids_fit ids K d \<longleftrightarrow> inj_on ids K \<and> distinct (map dt_id (deletion_tasks d)) \<and>
     (\<forall>t \<in> set (deletion_tasks d). \<forall>k \<in> K. dt_id t = ids k \<longrightarrow> dt_object_key t = k)"

lemma enqueue_ids_fit:
  assumes "ids_fit ids K d" "k = [] \<or> k \<in> K"
  shows "ids_fit ids K (enqueue_object_deletion now (ids k) (Some k) d)"
proof (cases "k = []")
  case True
  then show ?thesis using assms(1) by (simp add: enqueue_object_deletion_def)
next
  case False
  let ?ts = "deletion_tasks d"
  show ?thesis
  proof (cases "k \<in> dt_object_key ` set ?ts")
    case True
    let ?us = "update_where (\<lambda>t. dt_object_key t = k) (\<lambda>t. merge_task t (new_task now (ids k) k)) ?ts"
    have ids: "map dt_id ?us = map dt_id ?ts" "map dt_object_key ?us = map dt_object_key ?ts"
      by (rule update_where_key, simp add: merge_task_def requeue_def)+
    have pairs: "map (\<lambda>t. (dt_id t, dt_object_key t)) ?us = map (\<lambda>t. (dt_id t, dt_object_key t)) ?ts"
      by (rule update_where_key) (simp add: merge_task_def requeue_def)
    have "\<exists>u \<in> set ?ts. dt_id u = dt_id t \<and> dt_object_key u = dt_object_key t" if "t \<in> set ?us" for t
    proof -
      have "(dt_id t, dt_object_key t) \<in> set (map (\<lambda>t. (dt_id t, dt_object_key t)) ?us)" using that by auto
      then show ?thesis unfolding pairs by auto
    qed
    with assms(1) ids(1) have "ids_fit ids K (d\<lparr>deletion_tasks := ?us\<rparr>)"
      by (simp add: ids_fit_def) metis
    then show ?thesis using True False by (simp add: enqueue_object_deletion_def upsert_def new_task_def)
  next
    case new: False
    have "ids k \<notin> dt_id ` set ?ts"
    proof
      assume "ids k \<in> dt_id ` set ?ts"
      then obtain t where "t \<in> set ?ts" "dt_id t = ids k" by force
      with assms new False show False by (auto simp: ids_fit_def)
    qed
    then have "ids_fit ids K (d\<lparr>deletion_tasks := ?ts @ [new_task now (ids k) k]\<rparr>)"
      using assms False by (auto simp: ids_fit_def new_task_def dest: inj_onD)
    then show ?thesis using new False by (simp add: enqueue_object_deletion_def upsert_def new_task_def)
  qed
qed

lemma requested_remove [simp]: "requested k (remove_photo i d) = requested k d"
  by (simp add: requested_def remove_photo_def)

lemma discard_requests:
  assumes "photo_keys [p] \<subseteq> K" "ids_fit ids K (live s)"
  shows "ids_fit ids K (live (discard_photo now ids s p))"
    and "ph_original_object_key p \<noteq> [] \<Longrightarrow> requested (ph_original_object_key p) (live (discard_photo now ids s p))"
    and "ph_thumbnail_object_key p = Some k \<Longrightarrow> k \<noteq> [] \<Longrightarrow> requested k (live (discard_photo now ids s p))"
    and "requested k (live s) \<Longrightarrow> requested k (live (discard_photo now ids s p))"
proof -
  let ?d1 = "enqueue_object_deletion now (ids (ph_original_object_key p)) (Some (ph_original_object_key p)) (live s)"
  let ?i = "ids (or_text (ph_thumbnail_object_key p) [])"
  have "ph_original_object_key p = [] \<or> ph_original_object_key p \<in> K" using assms(1) by (auto simp: photo_keys_def)
  from enqueue_ids_fit[OF assms(2) this] have 1: "ids_fit ids K ?d1" .
  have "ids_fit ids K (enqueue_object_deletion now ?i (ph_thumbnail_object_key p) ?d1)"
  proof (cases "ph_thumbnail_object_key p")
    case None
    with 1 show ?thesis by (simp add: enqueue_object_deletion_def)
  next
    case (Some t)
    show ?thesis
    proof (cases "t = []")
      case True
      with 1 Some show ?thesis by (simp add: enqueue_object_deletion_def)
    next
      case False
      then have "t = [] \<or> t \<in> K" using Some assms(1) by (auto simp: photo_keys_def)
      with False Some enqueue_ids_fit[OF 1 this, of now] show ?thesis by (simp add: or_text_def)
    qed
  qed
  then show "ids_fit ids K (live (discard_photo now ids s p))"
    by (simp add: discard_live ids_fit_def remove_photo_def)
  show "ph_original_object_key p \<noteq> [] \<Longrightarrow> requested (ph_original_object_key p) (live (discard_photo now ids s p))"
    unfolding discard_live requested_remove by (rule enqueue_keeps, rule enqueue_requests)
  show "ph_thumbnail_object_key p = Some k \<Longrightarrow> k \<noteq> [] \<Longrightarrow> requested k (live (discard_photo now ids s p))"
    unfolding discard_live requested_remove by (simp add: enqueue_requests)
  show "requested k (live s) \<Longrightarrow> requested k (live (discard_photo now ids s p))"
    unfolding discard_live requested_remove by (intro enqueue_keeps)
qed

lemma discards_request:
  assumes "photo_keys ps \<subseteq> K" "ids_fit ids K (live s)"
  shows "ids_fit ids K (live (foldl (discard_photo now ids) s ps)) \<and>
    (\<forall>k. k \<in> photo_keys ps \<or> requested k (live s) \<longrightarrow> requested k (live (foldl (discard_photo now ids) s ps)))"
  using assms
proof (induction ps arbitrary: s)
  case Nil
  then show ?case by (simp add: photo_keys_def)
next
  case (Cons p ps)
  have k: "photo_keys [p] \<subseteq> K" "photo_keys ps \<subseteq> K" using Cons.prems(1) by (auto simp: photo_keys_def)
  note dr = discard_requests[OF k(1) Cons.prems(2), where now = now]
  have "k \<in> photo_keys (p # ps) \<Longrightarrow> k \<in> photo_keys ps \<or> requested k (live (discard_photo now ids s p))" for k
    using dr(2,3) by (auto simp: photo_keys_def)
  then show ?case using Cons.IH[OF k(2) dr(1)] dr(4) by auto
qed

text \<open>Both deletions end with a run of the outbox on what they committed.\<close>

lemma deletion_outcome:
  assumes "alone env" "photo_keys ps \<subseteq> K" "ids_fit ids K d"
    and "s = commit (foldl (discard_photo now ids) (cleanup_photo_identity_data (map ph_id ps) (open_session d)) ps)"
  shows "without_photos (ph_id ` set ps) d (committed (run_outbox cfg env limit s)) \<and>
    (\<forall>k \<in> photo_keys ps. pending_or_deleted env k (committed (run_outbox cfg env limit s)))"
proof -
  have c: "committed s = live (foldl (discard_photo now ids) (cleanup_photo_identity_data (map ph_id ps) (open_session d)) ps)"
    by (simp add: assms(4))
  have "without_photos (ph_id ` set ps) d (committed s)" by (rule cleaned_without_photos[OF c])
  moreover obtain ts where "committed (run_outbox cfg env limit s) = (committed s)\<lparr>deletion_tasks := ts\<rparr>"
    using run_outbox_frame[OF assms(1)] by blast
  ultimately have w: "without_photos (ph_id ` set ps) d (committed (run_outbox cfg env limit s))"
    by (simp add: without_photos_def)
  have "ids_fit ids K (live (cleanup_photo_identity_data (map ph_id ps) (open_session d)))"
    using assms(3) by (simp add: ids_fit_def cleaned_rows flip: cleaned_def)
  note req = discards_request[OF assms(2) this, where now = now, folded c]
  then have "pending_or_deleted env k (committed (run_outbox cfg env limit s))" if "k \<in> photo_keys ps" for k
    using run_outbox_keeps[OF assms(1)] that by (simp add: ids_fit_def)
  with w show ?thesis by blast
qed

text \<open>C19 (safety): deleting photos.  Deleting one photo, or all photos of an event, removes exactly those
  photos with every row that mentions them or one of their faces, in all tables, and leaves every other
  photo's rows alone; and each of their objects is in the outbox afterwards, completed only when the
  storage's deletion returned.\<close>

theorem photos_deleted_everywhere:
  assumes "alone env" "ids_fit ids (photo_keys (photo # event_photos d e)) d"
  shows "without_photos {ph_id photo} d (committed (delete_photo cfg env now ids photo (open_session d))) \<and>
    (\<forall>k \<in> photo_keys [photo]. pending_or_deleted env k (committed (delete_photo cfg env now ids photo (open_session d)))) \<and>
    fst (delete_all_event_photos cfg env now ids e (open_session d)) = int (length (event_photos d e)) \<and>
    without_photos (ph_id ` set (event_photos d e)) d
      (committed (snd (delete_all_event_photos cfg env now ids e (open_session d)))) \<and>
    (\<forall>k \<in> photo_keys (event_photos d e).
      pending_or_deleted env k (committed (snd (delete_all_event_photos cfg env now ids e (open_session d)))))"
  using deletion_outcome[OF assms(1) _ assms(2) refl, where now = now and ps = "[photo]" and cfg = cfg and limit = 2]
    deletion_outcome[OF assms(1) _ assms(2) refl, where now = now and ps = "event_photos d e" and cfg = cfg
      and limit = "min (int (length (event_photos d e)) * 2) (deletion_retry_batch_size cfg)"]
  by (auto simp: delete_photo_def delete_all_event_photos_def Let_def photo_keys_def)

definition stored_photo :: photo where
  "stored_photo = \<lparr>ph_id = 7, ph_event_id = 1, ph_original_object_key = ''a'', ph_thumbnail_object_key = Some ''b'',
     ph_file_name = ''a.jpg'', ph_content_type = ''image/jpeg'', ph_file_size = 2, ph_checksum_sha256 = None,
     ph_idempotency_key = None, ph_status = PhotoReady, ph_created_at = 0\<rparr>"

theorem photos_deleted_everywhere_witness:
  "photos (committed (delete_photo default_settings demo_deletion 3 (\<lambda>k. if k = ''a'' then 1 else 2) stored_photo
      (open_session (empty_db\<lparr>photos := [stored_photo]\<rparr>)))) = []"
proof -
  let ?ids = "\<lambda>k. if k = ''a'' then 1 else (2 :: uuid)"
  let ?d = "empty_db\<lparr>photos := [stored_photo]\<rparr>"
  have a: "alone demo_deletion" by (simp add: alone_def demo_deletion_def)
  have "photo_keys (stored_photo # event_photos ?d 1) = {''a'', ''b''}"
    by (auto simp: photo_keys_def event_photos_def stored_photo_def)
  then have f: "ids_fit ?ids (photo_keys (stored_photo # event_photos ?d 1)) ?d"
    by (simp add: ids_fit_def empty_db_def inj_on_def)
  from photos_deleted_everywhere[OF a f, THEN conjunct1, of default_settings 3] show ?thesis
    by (simp add: without_photos_def)
qed

end
