(* ===== verification/RebuildFacts.thy ===== *)
theory RebuildFacts
  imports PhotoAdminFacts
begin

text \<open>
  Rebuilding the matches of an event: the text evidence of its photos becomes exactly what their detected
  texts justify, and the evidence of faces and the matches of other events stay.
\<close>

section \<open>Evidence\<close>

definition evidence_in :: "match_source set \<Rightarrow> uuid \<times> uuid \<Rightarrow> db \<Rightarrow> bool" where
  "evidence_in S k d \<longleftrightarrow> (\<exists>m \<in> set (photo_matches d). photo_match_key m = k \<and> pm_match_source m \<in> S)"

abbreviation text_evidence :: "uuid \<times> uuid \<Rightarrow> db \<Rightarrow> bool" where
  "text_evidence \<equiv> evidence_in {SrcOcr, SrcOcrFace}"

abbreviation face_evidence :: "uuid \<times> uuid \<Rightarrow> db \<Rightarrow> bool" where
  "face_evidence \<equiv> evidence_in {SrcFace, SrcOcrFace}"

lemma merge_key [simp]: "photo_match_key (merge_photo_match r m) = photo_match_key r"
  "pm_event_id (merge_photo_match r m) = pm_event_id r"
  "pm_match_source (merge_photo_match r m) = merged_source (pm_match_source r) (pm_match_source m)"
  by (simp_all add: merge_photo_match_def photo_match_key_def)

lemma merged_source_ocr:
  "merged_source s SrcOcr \<in> {SrcOcr, SrcOcrFace}" "merged_source s SrcOcr \<in> {SrcFace, SrcOcrFace} \<longleftrightarrow> s \<in> {SrcFace, SrcOcrFace}"
  by (cases s; simp add: merged_source_def)+

lemma bex_update_where:
  "(\<exists>r \<in> set (update_where p f rows). Q r) \<longleftrightarrow> (\<exists>r \<in> set rows. if p r then Q (f r) else Q r)"
  by (induction rows) auto

lemma photo_matches_upsert: "photo_matches (upsert_photo_match m d) =
    (if photo_match_key m \<in> photo_match_key ` set (photo_matches d)
     then update_where (\<lambda>r. photo_match_key r = photo_match_key m) (\<lambda>r. merge_photo_match r m) (photo_matches d)
     else photo_matches d @ [m])"
  by (simp add: upsert_photo_match_def upsert_def)

lemma upsert_text_evidence:
  assumes "pm_match_source m = SrcOcr"
  shows "text_evidence k (upsert_photo_match m d) \<longleftrightarrow> text_evidence k d \<or> k = photo_match_key m"
proof (cases "photo_match_key m \<in> photo_match_key ` set (photo_matches d)")
  case True
  have "text_evidence k (upsert_photo_match m d) \<longleftrightarrow> (\<exists>r \<in> set (photo_matches d).
      if photo_match_key r = photo_match_key m then photo_match_key r = k
      else photo_match_key r = k \<and> pm_match_source r \<in> {SrcOcr, SrcOcrFace})"
    using True merged_source_ocr(1)
    by (simp only: evidence_in_def photo_matches_upsert if_True bex_update_where assms merge_key simp_thms)
  also have "\<dots> \<longleftrightarrow> text_evidence k d \<or> k = photo_match_key m"
  proof (cases "k = photo_match_key m")
    case True
    with \<open>photo_match_key m \<in> _\<close> obtain r where "r \<in> set (photo_matches d)" "photo_match_key r = k" by force
    with True show ?thesis by auto
  next
    case False
    then show ?thesis unfolding evidence_in_def by metis
  qed
  finally show ?thesis .
next
  case False
  then show ?thesis using assms by (auto simp: evidence_in_def upsert_photo_match_def upsert_def)
qed

lemma upsert_face_evidence:
  assumes "pm_match_source m = SrcOcr"
  shows "face_evidence k (upsert_photo_match m d) \<longleftrightarrow> face_evidence k d"
proof (cases "photo_match_key m \<in> photo_match_key ` set (photo_matches d)")
  case True
  have "face_evidence k (upsert_photo_match m d) \<longleftrightarrow> (\<exists>r \<in> set (photo_matches d).
      if photo_match_key r = photo_match_key m then photo_match_key r = k \<and> pm_match_source r \<in> {SrcFace, SrcOcrFace}
      else photo_match_key r = k \<and> pm_match_source r \<in> {SrcFace, SrcOcrFace})"
    using True
    by (simp only: evidence_in_def photo_matches_upsert if_True bex_update_where assms merge_key
        merged_source_ocr(2) simp_thms)
  then show ?thesis by (simp add: evidence_in_def)
next
  case False
  then show ?thesis using assms by (auto simp: evidence_in_def upsert_photo_match_def upsert_def)
qed

text \<open>Every match of a photo of the event belongs to the event.\<close>

definition event_consistent :: "uuid \<Rightarrow> uuid set \<Rightarrow> db \<Rightarrow> bool" where
  "event_consistent e ids d \<longleftrightarrow> (\<forall>m \<in> set (photo_matches d). pm_photo_id m \<in> ids \<longrightarrow> pm_event_id m = e)"

definition other_matches :: "uuid \<Rightarrow> db \<Rightarrow> photo_match list" where
  "other_matches e d = filter (\<lambda>m. pm_event_id m \<noteq> e) (photo_matches d)"

lemma upsert_other_matches:
  assumes "event_consistent e ids d" "pm_event_id m = e" "pm_photo_id m \<in> ids"
  shows "other_matches e (upsert_photo_match m d) = other_matches e d"
    and "event_consistent e ids (upsert_photo_match m d)"
proof -
  have e: "pm_event_id r = e" if "r \<in> set (photo_matches d)" "photo_match_key r = photo_match_key m" for r
    using that assms by (auto simp: event_consistent_def photo_match_key_def)
  have "filter (\<lambda>m. pm_event_id m \<noteq> e) (update_where (\<lambda>r. photo_match_key r = photo_match_key m)
      (\<lambda>r. merge_photo_match r m) rows) = filter (\<lambda>m. pm_event_id m \<noteq> e) rows"
    if "\<forall>r \<in> set rows. photo_match_key r = photo_match_key m \<longrightarrow> pm_event_id r = e" for rows
    using that by (induction rows) auto
  with e assms(2) show "other_matches e (upsert_photo_match m d) = other_matches e d"
    by (auto simp: other_matches_def upsert_photo_match_def upsert_def)
  have "\<forall>r \<in> set (update_where (\<lambda>r. photo_match_key r = photo_match_key m) (\<lambda>r. merge_photo_match r m) rows).
      pm_photo_id r \<in> ids \<longrightarrow> pm_event_id r = e"
    if "\<forall>r \<in> set rows. pm_photo_id r \<in> ids \<longrightarrow> pm_event_id r = e" for rows
    using that by (induction rows) (auto simp: merge_photo_match_def)
  with assms show "event_consistent e ids (upsert_photo_match m d)"
    by (auto simp: event_consistent_def upsert_photo_match_def upsert_def)
qed

section \<open>One photo\<close>

lemma foldl_or:
  "(\<And>s x. P (f s x) \<longleftrightarrow> P s \<or> Q x) \<Longrightarrow> P (foldl f s xs) \<longleftrightarrow> P s \<or> (\<exists>x \<in> set xs. Q x)"
  by (induction xs arbitrary: s) auto

lemma foldl_fact:
  "(\<And>s x. x \<in> set xs \<Longrightarrow> P s \<Longrightarrow> P (f s x)) \<Longrightarrow> P s \<Longrightarrow> P (foldl f s xs)"
  by (induction xs arbitrary: s) auto

text \<open>What the fold over candidates keeps: the tables it reads, and that nothing is pending.\<close>

definition settled :: "uuid \<Rightarrow> uuid set \<Rightarrow> db \<Rightarrow> session \<Rightarrow> bool" where
  "settled e ids d s \<longleftrightarrow> flushed s = live s \<and> participants (live s) = participants d \<and>
     text_detections (live s) = text_detections d \<and> photos (live s) = photos d \<and> event_consistent e ids (live s) \<and>
     other_matches e (live s) = other_matches e d \<and> (\<forall>k. face_evidence k (live s) = face_evidence k d)"

lemma match_candidate_settled:
  assumes "settled e ids d s" "ph_event_id photo = e" "ph_id photo \<in> ids"
  shows "settled e ids d (match_candidate now photo by_bib t s c)"
proof (cases "by_bib c")
  case None
  with assms(1) show ?thesis by (simp add: match_candidate_def)
next
  case (Some p)
  let ?m = "\<lparr>pm_event_id = ph_event_id photo, pm_photo_id = ph_id photo, pm_participant_id = pa_id p,
      pm_match_source = SrcOcr, pm_matched_value = clamp_match_value c, pm_confidence = td_confidence t,
      pm_created_at = now\<rparr>"
  have "match_candidate now photo by_bib t s c = dml (upsert_photo_match ?m) s"
    by (simp add: match_candidate_def Some upsert_final_photo_participant_match_def)
  moreover have "photos (upsert_photo_match ?m x) = photos x" "participants (upsert_photo_match ?m x) = participants x"
    "text_detections (upsert_photo_match ?m x) = text_detections x" for x
    by (simp_all add: upsert_photo_match_def)
  ultimately show ?thesis
    using assms upsert_other_matches[of e ids "live s" ?m] upsert_face_evidence[of ?m _ "live s"]
    by (simp add: settled_def)
qed

lemma match_candidate_text:
  "text_evidence k (live (match_candidate now photo by_bib t s c)) \<longleftrightarrow>
   text_evidence k (live s) \<or> (\<exists>p. by_bib c = Some p \<and> k = (ph_id photo, pa_id p))"
  by (cases "by_bib c")
    (simp_all add: match_candidate_def upsert_final_photo_participant_match_def upsert_text_evidence photo_match_key_def)

text \<open>The participants that the detected texts of a photo name.\<close>

definition named_by :: "(str \<Rightarrow> participant option) \<Rightarrow> text_detection list \<Rightarrow> uuid \<Rightarrow> bool" where
  "named_by by_bib ts participant_id \<longleftrightarrow> (\<exists>t \<in> set ts. \<exists>c \<in> set (photographer_extract_match_candidates (td_detected_text t)).
     \<exists>p. by_bib c = Some p \<and> pa_id p = participant_id)"

lemma create_matches:
  fixes photo :: photo and s :: session
  defines "by_bib \<equiv> participants_by_bib (event_participants (ph_event_id photo) (flushed s))"
  assumes "settled e ids d s" "committed s = live s" "ph_event_id photo = e" "ph_id photo \<in> ids"
    and "s' = create_participant_matches now photo ts s"
  shows "settled e ids d s' \<and> committed s' = live s' \<and>
    (\<forall>k. text_evidence k (live s') \<longleftrightarrow> text_evidence k (live s) \<or> fst k = ph_id photo \<and> named_by by_bib ts (snd k))"
proof -
  let ?f = "\<lambda>s detection. foldl (match_candidate now photo by_bib detection) s
      (photographer_extract_match_candidates (td_detected_text detection))"
  let ?s1 = "foldl ?f s ts"
  have set1: "settled e ids d ?s1"
    by (rule foldl_fact, rule foldl_fact) (use assms match_candidate_settled in blast)+
  have text1: "text_evidence k (live ?s1) \<longleftrightarrow> text_evidence k (live s) \<or> fst k = ph_id photo \<and> named_by by_bib ts (snd k)" for k
  proof -
    have "text_evidence k (live ?s1) \<longleftrightarrow> text_evidence k (live s) \<or> (\<exists>t \<in> set ts.
        \<exists>c \<in> set (photographer_extract_match_candidates (td_detected_text t)). \<exists>p. by_bib c = Some p \<and> k = (ph_id photo, pa_id p))"
      by (rule foldl_or[where P = "\<lambda>s. text_evidence k (live s)"], rule foldl_or[where P = "\<lambda>s. text_evidence k (live s)"],
          rule match_candidate_text)
    then show ?thesis by (cases k) (auto simp: named_by_def)
  qed
  let ?any = "\<exists>t \<in> set ts. \<exists>c \<in> set (photographer_extract_match_candidates (td_detected_text t)). by_bib c \<noteq> None"
  have s': "s' = (if ?any then commit ?s1 else ?s1)"
    by (simp add: assms(6) create_participant_matches_def by_bib_def[symmetric] Let_def)
  have same: "?s1 = s" if "\<not> ?any"
  proof (rule foldl_fact[where P = "\<lambda>x. x = s"])
    show "?f x t = s" if "t \<in> set ts" "x = s" for x t
      by (rule foldl_fact[where P = "\<lambda>x. x = s"]) (use that \<open>\<not> ?any\<close> in \<open>auto simp: match_candidate_def\<close>)
  qed simp
  have "settled e ids d (commit ?s1)" using set1 by (simp add: settled_def)
  then show ?thesis using set1 text1 same assms(2,3) unfolding s' by (cases ?any) auto
qed

section \<open>All photos of an event\<close>

lemma photo_texts_cong: "text_detections d = text_detections d' \<Longrightarrow> photo_texts d i = photo_texts d' i"
  by (simp add: photo_texts_def)

lemma rebuild_photo_step:
  assumes "settled e ids d s" "committed s = live s" "ph_event_id photo = e" "ph_id photo \<in> ids"
    and "rebuild_photo now (n, s) photo = (n', s')"
  shows "settled e ids d s' \<and> committed s' = live s' \<and> n' = n + (if photo_texts d (ph_id photo) = [] then 0 else 1) \<and>
    (\<forall>k. text_evidence k (live s') \<longleftrightarrow> text_evidence k (live s) \<or> fst k = ph_id photo \<and>
       named_by (participants_by_bib (event_participants e d)) (photo_texts d (ph_id photo)) (snd k))"
proof -
  have tx: "photo_texts (flushed s) (ph_id photo) = photo_texts d (ph_id photo)"
    using assms(1) by (intro photo_texts_cong) (simp add: settled_def)
  have by_bib: "event_participants (ph_event_id photo) (flushed s) = event_participants e d"
    using assms(1,3) by (simp add: settled_def event_participants_def)
  show ?thesis
  proof (cases "photo_texts d (ph_id photo) = []")
    case True
    then show ?thesis using assms by (auto simp: rebuild_photo_def tx named_by_def)
  next
    case False
    then have n: "n' = n + (if photo_texts d (ph_id photo) = [] then 0 else 1)"
      and s': "s' = create_participant_matches now photo (photo_texts d (ph_id photo)) s"
      using assms(5) by (simp_all add: rebuild_photo_def tx Let_def)
    from create_matches[OF assms(1-4) s', unfolded by_bib] n show ?thesis by blast
  qed
qed

lemma rebuild_photos:
  assumes "settled e ids d s" "committed s = live s" "\<forall>p \<in> set ps. ph_event_id p = e \<and> ph_id p \<in> ids"
    and "foldl (rebuild_photo now) (n, s) ps = (n', s')"
  shows "settled e ids d s' \<and> committed s' = live s' \<and>
    n' = n + int (length (filter (\<lambda>p. photo_texts d (ph_id p) \<noteq> []) ps)) \<and>
    (\<forall>k. text_evidence k (live s') \<longleftrightarrow> text_evidence k (live s) \<or> (\<exists>p \<in> set ps. fst k = ph_id p \<and>
       named_by (participants_by_bib (event_participants e d)) (photo_texts d (ph_id p)) (snd k)))"
  using assms
proof (induction ps arbitrary: n s)
  case (Cons p ps)
  obtain n1 s1 where 1: "rebuild_photo now (n, s) p = (n1, s1)" by (metis surj_pair)
  have p: "ph_event_id p = e" "ph_id p \<in> ids" using Cons.prems(3) by simp_all
  note st = rebuild_photo_step[OF Cons.prems(1,2) p 1]
  have "foldl (rebuild_photo now) (n1, s1) ps = (n', s')" using Cons.prems(4) 1 by simp
  note ih = Cons.IH[OF conjunct1[OF st] _ _ this]
  have c: "committed s1 = live s1" and ps: "\<forall>p \<in> set ps. ph_event_id p = e \<and> ph_id p \<in> ids"
    using st Cons.prems(3) by simp_all
  note ih = ih[OF c ps]
  have k: "text_evidence k (live s') \<longleftrightarrow> text_evidence k (live s) \<or> (\<exists>q \<in> set (p # ps). fst k = ph_id q \<and>
       named_by (participants_by_bib (event_participants e d)) (photo_texts d (ph_id q)) (snd k))" for k
  proof -
    have "text_evidence k (live s') \<longleftrightarrow> text_evidence k (live s1) \<or> (\<exists>q \<in> set ps. fst k = ph_id q \<and>
       named_by (participants_by_bib (event_participants e d)) (photo_texts d (ph_id q)) (snd k))" using ih by blast
    moreover have "text_evidence k (live s1) \<longleftrightarrow> text_evidence k (live s) \<or> fst k = ph_id p \<and>
       named_by (participants_by_bib (event_participants e d)) (photo_texts d (ph_id p)) (snd k)" using st by blast
    ultimately show ?thesis by (simp only: list.set bex_simps) blast
  qed
  have "n' = n + int (length (filter (\<lambda>p. photo_texts d (ph_id p) \<noteq> []) (p # ps)))"
    using ih st by (cases "photo_texts d (ph_id p) = []") simp_all
  with ih k show ?case by blast
qed simp

lemma relabel_keeps [simp]:
  "pm_event_id (relabel_match m) = pm_event_id m" "pm_photo_id (relabel_match m) = pm_photo_id m"
  "photo_match_key (relabel_match m) = photo_match_key m"
  "pm_match_source (relabel_match m) = (if pm_match_source m = SrcOcrFace then SrcFace else pm_match_source m)"
  by (simp_all add: relabel_match_def photo_match_key_def)

lemma update_where_iff: "x \<in> set (update_where p f rows) \<longleftrightarrow> (\<exists>r \<in> set rows. x = (if p r then f r else r))"
  by (induction rows) auto

lemma dropped_source: "m \<in> set (photo_matches (drop_text_matches e d)) \<Longrightarrow> pm_event_id m = e \<Longrightarrow> pm_match_source m = SrcFace"
proof -
  assume m: "m \<in> set (photo_matches (drop_text_matches e d))" "pm_event_id m = e"
  then obtain r where r: "r \<in> set (photo_matches d)" "\<not> (pm_event_id r = e \<and> pm_match_source r = SrcOcr)"
    "m = (if pm_event_id r = e then relabel_match r else r)"
    by (auto simp: drop_text_matches_def update_where_iff)
  have "pm_event_id r = e" using r(3) m(2) by (cases "pm_event_id r = e") simp_all
  with r show ?thesis by (cases "pm_match_source r") simp_all
qed

lemma dropped_text:
  assumes "event_consistent e ids (drop_text_matches e d)" "i \<in> ids"
  shows "\<not> text_evidence (i, j) (drop_text_matches e d)"
proof
  assume "text_evidence (i, j) (drop_text_matches e d)"
  then obtain m where m: "m \<in> set (photo_matches (drop_text_matches e d))" "photo_match_key m = (i, j)"
    "pm_match_source m \<in> {SrcOcr, SrcOcrFace}" by (auto simp: evidence_in_def)
  then have "pm_event_id m = e" using assms by (auto simp: event_consistent_def photo_match_key_def)
  from dropped_source[OF m(1) this] m(3) show False by simp
qed

lemma dropped_consistent: "event_consistent e ids d \<Longrightarrow> event_consistent e ids (drop_text_matches e d)"
  unfolding event_consistent_def
proof (intro ballI impI)
  fix m
  assume c: "\<forall>m \<in> set (photo_matches d). pm_photo_id m \<in> ids \<longrightarrow> pm_event_id m = e"
    and "m \<in> set (photo_matches (drop_text_matches e d))" and i: "pm_photo_id m \<in> ids"
  then obtain r where r: "r \<in> set (photo_matches d)" "m = (if pm_event_id r = e then relabel_match r else r)"
    by (auto simp: drop_text_matches_def update_where_iff)
  then have "pm_photo_id r \<in> ids" "pm_event_id m = pm_event_id r" using i by (cases "pm_event_id r = e"; simp)+
  with c r(1) show "pm_event_id m = e" by simp
qed

lemma dropped_face: "face_evidence k (drop_text_matches e d) \<longleftrightarrow> face_evidence k d"
proof
  assume "face_evidence k (drop_text_matches e d)"
  then obtain m where m: "m \<in> set (photo_matches (drop_text_matches e d))" "photo_match_key m = k"
    "pm_match_source m \<in> {SrcFace, SrcOcrFace}" by (auto simp: evidence_in_def)
  then obtain r where "r \<in> set (photo_matches d)" "\<not> (pm_event_id r = e \<and> pm_match_source r = SrcOcr)"
    "m = (if pm_event_id r = e then relabel_match r else r)"
    by (auto simp: drop_text_matches_def update_where_iff)
  with m show "face_evidence k d" by (auto simp: evidence_in_def split: if_splits)
next
  assume "face_evidence k d"
  then obtain r where r: "r \<in> set (photo_matches d)" "photo_match_key r = k" "pm_match_source r \<in> {SrcFace, SrcOcrFace}"
    by (auto simp: evidence_in_def)
  let ?m = "if pm_event_id r = e then relabel_match r else r"
  have "?m \<in> set (photo_matches (drop_text_matches e d))"
    using r by (auto simp: drop_text_matches_def update_where_iff)
  moreover have "photo_match_key ?m = k" "pm_match_source ?m \<in> {SrcFace, SrcOcrFace}" using r by auto
  ultimately show "face_evidence k (drop_text_matches e d)" unfolding evidence_in_def by blast
qed

lemma dropped_other: "other_matches e (drop_text_matches e d) = other_matches e d"
proof -
  have "filter (\<lambda>m. pm_event_id m \<noteq> e) (update_where (\<lambda>m. pm_event_id m = e) relabel_match
      (filter (\<lambda>m. \<not> (pm_event_id m = e \<and> pm_match_source m = SrcOcr)) ms)) = filter (\<lambda>m. pm_event_id m \<noteq> e) ms" for ms
    by (induction ms) auto
  then show ?thesis by (simp add: other_matches_def drop_text_matches_def)
qed


definition named_photo_db :: db where
  "named_photo_db = empty_db\<lparr>photos := [stored_photo],
     participants := [\<lparr>pa_id = 2, pa_event_id = 1, pa_bib_number = ''7'', pa_full_name = ''A'', pa_bib_lookup = ''7'',
       pa_name_lookup = ''A'', pa_created_at = 0\<rparr>],
     text_detections := [\<lparr>td_id = 3, td_photo_id = 7, td_photo_job_id = 4, td_detected_text = ''7'',
       td_normalized_text = ''7'', td_confidence = None, td_bounding_box_json = None, td_created_at = 0\<rparr>]\<rparr>"


end
