(* ===== verification/AdministrationFacts.thy ===== *)
theory AdministrationFacts
  imports Administration RebuildFacts ArchiveFacts
begin

text \<open>
  What the administration promises: a free slug is always found, an import is the expected change of the
  roster and keeps its keys unique, and the lock belongs to one session at a time.
\<close>

section \<open>Slugs\<close>

lemma free_slug_free: "free_slug n taken base c k = Some s \<Longrightarrow> \<not> taken s"
  by (induction n arbitrary: c k) (auto split: if_splits)

definition slug_candidate :: "str \<Rightarrow> str \<Rightarrow> nat \<Rightarrow> nat \<Rightarrow> str" where
  "slug_candidate base c k i = (if i = 0 then c else numbered base (k + i - 1))"

lemma slug_candidate_0 [simp]: "slug_candidate base c k 0 = c"
  by (simp add: slug_candidate_def)

lemma slug_candidate_Suc: "slug_candidate base c k (Suc i) = numbered base (k + i)"
  by (simp add: slug_candidate_def)

lemma free_slug_none:
  "free_slug n taken base c k = None \<Longrightarrow> i < n \<Longrightarrow> taken (slug_candidate base c k i)"
proof (induction n arbitrary: c k i)
  case (Suc n)
  then have t: "taken c" and r: "free_slug n taken base (numbered base k) (k + 1) = None"
    by (auto split: if_splits)
  show ?case
  proof (cases i)
    case 0
    with t show ?thesis by (simp add: slug_candidate_def)
  next
    case (Suc j)
    have "taken (slug_candidate base (numbered base k) (k + 1) j)"
      using Suc.IH[OF r, of j] Suc Suc.prems(2) by simp
    then show ?thesis using Suc by (cases j) (simp_all add: slug_candidate_def)
  qed
qed simp

lemma numbered_inj: "numbered base j = numbered base k \<Longrightarrow> j = k"
  using nat_digits_inj[of j k] by (simp add: numbered_def)

lemma numbered_other: "numbered base k \<noteq> base"
proof
  assume "numbered base k = base"
  then have "length (numbered base k) = length base" by simp
  then show False by (simp add: numbered_def)
qed

lemma free_slug_found:
  assumes "finite S" "\<And>c. taken c \<Longrightarrow> c \<in> S" "card S < n"
  shows "\<exists>s. free_slug n taken base base 2 = Some s"
proof (rule ccontr)
  assume "\<nexists>s. free_slug n taken base base 2 = Some s"
  then have none: "free_slug n taken base base 2 = None" by simp
  have inj: "inj_on (slug_candidate base base 2) {..<n}"
  proof (rule inj_onI)
    fix i j assume e: "slug_candidate base base 2 i = slug_candidate base base 2 j"
    show "i = j"
    proof (cases i)
      case 0
      with e show ?thesis by (cases j) (simp_all add: slug_candidate_Suc numbered_other [symmetric])
    next
      case (Suc i')
      show ?thesis
      proof (cases j)
        case 0
        with e Suc show ?thesis by (simp add: slug_candidate_Suc numbered_other)
      next
        case (Suc j')
        with e \<open>i = Suc i'\<close> have "numbered base (2 + i') = numbered base (2 + j')" by (simp only: slug_candidate_Suc)
        from numbered_inj[OF this] Suc \<open>i = Suc i'\<close> show ?thesis by simp
      qed
    qed
  qed
  have "slug_candidate base base 2 ` {..<n} \<subseteq> S" using free_slug_none[OF none] assms(2) by blast
  from card_mono[OF assms(1) this] have "n \<le> card S" by (simp add: card_image[OF inj])
  with assms(3) show False by simp
qed

text \<open>A slug for an event.  Whatever events there are, the search for a free slug ends,
  and the slug it finds is not taken: creating the event with it, or renaming the excluded event to it,
  commits without breaking the unique constraint.\<close>

theorem slug_generated:
  assumes "slugs_unique d"
  shows "(\<exists>slug. generate_unique_slug d name exclude = Some slug \<and> \<not> slug_exists d exclude slug) \<and>
    (\<exists>slug. generate_unique_slug d name None = Some slug \<and>
       is_ok (create_event now i name slug date location status (open_session d)))"
proof -
  have found: "\<exists>slug. generate_unique_slug d name exclude = Some slug \<and> \<not> slug_exists d exclude slug" for exclude
  proof -
    have c: "card (ev_slug ` set (events d)) < Suc (length (events d))"
      using card_image_le[of "set (events d)" ev_slug] card_length[of "events d"] by simp
    have "slug_exists d exclude c \<Longrightarrow> c \<in> ev_slug ` set (events d)" for c by (auto simp: slug_exists_def Let_def)
    then obtain slug where s: "generate_unique_slug d name exclude = Some slug"
      using free_slug_found[OF _ _ c, of "slug_exists d exclude" "slugify name"]
      by (auto simp: generate_unique_slug_def Let_def)
    then show ?thesis using free_slug_free unfolding generate_unique_slug_def Let_def by blast
  qed
  obtain slug where s: "generate_unique_slug d name None = Some slug" "\<not> slug_exists d None slug" using found by blast
  then have "slug \<notin> ev_slug ` set (events d)" by (auto simp: slug_exists_def)
  with assms have "is_ok (create_event now i name slug date location status (open_session d))"
    by (simp add: create_event_def commit_events_def slugs_unique_def)
  with s(1) found show ?thesis by blast
qed

lemma slug_generated_witness:
  "\<exists>slug. generate_unique_slug empty_db ''Sommer Lauf'' None = Some slug \<and> \<not> slug_exists empty_db None slug"
proof -
  have "slugs_unique empty_db" by (simp add: slugs_unique_def empty_db_def)
  from slug_generated[OF this, of "''Sommer Lauf''" None] show ?thesis by blast
qed

section \<open>The roster of an event\<close>

definition person_key :: "participant \<Rightarrow> uuid \<times> str" where
  "person_key p = (pa_event_id p, pa_bib_lookup p)"

definition roster :: "uuid \<Rightarrow> participant list \<Rightarrow> str \<rightharpoonup> str \<times> str" where
  "roster e ps b = map_option (\<lambda>p. (pa_bib_number p, pa_full_name p)) (row_at person_key (e, b) ps)"

text \<open>The unique constraints: one row per id, and per bib of an event.\<close>

definition roster_ok :: "participant list \<Rightarrow> bool" where
  "roster_ok ps \<longleftrightarrow> distinct (map pa_id ps) \<and> distinct (map person_key ps)"

lemma write_keeps [simp]: "pa_id (write_participant r p) = pa_id p" "pa_event_id (write_participant r p) = pa_event_id p"
  by (simp_all add: write_participant_def)

lemma row_at_append: "row_at key k (xs @ ys) = (case row_at key k xs of None \<Rightarrow> row_at key k ys | Some r \<Rightarrow> Some r)"
  by (induction xs) auto

lemma write_by_id:
  assumes "roster_ok ps" "p \<in> set ps" "person_key p = (e, cr_bib_lookup r)"
  shows "map (\<lambda>q. (pa_id q, person_key q)) (update_where (\<lambda>q. pa_id q = pa_id p) (write_participant r) ps) =
      map (\<lambda>q. (pa_id q, person_key q)) ps"
    and "row_at person_key k (update_where (\<lambda>q. pa_id q = pa_id p) (write_participant r) ps) =
      (if k = (e, cr_bib_lookup r) then Some (write_participant r p) else row_at person_key k ps)"
proof -
  have same: "q = p" if "q \<in> set ps" "pa_id q = pa_id p" for q
    using that assms(1,2) by (auto simp: roster_ok_def distinct_map dest: inj_onD)
  have key: "person_key (write_participant r q) = person_key q" if "q \<in> set ps" "pa_id q = pa_id p" for q
    using same[OF that] assms(3) by (simp add: person_key_def write_participant_def)
  have id: "pa_id (write_participant r q) = pa_id q" for q by simp
  show "map (\<lambda>q. (pa_id q, person_key q)) (update_where (\<lambda>q. pa_id q = pa_id p) (write_participant r) ps) =
      map (\<lambda>q. (pa_id q, person_key q)) ps"
    using key id by (simp add: update_where_def)
  have "row_at person_key k (map (\<lambda>q. if pa_id q = pa_id p then write_participant r q else q) qs) =
      map_option (\<lambda>q. if pa_id q = pa_id p then write_participant r q else q) (row_at person_key k qs)"
    if "set qs \<subseteq> set ps" for qs
    using that key by (induction qs) auto
  then have "row_at person_key k (update_where (\<lambda>q. pa_id q = pa_id p) (write_participant r) ps) =
      map_option (\<lambda>q. if pa_id q = pa_id p then write_participant r q else q) (row_at person_key k ps)"
    by (simp add: update_where_def)
  moreover have "row_at person_key (e, cr_bib_lookup r) ps = Some p"
    using row_at_unique[of person_key ps p] assms by (simp add: roster_ok_def)
  moreover have "pa_id q \<noteq> pa_id p" if "row_at person_key k ps = Some q" "k \<noteq> (e, cr_bib_lookup r)" for q
    using same row_at_Some_iff[OF that(1)] that(2) assms(3) by auto
  ultimately show "row_at person_key k (update_where (\<lambda>q. pa_id q = pa_id p) (write_participant r) ps) =
      (if k = (e, cr_bib_lookup r) then Some (write_participant r p) else row_at person_key k ps)"
    by (cases "row_at person_key k ps") auto
qed

section \<open>The import\<close>

text \<open>The loop after some entries, from the table it started with.\<close>

definition new_bibs :: "uuid \<Rightarrow> participant list \<Rightarrow> (str \<times> cleaned_row) list \<Rightarrow> str list" where
  "new_bibs e ps0 entries = filter (\<lambda>b. row_at person_key (e, b) ps0 = None) (map fst entries)"

definition imported :: "(str \<Rightarrow> uuid) \<Rightarrow> uuid \<Rightarrow> participant list \<Rightarrow> (str \<times> cleaned_row) list \<Rightarrow>
    int \<times> int \<times> participant list \<Rightarrow> bool" where
  "imported ids e ps0 entries acc \<longleftrightarrow> (case acc of (inserted, updated, ps) \<Rightarrow>
     map (\<lambda>q. (pa_id q, person_key q)) ps =
       map (\<lambda>q. (pa_id q, person_key q)) ps0 @ map (\<lambda>b. (ids b, (e, b))) (new_bibs e ps0 entries) \<and>
     inserted = int (length (new_bibs e ps0 entries)) \<and> 0 \<le> updated \<and> inserted + updated \<le> int (length entries) \<and>
     (\<forall>b r. (b, r) \<in> set entries \<longrightarrow> (\<exists>q. row_at person_key (e, b) ps = Some q \<and>
        pa_bib_number q = cr_bib_number r \<and> pa_full_name q = cr_full_name r)) \<and>
     (\<forall>k. k \<notin> Pair e ` fst ` set entries \<longrightarrow> row_at person_key k ps = row_at person_key k ps0))"

lemma importedI:
  assumes "map (\<lambda>q. (pa_id q, person_key q)) ps =
      map (\<lambda>q. (pa_id q, person_key q)) ps0 @ map (\<lambda>b. (ids b, (e, b))) (new_bibs e ps0 entries)"
    and "i = int (length (new_bibs e ps0 entries))" "0 \<le> u" "i + u \<le> int (length entries)"
    and "\<And>b r. (b, r) \<in> set entries \<Longrightarrow> \<exists>q. row_at person_key (e, b) ps = Some q \<and>
      pa_bib_number q = cr_bib_number r \<and> pa_full_name q = cr_full_name r"
    and "\<And>k. k \<notin> Pair e ` fst ` set entries \<Longrightarrow> row_at person_key k ps = row_at person_key k ps0"
  shows "imported ids e ps0 entries (i, u, ps)"
  unfolding imported_def prod.case using assms by blast

lemma importedD:
  assumes "imported ids e ps0 entries (i, u, ps)"
  shows "map (\<lambda>q. (pa_id q, person_key q)) ps =
      map (\<lambda>q. (pa_id q, person_key q)) ps0 @ map (\<lambda>b. (ids b, (e, b))) (new_bibs e ps0 entries)"
    and "i = int (length (new_bibs e ps0 entries))" "0 \<le> u" "i + u \<le> int (length entries)"
    and "(b, r) \<in> set entries \<Longrightarrow> \<exists>q. row_at person_key (e, b) ps = Some q \<and>
      pa_bib_number q = cr_bib_number r \<and> pa_full_name q = cr_full_name r"
    and "k \<notin> Pair e ` fst ` set entries \<Longrightarrow> row_at person_key k ps = row_at person_key k ps0"
  using assms unfolding imported_def prod.case by blast+

lemma roster_ok_imported:
  assumes "imported ids e ps0 entries (i, u, ps)" "roster_ok ps0" "distinct (map fst entries)"
    and "inj_on ids (fst ` set entries)" "ids ` fst ` set entries \<inter> pa_id ` set ps0 = {}"
  shows "roster_ok ps"
proof -
  let ?news = "filter (\<lambda>b. row_at person_key (e, b) ps0 = None) (map fst entries)"
  have eq: "map (\<lambda>q. (pa_id q, person_key q)) ps =
      map (\<lambda>q. (pa_id q, person_key q)) ps0 @ map (\<lambda>b. (ids b, (e, b))) ?news"
    using importedD(1)[OF assms(1)] by (simp only: new_bibs_def)
  have "map pa_id ps = map fst (map (\<lambda>q. (pa_id q, person_key q)) ps)" by simp
  also have "\<dots> = map pa_id ps0 @ map ids ?news" unfolding eq by (simp add: comp_def)
  finally have ids: "map pa_id ps = map pa_id ps0 @ map ids ?news" .
  have "map person_key ps = map snd (map (\<lambda>q. (pa_id q, person_key q)) ps)" by simp
  also have "\<dots> = map person_key ps0 @ map (Pair e) ?news" unfolding eq by (simp add: comp_def)
  finally have keys: "map person_key ps = map person_key ps0 @ map (Pair e) ?news" .
  have dn: "distinct ?news" using assms(3) by simp
  have sub: "set ?news \<subseteq> fst ` set entries" by auto
  have "distinct (map ids ?news)" using dn inj_on_subset[OF assms(4) sub] by (simp add: distinct_map)
  moreover have "ids ` set ?news \<inter> pa_id ` set ps0 = {}" using assms(5) sub by blast
  ultimately have 1: "distinct (map pa_id ps)" unfolding ids using assms(2) by (auto simp: roster_ok_def)
  have "distinct (map (Pair e) ?news)" using dn by (simp add: distinct_map inj_on_def)
  moreover have "Pair e ` set ?news \<inter> person_key ` set ps0 = {}" by (auto simp: row_at_None_iff)
  ultimately have "distinct (map person_key ps)" unfolding keys using assms(2) by (auto simp: roster_ok_def)
  with 1 show ?thesis by (simp add: roster_ok_def)
qed

lemma import_step:
  assumes inv: "imported ids e ps0 done_rows acc" and ok: "roster_ok ps0"
    and ent: "distinct (map fst (done_rows @ [(b, r)]))" and b: "cr_bib_lookup r = b"
    and ids: "inj_on ids (fst ` set (done_rows @ [(b, r)]))" "ids ` fst ` set (done_rows @ [(b, r)]) \<inter> pa_id ` set ps0 = {}"
    and ex: "existing b = row_at person_key (e, b) ps0"
  shows "imported ids e ps0 (done_rows @ [(b, r)]) (import_row now ids e existing acc (b, r))"
proof -
  obtain i u ps where acc: "acc = (i, u, ps)" by (metis prod_cases3)
  have inv': "imported ids e ps0 done_rows (i, u, ps)" using inv by (simp add: acc)
  have okps: "roster_ok ps"
    by (rule roster_ok_imported[OF inv' ok]) (use ent ids in \<open>auto dest: inj_on_subset\<close>)
  have new_b: "(e, b) \<notin> Pair e ` fst ` set done_rows" using ent by auto
  have no_b: "(b, r') \<notin> set done_rows" for r' using new_b by force
  have at_b: "row_at person_key (e, b) ps = row_at person_key (e, b) ps0"
    by (rule importedD(6)[OF inv' new_b])
  show ?thesis
  proof (cases "row_at person_key (e, b) ps0")
    case None
    let ?n = "new_participant now (ids b) e r"
    have n: "person_key ?n = (e, b)" "pa_id ?n = ids b" "pa_bib_number ?n = cr_bib_number r" "pa_full_name ?n = cr_full_name r"
      by (simp_all add: new_participant_def person_key_def b)
    have look: "row_at person_key k (ps @ [?n]) = (if k = (e, b) then Some ?n else row_at person_key k ps)" for k
      using at_b None n(1) by (cases "row_at person_key k ps") (auto simp: row_at_append)
    have step: "import_row now ids e existing acc (b, r) = (i + 1, u, ps @ [?n])"
      by (simp add: import_row_def acc ex None)
    show ?thesis
      unfolding step
    proof (rule importedI)
      show "map (\<lambda>q. (pa_id q, person_key q)) (ps @ [?n]) = map (\<lambda>q. (pa_id q, person_key q)) ps0 @
          map (\<lambda>b. (ids b, (e, b))) (new_bibs e ps0 (done_rows @ [(b, r)]))"
        using importedD(1)[OF inv'] None n by (simp add: new_bibs_def)
      show "i + 1 = int (length (new_bibs e ps0 (done_rows @ [(b, r)])))" "0 \<le> u"
        "i + 1 + u \<le> int (length (done_rows @ [(b, r)]))"
        using importedD(2-4)[OF inv'] None by (simp_all add: new_bibs_def)
      show "\<exists>q. row_at person_key (e, b') (ps @ [?n]) = Some q \<and> pa_bib_number q = cr_bib_number r' \<and>
          pa_full_name q = cr_full_name r'" if "(b', r') \<in> set (done_rows @ [(b, r)])" for b' r'
        using importedD(5)[OF inv', of b' r'] that no_b[of r'] n by (cases "b' = b") (auto simp: look)
      show "row_at person_key k (ps @ [?n]) = row_at person_key k ps0" if "k \<notin> Pair e ` fst ` set (done_rows @ [(b, r)])" for k
        using importedD(6)[OF inv', of k] that by (auto simp: look)
    qed
  next
    case (Some p)
    then have "p \<in> set ps" "person_key p = (e, b)" if "row_at person_key (e, b) ps = Some p" using that row_at_Some_iff by fastforce+
    with at_b Some have p: "p \<in> set ps" "person_key p = (e, cr_bib_lookup r)" by (simp_all add: b)
    note w = write_by_id[OF okps p]
    show ?thesis
    proof (cases "pa_full_name p \<noteq> cr_full_name r \<or> pa_bib_number p \<noteq> cr_bib_number r")
      case True
      have wr: "pa_bib_number (write_participant r p) = cr_bib_number r" "pa_full_name (write_participant r p) = cr_full_name r"
        by (simp_all add: write_participant_def)
      have step: "import_row now ids e existing acc (b, r) =
          (i, u + 1, update_where (\<lambda>q. pa_id q = pa_id p) (write_participant r) ps)"
        using True by (simp add: import_row_def acc ex Some)
      show ?thesis
        unfolding step
      proof (rule importedI)
        show "map (\<lambda>q. (pa_id q, person_key q)) (update_where (\<lambda>q. pa_id q = pa_id p) (write_participant r) ps) =
            map (\<lambda>q. (pa_id q, person_key q)) ps0 @ map (\<lambda>b. (ids b, (e, b))) (new_bibs e ps0 (done_rows @ [(b, r)]))"
          using importedD(1)[OF inv'] Some by (simp add: new_bibs_def w(1))
        show "i = int (length (new_bibs e ps0 (done_rows @ [(b, r)])))" "0 \<le> u + 1"
          "i + (u + 1) \<le> int (length (done_rows @ [(b, r)]))"
          using importedD(2-4)[OF inv'] Some by (simp_all add: new_bibs_def)
        show "\<exists>q. row_at person_key (e, b') (update_where (\<lambda>q. pa_id q = pa_id p) (write_participant r) ps) = Some q \<and>
            pa_bib_number q = cr_bib_number r' \<and> pa_full_name q = cr_full_name r'"
          if "(b', r') \<in> set (done_rows @ [(b, r)])" for b' r'
          using importedD(5)[OF inv', of b' r'] that no_b[of r'] wr by (cases "b' = b") (auto simp: w(2) b)
        show "row_at person_key k (update_where (\<lambda>q. pa_id q = pa_id p) (write_participant r) ps) = row_at person_key k ps0"
          if "k \<notin> Pair e ` fst ` set (done_rows @ [(b, r)])" for k
          using importedD(6)[OF inv', of k] that by (auto simp: w(2) b)
      qed
    next
      case False
      have step: "import_row now ids e existing acc (b, r) = (i, u, ps)"
        using False by (simp add: import_row_def acc ex Some)
      show ?thesis
        unfolding step
      proof (rule importedI)
        show "map (\<lambda>q. (pa_id q, person_key q)) ps = map (\<lambda>q. (pa_id q, person_key q)) ps0 @
            map (\<lambda>b. (ids b, (e, b))) (new_bibs e ps0 (done_rows @ [(b, r)]))"
          using importedD(1)[OF inv'] Some by (simp add: new_bibs_def)
        show "i = int (length (new_bibs e ps0 (done_rows @ [(b, r)])))" "0 \<le> u"
          "i + u \<le> int (length (done_rows @ [(b, r)]))"
          using importedD(2-4)[OF inv'] Some by (simp_all add: new_bibs_def)
        show "\<exists>q. row_at person_key (e, b') ps = Some q \<and> pa_bib_number q = cr_bib_number r' \<and>
            pa_full_name q = cr_full_name r'" if "(b', r') \<in> set (done_rows @ [(b, r)])" for b' r'
          using importedD(5)[OF inv', of b' r'] that no_b[of r'] False at_b Some by (cases "b' = b") auto
        show "row_at person_key k ps = row_at person_key k ps0" if "k \<notin> Pair e ` fst ` set (done_rows @ [(b, r)])" for k
          using importedD(6)[OF inv', of k] that by auto
      qed
    qed
  qed
qed

lemma foldl_imported:
  assumes "roster_ok ps0" "distinct (map fst entries)" "\<And>b r. (b, r) \<in> set entries \<Longrightarrow> cr_bib_lookup r = b"
    and "inj_on ids (fst ` set entries)" "ids ` fst ` set entries \<inter> pa_id ` set ps0 = {}"
    and "\<And>b. b \<in> fst ` set entries \<Longrightarrow> existing b = row_at person_key (e, b) ps0"
  shows "imported ids e ps0 entries (foldl (import_row now ids e existing) (0, 0, ps0) entries)"
  using assms(2-)
proof (induction entries rule: rev_induct)
  case Nil
  show ?case by (simp add: imported_def new_bibs_def)
next
  case (snoc x xs)
  obtain b r where x: "x = (b, r)" by (cases x)
  have sub: "fst ` set xs \<subseteq> fst ` set (xs @ [x])" by auto
  have "imported ids e ps0 xs (foldl (import_row now ids e existing) (0, 0, ps0) xs)"
  proof (rule snoc.IH)
    show "inj_on ids (fst ` set xs)" using inj_on_subset[OF snoc.prems(3) sub] .
    show "ids ` fst ` set xs \<inter> pa_id ` set ps0 = {}" using snoc.prems(4) sub by blast
  qed (use snoc.prems in auto)
  from import_step[OF this assms(1), of b r existing now] show ?case using snoc.prems by (simp add: x)
qed

lemma deduped_snoc: "deduped_by_bib (rows @ [r]) = AList.update (cr_bib_lookup r) r (deduped_by_bib rows)"
  by (simp add: deduped_by_bib_def)

lemma deduped_map_of: "map_of (deduped_by_bib rows) = map_of (rev (map (\<lambda>r. (cr_bib_lookup r, r)) rows))"
proof (induction rows rule: rev_induct)
  case Nil
  show ?case by (simp add: deduped_by_bib_def)
next
  case (snoc r rows)
  then show ?case by (simp add: deduped_snoc update_conv')
qed

lemma deduped_distinct: "distinct (map fst (deduped_by_bib rows))"
proof (induction rows rule: rev_induct)
  case Nil
  show ?case by (simp add: deduped_by_bib_def)
next
  case (snoc r rows)
  then show ?case by (simp add: deduped_snoc distinct_update)
qed

lemma deduped_keys: "fst ` set (deduped_by_bib rows) = cr_bib_lookup ` set rows"
  using arg_cong[OF deduped_map_of[of rows], of dom] by (simp add: dom_map_of_conv_image_fst image_image)

lemma deduped_key: "(b, r) \<in> set (deduped_by_bib rows) \<Longrightarrow> cr_bib_lookup r = b"
  using map_of_is_SomeI[OF deduped_distinct, of b r rows] map_of_SomeD[of _ b r]
  by (fastforce simp: deduped_map_of)

lemma deduped_length: "length (deduped_by_bib rows) \<le> length rows"
proof -
  have "length (deduped_by_bib rows) = card (fst ` set (deduped_by_bib rows))"
    using distinct_card[OF deduped_distinct, of rows] by simp
  also have "\<dots> \<le> card (set rows)" by (simp add: deduped_keys card_image_le)
  also have "\<dots> \<le> length rows" by (rule card_length)
  finally show ?thesis .
qed

lemma existing_is_row_at:
  assumes "roster_ok (participants d)" "b \<in> cr_bib_lookup ` set rows"
  shows "existing_by_bib d e rows b = row_at person_key (e, b) (participants d)"
proof (rule option.expand)
  let ?ps = "filter (\<lambda>p. pa_event_id p = e \<and> pa_bib_lookup p \<in> cr_bib_lookup ` set rows) (participants d)"
  have none: "(existing_by_bib d e rows b = None) = (row_at person_key (e, b) (participants d) = None)"
    using assms(2) by (force simp: existing_by_bib_def map_of_eq_None_iff row_at_None_iff person_key_def image_image)
  then show "(existing_by_bib d e rows b = None) = (row_at person_key (e, b) (participants d) = None)" .
  show "the (existing_by_bib d e rows b) = the (row_at person_key (e, b) (participants d))"
    if some: "existing_by_bib d e rows b \<noteq> None"
  proof -
    obtain p where p: "existing_by_bib d e rows b = Some p" using some by blast
    then have "p \<in> set (participants d)" "person_key p = (e, b)"
      by (auto simp: existing_by_bib_def person_key_def dest!: map_of_SomeD)
    then have "row_at person_key (e, b) (participants d) = Some p"
      using row_at_unique[of person_key "participants d" p] assms(1) by (simp add: roster_ok_def)
    with p show ?thesis by simp
  qed
qed

text \<open>What a file says: the last accepted row of each bib.\<close>

definition sheet :: "(str \<times> str) list \<Rightarrow> str \<rightharpoonup> str \<times> str" where
  "sheet rows = map_of (rev (map (\<lambda>r. (cr_bib_lookup r, (cr_bib_number r, cr_full_name r))) (List.map_filter clean_row rows)))"

lemma sheet_deduped:
  "sheet rows b = map_option (\<lambda>r. (cr_bib_number r, cr_full_name r)) (map_of (deduped_by_bib (List.map_filter clean_row rows)) b)"
proof -
  have "map_of (map (\<lambda>r. (cr_bib_lookup r, (cr_bib_number r, cr_full_name r))) rs) b =
      map_option (\<lambda>r. (cr_bib_number r, cr_full_name r)) (map_of (map (\<lambda>r. (cr_bib_lookup r, r)) rs) b)" for rs
    by (induction rs) auto
  then show ?thesis unfolding sheet_def deduped_map_of rev_map by blast
qed

lemma imported_roster:
  assumes i: "imported ids e ps0 (deduped_by_bib (List.map_filter clean_row rows)) (n, u, ps)"
  shows "roster e' ps = (if e' = e then roster e ps0 ++ sheet rows else roster e' ps0)"
proof (rule ext)
  let ?es = "deduped_by_bib (List.map_filter clean_row rows)"
  fix b
  show "roster e' ps b = (if e' = e then roster e ps0 ++ sheet rows else roster e' ps0) b"
  proof (cases "e' = e \<and> b \<in> fst ` set ?es")
    case True
    then obtain r where m: "map_of ?es b = Some r" by (metis map_of_eq_None_iff not_None_eq)
    obtain q where "row_at person_key (e, b) ps = Some q" "pa_bib_number q = cr_bib_number r" "pa_full_name q = cr_full_name r"
      using importedD(5)[OF i map_of_SomeD[OF m]] by blast
    with True m show ?thesis by (simp add: roster_def sheet_deduped map_add_def)
  next
    case False
    then have "(e', b) \<notin> Pair e ` fst ` set ?es" by auto
    from importedD(6)[OF i this] have r: "roster e' ps b = roster e' ps0 b" by (simp add: roster_def)
    have "sheet rows b = None" if "e' = e"
      using False that by (simp add: sheet_deduped map_of_eq_None_iff)
    with r show ?thesis by (simp add: map_add_def)
  qed
qed

text \<open>C12 (refinement): an import of participants.  On the table the import is the update of a map: afterwards the
  event's roster is what it was, overridden by the last accepted row of each bib of the file, and no other event
  changes.  The rows keep one id each and one row per bib of an event, and the numbers shown account for every
  row of the file.\<close>

theorem participants_imported:
  assumes "roster_ok (participants d)"
    and "inj_on ids (cr_bib_lookup ` set (List.map_filter clean_row rows))"
    and "ids ` cr_bib_lookup ` set (List.map_filter clean_row rows) \<inter> pa_id ` set (participants d) = {}"
  shows "case upsert_participants now ids e rows (open_session d) of (res, s) \<Rightarrow>
    (\<forall>e'. roster e' (participants (committed s)) =
       (if e' = e then roster e (participants d) ++ sheet rows else roster e' (participants d))) \<and>
    roster_ok (participants (committed s)) \<and>
    pr_processed_rows res + pr_skipped_rows res = int (length rows) \<and>
    0 \<le> pr_inserted_rows res \<and> 0 \<le> pr_updated_rows res \<and>
    pr_inserted_rows res + pr_updated_rows res \<le> pr_processed_rows res"
proof -
  let ?rs = "List.map_filter clean_row rows"
  let ?es = "deduped_by_bib ?rs"
  have len: "length ?rs \<le> length rows" "length ?es \<le> length ?rs"
    by (rule length_map_filter, rule deduped_length)
  show ?thesis
  proof (cases "?rs = []")
    case True
    then have "sheet rows = Map.empty" by (simp add: sheet_def)
    with True assms(1) show ?thesis by (simp add: upsert_participants_def Let_def)
  next
    case False
    obtain n u ps where f: "foldl (import_row now ids e (existing_by_bib d e ?rs)) (0, 0, participants d) ?es = (n, u, ps)"
      by (metis prod_cases3)
    have i: "imported ids e (participants d) ?es (n, u, ps)"
      unfolding f[symmetric]
      by (rule foldl_imported[OF assms(1) deduped_distinct])
        (use assms(2,3) in \<open>auto simp: deduped_keys deduped_key existing_is_row_at[OF assms(1)]\<close>)
    have ok: "roster_ok ps"
      by (rule roster_ok_imported[OF i assms(1) deduped_distinct]) (use assms(2,3) in \<open>simp_all add: deduped_keys\<close>)
    have n: "0 \<le> n" "0 \<le> u" "n + u \<le> int (length ?es)" using importedD(2-4)[OF i] by simp_all
    have up: "upsert_participants now ids e rows (open_session d) =
        (\<lparr>pr_processed_rows = int (length ?es), pr_inserted_rows = n, pr_updated_rows = u,
          pr_skipped_rows = int (length rows - length ?rs) + int (length ?rs - length ?es)\<rparr>,
         commit (orm (\<lambda>d. d\<lparr>participants := ps\<rparr>) (open_session d)))"
      using False f by (simp add: upsert_participants_def Let_def)
    show ?thesis using imported_roster[OF i] ok n len by (simp add: up)
  qed
qed

lemma participants_imported_witness:
  "case upsert_participants 5 (\<lambda>b. of_nat (length b)) 0 [(''12'', ''Ann''), ('''', ''Bob''), (''12'', ''Eve'')] (open_session empty_db) of
     (res, s) \<Rightarrow> roster 0 (participants (committed s)) =
       sheet [(''12'', ''Ann''), ('''', ''Bob''), (''12'', ''Eve'')] \<and> pr_processed_rows res + pr_skipped_rows res = 3"
proof -
  let ?rows = "[(''12'', ''Ann''), ('''', ''Bob''), (''12'', ''Eve'')]"
  have c: "cr_bib_lookup ` set (List.map_filter clean_row ?rows) = {''12''}" by code_simp
  have e: "participants empty_db = []" "roster_ok []" "roster 0 [] = Map.empty"
    by (simp_all add: empty_db_def roster_ok_def roster_def fun_eq_iff)
  note i = participants_imported[of empty_db "\<lambda>b. of_nat (length b)" ?rows 0 5, unfolded c e(1)]
  show ?thesis using i[OF e(2)] by (auto simp: e(3) split: prod.splits)
qed

section \<open>The lock of the administration\<close>

text \<open>The visits of administrators, each the time and the session, and the ones that were let in.\<close>

fun admitted :: "(time \<times> str) list \<Rightarrow> db \<Rightarrow> (time \<times> str) list" where
  "admitted [] d = []"
| "admitted ((now, sid) # visits) d =
    (case acquire_admin_lock now sid d of (ok, d') \<Rightarrow> (if ok then [(now, sid)] else []) @ admitted visits d')"

lemma admitted_subset: "set (admitted visits d) \<subseteq> set visits"
  by (induction visits d rule: admitted.induct) (auto split: prod.splits if_splits)

lemma acquire_cases:
  obtains (granted) d' where "acquire_admin_lock now sid d = (True, d')"
      "row_at lk_id ADMIN_LOCK_ID (admin_locks d') =
        Some \<lparr>lk_id = ADMIN_LOCK_ID, lk_session_id = sid, lk_last_seen_at = now\<rparr>"
      "\<And>l. row_at lk_id ADMIN_LOCK_ID (admin_locks d) = Some l \<Longrightarrow>
        lk_session_id l = sid \<or> lk_last_seen_at l + ADMIN_SESSION_TTL < now"
  | (refused) l where "acquire_admin_lock now sid d = (False, d)"
      "row_at lk_id ADMIN_LOCK_ID (admin_locks d) = Some l" "lk_session_id l \<noteq> sid"
      "now \<le> lk_last_seen_at l + ADMIN_SESSION_TTL"
proof (cases "row_at lk_id ADMIN_LOCK_ID (admin_locks d)")
  case None
  then show ?thesis using granted by (simp add: acquire_admin_lock_def row_at_append)
next
  case (Some l)
  show ?thesis
  proof (cases "lk_session_id l = sid \<or> lk_last_seen_at l < now - ADMIN_SESSION_TTL")
    case True
    let ?d = "d\<lparr>admin_locks := update_where (\<lambda>l. lk_id l = ADMIN_LOCK_ID)
        (\<lambda>l. l\<lparr>lk_session_id := sid, lk_last_seen_at := now\<rparr>) (admin_locks d)\<rparr>"
    have i: "lk_id l = ADMIN_LOCK_ID" using row_at_Some_iff[OF Some] by simp
    show ?thesis
    proof (rule granted)
      show "acquire_admin_lock now sid d = (True, ?d)" using Some True by (simp add: acquire_admin_lock_def)
      show "row_at lk_id ADMIN_LOCK_ID (admin_locks ?d) =
          Some \<lparr>lk_id = ADMIN_LOCK_ID, lk_session_id = sid, lk_last_seen_at = now\<rparr>"
        using Some i by (simp add: row_at_update_where)
      show "lk_session_id l' = sid \<or> lk_last_seen_at l' + ADMIN_SESSION_TTL < now"
        if "row_at lk_id ADMIN_LOCK_ID (admin_locks d) = Some l'" for l'
        using that Some True by auto
    qed
  next
    case False
    then show ?thesis using refused Some by (simp add: acquire_admin_lock_def)
  qed
qed

lemma admitted_after:
  assumes "row_at lk_id ADMIN_LOCK_ID (admin_locks d) = Some l" "sorted (lk_last_seen_at l # map fst visits)"
    and "(t, y) \<in> set (admitted visits d)"
  shows "lk_session_id l = y \<or> lk_last_seen_at l + ADMIN_SESSION_TTL < t"
  using assms
proof (induction visits arbitrary: d l)
  case (Cons v visits)
  obtain now sid where v: "v = (now, sid)" by (cases v)
  show ?case
  proof (cases rule: acquire_cases[of now sid d])
    case (granted d')
    have l: "lk_session_id l = sid \<or> lk_last_seen_at l + ADMIN_SESSION_TTL < now" by (rule granted(3)[OF Cons.prems(1)])
    show ?thesis
    proof (cases "(t, y) = (now, sid)")
      case True
      with l show ?thesis by simp
    next
      case False
      then have m: "(t, y) \<in> set (admitted visits d')" using Cons.prems(3) granted(1) by (auto simp: v)
      have "sid = y \<or> now + ADMIN_SESSION_TTL < t" using Cons.IH[OF granted(2) _ m] Cons.prems(2) by (simp add: v)
      moreover have "(t, y) \<in> set visits" using m admitted_subset by blast
      then have "now \<le> t" "lk_last_seen_at l \<le> now" using Cons.prems(2) by (auto simp: v)
      ultimately show ?thesis using l by auto
    qed
  next
    case (refused l')
    with Cons show ?thesis by (simp add: v)
  qed
qed simp

text \<open>The lock of the administration.  Whatever administrators visit, two visits of different
  sessions are both let in only when more than the lock's thirty minutes lie between them: at any moment at
  most one administrator works.\<close>

theorem admin_lock_exclusive:
  assumes "sorted (map fst visits)"
  shows "sorted_wrt (\<lambda>a b. snd a = snd b \<or> fst a + ADMIN_SESSION_TTL < fst b) (admitted visits d)"
  using assms
proof (induction visits arbitrary: d)
  case (Cons v visits)
  obtain now sid where v: "v = (now, sid)" by (cases v)
  show ?case
  proof (cases rule: acquire_cases[of now sid d])
    case (granted d')
    have "sid = y \<or> now + ADMIN_SESSION_TTL < t" if "(t, y) \<in> set (admitted visits d')" for t y
      using admitted_after[OF granted(2) _ that] Cons.prems by (simp add: v)
    moreover have "sorted_wrt (\<lambda>a b. snd a = snd b \<or> fst a + ADMIN_SESSION_TTL < fst b) (admitted visits d')"
      using Cons by simp
    ultimately show ?thesis using granted(1) by (auto simp: v)
  next
    case (refused l)
    with Cons show ?thesis by (simp add: v)
  qed
qed simp

lemma admin_lock_exclusive_witness:
  "sorted_wrt (\<lambda>a b. snd a = snd b \<or> fst a + ADMIN_SESSION_TTL < fst b)
     (admitted [(0, ''a''), (seconds 60, ''b''), (seconds 100, ''a''), (seconds 2000, ''b'')] empty_db) \<and>
   admitted [(0, ''a''), (seconds 60, ''b''), (seconds 100, ''a''), (seconds 2000, ''b'')] empty_db =
     [(0, ''a''), (seconds 100, ''a''), (seconds 2000, ''b'')]"
proof -
  have v: "admitted [(0, ''a''), (seconds 60, ''b''), (seconds 100, ''a''), (seconds 2000, ''b'')] empty_db =
     [(0, ''a''), (seconds 100, ''a''), (seconds 2000, ''b'')]" by code_simp
  have "sorted (map fst [(0, ''a''), (seconds 60, ''b''), (seconds 100, ''a''), (seconds 2000, ''b'')])" by code_simp
  from admin_lock_exclusive[OF this, of empty_db] v show ?thesis by simp
qed

end
