(* ===== verification/CsvReader.thy ===== *)
theory CsvReader
  imports TextFormat
begin

text \<open>
  The part of Python's \<^verbatim>\<open>csv\<close> module that reading the participant files relies on: the state machine of the
  reader in its default dialect (comma, double quotes doubled inside a quoted field, not strict), and the lines
  of an \<^verbatim>\<open>io.StringIO\<close>.  The facts: a record is never read twice, and a table written with quotes reads back
  as it was.
\<close>

section \<open>Lines\<close>

text \<open>The lines of a \<^verbatim>\<open>StringIO\<close>, which end after a line feed and nowhere else.\<close>

fun split_lines :: "str \<Rightarrow> str list" where
  "split_lines [] = []"
| "split_lines (c # s) =
    (if c = CHR 0x0A then [c] # split_lines s
     else case split_lines s of [] \<Rightarrow> [[c]] | l # ls \<Rightarrow> (c # l) # ls)"

section \<open>The state machine\<close>

datatype csv_state = StartRecord | StartField | InField | InQuotedField | QuoteInQuotedField | EatCrnl

record csv_reader =
  rd_state :: csv_state
  rd_field :: str
  rd_fields :: "str list"

definition parse_reset :: csv_reader where
  "parse_reset = \<lparr>rd_state = StartRecord, rd_field = [], rd_fields = []\<rparr>"

definition field_limit :: nat where "field_limit = 131072"

definition parse_add_char :: "csv_state \<Rightarrow> char \<Rightarrow> csv_reader \<Rightarrow> csv_reader result" where
  "parse_add_char st c r =
    (if field_limit \<le> length (rd_field r) then Inl (CsvError ''field larger than field limit (131072)'')
     else Inr (r\<lparr>rd_field := rd_field r @ [c], rd_state := st\<rparr>))"

definition parse_save_field :: "csv_state \<Rightarrow> csv_reader \<Rightarrow> csv_reader" where
  "parse_save_field st r = r\<lparr>rd_fields := rd_fields r @ [rd_field r], rd_field := [], rd_state := st\<rparr>"

definition newline :: "char \<Rightarrow> bool" where
  "newline c \<longleftrightarrow> c = CHR 0x0A \<or> c = CHR 0x0D"

definition quotechar :: char where "quotechar = CHR 0x22"

definition delimiter :: char where "delimiter = CHR 0x2C"

text \<open>The end of a line is \<^term>\<open>None\<close>.\<close>

definition end_of_field :: "char option \<Rightarrow> csv_reader \<Rightarrow> csv_reader" where
  "end_of_field c r = parse_save_field (if c = None then StartRecord else EatCrnl) r"

definition start_field :: "char option \<Rightarrow> csv_reader \<Rightarrow> csv_reader result" where
  "start_field c r = (case c of
     None \<Rightarrow> Inr (end_of_field c r)
   | Some x \<Rightarrow>
       if newline x then Inr (end_of_field c r)
       else if x = quotechar then Inr (r\<lparr>rd_state := InQuotedField\<rparr>)
       else if x = delimiter then Inr (parse_save_field StartField r)
       else parse_add_char InField x r)"

definition parse_process_char :: "char option \<Rightarrow> csv_reader \<Rightarrow> csv_reader result" where
  "parse_process_char c r = (case rd_state r of
     StartRecord \<Rightarrow>
       (case c of None \<Rightarrow> Inr r
        | Some x \<Rightarrow> if newline x then Inr (r\<lparr>rd_state := EatCrnl\<rparr>) else start_field c r)
   | StartField \<Rightarrow> start_field c r
   | InField \<Rightarrow>
       (case c of None \<Rightarrow> Inr (end_of_field c r)
        | Some x \<Rightarrow>
            if newline x then Inr (end_of_field c r)
            else if x = delimiter then Inr (parse_save_field StartField r)
            else parse_add_char InField x r)
   | InQuotedField \<Rightarrow>
       (case c of None \<Rightarrow> Inr r
        | Some x \<Rightarrow> if x = quotechar then Inr (r\<lparr>rd_state := QuoteInQuotedField\<rparr>) else parse_add_char InQuotedField x r)
   | QuoteInQuotedField \<Rightarrow>
       (case c of None \<Rightarrow> Inr (end_of_field c r)
        | Some x \<Rightarrow>
            if x = quotechar then parse_add_char InQuotedField x r
            else if x = delimiter then Inr (parse_save_field StartField r)
            else if newline x then Inr (end_of_field c r)
            else parse_add_char InField x r)
   | EatCrnl \<Rightarrow>
       (case c of None \<Rightarrow> Inr (r\<lparr>rd_state := StartRecord\<rparr>)
        | Some x \<Rightarrow>
            if newline x then Inr r
            else Inl (CsvError (''new-line character seen in unquoted field - do you need to open the file with newline='' @
              [CHR 0x27, CHR 0x27, CHR 0x3F]))))"

fun parse_chars :: "char option list \<Rightarrow> csv_reader \<Rightarrow> csv_reader result" where
  "parse_chars [] r = Inr r"
| "parse_chars (c # cs) r = (case parse_process_char c r of Inl e \<Rightarrow> Inl e | Inr r' \<Rightarrow> parse_chars cs r')"

definition parse_line :: "str \<Rightarrow> csv_reader \<Rightarrow> csv_reader result" where
  "parse_line line r = parse_chars (map Some line @ [None]) r"

text \<open>\<^verbatim>\<open>next(reader)\<close>: the next record with the lines left, or \<^term>\<open>None\<close> at the end of the file.\<close>

fun read_record :: "str list \<Rightarrow> csv_reader \<Rightarrow> (str list \<times> str list) option result" where
  "read_record [] r =
    Inr (if rd_field r \<noteq> [] \<or> rd_state r = InQuotedField
         then Some (rd_fields (parse_save_field StartRecord r), []) else None)"
| "read_record (line # lines) r =
    (case parse_line line r of
       Inl e \<Rightarrow> Inl e
     | Inr r' \<Rightarrow> if rd_state r' = StartRecord then Inr (Some (rd_fields r', lines)) else read_record lines r')"

definition next_record :: "str list \<Rightarrow> (str list \<times> str list) option result" where
  "next_record lines = read_record lines parse_reset"

lemma read_record_length: "read_record lines r = Inr (Some (fs, rest)) \<Longrightarrow> length rest \<le> length lines"
proof (induction lines arbitrary: r)
  case (Cons l ls)
  then show ?case by (fastforce split: sum.splits if_splits)
qed (simp split: if_splits)

lemma next_record_shorter: "next_record lines = Inr (Some (fs, rest)) \<Longrightarrow> length rest < length lines"
  by (cases lines) (auto simp: next_record_def parse_reset_def split: sum.splits if_splits dest!: read_record_length)

section \<open>Tables written with quotes\<close>

definition csv_quoted :: "str \<Rightarrow> str" where
  "csv_quoted s = [quotechar] @ concat (map (\<lambda>c. if c = quotechar then [c, c] else [c]) s) @ [quotechar]"

definition csv_line :: "str list \<Rightarrow> str" where
  "csv_line fs = join [delimiter] (map csv_quoted fs) @ [CHR 0x0D, CHR 0x0A]"

text \<open>The same reading on the text itself; \<^verbatim>\<open>mid\<close> says whether a line has begun.\<close>

fun text_record :: "bool \<Rightarrow> str \<Rightarrow> csv_reader \<Rightarrow> (str list \<times> str list) option result" where
  "text_record mid [] r =
    (if mid then (case parse_process_char None r of
         Inl e \<Rightarrow> Inl e
       | Inr r' \<Rightarrow> if rd_state r' = StartRecord then Inr (Some (rd_fields r', [])) else read_record [] r')
     else read_record [] r)"
| "text_record mid (c # s) r =
    (case parse_process_char (Some c) r of
       Inl e \<Rightarrow> Inl e
     | Inr r' \<Rightarrow>
         if c = CHR 0x0A
         then (case parse_process_char None r' of
             Inl e \<Rightarrow> Inl e
           | Inr r'' \<Rightarrow>
               if rd_state r'' = StartRecord then Inr (Some (rd_fields r'', split_lines s))
               else text_record False s r'')
         else text_record True s r')"

definition rest_record :: "str \<Rightarrow> csv_reader \<Rightarrow> (str list \<times> str list) option result" where
  "rest_record s r = (case split_lines s of
     [] \<Rightarrow> (case parse_process_char None r of
         Inl e \<Rightarrow> Inl e
       | Inr r' \<Rightarrow> if rd_state r' = StartRecord then Inr (Some (rd_fields r', [])) else read_record [] r')
   | l # ls \<Rightarrow> read_record (l # ls) r)"

lemma text_record_lines:
  "text_record False s r = read_record (split_lines s) r \<and> text_record True s r = rest_record s r"
proof (induction s arbitrary: r)
  case Nil
  show ?case by (simp add: rest_record_def)
next
  case (Cons c s)
  show ?case
  proof (cases "c = CHR 0x0A")
    case True
    then show ?thesis using Cons by (simp add: rest_record_def parse_line_def split: sum.splits)
  next
    case False
    then show ?thesis using Cons
      by (cases "split_lines s") (auto simp: rest_record_def parse_line_def split: sum.splits)
  qed
qed

lemma text_record_mid: "s \<noteq> [] \<Longrightarrow> text_record m s r = text_record m' s r"
  by (cases s) auto

lemma read_quoted:
  assumes "rd_state r = InQuotedField" "length (rd_field r) + length s \<le> field_limit" "t \<noteq> []"
  shows "text_record m (concat (map (\<lambda>c. if c = quotechar then [c, c] else [c]) s) @ t) r =
    text_record m t (r\<lparr>rd_field := rd_field r @ s\<rparr>)"
  using assms
proof (induction s arbitrary: r m)
  case (Cons c s)
  let ?r = "r\<lparr>rd_field := rd_field r @ [c]\<rparr>"
  have add: "parse_add_char InQuotedField c r' = Inr (r'\<lparr>rd_field := rd_field r' @ [c], rd_state := InQuotedField\<rparr>)"
    if "rd_field r' = rd_field r" for r'
    using Cons.prems(2) that by (simp add: parse_add_char_def)
  have st: "r\<lparr>rd_field := rd_field r @ [c], rd_state := InQuotedField\<rparr> = ?r" using Cons.prems(1) by (cases r) simp
  let ?u = "concat (map (\<lambda>c. if c = quotechar then [c, c] else [c]) s) @ t"
  have u: "?u \<noteq> []" using Cons.prems(3) by simp
  have "text_record m ((if c = quotechar then [c, c] else [c]) @ ?u) r = text_record m ?u ?r"
  proof (cases "c = quotechar")
    case True
    then show ?thesis
      using Cons.prems(1) add text_record_mid[OF u, where m = True and m' = m]
      by (simp add: parse_process_char_def quotechar_def) (cases r; simp)
  next
    case False
    then show ?thesis
      using Cons.prems(1) add[of r] st text_record_mid[OF u, where m = True and m' = m] text_record_mid[OF u, where m = False and m' = m]
      by (simp add: parse_process_char_def)
  qed
  also have "\<dots> = text_record m t (r\<lparr>rd_field := rd_field r @ c # s\<rparr>)"
    using Cons.IH[where r = ?r and m = m] Cons.prems by simp
  finally show ?case by simp
qed simp

lemma read_line:
  assumes "fs \<noteq> []" "list_all (\<lambda>f. length f \<le> field_limit) fs" "st = StartRecord \<or> st = StartField"
  shows "text_record m (csv_line fs @ t) \<lparr>rd_state = st, rd_field = [], rd_fields = acc\<rparr> =
    Inr (Some (acc @ fs, split_lines t))"
  using assms
proof (induction fs arbitrary: acc st m)
  case (Cons f fs)
  define u where "u = (if fs = [] then [CHR 0x0D, CHR 0x0A] else delimiter # csv_line fs) @ t"
  have u: "csv_line (f # fs) @ t = quotechar # concat (map (\<lambda>c. if c = quotechar then [c, c] else [c]) f) @ quotechar # u"
    by (cases fs) (simp_all add: csv_line_def csv_quoted_def u_def)
  have open_quote: "parse_process_char (Some quotechar) \<lparr>rd_state = st, rd_field = [], rd_fields = acc\<rparr> =
      Inr \<lparr>rd_state = InQuotedField, rd_field = [], rd_fields = acc\<rparr>"
    using Cons.prems(3) by (auto simp: parse_process_char_def start_field_def newline_def quotechar_def)
  have "text_record m (csv_line (f # fs) @ t) \<lparr>rd_state = st, rd_field = [], rd_fields = acc\<rparr> =
      text_record True (concat (map (\<lambda>c. if c = quotechar then [c, c] else [c]) f) @ quotechar # u)
        \<lparr>rd_state = InQuotedField, rd_field = [], rd_fields = acc\<rparr>"
    unfolding u text_record.simps open_quote by (simp add: quotechar_def)
  also have "\<dots> = text_record True (quotechar # u) \<lparr>rd_state = InQuotedField, rd_field = f, rd_fields = acc\<rparr>"
    using read_quoted[of "\<lparr>rd_state = InQuotedField, rd_field = [], rd_fields = acc\<rparr>" f "quotechar # u" True] Cons.prems(2)
    by simp
  also have "\<dots> = text_record True u \<lparr>rd_state = QuoteInQuotedField, rd_field = f, rd_fields = acc\<rparr>"
    by (simp add: parse_process_char_def quotechar_def)
  also have "\<dots> = Inr (Some (acc @ f # fs, split_lines t))"
  proof (cases "fs = []")
    case True
    then show ?thesis
      by (simp add: u_def parse_process_char_def quotechar_def delimiter_def newline_def end_of_field_def parse_save_field_def)
  next
    case False
    then show ?thesis
      using Cons.IH[of StartField True "acc @ [f]"] Cons.prems(2)
      by (simp add: u_def parse_process_char_def quotechar_def delimiter_def parse_save_field_def)
  qed
  finally show ?case .
qed simp

lemma next_record_line:
  assumes "fs \<noteq> []" "list_all (\<lambda>f. length f \<le> field_limit) fs"
  shows "next_record (split_lines (csv_line fs @ t)) = Inr (Some (fs, split_lines t))"
  using read_line[OF assms, of StartRecord False t "[]"] text_record_lines[of "csv_line fs @ t"]
  by (simp add: next_record_def parse_reset_def)

lemma next_record_end: "next_record [] = Inr None"
  by (simp add: next_record_def parse_reset_def)

end
