(* ===== verification/ParticipantFiles.thy ===== *)
theory ParticipantFiles
  imports Administration PhotoAdmin CsvReader
begin

text \<open>
  The participant files of \<^verbatim>\<open>admin.py\<close>: the header names and their aliases, a row as the file has it and the
  bib number and name it gives, the readers of CSV files and spreadsheets with their limits, and the import of
  a file as \<^verbatim>\<open>main.py\<close> runs it.

  \<^verbatim>\<open>HEADER_ALIASES\<close> maps to Python sets, so the order in which \<^verbatim>\<open>_read_value\<close> tries the aliases is the order
  of a set's iteration, which changes from process to process: it is the parameter \<^verbatim>\<open>aliases\<close>.  The ZIP
  directory of a spreadsheet and the rows \<^verbatim>\<open>openpyxl\<close> yields (each of them a row or the exception it raises)
  are parameters too, as is the decoding of text that is not ASCII.
\<close>

section \<open>Headers\<close>

datatype column = BibNumber | FullName | FirstName | LastName

fun HEADER_ALIASES :: "column \<Rightarrow> str set" where
  "HEADER_ALIASES BibNumber = {''bib'', ''bib_number'', ''bib_no'', ''bib_num'', ''bib_no.'', ''bib#'',
     ''bib_number.'', ''race_number'', ''runner_number'', ''number''}"
| "HEADER_ALIASES FullName = {''full_name'', ''name'', ''participant_name'', ''runner_name'', ''athlete_name''}"
| "HEADER_ALIASES FirstName = {''first_name'', ''firstname'', ''given_name''}"
| "HEADER_ALIASES LastName = {''last_name'', ''lastname'', ''surname'', ''family_name''}"

text \<open>An order of the aliases in which the sets may be walked.\<close>

definition alias_order :: "(column \<Rightarrow> str list) \<Rightarrow> bool" where
  "alias_order aliases \<longleftrightarrow> (\<forall>c. set (aliases c) = HEADER_ALIASES c \<and> distinct (aliases c))"

definition normalize_header :: "str \<Rightarrow> str" where
  "normalize_header value = sub_runs (\<lambda>c. \<not> is_space c \<and> c \<noteq> CHR ''-'') CHR ''_'' False (lower (strip value))"

section \<open>Rows\<close>

text \<open>What a cell of a row holds: nothing, a text, or the texts beyond the last column, whose key is
  \<^term>\<open>None\<close>.\<close>

datatype raw_value = NoValue | Text str | Texts "str list"

type_synonym raw_row = "(str option \<times> raw_value) list"

definition repr_char :: "char \<Rightarrow> char \<Rightarrow> str" where
  "repr_char q c =
    (if c = q \<or> c = CHR 0x5C then [CHR 0x5C, c]
     else if c = CHR 0x09 then [CHR 0x5C, CHR ''t'']
     else if c = CHR 0x0A then [CHR 0x5C, CHR ''n'']
     else if c = CHR 0x0D then [CHR 0x5C, CHR ''r'']
     else if char_code c < 32 \<or> char_code c = 127
     then [CHR 0x5C, CHR ''x'', digit_char (char_code c div 16), digit_char (char_code c mod 16)]
     else [c])"

definition py_repr :: "str \<Rightarrow> str" where
  "py_repr s = (let q = (if CHR 0x27 \<in> set s \<and> CHR 0x22 \<notin> set s then CHR 0x22 else CHR 0x27)
     in [q] @ concat (map (repr_char q) s) @ [q])"

text \<open>\<^verbatim>\<open>str(value or "")\<close>\<close>

fun value_text :: "raw_value \<Rightarrow> str" where
  "value_text NoValue = []"
| "value_text (Text s) = s"
| "value_text (Texts ss) = (if ss = [] then [] else ''['' @ join '', '' (map py_repr ss) @ '']'')"

fun normalize_cells :: "settings \<Rightarrow> raw_row \<Rightarrow> (str \<times> str) list \<Rightarrow> (str \<times> str) list result" where
  "normalize_cells cfg [] normalized = Inr normalized"
| "normalize_cells cfg ((key, value) # cells) normalized =
    (let cell = strip (value_text value)
     in if max_participant_cell_chars cfg < int (length cell)
        then Inl (ValueError ''A participant cell exceeds the configured length limit.'')
        else normalize_cells cfg cells (AList.update (normalize_header (or_text key [])) cell normalized))"

fun read_value :: "(str \<times> str) list \<Rightarrow> str list \<Rightarrow> str" where
  "read_value row [] = []"
| "read_value row (alias # aliases) =
    (case map_of row alias of
       None \<Rightarrow> read_value row aliases
     | Some v \<Rightarrow> if v \<noteq> [] then v else read_value row aliases)"

definition normalize_row :: "settings \<Rightarrow> (column \<Rightarrow> str list) \<Rightarrow> raw_row \<Rightarrow> (str \<times> str) result" where
  "normalize_row cfg aliases raw_row =
    (case normalize_cells cfg raw_row [] of
       Inl e \<Rightarrow> Inl e
     | Inr normalized \<Rightarrow>
         (let first_name = read_value normalized (aliases FirstName);
              last_name = read_value normalized (aliases LastName);
              full_name = read_value normalized (aliases FullName)
          in Inr (read_value normalized (aliases BibNumber),
                  if full_name = [] \<and> (first_name \<noteq> [] \<or> last_name \<noteq> [])
                  then strip (first_name @ '' '' @ last_name) else full_name)))"

section \<open>CSV files\<close>

text \<open>A row of a \<^verbatim>\<open>csv.DictReader\<close>.\<close>

definition dict_row :: "str list \<Rightarrow> str list \<Rightarrow> raw_row" where
  "dict_row names row =
    (let d = foldl (\<lambda>d (k, v). AList.update (Some k) (Text v) d) [] (zip names row)
     in if length names < length row then AList.update None (Texts (drop (length names) row)) d
        else foldl (\<lambda>d k. AList.update (Some k) NoValue d) d (drop (length row) names))"

function csv_rows :: "settings \<Rightarrow> (column \<Rightarrow> str list) \<Rightarrow> str list \<Rightarrow> int \<Rightarrow> str list \<Rightarrow> (str \<times> str) list result" where
  "csv_rows cfg aliases names index lines =
    (case next_record lines of
       Inl e \<Rightarrow> Inl e
     | Inr None \<Rightarrow> Inr []
     | Inr (Some (row, rest)) \<Rightarrow>
         if row = [] then csv_rows cfg aliases names index rest
         else if max_participant_rows cfg < index then Inl (ValueError ''Participant file has too many rows.'')
         else (case normalize_row cfg aliases (dict_row names row) of
                 Inl e \<Rightarrow> Inl e
               | Inr r \<Rightarrow>
                   (case csv_rows cfg aliases names (index + 1) rest of
                      Inl e \<Rightarrow> Inl e
                    | Inr rs \<Rightarrow> Inr (r # rs))))"
  by pat_completeness auto
termination
  by (relation "measure (\<lambda>(_, _, _, _, lines). length lines)") (auto dest: next_record_shorter)

declare csv_rows.simps [simp del]

text \<open>\<^verbatim>\<open>content.decode("utf-8-sig")\<close>: a byte order mark is dropped; \<^verbatim>\<open>wide\<close> decodes what is not ASCII.\<close>

definition decode_utf_8_sig :: "(byte list \<Rightarrow> str option) \<Rightarrow> byte list \<Rightarrow> str option" where
  "decode_utf_8_sig wide content =
    (let body = (if take 3 content = [0xEF, 0xBB, 0xBF] then drop 3 content else content)
     in if list_all (\<lambda>b. b < 128) body then Some (map (\<lambda>b. char_of (unat b)) body) else wide body)"

definition parse_csv :: "settings \<Rightarrow> (column \<Rightarrow> str list) \<Rightarrow> (byte list \<Rightarrow> str option) \<Rightarrow> byte list \<Rightarrow>
    (str \<times> str) list result" where
  "parse_csv cfg aliases wide content =
    (case decode_utf_8_sig wide content of
       None \<Rightarrow> Inl (ValueError ''CSV must be UTF-8 encoded.'')
     | Some contents \<Rightarrow>
         (case next_record (split_lines contents) of
            Inl e \<Rightarrow> Inl e
          | Inr None \<Rightarrow> Inl (ValueError ''CSV file is missing a header row.'')
          | Inr (Some (names, rest)) \<Rightarrow>
              if names = [] then Inl (ValueError ''CSV file is missing a header row.'')
              else if max_participant_columns cfg < int (length names)
              then Inl (ValueError ''Participant file has too many columns.'')
              else csv_rows cfg aliases names 1 rest))"

section \<open>Spreadsheets\<close>

text \<open>A cell as \<^verbatim>\<open>openpyxl\<close> gives it: empty, or whether its value is true with its \<^verbatim>\<open>str\<close>.\<close>

type_synonym cell = "(bool \<times> str) option"

definition cell_header :: "cell \<Rightarrow> str" where
  "cell_header c = normalize_header (case c of Some (True, s) \<Rightarrow> s | _ \<Rightarrow> [])"

definition cell_text :: "cell \<Rightarrow> str" where
  "cell_text c = (case c of None \<Rightarrow> [] | Some (_, s) \<Rightarrow> strip s)"

text \<open>The row as a dictionary of the headers; a row that is longer than the header row has no header for its
  last cells.\<close>

definition sheet_row :: "str list \<Rightarrow> cell list \<Rightarrow> raw_row result" where
  "sheet_row headers cells =
    (if length headers < length cells then Inl (IndexError ''list index out of range'')
     else Inr (foldl (\<lambda>d (k, v). AList.update (Some k) (Text (cell_text v)) d) [] (zip headers cells)))"

fun sheet_rows :: "settings \<Rightarrow> (column \<Rightarrow> str list) \<Rightarrow> str list \<Rightarrow> int \<Rightarrow> cell list result list \<Rightarrow>
    (str \<times> str) list result" where
  "sheet_rows cfg aliases headers row_index [] = Inr []"
| "sheet_rows cfg aliases headers row_index (Inl e # rows) = Inl e"
| "sheet_rows cfg aliases headers row_index (Inr cells # rows) =
    (if max_participant_rows cfg < row_index then Inl (ValueError ''Participant file has too many rows.'')
     else if max_participant_columns cfg < int (length cells)
     then Inl (ValueError ''Participant file has too many columns.'')
     else (case sheet_row headers cells of
             Inl e \<Rightarrow> Inl e
           | Inr row \<Rightarrow>
               (case normalize_row cfg aliases row of
                  Inl e \<Rightarrow> Inl e
                | Inr r \<Rightarrow>
                    (case sheet_rows cfg aliases headers (row_index + 1) rows of
                       Inl e \<Rightarrow> Inl e
                     | Inr rs \<Rightarrow> Inr (r # rs)))))"

text \<open>The directory of the archive, each entry with its two sizes; \<^term>\<open>None\<close> is a file that is no archive.
  The quotient of the two sums is compared in \<^verbatim>\<open>float\<close>s, which cannot round to 100 for sizes below the limit
  just tested.\<close>

definition check_archive :: "settings \<Rightarrow> (int \<times> int) list option \<Rightarrow> exn option" where
  "check_archive cfg entries = (case entries of
     None \<Rightarrow> Some (ValueError ''Spreadsheet is not a valid XLSX file.'')
   | Some es \<Rightarrow>
       if 2000 < length es then Some (ValueError ''Spreadsheet archive contains too many files.'')
       else
         let expanded_size = sum_list (map fst es); compressed_size = max 1 (sum_list (map snd es))
         in if max_spreadsheet_uncompressed_bytes cfg < expanded_size \<or> 100 * compressed_size < expanded_size
            then Some (ValueError ''Spreadsheet archive expands beyond the configured safety limit.'')
            else None)"

definition read_sheet :: "settings \<Rightarrow> (column \<Rightarrow> str list) \<Rightarrow> cell list result list \<Rightarrow> (str \<times> str) list result" where
  "read_sheet cfg aliases rows = (case rows of
     [] \<Rightarrow> Inl (ValueError ''Spreadsheet is empty.'')
   | Inl e # _ \<Rightarrow> Inl e
   | Inr first_row # rest \<Rightarrow>
       if max_participant_columns cfg < int (length first_row)
       then Inl (ValueError ''Participant file has too many columns.'')
       else
         let headers = map cell_header first_row
         in if list_all (\<lambda>h. h = []) headers then Inl (ValueError ''Spreadsheet is missing a header row.'')
            else sheet_rows cfg aliases headers 1 rest)"

definition parse_excel :: "settings \<Rightarrow> (column \<Rightarrow> str list) \<Rightarrow> (byte list \<Rightarrow> (int \<times> int) list option) \<Rightarrow>
    (byte list \<Rightarrow> cell list result list) \<Rightarrow> byte list \<Rightarrow> (str \<times> str) list result" where
  "parse_excel cfg aliases infolist workbook content =
    (case check_archive cfg (infolist content) of
       Some e \<Rightarrow> Inl e
     | None \<Rightarrow>
         (case read_sheet cfg aliases (workbook content) of
            Inl (OSError _) \<Rightarrow> Inl (ValueError ''Spreadsheet could not be parsed safely.'')
          | Inl (KeyError _) \<Rightarrow> Inl (ValueError ''Spreadsheet could not be parsed safely.'')
          | r \<Rightarrow> r))"

section \<open>Importing a file\<close>

text \<open>What the libraries supply.\<close>

record file_env =
  pf_aliases :: "column \<Rightarrow> str list"
  pf_wide :: "byte list \<Rightarrow> str option"
  pf_infolist :: "byte list \<Rightarrow> (int \<times> int) list option"
  pf_workbook :: "byte list \<Rightarrow> cell list result list"

definition file_extension :: "str \<Rightarrow> str" where
  "file_extension file_name =
    (case rpartition_at CHR ''.'' (lower file_name) of (_, found, extension) \<Rightarrow> if found then extension else [])"

definition parse_participant_file :: "settings \<Rightarrow> file_env \<Rightarrow> str \<Rightarrow> byte list \<Rightarrow> (str \<times> str) list result" where
  "parse_participant_file cfg env file_name content =
    (if content = [] then Inl (ValueError ''Participant upload is empty.'')
     else if max_participant_upload_bytes cfg < int (length content)
     then Inl (ValueError ''Participant upload exceeds the configured size limit.'')
     else
       let extension = file_extension file_name
       in if extension = ''csv'' then parse_csv cfg (pf_aliases env) (pf_wide env) content
          else if extension = ''xlsx'' \<or> extension = ''xlsm''
          then parse_excel cfg (pf_aliases env) (pf_infolist env) (pf_workbook env) content
          else Inl (ValueError ''Upload a CSV or XLSX file.''))"

definition import_participant_records :: "settings \<Rightarrow> file_env \<Rightarrow> time \<Rightarrow> (str \<Rightarrow> uuid) \<Rightarrow> uuid \<Rightarrow> str \<Rightarrow> byte list \<Rightarrow>
    session \<Rightarrow> (participant_upload_result \<times> session) result" where
  "import_participant_records cfg env now ids event_id file_name content s =
    (case parse_participant_file cfg env file_name content of
       Inl e \<Rightarrow> Inl e
     | Inr rows \<Rightarrow>
         (case upsert_participants now ids event_id rows s of
            (res, s1) \<Rightarrow> Inr (res, snd (rebuild_event_photo_matches now event_id s1))))"

end
