(* ===== verification/ParticipantFileFacts.thy ===== *)
theory ParticipantFileFacts
  imports ParticipantFiles AdministrationFacts
begin

text \<open>
  What reading a participant file promises: a table written as CSV reads back as it was, whatever stands in its
  cells; the rows a file gives are within the limits; and the order in which the aliases of a column are tried
  only matters for a row that fills two of them.
\<close>

section \<open>Aliases\<close>

lemma or_text_Some_Nil [simp]: "or_text (Some s) [] = s"
  by (simp add: or_text_def)

lemma read_value_Cons:
  "read_value row (a # as) =
    (if or_text (map_of row a) [] = [] then read_value row as else or_text (map_of row a) [])"
  by (auto simp: or_text_def split: option.splits)

lemma read_value_none: "(\<And>a. a \<in> set aliases \<Longrightarrow> or_text (map_of row a) [] = []) \<Longrightarrow> read_value row aliases = []"
  by (induction aliases) (simp_all add: read_value_Cons del: read_value.simps(2))

lemma read_value_one:
  assumes "h \<in> set aliases" "\<And>a. a \<in> set aliases \<Longrightarrow> a \<noteq> h \<Longrightarrow> or_text (map_of row a) [] = []"
  shows "read_value row aliases = or_text (map_of row h) []"
  using assms
proof (induction aliases)
  case (Cons x xs)
  show ?case
  proof (cases "h \<in> set xs")
    case True
    with Cons have "read_value row xs = or_text (map_of row h) []" by simp
    moreover have "x = h \<or> or_text (map_of row x) [] = []" using Cons.prems(2)[of x] by auto
    ultimately show ?thesis by (auto simp del: read_value.simps(2) simp: read_value_Cons)
  next
    case False
    with Cons.prems have "x = h" by simp
    moreover have "read_value row xs = []"
      using Cons.prems(2) False by (intro read_value_none) (metis list.set_intros(2))
    ultimately show ?thesis by (simp del: read_value.simps(2) add: read_value_Cons)
  qed
qed simp

text \<open>At most one alias of each column has a text in the row.\<close>

definition one_alias :: "(str \<times> str) list \<Rightarrow> bool" where
  "one_alias row \<longleftrightarrow> (\<forall>c. \<forall>a \<in> HEADER_ALIASES c. \<forall>b \<in> HEADER_ALIASES c.
     or_text (map_of row a) [] \<noteq> [] \<and> or_text (map_of row b) [] \<noteq> [] \<longrightarrow> a = b)"

lemma read_value_order:
  assumes "one_alias row" "alias_order as" "alias_order bs"
  shows "read_value row (as c) = read_value row (bs c)"
proof (cases "\<exists>h \<in> HEADER_ALIASES c. or_text (map_of row h) [] \<noteq> []")
  case True
  then obtain h where h: "h \<in> HEADER_ALIASES c" "or_text (map_of row h) [] \<noteq> []" by blast
  have other: "or_text (map_of row a) [] = []" if "a \<in> HEADER_ALIASES c" "a \<noteq> h" for a
    using assms(1) h that unfolding one_alias_def by blast
  have "read_value row (xs c) = or_text (map_of row h) []" if "alias_order xs" for xs
    using that h(1) other by (intro read_value_one) (simp_all add: alias_order_def)
  with assms(2,3) show ?thesis by simp
next
  case False
  then have "read_value row (xs c) = []" if "alias_order xs" for xs
    using that by (intro read_value_none) (simp add: alias_order_def)
  with assms(2,3) show ?thesis by simp
qed

section \<open>Writing a file\<close>

text \<open>A file with the columns \<^verbatim>\<open>bib\<close> and \<^verbatim>\<open>name\<close>, every cell in quotes.\<close>

definition participant_csv :: "(str \<times> str) list \<Rightarrow> str" where
  "participant_csv rows = csv_line [''bib'', ''name''] @ concat (map (\<lambda>(b, n). csv_line [b, n]) rows)"

definition cell_ok :: "settings \<Rightarrow> str \<Rightarrow> bool" where
  "cell_ok cfg s \<longleftrightarrow> strip s = s \<and> int (length s) \<le> max_participant_cell_chars cfg \<and> length s \<le> field_limit \<and>
     list_all (\<lambda>c. char_code c < 128) s"

lemma headers_normal: "normalize_header ''bib'' = ''bib''" "normalize_header ''name'' = ''name''"
  by code_simp+

lemma normalize_bib_name:
  assumes "alias_order aliases" "cell_ok cfg b" "cell_ok cfg n"
  shows "normalize_row cfg aliases (dict_row [''bib'', ''name''] [b, n]) = Inr (b, n)"
proof -
  let ?row = "[(''bib'', b), (''name'', n)]"
  have set: "set (aliases c) = HEADER_ALIASES c" for c using assms(1) by (simp add: alias_order_def)
  have cells: "normalize_cells cfg (dict_row [''bib'', ''name''] [b, n]) [] = Inr ?row"
    using assms(2,3) by (simp add: dict_row_def Let_def cell_ok_def headers_normal or_text_def)
  have absent: "or_text (map_of ?row a) [] = []" if "a \<noteq> ''bib''" "a \<noteq> ''name''" for a
    using that by (simp add: or_text_def)
  have keys: "''bib'' \<in> set (aliases BibNumber)" "''name'' \<notin> set (aliases BibNumber)"
    "''bib'' \<notin> set (aliases FullName)" "''name'' \<in> set (aliases FullName)"
    "''bib'' \<notin> set (aliases FirstName)" "''name'' \<notin> set (aliases FirstName)"
    "''bib'' \<notin> set (aliases LastName)" "''name'' \<notin> set (aliases LastName)"
    by (simp_all add: set)
  have none: "read_value ?row (aliases FirstName) = []" "read_value ?row (aliases LastName) = []"
    by (rule read_value_none, metis absent keys)+
  have bib: "read_value ?row (aliases BibNumber) = or_text (map_of ?row ''bib'') []"
    by (rule read_value_one) (use absent keys in metis)+
  have name: "read_value ?row (aliases FullName) = or_text (map_of ?row ''name'') []"
    by (rule read_value_one) (use absent keys in metis)+
  have texts: "or_text (map_of ?row ''bib'') [] = b" "or_text (map_of ?row ''name'') [] = n"
    by (simp_all add: or_text_def)
  show ?thesis by (simp add: normalize_row_def cells none bib name texts Let_def)
qed

lemma csv_rows_read_back:
  assumes "alias_order aliases" "list_all (\<lambda>(b, n). cell_ok cfg b \<and> cell_ok cfg n) rows"
    and "index + int (length rows) \<le> max_participant_rows cfg + 1"
  shows "csv_rows cfg aliases [''bib'', ''name''] index
    (split_lines (concat (map (\<lambda>(b, n). csv_line [b, n]) rows))) = Inr rows"
  using assms(2,3)
proof (induction rows arbitrary: index)
  case Nil
  show ?case by (subst csv_rows.simps) (simp add: next_record_end)
next
  case (Cons r rows)
  obtain b n where r: "r = (b, n)" by (cases r)
  have ok: "cell_ok cfg b" "cell_ok cfg n" using Cons.prems(1) by (simp_all add: r)
  have next_r: "next_record (split_lines (csv_line [b, n] @ t)) = Inr (Some ([b, n], split_lines t))" for t
    using ok by (intro next_record_line) (simp_all add: cell_ok_def)
  show ?case
    using Cons.IH[of "index + 1"] Cons.prems normalize_bib_name[OF assms(1) ok]
    by (subst csv_rows.simps) (simp add: r next_r)
qed

lemma decode_ascii:
  assumes "list_all (\<lambda>c. char_code c < 128) s"
  shows "decode_utf_8_sig wide (encode_text s) = Some s"
proof -
  have b: "(of_nat (char_code c) :: byte) < 128 \<and> char_of (unat (of_nat (char_code c) :: byte)) = c"
    if "char_code c < 128" for c
  proof -
    have "unat (of_nat (char_code c) :: byte) = char_code c" using that by (simp add: unat_of_nat)
    then show ?thesis using that by (simp add: word_less_nat_alt char_code_def)
  qed
  have "take 3 (encode_text s) \<noteq> [0xEF, 0xBB, 0xBF]"
  proof (cases s)
    case (Cons c cs)
    then have "char_code c < 128" using assms by simp
    from b[OF this] show ?thesis by (auto simp: encode_text_def Cons word_less_nat_alt)
  qed (simp add: encode_text_def)
  moreover have "list_all (\<lambda>b. b < 128) (encode_text s)" "map (\<lambda>b. char_of (unat b)) (encode_text s) = s"
    using assms b by (induction s) (auto simp: encode_text_def)
  ultimately show ?thesis by (simp add: decode_utf_8_sig_def Let_def)
qed

lemma csv_line_ascii: "list_all (list_all (\<lambda>c. char_code c < 128)) fs \<Longrightarrow> list_all (\<lambda>c. char_code c < 128) (csv_line fs)"
proof (induction fs rule: induct_list012)
  case 1
  show ?case by (simp add: csv_line_def char_code_def)
next
  case (2 f)
  then show ?case by (induction f) (auto simp: csv_line_def csv_quoted_def quotechar_def char_code_def list_all_iff)
next
  case (3 f g fs)
  have "list_all (\<lambda>c. char_code c < 128) (csv_quoted f)"
    using 3(3) by (auto simp: csv_quoted_def quotechar_def char_code_def list_all_iff)
  with 3 show ?case by (auto simp: csv_line_def delimiter_def char_code_def)
qed

lemma participant_csv_ascii:
  assumes "list_all (\<lambda>(b, n). cell_ok cfg b \<and> cell_ok cfg n) rows"
  shows "list_all (\<lambda>c. char_code c < 128) (participant_csv rows)"
proof -
  have "list_all (\<lambda>c. char_code c < 128) (csv_line [''bib'', ''name''])" by code_simp
  moreover have "list_all (\<lambda>c. char_code c < 128) (concat (map (\<lambda>(b, n). csv_line [b, n]) rows))"
    using assms by (induction rows) (auto simp: cell_ok_def intro!: csv_line_ascii)
  ultimately show ?thesis by (simp add: participant_csv_def)
qed

text \<open>C24 (roundtrip): a participant file written as CSV.  Whatever commas, quotes, line breaks and other ASCII
  characters the bib numbers and names contain, a file that writes each of them in quotes under the headers
  \<^verbatim>\<open>bib\<close> and \<^verbatim>\<open>name\<close> reads back as exactly these rows, as long as the file is within the limits and the cells
  carry no surrounding blanks; whichever order the aliases of the columns are tried in.\<close>

theorem csv_file_reads_back:
  assumes "alias_order aliases" "list_all (\<lambda>(b, n). cell_ok cfg b \<and> cell_ok cfg n) rows"
    and "int (length rows) \<le> max_participant_rows cfg" "2 \<le> max_participant_columns cfg"
  shows "parse_csv cfg aliases wide (encode_text (participant_csv rows)) = Inr rows"
proof -
  have first: "next_record (split_lines (participant_csv rows)) =
      Inr (Some ([''bib'', ''name''], split_lines (concat (map (\<lambda>(b, n). csv_line [b, n]) rows))))"
    unfolding participant_csv_def by (rule next_record_line) (simp_all add: field_limit_def)
  show ?thesis
    using csv_rows_read_back[OF assms(1,2), of 1] assms(3,4)
    by (simp add: parse_csv_def decode_ascii[OF participant_csv_ascii[OF assms(2)]] first)
qed

definition some_aliases :: "column \<Rightarrow> str list" where
  "some_aliases c = (case c of
     BibNumber \<Rightarrow> [''bib'', ''bib_number'', ''bib_no'', ''bib_num'', ''bib_no.'', ''bib#'', ''bib_number.'',
       ''race_number'', ''runner_number'', ''number'']
   | FullName \<Rightarrow> [''full_name'', ''name'', ''participant_name'', ''runner_name'', ''athlete_name'']
   | FirstName \<Rightarrow> [''first_name'', ''firstname'', ''given_name'']
   | LastName \<Rightarrow> [''last_name'', ''lastname'', ''surname'', ''family_name''])"

lemma some_alias_order: "alias_order some_aliases"
proof -
  have "set (some_aliases c) = HEADER_ALIASES c \<and> distinct (some_aliases c)" for c
    by (cases c) (simp_all add: some_aliases_def)
  then show ?thesis by (simp add: alias_order_def)
qed

lemma csv_file_reads_back_witness:
  "parse_csv default_settings some_aliases (\<lambda>_. None)
     (encode_text (participant_csv [(''12'', ''O, Neil''), (''7'', [CHR 0x22, CHR ''A'', CHR 0x22])])) =
   Inr [(''12'', ''O, Neil''), (''7'', [CHR 0x22, CHR ''A'', CHR 0x22])]"
proof (rule csv_file_reads_back[OF some_alias_order])
  have "cell_ok default_settings s" if "strip s = s" "length s \<le> 512" "list_all (\<lambda>c. char_code c < 128) s" for s
    using that by (simp add: cell_ok_def default_settings_def field_limit_def)
  note ok = this
  have "cell_ok default_settings ''12''" "cell_ok default_settings ''O, Neil''" "cell_ok default_settings ''7''"
    "cell_ok default_settings [CHR 0x22, CHR ''A'', CHR 0x22]"
    by (rule ok; code_simp)+
  then show "list_all (\<lambda>(b, n). cell_ok default_settings b \<and> cell_ok default_settings n)
      [(''12'', ''O, Neil''), (''7'', [CHR 0x22, CHR ''A'', CHR 0x22])]" by simp
qed (simp_all add: default_settings_def)

section \<open>The order of the aliases\<close>

text \<open>The aliases of a column.  The order in which \<^verbatim>\<open>_read_value\<close> walks the set of aliases,
  which differs between processes, makes no difference to a row in which no column is given twice.\<close>

theorem alias_order_irrelevant:
  assumes "alias_order as" "alias_order bs" "normalize_cells cfg raw [] = Inr row" "one_alias row"
  shows "normalize_row cfg as raw = normalize_row cfg bs raw"
  using read_value_order[OF assms(4,1,2)] assms(3) by (simp add: normalize_row_def)

lemma alias_order_irrelevant_witness:
  "normalize_row default_settings some_aliases [(Some ''Name'', Text ''Ann'')] =
   normalize_row default_settings (\<lambda>c. rev (some_aliases c)) [(Some ''Name'', Text ''Ann'')]"
proof (rule alias_order_irrelevant[OF some_alias_order])
  show "alias_order (\<lambda>c. rev (some_aliases c))" using some_alias_order by (simp add: alias_order_def)
  show "normalize_cells default_settings [(Some ''Name'', Text ''Ann'')] [] = Inr [(''name'', ''Ann'')]" by code_simp
  show "one_alias [(''name'', ''Ann'')]" by (auto simp: one_alias_def or_text_def split: if_splits)
qed

text \<open>A row with two names for the runner: which one is imported depends on the process.\<close>

theorem alias_order_matters:
  "\<exists>as bs raw. alias_order as \<and> alias_order bs \<and>
     normalize_row default_settings as raw = Inr ([], ''Ann'') \<and>
     normalize_row default_settings bs raw = Inr ([], ''Bob'')"
proof -
  let ?raw = "[(Some ''name'', Text ''Ann''), (Some ''runner name'', Text ''Bob'')]"
  let ?as = "some_aliases" and ?bs = "\<lambda>c. rev (some_aliases c)"
  have "alias_order ?bs" using some_alias_order by (simp add: alias_order_def)
  moreover have "normalize_row default_settings ?as ?raw = Inr ([], ''Ann'')" by code_simp
  moreover have "normalize_row default_settings ?bs ?raw = Inr ([], ''Bob'')" by code_simp
  ultimately show ?thesis using some_alias_order by blast
qed

section \<open>Limits\<close>

text \<open>A row within the limits: the name may be a first and a last name with a space between.\<close>

definition row_bounded :: "settings \<Rightarrow> str \<times> str \<Rightarrow> bool" where
  "row_bounded cfg r \<longleftrightarrow> int (length (fst r)) \<le> max 0 (max_participant_cell_chars cfg) \<and>
     int (length (snd r)) \<le> 2 * max 0 (max_participant_cell_chars cfg) + 1"

lemma normalize_cells_bounded:
  assumes "normalize_cells cfg raw acc = Inr row"
    and "\<And>k v. (k, v) \<in> set acc \<Longrightarrow> int (length v) \<le> max_participant_cell_chars cfg" "(k, v) \<in> set row"
  shows "int (length v) \<le> max_participant_cell_chars cfg"
  using assms
proof (induction cfg raw acc arbitrary: row rule: normalize_cells.induct)
  case (2 cfg key val cells acc)
  let ?cell = "strip (value_text val)"
  have short: "int (length ?cell) \<le> max_participant_cell_chars cfg"
    and rest: "normalize_cells cfg cells (AList.update (normalize_header (or_text key [])) ?cell acc) = Inr row"
    using 2(2) by (auto simp: Let_def split: if_splits)
  have "int (length v') \<le> max_participant_cell_chars cfg"
    if "(k', v') \<in> set (AList.update (normalize_header (or_text key [])) ?cell acc)" for k' v'
    using that 2(3) short by (induction acc) (auto split: if_splits)
  with 2(1)[OF refl _ rest _ 2(4)] short show ?case by (metis not_le)
qed simp

lemma read_value_bounded:
  assumes "\<And>k v. (k, v) \<in> set row \<Longrightarrow> int (length v) \<le> n" "0 \<le> n"
  shows "int (length (read_value row as)) \<le> n"
  using assms by (induction row as rule: read_value.induct) (auto split: option.splits dest: map_of_SomeD)

lemma normalize_row_bounded:
  assumes "normalize_row cfg aliases raw = Inr r"
  shows "row_bounded cfg r"
proof -
  obtain row where row: "normalize_cells cfg raw [] = Inr row"
    using assms by (auto simp: normalize_row_def split: sum.splits)
  let ?n = "max 0 (max_participant_cell_chars cfg)"
  have n: "int (length (read_value row as)) \<le> ?n" for as
    using normalize_cells_bounded[OF row] by (intro read_value_bounded) fastforce+
  have "int (length (strip (a @ '' '' @ b))) \<le> int (length a) + int (length b) + 1" for a b
    using strip_chars_length[of is_space "a @ '' '' @ b"] by (simp add: strip_def)
  note s = this[of "read_value row (aliases FirstName)" "read_value row (aliases LastName)"]
  show ?thesis
    using assms row n[of "aliases BibNumber"] n[of "aliases FullName"] n[of "aliases FirstName"]
      n[of "aliases LastName"] s
    by (auto simp: normalize_row_def Let_def row_bounded_def)
qed

lemma csv_rows_bounded:
  "csv_rows cfg aliases names index lines = Inr rows \<Longrightarrow>
     list_all (row_bounded cfg) rows \<and> (rows = [] \<or> index + int (length rows) \<le> max_participant_rows cfg + 1)"
proof (induction cfg aliases names index lines arbitrary: rows rule: csv_rows.induct)
  case (1 cfg aliases names index lines)
  show ?case
  proof (cases "next_record lines")
    case (Inr found)
    show ?thesis
    proof (cases found)
      case None
      with 1(3) Inr show ?thesis by (simp add: csv_rows.simps[of cfg aliases names index lines])
    next
      case (Some rr)
      obtain row rest where rr: "rr = (row, rest)" by (cases rr)
      note unfold = csv_rows.simps[of cfg aliases names index lines]
      show ?thesis
      proof (cases "row = []")
        case True
        with 1(1)[OF Inr Some rr[symmetric] True] 1(3) Inr Some rr show ?thesis by (simp add: unfold)
      next
        case False
        obtain r rs where r: "index \<le> max_participant_rows cfg" "normalize_row cfg aliases (dict_row names row) = Inr r"
            "csv_rows cfg aliases names (index + 1) rest = Inr rs" "rows = r # rs"
          using 1(3) Inr Some rr False by (auto simp: unfold split: sum.splits if_splits)
        have "list_all (row_bounded cfg) rs \<and> (rs = [] \<or> index + 1 + int (length rs) \<le> max_participant_rows cfg + 1)"
          using 1(2)[OF Inr Some rr[symmetric] False _ r(2,3)] r(1) by simp
        with r normalize_row_bounded[OF r(2)] show ?thesis by auto
      qed
    qed
  qed (use 1(3) in \<open>simp add: csv_rows.simps[of cfg aliases names index lines]\<close>)
qed

lemma sheet_rows_bounded:
  "sheet_rows cfg aliases headers index lines = Inr rows \<Longrightarrow>
     list_all (row_bounded cfg) rows \<and> (rows = [] \<or> index + int (length rows) \<le> max_participant_rows cfg + 1)"
proof (induction cfg aliases headers index lines arbitrary: rows rule: sheet_rows.induct)
  case (3 cfg aliases headers index cells lines)
  obtain row r rs where r: "index \<le> max_participant_rows cfg" "int (length cells) \<le> max_participant_columns cfg"
      "sheet_row headers cells = Inr row" "normalize_row cfg aliases row = Inr r"
      "sheet_rows cfg aliases headers (index + 1) lines = Inr rs" "rows = r # rs"
    using 3(2) by (auto split: sum.splits if_splits)
  have "list_all (row_bounded cfg) rs \<and> (rs = [] \<or> index + 1 + int (length rs) \<le> max_participant_rows cfg + 1)"
    using 3(1)[OF _ _ r(3,4,5)] r(1,2) by simp
  with r normalize_row_bounded[OF r(4)] show ?case by auto
qed simp_all

text \<open>A participant file.  Whatever the file and the libraries that open it, the rows it gives are
  at most the configured number, no bib number is longer than the limit of a cell, and no name longer than two
  cells and the space between them.\<close>

theorem participant_file_bounded:
  assumes "parse_participant_file cfg env file_name content = Inr rows"
  shows "int (length rows) \<le> max 0 (max_participant_rows cfg) \<and> list_all (row_bounded cfg) rows"
proof -
  have sheet: "\<exists>headers lines. sheet_rows cfg (pf_aliases env) headers 1 lines = Inr rows"
    if "read_sheet cfg (pf_aliases env) ls = Inr rows" for ls
    using that by (cases ls) (auto simp: read_sheet_def Let_def split: sum.splits if_splits)
  have "(\<exists>names lines. csv_rows cfg (pf_aliases env) names 1 lines = Inr rows) \<or>
      (\<exists>headers lines. sheet_rows cfg (pf_aliases env) headers 1 lines = Inr rows)"
  proof (cases "file_extension file_name = ''csv''")
    case True
    then have "parse_csv cfg (pf_aliases env) (pf_wide env) content = Inr rows"
      using assms by (auto simp: parse_participant_file_def Let_def split: if_splits)
    then show ?thesis by (auto simp: parse_csv_def split: option.splits sum.splits if_splits)
  next
    case False
    then have "parse_excel cfg (pf_aliases env) (pf_infolist env) (pf_workbook env) content = Inr rows"
      using assms by (auto simp: parse_participant_file_def Let_def split: if_splits)
    then have "read_sheet cfg (pf_aliases env) (pf_workbook env content) = Inr rows"
      by (auto simp: parse_excel_def split: option.splits sum.splits exn.splits)
    from sheet[OF this] show ?thesis by blast
  qed
  then show ?thesis using csv_rows_bounded sheet_rows_bounded by fastforce
qed

definition demo_file_env :: file_env where
  "demo_file_env = \<lparr>pf_aliases = some_aliases, pf_wide = (\<lambda>_. None), pf_infolist = (\<lambda>_. Some [(10, 5)]),
     pf_workbook = (\<lambda>_. [Inr [Some (True, ''Bib''), Some (True, ''First Name''), Some (True, ''surname'')],
       Inr [Some (True, ''12''), Some (True, '' Ann ''), Some (True, ''Lee'')]])\<rparr>"

lemma participant_file_bounded_witness:
  "parse_participant_file default_settings demo_file_env ''runners.xlsx'' [1] = Inr [(''12'', ''Ann Lee'')] \<and>
   list_all (row_bounded default_settings) [(''12'', ''Ann Lee'')]"
proof -
  have p: "parse_participant_file default_settings demo_file_env ''runners.xlsx'' [1] = Inr [(''12'', ''Ann Lee'')]"
    by code_simp
  from participant_file_bounded[OF p] p show ?thesis by blast
qed

end
