(* ===== verification/WorkerClient.thy ===== *)
theory WorkerClient
  imports WebSecurity Archive WorkerApi
begin

text \<open>
  The worker process, \<^verbatim>\<open>raceframe-worker/worker.py\<close>, first part: its configuration and the check at start, the
  errors that decide what becomes of a job, and the two HTTP clients with their bounded retries (lines 23 to 247).

  The network is the parameter \<^verbatim>\<open>send\<close> or \<^verbatim>\<open>get\<close>, a step of a world of any type that yields the reply or
  the \<^verbatim>\<open>RequestException\<close>; \<^verbatim>\<open>uniform\<close> gives the draws of \<^verbatim>\<open>random.uniform(0.75, 1.25)\<close>, by attempt.  An
  operation answers with its value or error, with the delays it waited.  Times and delays in seconds are real
  numbers where the code has floats.
\<close>

section \<open>Configuration\<close>

record worker_config =
  BACKEND_BASE_URL :: str
  WORKER_API_TOKEN :: str
  WORKER_POLL_SECONDS :: real
  WORKER_JOB_TYPES :: "str list"
  WORKER_ID :: str
  WORKER_VERSION :: str
  WORKER_STARTED_AT :: str
  WORKER_HEARTBEAT_SECONDS :: real
  WORKER_HTTP_RETRIES :: int
  WORKER_HTTP_BACKOFF_SECONDS :: real
  WORKER_MAX_DOWNLOAD_BYTES :: int
  WORKER_MAX_IMAGE_PIXELS :: int
  WORKER_MAX_IMAGE_DIMENSION :: int
  SEARCH_FACE_MIN_EDGE :: int
  SEARCH_FACE_MIN_DETECTION_SCORE :: real
  FACE_MODEL_NAME :: str
  FACE_MAX_IMAGE_EDGE :: int

text \<open>The values without any environment variable, for a process started at the turn of 2026.\<close>

definition default_worker_config :: worker_config where
  "default_worker_config = \<lparr>BACKEND_BASE_URL = [], WORKER_API_TOKEN = [], WORKER_POLL_SECONDS = 3,
     WORKER_JOB_TYPES = [''ocr'', ''face_photo_scan''], WORKER_ID = ''raceframe-worker-1'',
     WORKER_VERSION = ''development'', WORKER_STARTED_AT = ''2026-01-01T00:00:00+00:00'', WORKER_HEARTBEAT_SECONDS = 30, WORKER_HTTP_RETRIES = 4,
     WORKER_HTTP_BACKOFF_SECONDS = 3 / 4, WORKER_MAX_DOWNLOAD_BYTES = 25 * 1024 * 1024,
     WORKER_MAX_IMAGE_PIXELS = 40000000, WORKER_MAX_IMAGE_DIMENSION = 12000, SEARCH_FACE_MIN_EDGE = 80,
     SEARCH_FACE_MIN_DETECTION_SCORE = 65 / 100, FACE_MODEL_NAME = ''buffalo_l'', FACE_MAX_IMAGE_EDGE = 1600\<rparr>"

section \<open>Errors\<close>

text \<open>\<^term>\<open>LeaseLostError\<close> is a subclass of \<^term>\<open>ControlPlaneError\<close>; \<^term>\<open>UnexpectedError\<close> stands for any other
  exception, with the name of its class and its message.\<close>

datatype worker_error =
    WorkerConfigError str
  | PermanentJobError str
  | TransientJobError str
  | ControlPlaneError str
  | LeaseLostError str
  | UnexpectedError str str

type_synonym 'a outcome_of = "worker_error + 'a"

section \<open>The check at start\<close>

definition id_char :: "char \<Rightarrow> bool" where
  "id_char c \<longleftrightarrow> is_alnum c \<or> c \<in> set ''_.-''"

definition version_char :: "char \<Rightarrow> bool" where
  "version_char c \<longleftrightarrow> is_alnum c \<or> c \<in> set ''_.:+-''"

definition missing_config :: "worker_config \<Rightarrow> str list" where
  "missing_config wc = map fst (filter (\<lambda>(name, value). value = [])
     [(''BACKEND_BASE_URL'', BACKEND_BASE_URL wc), (''WORKER_API_TOKEN'', WORKER_API_TOKEN wc)])"

text \<open>The first failed check, if any; \<^verbatim>\<open>urlparse\<close> raises for a host in malformed brackets.\<close>

definition config_error :: "str \<Rightarrow> worker_error option" where
  "config_error m = Some (WorkerConfigError m)"

definition require_config :: "(str \<Rightarrow> bool) \<Rightarrow> worker_config \<Rightarrow> worker_error option" where
  "require_config bracketed_ok wc =
    (if missing_config wc \<noteq> []
     then config_error (''Missing required env vars: '' @ join '', '' (missing_config wc))
     else case urlsplit bracketed_ok (BACKEND_BASE_URL wc) of
       None \<Rightarrow> Some (UnexpectedError ''ValueError'' ''Invalid IPv6 URL'')
     | Some parsed \<Rightarrow>
         if su_scheme parsed \<notin> {''http'', ''https''} \<or> su_netloc parsed = []
         then config_error ''BACKEND_BASE_URL must be an absolute HTTP(S) URL.''
         else if \<not> (1 / 10 \<le> WORKER_POLL_SECONDS wc \<and> WORKER_POLL_SECONDS wc \<le> 60)
         then config_error ''WORKER_POLL_SECONDS must be between 0.1 and 60.''
         else if \<not> (1 \<le> WORKER_HTTP_RETRIES wc \<and> WORKER_HTTP_RETRIES wc \<le> 10)
         then config_error ''WORKER_HTTP_RETRIES must be between 1 and 10.''
         else if \<not> (10 \<le> WORKER_HEARTBEAT_SECONDS wc \<and> WORKER_HEARTBEAT_SECONDS wc \<le> 300)
         then config_error ''WORKER_HEARTBEAT_SECONDS must be between 10 and 300.''
         else if \<not> (length_between 1 128 (WORKER_ID wc) \<and> list_all id_char (WORKER_ID wc))
         then config_error ''WORKER_ID must be an opaque 1-128 character identifier.''
         else if \<not> (length_between 1 64 (WORKER_VERSION wc) \<and> list_all version_char (WORKER_VERSION wc))
         then config_error ''WORKER_VERSION must be a short release identifier.''
         else if WORKER_MAX_DOWNLOAD_BYTES wc < 1
         then config_error ''WORKER_MAX_DOWNLOAD_BYTES must be positive.''
         else if \<not> (1000000 \<le> WORKER_MAX_IMAGE_PIXELS wc \<and> WORKER_MAX_IMAGE_PIXELS wc \<le> 100000000)
         then config_error ''WORKER_MAX_IMAGE_PIXELS must be between 1,000,000 and 100,000,000.''
         else if \<not> (1024 \<le> WORKER_MAX_IMAGE_DIMENSION wc \<and> WORKER_MAX_IMAGE_DIMENSION wc \<le> 32768)
         then config_error ''WORKER_MAX_IMAGE_DIMENSION must be between 1,024 and 32,768.''
         else if filter (\<lambda>t. t \<notin> {''ocr'', ''face_photo_scan''}) (WORKER_JOB_TYPES wc) \<noteq> [] \<or> WORKER_JOB_TYPES wc = []
         then config_error ''WORKER_JOB_TYPES must contain ocr and/or face_photo_scan.''
         else if SEARCH_FACE_MIN_EDGE wc < 32
         then config_error ''SEARCH_FACE_MIN_EDGE must be at least 32 pixels.''
         else if \<not> (0 \<le> SEARCH_FACE_MIN_DETECTION_SCORE wc \<and> SEARCH_FACE_MIN_DETECTION_SCORE wc \<le> 1)
         then config_error ''SEARCH_FACE_MIN_DETECTION_SCORE must be between 0 and 1.''
         else None)"

section \<open>Replies\<close>

text \<open>The body of an answer of the backend: not JSON, JSON that is no object, or an object.\<close>

datatype 'b body = NotJson | NotObject | Object 'b

datatype 'b reply = RequestFailed | Reply int str "'b body"

definition worker_retry_delay :: "worker_config \<Rightarrow> real \<Rightarrow> nat \<Rightarrow> str option \<Rightarrow> real" where
  "worker_retry_delay wc uniform attempt retry_after =
    (let exponential = max (5 / 100) (min 30 (WORKER_HTTP_BACKOFF_SECONDS wc * 2 ^ attempt) * uniform)
     in case retry_after of
          None \<Rightarrow> exponential
        | Some after \<Rightarrow>
            (let value = strip after
             in if value \<noteq> [] \<and> list_all is_digit value
                then min 60 (max (1 / 10) (real (digits_value value))) else exponential))"

section \<open>Posting to the backend\<close>

definition transient_status :: "int \<Rightarrow> bool" where
  "transient_status code \<longleftrightarrow> code = 429 \<or> 500 \<le> code"

text \<open>What an answer means when it is not retried.\<close>

definition settled_reply :: "int \<Rightarrow> 'b body \<Rightarrow> 'b outcome_of" where
  "settled_reply code body =
    (if 200 \<le> code \<and> code < 300 then
       (case body of
          NotJson \<Rightarrow> Inl (ControlPlaneError ''Backend returned a non-JSON response.'')
        | NotObject \<Rightarrow> Inl (ControlPlaneError ''Backend returned an invalid response shape.'')
        | Object b \<Rightarrow> Inr b)
     else if code = 409 then Inl (LeaseLostError ''Backend rejected a stale or expired worker attempt.'')
     else if code = 401 \<or> code = 403 then Inl (WorkerConfigError ''Backend rejected WORKER_API_TOKEN.'')
     else if code = 404 then Inl (LeaseLostError ''The claimed job no longer exists.'')
     else if transient_status code
     then Inl (ControlPlaneError (''Backend returned transient HTTP '' @ int_str code @ ''.''))
     else Inl (PermanentJobError (''Backend rejected the worker result with HTTP '' @ int_str code @ ''.'')))"

text \<open>The attempts left, from the attempt of this number on.\<close>

fun post_attempts :: "worker_config \<Rightarrow> (nat \<Rightarrow> real) \<Rightarrow> ('w \<Rightarrow> 'b reply \<times> 'w) \<Rightarrow> nat \<Rightarrow> nat \<Rightarrow> 'w \<Rightarrow>
    'b outcome_of \<times> real list \<times> 'w" where
  "post_attempts wc uniform send attempt 0 w =
    (Inl (ControlPlaneError ''Backend request exhausted its retry budget.''), [], w)"
| "post_attempts wc uniform send attempt (Suc left) w =
    (case send w of
       (RequestFailed, w1) \<Rightarrow>
         if left = 0
         then (Inl (ControlPlaneError ''Backend request failed after bounded retries.''), [], w1)
         else (case post_attempts wc uniform send (attempt + 1) left w1 of
                 (r, ds, w2) \<Rightarrow> (r, worker_retry_delay wc (uniform attempt) attempt None # ds, w2))
     | (Reply code retry_after body, w1) \<Rightarrow>
         if transient_status code \<and> 0 < left
         then (case post_attempts wc uniform send (attempt + 1) left w1 of
                 (r, ds, w2) \<Rightarrow> (r, worker_retry_delay wc (uniform attempt) attempt (Some retry_after) # ds, w2))
         else (settled_reply code body, [], w1))"

definition post_with :: "worker_config \<Rightarrow> (nat \<Rightarrow> real) \<Rightarrow> bool \<Rightarrow> ('w \<Rightarrow> 'b reply \<times> 'w) \<Rightarrow> 'w \<Rightarrow>
    'b outcome_of \<times> real list \<times> 'w" where
  "post_with wc uniform retry_safe send w =
     post_attempts wc uniform send 0 (if retry_safe then nat (WORKER_HTTP_RETRIES wc) else 1) w"

section \<open>Downloading an object\<close>

text \<open>An answer of the object storage: its status, the headers the code reads, the chunks that arrive and
  whether the stream ends without a \<^verbatim>\<open>RequestException\<close>.\<close>

datatype get_reply =
    GetFailed
  | GetReply (gr_status: int) (gr_retry_after: str) (gr_content_length: str) (gr_chunks: "byte list list") (gr_ends: bool)

definition too_large_error :: worker_error where
  "too_large_error = PermanentJobError ''Source image exceeds the worker download limit.''"

text \<open>\<^term>\<open>None\<close> is a stream that broke.\<close>

fun read_chunk_list :: "int \<Rightarrow> byte list list \<Rightarrow> bool \<Rightarrow> byte list \<Rightarrow> byte list outcome_of option" where
  "read_chunk_list limit [] ends received =
    (if \<not> ends then None
     else if received = [] then Some (Inl (PermanentJobError ''Source image is empty.''))
     else Some (Inr received))"
| "read_chunk_list limit (chunk # chunks) ends received =
    (if limit < int (length received + length chunk) \<and> chunk \<noteq> [] then Some (Inl too_large_error)
     else read_chunk_list limit chunks ends (received @ chunk))"

definition read_reply :: "worker_config \<Rightarrow> get_reply \<Rightarrow> byte list outcome_of option" where
  "read_reply wc reply =
    (if gr_content_length reply \<noteq> [] \<and> list_all is_digit (gr_content_length reply) \<and>
        WORKER_MAX_DOWNLOAD_BYTES wc < int (digits_value (gr_content_length reply))
     then Some (Inl too_large_error)
     else read_chunk_list (WORKER_MAX_DOWNLOAD_BYTES wc) (gr_chunks reply) (gr_ends reply) [])"

definition busy_status :: "int \<Rightarrow> bool" where
  "busy_status code \<longleftrightarrow> code = 429 \<or> 500 \<le> code \<or> code = 408 \<or> code = 425"

fun download_attempts :: "worker_config \<Rightarrow> (nat \<Rightarrow> real) \<Rightarrow> ('w \<Rightarrow> get_reply \<times> 'w) \<Rightarrow> nat \<Rightarrow> nat \<Rightarrow> 'w \<Rightarrow>
    byte list outcome_of \<times> real list \<times> 'w" where
  "download_attempts wc uniform get attempt 0 w =
    (Inl (TransientJobError ''Object download exhausted its retry budget.''), [], w)"
| "download_attempts wc uniform get attempt (Suc left) w =
    (let again = (\<lambda>after w1. case download_attempts wc uniform get (attempt + 1) left w1 of
           (r, ds, w2) \<Rightarrow> (r, worker_retry_delay wc (uniform attempt) attempt after # ds, w2));
         broken = (\<lambda>w1. if left = 0
           then (Inl (TransientJobError ''Object download failed after bounded retries.''), [], w1)
           else again None w1)
     in case get w of
          (GetFailed, w1) \<Rightarrow> broken w1
        | (GetReply code retry_after content_length chunks ends, w1) \<Rightarrow>
            if code = 404
            then (Inl (PermanentJobError ''The source image no longer exists in object storage.''), [], w1)
            else if busy_status code then
              (if 0 < left then again (Some retry_after) w1
               else (Inl (TransientJobError (''Object storage returned HTTP '' @ int_str code @ ''.'')), [], w1))
            else if 400 \<le> code
            then (Inl (TransientJobError (''Object download was rejected with HTTP '' @ int_str code @ ''.'')), [], w1)
            else (case read_reply wc (GetReply code retry_after content_length chunks ends) of
                    Some r \<Rightarrow> (r, [], w1)
                  | None \<Rightarrow> broken w1))"

definition download_with :: "worker_config \<Rightarrow> (nat \<Rightarrow> real) \<Rightarrow> (str \<Rightarrow> bool) \<Rightarrow> (str \<Rightarrow> 'w \<Rightarrow> get_reply \<times> 'w) \<Rightarrow>
    str option \<Rightarrow> 'w \<Rightarrow> byte list outcome_of \<times> real list \<times> 'w" where
  "download_with wc uniform bracketed_ok get download_url w =
    (case download_url of
       None \<Rightarrow> (Inl (PermanentJobError ''Backend did not provide a download URL for this job.''), [], w)
     | Some url \<Rightarrow>
         if url = [] then (Inl (PermanentJobError ''Backend did not provide a download URL for this job.''), [], w)
         else case urlsplit bracketed_ok url of
           None \<Rightarrow> (Inl (UnexpectedError ''ValueError'' ''Invalid IPv6 URL''), [], w)
         | Some parsed \<Rightarrow>
             if su_scheme parsed \<notin> {''http'', ''https''} \<or> su_netloc parsed = []
             then (Inl (PermanentJobError ''Backend provided an invalid download URL.''), [], w)
             else download_attempts wc uniform (get url) 0 (nat (WORKER_HTTP_RETRIES wc)) w)"

end
