(* ===== verification/WorkerVision.thy ===== *)
theory WorkerVision
  imports WorkerClient Uploads "HOL-Library.Product_Lexorder"
begin

text \<open>
  The worker process, second part: what it makes of an image (\<^verbatim>\<open>raceframe-worker/worker.py\<close>, lines 250 to 563).
  The text detections from an answer of Google Vision, the check of the image header, the faces with their
  embeddings, and the choice of the face of a selfie.

  Google Vision, Pillow, OpenCV and InsightFace are third-party: what the code reads of their answers is data
  here.  Coordinates of faces and the arithmetic on embeddings are over real numbers.
\<close>

section \<open>Text\<close>

definition normalize_detected_text :: "str \<Rightarrow> str" where
  "normalize_detected_text value = upper (strip (sub_runs (\<lambda>c. \<not> is_space c) CHR '' '' False value))"

text \<open>An answer of Google Vision: the words of each paragraph of each block of each page, and the flat list of
  annotations.  A bounding polygon may be absent.\<close>

type_synonym polygon = "(int \<times> int) list"

record vision_word =
  vw_symbols :: "str list"
  vw_bounding_box :: "polygon option"
  vw_confidence :: "pyfloat option"

record vision_annotation =
  va_description :: str
  va_bounding_poly :: "polygon option"

record vision_response =
  vr_pages :: "vision_word list list list list"
  vr_text_annotations :: "vision_annotation list"

definition vertex_json :: "int \<times> int \<Rightarrow> json" where
  "vertex_json v = JDict [(''x'', JInt (fst v)), (''y'', JInt (snd v))]"

definition bounding_poly_to_json :: "polygon option \<Rightarrow> (str \<times> json) list \<Rightarrow> json option" where
  "bounding_poly_to_json bounding_poly metadata =
    (case bounding_poly of
       None \<Rightarrow> if metadata = [] then None else Some (JDict metadata)
     | Some vertices \<Rightarrow>
         if vertices = [] then (if metadata = [] then None else Some (JDict metadata))
         else
           let xs = map fst vertices; ys = map snd vertices;
               left = Min (set xs); right = Max (set xs); upper_y = Min (set ys); lower_y = Max (set ys)
           in Some (JDict ([(''vertices'', JList (map vertex_json vertices)), (''left'', JInt left),
                (''top'', JInt upper_y), (''right'', JInt right), (''bottom'', JInt lower_y),
                (''width'', JInt (right - left)), (''height'', JInt (lower_y - upper_y))] @ metadata)))"

text \<open>\<^verbatim>\<open>box.get(key, 0)\<close> of a number.\<close>

definition json_get :: "str \<Rightarrow> json \<Rightarrow> json option" where
  "json_get key v = (case v of JDict kvs \<Rightarrow> map_of kvs key | _ \<Rightarrow> None)"

definition json_int :: "str \<Rightarrow> json option \<Rightarrow> int" where
  "json_int key v = (case Option.bind v (json_get key) of Some (JInt i) \<Rightarrow> i | _ \<Rightarrow> 0)"

definition vertices_key_from_box :: "json option \<Rightarrow> (int \<times> int) list" where
  "vertices_key_from_box box_json =
    (case Option.bind box_json (json_get ''vertices'') of
       Some (JList vs) \<Rightarrow> map (\<lambda>v. (json_int ''x'' (Some v), json_int ''y'' (Some v))) vs
     | _ \<Rightarrow> [])"

definition detection_order :: "ocr_request \<Rightarrow> int \<times> int \<times> str" where
  "detection_order d = (json_int ''top'' (or_bounding_box_json d), json_int ''left'' (or_bounding_box_json d),
     or_detected_text d)"

definition sort_ocr_detections :: "ocr_request list \<Rightarrow> ocr_request list" where
  "sort_ocr_detections detections = sort_key detection_order detections"

text \<open>A text as the loops meet it, and the set of the keys of those already taken.\<close>

definition dedupe_key :: "ocr_request \<Rightarrow> str \<times> (int \<times> int) list" where
  "dedupe_key d = (or_normalized_text d, vertices_key_from_box (or_bounding_box_json d))"

definition add_detection :: "ocr_request list \<times> (str \<times> (int \<times> int) list) set \<Rightarrow> ocr_request \<Rightarrow>
    ocr_request list \<times> (str \<times> (int \<times> int) list) set" where
  "add_detection acc d = (case acc of (detections, seen_keys) \<Rightarrow>
     if or_normalized_text d = [] \<or> dedupe_key d \<in> seen_keys then acc
     else (detections @ [d], insert (dedupe_key d) seen_keys))"

definition word_detection :: "nat \<Rightarrow> nat \<Rightarrow> nat \<Rightarrow> nat \<Rightarrow> vision_word \<Rightarrow> ocr_request" where
  "word_detection page block paragraph word w =
    (let detected = strip (concat (vw_symbols w))
     in \<lparr>or_detected_text = detected, or_normalized_text = normalize_detected_text detected,
         or_confidence = vw_confidence w,
         or_bounding_box_json = bounding_poly_to_json (vw_bounding_box w)
           [(''source'', JStr ''word''), (''page_index'', JInt (int page)), (''block_index'', JInt (int block)),
            (''paragraph_index'', JInt (int paragraph)), (''word_index'', JInt (int word))]\<rparr>)"

definition word_detections :: "vision_word list list list list \<Rightarrow> ocr_request list" where
  "word_detections pages =
     concat (map (\<lambda>(pi, page). concat (map (\<lambda>(bi, block). concat (map (\<lambda>(gi, paragraph).
       map (\<lambda>(wi, w). word_detection pi bi gi wi w) (List.enumerate 0 paragraph))
         (List.enumerate 0 block))) (List.enumerate 0 page))) (List.enumerate 0 pages))"

definition annotation_detection :: "nat \<times> vision_annotation \<Rightarrow> ocr_request" where
  "annotation_detection ia =
    (let detected = strip (va_description (snd ia))
     in \<lparr>or_detected_text = detected, or_normalized_text = normalize_detected_text detected, or_confidence = None,
         or_bounding_box_json = bounding_poly_to_json (va_bounding_poly (snd ia))
           [(''source'', JStr ''text_annotation''), (''annotation_index'', JInt (int (fst ia)))]\<rparr>)"

definition taken_detections :: "ocr_request list \<Rightarrow> ocr_request list" where
  "taken_detections candidates = fst (foldl add_detection ([], {}) candidates)"

definition extract_google_ocr_detections :: "vision_response \<Rightarrow> ocr_request list" where
  "extract_google_ocr_detections response =
    (let detections = taken_detections (word_detections (vr_pages response))
     in if detections \<noteq> [] then sort_ocr_detections detections
        else sort_ocr_detections (taken_detections
               (map annotation_detection (List.enumerate 1 (drop 1 (vr_text_annotations response))))))"

section \<open>The image header\<close>

text \<open>How Pillow opens and verifies an image.  A broken PNG makes \<^verbatim>\<open>verify\<close> raise a \<^verbatim>\<open>SyntaxError\<close>.\<close>

datatype verified = Verified | VerifyBomb | VerifyInvalid | VerifySyntaxError

datatype opened = OpenBomb | OpenInvalid | Opened (op_width: int) (op_height: int) (op_frames: int) (op_verify: verified)

definition bomb_error :: worker_error where
  "bomb_error = PermanentJobError ''Image exceeds the safe decompression limit.''"

definition corrupt_error :: worker_error where
  "corrupt_error = PermanentJobError ''Image header is invalid or the image is corrupt.''"

text \<open>\<^verbatim>\<open>f"{n:,}"\<close>\<close>

fun group_digits :: "str \<Rightarrow> str" where
  "group_digits (a # b # c # d # ds) = a # b # c # CHR '','' # group_digits (d # ds)"
| "group_digits ds = ds"

definition grouped_int :: "int \<Rightarrow> str" where
  "grouped_int n = (if n < 0 then ''-'' else []) @ rev (group_digits (rev (nat_digits (nat \<bar>n\<bar>))))"

definition validate_image_header :: "worker_config \<Rightarrow> opened \<Rightarrow> (int \<times> int) outcome_of" where
  "validate_image_header wc img = (case img of
     OpenBomb \<Rightarrow> Inl bomb_error
   | OpenInvalid \<Rightarrow> Inl corrupt_error
   | Opened width height frames verify \<Rightarrow>
       if (if frames = 0 then 1 else frames) \<noteq> 1
       then Inl (PermanentJobError ''Animated or multi-frame images are not accepted.'')
       else if width \<le> 0 \<or> height \<le> 0 then Inl (PermanentJobError ''Image dimensions are invalid.'')
       else if WORKER_MAX_IMAGE_DIMENSION wc < max width height
       then Inl (PermanentJobError (''Image dimensions exceed the '' @ int_str (WORKER_MAX_IMAGE_DIMENSION wc) @
              ''px worker limit.''))
       else if WORKER_MAX_IMAGE_PIXELS wc < width * height
       then Inl (PermanentJobError (''Image exceeds the '' @ grouped_int (WORKER_MAX_IMAGE_PIXELS wc) @
              ''-pixel worker limit.''))
       else (case verify of
               Verified \<Rightarrow> Inr (width, height)
             | VerifyBomb \<Rightarrow> Inl bomb_error
             | VerifyInvalid \<Rightarrow> Inl corrupt_error
             | VerifySyntaxError \<Rightarrow> Inl (UnexpectedError ''SyntaxError'' ''broken PNG file'')))"

section \<open>Faces\<close>

text \<open>A face as the detector gives it; a bounding box is left, top, right and bottom.\<close>

record raw_face =
  rf_normed_embedding :: "pyfloat list option"
  rf_embedding :: "pyfloat list option"
  rf_bbox :: "real \<times> real \<times> real \<times> real"
  rf_det_score :: "pyfloat option"

record face_result =
  fc_face_index :: nat
  fc_embedding :: "pyfloat list"
  fc_bounding_box_json :: json
  fc_detection_score :: "pyfloat option"
  fc_quality_score :: "pyfloat option"

text \<open>\<^verbatim>\<open>array / numpy.linalg.norm(array)\<close>: a value that is not finite makes values that are not finite.\<close>

definition normalized_array :: "pyfloat list option \<Rightarrow> pyfloat list option" where
  "normalized_array value = (case value of
     None \<Rightarrow> None
   | Some xs \<Rightarrow>
       if \<not> list_all finite_float xs then Some (map (\<lambda>_. NaN) xs)
       else let size = sqrt (sum_list (map (\<lambda>x. (float_value x)\<^sup>2) xs))
            in if size \<le> 0 then None else Some (map (\<lambda>x. Fin (float_value x / size)) xs))"

definition face_embedding_of :: "raw_face \<Rightarrow> pyfloat list option" where
  "face_embedding_of face = (case rf_normed_embedding face of
     Some e \<Rightarrow> Some e | None \<Rightarrow> normalized_array (rf_embedding face))"

text \<open>\<^verbatim>\<open>int(x)\<close> of a float cuts off.\<close>

definition int_of_float :: "real \<Rightarrow> int" where
  "int_of_float x = (if x < 0 then - \<lfloor>- x\<rfloor> else \<lfloor>x\<rfloor>)"

definition face_box :: "real \<times> real \<times> real \<times> real \<Rightarrow> json" where
  "face_box box = (case box of (left, upper_y, right, lower_y) \<Rightarrow>
     JDict [(''left'', JInt (int_of_float left)), (''top'', JInt (int_of_float upper_y)),
       (''right'', JInt (int_of_float right)), (''bottom'', JInt (int_of_float lower_y)),
       (''width'', JInt (int_of_float (max 0 (right - left)))),
       (''height'', JInt (int_of_float (max 0 (lower_y - upper_y))))])"

definition finite_score :: "pyfloat option \<Rightarrow> pyfloat option" where
  "finite_score s = (case s of None \<Rightarrow> None | Some f \<Rightarrow> if finite_float f then Some f else None)"

definition face_result_of :: "nat \<times> raw_face \<Rightarrow> face_result option" where
  "face_result_of indexed = (case indexed of (index, face) \<Rightarrow>
     (case face_embedding_of face of
        None \<Rightarrow> None
      | Some embedding \<Rightarrow>
          if length embedding \<noteq> 512 \<or> \<not> list_all finite_float embedding then None
          else Some \<lparr>fc_face_index = index, fc_embedding = embedding,
            fc_bounding_box_json = face_box (rf_bbox face), fc_detection_score = finite_score (rf_det_score face),
            fc_quality_score = finite_score (rf_det_score face)\<rparr>))"

text \<open>\<^verbatim>\<open>cv2.resize\<close> raises for a size of zero.\<close>

definition resized :: "worker_config \<Rightarrow> int \<times> int \<Rightarrow> (int \<times> int) outcome_of" where
  "resized wc dims = (case dims of (width, height) \<Rightarrow>
     let longest = max height width; ratio = real_of_int (FACE_MAX_IMAGE_EDGE wc) / real_of_int longest;
         w = int_of_float (real_of_int width * ratio); h = int_of_float (real_of_int height * ratio)
     in if longest \<le> FACE_MAX_IMAGE_EDGE wc then Inr (width, height)
        else if w \<le> 0 \<or> h \<le> 0 then Inl (UnexpectedError ''error'' ''!dsize.empty()'')
        else Inr (w, h))"

text \<open>What the libraries make of the bytes of an image: how Pillow opens it, the size OpenCV decodes it to
  (\<^term>\<open>None\<close> when it cannot), and the faces InsightFace finds in the resized image.\<close>

record image_env =
  ie_open :: "byte list \<Rightarrow> opened"
  ie_decode :: "byte list \<Rightarrow> (int \<times> int) option"
  ie_faces :: "byte list \<Rightarrow> int \<times> int \<Rightarrow> raw_face list"

definition scan_with_detection_count :: "worker_config \<Rightarrow> image_env \<Rightarrow> byte list \<Rightarrow> (face_result list \<times> nat) outcome_of" where
  "scan_with_detection_count wc env image_bytes =
    (case validate_image_header wc (ie_open env image_bytes) of
       Inl e \<Rightarrow> Inl e
     | Inr _ \<Rightarrow>
         (case ie_decode env image_bytes of
            None \<Rightarrow> Inl (PermanentJobError ''Could not decode the source image for face recognition.'')
          | Some dims \<Rightarrow>
              (case resized wc dims of
                 Inl e \<Rightarrow> Inl e
               | Inr dims' \<Rightarrow>
                   let faces = ie_faces env image_bytes dims'
                   in Inr (List.map_filter face_result_of (List.enumerate 0 (take MAX_FACE_DETECTIONS faces)),
                           length faces))))"

definition scan_faces :: "worker_config \<Rightarrow> image_env \<Rightarrow> byte list \<Rightarrow> face_result list outcome_of" where
  "scan_faces wc env image_bytes =
    (case scan_with_detection_count wc env image_bytes of Inl e \<Rightarrow> Inl e | Inr (results, _) \<Rightarrow> Inr results)"

definition score_or_zero :: "pyfloat option \<Rightarrow> real" where
  "score_or_zero s = (case s of None \<Rightarrow> 0 | Some f \<Rightarrow> float_value f)"

definition enroll_single_search_face :: "worker_config \<Rightarrow> image_env \<Rightarrow> byte list \<Rightarrow> face_result outcome_of" where
  "enroll_single_search_face wc env image_bytes =
    (case scan_with_detection_count wc env image_bytes of
       Inl e \<Rightarrow> Inl e
     | Inr (faces, detected) \<Rightarrow>
         if detected = 0
         then Inl (PermanentJobError ''Exactly one clear face is required; no face was detected.'')
         else if detected \<noteq> 1
         then Inl (PermanentJobError ''Exactly one face is required; group selfies are not accepted.'')
         else (case faces of
                 [face] \<Rightarrow>
                   let width = json_int ''width'' (Some (fc_bounding_box_json face));
                       height = json_int ''height'' (Some (fc_bounding_box_json face))
                   in if min width height < SEARCH_FACE_MIN_EDGE wc
                      then Inl (PermanentJobError (''The face is too small; use a closer photo with a face at least '' @
                             int_str (SEARCH_FACE_MIN_EDGE wc) @ ''px wide and tall.''))
                      else if score_or_zero (fc_detection_score face) < SEARCH_FACE_MIN_DETECTION_SCORE wc
                      then Inl (PermanentJobError ''The face is not clear enough; use a well-lit, front-facing selfie.'')
                      else Inr face
               | _ \<Rightarrow> Inl (PermanentJobError ''The detected face did not produce a valid recognition embedding.'')))"

definition face_area :: "face_result \<Rightarrow> int" where
  "face_area face = json_int ''width'' (Some (fc_bounding_box_json face)) * json_int ''height'' (Some (fc_bounding_box_json face))"

text \<open>\<^verbatim>\<open>max(faces, key=...)\<close> takes the first of the greatest.\<close>

definition face_key :: "face_result \<Rightarrow> real \<times> int" where
  "face_key face = (score_or_zero (fc_quality_score face), face_area face)"

definition first_max :: "face_result \<Rightarrow> face_result list \<Rightarrow> face_result" where
  "first_max face faces = foldl (\<lambda>best f. if face_key best < face_key f then f else best) face faces"

definition enroll_best_face :: "worker_config \<Rightarrow> image_env \<Rightarrow> byte list \<Rightarrow> face_result outcome_of" where
  "enroll_best_face wc env image_bytes =
    (case scan_faces wc env image_bytes of
       Inl e \<Rightarrow> Inl e
     | Inr [] \<Rightarrow> Inl (PermanentJobError ''No face was detected in the selfie.'')
     | Inr (face # faces) \<Rightarrow> Inr (first_max face faces))"

end
