(* ===== verification/WorkerProcess.thy ===== *)
theory WorkerProcess
  imports WorkerVision
begin

text \<open>
  The worker process, third part: the work on a claimed job and its report, the heartbeat of a lease, the
  presence of the worker, the poller that takes turns between the queues, and the main loop
  (\<^verbatim>\<open>raceframe-worker/worker.py\<close>, lines 257 to 305 and 565 to 1002).

  A world bundles what the process calls: the backend, the object storage, the libraries on images, and what the
  heartbeat thread of the lease has found when the main thread asks (\<^verbatim>\<open>ensure_owned\<close>).  The two threads share
  only that answer and the presence, so the heartbeat threads are modelled by the rounds of their loops.
\<close>

section \<open>Recognizing text\<close>

datatype vision_outcome =
    VisionRaised str
  | VisionError int str
  | VisionAnswer vision_response

definition ocr_scan :: "worker_config \<Rightarrow> image_env \<Rightarrow> (byte list \<Rightarrow> vision_outcome) \<Rightarrow> real \<Rightarrow> byte list \<Rightarrow>
    (ocr_request list \<times> json) outcome_of" where
  "ocr_scan wc env vision duration_ms image_bytes =
    (case validate_image_header wc (ie_open env image_bytes) of
       Inl e \<Rightarrow> Inl e
     | Inr (width, height) \<Rightarrow>
         (case vision image_bytes of
            VisionRaised error_name \<Rightarrow>
              if error_name \<in> {''BadRequest'', ''InvalidArgument'', ''FailedPrecondition'', ''OutOfRange''}
              then Inl (PermanentJobError ''Google Vision rejected the validated source image.'')
              else if error_name \<in> {''Unauthorized'', ''Unauthenticated'', ''Forbidden'', ''PermissionDenied''}
              then Inl (WorkerConfigError ''Google Vision credentials are invalid or lack permission.'')
              else Inl (TransientJobError ''Google Vision OCR request failed.'')
          | VisionError error_code message \<Rightarrow>
              if error_code \<in> {3, 9, 11}
              then Inl (PermanentJobError (''Google Vision rejected the image: '' @ take 500 message))
              else Inl (TransientJobError (''Google Vision OCR failed: '' @ take 500 message))
          | VisionAnswer response \<Rightarrow>
              let detections = extract_google_ocr_detections response
              in Inr (detections,
                   JDict [(''provider'', JStr ''google_vision''), (''request'', JStr ''document_text_detection''),
                     (''model'', JStr ''google_vision_builtin''), (''duration_ms'', JFloat (Fin duration_ms)),
                     (''image_width'', JInt width), (''image_height'', JInt height),
                     (''detection_count'', JInt (int (length detections)))])))"

section \<open>Jobs and requests\<close>

text \<open>A claimed job as its answer gives it.\<close>

record worker_job =
  cd_id :: str
  cd_job_type :: str
  cd_attempt_id :: uuid
  cd_lease_seconds :: "int option"
  cd_heartbeat_path :: str
  cd_download_url :: "str option"

record presence_payload =
  pl_worker_id :: str
  pl_worker_version :: str
  pl_started_at :: str
  pl_status :: str
  pl_current_job_id :: "str option"
  pl_current_job_type :: "str option"

datatype worker_payload =
    ClaimPayload "str list option"
  | AttemptPayload uuid
  | PhotoPayload photo_request
  | EmbeddingPayload embedding_request
  | FailPayload fail_request
  | PresencePayload presence_payload

text \<open>What the process reads of an answer: the field \<^verbatim>\<open>job\<close> of a claim.\<close>

datatype backend_body = NoJob | NotAJob | ClaimedJob worker_job

record 'w world =
  wo_send :: "str \<Rightarrow> worker_payload \<Rightarrow> 'w \<Rightarrow> backend_body reply \<times> 'w"
  wo_get :: "str \<Rightarrow> 'w \<Rightarrow> get_reply \<times> 'w"
  wo_owned :: "nat \<Rightarrow> 'w \<Rightarrow> worker_error option"
  wo_uniform :: "nat \<Rightarrow> real"
  wo_bracketed :: "str \<Rightarrow> bool"
  wo_images :: image_env
  wo_vision :: "byte list \<Rightarrow> vision_outcome"
  wo_duration :: real

definition post_job :: "worker_config \<Rightarrow> 'w world \<Rightarrow> bool \<Rightarrow> str \<Rightarrow> worker_payload \<Rightarrow> 'w \<Rightarrow>
    backend_body outcome_of \<times> 'w" where
  "post_job wc wo retry_safe path payload w =
    (case post_with wc (wo_uniform wo) retry_safe (wo_send wo path payload) w of (r, _, w1) \<Rightarrow> (r, w1))"

definition download_job :: "worker_config \<Rightarrow> 'w world \<Rightarrow> worker_job \<Rightarrow> 'w \<Rightarrow> byte list outcome_of \<times> 'w" where
  "download_job wc wo job w =
    (case download_with wc (wo_uniform wo) (wo_bracketed wo) (wo_get wo) (cd_download_url job) w of
       (r, _, w1) \<Rightarrow> (r, w1))"

definition operation_path :: "worker_job \<Rightarrow> str \<Rightarrow> str outcome_of" where
  "operation_path job operation =
    (if endswith (cd_heartbeat_path job) ''/heartbeat''
     then Inr (take (length (cd_heartbeat_path job) - length ''/heartbeat'') (cd_heartbeat_path job) @ ''/'' @ operation)
     else Inl (PermanentJobError ''Claim response did not include a valid heartbeat path.''))"

definition post_operation :: "worker_config \<Rightarrow> 'w world \<Rightarrow> worker_job \<Rightarrow> str \<Rightarrow> worker_payload \<Rightarrow> 'w \<Rightarrow>
    backend_body outcome_of \<times> 'w" where
  "post_operation wc wo job operation payload w =
    (case operation_path job operation of Inl e \<Rightarrow> (Inl e, w) | Inr path \<Rightarrow> post_job wc wo True path payload w)"

section \<open>The work on a job\<close>

text \<open>The shape all processors share: the bytes, the check of the lease, the analysis, the check of the lease
  again, and the result.\<close>

definition process_with :: "(byte list \<Rightarrow> 'a outcome_of) \<Rightarrow> (worker_job \<Rightarrow> 'a \<Rightarrow> worker_payload) \<Rightarrow> worker_config \<Rightarrow>
    'w world \<Rightarrow> worker_job \<Rightarrow> 'w \<Rightarrow> unit outcome_of \<times> 'w" where
  "process_with analyse result wc wo job w =
    (case download_job wc wo job w of
       (Inl e, w1) \<Rightarrow> (Inl e, w1)
     | (Inr image_bytes, w1) \<Rightarrow>
         (case wo_owned wo 0 w1 of
            Some e \<Rightarrow> (Inl e, w1)
          | None \<Rightarrow>
              (case analyse image_bytes of
                 Inl e \<Rightarrow> (Inl e, w1)
               | Inr found \<Rightarrow>
                   (case wo_owned wo 1 w1 of
                      Some e \<Rightarrow> (Inl e, w1)
                    | None \<Rightarrow>
                        (case post_operation wc wo job ''complete'' (result job found) w1 of
                           (Inl e, w2) \<Rightarrow> (Inl e, w2) | (Inr _, w2) \<Rightarrow> (Inr (), w2))))))"

definition embedding_completion_payload :: "worker_config \<Rightarrow> worker_job \<Rightarrow> face_result \<Rightarrow> worker_payload" where
  "embedding_completion_payload wc job face = EmbeddingPayload
     \<lparr>eq_attempt_id = cd_attempt_id job, eq_embedding = fc_embedding face,
      eq_bounding_box_json = Some (fc_bounding_box_json face), eq_detection_score = fc_detection_score face,
      eq_quality_score = fc_quality_score face,
      eq_raw_response_json = Some (JDict [(''provider'', JStr ''insightface''), (''model'', JStr (FACE_MODEL_NAME wc))])\<rparr>"

definition process_face_job :: "worker_config \<Rightarrow> 'w world \<Rightarrow> worker_job \<Rightarrow> 'w \<Rightarrow> unit outcome_of \<times> 'w" where
  "process_face_job wc wo =
     process_with (enroll_best_face wc (wo_images wo)) (embedding_completion_payload wc) wc wo"

definition process_face_search_job :: "worker_config \<Rightarrow> 'w world \<Rightarrow> worker_job \<Rightarrow> 'w \<Rightarrow> unit outcome_of \<times> 'w" where
  "process_face_search_job wc wo =
     process_with (enroll_single_search_face wc (wo_images wo)) (embedding_completion_payload wc) wc wo"

definition ocr_payload_of :: "worker_job \<Rightarrow> ocr_request list \<times> json \<Rightarrow> worker_payload" where
  "ocr_payload_of job found = PhotoPayload \<lparr>pq_attempt_id = cd_attempt_id job, pq_detections = fst found,
     pq_face_detections = [], pq_raw_response_json = Some (snd found)\<rparr>"

definition face_detection_request :: "face_result \<Rightarrow> face_request" where
  "face_detection_request face = \<lparr>fq_face_index = int (fc_face_index face), fq_embedding = fc_embedding face,
     fq_bounding_box_json = Some (fc_bounding_box_json face), fq_detection_score = fc_detection_score face,
     fq_quality_score = fc_quality_score face\<rparr>"

definition faces_payload_of :: "worker_config \<Rightarrow> worker_job \<Rightarrow> face_result list \<Rightarrow> worker_payload" where
  "faces_payload_of wc job faces = PhotoPayload \<lparr>pq_attempt_id = cd_attempt_id job, pq_detections = [],
     pq_face_detections = map face_detection_request faces,
     pq_raw_response_json = Some (JDict [(''provider'', JStr ''insightface''), (''model'', JStr (FACE_MODEL_NAME wc)),
       (''face_count'', JInt (int (length faces)))])\<rparr>"

text \<open>A photo job of another type fails after the download and the first check of the lease.\<close>

definition process_photo_job :: "worker_config \<Rightarrow> 'w world \<Rightarrow> worker_job \<Rightarrow> 'w \<Rightarrow> unit outcome_of \<times> 'w" where
  "process_photo_job wc wo job =
    (if cd_job_type job = ''ocr''
     then process_with (ocr_scan wc (wo_images wo) (wo_vision wo) (wo_duration wo)) ocr_payload_of wc wo job
     else if cd_job_type job = ''face_photo_scan''
     then process_with (scan_faces wc (wo_images wo)) (faces_payload_of wc) wc wo job
     else process_with (\<lambda>_. Inl (PermanentJobError (''Unsupported photo job type: '' @ cd_job_type job)))
            (\<lambda>_ (_ :: unit). AttemptPayload (cd_attempt_id job)) wc wo job)"

section \<open>Reporting a failure\<close>

fun error_text :: "worker_error \<Rightarrow> str" where
  "error_text (WorkerConfigError m) = m"
| "error_text (PermanentJobError m) = m"
| "error_text (TransientJobError m) = m"
| "error_text (ControlPlaneError m) = m"
| "error_text (LeaseLostError m) = m"
| "error_text (UnexpectedError c m) = m"

fun error_class :: "worker_error \<Rightarrow> str" where
  "error_class (WorkerConfigError m) = ''WorkerConfigError''"
| "error_class (PermanentJobError m) = ''PermanentJobError''"
| "error_class (TransientJobError m) = ''TransientJobError''"
| "error_class (ControlPlaneError m) = ''ControlPlaneError''"
| "error_class (LeaseLostError m) = ''LeaseLostError''"
| "error_class (UnexpectedError c m) = c"

definition failure_report :: "worker_job \<Rightarrow> worker_error \<Rightarrow> bool \<Rightarrow> str \<Rightarrow> fail_request" where
  "failure_report job err retryable error_code =
    (let message = (if strip (error_text err) = [] then error_class err else strip (error_text err))
     in \<lparr>fr_attempt_id = cd_attempt_id job, fr_error_message = take 2000 message, fr_retryable = retryable,
         fr_error_code = Some error_code\<rparr>)"

text \<open>The exception that leaves the handler, if any.\<close>

definition report_failure :: "worker_config \<Rightarrow> 'w world \<Rightarrow> worker_job \<Rightarrow> worker_error \<Rightarrow> bool \<Rightarrow> str \<Rightarrow> 'w \<Rightarrow>
    worker_error option \<times> 'w" where
  "report_failure wc wo job err retryable error_code w =
    (case post_operation wc wo job ''fail'' (FailPayload (failure_report job err retryable error_code)) w of
       (Inr _, w1) \<Rightarrow> (None, w1)
     | (Inl (ControlPlaneError _), w1) \<Rightarrow> (None, w1)
     | (Inl (LeaseLostError _), w1) \<Rightarrow> (None, w1)
     | (Inl (PermanentJobError _), w1) \<Rightarrow> (None, w1)
     | (Inl e, w1) \<Rightarrow> (Some e, w1))"

section \<open>Presence\<close>

record presence =
  ps_status :: str
  ps_current_job_id :: "str option"
  ps_current_job_type :: "str option"

definition set_active :: "worker_job \<Rightarrow> presence" where
  "set_active job = \<lparr>ps_status = ''active'', ps_current_job_id = Some (cd_id job), ps_current_job_type = Some (cd_job_type job)\<rparr>"

definition set_idle :: presence where
  "set_idle = \<lparr>ps_status = ''idle'', ps_current_job_id = None, ps_current_job_type = None\<rparr>"

definition set_draining :: presence where
  "set_draining = \<lparr>ps_status = ''draining'', ps_current_job_id = None, ps_current_job_type = None\<rparr>"

definition presence_payload_of :: "worker_config \<Rightarrow> presence \<Rightarrow> presence_payload" where
  "presence_payload_of wc p = \<lparr>pl_worker_id = WORKER_ID wc, pl_worker_version = WORKER_VERSION wc,
     pl_started_at = WORKER_STARTED_AT wc,
     pl_status = ps_status p, pl_current_job_id = ps_current_job_id p, pl_current_job_type = ps_current_job_type p\<rparr>"

text \<open>A round of the presence thread: the error that ends the thread, which \<^verbatim>\<open>ensure_healthy\<close> raises.  An
  exception it does not handle ends it silently.\<close>

datatype presence_round = PresenceGoesOn | PresenceFatal worker_error | PresenceDies

definition presence_result :: "'b outcome_of \<Rightarrow> presence_round" where
  "presence_result r = (case r of
     Inr _ \<Rightarrow> PresenceGoesOn
   | Inl (WorkerConfigError m) \<Rightarrow> PresenceFatal (WorkerConfigError m)
   | Inl (PermanentJobError m) \<Rightarrow> PresenceFatal (WorkerConfigError ''Backend rejected worker presence heartbeat payload.'')
   | Inl (ControlPlaneError m) \<Rightarrow> PresenceGoesOn
   | Inl (LeaseLostError m) \<Rightarrow> PresenceGoesOn
   | Inl _ \<Rightarrow> PresenceDies)"

definition send_presence :: "worker_config \<Rightarrow> 'w world \<Rightarrow> bool \<Rightarrow> presence \<Rightarrow> 'w \<Rightarrow> backend_body outcome_of \<times> 'w" where
  "send_presence wc wo retry_safe p w =
     post_job wc wo retry_safe ''/internal/worker/heartbeat'' (PresencePayload (presence_payload_of wc p)) w"

section \<open>The heartbeat of a lease\<close>

definition lease_seconds_of :: "worker_job \<Rightarrow> real" where
  "lease_seconds_of job = max 30 (case cd_lease_seconds job of
     None \<Rightarrow> 300 | Some n \<Rightarrow> if n = 0 then 300 else real_of_int n)"

definition heartbeat_interval :: "worker_job \<Rightarrow> real" where
  "heartbeat_interval job = max 5 (min 60 (lease_seconds_of job / 3))"

text \<open>The thread: when a renewal last succeeded, whether it still runs, and what it found.\<close>

record lease_watch =
  lw_last_success :: real
  lw_running :: bool
  lw_lost :: "worker_error option"

definition lost_with :: "worker_error \<Rightarrow> lease_watch \<Rightarrow> lease_watch" where
  "lost_with e lw = lw\<lparr>lw_running := False, lw_lost := Some e\<rparr>"

definition lease_round :: "worker_job \<Rightarrow> real \<Rightarrow> 'b outcome_of \<Rightarrow> lease_watch \<Rightarrow> lease_watch" where
  "lease_round job now r lw =
    (if \<not> lw_running lw then lw
     else case r of
       Inr _ \<Rightarrow> lw\<lparr>lw_last_success := now\<rparr>
     | Inl (LeaseLostError m) \<Rightarrow> lost_with (LeaseLostError m) lw
     | Inl (WorkerConfigError m) \<Rightarrow> lost_with (WorkerConfigError m) lw
     | Inl (ControlPlaneError m) \<Rightarrow>
         if lease_seconds_of job * 8 / 10 \<le> now - lw_last_success lw
         then lost_with (LeaseLostError ''Unable to renew the job lease before its deadline.'') lw
         else lw
     | Inl _ \<Rightarrow> lw\<lparr>lw_running := False\<rparr>)"

definition ensure_owned :: "lease_watch \<Rightarrow> worker_error option" where
  "ensure_owned lw = lw_lost lw"

section \<open>Handling a claimed job\<close>

type_synonym 'w processor = "worker_config \<Rightarrow> 'w world \<Rightarrow> worker_job \<Rightarrow> 'w \<Rightarrow> unit outcome_of \<times> 'w"

definition handle_claimed_job :: "worker_config \<Rightarrow> 'w world \<Rightarrow> 'w processor \<Rightarrow> worker_job \<Rightarrow> 'w \<Rightarrow>
    worker_error option \<times> presence \<times> 'w" where
  "handle_claimed_job wc wo processor job w =
    (case processor wc wo job w of
       (Inr _, w1) \<Rightarrow> (None, set_idle, w1)
     | (Inl e, w1) \<Rightarrow>
         (case e of
            WorkerConfigError m \<Rightarrow> (Some e, set_idle, w1)
          | LeaseLostError m \<Rightarrow> (None, set_idle, w1)
          | ControlPlaneError m \<Rightarrow> (None, set_idle, w1)
          | PermanentJobError m \<Rightarrow>
              (case report_failure wc wo job e False ''invalid_job_input'' w1 of (x, w2) \<Rightarrow> (x, set_idle, w2))
          | TransientJobError m \<Rightarrow>
              (case report_failure wc wo job e True ''transient_processing_error'' w1 of (x, w2) \<Rightarrow> (x, set_idle, w2))
          | UnexpectedError c m \<Rightarrow>
              (case report_failure wc wo job e True ''unexpected_processing_error'' w1 of (x, w2) \<Rightarrow> (x, set_idle, w2))))"

section \<open>Polling\<close>

definition claims :: "worker_config \<Rightarrow> (str \<times> worker_payload \<times> 'w processor) list" where
  "claims wc =
    [(''/internal/worker/face-jobs/claim'', ClaimPayload None, process_face_job),
     (''/internal/worker/face-search-jobs/claim'', ClaimPayload None, process_face_search_job),
     (''/internal/worker/photo-jobs/claim'', ClaimPayload (Some (WORKER_JOB_TYPES wc)), process_photo_job)]"

text \<open>The queues still to ask in this turn, from the offset on; the answer says whether a job was handled.\<close>

fun poll_claims :: "worker_config \<Rightarrow> 'w world \<Rightarrow> nat \<Rightarrow> nat list \<Rightarrow> 'w \<Rightarrow> bool outcome_of \<times> nat \<times> 'w" where
  "poll_claims wc wo cursor [] w = (Inr False, (cursor + 1) mod 3, w)"
| "poll_claims wc wo cursor (offset # offsets) w =
    (let index = (cursor + offset) mod 3
     in case claims wc ! index of (path, payload, processor) \<Rightarrow>
        (case post_job wc wo False path payload w of
           (Inl e, w1) \<Rightarrow> (Inl e, cursor, w1)
         | (Inr NoJob, w1) \<Rightarrow> poll_claims wc wo cursor offsets w1
         | (Inr NotAJob, w1) \<Rightarrow> (Inl (ControlPlaneError ''Backend returned an invalid job payload.''), cursor, w1)
         | (Inr (ClaimedJob job), w1) \<Rightarrow>
             (case handle_claimed_job wc wo processor job w1 of
                (Some e, _, w2) \<Rightarrow> (Inl e, (index + 1) mod 3, w2)
              | (None, _, w2) \<Rightarrow> (Inr True, (index + 1) mod 3, w2))))"

definition work_once :: "worker_config \<Rightarrow> 'w world \<Rightarrow> nat \<Rightarrow> 'w \<Rightarrow> bool outcome_of \<times> nat \<times> 'w" where
  "work_once wc wo cursor w = poll_claims wc wo cursor [0, 1, 2] w"

section \<open>The main loop\<close>

record worker_state =
  ws_cursor :: nat
  ws_errors :: nat

text \<open>How a turn of the loop ends: the process stops with an error, or waits, which may be for no time.\<close>

datatype turn = Stops worker_error | Waits real

definition error_turn :: "worker_config \<Rightarrow> real \<Rightarrow> worker_error \<Rightarrow> worker_state \<Rightarrow> turn \<times> worker_state" where
  "error_turn wc jitter e st =
    (let errors = ws_errors st + 1; st1 = st\<lparr>ws_errors := errors\<rparr>;
         control_delay = min 60 (WORKER_HTTP_BACKOFF_SECONDS wc * 2 ^ min errors 7) * jitter
     in case e of
          WorkerConfigError m \<Rightarrow> (Stops e, st)
        | ControlPlaneError m \<Rightarrow> (Waits control_delay, st1)
        | LeaseLostError m \<Rightarrow> (Waits control_delay, st1)
        | _ \<Rightarrow> (Waits (min 60 (2 ^ min errors 6) * jitter), st1))"

text \<open>\<^verbatim>\<open>fatal\<close> is what \<^verbatim>\<open>presence.ensure_healthy\<close> raises; \<^verbatim>\<open>jitter\<close> and \<^verbatim>\<open>poll_jitter\<close> are the draws.\<close>

definition worker_turn :: "worker_config \<Rightarrow> 'w world \<Rightarrow> worker_error option \<Rightarrow> real \<Rightarrow> real \<Rightarrow> worker_state \<Rightarrow> 'w \<Rightarrow>
    turn \<times> worker_state \<times> 'w" where
  "worker_turn wc wo fatal jitter poll_jitter st w =
    (case fatal of
       Some e \<Rightarrow> (case error_turn wc jitter e st of (t, st1) \<Rightarrow> (t, st1, w))
     | None \<Rightarrow>
         (case work_once wc wo (ws_cursor st) w of
            (Inl e, cursor, w1) \<Rightarrow>
              (case error_turn wc jitter e (st\<lparr>ws_cursor := cursor\<rparr>) of (t, st1) \<Rightarrow> (t, st1, w1))
          | (Inr did_work, cursor, w1) \<Rightarrow>
              (Waits (if did_work then 0 else WORKER_POLL_SECONDS wc * poll_jitter),
               st\<lparr>ws_cursor := cursor, ws_errors := 0\<rparr>, w1)))"

text \<open>The turns of the loop up to its end, by a signal after the last turn or by an error; then the worker
  announces that it leaves.\<close>

fun worker_loop :: "worker_config \<Rightarrow> 'w world \<Rightarrow> (worker_error option \<times> real \<times> real) list \<Rightarrow> worker_state \<Rightarrow> 'w \<Rightarrow>
    worker_error option \<times> worker_state \<times> 'w" where
  "worker_loop wc wo [] st w = (None, st, w)"
| "worker_loop wc wo ((fatal, jitter, poll_jitter) # turns) st w =
    (case worker_turn wc wo fatal jitter poll_jitter st w of
       (Stops e, st1, w1) \<Rightarrow> (Some e, st1, w1)
     | (Waits _, st1, w1) \<Rightarrow> worker_loop wc wo turns st1 w1)"

definition run_worker :: "worker_config \<Rightarrow> 'w world \<Rightarrow> (worker_error option \<times> real \<times> real) list \<Rightarrow> 'w \<Rightarrow>
    worker_error option \<times> 'w" where
  "run_worker wc wo turns w =
    (case require_config (wo_bracketed wo) wc of
       Some e \<Rightarrow> (Some e, w)
     | None \<Rightarrow>
         (case worker_loop wc wo turns \<lparr>ws_cursor = 0, ws_errors = 0\<rparr> w of
            (e, _, w1) \<Rightarrow> (e, snd (send_presence wc wo False set_draining w1))))"

end
