(* ===== verification/WorkerSystem.thy ===== *)
theory WorkerSystem
  imports WorkerProcess WorkerReports ListingFacts
begin

text \<open>
  The worker process and the service together.  The interface between them is a locale: what a client that only
  sends requests can do to a world in which every request is a step.  The worker's whole run is such a client.
  The model of the service (\<^verbatim>\<open>serve\<close>, behind the routes of \<^verbatim>\<open>backend/app/worker_api.py\<close>) provides the
  interface, and so the runs of the worker are runs of the service.
\<close>

section \<open>A world that moves by requests\<close>

locale control_plane =
  fixes send :: "str \<Rightarrow> worker_payload \<Rightarrow> 'w \<Rightarrow> backend_body reply \<times> 'w"
    and get :: "str \<Rightarrow> 'w \<Rightarrow> get_reply \<times> 'w"
    and leads :: "'w \<Rightarrow> 'w \<Rightarrow> bool"
  assumes leads_refl: "leads w w"
    and leads_trans: "leads u v \<Longrightarrow> leads v w \<Longrightarrow> leads u w"
    and leads_send: "leads w (snd (send path payload w))"
    and leads_get: "leads w (snd (get url w))"
begin

definition runs_on :: "'w world \<Rightarrow> bool" where
  "runs_on wo \<longleftrightarrow> wo_send wo = send \<and> wo_get wo = get"

lemma post_attempts_leads:
  "post_attempts wc uniform (send path payload) attempt n w = (r, ds, w') \<Longrightarrow> leads w w'"
proof (induction n arbitrary: attempt w r ds w')
  case 0
  then show ?case by (simp add: leads_refl)
next
  case (Suc left)
  obtain reply w1 where s: "send path payload w = (reply, w1)" by fastforce
  then have w1: "leads w w1" using leads_send[of w path payload] by simp
  obtain r1 ds1 w2 where p: "post_attempts wc uniform (send path payload) (attempt + 1) left w1 = (r1, ds1, w2)"
    by (metis prod_cases3)
  have "leads w w2" using leads_trans[OF w1 Suc.IH[OF p]] .
  then show ?case using Suc.prems s p w1 by (auto split: reply.splits if_splits)
qed

lemma post_job_leads: "runs_on wo \<Longrightarrow> post_job wc wo safe path payload w = (r, w') \<Longrightarrow> leads w w'"
  using post_attempts_leads by (auto simp: runs_on_def post_job_def post_with_def split: prod.splits)

lemma post_operation_leads:
  "runs_on wo \<Longrightarrow> post_operation wc wo job operation payload w = (r, w') \<Longrightarrow> leads w w'"
  using post_job_leads leads_refl by (auto simp: post_operation_def split: sum.splits)

lemma download_attempts_leads:
  "download_attempts wc uniform (get url) attempt n w = (r, ds, w') \<Longrightarrow> leads w w'"
proof (induction n arbitrary: attempt w r ds w')
  case 0
  then show ?case by (simp add: leads_refl)
next
  case (Suc left)
  obtain reply w1 where s: "get url w = (reply, w1)" by fastforce
  then have w1: "leads w w1" using leads_get[of w url] by simp
  obtain r1 ds1 w2 where p: "download_attempts wc uniform (get url) (attempt + 1) left w1 = (r1, ds1, w2)"
    by (metis prod_cases3)
  have "leads w w2" using leads_trans[OF w1 Suc.IH[OF p]] .
  then show ?case using Suc.prems s p w1 by (auto simp: Let_def split: get_reply.splits option.splits if_splits)
qed

lemma download_job_leads: "runs_on wo \<Longrightarrow> download_job wc wo job w = (r, w') \<Longrightarrow> leads w w'"
  using download_attempts_leads leads_refl
  by (auto simp: runs_on_def download_job_def download_with_def split: prod.splits option.splits if_splits)

lemma process_with_leads:
  assumes "runs_on wo" "process_with analyse result wc wo job w = (r, w')"
  shows "leads w w'"
proof -
  obtain x w1 where d: "download_job wc wo job w = (x, w1)" by fastforce
  have w1: "leads w w1" using download_job_leads[OF assms(1) d] .
  have "leads w w2" if "post_operation wc wo job ''complete'' p w1 = (y, w2)" for p y w2
    using leads_trans[OF w1 post_operation_leads[OF assms(1) that]] .
  with assms(2) d w1 show ?thesis
    by (auto simp: process_with_def split: sum.splits option.splits prod.splits)
qed

lemma process_with_snd: "runs_on wo \<Longrightarrow> leads w (snd (process_with analyse result wc wo job w))"
  using process_with_leads[OF _ surjective_pairing] .

lemma report_failure_leads:
  "runs_on wo \<Longrightarrow> report_failure wc wo job e retryable code w = (r, w') \<Longrightarrow> leads w w'"
  using post_operation_leads
  by (auto simp: report_failure_def split: prod.splits sum.splits worker_error.splits)

definition processor_leads :: "'w world \<Rightarrow> 'w processor \<Rightarrow> bool" where
  "processor_leads wo processor \<longleftrightarrow> (\<forall>wc job w. leads w (snd (processor wc wo job w)))"

lemma processors_lead:
  assumes "runs_on wo"
  shows "processor_leads wo process_face_job" "processor_leads wo process_face_search_job" "processor_leads wo process_photo_job"
  by (simp_all add: processor_leads_def process_face_job_def process_face_search_job_def process_photo_job_def
      process_with_snd[OF assms])

lemma handle_leads:
  assumes "runs_on wo" "processor_leads wo processor" "handle_claimed_job wc wo processor job w = (r, p, w')"
  shows "leads w w'"
proof -
  obtain x w1 where x: "processor wc wo job w = (x, w1)" by fastforce
  then have w1: "leads w w1" using assms(2) unfolding processor_leads_def by (metis snd_conv)
  have "leads w w2" if "report_failure wc wo job e retryable code w1 = (y, w2)" for e retryable code y w2
    using leads_trans[OF w1 report_failure_leads[OF assms(1) that]] .
  with assms(3) x w1 show ?thesis
    by (auto simp: handle_claimed_job_def split: sum.splits worker_error.splits prod.splits)
qed

lemma claims_lead:
  assumes "runs_on wo" "q < 3" "claims wc ! q = (path, payload, processor)"
  shows "processor_leads wo processor"
proof -
  from assms(2) have "q \<in> {0, 1, 2}" by auto
  then show ?thesis using processors_lead[OF assms(1)] assms(3) by (auto simp: claims_def)
qed

lemma poll_leads:
  "runs_on wo \<Longrightarrow> poll_claims wc wo cursor offsets w = (r, c, w') \<Longrightarrow> leads w w'"
proof (induction offsets arbitrary: w)
  case Nil
  then show ?case by (simp add: leads_refl)
next
  case (Cons offset offsets)
  let ?q = "(cursor + offset) mod 3"
  obtain path payload and processor :: "'w processor" where q: "claims wc ! ?q = (path, payload, processor)"
    by (metis prod_cases3)
  obtain x w1 where x: "post_job wc wo False path payload w = (x, w1)" by fastforce
  have w1: "leads w w1" using post_job_leads[OF Cons.prems(1) x] .
  show ?case
  proof (cases x)
    case (Inr body)
    show ?thesis
    proof (cases body)
      case NoJob
      then show ?thesis using Cons q x Inr leads_trans[OF w1] by (simp add: Let_def)
    next
      case NotAJob
      then show ?thesis using Cons.prems q x Inr w1 by (simp add: Let_def)
    next
      case (ClaimedJob job)
      obtain e p w2 where h: "handle_claimed_job wc wo processor job w1 = (e, p, w2)" by (metis prod_cases3)
      have "leads w w2"
        by (rule leads_trans[OF w1 handle_leads[OF Cons.prems(1) claims_lead[OF Cons.prems(1) _ q] h]]) simp
      then show ?thesis using Cons.prems q x Inr ClaimedJob h by (auto simp: Let_def split: option.splits)
    qed
  qed (use Cons.prems q x w1 in \<open>simp add: Let_def\<close>)
qed

lemma worker_turn_leads:
  assumes "runs_on wo" "worker_turn wc wo fatal jitter poll_jitter st w = (t, st', w')"
  shows "leads w w'"
proof -
  obtain r c w1 where p: "work_once wc wo (ws_cursor st) w = (r, c, w1)" by (metis prod_cases3)
  have "leads w w1" using poll_leads[OF assms(1) p[unfolded work_once_def]] .
  with assms(2) p leads_refl show ?thesis
    by (auto simp: worker_turn_def split: option.splits sum.splits prod.splits)
qed

lemma worker_loop_leads:
  "runs_on wo \<Longrightarrow> worker_loop wc wo turns st w = (e, st', w') \<Longrightarrow> leads w w'"
proof (induction turns arbitrary: st w)
  case Nil
  then show ?case by (simp add: leads_refl)
next
  case (Cons x turns)
  obtain fatal jitter poll_jitter where x: "x = (fatal, jitter, poll_jitter)" by (metis prod_cases3)
  obtain t st1 w1 where t: "worker_turn wc wo fatal jitter poll_jitter st w = (t, st1, w1)" by (metis prod_cases3)
  have w1: "leads w w1" using worker_turn_leads[OF Cons.prems(1) t] .
  show ?case
    using Cons t leads_trans[OF w1] w1 by (cases t) (auto simp: x)
qed

lemma run_worker_leads:
  assumes "runs_on wo" "run_worker wc wo turns w = (e, w')"
  shows "leads w w'"
proof (cases "require_config (wo_bracketed wo) wc")
  case None
  obtain x st1 w1 where l: "worker_loop wc wo turns \<lparr>ws_cursor = 0, ws_errors = 0\<rparr> w = (x, st1, w1)" by (metis prod_cases3)
  obtain r w2 where s: "send_presence wc wo False set_draining w1 = (r, w2)" by fastforce
  have "leads w w2"
    using leads_trans[OF worker_loop_leads[OF assms(1) l]] post_job_leads[OF assms(1)] s by (auto simp: send_presence_def)
  then show ?thesis using assms(2) None l s by (simp add: run_worker_def)
qed (use assms(2) leads_refl in \<open>simp add: run_worker_def\<close>)

end

section \<open>The service behind its routes\<close>

text \<open>What the requests of a run meet, by the number of the request: the draws and clocks of each handler.\<close>

record link_env =
  li_cfg :: settings
  li_service :: service_env
  li_token :: str
  li_started_at :: "str \<Rightarrow> time"
  li_claim :: "nat \<Rightarrow> claim_env"
  li_complete :: "nat \<Rightarrow> complete_env"
  li_fail :: "nat \<Rightarrow> fail_env"
  li_verify_now :: "nat \<Rightarrow> time"
  li_now :: "nat \<Rightarrow> time"

definition queue_of_path :: "str \<Rightarrow> job_model option" where
  "queue_of_path kind =
    (if kind = ''photo-jobs'' then Some PhotoJobs else if kind = ''face-jobs'' then Some ParticipantFaceJobs
     else if kind = ''face-search-jobs'' then Some FaceSearchJobs else None)"

definition path_of_queue :: "job_model \<Rightarrow> str" where
  "path_of_queue m = (case m of PhotoJobs \<Rightarrow> ''photo-jobs'' | ParticipantFaceJobs \<Rightarrow> ''face-jobs''
     | FaceSearchJobs \<Rightarrow> ''face-search-jobs'')"

text \<open>A route answers 404 for an unknown path and 422 for a body that is not its own.\<close>

definition claim_route :: "link_env \<Rightarrow> nat \<Rightarrow> job_model \<Rightarrow> worker_payload \<Rightarrow> int + worker_call" where
  "claim_route env n m payload = (case payload of
     ClaimPayload types \<Rightarrow>
       (case m of
          PhotoJobs \<Rightarrow> Inr (CallClaimPhoto (li_claim env n) (case types of None \<Rightarrow> [''ocr'', ''face_photo_scan''] | Some ts \<Rightarrow> ts))
        | ParticipantFaceJobs \<Rightarrow> Inr (CallClaimFace (li_claim env n))
        | FaceSearchJobs \<Rightarrow> Inr (CallClaimSearch (li_claim env n)))
   | _ \<Rightarrow> Inl 422)"

definition complete_route :: "link_env \<Rightarrow> nat \<Rightarrow> job_model \<Rightarrow> uuid \<Rightarrow> worker_payload \<Rightarrow> int + worker_call" where
  "complete_route env n m i payload = (case (m, payload) of
     (PhotoJobs, PhotoPayload r) \<Rightarrow> Inr (CallCompletePhoto (li_complete env n) i r)
   | (ParticipantFaceJobs, EmbeddingPayload r) \<Rightarrow> Inr (CallCompleteFace (li_complete env n) i r)
   | (FaceSearchJobs, EmbeddingPayload r) \<Rightarrow> Inr (CallCompleteSearch (li_complete env n) i r)
   | _ \<Rightarrow> Inl 422)"

definition job_route :: "link_env \<Rightarrow> nat \<Rightarrow> job_model \<Rightarrow> uuid \<Rightarrow> str \<Rightarrow> worker_payload \<Rightarrow> int + worker_call" where
  "job_route env n m i operation payload =
    (if operation = ''complete'' then complete_route env n m i payload
     else if operation = ''fail'' then
       (case payload of FailPayload r \<Rightarrow> Inr (CallFail m (li_fail env n) i r) | _ \<Rightarrow> Inl 422)
     else if operation = ''heartbeat'' then
       (case payload of AttemptPayload a \<Rightarrow> Inr (CallHeartbeat m (li_verify_now env n) (li_now env n) i a) | _ \<Rightarrow> Inl 422)
     else Inl 404)"

definition presence_route :: "link_env \<Rightarrow> nat \<Rightarrow> worker_payload \<Rightarrow> int + worker_call" where
  "presence_route env n payload = (case payload of
     PresencePayload p \<Rightarrow>
       (let job = map_option parse_uuid (pl_current_job_id p)
        in if job = Some None then Inl 422
           else Inr (CallWorkerHeartbeat (li_now env n)
             \<lparr>hq_worker_id = pl_worker_id p, hq_worker_version = pl_worker_version p,
              hq_started_at = li_started_at env (pl_started_at p), hq_status = pl_status p,
              hq_current_job_id = Option.bind job id, hq_current_job_type = pl_current_job_type p\<rparr>))
   | _ \<Rightarrow> Inl 422)"

definition route :: "link_env \<Rightarrow> nat \<Rightarrow> str \<Rightarrow> worker_payload \<Rightarrow> int + worker_call" where
  "route env n path payload = (case split_on CHR ''/'' path of
     [a, b, c, d] \<Rightarrow>
       if [a, b, c, d] = [[], ''internal'', ''worker'', ''heartbeat''] then presence_route env n payload else Inl 404
   | [a, b, c, kind, d] \<Rightarrow>
       (case queue_of_path kind of
          Some m \<Rightarrow> if [a, b, c, d] = [[], ''internal'', ''worker'', ''claim''] then claim_route env n m payload else Inl 404
        | None \<Rightarrow> Inl 404)
   | [a, b, c, kind, i, operation] \<Rightarrow>
       (case queue_of_path kind of
          Some m \<Rightarrow>
            if [a, b, c] = [[], ''internal'', ''worker'']
            then (case parse_uuid i of Some u \<Rightarrow> job_route env n m u operation payload | None \<Rightarrow> Inl 422)
            else Inl 404
        | None \<Rightarrow> Inl 404)
   | _ \<Rightarrow> Inl 404)"

text \<open>What the worker reads of an answer.  A claim always carries the id of its attempt.\<close>

definition claimed_of :: "job_claim \<times> claim_object \<Rightarrow> backend_body" where
  "claimed_of c = (case c of (jc, co) \<Rightarrow>
     (case jc_attempt_id jc of
        None \<Rightarrow> NotAJob
      | Some a \<Rightarrow> ClaimedJob \<lparr>cd_id = jc_id jc, cd_job_type = job_type_str (jc_job_type jc), cd_attempt_id = a,
          cd_lease_seconds = Some (jc_lease_seconds jc), cd_heartbeat_path = jc_heartbeat_path jc,
          cd_download_url = co_download_url co\<rparr>))"

definition reply_of :: "worker_answer result \<Rightarrow> backend_body reply" where
  "reply_of r = (case r of
     Inr (AnsClaim (Some c)) \<Rightarrow> Reply 200 [] (Object (claimed_of c))
   | Inr _ \<Rightarrow> Reply 200 [] (Object NoJob)
   | Inl (HTTPException code _) \<Rightarrow> Reply code [] (Object NoJob)
   | Inl _ \<Rightarrow> Reply 500 [] NotJson)"

definition backend_send :: "link_env \<Rightarrow> str \<Rightarrow> worker_payload \<Rightarrow> db \<times> nat \<Rightarrow> backend_body reply \<times> db \<times> nat" where
  "backend_send env path payload w = (case w of (d, n) \<Rightarrow>
     (case route env n path payload of
        Inl code \<Rightarrow> (Reply code [] (Object NoJob), d, n + 1)
      | Inr call \<Rightarrow>
          (case serve (li_cfg env) (li_service env) (Some (''Bearer '' @ li_token env)) None call d of
             (r, d') \<Rightarrow> (reply_of r, d', n + 1))))"

definition store_get :: "(str \<Rightarrow> get_reply) \<Rightarrow> str \<Rightarrow> db \<times> nat \<Rightarrow> get_reply \<times> db \<times> nat" where
  "store_get store url w = (store url, w)"

interpretation service_plane:
  control_plane "backend_send env" "store_get store" "\<lambda>w w'. reaches (li_cfg env) (fst w) (fst w')" for env store
proof unfold_locales
  fix w :: "db \<times> nat" and path payload
  obtain d n where w: "w = (d, n)" by (cases w)
  show "reaches (li_cfg env) (fst w) (fst (snd (backend_send env path payload w)))"
  proof (cases "route env n path payload")
    case (Inr call)
    have "worker_step (li_cfg env) d (snd (serve (li_cfg env) (li_service env) (Some (''Bearer '' @ li_token env)) None call d))"
      by (rule worker_step.call)
    then show ?thesis using Inr by (auto simp: backend_send_def w split: prod.splits)
  qed (simp add: backend_send_def w)
qed (auto simp: store_get_def)

end
