(* ===== verification/WorkerProcessFacts.thy ===== *)
theory WorkerProcessFacts
  imports WorkerProcess
begin

text \<open>
  What the worker process promises: its requests are few and its delays short, a download is never larger than
  the limit, the text detections are what the answer of Google Vision contains, every failure report is one the
  backend accepts, and no queue waits for ever behind the others.
\<close>

section \<open>Bounded requests\<close>

definition fair_draws :: "(nat \<Rightarrow> real) \<Rightarrow> bool" where
  "fair_draws uniform \<longleftrightarrow> (\<forall>n. 3 / 4 \<le> uniform n \<and> uniform n \<le> 5 / 4)"

definition short_delay :: "real \<Rightarrow> bool" where
  "short_delay d \<longleftrightarrow> 1 / 20 \<le> d \<and> d \<le> 60"

lemma retry_delay_short:
  assumes "3 / 4 \<le> u" "u \<le> 5 / 4"
  shows "short_delay (worker_retry_delay wc u attempt retry_after)"
proof -
  let ?e = "min 30 (WORKER_HTTP_BACKOFF_SECONDS wc * 2 ^ attempt)"
  have "?e * u \<le> 60"
  proof (cases "0 \<le> ?e")
    case True
    then have "?e * u \<le> 30 * (5 / 4)" using assms by (intro mult_mono) auto
    then show ?thesis by simp
  next
    case False
    then have "?e * u \<le> 0" using assms by (intro mult_nonpos_nonneg) auto
    then show ?thesis by simp
  qed
  then have "short_delay (max (5 / 100) (?e * u))" by (simp add: short_delay_def)
  then show ?thesis
    by (auto simp: worker_retry_delay_def Let_def short_delay_def split: option.splits)
qed

lemma post_attempts_delays:
  assumes "fair_draws uniform" "post_attempts wc uniform send attempt n w = (r, ds, w')"
  shows "length ds \<le> n - 1 \<and> list_all short_delay ds"
  using assms(2)
proof (induction n arbitrary: attempt w r ds w')
  case (Suc left)
  have d: "short_delay (worker_retry_delay wc (uniform attempt) attempt h)" for h
    using assms(1) unfolding fair_draws_def by (intro retry_delay_short) blast+
  obtain reply w1 where s: "send w = (reply, w1)" by fastforce
  obtain r1 ds1 w2 where p: "post_attempts wc uniform send (attempt + 1) left w1 = (r1, ds1, w2)" by (metis prod_cases3)
  from Suc.IH[OF p] Suc.prems s p d show ?case by (auto split: reply.splits if_splits)
qed simp

text \<open>The requests of the worker.  A request that is not safe to repeat is sent once; any other at
  most as often as configured, which is ten times at most; and each delay between two attempts is at least a
  twentieth of a second and at most a minute, whatever the backend answers.\<close>

theorem post_bounded:
  assumes "require_config bracketed_ok wc = None" "fair_draws uniform"
    and "post_with wc uniform retry_safe send w = (r, ds, w')"
  shows "length ds + 1 \<le> (if retry_safe then nat (WORKER_HTTP_RETRIES wc) else 1) \<and>
    nat (WORKER_HTTP_RETRIES wc) \<le> 10 \<and> list_all short_delay ds"
proof -
  have "1 \<le> WORKER_HTTP_RETRIES wc" "WORKER_HTTP_RETRIES wc \<le> 10"
    using assms(1) by (auto simp: require_config_def config_error_def split: option.splits if_splits)
  with post_attempts_delays[OF assms(2) assms(3)[unfolded post_with_def]] show ?thesis by auto
qed

section \<open>Downloads\<close>

lemma read_chunk_list_bound:
  "read_chunk_list limit chunks ends received = Some (Inr bytes) \<Longrightarrow> int (length received) \<le> limit \<Longrightarrow>
   bytes \<noteq> [] \<and> int (length bytes) \<le> limit"
  by (induction limit chunks ends received rule: read_chunk_list.induct) (auto split: if_splits)

lemma download_attempts_bound:
  assumes "download_attempts wc uniform get attempt n w = (Inr bytes, ds, w')" "0 \<le> WORKER_MAX_DOWNLOAD_BYTES wc"
  shows "bytes \<noteq> [] \<and> int (length bytes) \<le> WORKER_MAX_DOWNLOAD_BYTES wc"
  using assms(1)
proof (induction n arbitrary: attempt w ds w')
  case (Suc left)
  obtain reply w1 where s: "get w = (reply, w1)" by fastforce
  obtain r1 ds1 w2 where p: "download_attempts wc uniform get (attempt + 1) left w1 = (r1, ds1, w2)" by (metis prod_cases3)
  show ?case
  proof (cases "read_reply wc reply = Some (Inr bytes)")
    case True
    then have "read_chunk_list (WORKER_MAX_DOWNLOAD_BYTES wc) (gr_chunks reply) (gr_ends reply) [] = Some (Inr bytes)"
      by (simp add: read_reply_def split: if_splits)
    from read_chunk_list_bound[OF this] assms(2) show ?thesis by simp
  next
    case False
    then have "r1 = Inr bytes" using Suc.prems s p
      by (cases reply) (auto simp: Let_def split: if_splits option.splits)
    with Suc.IH p show ?thesis by blast
  qed
qed simp

text \<open>What the worker downloads.  Whatever the storage sends, in whatever chunks, with or without a
  truthful length, an image the worker goes on with is not empty and not larger than the limit.\<close>

theorem download_bounded:
  assumes "require_config bracketed_ok wc = None"
    and "download_with wc uniform bracketed_ok get url w = (Inr bytes, ds, w')"
  shows "bytes \<noteq> [] \<and> int (length bytes) \<le> WORKER_MAX_DOWNLOAD_BYTES wc"
proof -
  have limit: "0 \<le> WORKER_MAX_DOWNLOAD_BYTES wc"
    using assms(1) by (auto simp: require_config_def config_error_def split: option.splits if_splits)
  have "\<exists>u. download_attempts wc uniform (get u) 0 (nat (WORKER_HTTP_RETRIES wc)) w = (Inr bytes, ds, w')"
  proof (cases url)
    case None
    with assms(2) show ?thesis by (simp add: download_with_def)
  next
    case (Some u)
    with assms(2) have "download_attempts wc uniform (get u) 0 (nat (WORKER_HTTP_RETRIES wc)) w = (Inr bytes, ds, w')"
      by (simp add: download_with_def split: option.splits if_splits)
    then show ?thesis by blast
  qed
  then obtain u where "download_attempts wc uniform (get u) 0 (nat (WORKER_HTTP_RETRIES wc)) w = (Inr bytes, ds, w')" ..
  from download_attempts_bound[OF this limit] show ?thesis .
qed

section \<open>Text detections\<close>

lemma add_detections:
  assumes "foldl add_detection ([], {}) ds = (taken, seen)"
  shows "seen = dedupe_key ` set taken \<and> distinct (map dedupe_key taken) \<and> set taken \<subseteq> set ds \<and>
    dedupe_key ` set taken = dedupe_key ` {d \<in> set ds. or_normalized_text d \<noteq> []} \<and>
    list_all (\<lambda>d. or_normalized_text d \<noteq> []) taken"
  using assms
proof (induction ds arbitrary: taken seen rule: rev_induct)
  case (snoc d ds)
  obtain t1 s1 where f: "foldl add_detection ([], {}) ds = (t1, s1)" by fastforce
  note ih = snoc.IH[OF f]
  have step: "(taken, seen) = add_detection (t1, s1) d" using snoc.prems f by simp
  show ?case
  proof (cases "or_normalized_text d = [] \<or> dedupe_key d \<in> s1")
    case True
    then have t: "taken = t1" "seen = s1" using step by (simp_all add: add_detection_def)
    have "dedupe_key ` {x \<in> set (ds @ [d]). or_normalized_text x \<noteq> []} = dedupe_key ` {x \<in> set ds. or_normalized_text x \<noteq> []}"
      using True ih by (cases "or_normalized_text d = []") (auto simp: image_iff)
    with t ih show ?thesis by auto
  next
    case False
    then have t: "taken = t1 @ [d]" "seen = insert (dedupe_key d) s1" using step by (simp_all add: add_detection_def)
    have "{x \<in> set (ds @ [d]). or_normalized_text x \<noteq> []} = insert d {x \<in> set ds. or_normalized_text x \<noteq> []}"
      using False by auto
    with t ih False show ?thesis by auto
  qed
qed simp

lemma taken_detections_exact:
  "distinct (map dedupe_key (taken_detections ds))" "set (taken_detections ds) \<subseteq> set ds"
  "dedupe_key ` set (taken_detections ds) = dedupe_key ` {d \<in> set ds. or_normalized_text d \<noteq> []}"
  using add_detections[OF surjective_pairing] by (auto simp: taken_detections_def)

text \<open>The text detections of an image.  When any word of the answer has a text, the detections
  are made of the words, else of the annotations after the first; each text at a place is reported once, none is
  left out and none made up, and they come from top to bottom, then from left to right.\<close>

theorem ocr_detections_exact:
  "let words = word_detections (vr_pages response);
       found = (if filter (\<lambda>d. or_normalized_text d \<noteq> []) words \<noteq> [] then words
         else map annotation_detection (List.enumerate 1 (drop 1 (vr_text_annotations response))));
       detections = extract_google_ocr_detections response
   in distinct (map dedupe_key detections) \<and> set detections \<subseteq> set found \<and>
      dedupe_key ` set detections = dedupe_key ` {d \<in> set found. or_normalized_text d \<noteq> []} \<and>
      sorted (map detection_order detections)"
proof -
  have sorted: "distinct (map dedupe_key (sort_ocr_detections (taken_detections ds)))"
    "set (sort_ocr_detections (taken_detections ds)) \<subseteq> set ds"
    "dedupe_key ` set (sort_ocr_detections (taken_detections ds)) = dedupe_key ` {d \<in> set ds. or_normalized_text d \<noteq> []}"
    "sorted (map detection_order (sort_ocr_detections (taken_detections ds)))" for ds
  proof -
    have "mset (map dedupe_key (sort_ocr_detections (taken_detections ds))) = mset (map dedupe_key (taken_detections ds))"
      by (simp add: sort_ocr_detections_def)
    then show "distinct (map dedupe_key (sort_ocr_detections (taken_detections ds)))"
      using taken_detections_exact(1) mset_eq_imp_distinct_iff by blast
  qed (use taken_detections_exact in \<open>simp_all add: sort_ocr_detections_def\<close>)
  have some: "filter (\<lambda>d. or_normalized_text d \<noteq> []) ds = [] \<longleftrightarrow> taken_detections ds = []" for ds
  proof -
    have "taken_detections ds = [] \<longleftrightarrow> dedupe_key ` set (taken_detections ds) = {}" by simp
    also have "\<dots> \<longleftrightarrow> {d \<in> set ds. or_normalized_text d \<noteq> []} = {}"
      unfolding taken_detections_exact(3) by (rule image_is_empty)
    finally show ?thesis by (simp add: filter_empty_conv Ball_def)
  qed
  define found where "found = (if filter (\<lambda>d. or_normalized_text d \<noteq> []) (word_detections (vr_pages response)) \<noteq> []
    then word_detections (vr_pages response)
    else map annotation_detection (List.enumerate 1 (drop 1 (vr_text_annotations response))))"
  have "extract_google_ocr_detections response = sort_ocr_detections (taken_detections found)"
    by (simp add: found_def extract_google_ocr_detections_def Let_def some)
  then show ?thesis using sorted[of found] unfolding Let_def found_def[symmetric] by simp
qed

section \<open>Failure reports\<close>

text \<open>The codes \<^verbatim>\<open>handle_claimed_job\<close> reports with.\<close>

definition report_codes :: "str list" where
  "report_codes = [''invalid_job_input'', ''transient_processing_error'', ''unexpected_processing_error'']"

lemma report_codes_valid: "list_all (\<lambda>c. length_between 1 64 c \<and> list_all code_char c) report_codes"
  by code_simp

lemma failure_report_valid:
  assumes "error_class e \<noteq> []" "code \<in> set report_codes"
  shows "validate_fail_request (failure_report job e retryable code) = Inr (failure_report job e retryable code)"
proof -
  have "length_between 1 64 code \<and> list_all code_char code"
    by (rule bspec[OF list_all_iff[THEN iffD1, OF report_codes_valid] assms(2)])
  moreover have "length_between 1 2000 (fr_error_message (failure_report job e retryable code))"
    using assms(1) by (simp add: failure_report_def Let_def length_between_def Suc_le_eq)
  moreover have "fr_error_code (failure_report job e retryable code) = Some code"
    by (simp add: failure_report_def Let_def)
  ultimately show ?thesis by (simp add: validate_fail_request_def)
qed

section \<open>Turns between the queues\<close>

text \<open>The turns of the poller one after the other: what each answers and where it leaves the cursor.\<close>

fun work_turns :: "worker_config \<Rightarrow> 'w world \<Rightarrow> nat \<Rightarrow> nat \<Rightarrow> 'w \<Rightarrow> (bool outcome_of \<times> nat) list" where
  "work_turns wc wo 0 cursor w = []"
| "work_turns wc wo (Suc n) cursor w =
    (case work_once wc wo cursor w of (r, cursor', w') \<Rightarrow> (r, cursor') # work_turns wc wo n cursor' w')"

definition claim_queue :: "worker_config \<Rightarrow> 'w world \<Rightarrow> nat \<Rightarrow> 'w \<Rightarrow> backend_body outcome_of \<times> 'w" where
  "claim_queue wc wo q w = (case claims wc ! q of (path, payload, _ :: 'w processor) \<Rightarrow> post_job wc wo False path payload w)"

definition handle_queue :: "worker_config \<Rightarrow> 'w world \<Rightarrow> nat \<Rightarrow> worker_job \<Rightarrow> 'w \<Rightarrow> worker_error option \<times> presence \<times> 'w" where
  "handle_queue wc wo q job w = (case claims wc ! q of (_, _, processor) \<Rightarrow> handle_claimed_job wc wo processor job w)"

text \<open>The backend answers every claim properly, and no job makes the handler raise.\<close>

definition smooth :: "worker_config \<Rightarrow> 'w world \<Rightarrow> bool" where
  "smooth wc wo \<longleftrightarrow> (\<forall>q w. q < 3 \<longrightarrow>
     (fst (claim_queue wc wo q w) = Inr NoJob \<or>
      (\<exists>job. fst (claim_queue wc wo q w) = Inr (ClaimedJob job) \<and>
         fst (handle_queue wc wo q job (snd (claim_queue wc wo q w))) = None)))"

text \<open>A job waits in a queue whenever the queue is asked.\<close>

definition busy_queue :: "worker_config \<Rightarrow> 'w world \<Rightarrow> nat \<Rightarrow> bool" where
  "busy_queue wc wo q \<longleftrightarrow> (\<forall>w. fst (claim_queue wc wo q w) \<noteq> Inr NoJob)"

lemma poll_claims_Cons:
  "poll_claims wc wo cursor (offset # offsets) w =
    (let q = (cursor + offset) mod 3 in
     case claim_queue wc wo q w of
       (Inl e, w1) \<Rightarrow> (Inl e, cursor, w1)
     | (Inr NoJob, w1) \<Rightarrow> poll_claims wc wo cursor offsets w1
     | (Inr NotAJob, w1) \<Rightarrow> (Inl (ControlPlaneError ''Backend returned an invalid job payload.''), cursor, w1)
     | (Inr (ClaimedJob job), w1) \<Rightarrow>
         (case handle_queue wc wo q job w1 of
            (Some e, _, w2) \<Rightarrow> (Inl e, (q + 1) mod 3, w2)
          | (None, _, w2) \<Rightarrow> (Inr True, (q + 1) mod 3, w2)))"
  by (simp add: Let_def claim_queue_def handle_queue_def split: prod.splits sum.splits backend_body.splits option.splits)

lemma poll_serves:
  assumes "smooth wc wo" "busy_queue wc wo q" "(cursor + k) mod 3 = q" "k < 3" "offset \<le> k"
  shows "\<exists>j w'. offset \<le> j \<and> j \<le> k \<and>
    poll_claims wc wo cursor [offset..<3] w = (Inr True, ((cursor + j) mod 3 + 1) mod 3, w')"
  using assms(5)
proof (induction "k - offset" arbitrary: offset w rule: less_induct)
  case less
  let ?i = "(cursor + offset) mod 3"
  have up: "[offset..<3] = offset # [Suc offset..<3]" using less.prems assms(4) by (simp add: upt_conv_Cons)
  obtain r w1 where c: "claim_queue wc wo ?i w = (r, w1)" by fastforce
  have "?i < 3" by simp
  with assms(1) c consider "r = Inr NoJob"
    | job where "r = Inr (ClaimedJob job)" "fst (handle_queue wc wo ?i job w1) = None"
    unfolding smooth_def by (metis fst_conv snd_conv)
  then show ?case
  proof cases
    case 1
    then have "offset \<noteq> k" using assms(2,3) c unfolding busy_queue_def by (metis fst_conv)
    with less.prems have "offset < k" by simp
    then have "k - Suc offset < k - offset" by simp
    from less.hyps[OF this, of w1] \<open>offset < k\<close> obtain j w' where
      "Suc offset \<le> j" "j \<le> k" "poll_claims wc wo cursor [Suc offset..<3] w1 = (Inr True, ((cursor + j) mod 3 + 1) mod 3, w')"
      by (auto simp: Suc_le_eq)
    then show ?thesis using c 1 unfolding up poll_claims_Cons Let_def by (intro exI[of _ j] exI[of _ w']) simp
  next
    case 2
    obtain x y w2 where h: "handle_queue wc wo ?i job w1 = (x, y, w2)" by (metis prod_cases3)
    show ?thesis
      using c 2 h less.prems unfolding up poll_claims_Cons Let_def by (intro exI[of _ offset] exI[of _ w2]) simp
  qed
qed

lemma turns_serve:
  assumes "smooth wc wo" "busy_queue wc wo q" "(cursor + k) mod 3 = q" "k < 3" "k < n"
  shows "(Inr True, (q + 1) mod 3) \<in> set (work_turns wc wo n cursor w)"
  using assms(3-5)
proof (induction k arbitrary: cursor n w rule: less_induct)
  case (less k)
  obtain n' where n: "n = Suc n'" using less.prems(3) by (cases n) auto
  have three: "[0, 1, 2] = [0..<3::nat]" by (simp add: upt_rec)
  obtain j w' where j: "j \<le> k" "work_once wc wo cursor w = (Inr True, ((cursor + j) mod 3 + 1) mod 3, w')"
    using poll_serves[OF assms(1,2) less.prems(1,2), of 0 w] unfolding work_once_def three by blast
  show ?case
  proof (cases "j = k")
    case True
    with j less.prems(1) show ?thesis by (simp add: n)
  next
    case False
    let ?c = "((cursor + j) mod 3 + 1) mod 3"
    have lt: "k - j - 1 < k" using False j(1) by simp
    have "cursor + j + 1 + (k - j - 1) = cursor + k" using False j(1) by simp
    then have "(?c + (k - j - 1)) mod 3 = q" using less.prems(1) by (metis mod_add_left_eq)
    from less.IH[OF lt this, of n' w'] less.prems(2,3) lt n j show ?thesis by simp
  qed
qed

text \<open>C17 (liveness): no queue is left waiting.  As long as the backend answers the claims and no job makes the
  handler raise, a queue that always holds a job is served within three turns, wherever the poller stands and
  however full the other two queues are: serving queue \<^verbatim>\<open>q\<close> is what leaves the cursor behind it.\<close>

theorem no_queue_starves:
  assumes "smooth wc wo" "busy_queue wc wo q" "q < 3" "cursor < 3"
  shows "(Inr True, (q + 1) mod 3) \<in> set (work_turns wc wo 3 cursor w)"
proof -
  have "\<exists>k < 3. (cursor + k) mod 3 = q"
  proof (cases "cursor \<le> q")
    case True
    with assms(3) show ?thesis by (intro exI[of _ "q - cursor"]) auto
  next
    case False
    with assms(3,4) show ?thesis by (intro exI[of _ "q + 3 - cursor"]) auto
  qed
  with turns_serve[OF assms(1,2)] show ?thesis by blast
qed

text \<open>One failing queue stops the others.  The cursor only moves when a turn ends without an error,
  so when it stands at a queue whose claims keep failing, every turn ends at that queue: the other two are never
  asked again, whatever waits in them.\<close>

theorem failing_queue_starves_others:
  assumes "cursor < 3" "\<And>w. \<exists>m w'. claim_queue wc wo cursor w = (Inl (ControlPlaneError m), w')"
  shows "list_all (\<lambda>(r, c). (\<exists>m. r = Inl (ControlPlaneError m)) \<and> c = cursor) (work_turns wc wo n cursor w)"
proof (induction n arbitrary: w)
  case (Suc n)
  obtain m w' where "claim_queue wc wo cursor w = (Inl (ControlPlaneError m), w')" using assms(2) by blast
  then have "work_once wc wo cursor w = (Inl (ControlPlaneError m), cursor, w')"
    using assms(1) by (simp add: work_once_def poll_claims_Cons del: poll_claims.simps)
  with Suc show ?case by simp
qed simp

section \<open>A small world\<close>

definition demo_worker :: worker_config where
  "demo_worker = default_worker_config\<lparr>BACKEND_BASE_URL := ''https://race.example'', WORKER_API_TOKEN := ''token''\<rparr>"

lemma demo_worker_ok: "require_config (\<lambda>_. False) demo_worker = None"
  by code_simp

definition demo_claimed :: worker_job where
  "demo_claimed = \<lparr>cd_id = ''4'', cd_job_type = ''face_photo_scan'', cd_attempt_id = 7, cd_lease_seconds = Some 300,
     cd_heartbeat_path = ''/internal/worker/photo-jobs/4/heartbeat'', cd_download_url = Some ''https://store/x.jpg''\<rparr>"

text \<open>The queue of photos always holds a job, an image without faces; the other queues are empty.\<close>

definition demo_world :: "unit world" where
  "demo_world = \<lparr>wo_send = (\<lambda>path _ w. (Reply 200 [] (Object
       (if path = ''/internal/worker/photo-jobs/claim'' then ClaimedJob demo_claimed else NoJob)), w)),
     wo_get = (\<lambda>_ w. (GetReply 200 [] [] [[1]] True, w)), wo_owned = (\<lambda>_ _. None), wo_uniform = (\<lambda>_. 1),
     wo_bracketed = (\<lambda>_. False),
     wo_images = \<lparr>ie_open = (\<lambda>_. Opened 640 480 1 Verified), ie_decode = (\<lambda>_. Some (640, 480)), ie_faces = (\<lambda>_ _. [])\<rparr>,
     wo_vision = (\<lambda>_. VisionRaised ''Timeout''), wo_duration = 1\<rparr>"

lemma demo_claims:
  "claim_queue demo_worker demo_world 0 () = (Inr NoJob, ())"
  "claim_queue demo_worker demo_world 1 () = (Inr NoJob, ())"
  "claim_queue demo_worker demo_world 2 () = (Inr (ClaimedJob demo_claimed), ())"
  by (simp_all add: claim_queue_def claims_def post_job_def post_with_def demo_world_def settled_reply_def transient_status_def)

lemma demo_handled: "fst (handle_queue demo_worker demo_world 2 demo_claimed ()) = None"
proof -
  have "download_job demo_worker demo_world demo_claimed () = (Inr [1], ())" by code_simp
  moreover have "scan_faces demo_worker (wo_images demo_world) [1] = Inr []"
    by (simp add: scan_faces_def scan_with_detection_count_def validate_image_header_def resized_def demo_world_def
        demo_worker_def default_worker_config_def List.map_filter_def)
  moreover have "post_operation demo_worker demo_world demo_claimed ''complete'' p () = (Inr NoJob, ())" for p
  proof -
    have "operation_path demo_claimed ''complete'' = Inr ''/internal/worker/photo-jobs/4/complete''" by code_simp
    then show ?thesis by (simp add: post_operation_def post_job_def post_with_def demo_world_def settled_reply_def
        transient_status_def demo_worker_def default_worker_config_def eval_nat_numeral)
  qed
  moreover have "wo_owned demo_world n w = None" for n w by (simp add: demo_world_def)
  ultimately have "process_photo_job demo_worker demo_world demo_claimed () = (Inr (), ())"
    by (simp add: process_photo_job_def process_with_def demo_claimed_def)
  then show ?thesis by (simp add: handle_queue_def claims_def handle_claimed_job_def)
qed

lemma demo_smooth: "smooth demo_worker demo_world"
proof -
  have "fst (claim_queue demo_worker demo_world q w) = Inr NoJob \<or>
      (\<exists>job. fst (claim_queue demo_worker demo_world q w) = Inr (ClaimedJob job) \<and>
         fst (handle_queue demo_worker demo_world q job (snd (claim_queue demo_worker demo_world q w))) = None)"
    if "q < 3" for q w
  proof -
    from that have "q \<in> {0, 1, 2}" by auto
    then show ?thesis using demo_claims demo_handled by (cases w) auto
  qed
  then show ?thesis by (simp add: smooth_def)
qed

lemma no_queue_starves_witness:
  "(Inr True, 0) \<in> set (work_turns demo_worker demo_world 3 1 ())"
  using no_queue_starves[OF demo_smooth, of 2 1 "()"] demo_claims(3) by (simp add: busy_queue_def)

text \<open>The backend is down for the claims of search jobs.\<close>

definition broken_world :: "unit world" where
  "broken_world = demo_world\<lparr>wo_send := (\<lambda>path payload w.
     if path = ''/internal/worker/face-search-jobs/claim'' then (Reply 500 [] NotJson, w)
     else wo_send demo_world path payload w)\<rparr>"

lemma failing_queue_starves_others_witness:
  "list_all (\<lambda>(r, c). (\<exists>m. r = Inl (ControlPlaneError m)) \<and> c = 1) (work_turns demo_worker broken_world 100 1 ()) \<and>
   claim_queue demo_worker broken_world 2 () = (Inr (ClaimedJob demo_claimed), ())"
proof -
  have "claim_queue demo_worker broken_world 1 () = (Inl (ControlPlaneError (''Backend returned transient HTTP '' @ int_str 500 @ ''.'')), ())"
    by (simp add: claim_queue_def claims_def post_job_def post_with_def broken_world_def settled_reply_def transient_status_def)
  then have "\<exists>m w'. claim_queue demo_worker broken_world 1 w = (Inl (ControlPlaneError m), w')" for w
    by (cases w) blast
  moreover have "claim_queue demo_worker broken_world 2 () = (Inr (ClaimedJob demo_claimed), ())"
    by (simp add: claim_queue_def claims_def post_job_def post_with_def broken_world_def demo_world_def settled_reply_def
        transient_status_def)
  ultimately show ?thesis using failing_queue_starves_others[of 1 demo_worker broken_world 100 "()"] by simp
qed

lemma post_bounded_witness:
  "length (fst (snd (post_with demo_worker (\<lambda>_. 1) True (\<lambda>w. (RequestFailed :: nat reply, w + 1)) (0 :: nat)))) + 1 \<le> 10"
proof -
  obtain r ds w' where p: "post_with demo_worker (\<lambda>_. 1) True (\<lambda>w. (RequestFailed :: nat reply, w + 1)) (0 :: nat) = (r, ds, w')"
    by (metis prod_cases3)
  from post_bounded[OF demo_worker_ok _ p] p show ?thesis by (simp add: fair_draws_def)
qed

lemma download_bounded_witness:
  "\<exists>bytes ds. download_with demo_worker (\<lambda>_. 1) (\<lambda>_. False) (\<lambda>_ w. (GetReply 200 [] ''3'' [[1], [], [2, 3]] True, w))
     (Some ''https://store/x.jpg'') () = (Inr bytes, ds, ()) \<and> bytes = [1, 2, 3] \<and>
     int (length bytes) \<le> WORKER_MAX_DOWNLOAD_BYTES demo_worker"
proof -
  have d: "download_with demo_worker (\<lambda>_. 1) (\<lambda>_. False) (\<lambda>_ w. (GetReply 200 [] ''3'' [[1], [], [2, 3]] True, w))
     (Some ''https://store/x.jpg'') () = (Inr [1, 2, 3], [], ())" by code_simp
  from download_bounded[OF demo_worker_ok d] d show ?thesis by blast
qed

end
