(* ===== verification/WorkerSystemFacts.thy ===== *)
theory WorkerSystemFacts
  imports WorkerSystem WorkerProcessFacts
begin

text \<open>
  The worker against the service: a run of the process is a run of the service, and a job whose processing fails
  ends as the service promises for the failure the worker reports.
\<close>

section \<open>Runs\<close>


section \<open>Paths\<close>

lemma split_on_append: "c \<notin> set a \<Longrightarrow> split_on c (a @ c # b) = a # split_on c b"
  by (induction a) auto

lemma slash_free_uuid: "CHR ''/'' \<notin> set (uuid_str u)"
proof -
  have "\<forall>c \<in> set (padded_digits 16 32 (unat u)). hex_lower c" by (rule hex_lower_padded)
  moreover have "\<not> hex_lower CHR ''/''" by code_simp
  ultimately have "CHR ''/'' \<notin> set (padded_digits 16 32 (unat u))" by blast
  then show ?thesis by (auto simp: uuid_str_def Let_def dest: in_set_takeD in_set_dropD)
qed

lemma queue_of_path [simp]: "queue_of_path (path_of_queue m) = Some m"
  by (cases m) (simp_all add: queue_of_path_def path_of_queue_def)

lemma slash_free_queue: "CHR ''/'' \<notin> set (path_of_queue m)"
  by (cases m) (simp_all add: path_of_queue_def)

definition job_path :: "job_model \<Rightarrow> uuid \<Rightarrow> str \<Rightarrow> str" where
  "job_path m i operation = ''/internal/worker/'' @ path_of_queue m @ ''/'' @ uuid_str i @ ''/'' @ operation"

lemma route_job_path:
  assumes "CHR ''/'' \<notin> set operation"
  shows "route env n (job_path m i operation) payload = job_route env n m i operation payload"
proof -
  have "split_on CHR ''/'' (job_path m i operation) =
      [] # ''internal'' # ''worker'' # split_on CHR ''/'' (path_of_queue m @ CHR ''/'' # uuid_str i @ CHR ''/'' # operation)"
    by (simp add: job_path_def)
  also have "\<dots> = [[], ''internal'', ''worker'', path_of_queue m, uuid_str i, operation]"
    by (simp add: split_on_append slash_free_queue slash_free_uuid split_on_none assms)
  finally show ?thesis by (simp add: route_def)
qed

lemma operation_path_of:
  assumes "cd_heartbeat_path job = job_path m i ''heartbeat''"
  shows "operation_path job operation = Inr (job_path m i operation)"
  using assms by (simp add: operation_path_def job_path_def endswith_def suffix_def)

section \<open>A failed job\<close>

definition permanent :: "worker_error \<Rightarrow> bool" where
  "permanent e = (case e of PermanentJobError _ \<Rightarrow> True | _ \<Rightarrow> False)"

text \<open>The errors \<^verbatim>\<open>handle_claimed_job\<close> reports, and the code of each.\<close>

definition report_code :: "worker_error \<Rightarrow> str option" where
  "report_code e = (case e of
     PermanentJobError _ \<Rightarrow> Some ''invalid_job_input''
   | TransientJobError _ \<Rightarrow> Some ''transient_processing_error''
   | UnexpectedError c _ \<Rightarrow> if c = [] then None else Some ''unexpected_processing_error''
   | _ \<Rightarrow> None)"

lemma handled_error:
  assumes "processor wc wo job w = (Inl e, w1)" "report_code e = Some code"
  shows "handle_claimed_job wc wo processor job w =
    (case report_failure wc wo job e (\<not> permanent e) code w1 of (x, w2) \<Rightarrow> (x, set_idle, w2))"
  using assms by (cases e) (auto simp: handle_claimed_job_def report_code_def permanent_def split: if_splits)

lemma report_codes_known: "report_code e = Some code \<Longrightarrow> error_class e \<noteq> [] \<and> code \<in> set report_codes"
  by (cases e) (auto simp: report_code_def report_codes_def split: if_splits)

lemma post_answered:
  assumes "require_config bracketed_ok wc = None" "wo_send wo path payload w = (Reply 200 h (Object b), w1)"
  shows "post_job wc wo True path payload w = (Inr b, w1)"
proof -
  have "1 \<le> WORKER_HTTP_RETRIES wc"
    using assms(1) by (auto simp: require_config_def config_error_def split: option.splits if_splits)
  then obtain k where "nat (WORKER_HTTP_RETRIES wc) = Suc k" by (cases "nat (WORKER_HTTP_RETRIES wc)") auto
  then show ?thesis
    using assms(2) by (simp add: post_job_def post_with_def transient_status_def settled_reply_def)
qed

lemma reported_failure:
  assumes token: "require_worker_token (li_cfg env) (Some (''Bearer '' @ li_token env)) None = Inr ()"
    and found: "job_at m i d = Some j"
    and owned: "verify_active_attempt (fe_verify_now (li_fail env n)) j (fr_attempt_id req) True = Inr (InState Processing)"
    and valid: "validate_fail_request req = Inr req"
    and run: "fail_job (li_cfg env) m (li_fail env n) j req (open_session d) = (Inr y, s')"
  shows "backend_send env (job_path m i ''fail'') (FailPayload req) (d, n) =
    (Reply 200 [] (Object NoJob), committed s', n + 1)"
proof -
  have "load_of m i (open_session d) = Inr j" using found by (intro load_of_found) simp
  then have "handle (li_cfg env) (li_service env) (CallFail m (li_fail env n) i req) (open_session d) = (Inr (AnsJob y), s')"
    using valid run by (simp add: with_request_def answer_def fail_worker_job_def)
  then have "serve (li_cfg env) (li_service env) (Some (''Bearer '' @ li_token env)) None (CallFail m (li_fail env n) i req) d =
      (Inr (AnsJob y), committed s')"
    using token by (simp add: serve_def)
  moreover have "route env n (job_path m i ''fail'') (FailPayload req) = Inr (CallFail m (li_fail env n) i req)"
    by (simp add: route_job_path job_route_def)
  ultimately show ?thesis by (simp add: backend_send_def reply_of_def)
qed

text \<open>C3 (functional): what becomes of a job whose image cannot be processed.  When the worker owns the job and its
  processing ends in an error of the image, of a provider or of the code, one report goes to the service, the worker
  is idle again and goes on, and the job is settled: failed at once when the error is permanent, else queued again
  for later while it has attempts left, and dead-lettered when it has none.\<close>

theorem failed_processing_settles_job:
  assumes "require_config bracketed_ok wc = None" "wo_send wo = backend_send env"
    and "require_worker_token (li_cfg env) (Some (''Bearer '' @ li_token env)) None = Inr ()"
    and "wf_jobs m d" "job_at m i d = Some j" "cd_heartbeat_path job = job_path m i ''heartbeat''"
    and "verify_active_attempt (fe_verify_now (li_fail env n)) j (cd_attempt_id job) True = Inr (InState Processing)"
    and "8 / 10 \<le> fe_random (li_fail env n)" "fe_random (li_fail env n) \<le> 12 / 10"
    and "processor wc wo job w = (Inl e, d, n)" "report_code e \<noteq> None"
  shows "\<exists>j2 d'. handle_claimed_job wc wo processor job w = (None, set_idle, d', n + 1) \<and>
    job_at m i d' = Some j2 \<and> j_attempt_count j2 = j_attempt_count j \<and>
    j_status j2 = (if permanent e then Failed else if j_attempt_count j < j_max_attempts j then Queued else DeadLettered)"
proof -
  obtain code where code: "report_code e = Some code" using assms(11) by blast
  let ?req = "failure_report job e (\<not> permanent e) code"
  have req: "fr_attempt_id ?req = cd_attempt_id job" "fr_retryable ?req = (\<not> permanent e)"
    by (simp_all add: failure_report_def Let_def)
  have valid: "validate_fail_request ?req = Inr ?req" using report_codes_known[OF code] by (intro failure_report_valid) auto
  obtain r s' where run: "fail_job (li_cfg env) m (li_fail env n) j ?req (open_session d) = (r, s')" by fastforce
  have owned: "verify_active_attempt (fe_verify_now (li_fail env n)) j (fr_attempt_id ?req) True = Inr (InState Processing)"
    using assms(7) req by simp
  obtain j2 y where j2: "job_at m i (committed s') = Some j2" "j_attempt_count j2 = j_attempt_count j" "r = Inr y"
      "j_status j2 = (if permanent e then Failed else if j_attempt_count j < j_max_attempts j then Queued else DeadLettered)"
    using fail_job_outcome[OF assms(4,5) owned assms(8,9) run] req(2) by (auto split: if_splits)
  have "backend_send env (job_path m i ''fail'') (FailPayload ?req) (d, n) =
      (Reply 200 [] (Object NoJob), committed s', n + 1)"
    using reported_failure[OF assms(3,5) owned valid] run j2(3) by blast
  from post_answered[OF assms(1)] this assms(2)
  have "post_job wc wo True (job_path m i ''fail'') (FailPayload ?req) (d, n) = (Inr NoJob, committed s', n + 1)" by metis
  then have "report_failure wc wo job e (\<not> permanent e) code (d, n) = (None, committed s', n + 1)"
    by (simp add: report_failure_def post_operation_def operation_path_of[OF assms(6)])
  then have "handle_claimed_job wc wo processor job w = (None, set_idle, committed s', n + 1)"
    by (simp add: handled_error[where processor = processor and wc = wc and wo = wo and job = job and w = w, OF assms(10) code])
  with j2 show ?thesis by blast
qed

section \<open>A small system\<close>

definition demo_link :: link_env where
  "demo_link = \<lparr>li_cfg = demo_settings, li_service = demo_service, li_token = ''token'', li_started_at = (\<lambda>_. 0),
     li_claim = (\<lambda>_. demo_claim), li_complete = (\<lambda>_. \<lparr>cx_verify_now = 20, cx_now = 21, cx_ids = (\<lambda>_. 0)\<rparr>),
     li_fail = (\<lambda>_. demo_fail), li_verify_now = (\<lambda>_. 20), li_now = (\<lambda>_. 21)\<rparr>"

text \<open>Every image is animated.\<close>

definition demo_linked :: "(db \<times> nat) world" where
  "demo_linked = \<lparr>wo_send = backend_send demo_link, wo_get = store_get (\<lambda>_. GetReply 200 [] [] [[1]] True),
     wo_owned = (\<lambda>_ _. None), wo_uniform = (\<lambda>_. 1), wo_bracketed = (\<lambda>_. False),
     wo_images = \<lparr>ie_open = (\<lambda>_. Opened 640 480 2 Verified), ie_decode = (\<lambda>_. None), ie_faces = (\<lambda>_ _. [])\<rparr>,
     wo_vision = (\<lambda>_. VisionRaised ''Timeout''), wo_duration = 1\<rparr>"

definition demo_ocr_claim :: worker_job where
  "demo_ocr_claim = \<lparr>cd_id = uuid_str 4, cd_job_type = ''ocr'', cd_attempt_id = 8, cd_lease_seconds = Some 300,
     cd_heartbeat_path = job_path PhotoJobs 4 ''heartbeat'', cd_download_url = Some ''https://store/x.jpg''\<rparr>"

lemma demo_url: "urlsplit (\<lambda>_. False) ''https://store/x.jpg'' =
    Some \<lparr>su_scheme = ''https'', su_netloc = ''store'', su_path = ''/x.jpg'', su_query = [], su_fragment = []\<rparr>"
  by code_simp

lemma small_download:
  assumes "\<And>w. get w = (GetReply 200 [] [] [[1]] True, w)" "1 \<le> WORKER_MAX_DOWNLOAD_BYTES wc"
  shows "download_attempts wc u get 0 (Suc n) w = (Inr [1], [], w)"
  using assms by (simp add: busy_status_def read_reply_def Let_def)

lemma demo_processed: "process_photo_job demo_worker demo_linked demo_ocr_claim w =
    (Inl (PermanentJobError ''Animated or multi-frame images are not accepted.''), w)"
proof -
  have "download_attempts demo_worker u (store_get (\<lambda>_. GetReply 200 [] [] [[1]] True) url) 0 4 w = (Inr [1], [], w)" for u url
    using small_download[of "store_get (\<lambda>_. GetReply 200 [] [] [[1]] True) url" demo_worker u 3 w]
    by (simp add: store_get_def demo_worker_def default_worker_config_def)
  moreover have "nat (WORKER_HTTP_RETRIES demo_worker) = 4"
    by (simp add: demo_worker_def default_worker_config_def)
  ultimately have "download_job demo_worker demo_linked demo_ocr_claim w = (Inr [1], w)"
    by (simp add: download_job_def download_with_def demo_linked_def demo_ocr_claim_def demo_url)
  then show ?thesis
    by (simp add: process_photo_job_def process_with_def demo_ocr_claim_def ocr_scan_def validate_image_header_def
        demo_linked_def)
qed

lemma demo_token: "require_worker_token (li_cfg demo_link) (Some (''Bearer '' @ li_token demo_link)) None = Inr ()"
  by code_simp

lemma failed_processing_settles_job_witness:
  "\<exists>j2 d'. handle_claimed_job demo_worker demo_linked process_photo_job demo_ocr_claim (demo_db sample_ocr_job, 0) =
      (None, set_idle, d', 1) \<and> job_at PhotoJobs 4 d' = Some j2 \<and> j_status j2 = Failed"
proof -
  let ?e = "PermanentJobError ''Animated or multi-frame images are not accepted.''"
  have "\<exists>j2 d'. handle_claimed_job demo_worker demo_linked process_photo_job demo_ocr_claim (demo_db sample_ocr_job, 0) =
      (None, set_idle, d', 0 + 1) \<and> job_at PhotoJobs 4 d' = Some j2 \<and>
      j_attempt_count j2 = j_attempt_count sample_ocr_job \<and> j_status j2 = (if permanent ?e then Failed
        else if j_attempt_count sample_ocr_job < j_max_attempts sample_ocr_job then Queued else DeadLettered)"
    by (rule failed_processing_settles_job[where processor = process_photo_job and wc = demo_worker and wo = demo_linked
          and job = demo_ocr_claim and w = "(demo_db sample_ocr_job, 0)", OF demo_worker_ok _ demo_token demo_wf _ _ _ _ _ demo_processed])
      (simp_all add: demo_linked_def demo_job_at sample_job_fields demo_ocr_claim_def demo_link_def demo_fail_def
        verify_processing_iff report_code_def)
  then show ?thesis by (auto simp: permanent_def)
qed


end
