(* ===== verification/WorkerContracts.thy ===== *)
theory WorkerContracts
  imports WorkerProcessFacts ArchiveFacts
begin

text \<open>
  The contract between the worker and the service on the shape of a result: what the worker's face scan makes of an
  image is what the validation of the service accepts.
\<close>

section \<open>Numbers and boxes as JSON\<close>

lemma int_str_short:
  assumes "\<bar>i\<bar> < 10 ^ 11"
  shows "length (int_str i) \<le> 12"
proof -
  have "length (nat_digits n) \<le> 11" if "int n = \<bar>i\<bar>" for n
  proof -
    have "int n < int (10 ^ 11)" using assms that by simp
    then have "n < 10 ^ Suc 10" by (simp only: of_nat_less_iff) simp
    from nat_digits_length[OF this] show ?thesis by simp
  qed
  from this[of "nat \<bar>i\<bar>"] show ?thesis by (cases "i < 0") (auto simp: int_str_def)
qed

lemma int_of_float_bound: "\<bar>x\<bar> \<le> of_int n \<Longrightarrow> \<bar>int_of_float x\<bar> \<le> n"
  by (auto simp: int_of_float_def abs_le_iff floor_le_iff le_floor_iff) linarith+

definition box_bounded :: "real \<times> real \<times> real \<times> real \<Rightarrow> bool" where
  "box_bounded b = (case b of (x1, y1, x2, y2) \<Rightarrow>
     \<bar>x1\<bar> \<le> 10 ^ 9 \<and> \<bar>y1\<bar> \<le> 10 ^ 9 \<and> \<bar>x2\<bar> \<le> 10 ^ 9 \<and> \<bar>y2\<bar> \<le> 10 ^ 9)"

lemma six_ints_encoded:
  "\<exists>s. json_encode fr (JDict [(''left'', JInt a), (''top'', JInt b), (''right'', JInt c), (''bottom'', JInt d),
     (''width'', JInt e), (''height'', JInt f)]) = Some s \<and>
   length s = 54 + length (int_str a) + length (int_str b) + length (int_str c) + length (int_str d) +
     length (int_str e) + length (int_str f)"
proof -
  have "length (json_string ''left'') = 6" "length (json_string ''top'') = 5" "length (json_string ''right'') = 7"
    "length (json_string ''bottom'') = 8" "length (json_string ''width'') = 7" "length (json_string ''height'') = 8"
    by code_simp+
  then show ?thesis by simp
qed

lemma face_box_valid:
  assumes "box_bounded b"
  shows "validate_bounded_json fr (Some (face_box b)) MAX_BOUNDING_BOX_BYTES label = Inr (Some (face_box b))"
proof -
  obtain x1 y1 x2 y2 where b: "b = (x1, y1, x2, y2)" by (metis prod_cases4)
  let ?w = "int_of_float (max 0 (x2 - x1))" and ?h = "int_of_float (max 0 (y2 - y1))"
  have c: "\<bar>x1\<bar> \<le> of_int (10 ^ 9)" "\<bar>y1\<bar> \<le> of_int (10 ^ 9)" "\<bar>x2\<bar> \<le> of_int (10 ^ 9)" "\<bar>y2\<bar> \<le> of_int (10 ^ 9)"
    "\<bar>max 0 (x2 - x1)\<bar> \<le> of_int (2 * 10 ^ 9)" "\<bar>max 0 (y2 - y1)\<bar> \<le> of_int (2 * 10 ^ 9)"
    using assms by (auto simp: b box_bounded_def abs_le_iff max_def)
  have short: "length (int_str (int_of_float x)) \<le> 12" if "\<bar>x\<bar> \<le> of_int n" "n < 10 ^ 11" for x n
    using int_of_float_bound[OF that(1)] that(2) by (intro int_str_short) linarith
  have lens: "length (int_str (int_of_float x1)) \<le> 12" "length (int_str (int_of_float y1)) \<le> 12"
    "length (int_str (int_of_float x2)) \<le> 12" "length (int_str (int_of_float y2)) \<le> 12"
    "length (int_str ?w) \<le> 12" "length (int_str ?h) \<le> 12"
    by (rule short[OF c(1)], simp, rule short[OF c(2)], simp, rule short[OF c(3)], simp, rule short[OF c(4)], simp,
        rule short[OF c(5)], simp, rule short[OF c(6)], simp)
  obtain s where s: "json_encode fr (face_box b) = Some s" "length s \<le> 126"
    using six_ints_encoded[of fr "int_of_float x1" "int_of_float y1" "int_of_float x2" "int_of_float y2" ?w ?h] lens
    by (auto simp: face_box_def b)
  have "walk label [(face_box b, 0)] 0 = Inr ()" by (simp add: face_box_def b)
  with s show ?thesis by (simp add: validate_bounded_json_def MAX_BOUNDING_BOX_BYTES_def)
qed

section \<open>Faces\<close>

text \<open>What the code relies on the detector for: moderate coordinates, scores that are probabilities when they are
  finite, and embeddings that are not zero.\<close>

definition detector_score_ok :: "pyfloat option \<Rightarrow> bool" where
  "detector_score_ok s = (case s of Some (Fin r) \<Rightarrow> 0 \<le> r \<and> r \<le> 1 | _ \<Rightarrow> True)"

definition raw_face_ok :: "raw_face \<Rightarrow> bool" where
  "raw_face_ok face \<longleftrightarrow> box_bounded (rf_bbox face) \<and> detector_score_ok (rf_det_score face) \<and>
     (case face_embedding_of face of None \<Rightarrow> True
      | Some e \<Rightarrow> list_all finite_float e \<longrightarrow> 0 < sum_list (map (\<lambda>f. float_value f * float_value f) e))"

lemma score_valid: "detector_score_ok s \<Longrightarrow> \<exists>v. validate_score (finite_score s) = Inr v"
  by (auto simp: detector_score_ok_def finite_score_def finite_float_def validate_score_def
      split: option.splits pyfloat.splits)

lemma face_valid:
  assumes "face_result_of (i, face) = Some r" "raw_face_ok face" "i < 256"
  shows "\<exists>p. validate_face fr (face_detection_request r) = Inr p \<and> fp_face_index p = int i"
proof -
  obtain e where e: "face_embedding_of face = Some e" "length e = 512" "list_all finite_float e"
    and r: "r = \<lparr>fc_face_index = i, fc_embedding = e, fc_bounding_box_json = face_box (rf_bbox face),
        fc_detection_score = finite_score (rf_det_score face), fc_quality_score = finite_score (rf_det_score face)\<rparr>"
    using assms(1) by (auto simp: face_result_of_def split: option.splits if_splits)
  have "0 < sum_list (map (\<lambda>f. float_value f * float_value f) e)" using assms(2) e by (simp add: raw_face_ok_def)
  then have emb: "validate_embedding e = Inr e" using e by (simp add: validate_embedding_def EMBEDDING_DIMENSIONS_def)
  obtain v where v: "validate_score (finite_score (rf_det_score face)) = Inr v"
    using score_valid assms(2) by (auto simp: raw_face_ok_def)
  have box: "validate_bounded_json fr (Some (face_box (rf_bbox face))) MAX_BOUNDING_BOX_BYTES l = Inr (Some (face_box (rf_bbox face)))" for l
    using face_box_valid assms(2) by (simp add: raw_face_ok_def)
  show ?thesis
    using assms(3) by (simp add: validate_face_def r face_detection_request_def emb v box and_then_def MAX_FACE_DETECTIONS_def)
qed

lemma faces_valid:
  assumes "List.map_filter face_result_of (List.enumerate k faces) = rs" "list_all raw_face_ok faces" "k + length faces \<le> 256"
  shows "\<exists>ps. validate_all (validate_face fr) (map face_detection_request rs) = Inr ps \<and>
    distinct (map fp_face_index ps) \<and> (\<forall>i \<in> set (map fp_face_index ps). int k \<le> i) \<and> length ps \<le> length faces"
  using assms
proof (induction faces arbitrary: k rs)
  case Nil
  then show ?case by (simp add: List.map_filter_def)
next
  case (Cons face faces)
  let ?rest = "List.map_filter face_result_of (List.enumerate (Suc k) faces)"
  obtain ps where ps: "validate_all (validate_face fr) (map face_detection_request ?rest) = Inr ps"
      "distinct (map fp_face_index ps)" "\<forall>i \<in> set (map fp_face_index ps). int (Suc k) \<le> i" "length ps \<le> length faces"
    using Cons.IH[of "Suc k" ?rest] Cons.prems(2,3) by auto
  show ?case
  proof (cases "face_result_of (k, face)")
    case None
    then have "rs = ?rest" using Cons.prems(1) by (simp add: List.map_filter_simps)
    with ps show ?thesis by (intro exI[of _ ps]) auto
  next
    case (Some r)
    then have rs: "rs = r # ?rest" using Cons.prems(1) by (simp add: List.map_filter_simps)
    obtain p where p: "validate_face fr (face_detection_request r) = Inr p" "fp_face_index p = int k"
      using face_valid[OF Some] Cons.prems(2,3) by fastforce
    have "int k \<notin> set (map fp_face_index ps)" using ps(3) by fastforce
    with ps p show ?thesis by (intro exI[of _ "p # ps"]) (auto simp: rs and_then_def)
  qed
qed


section \<open>The report of a scan\<close>

lemma padded_digits_length: "length (padded_digits b k n) = k"
  by (induction k arbitrary: n) simp_all

lemma json_char_length: "length (json_char c) \<le> 6"
  by (simp add: json_char_def Let_def padded_digits_length del: padded_digits.simps)

lemma json_string_length: "length (json_string s) \<le> 6 * length s + 2"
proof -
  have "length (concat (map json_char s)) \<le> 6 * length s"
    using json_char_length by (induction s) (auto intro: add_mono)
  then show ?thesis by (simp add: json_string_def)
qed

definition scan_summary :: "worker_config \<Rightarrow> nat \<Rightarrow> json" where
  "scan_summary wc n = JDict [(''provider'', JStr ''insightface''), (''model'', JStr (FACE_MODEL_NAME wc)),
     (''face_count'', JInt (int n))]"

lemma scan_summary_valid:
  assumes "length (FACE_MODEL_NAME wc) \<le> 40000" "n \<le> 256"
  shows "validate_bounded_json fr (Some (scan_summary wc n)) MAX_RAW_JSON_BYTES label = Inr (Some (scan_summary wc n))"
proof -
  have keys: "length (json_string ''provider'') = 10" "length (json_string ''insightface'') = 13"
    "length (json_string ''model'') = 7" "length (json_string ''face_count'') = 12" by code_simp+
  have "length (int_str (int n)) \<le> 12" using assms(2) by (intro int_str_short) simp
  moreover have "length (json_string (FACE_MODEL_NAME wc)) \<le> 240002"
    using json_string_length[of "FACE_MODEL_NAME wc"] assms(1) by linarith
  moreover have "walk label [(scan_summary wc n, 0)] 0 = Inr ()" by (simp add: scan_summary_def)
  ultimately show ?thesis using keys by (simp add: validate_bounded_json_def scan_summary_def MAX_RAW_JSON_BYTES_def)
qed

lemma validated_indices:
  "validate_all (validate_face fr) qs = Inr ps \<Longrightarrow> map fp_face_index ps = map fq_face_index qs"
proof (induction qs arbitrary: ps)
  case (Cons q qs)
  then obtain p ps' where p: "validate_face fr q = Inr p" "validate_all (validate_face fr) qs = Inr ps'" "ps = p # ps'"
    by (auto simp: and_then_Inr)
  then have "fp_face_index p = fq_face_index q" by (auto simp: validate_face_def and_then_Inr field_error_def split: if_splits)
  with p Cons.IH show ?case by simp
qed simp

text \<open>C37 (type): what the worker reports of a photo has the shape the service asks for.  Whatever image it scans,
  the request the worker makes of the faces passes every check of the request model: at most 256 faces with distinct
  indices, embeddings of 512 finite numbers that are not all zero, scores that are probabilities, bounded boxes and a
  bounded summary.  The detector has to give moderate coordinates, probabilities and embeddings that are not zero.\<close>

theorem faces_report_accepted:
  assumes "scan_faces wc env image_bytes = Inr faces" "faces_payload_of wc job faces = PhotoPayload req"
    and "\<forall>size. list_all raw_face_ok (ie_faces env image_bytes size)" "length (FACE_MODEL_NAME wc) \<le> 40000"
  shows "\<exists>p. validate_photo_request fr req = Inr p \<and> length (pp_face_detections p) = length faces \<and>
    map fp_face_index (pp_face_detections p) = map (int \<circ> fc_face_index) faces"
proof -
  obtain size where f: "faces = List.map_filter face_result_of
      (List.enumerate 0 (take MAX_FACE_DETECTIONS (ie_faces env image_bytes size)))"
    using assms(1) by (auto simp: scan_faces_def scan_with_detection_count_def Let_def split: sum.splits option.splits)
  have ok: "list_all raw_face_ok (take MAX_FACE_DETECTIONS (ie_faces env image_bytes size))"
    proof -
    have "list_all raw_face_ok (ie_faces env image_bytes size)" using assms(3) by blast
    then show ?thesis by (auto simp: list_all_iff dest: in_set_takeD)
  qed
  obtain ps where ps: "validate_all (validate_face fr) (map face_detection_request faces) = Inr ps"
      "distinct (map fp_face_index ps)" "length ps \<le> 256"
    using faces_valid[OF f[symmetric] ok, of fr] by (auto simp: MAX_FACE_DETECTIONS_def)
  have idx: "map fp_face_index ps = map (int \<circ> fc_face_index) faces"
    using validated_indices[OF ps(1)] by (simp add: face_detection_request_def comp_def)
  then have len: "length ps = length faces" by (metis length_map)
  have "validate_face_count ps = Inr ps" using ps distinct_card[OF ps(2)]
    by (simp add: validate_face_count_def MAX_FACE_DETECTIONS_def)
  moreover have "validate_bounded_json fr (pq_raw_response_json req) MAX_RAW_JSON_BYTES ''Raw response'' =
      Inr (pq_raw_response_json req)"
    using scan_summary_valid[OF assms(4), of "length faces"] ps(3) len assms(2)
    by (auto simp: faces_payload_of_def scan_summary_def)
  ultimately show ?thesis using ps(1) idx len assms(2)
    by (auto simp: validate_photo_request_def faces_payload_of_def and_then_def validate_detection_count_def)
qed


definition demo_face :: raw_face where
  "demo_face = \<lparr>rf_normed_embedding = Some (Fin 1 # replicate 511 (Fin 0)), rf_embedding = None,
     rf_bbox = (10, 20, 110, 140), rf_det_score = Some (Fin (9 / 10))\<rparr>"

definition demo_images :: image_env where
  "demo_images = \<lparr>ie_open = (\<lambda>_. Opened 640 480 1 Verified), ie_decode = (\<lambda>_. Some (640, 480)),
     ie_faces = (\<lambda>_ _. [demo_face])\<rparr>"

lemma demo_face_ok: "raw_face_ok demo_face"
  by (simp add: raw_face_ok_def demo_face_def box_bounded_def detector_score_ok_def face_embedding_of_def
      sum_list_replicate float_value_def)

lemma demo_scan:
  obtains face where "scan_faces default_worker_config demo_images [] = Inr [face]"
proof -
  have "list_all finite_float (Fin 1 # replicate 511 (Fin 0))" by (simp add: finite_float_def list_all_iff)
  then obtain face where "face_result_of (0, demo_face) = Some face"
    by (simp add: face_result_of_def demo_face_def face_embedding_of_def)
  then show ?thesis
    by (intro that) (simp add: scan_faces_def scan_with_detection_count_def demo_images_def validate_image_header_def
        default_worker_config_def resized_def MAX_FACE_DETECTIONS_def List.map_filter_simps Let_def)
qed

theorem faces_report_accepted_witness:
  "\<exists>faces req p. scan_faces default_worker_config demo_images [] = Inr faces \<and> length faces = 1 \<and>
     faces_payload_of default_worker_config demo_claimed faces = PhotoPayload req \<and>
     validate_photo_request (\<lambda>_. ''0'') req = Inr p \<and> length (pp_face_detections p) = 1"
proof -
  obtain face where f: "scan_faces default_worker_config demo_images [] = Inr [face]" by (rule demo_scan)
  obtain req where r: "faces_payload_of default_worker_config demo_claimed [face] = PhotoPayload req"
    by (simp add: faces_payload_of_def)
  have ok: "\<forall>size. list_all raw_face_ok (ie_faces demo_images [] size)" by (simp add: demo_images_def demo_face_ok)
  have "length (FACE_MODEL_NAME default_worker_config) \<le> 40000" by (simp add: default_worker_config_def)
  from faces_report_accepted[OF f r ok this] f r show ?thesis by auto
qed

end
