(* ===== verification/Pages.thy ===== *)
theory Pages
  imports Administration
begin

text \<open>
  What the pages of \<^verbatim>\<open>backend/app/main.py\<close> are given to show: the contexts of its templates, without the
  request itself and the fixed titles and links of the navigation.  Rendering them is Jinja's.
\<close>

text \<open>The message of a redirect comes back in the query: its text and its level.\<close>

type_synonym page_message = "str option \<times> str"

definition query_message :: "(str \<rightharpoonup> str) \<Rightarrow> page_message" where
  "query_message query = (query ''message'', case query ''level'' of None \<Rightarrow> ''success'' | Some l \<Rightarrow> l)"

section \<open>The form of an event\<close>

record form_page =
  fp_title :: str
  fp_page_title :: str
  fp_submit_label :: str
  fp_form_action :: str
  fp_event :: "event option"
  fp_participant_count :: int
  fp_participants :: "participant list"
  fp_photo_count :: int
  fp_photo_stats :: "photo_stats option"
  fp_auto_slug :: "str option"
  fp_error_message :: "str option"
  fp_form_values :: "(str \<times> str) list"
  fp_message :: "page_message option"

definition render_event_form :: "str \<Rightarrow> str \<Rightarrow> str \<Rightarrow> event option \<Rightarrow> int \<Rightarrow> participant list \<Rightarrow> int \<Rightarrow> photo_stats option \<Rightarrow>
    str option \<Rightarrow> str option \<Rightarrow> (str \<times> str) list \<Rightarrow> form_page" where
  "render_event_form page_title submit_label form_action event participant_count ps n_photos photo_stats auto_slug
     error_message form_values =
   \<lparr>fp_title = ''RaceFrame '' @ page_title, fp_page_title = page_title, fp_submit_label = submit_label,
    fp_form_action = form_action, fp_event = event, fp_participant_count = participant_count, fp_participants = ps,
    fp_photo_count = n_photos, fp_photo_stats = photo_stats, fp_auto_slug = auto_slug,
    fp_error_message = error_message, fp_form_values = form_values, fp_message = None\<rparr>"

text \<open>The search for a free slug always finds one, see \<^verbatim>\<open>slug_generated\<close>.\<close>

definition event_slug :: "db \<Rightarrow> str \<Rightarrow> str option \<Rightarrow> str" where
  "event_slug d name exclude = (case generate_unique_slug d name exclude of None \<Rightarrow> [] | Some slug \<Rightarrow> slug)"

definition edit_page :: "event \<Rightarrow> str" where
  "edit_page event = ''/admin/events/'' @ uuid_str (ev_id event) @ ''/edit''"

definition render_existing_event_form :: "db \<Rightarrow> event \<Rightarrow> str option \<Rightarrow> (str \<times> str) list \<Rightarrow> form_page" where
  "render_existing_event_form d event error_message form_values =
    (let ps = list_participants d (ev_id event); photo_stats = build_event_photo_stats d (ev_id event);
         name = (case map_of form_values ''name'' of None \<Rightarrow> ev_name event | Some n \<Rightarrow> n)
     in render_event_form ''Edit Event'' ''Save Changes'' (edit_page event) (Some event) (int (length ps)) ps
          (st_total photo_stats) (Some photo_stats) (Some (event_slug d name (Some (uuid_str (ev_id event)))))
          error_message form_values)"

text \<open>The form of a new event.\<close>

definition new_event_form :: "str \<Rightarrow> str option \<Rightarrow> (str \<times> str) list \<Rightarrow> form_page" where
  "new_event_form auto_slug error_message form_values =
     render_event_form ''Create Event'' ''Create Event'' ''/admin/events/new'' None 0 [] 0 None (Some auto_slug)
       error_message form_values"

definition slug_hint :: str where
  "slug_hint = ''Will be generated from the event name when you save.''"

section \<open>The other pages\<close>

record dashboard_page =
  dp_events :: "event_list_item list"
  dp_total_photo_count :: int
  dp_message :: page_message

definition dashboard :: "db \<Rightarrow> (str \<rightharpoonup> str) \<Rightarrow> dashboard_page" where
  "dashboard d query = \<lparr>dp_events = list_events d, dp_total_photo_count = int (length (photos d)),
     dp_message = query_message query\<rparr>"

record search_page_context =
  sp_event :: event
  sp_search_term :: str
  sp_session :: "search_session option"
  sp_results :: "search_item list"
  sp_total :: int
  sp_page :: int
  sp_has_more :: bool
  sp_message :: page_message

text \<open>The bib number of the participant a search is for.\<close>

definition search_term_of :: "db \<Rightarrow> search_session option \<Rightarrow> str" where
  "search_term_of d s =
    (case Option.bind s fs_participant_id of
       None \<Rightarrow> []
     | Some i \<Rightarrow> (case row_at pa_id i (participants d) of None \<Rightarrow> [] | Some p \<Rightarrow> pa_bib_number p))"

record upload_page_context =
  up_event :: event
  up_participant_count :: nat
  up_photo_stats :: photo_stats
  up_max_megabytes :: int
  up_message :: page_message

definition upload_page :: "settings \<Rightarrow> db \<Rightarrow> (str \<rightharpoonup> str) \<Rightarrow> event \<Rightarrow> upload_page_context" where
  "upload_page cfg d query event = \<lparr>up_event = event, up_participant_count = count_event_participants d (ev_id event),
     up_photo_stats = build_event_photo_stats d (ev_id event),
     up_max_megabytes = max 1 (round_half_even (of_int (max_photo_upload_bytes cfg) / 1024 / 1024)),
     up_message = query_message query\<rparr>"

datatype page_body =
    FormPage form_page
  | AdminInUse
  | DashboardPage dashboard_page
  | PhotoPage event photo "str option"
  | UploadEventsPage "event list" page_message
  | UploadPage upload_page_context
  | UserEventsPage "user_event_item list"
  | SearchPage search_page_context
  | PhotoCards "search_item list" int bool

end
