(* ===== verification/WebAnswers.thy ===== *)
theory WebAnswers
  imports Requests Pages WorkerApi
begin

text \<open>
  What the routes of \<^verbatim>\<open>backend/app/main.py\<close> share: their answers, the guards that turn a request away
  (the CSRF check, the rate limits in the database, the limit on queued jobs), the audit log of
  \<^verbatim>\<open>backend/app/audit_log.py\<close> and the request id of \<^verbatim>\<open>backend/app/observability.py\<close>.

  Text in URLs is ASCII.  A page is its template with what the route decides to show on it; rendering is Jinja's.
\<close>

section \<open>Answers\<close>

datatype web_answer =
    RedirectAnswer int str "set_cookie list"
  | JsonAnswer int json "set_cookie list"
  | PageAnswer int page_body "set_cookie list"
  | PhotoZip "photo list" str "set_cookie list"
  | ErrorAnswer int str "(str \<times> str) list" "set_cookie list"

fun with_cookie :: "set_cookie \<Rightarrow> web_answer \<Rightarrow> web_answer" where
  "with_cookie c (RedirectAnswer code url cs) = RedirectAnswer code url (cs @ [c])"
| "with_cookie c (JsonAnswer code j cs) = JsonAnswer code j (cs @ [c])"
| "with_cookie c (PageAnswer code body cs) = PageAnswer code body (cs @ [c])"
| "with_cookie c (PhotoZip ps name cs) = PhotoZip ps name (cs @ [c])"
| "with_cookie c (ErrorAnswer code detail hs cs) = ErrorAnswer code detail hs (cs @ [c])"

text \<open>A route ends in an answer or in an exception with the headers it carries.\<close>

type_synonym route_failure = "exn \<times> (str \<times> str) list"

type_synonym 'a routed = "route_failure + 'a"

definition raised :: "exn \<Rightarrow> route_failure" where
  "raised e = (e, [])"

text \<open>FastAPI turns an \<^verbatim>\<open>HTTPException\<close> into an answer; any other exception goes through the middleware.\<close>

definition respond :: "web_answer routed \<Rightarrow> web_answer result" where
  "respond r = (case r of
     Inr a \<Rightarrow> Inr a
   | Inl (HTTPException code detail, hs) \<Rightarrow> Inr (ErrorAnswer code detail hs [])
   | Inl (e, _) \<Rightarrow> Inl e)"

definition not_found :: "str \<Rightarrow> route_failure" where
  "not_found detail = raised (HTTPException 404 detail)"

text \<open>\<^verbatim>\<open>urllib.parse.quote_plus\<close> and \<^verbatim>\<open>urlencode\<close>.\<close>

definition hex_upper :: "nat \<Rightarrow> char" where
  "hex_upper n = upper_char (digit_char n)"

definition quote_char :: "char \<Rightarrow> str" where
  "quote_char c =
    (if is_alnum c \<or> c \<in> {CHR ''_'', CHR ''.'', CHR ''-'', CHR ''~''} then [c]
     else if c = CHR '' '' then ''+''
     else [CHR ''%'', hex_upper (char_code c div 16), hex_upper (char_code c mod 16)])"

definition quote_plus :: "str \<Rightarrow> str" where
  "quote_plus s = concat (map quote_char s)"

definition urlencode :: "(str \<times> str) list \<Rightarrow> str" where
  "urlencode kvs = join ''&'' (map (\<lambda>(k, v). quote_plus k @ ''='' @ quote_plus v) kvs)"

definition redirect_url :: "str \<Rightarrow> str \<Rightarrow> str \<Rightarrow> str" where
  "redirect_url path message level =
     path @ (if CHR ''?'' \<in> set path then ''&'' else ''?'') @ urlencode [(''message'', message), (''level'', level)]"

definition redirect_with_message :: "str \<Rightarrow> str \<Rightarrow> str \<Rightarrow> web_answer" where
  "redirect_with_message path message level = RedirectAnswer 303 (redirect_url path message level) []"

section \<open>Request ids\<close>

definition request_id_char :: "char \<Rightarrow> bool" where
  "request_id_char c \<longleftrightarrow> is_alnum c \<or> c \<in> {CHR ''.'', CHR ''_'', CHR ''-''}"

definition request_id_of :: "str \<Rightarrow> request \<Rightarrow> str" where
  "request_id_of fresh rq =
    (let supplied_id = header rq ''x-request-id''
     in if 8 \<le> length supplied_id \<and> length supplied_id \<le> 128 \<and> (\<forall>c \<in> set supplied_id. request_id_char c)
        then supplied_id else fresh)"

section \<open>The audit log\<close>

definition safe_metadata :: "(str \<times> json) list \<Rightarrow> json option" where
  "safe_metadata metadata =
    (if metadata = [] then None
     else if 16000 < length (json_dumps (JDict metadata)) then Some (JDict [(''truncated'', JBool True)])
     else Some (JDict metadata))"

definition audit_entry :: "request \<Rightarrow> str \<Rightarrow> str \<Rightarrow> str option \<Rightarrow> str option \<Rightarrow> str option \<Rightarrow> (str \<times> json) list \<Rightarrow> audit_row" where
  "audit_entry rq request_id action target_type target_id event_id metadata =
    (let actor_email = (if header rq ''cf-access-authenticated-user-email'' = [] then None
           else Some (header rq ''cf-access-authenticated-user-email''));
         actor_id = (case actor_email of Some a \<Rightarrow> a
           | None \<Rightarrow> if cookie rq ''raceframe_admin_session'' = [] then ''unknown''
                     else cookie rq ''raceframe_admin_session'')
     in \<lparr>al_actor_id = Some (take 255 actor_id), al_actor_email = map_option (take 320) actor_email,
         al_action = take 128 action,
         al_target_type = (case target_type of None \<Rightarrow> None | Some t \<Rightarrow> if t = [] then None else Some (take 64 t)),
         al_target_id = map_option (take 128) target_id,
         al_event_id = Option.bind event_id (\<lambda>e. if e = [] then None else parse_uuid e),
         al_request_id = (if take 64 request_id = [] then None else Some (take 64 request_id)),
         al_metadata_json = safe_metadata metadata\<rparr>)"

definition append_admin_audit ::
    "request \<Rightarrow> str \<Rightarrow> str \<Rightarrow> str option \<Rightarrow> str option \<Rightarrow> str option \<Rightarrow> (str \<times> json) list \<Rightarrow> session \<Rightarrow> session" where
  "append_admin_audit rq request_id action target_type target_id event_id metadata s =
     commit (orm (\<lambda>d. d\<lparr>audit_rows := audit_rows d @
       [audit_entry rq request_id action target_type target_id event_id metadata]\<rparr>) s)"

section \<open>Guards\<close>

definition csrf_guarded :: "(str \<Rightarrow> bool) \<Rightarrow> settings \<Rightarrow> str option \<Rightarrow> request \<Rightarrow> ('s \<Rightarrow> 'a routed \<times> 's) \<Rightarrow> 's \<Rightarrow>
    'a routed \<times> 's" where
  "csrf_guarded bracketed_ok cfg csrf_token rq route w =
    (case require_browser_csrf bracketed_ok cfg csrf_token (rq_headers rq ''x-csrf-token'') rq of
       Inl e \<Rightarrow> (Inl (raised e), w)
     | Inr _ \<Rightarrow> route w)"

definition active_jobs :: "job list \<Rightarrow> int" where
  "active_jobs js = int (length (filter (\<lambda>j. j_status j \<in> {Queued, Processing}) js))"

definition ensure_job_capacity :: "db \<Rightarrow> job_model \<Rightarrow> int \<Rightarrow> int \<Rightarrow> str \<Rightarrow> unit routed" where
  "ensure_job_capacity d m limit expected_new_jobs detail =
    (if limit < active_jobs (jobs_of m d) + expected_new_jobs
     then Inl (HTTPException 503 detail, [(''Retry-After'', ''30'')]) else Inr ())"

text \<open>The limiter as a route meets it: the hash, the clock of the n-th check, and whether its database call raises,
  which writes nothing.\<close>

record limiter_env =
  le_hmac_hex :: "str \<Rightarrow> str \<Rightarrow> str"
  le_now :: "nat \<Rightarrow> time"
  le_raises :: "nat \<Rightarrow> bool"

fun enforce_limits :: "settings \<Rightarrow> limiter_env \<Rightarrow> int \<Rightarrow> str \<Rightarrow> str \<Rightarrow> nat \<Rightarrow> (str \<times> str \<times> int \<times> int) list \<Rightarrow> db \<Rightarrow>
    unit routed \<times> db" where
  "enforce_limits cfg le units exceeded unavailable n [] d = (Inr (), d)"
| "enforce_limits cfg le units exceeded unavailable n ((bucket, key, limit, window) # checks) d =
    (if le_raises le n then (Inl (HTTPException 503 unavailable, [(''Retry-After'', ''30'')]), d)
     else
       case hit_persistent_limit (le_hmac_hex le) cfg (le_now le n) bucket key limit window units d of
         (Inl _, d1) \<Rightarrow> (Inl (HTTPException 503 unavailable, [(''Retry-After'', ''30'')]), d1)
       | (Inr (Some retry_after), d1) \<Rightarrow>
           (Inl (HTTPException 429 exceeded, [(''Retry-After'', int_str retry_after)]), d1)
       | (Inr None, d1) \<Rightarrow> enforce_limits cfg le units exceeded unavailable (Suc n) checks d1)"

definition enforce_persistent_search_limits :: "settings \<Rightarrow> limiter_env \<Rightarrow> str \<Rightarrow> str \<Rightarrow> str \<Rightarrow> db \<Rightarrow> unit routed \<times> db" where
  "enforce_persistent_search_limits cfg le visitor_id ip event_id =
     enforce_limits cfg le 1 ''Too many searches. Please wait before trying again.''
       ''Search admission is temporarily unavailable.'' 0
       [(''public-search-visitor-minute'', visitor_id, 3, 60), (''public-search-visitor-hour'', visitor_id, 30, 60 * 60),
        (''public-search-ip'', ip, 300, 10 * 60), (''public-search-event'', event_id, 500, 10 * 60)]"

definition enforce_persistent_upload_limits ::
    "settings \<Rightarrow> limiter_env \<Rightarrow> str \<Rightarrow> str \<Rightarrow> str \<Rightarrow> int \<Rightarrow> db \<Rightarrow> unit routed \<times> db" where
  "enforce_persistent_upload_limits cfg le visitor_id ip event_id file_count =
     enforce_limits cfg le file_count ''Upload rate limit exceeded. Please pause before retrying.''
       ''Upload admission is temporarily unavailable.'' 0
       [(''photo-upload-visitor'', visitor_id, 300, 10 * 60), (''photo-upload-ip'', ip, 1000, 10 * 60),
        (''photo-upload-event'', event_id, 2000, 10 * 60), (''photo-upload-global'', ''all'', 5000, 10 * 60)]"

end
