(* ===== verification/PublicRoutes.thy ===== *)
theory PublicRoutes
  imports WebAnswers Ingest Search Archive
begin

text \<open>
  The routes of \<^verbatim>\<open>backend/app/main.py\<close> for photographers and visitors: uploading photos, searching by
  selfies or by bib number, seeing and downloading the results.

  A request has one database session, opened when it arrives; the rate limiter uses connections of its own,
  before the session holds any change.  What a route meets outside is the record \<^verbatim>\<open>public_env\<close>: the fields
  indexed by a number belong to the file of that index.
\<close>

record public_env =
  pe_limiter :: limiter_env
  pe_canonical_ip :: "str \<Rightarrow> str option"
  pe_decode :: "byte list \<Rightarrow> decoded"
  pe_digest :: "byte list \<Rightarrow> str"
  pe_resize :: "int \<Rightarrow> int \<Rightarrow> byte list \<Rightarrow> byte list option"
  pe_storage :: "nat \<Rightarrow> storage_env"
  pe_now :: "nat \<Rightarrow> time"
  pe_ids :: "nat \<Rightarrow> nat \<Rightarrow> uuid"
  pe_request_id :: str
  pe_visitor :: str
  pe_crypto :: crypto
  pe_secret :: str
  pe_bind_now :: time

section \<open>Files of a form\<close>

record form_file =
  ff_filename :: "str option"
  ff_content_type :: "str option"
  ff_upload :: upload

definition or_empty :: "str option \<Rightarrow> str" where
  "or_empty s = (case s of None \<Rightarrow> [] | Some t \<Rightarrow> t)"

definition submitted_files :: "form_file list \<Rightarrow> form_file list" where
  "submitted_files files = filter (\<lambda>f. strip (or_empty (ff_filename f)) \<noteq> []) files"

section \<open>Uploading photos\<close>

fun photo_status_str :: "photo_status \<Rightarrow> str" where
  "photo_status_str PhotoUploaded = ''uploaded''"
| "photo_status_str PhotoProcessing = ''processing''"
| "photo_status_str PhotoReady = ''ready''"
| "photo_status_str PhotoPartiallyReady = ''partially_ready''"
| "photo_status_str PhotoFailed = ''failed''"
| "photo_status_str PhotoDeleting = ''deleting''"

definition json_option :: "str option \<Rightarrow> json" where
  "json_option s = (case s of None \<Rightarrow> JNull | Some t \<Rightarrow> JStr t)"

definition serialize_photo_upload_result :: "db \<Rightarrow> upload_result \<Rightarrow> json" where
  "serialize_photo_upload_result d r =
    (let latest_job = Option.bind (ur_photo r) (\<lambda>p. case photo_job_list d (ph_id p) of [] \<Rightarrow> None | j # _ \<Rightarrow> Some j)
     in JDict [(''file_name'', JStr (ur_file_name r)), (''success'', JBool (ur_success r)),
          (''message'', JStr (ur_message r)),
          (''photo_id'', json_option (map_option (uuid_str \<circ> ph_id) (ur_photo r))),
          (''photo_status'', json_option (map_option (photo_status_str \<circ> ph_status) (ur_photo r))),
          (''job_status'', json_option (map_option (job_status_str \<circ> j_status) latest_job)),
          (''error_message'', json_option (Option.bind latest_job j_error_message))])"

definition wants_json :: "request \<Rightarrow> bool" where
  "wants_json rq \<longleftrightarrow> header rq ''x-requested-with'' = ''XMLHttpRequest'' \<or>
     contains (header rq ''accept'') ''application/json''"

definition file_idempotency_key :: "str \<Rightarrow> nat \<Rightarrow> nat \<Rightarrow> str option" where
  "file_idempotency_key request_key file_count index =
    (if request_key = [] then None
     else Some (if 1 < file_count then request_key @ '':'' @ int_str (int index) else request_key))"

text \<open>The loop over the files.  A file that cannot be read ends it with an exception; the photos before it stay.\<close>

fun upload_files :: "settings \<Rightarrow> public_env \<Rightarrow> event \<Rightarrow> str \<Rightarrow> nat \<Rightarrow> nat \<Rightarrow> form_file list \<Rightarrow> session \<Rightarrow> storage \<Rightarrow>
    (upload_result \<times> json) list result \<times> session \<times> storage" where
  "upload_files cfg env event request_key file_count index [] s st = (Inr [], s, st)"
| "upload_files cfg env event request_key file_count index (f # files) s st =
    (case read_upload_limited (ff_upload f) (max_photo_upload_bytes cfg) of
       Inl e \<Rightarrow> (Inl e, s, st)
     | Inr content \<Rightarrow>
         (case ingest_photo_upload cfg (pe_decode env) (pe_digest env) (pe_resize env) (pe_storage env index)
                 (pe_now env index) (pe_ids env index) event (or_text (ff_filename f) ''photo'')
                 (or_empty (ff_content_type f)) content (file_idempotency_key request_key file_count index) s st of
            (Inl e, s1, st1) \<Rightarrow> (Inl e, s1, st1)
          | (Inr r, s1, st1) \<Rightarrow>
              (case upload_files cfg env event request_key file_count (Suc index) files s1 st1 of
                 (Inl e, s2, st2) \<Rightarrow> (Inl e, s2, st2)
               | (Inr rs, s2, st2) \<Rightarrow> (Inr ((r, serialize_photo_upload_result (live s1) r) # rs), s2, st2))))"

definition upload_message :: "nat \<Rightarrow> upload_result list \<Rightarrow> str" where
  "upload_message file_count rs =
    (let queued = length (filter ur_success rs); failed = length (filter (\<lambda>r. \<not> ur_success r) rs);
         failure_notes = map (\<lambda>r. ur_file_name r @ '': '' @ ur_message r) (filter (\<lambda>r. \<not> ur_success r) rs);
         message = ''Uploaded '' @ int_str (int file_count) @ '' photo(s). Queued '' @ int_str (int queued) @
           '', failed '' @ int_str (int failed) @ ''.''
     in if failure_notes = [] then message else message @ '' '' @ join '' | '' (take 3 failure_notes))"

definition upload_answer :: "bool \<Rightarrow> event \<Rightarrow> nat \<Rightarrow> (upload_result \<times> json) list \<Rightarrow> web_answer" where
  "upload_answer json event file_count rs =
    (let queued = length (filter (ur_success \<circ> fst) rs); failed = length (filter (\<lambda>r. \<not> ur_success (fst r)) rs);
         message = upload_message file_count (map fst rs)
     in if json
        then JsonAnswer (if 0 < queued then 202 else 422)
               (JDict [(''message'', JStr message), (''processed_count'', JInt (int file_count)),
                 (''queued_count'', JInt (int queued)), (''failed_count'', JInt (int failed)),
                 (''results'', JList (map snd rs))]) []
        else redirect_with_message (''/upload/events/'' @ uuid_str (ev_id event)) message
               (if 0 < failed then ''error'' else ''success''))"

definition upload_audited :: "request \<Rightarrow> str \<Rightarrow> event \<Rightarrow> nat \<Rightarrow> upload_result list \<Rightarrow> session \<Rightarrow> session" where
  "upload_audited rq request_id event file_count rs s =
    (let queued = length (filter ur_success rs); failed = length (filter (\<lambda>r. \<not> ur_success r) rs)
     in if queued = 0 then s
        else append_admin_audit rq request_id ''photo.upload'' (Some ''event'') (Some (uuid_str (ev_id event)))
               (Some (uuid_str (ev_id event)))
               [(''submitted_count'', JInt (int file_count)), (''queued_count'', JInt (int queued)),
                (''failed_count'', JInt (int failed))] s)"

text \<open>The batch after the guards.\<close>

definition upload_batch :: "settings \<Rightarrow> public_env \<Rightarrow> request \<Rightarrow> event \<Rightarrow> str \<Rightarrow> form_file list \<Rightarrow> db \<Rightarrow> storage \<Rightarrow>
    web_answer routed \<times> db \<times> storage" where
  "upload_batch cfg env rq event request_key files d st =
    (case upload_files cfg env event request_key (length files) 0 files (open_session d) st of
       (Inl e, s1, st1) \<Rightarrow> (Inl (raised e), committed s1, st1)
     | (Inr rs, s1, st1) \<Rightarrow>
         (Inr (upload_answer (wants_json rq) event (length files) rs),
          committed (upload_audited rq (pe_request_id env) event (length files) (map fst rs) s1), st1))"

definition no_upload_answer :: "bool \<Rightarrow> event \<Rightarrow> web_answer" where
  "no_upload_answer json event =
    (let message = ''Choose one or more image files before uploading.''
     in if json
        then JsonAnswer 400 (JDict [(''message'', JStr message), (''processed_count'', JInt 0),
               (''queued_count'', JInt 0), (''failed_count'', JInt 0), (''results'', JList [])]) []
        else redirect_with_message (''/upload/events/'' @ uuid_str (ev_id event)) message ''error'')"

definition photographer_upload_action :: "settings \<Rightarrow> public_env \<Rightarrow> request \<Rightarrow> str \<Rightarrow> form_file list \<Rightarrow>
    db \<times> storage \<Rightarrow> web_answer routed \<times> db \<times> storage" where
  "photographer_upload_action cfg env rq event_id photo_files w =
    (case w of (d, st) \<Rightarrow>
       (case get_published_event d event_id of
          None \<Rightarrow> (Inl (not_found ''Published event not found.''), d, st)
        | Some event \<Rightarrow>
            (let files = submitted_files photo_files; n = length files in
             if files = [] then (Inr (no_upload_answer (wants_json rq) event), d, st)
             else if max_photo_batch_files cfg < int n
             then (Inl (raised (HTTPException 413 ''Too many photo files in one upload request.'')), d, st)
             else case enforce_persistent_upload_limits cfg (pe_limiter env) (pe_visitor env)
                         (client_ip (pe_canonical_ip env) cfg rq) (uuid_str (ev_id event)) (int n) d of
                    (Inl e, d1) \<Rightarrow> (Inl e, d1, st)
                  | (Inr _, d1) \<Rightarrow>
                      (case ensure_job_capacity d1 PhotoJobs (max_photo_job_backlog cfg) (int n * 2)
                              ''Photo processing is temporarily full. Please retry after queued work finishes.'' of
                         Inl e \<Rightarrow> (Inl e, d1, st)
                       | Inr _ \<Rightarrow>
                           (let request_key = strip (header rq ''idempotency-key'') in
                            if 120 < length request_key
                            then (Inl (raised (HTTPException 400 ''Idempotency-Key is too long.'')), d1, st)
                            else upload_batch cfg env rq event request_key files d1 st)))))"

section \<open>Searching\<close>

definition search_page :: "event \<Rightarrow> str" where
  "search_page event = ''/user/events/'' @ uuid_str (ev_id event)"

text \<open>\<^verbatim>\<open>redirect_with_search_capability\<close>: the session row gets the hashes, the browser the cookie.\<close>

definition redirect_with_search_capability ::
    "settings \<Rightarrow> public_env \<Rightarrow> event \<Rightarrow> uuid \<Rightarrow> str \<Rightarrow> str \<Rightarrow> session \<Rightarrow> web_answer \<times> session" where
  "redirect_with_search_capability cfg env event session_id message level s =
    (let capability = fst (bind_search_capability (pe_crypto env) cfg (pe_bind_now env) (pe_secret env)
           (pe_visitor env) (ev_id event) session_id (live s));
         s1 = commit (orm (\<lambda>d. snd (bind_search_capability (pe_crypto env) cfg (pe_bind_now env) (pe_secret env)
           (pe_visitor env) (ev_id event) session_id d)) s)
     in (RedirectAnswer 303 (redirect_url (search_page event @ ''?view=results'') message level)
           [set_search_capability_cookie cfg (uuid_str (ev_id event)) capability], s1))"

fun upload_selfies :: "settings \<Rightarrow> public_env \<Rightarrow> event \<Rightarrow> uuid \<Rightarrow> nat \<Rightarrow> form_file list \<Rightarrow> search_session option \<Rightarrow>
    session \<Rightarrow> storage \<Rightarrow> (search_session option \<times> search_upload_result list) result \<times> session \<times> storage" where
  "upload_selfies cfg env event participant_id index [] found s st = (Inr (found, []), s, st)"
| "upload_selfies cfg env event participant_id index (f # files) found s st =
    (case read_upload_limited (ff_upload f) (max_selfie_upload_bytes cfg) of
       Inl e \<Rightarrow> (Inl e, s, st)
     | Inr content \<Rightarrow>
         (case ingest_face_search_upload cfg (pe_decode env) (pe_digest env) (pe_storage env index) (pe_now env index)
                 (pe_ids env index) event found (Some participant_id) (or_text (ff_filename f) ''face-photo'')
                 (or_empty (ff_content_type f)) content s st of
            (Inl e, s1, st1) \<Rightarrow> (Inl e, s1, st1)
          | (Inr r, s1, st1) \<Rightarrow>
              (case upload_selfies cfg env event participant_id (Suc index) files
                      (case su_search_session r of None \<Rightarrow> found | Some x \<Rightarrow> Some x) s1 st1 of
                 (Inl e, s2, st2) \<Rightarrow> (Inl e, s2, st2)
               | (Inr (x, rs), s2, st2) \<Rightarrow> (Inr (x, r # rs), s2, st2))))"

definition selfies_message :: "search_upload_result list \<Rightarrow> str" where
  "selfies_message rs =
    (let n = length (filter su_success rs); failed_notes = map su_message (filter (\<lambda>r. \<not> su_success r) rs);
         message = ''Queued '' @ int_str (int n) @ '' temporary search selfie'' @ (if n = 1 then [] else ''s'') @ ''.''
     in if failed_notes = [] then message else message @ '' '' @ join '' | '' (take 2 failed_notes))"

definition search_with_selfies :: "settings \<Rightarrow> public_env \<Rightarrow> event \<Rightarrow> participant \<Rightarrow> form_file list \<Rightarrow> db \<Rightarrow> storage \<Rightarrow>
    web_answer routed \<times> db \<times> storage" where
  "search_with_selfies cfg env event participant files d st =
    (case upload_selfies cfg env event (pa_id participant) 0 files None (open_session d) st of
       (Inl e, s1, st1) \<Rightarrow> (Inl (raised e), committed s1, st1)
     | (Inr (None, rs), s1, st1) \<Rightarrow>
         (Inr (redirect_with_message (search_page event) ''Search could not be created. Please retry.'' ''error''),
          committed s1, st1)
     | (Inr (Some x, rs), s1, st1) \<Rightarrow>
         (case redirect_with_search_capability cfg env event (fs_id x) (selfies_message rs)
                 (if filter (\<lambda>r. \<not> su_success r) rs \<noteq> [] \<and> filter su_success rs = [] then ''error'' else ''info'') s1 of
            (ans, s2) \<Rightarrow> (Inr ans, committed s2, st1)))"

definition no_participant :: "event \<Rightarrow> web_answer" where
  "no_participant event = redirect_with_message (search_page event)
     ''No unique exact participant match was found. Enter your exact bib number.'' ''error''"

definition user_upload_selfies_by_search :: "settings \<Rightarrow> public_env \<Rightarrow> request \<Rightarrow> str \<Rightarrow> str \<Rightarrow> form_file list \<Rightarrow>
    db \<times> storage \<Rightarrow> web_answer routed \<times> db \<times> storage" where
  "user_upload_selfies_by_search cfg env rq event_id participant_query selfie_files w =
    (case w of (d, st) \<Rightarrow>
       (case get_published_event d event_id of
          None \<Rightarrow> (Inl (not_found ''Published event not found.''), d, st)
        | Some event \<Rightarrow>
            (case enforce_persistent_search_limits cfg (pe_limiter env) (pe_visitor env)
                    (client_ip (pe_canonical_ip env) cfg rq) (uuid_str (ev_id event)) d of
               (Inl e, d1) \<Rightarrow> (Inl e, d1, st)
             | (Inr _, d1) \<Rightarrow>
                 (let query = strip participant_query; files = submitted_files selfie_files in
                  if query = []
                  then (Inr (redirect_with_message (search_page event)
                         ''Enter your bib number or participant name and upload at least one selfie.'' ''error''), d1, st)
                  else if files = []
                  then (Inr (redirect_with_message (search_page event)
                         ''Choose at least one face photo before uploading.'' ''error''), d1, st)
                  else if max_selfie_batch_files cfg < int (length files)
                  then (Inl (raised (HTTPException 413 ''Too many selfie files in one search.'')), d1, st)
                  else case find_event_participant d1 (ev_id event) query of
                         None \<Rightarrow> (Inr (no_participant event), d1, st)
                       | Some participant \<Rightarrow>
                           (case ensure_job_capacity d1 FaceSearchJobs (max_face_search_backlog cfg) (int (length files))
                                   ''Search processing is temporarily full. Please retry shortly.'' of
                              Inl e \<Rightarrow> (Inl e, d1, st)
                            | Inr _ \<Rightarrow> search_with_selfies cfg env event participant files d1 st)))))"

text \<open>A search by bib needs no file; \<^verbatim>\<open>pe_ids env 0 0\<close> is the id of its session.  An exception of the search is a
  rollback.\<close>

definition user_bib_only_search :: "settings \<Rightarrow> public_env \<Rightarrow> request \<Rightarrow> str \<Rightarrow> str \<Rightarrow> db \<Rightarrow> web_answer routed \<times> db" where
  "user_bib_only_search cfg env rq event_id participant_query d =
    (case get_published_event d event_id of
       None \<Rightarrow> (Inl (not_found ''Published event not found.''), d)
     | Some event \<Rightarrow>
         (case enforce_persistent_search_limits cfg (pe_limiter env) (pe_visitor env)
                 (client_ip (pe_canonical_ip env) cfg rq) (uuid_str (ev_id event)) d of
            (Inl e, d1) \<Rightarrow> (Inl e, d1)
          | (Inr _, d1) \<Rightarrow>
              (let query = strip participant_query in
               if query = []
               then (Inr (redirect_with_message (search_page event)
                      ''Enter your bib number or participant name before using bib-only search.'' ''error''), d1)
               else case find_event_participant d1 (ev_id event) query of
                      None \<Rightarrow> (Inr (no_participant event), d1)
                    | Some participant \<Rightarrow>
                        (case create_bib_only_face_search_session cfg (pe_now env 0) (pe_ids env 0 0) (ev_id event)
                                participant (open_session d1) of
                           (Inl e, s1) \<Rightarrow> (Inl (raised e), committed s1)
                         | (Inr (sid, seed_count), s1) \<Rightarrow>
                             (case redirect_with_search_capability cfg env event sid
                                     (''Started bib-only reinforced search. Temporary face seeds found: '' @
                                      int_str seed_count @ ''.'')
                                     (if seed_count \<noteq> 0 then ''info'' else ''error'') s1 of
                                (ans, s2) \<Rightarrow> (Inr ans, committed s2))))))"

section \<open>Results\<close>

text \<open>A reader of results: its cookies, its visitor id and its clock.\<close>

record reader =
  rd_crypto :: crypto
  rd_repr :: "json \<Rightarrow> str"
  rd_url :: "str \<Rightarrow> str option"
  rd_now :: time
  rd_cookies :: "str \<rightharpoonup> str"
  rd_visitor :: str

definition authorized_results_for ::
    "settings \<Rightarrow> reader \<Rightarrow> db \<Rightarrow> event \<Rightarrow> int \<Rightarrow> (search_session option \<times> search_item list \<times> int) result" where
  "authorized_results_for cfg rd d event offset =
     authorized_search_results (rd_crypto rd) cfg (rd_repr rd) (rd_url rd) (rd_now rd) (rd_cookies rd) (rd_visitor rd)
       d (ev_id event) offset SEARCH_RESULTS_PAGE_SIZE"

definition user_event_results_page :: "settings \<Rightarrow> reader \<Rightarrow> str \<Rightarrow> str \<Rightarrow> db \<Rightarrow> web_answer routed" where
  "user_event_results_page cfg rd event_id page_parameter d =
    (case get_published_event d event_id of
       None \<Rightarrow> Inl (not_found ''Published event not found.'')
     | Some event \<Rightarrow>
         (let page = search_results_page_number cfg page_parameter in
          case authorized_results_for cfg rd d event ((page - 1) * SEARCH_RESULTS_PAGE_SIZE) of
            Inl e \<Rightarrow> Inl (raised e)
          | Inr (None, _) \<Rightarrow>
              Inl (raised (HTTPException 403 ''Search results are no longer available. Start a new search.''))
          | Inr (Some _, results, found) \<Rightarrow>
              Inr (PageAnswer 200 (PhotoCards results (int (length results)) (page * SEARCH_RESULTS_PAGE_SIZE < found)) [])))"

text \<open>An old link, with the session or the query in its address, leads to the page without them.\<close>

definition user_event_search_page :: "settings \<Rightarrow> reader \<Rightarrow> (str \<rightharpoonup> str) \<Rightarrow> str \<Rightarrow> db \<Rightarrow> web_answer routed" where
  "user_event_search_page cfg rd query event_id d =
    (case get_published_event d event_id of
       None \<Rightarrow> Inl (not_found ''Published event not found.'')
     | Some event \<Rightarrow>
         if query ''face_session'' \<noteq> None \<or> query ''q'' \<noteq> None
         then Inr (RedirectAnswer 303 (search_page event) [])
         else
           (let page = search_results_page_number cfg (case query ''page'' of None \<Rightarrow> ''1'' | Some p \<Rightarrow> p) in
            case (if query ''view'' = Some ''results''
                  then authorized_results_for cfg rd d event ((page - 1) * SEARCH_RESULTS_PAGE_SIZE)
                  else Inr (None, [], 0)) of
              Inl e \<Rightarrow> Inl (raised e)
            | Inr (s, results, found) \<Rightarrow>
                Inr (PageAnswer 200 (SearchPage \<lparr>sp_event = event, sp_search_term = search_term_of d s, sp_session = s,
                  sp_results = results, sp_total = found, sp_page = page,
                  sp_has_more = page * SEARCH_RESULTS_PAGE_SIZE < found, sp_message = query_message query\<rparr>) [])))"

definition photographer_event_list_page :: "(str \<rightharpoonup> str) \<Rightarrow> db \<Rightarrow> web_answer routed" where
  "photographer_event_list_page query d =
     Inr (PageAnswer 200 (UploadEventsPage (list_published_events d) (query_message query)) [])"

definition user_event_list_page :: "db \<Rightarrow> web_answer routed" where
  "user_event_list_page d = Inr (PageAnswer 200 (UserEventsPage (list_user_events d)) [])"

definition photographer_event_upload_page :: "settings \<Rightarrow> (str \<rightharpoonup> str) \<Rightarrow> str \<Rightarrow> db \<Rightarrow> web_answer routed" where
  "photographer_event_upload_page cfg query event_id d =
    (case get_published_event d event_id of
       None \<Rightarrow> Inl (not_found ''Published event not found.'')
     | Some event \<Rightarrow> Inr (PageAnswer 200 (UploadPage (upload_page cfg d query event)) []))"

text \<open>\<^verbatim>\<open>generate_download_url\<close>: \<^verbatim>\<open>presign key disposition seconds\<close> is the S3 client, which may raise.\<close>

definition is_object_storage_configured :: "settings \<Rightarrow> bool" where
  "is_object_storage_configured cfg \<longleftrightarrow> r2_bucket_name cfg \<noteq> [] \<and> r2_endpoint cfg \<noteq> [] \<and>
     r2_access_key_id cfg \<noteq> [] \<and> r2_secret_access_key cfg \<noteq> []"

definition safe_disposition_name :: "str \<Rightarrow> str" where
  "safe_disposition_name download_name =
     take 200 (filter (\<lambda>c. c \<noteq> CHR 34 \<and> char_code c \<noteq> 13 \<and> char_code c \<noteq> 10) download_name)"

definition generate_download_url ::
    "settings \<Rightarrow> (str \<Rightarrow> str option \<Rightarrow> int \<Rightarrow> str result) \<Rightarrow> str \<Rightarrow> str option \<Rightarrow> int option \<Rightarrow> str result" where
  "generate_download_url cfg presign object_key download_name ttl_seconds =
     presign object_key
       (case download_name of
          None \<Rightarrow> None
        | Some n \<Rightarrow> if n = [] then None
            else Some (''attachment; filename='' @ CHR 34 # safe_disposition_name n @ [CHR 34]))
       (max 60 (min (case ttl_seconds of None \<Rightarrow> r2_presigned_url_ttl_seconds cfg
          | Some t \<Rightarrow> if t = 0 then r2_presigned_url_ttl_seconds cfg else t) 3600))"

definition generate_photo_access_url ::
    "settings \<Rightarrow> (str \<Rightarrow> str option \<Rightarrow> int \<Rightarrow> str result) \<Rightarrow> str \<Rightarrow> str option \<Rightarrow> str option result" where
  "generate_photo_access_url cfg presign object_key download_name =
    (if \<not> is_object_storage_configured cfg then Inr None
     else map_sum id Some (generate_download_url cfg presign object_key download_name None))"

definition safe_photo_access_url :: "settings \<Rightarrow> (str \<Rightarrow> str option \<Rightarrow> int \<Rightarrow> str result) \<Rightarrow> str \<Rightarrow> str option" where
  "safe_photo_access_url cfg presign object_key =
    (case generate_photo_access_url cfg presign object_key None of Inl _ \<Rightarrow> None | Inr u \<Rightarrow> u)"

definition user_event_thumbnail :: "settings \<Rightarrow> (str \<Rightarrow> str option \<Rightarrow> int \<Rightarrow> str result) \<Rightarrow> str \<Rightarrow> db \<Rightarrow> web_answer routed" where
  "user_event_thumbnail cfg presign event_id d =
    (case Option.bind (get_published_event d event_id) ev_thumbnail_object_key of
       None \<Rightarrow> Inl (not_found ''Event thumbnail not found.'')
     | Some key \<Rightarrow>
         if key = [] then Inl (not_found ''Event thumbnail not found.'')
         else (case generate_photo_access_url cfg presign key None of
                 Inl e \<Rightarrow> Inl (raised e)
               | Inr url \<Rightarrow>
                   if or_empty url = []
                   then Inl (raised (HTTPException 503 ''Event thumbnail is temporarily unavailable.''))
                   else Inr (RedirectAnswer 307 (or_empty url) [])))"

definition user_download_photo ::
    "settings \<Rightarrow> (str \<Rightarrow> str option \<Rightarrow> int \<Rightarrow> str result) \<Rightarrow> reader \<Rightarrow> str \<Rightarrow> str \<Rightarrow> int \<Rightarrow> str \<Rightarrow> db \<Rightarrow> web_answer routed" where
  "user_download_photo cfg presign rd event_id photo_id page page_parameter d =
    (case get_published_event d event_id of
       None \<Rightarrow> Inl (not_found ''Published event not found.'')
     | Some event \<Rightarrow>
         (let safe_page = max 1 (min page (search_results_page_number cfg page_parameter)) in
          case authorized_results_for cfg rd d event ((safe_page - 1) * SEARCH_RESULTS_PAGE_SIZE) of
            Inl e \<Rightarrow> Inl (raised e)
          | Inr (_, items, _) \<Rightarrow>
              if \<not> (\<exists>it \<in> set items. uuid_str (ph_id (it_photo it)) = photo_id) then Inl (not_found ''Photo not found.'')
              else (case get_event_photo d (ev_id event) photo_id of
                      None \<Rightarrow> Inl (not_found ''Photo not found.'')
                    | Some photo \<Rightarrow>
                        (case generate_photo_access_url cfg presign (ph_original_object_key photo) (Some (ph_file_name photo)) of
                           Inl _ \<Rightarrow> Inl (raised (HTTPException 503 ''Photo download is temporarily unavailable.''))
                         | Inr url \<Rightarrow>
                             if or_empty url = []
                             then Inl (raised (HTTPException 503 ''Photo download is temporarily unavailable.''))
                             else Inr (RedirectAnswer 303 (or_empty url) [])))))"

definition user_download_all_photos :: "settings \<Rightarrow> reader \<Rightarrow> str \<Rightarrow> nat \<Rightarrow> db \<Rightarrow> web_answer routed option" where
  "user_download_all_photos cfg rd event_id fuel d =
    (case get_published_event d event_id of
       None \<Rightarrow> Some (Inl (not_found ''Published event not found.''))
     | Some event \<Rightarrow>
         (case download_loop fuel (authorized_results_for cfg rd d event) 0 1 [] of
            None \<Rightarrow> None
          | Some (Inl e) \<Rightarrow> Some (Inl (raised e))
          | Some (Inr found) \<Rightarrow>
              Some (case downloadable found of
                      Inl e \<Rightarrow> Inl (raised e)
                    | Inr ps \<Rightarrow> Inr (PhotoZip ps (safe_download_name
                        ((if ev_slug event = [] then ''raceframe'' else ev_slug event) @ ''-photos.zip'')
                        ''raceframe-photos.zip'') []))))"

end
