(* ===== verification/PublicRouteFacts.thy ===== *)
theory PublicRouteFacts
  imports PublicRoutes IngestFacts ListingFacts RateLimitFacts SearchFacts
begin

text \<open>
  What the routes for photographers and visitors promise: an upload request adds only photos with their jobs and
  never more jobs than the backlog allows, and the cookie a search answers with opens the results of that search.
\<close>

section \<open>Sessions between two operations\<close>

text \<open>Nothing is pending: all three views of the data agree.\<close>

definition settled_session :: "session \<Rightarrow> bool" where
  "settled_session s \<longleftrightarrow> flushed s = committed s \<and> live s = committed s"

lemma settled_simps [simp]: "settled_session (open_session d)" "settled_session (commit s)" "settled_session (rollback s)"
  by (simp_all add: settled_session_def)

section \<open>The limiter\<close>

lemma hit_frame: "hit_persistent_limit h cfg now bucket key limit window units d = (r, d') \<Longrightarrow>
    d' = d\<lparr>rate_buckets := rate_buckets d'\<rparr>"
  by (auto simp: hit_persistent_limit_def Let_def split: if_splits)

lemma enforce_frame:
  "enforce_limits cfg le units a b n checks d = (r, d') \<Longrightarrow> d' = d\<lparr>rate_buckets := rate_buckets d'\<rparr>"
proof (induction checks arbitrary: n d)
  case Nil
  then show ?case by simp
next
  case (Cons c checks)
  obtain bucket key limit window where c: "c = (bucket, key, limit, window)" by (metis prod_cases4)
  obtain x d1 where h: "hit_persistent_limit (le_hmac_hex le) cfg (le_now le n) bucket key limit window units d = (x, d1)"
    by fastforce
  note f = hit_frame[OF h]
  show ?case
  proof (cases "le_raises le n")
    case True
    then show ?thesis using Cons.prems c by simp
  next
    case False
    show ?thesis
    proof (cases "x = Inr None")
      case True
      then have "enforce_limits cfg le units a b (Suc n) checks d1 = (r, d')" using Cons.prems c h False by simp
      from Cons.IH[OF this] f show ?thesis by (metis (no_types, lifting) db.surjective db.update_convs(17))
    next
      case not_ok: False
      then have "d' = d1" using Cons.prems c h False by (auto split: sum.splits option.splits)
      with f show ?thesis by simp
    qed
  qed
qed


section \<open>Uploading photos\<close>

lemma publish_photo_rows:
  assumes "publish_photo cfg env now ids photo s st = (r, s', st')" "settled_session s"
  shows "settled_session s' \<and> committed s' \<in> {committed s, add_photo cfg now ids photo (committed s)} \<and>
    (ur_success r \<longrightarrow> ur_photo r = Some photo \<and> committed s' = add_photo cfg now ids photo (committed s))"
  using assms by (auto simp: publish_photo_def Let_def settled_session_def refused_def accepted_def split: if_splits)

definition photo_accounted :: "event \<Rightarrow> db \<Rightarrow> upload_result \<Rightarrow> bool" where
  "photo_accounted event d r \<longleftrightarrow>
     (ur_success r \<longrightarrow> (\<exists>p \<in> set (photos d). ur_photo r = Some p \<and> ph_event_id p = ev_id event))"

text \<open>What one upload does to the rows.\<close>

definition uploaded_one :: "settings \<Rightarrow> time \<Rightarrow> (nat \<Rightarrow> uuid) \<Rightarrow> event \<Rightarrow> db \<Rightarrow> db \<Rightarrow> bool" where
  "uploaded_one cfg now ids event d d' \<longleftrightarrow>
     d' = d \<or> (\<exists>p. ph_event_id p = ev_id event \<and> ph_id p = ids 0 \<and> d' = add_photo cfg now ids p d)"

lemma ingest_photo_rows:
  assumes "ingest_photo_upload cfg decode digest resize env now ids event name type content key s st = (r, s', st')"
    and "settled_session s"
  shows "settled_session s' \<and> uploaded_one cfg now ids event (committed s) (committed s') \<and>
    (\<forall>res. r = Inr res \<longrightarrow> photo_accounted event (committed s') res)"
proof -
  have new: "settled_session s2 \<and> uploaded_one cfg now ids event (committed s) (committed s2) \<and>
      photo_accounted event (committed s2) res"
    if "ingest_new_photo cfg resize env now ids event fname img content k s st = (res, s2, st2)" for fname img k res s2 st2
  proof -
    let ?p = "new_photo now (ids 0) event fname img content k"
    obtain ok st1 where 1: "store_photo env (create_photo_thumbnail cfg resize content)
        (build_original_object_key (ev_id event) (ids 0) fname) (build_thumbnail_object_key (ev_id event) (ids 0) fname)
        content st = (ok, st1)" by fastforce
    show ?thesis
    proof (cases ok)
      case False
      then show ?thesis using that 1 assms(2)
        by (auto simp: ingest_new_photo_def Let_def refused_def photo_accounted_def uploaded_one_def)
    next
      case True
      then have "publish_photo cfg env now ids ?p s st1 = (res, s2, st2)" using that 1 by (simp add: ingest_new_photo_def Let_def)
      note rows = publish_photo_rows[OF this assms(2)]
      have p: "ph_event_id ?p = ev_id event" "ph_id ?p = ids 0" by (simp_all add: new_photo_def)
      then have "uploaded_one cfg now ids event (committed s) (add_photo cfg now ids ?p (committed s))"
        unfolding uploaded_one_def by blast
      then have "uploaded_one cfg now ids event (committed s) (committed s2)" using rows by (auto simp: uploaded_one_def)
      moreover have "photo_accounted event (committed s2) res"
        using rows p unfolding photo_accounted_def by (auto simp: add_photo_def)
      ultimately show ?thesis using rows by blast
    qed
  qed
  have found: "p \<in> set (photos (committed s)) \<and> ph_event_id p = ev_id event"
    if "existing_photo (ev_id event) k c (flushed s) = Some p" for k c p
    using that assms(2) by (auto simp: existing_photo_def settled_session_def dest!: find_SomeD)
  show ?thesis
  proof (cases "validated (validate_image_upload cfg) cfg decode digest (strip name) type content (max_photo_upload_bytes cfg)")
    case (Inl e)
    then show ?thesis using assms
      by (auto simp: ingest_photo_upload_def Let_def uploaded_one_def photo_accounted_def refused_def split: if_splits)
  next
    case (Inr v)
    show ?thesis
    proof (cases v)
      case (Inl m)
      then show ?thesis using assms Inr
        by (auto simp: ingest_photo_upload_def Let_def uploaded_one_def photo_accounted_def refused_def split: if_splits)
    next
      case img: (Inr img)
      let ?old = "existing_photo (ev_id event) (normalized_idempotency_key key) (vi_sha256 img) (flushed s)"
      show ?thesis
      proof (cases ?old)
        case (Some p)
        then show ?thesis using assms Inr img found[OF Some]
          by (auto simp: ingest_photo_upload_def Let_def uploaded_one_def photo_accounted_def refused_def accepted_def split: if_splits)
      next
        case None
        then show ?thesis using assms Inr img
            new[of "strip name" img "normalized_idempotency_key key"]
          by (auto simp: ingest_photo_upload_def Let_def uploaded_one_def photo_accounted_def refused_def map_prod_def
              split: if_splits prod.splits)
      qed
    qed
  qed
qed


definition photo_pair :: "photo \<Rightarrow> job_parent list" where
  "photo_pair p = [OfPhoto (ph_id p), OfPhoto (ph_id p)]"

text \<open>Only photos of the event were added, at most \<^term>\<open>n\<close> of them, each with its two queued jobs.\<close>

definition photos_grown :: "event \<Rightarrow> nat \<Rightarrow> db \<Rightarrow> db \<Rightarrow> bool" where
  "photos_grown event n d d' \<longleftrightarrow> (\<exists>new js. d' = d\<lparr>photos := photos d @ new, photo_jobs := photo_jobs d @ js\<rparr> \<and>
     length new \<le> n \<and> list_all (\<lambda>p. ph_event_id p = ev_id event) new \<and>
     map j_parent js = concat (map photo_pair new) \<and> list_all (\<lambda>j. j_status j = Queued) js)"

lemma photos_grown_refl [simp]: "photos_grown event n d d"
  unfolding photos_grown_def by (rule exI[of _ "[]"], rule exI[of _ "[]"]) simp

lemma photos_grown_one: "uploaded_one cfg now ids event d d' \<Longrightarrow> photos_grown event 1 d d'"
proof (unfold uploaded_one_def, elim disjE exE conjE)
  fix p
  assume p: "ph_event_id p = ev_id event" "d' = add_photo cfg now ids p d"
  show "photos_grown event 1 d d'"
    unfolding photos_grown_def p(2) add_photo_def
    by (rule exI[of _ "[p]"], rule exI[of _ "[queued_row cfg now (ids 1) (OfPhoto (ph_id p)) Ocr,
          queued_row cfg now (ids 2) (OfPhoto (ph_id p)) FacePhotoScan]"])
      (simp add: p(1) photo_pair_def queued_row_def)
qed simp

lemma photos_grown_trans:
  assumes "photos_grown event m d1 d2" "photos_grown event n d2 d3"
  shows "photos_grown event (m + n) d1 d3"
proof -
  obtain new1 js1 where 1: "d2 = d1\<lparr>photos := photos d1 @ new1, photo_jobs := photo_jobs d1 @ js1\<rparr>" "length new1 \<le> m"
      "list_all (\<lambda>p. ph_event_id p = ev_id event) new1" "map j_parent js1 = concat (map photo_pair new1)"
      "list_all (\<lambda>j. j_status j = Queued) js1"
    using assms(1) unfolding photos_grown_def by blast
  obtain new2 js2 where 2: "d3 = d2\<lparr>photos := photos d2 @ new2, photo_jobs := photo_jobs d2 @ js2\<rparr>" "length new2 \<le> n"
      "list_all (\<lambda>p. ph_event_id p = ev_id event) new2" "map j_parent js2 = concat (map photo_pair new2)"
      "list_all (\<lambda>j. j_status j = Queued) js2"
    using assms(2) unfolding photos_grown_def by blast
  show ?thesis
    unfolding photos_grown_def
    by (rule exI[of _ "new1 @ new2"], rule exI[of _ "js1 @ js2"]) (use 1 2 in simp)
qed

lemma photos_grown_photos: "photos_grown event n d d' \<Longrightarrow> set (photos d) \<subseteq> set (photos d')"
  by (auto simp: photos_grown_def)

lemma photo_accounted_later:
  "photo_accounted event d r \<Longrightarrow> set (photos d) \<subseteq> set (photos d') \<Longrightarrow> photo_accounted event d' r"
  by (auto simp: photo_accounted_def)

lemma upload_files_rows:
  assumes "upload_files cfg env event key k i files s st = (r, s', st')" "settled_session s"
  shows "settled_session s' \<and> photos_grown event (length files) (committed s) (committed s') \<and>
    (\<forall>rs. r = Inr rs \<longrightarrow> length rs = length files \<and> list_all (photo_accounted event (committed s')) (map fst rs))"
  using assms
proof (induction files arbitrary: i s st r s' st')
  case Nil
  then show ?case by auto
next
  case (Cons f files)
  show ?case
  proof (cases "read_upload_limited (ff_upload f) (max_photo_upload_bytes cfg)")
    case (Inl e)
    with Cons.prems show ?thesis by auto
  next
    case (Inr content)
    obtain x s1 st1 where u: "ingest_photo_upload cfg (pe_decode env) (pe_digest env) (pe_resize env) (pe_storage env i)
        (pe_now env i) (pe_ids env i) event (or_text (ff_filename f) ''photo'') (or_empty (ff_content_type f)) content
        (file_idempotency_key key k i) s st = (x, s1, st1)" by (metis prod_cases3)
    note one = ingest_photo_rows[OF u Cons.prems(2)]
    have g1: "photos_grown event 1 (committed s) (committed s1)" using one photos_grown_one by blast
    show ?thesis
    proof (cases x)
      case (Inl e)
      have "photos_grown event (1 + length files) (committed s) (committed s1)"
        using photos_grown_trans[OF g1 photos_grown_refl] .
      then show ?thesis using Cons.prems Inr u Inl one by auto
    next
      case res: (Inr res)
      obtain y s2 st2 where rest: "upload_files cfg env event key k (Suc i) files s1 st1 = (y, s2, st2)" by (metis prod_cases3)
      from one have "settled_session s1" by blast
      note ih = Cons.IH[OF rest this]
      have g: "photos_grown event (1 + length files) (committed s) (committed s2)"
        using photos_grown_trans[OF g1] ih by blast
      have "photo_accounted event (committed s2) res"
        using photo_accounted_later photos_grown_photos one ih res by blast
      then show ?thesis using Cons.prems Inr u res rest ih g by (cases y) auto
    qed
  qed
qed

lemma active_jobs_append: "active_jobs (js @ ks) = active_jobs js + active_jobs ks"
  by (simp add: active_jobs_def)

lemma active_jobs_bound: "active_jobs js \<le> int (length js)"
  by (simp add: active_jobs_def)

lemma photo_pairs_length: "length (concat (map photo_pair ps)) = 2 * length ps"
  by (induction ps) (simp_all add: photo_pair_def)

lemma photos_grown_jobs:
  assumes "photos_grown event n d d'"
  shows "active_jobs (photo_jobs d') \<le> active_jobs (photo_jobs d) + 2 * int n"
proof -
  obtain new js where g: "d' = d\<lparr>photos := photos d @ new, photo_jobs := photo_jobs d @ js\<rparr>" "length new \<le> n"
      "map j_parent js = concat (map photo_pair new)"
    using assms unfolding photos_grown_def by blast
  have "length js = 2 * length new" using arg_cong[OF g(3), of length] by (simp add: photo_pairs_length)
  then show ?thesis using g(1,2) active_jobs_bound[of js] by (simp add: active_jobs_append)
qed


lemma upload_audited_frame:
  "settled_session s \<Longrightarrow> committed (upload_audited rq i event n rs s) =
    (committed s)\<lparr>audit_rows := audit_rows (committed (upload_audited rq i event n rs s))\<rparr>"
  by (simp add: upload_audited_def Let_def append_admin_audit_def settled_session_def)

text \<open>A database but for what every request writes: the counters of the limiter and the audit log.\<close>

definition unlogged :: "db \<Rightarrow> db" where
  "unlogged d = d\<lparr>rate_buckets := [], audit_rows := []\<rparr>"

lemma unlogged_simps [simp]: "unlogged (d\<lparr>rate_buckets := b\<rparr>) = unlogged d" "unlogged (d\<lparr>audit_rows := a\<rparr>) = unlogged d"
  "photos (unlogged d) = photos d" "photo_jobs (unlogged d) = photo_jobs d" "events (unlogged d) = events d"
  "unlogged (d\<lparr>photos := ps, photo_jobs := js\<rparr>) = (unlogged d)\<lparr>photos := ps, photo_jobs := js\<rparr>"
  by (simp_all add: unlogged_def)

lemma photos_grown_unlogged: "photos_grown event n d d' \<Longrightarrow> photos_grown event n (unlogged d) (unlogged d')"
  unfolding photos_grown_def by fastforce

lemma upload_batch_rows:
  assumes "upload_batch cfg env rq event key files d st = (r, d', st')"
  shows "photos_grown event (length files) (unlogged d) (unlogged d') \<and>
    (\<forall>j cs. r = Inr (JsonAnswer 202 j cs) \<longrightarrow> (\<exists>p \<in> set (photos d'). ph_event_id p = ev_id event))"
proof -
  obtain x s1 st1 where u: "upload_files cfg env event key (length files) 0 files (open_session d) st = (x, s1, st1)"
    by (metis prod_cases3)
  note rows = upload_files_rows[OF u settled_simps(1)]
  show ?thesis
  proof (cases x)
    case (Inl e)
    then show ?thesis using assms u rows photos_grown_unlogged by (auto simp: upload_batch_def)
  next
    case (Inr rs)
    then have r: "r = Inr (upload_answer (wants_json rq) event (length files) rs)"
      and d': "d' = committed (upload_audited rq (pe_request_id env) event (length files) (map fst rs) s1)"
      using assms u by (simp_all add: upload_batch_def)
    have same: "d' = (committed s1)\<lparr>audit_rows := audit_rows d'\<rparr>"
      using upload_audited_frame rows unfolding d' by blast
    then have un: "unlogged d' = unlogged (committed s1)" "photos d' = photos (committed s1)"
      by (metis unlogged_simps(2), metis (no_types, lifting) db.select_convs(3) db.surjective db.update_convs(18))
    have "\<exists>p \<in> set (photos d'). ph_event_id p = ev_id event" if ok: "r = Inr (JsonAnswer 202 j cs)" for j cs
    proof -
      have "filter (ur_success \<circ> fst) rs \<noteq> []"
        using ok unfolding r by (auto simp: upload_answer_def Let_def redirect_with_message_def split: if_splits)
      then obtain y where "y \<in> set rs" "ur_success (fst y)" by (auto simp: filter_empty_conv)
      then show ?thesis using rows Inr un(2) by (auto simp: list_all_iff photo_accounted_def)
    qed
    then show ?thesis using rows un photos_grown_unlogged by auto
  qed
qed

text \<open>C16 (bounds): an upload request.  Whatever the files, the storage and the database do, and wherever the batch
  stops, the request adds nothing but photos of the published event, at most one per submitted file, each with
  its two queued jobs; when it adds any, no more jobs are active afterwards than the backlog allows; and an
  answer that says the upload was accepted is given only when the event has a photo to show for it.\<close>

theorem upload_request_bounded:
  assumes "photographer_upload_action cfg env rq event_id files (d, st) = (r, d', st')"
  shows "(case get_published_event d event_id of
      None \<Rightarrow> d' = d \<and> st' = st
    | Some event \<Rightarrow>
        photos_grown event (length (submitted_files files)) (unlogged d) (unlogged d') \<and>
        (photos d' \<noteq> photos d \<longrightarrow> int (length (submitted_files files)) \<le> max_photo_batch_files cfg \<and>
           active_jobs (photo_jobs d') \<le> max_photo_job_backlog cfg) \<and>
        (\<forall>j cs. r = Inr (JsonAnswer 202 j cs) \<longrightarrow> (\<exists>p \<in> set (photos d'). ph_event_id p = ev_id event)))"
proof (cases "get_published_event d event_id")
  case None
  then show ?thesis using assms by (simp add: photographer_upload_action_def)
next
  case (Some event)
  let ?files = "submitted_files files"
  obtain x d1 where e: "enforce_persistent_upload_limits cfg (pe_limiter env) (pe_visitor env)
      (client_ip (pe_canonical_ip env) cfg rq) (uuid_str (ev_id event)) (int (length ?files)) d = (x, d1)" by fastforce
  have d1: "d1 = d\<lparr>rate_buckets := rate_buckets d1\<rparr>"
    using e enforce_frame unfolding enforce_persistent_upload_limits_def by blast
  then have same: "unlogged d1 = unlogged d" "photos d1 = photos d" "photo_jobs d1 = photo_jobs d"
    by (metis unlogged_simps(1), metis unlogged_simps(1,3), metis unlogged_simps(1,4))
  consider (stopped) "d' \<in> {d, d1}" "\<forall>j cs. r \<noteq> Inr (JsonAnswer 202 j cs)"
    | (ran) key where "int (length ?files) \<le> max_photo_batch_files cfg"
        "active_jobs (photo_jobs d1) + int (length ?files) * 2 \<le> max_photo_job_backlog cfg"
        "upload_batch cfg env rq event key ?files d1 st = (r, d', st')"
    using assms Some e
    by (auto simp: photographer_upload_action_def Let_def ensure_job_capacity_def no_upload_answer_def redirect_with_message_def
        split: if_splits sum.splits)
  then show ?thesis
  proof cases
    case stopped
    then have "unlogged d' = unlogged d" "photos d' = photos d" using same by auto
    then show ?thesis using Some stopped(2) by simp
  next
    case ran
    note rows = upload_batch_rows[OF ran(3)]
    from photos_grown_jobs[OF conjunct1[OF rows]] ran(2) same
    have "active_jobs (photo_jobs d') \<le> max_photo_job_backlog cfg" by simp
    then show ?thesis using Some rows same ran(1) by simp
  qed
qed

definition demo_public_env :: public_env where
  "demo_public_env = \<lparr>pe_limiter = \<lparr>le_hmac_hex = (\<lambda>_ v. v), le_now = (\<lambda>_. 0), le_raises = (\<lambda>_. False)\<rparr>,
     pe_canonical_ip = Some, pe_decode = (\<lambda>_. Decoded ''JPEG'' 640 480 1), pe_digest = (\<lambda>_. replicate 64 CHR ''a''),
     pe_resize = (\<lambda>_ _ _. Some [1]), pe_storage = (\<lambda>_. demo_storage_env\<lparr>se_put := \<lambda>_. Works\<rparr>), pe_now = (\<lambda>_. 0), pe_ids = (\<lambda>i n. of_nat (10 * i + n)),
     pe_request_id = ''r'', pe_visitor = ''visitor-0123456789-0123'',
     pe_crypto = \<lparr>hmac_sha256 = (\<lambda>_ _. ''m''), sha256 = (\<lambda>_. ''h''), ephemeral_secret = ''k''\<rparr>, pe_secret = ''s'', pe_bind_now = 0\<rparr>"


definition demo_form_file :: form_file where
  "demo_form_file = \<lparr>ff_filename = Some ''a.jpg'', ff_content_type = Some ''image/jpeg'',
     ff_upload = \<lparr>up_content_length = None, up_content = [255, 216]\<rparr>\<rparr>"

definition demo_visit :: request where
  "demo_visit = \<lparr>rq_method = ''POST'', rq_path = ''/upload'', rq_headers = [''accept'' \<mapsto> ''application/json''],
     rq_cookies = Map.empty, rq_scheme = ''https'', rq_client = None\<rparr>"

theorem upload_request_bounded_witness:
  "\<exists>r d' st'. photographer_upload_action roomy_settings demo_public_env demo_visit (uuid_str 1) [demo_form_file]
       (empty_db\<lparr>events := [demo_event]\<rparr>, Map.empty) = (r, d', st') \<and>
     photos_grown demo_event 1 (unlogged (empty_db\<lparr>events := [demo_event]\<rparr>)) (unlogged d')"
proof -
  let ?d = "empty_db\<lparr>events := [demo_event]\<rparr>"
  obtain r d' st' where run: "photographer_upload_action roomy_settings demo_public_env demo_visit (uuid_str 1)
      [demo_form_file] (?d, Map.empty) = (r, d', st')" by (metis prod_cases3)
  have p: "get_published_event ?d (uuid_str 1) = Some demo_event"
    by (simp add: get_published_event_def demo_event_def)
  have n: "strip ''a.jpg'' \<noteq> []" by code_simp
  have f: "submitted_files [demo_form_file] = [demo_form_file]"
    using n by (simp add: submitted_files_def demo_form_file_def or_empty_def)
  from upload_request_bounded[OF run] have "photos_grown demo_event 1 (unlogged ?d) (unlogged d')" by (simp add: p f)
  with run show ?thesis by blast
qed

section \<open>Searching\<close>

definition found_in :: "uuid \<Rightarrow> uuid \<Rightarrow> db \<Rightarrow> search_session option \<Rightarrow> bool" where
  "found_in e pid d found \<longleftrightarrow> (case found of None \<Rightarrow> True
     | Some x \<Rightarrow> x \<in> set (search_sessions d) \<and> fs_event_id x = e \<and> fs_participant_id x = Some pid)"

text \<open>Only sessions with the given ids were added, with images and jobs.\<close>

definition searches_grown :: "uuid list \<Rightarrow> db \<Rightarrow> db \<Rightarrow> bool" where
  "searches_grown ids d d' \<longleftrightarrow> (\<exists>new is js. d' = d\<lparr>search_sessions := search_sessions d @ new,
     search_images := search_images d @ is, face_search_jobs := face_search_jobs d @ js\<rparr> \<and>
     subseq (map fs_id new) ids)"

lemma searches_grown_refl [simp]: "searches_grown ids d d"
  unfolding searches_grown_def by (rule exI[of _ "[]"])+ simp

lemma searches_grown_trans:
  assumes "searches_grown a d1 d2" "searches_grown b d2 d3"
  shows "searches_grown (a @ b) d1 d3"
proof -
  obtain n1 i1 j1 where 1: "d2 = d1\<lparr>search_sessions := search_sessions d1 @ n1, search_images := search_images d1 @ i1,
      face_search_jobs := face_search_jobs d1 @ j1\<rparr>" "subseq (map fs_id n1) a"
    using assms(1) unfolding searches_grown_def by blast
  obtain n2 i2 j2 where 2: "d3 = d2\<lparr>search_sessions := search_sessions d2 @ n2, search_images := search_images d2 @ i2,
      face_search_jobs := face_search_jobs d2 @ j2\<rparr>" "subseq (map fs_id n2) b"
    using assms(2) unfolding searches_grown_def by blast
  show ?thesis
    unfolding searches_grown_def
    by (rule exI[of _ "n1 @ n2"], rule exI[of _ "i1 @ i2"], rule exI[of _ "j1 @ j2"])
      (use 1 2 in \<open>simp add: list_emb_append_mono\<close>)
qed

lemma searches_grown_sessions: "searches_grown ids d d' \<Longrightarrow> set (search_sessions d) \<subseteq> set (search_sessions d')"
  by (auto simp: searches_grown_def)

lemma found_in_later: "found_in e pid d x \<Longrightarrow> searches_grown ids d d' \<Longrightarrow> found_in e pid d' x"
  using searches_grown_sessions by (fastforce simp: found_in_def split: option.splits)

lemma publish_search_rows:
  assumes "publish_search_image cfg env now ids x img s st = (r, s', st')"
  shows "(s' = rollback s \<and> \<not> su_success r \<and> su_search_session r = None) \<or>
    (settled_session s' \<and> committed s' = add_search_image cfg now ids img (live s) \<and>
     su_search_session r \<in> {None, Some x})"
  using assms by (auto simp: publish_search_image_def Let_def search_refused_def settled_session_def rollback_def split: if_splits)

lemma ingest_search_rows:
  assumes run: "ingest_face_search_upload cfg decode digest env now ids event found (Some pid) name type content s st = (r, s', st')"
    and s: "settled_session s" and f: "found_in (ev_id event) pid (committed s) found"
  shows "settled_session s' \<and> searches_grown [ids 0] (committed s) (committed s') \<and>
    (\<forall>res. r = Inr res \<longrightarrow> found_in (ev_id event) pid (committed s') (su_search_session res))"
proof -
  let ?x = "case found of Some x \<Rightarrow> x | None \<Rightarrow> new_search_session cfg now (ids 0) (ev_id event) (Some pid)"
  let ?s1 = "case found of Some _ \<Rightarrow> s
     | None \<Rightarrow> flush (orm (\<lambda>d. d\<lparr>search_sessions := search_sessions d @ [?x]\<rparr>) s)"
  have s1: "committed ?s1 = committed s" "settled_session (rollback ?s1)" "committed (rollback ?s1) = committed s"
    by (simp_all split: option.splits)
  have live: "searches_grown [ids 0] (committed s) (add_search_image cfg now ids img (live ?s1))" for img
  proof (cases found)
    case None
    then show ?thesis using s unfolding searches_grown_def settled_session_def
      by (intro exI[of _ "[?x]"] exI[of _ "[img]"] exI) (auto simp: add_search_image_def new_search_session_def)
  next
    case (Some x)
    then show ?thesis using s unfolding searches_grown_def settled_session_def
      by (intro exI[of _ "[]"] exI[of _ "[img]"] exI) (auto simp: add_search_image_def)
  qed
  have x: "found_in (ev_id event) pid (add_search_image cfg now ids img (live ?s1)) (Some ?x)" for img
    using f s by (auto simp: found_in_def add_search_image_def settled_session_def new_search_session_def split: option.splits)
  have pub: "settled_session s2 \<and> searches_grown [ids 0] (committed s) (committed s2) \<and>
      found_in (ev_id event) pid (committed s2) (su_search_session res)"
    if "publish_search_image cfg env now ids ?x img ?s1 st1 = (res, s2, st2)" for img st1 res s2 st2
  proof -
    from publish_search_rows[OF that] show ?thesis
    proof (elim disjE conjE)
      assume "s2 = rollback ?s1" "su_search_session res = None"
      then show ?thesis using s1 by (simp add: found_in_def del: rollback_simps)
    next
      assume "settled_session s2" "committed s2 = add_search_image cfg now ids img (live ?s1)" "su_search_session res \<in> {None, Some ?x}"
      then show ?thesis using live x by (auto simp: found_in_def)
    qed
  qed
  show ?thesis
  proof (cases "validated (validate_selfie_upload cfg) cfg decode digest (strip name) type content (max_selfie_upload_bytes cfg)")
    case (Inl e)
    then show ?thesis using run s f by (auto simp: ingest_face_search_upload_def Let_def search_refused_def split: if_splits)
  next
    case (Inr v)
    show ?thesis
    proof (cases v)
      case (Inl m)
      then show ?thesis using run s f Inr by (auto simp: ingest_face_search_upload_def Let_def search_refused_def split: if_splits)
    next
      case img: (Inr img)
      let ?key = "build_face_search_object_key (ev_id event) (fs_id ?x) (ids 1) (strip name)"
      obtain ok st1 where p: "put_object (se_put env 0) ?key content st = (ok, st1)" by fastforce
      show ?thesis
      proof (cases ok)
        case False
        then show ?thesis using run s f Inr img p s1
          by (auto simp: ingest_face_search_upload_def Let_def search_refused_def simp del: rollback_simps split: if_splits)
      next
        case True
        show ?thesis using run s f Inr img p True pub
          by (auto simp: ingest_face_search_upload_def Let_def search_refused_def map_prod_def split: if_splits prod.splits)
      qed
    qed
  qed
qed


lemma upload_selfies_rows:
  assumes "upload_selfies cfg env event pid i files found s st = (r, s', st')" "settled_session s"
    and "found_in (ev_id event) pid (committed s) found"
  shows "settled_session s' \<and>
    searches_grown (map (\<lambda>k. pe_ids env k 0) [i..<i + length files]) (committed s) (committed s') \<and>
    (\<forall>x rs. r = Inr (x, rs) \<longrightarrow> found_in (ev_id event) pid (committed s') x)"
  using assms
proof (induction files arbitrary: i s st r s' st' found)
  case Nil
  then show ?case by auto
next
  case (Cons f files)
  let ?ids = "\<lambda>i n. map (\<lambda>k. pe_ids env k 0) [i..<i + n]"
  have upt: "?ids i (length (f # files)) = [pe_ids env i 0] @ ?ids (Suc i) (length files)" by (simp add: upt_conv_Cons del: upt_Suc)
  show ?case
  proof (cases "read_upload_limited (ff_upload f) (max_selfie_upload_bytes cfg)")
    case (Inl e)
    with Cons.prems show ?thesis by auto
  next
    case (Inr content)
    obtain x s1 st1 where u: "ingest_face_search_upload cfg (pe_decode env) (pe_digest env) (pe_storage env i)
        (pe_now env i) (pe_ids env i) event found (Some pid) (or_text (ff_filename f) ''face-photo'')
        (or_empty (ff_content_type f)) content s st = (x, s1, st1)" by (metis prod_cases3)
    note one = ingest_search_rows[OF u Cons.prems(2,3)]
    have g1: "searches_grown [pe_ids env i 0] (committed s) (committed s1)" using one by blast
    have more: "searches_grown (?ids i (length (f # files))) (committed s) d2"
      if "searches_grown (?ids (Suc i) (length files)) (committed s1) d2" for d2
      unfolding upt by (rule searches_grown_trans[OF g1 that])
    show ?thesis
    proof (cases x)
      case (Inl e)
      then show ?thesis using Cons.prems Inr u one more[OF searches_grown_refl] by auto
    next
      case res: (Inr res)
      let ?found = "case su_search_session res of None \<Rightarrow> found | Some x \<Rightarrow> Some x"
      obtain y s2 st2 where rest: "upload_selfies cfg env event pid (Suc i) files ?found s1 st1 = (y, s2, st2)" by (metis prod_cases3)
      have "found_in (ev_id event) pid (committed s1) ?found"
        using one res found_in_later[OF Cons.prems(3) g1] by (auto split: option.splits)
      from Cons.IH[OF rest _ this] one
      have ih: "settled_session s2" "searches_grown (?ids (Suc i) (length files)) (committed s1) (committed s2)"
        "\<forall>x rs. y = Inr (x, rs) \<longrightarrow> found_in (ev_id event) pid (committed s2) x" by auto
      then show ?thesis using Cons.prems Inr u res rest more[OF ih(2)] by (cases y) auto
    qed
  qed
qed

lemma subseq_distinct: "subseq xs ys \<Longrightarrow> distinct ys \<Longrightarrow> set xs \<subseteq> set ys \<and> distinct xs"
  by (induction rule: list_emb.induct) auto

lemma grown_sessions_distinct:
  assumes "searches_grown ids d d'" "distinct (map fs_id (search_sessions d))" "distinct ids"
    and "set ids \<inter> fs_id ` set (search_sessions d) = {}"
  shows "distinct (map fs_id (search_sessions d'))"
proof -
  obtain new where n: "search_sessions d' = search_sessions d @ new" "subseq (map fs_id new) ids"
    using assms(1) by (auto simp: searches_grown_def)
  from n(2) have "set (map fs_id new) \<subseteq> set ids" "distinct (map fs_id new)"
    using subseq_distinct assms(3) by blast+
  then show ?thesis using n(1) assms(2,4) by auto
qed

text \<open>A reader who comes back with the cookie in time.\<close>

definition returns_with :: "settings \<Rightarrow> public_env \<Rightarrow> set_cookie \<Rightarrow> reader \<Rightarrow> bool" where
  "returns_with cfg env ck rd \<longleftrightarrow> rd_crypto rd = pe_crypto env \<and> rd_visitor rd = pe_visitor env \<and>
     rd_cookies rd (ck_name ck) = Some (ck_value ck) \<and> rd_now rd < seconds (expiry_second cfg (pe_bind_now env))"

text \<open>What the digests, the secret and the clock have to be for a capability to be bound.\<close>

definition bindable :: "settings \<Rightarrow> public_env \<Rightarrow> bool" where
  "bindable cfg env \<longleftrightarrow> (\<forall>ch \<in> set (pe_secret env). plain_char ch) \<and> pe_visitor env \<noteq> [] \<and>
     0 \<le> expiry_second cfg (pe_bind_now env) \<and> expiry_second cfg (pe_bind_now env) \<le> 253402300799 \<and>
     (\<forall>k x. hmac_sha256 (pe_crypto env) k x \<noteq> []) \<and> (\<forall>x. sha256 (pe_crypto env) x \<noteq> [])"

lemma redirect_opens_results:
  assumes "redirect_with_search_capability cfg env event (fs_id x) m l s = (RedirectAnswer 303 url [ck], s')"
    and "settled_session s" "distinct (map fs_id (search_sessions (committed s)))" "x \<in> set (search_sessions (committed s))"
    and "fs_event_id x = ev_id event" "bindable cfg env" "returns_with cfg env ck rd"
  shows "\<exists>c items n. authorized_results_for cfg rd (committed s') event offset = Inr (Some (bind_session c x), items, n)"
proof -
  obtain c d' where c: "bind_search_capability (pe_crypto env) cfg (pe_bind_now env) (pe_secret env) (pe_visitor env)
      (ev_id event) (fs_id x) (committed s) = (c, d')" by fastforce
  have views: "live s = committed s" using assms(2) by (simp add: settled_session_def)
  have s': "committed s' = d'" and ck: "ck = set_search_capability_cookie cfg (uuid_str (ev_id event)) c"
    using assms(1) c views by (auto simp: redirect_with_search_capability_def Let_def)
  have cookie: "rd_cookies rd (search_cookie_name (uuid_str (ev_id event))) = Some (sc_secret c)"
    using assms(7) by (simp add: returns_with_def ck set_search_capability_cookie_def)
  have b: "\<forall>ch \<in> set (pe_secret env). plain_char ch" "pe_visitor env \<noteq> []" "0 \<le> expiry_second cfg (pe_bind_now env)"
    "expiry_second cfg (pe_bind_now env) \<le> 253402300799" "\<forall>k x. hmac_sha256 (pe_crypto env) k x \<noteq> []"
    "\<forall>x. sha256 (pe_crypto env) x \<noteq> []"
    using assms(6) by (auto simp: bindable_def)
  note r = assms(7)[unfolded returns_with_def]
  have "authorized_search_results (pe_crypto env) cfg (rd_repr rd) (rd_url rd) (rd_now rd) (rd_cookies rd) (pe_visitor env)
      d' (ev_id event) offset SEARCH_RESULTS_PAGE_SIZE =
    Inr (Some (bind_session c x),
      paginate_user_search_photo_items (rd_url rd) (session_items cfg d' (bind_session c x) (ev_id event)) offset SEARCH_RESULTS_PAGE_SIZE,
      int (length (session_items cfg d' (bind_session c x) (ev_id event))))"
    using bound_capability_decides[where cookies = "rd_cookies rd", OF assms(3,4,5) b c cookie] r by simp
  then show ?thesis using r by (auto simp: authorized_results_for_def s')
qed


lemma bib_search_row:
  assumes "create_bib_only_face_search_session cfg now sid e p (open_session d) = (Inr (i, n), s')"
    and "distinct (map fs_id (search_sessions d))" "sid \<notin> fs_id ` set (search_sessions d)"
  shows "settled_session s' \<and> distinct (map fs_id (search_sessions (committed s'))) \<and> events (committed s') = events d \<and>
    (\<exists>x \<in> set (search_sessions (committed s')). fs_id x = i \<and> fs_event_id x = e \<and> fs_participant_id x = Some (pa_id p))"
proof -
  let ?ss = "bib_only_session cfg now sid e (pa_id p)"
  let ?d1 = "d\<lparr>search_sessions := search_sessions d @ [?ss]\<rparr>"
  let ?f = "\<lambda>x. x\<lparr>fs_status := SessionCompleted, fs_finished_at := Some now\<rparr>"
  from bib_only_steps[OF assms(1)] obtain s2 where w: "writes_results cfg e sid \<lparr>committed = d, flushed = ?d1, live = ?d1\<rparr> s2"
    and i: "i = sid" and s': "s' = commit (orm (update_search_session sid ?f) s2)" by auto
  obtain rows where s2: "live s2 = write_results rows ?d1" using w by (auto simp: writes_results_def)
  have rows: "search_sessions (live s2) = search_sessions d @ [?ss]" "events (live s2) = events d"
    by (simp_all add: s2) (simp add: write_results_def)
  have ids: "map fs_id (update_where (\<lambda>x. fs_id x = sid) ?f xs) = map fs_id xs" for xs
    by (rule update_where_key) simp
  have sessions: "search_sessions (committed s') = update_where (\<lambda>x. fs_id x = sid) ?f (search_sessions d @ [?ss])"
    by (simp add: s' update_search_session_def rows)
  have ss: "fs_id ?ss = sid" "fs_event_id ?ss = e" "fs_participant_id ?ss = Some (pa_id p)"
    by (simp_all add: bib_only_session_def)
  have "map fs_id (search_sessions (committed s')) = map fs_id (search_sessions d) @ [sid]"
    unfolding sessions ids by (simp add: ss)
  then have "distinct (map fs_id (search_sessions (committed s')))" using assms(2,3) by simp
  moreover have "?f ?ss \<in> set (search_sessions (committed s'))"
    unfolding sessions by (force simp: in_update_where ss)
  moreover have "fs_id (?f ?ss) = i" "fs_event_id (?f ?ss) = e" "fs_participant_id (?f ?ss) = Some (pa_id p)"
    by (simp_all add: ss i)
  moreover have "settled_session s'" "events (committed s') = events d"
    by (simp_all add: s' update_search_session_def rows)
  ultimately show ?thesis by blast
qed


lemma redirect_session: "fst (redirect_with_search_capability cfg env event i m l s) \<noteq> redirect_with_message path m' l'"
  by (simp add: redirect_with_search_capability_def Let_def redirect_with_message_def)

lemma redirect_events: "redirect_with_search_capability cfg env event i m l s = (a, s') \<Longrightarrow> settled_session s \<Longrightarrow>
    events (committed s') = events (committed s)"
  by (auto simp: redirect_with_search_capability_def Let_def bind_search_capability_def update_search_session_def settled_session_def)

text \<open>The search an answer with a cookie comes from: the rows it left before the capability was bound.\<close>

lemma search_answered:
  assumes "user_upload_selfies_by_search cfg env rq event_id query files (d, st) = (Inr (RedirectAnswer 303 url [ck]), d', st') \<or>
      user_bib_only_search cfg env rq event_id query d = (Inr (RedirectAnswer 303 url [ck]), d')"
    and "distinct (map fs_id (search_sessions d))" "inj_on (\<lambda>k. pe_ids env k 0) {..<length files}"
    and "\<forall>k \<le> length files. pe_ids env k 0 \<notin> fs_id ` set (search_sessions d)"
  obtains event participant m l s1 s2 x where "get_published_event d event_id = Some event"
    "find_event_participant d (ev_id event) (strip query) = Some participant" "settled_session s1"
    "redirect_with_search_capability cfg env event (fs_id x) m l s1 = (RedirectAnswer 303 url [ck], s2)" "d' = committed s2"
    "events (committed s1) = events d" "distinct (map fs_id (search_sessions (committed s1)))"
    "x \<in> set (search_sessions (committed s1))" "fs_event_id x = ev_id event" "fs_participant_id x = Some (pa_id participant)"
proof -
  obtain event where event: "get_published_event d event_id = Some event"
    using assms(1) by (auto simp: user_upload_selfies_by_search_def user_bib_only_search_def not_found_def split: option.splits)
  obtain r d1 where e: "enforce_persistent_search_limits cfg (pe_limiter env) (pe_visitor env)
      (client_ip (pe_canonical_ip env) cfg rq) (uuid_str (ev_id event)) d = (r, d1)" by fastforce
  have d1: "d1 = d\<lparr>rate_buckets := rate_buckets d1\<rparr>"
    using e enforce_frame unfolding enforce_persistent_search_limits_def by blast
  have same: "search_sessions d1 = search_sessions d" "events d1 = events d" "participants d1 = participants d"
    by (subst d1, simp)+
  have who: "find_event_participant d1 i q = find_event_participant d i q" for i q
    unfolding find_event_participant_def same ..
  note plain = redirect_with_message_def no_participant_def
  from assms(1) show thesis
  proof
    assume run: "user_upload_selfies_by_search cfg env rq event_id query files (d, st) = (Inr (RedirectAnswer 303 url [ck]), d', st')"
    obtain participant where p: "find_event_participant d1 (ev_id event) (strip query) = Some participant"
      and batch: "search_with_selfies cfg env event participant (submitted_files files) d1 st =
        (Inr (RedirectAnswer 303 url [ck]), d', st')"
      using run event e by (auto simp: user_upload_selfies_by_search_def Let_def plain split: sum.splits if_splits option.splits)
    obtain y s1 st1 where u: "upload_selfies cfg env event (pa_id participant) 0 (submitted_files files) None (open_session d1) st = (y, s1, st1)"
      by (metis prod_cases3)
    obtain x rs where y: "y = Inr (Some x, rs)"
      using batch u by (auto simp: search_with_selfies_def plain split: sum.splits option.splits)
    obtain m l s2 where r: "redirect_with_search_capability cfg env event (fs_id x) m l s1 = (RedirectAnswer 303 url [ck], s2)"
      "d' = committed s2"
      using batch u y by (auto simp: search_with_selfies_def split: prod.splits)
    let ?ids = "map (\<lambda>k. pe_ids env k 0) [0..<0 + length (submitted_files files)]"
    have "found_in (ev_id event) (pa_id participant) (committed (open_session d1)) None" by (simp add: found_in_def)
    from upload_selfies_rows[OF u settled_simps(1) this] y
    have rows: "settled_session s1" "searches_grown ?ids d1 (committed s1)"
      "found_in (ev_id event) (pa_id participant) (committed s1) (Some x)" by auto
    have ids: "distinct ?ids" "set ?ids \<inter> fs_id ` set (search_sessions d1) = {}"
    proof -
      have n: "length (submitted_files files) \<le> length files" by (simp add: submitted_files_def)
      then have "inj_on (\<lambda>k. pe_ids env k 0) {..<length (submitted_files files)}"
        using inj_on_subset[OF assms(3), of "{..<length (submitted_files files)}"] by auto
      then show "distinct ?ids" by (simp add: distinct_map atLeast0LessThan)
      have fresh: "pe_ids env k 0 \<notin> fs_id ` set (search_sessions d1)" if "k < length (submitted_files files)" for k
        using assms(4) that n same by simp
      show "set ?ids \<inter> fs_id ` set (search_sessions d1) = {}"
      proof (rule equals0I)
        fix y
        assume y: "y \<in> set ?ids \<inter> fs_id ` set (search_sessions d1)"
        then obtain k where k: "k < length (submitted_files files)" "y = pe_ids env k 0" by auto
        have "y \<in> fs_id ` set (search_sessions d1)" using y by (rule IntD2)
        with fresh[OF k(1)] k(2) show False by simp
      qed
    qed
    have "distinct (map fs_id (search_sessions (committed s1)))"
      using grown_sessions_distinct[OF rows(2) _ ids] assms(2) same by simp
    moreover have "events (committed s1) = events d" using rows(2) same by (auto simp: searches_grown_def)
    ultimately show thesis using that[OF event _ rows(1) r] p who rows(3) by (auto simp: found_in_def)
  next
    assume run: "user_bib_only_search cfg env rq event_id query d = (Inr (RedirectAnswer 303 url [ck]), d')"
    have q: "r = Inr ()" "strip query \<noteq> []"
      using run event e by (auto simp: user_bib_only_search_def Let_def plain split: sum.splits)
    obtain participant where p: "find_event_participant d1 (ev_id event) (strip query) = Some participant"
      using run event e q by (auto simp: user_bib_only_search_def Let_def plain split: option.splits)
    obtain y s1 where c0: "create_bib_only_face_search_session cfg (pe_now env 0) (pe_ids env 0 0) (ev_id event) participant
        (open_session d1) = (y, s1)" by fastforce
    then obtain i n where y: "y = Inr (i, n)"
      using run event e q p by (cases y) (auto simp: user_bib_only_search_def)
    note c = c0[unfolded y]
    define m where "m = ''Started bib-only reinforced search. Temporary face seeds found: '' @ int_str n @ ''.''"
    define l where "l = (if n \<noteq> 0 then ''info'' else ''error'')"
    have "user_bib_only_search cfg env rq event_id query d =
        (case redirect_with_search_capability cfg env event i m l s1 of (ans, s2) \<Rightarrow> (Inr ans, committed s2))"
      unfolding user_bib_only_search_def Let_def m_def l_def using q(2)
      by (simp only: event e q(1) option.case sum.case prod.case if_False p c)
    with run have r: "\<exists>m l s2. redirect_with_search_capability cfg env event i m l s1 = (RedirectAnswer 303 url [ck], s2) \<and> d' = committed s2"
      by (auto split: prod.splits)
    have "distinct (map fs_id (search_sessions d1))" "pe_ids env 0 0 \<notin> fs_id ` set (search_sessions d1)"
      using assms(2,4) same by auto
    from bib_search_row[OF c this] obtain x where x: "settled_session s1" "distinct (map fs_id (search_sessions (committed s1)))"
      "events (committed s1) = events d" "x \<in> set (search_sessions (committed s1))" "fs_id x = i" "fs_event_id x = ev_id event"
      "fs_participant_id x = Some (pa_id participant)" using same by auto
    from r obtain m l s2 where "redirect_with_search_capability cfg env event (fs_id x) m l s1 = (RedirectAnswer 303 url [ck], s2)"
      "d' = committed s2" unfolding x(5) by blast
    from that[OF event p[unfolded who] x(1) this x(3,2,4,6,7)] show thesis .
  qed
qed

text \<open>C11 (functional): a search leads to its results.  When a search by selfies or by bib number answers with a
  cookie, the visitor who comes back with it before it expires is shown the results page of the event, not an
  error: the session behind it is one for that event and for the participant the query named.\<close>

theorem search_opens_results:
  assumes "user_upload_selfies_by_search cfg env rq event_id query files (d, st) = (Inr (RedirectAnswer 303 url [ck]), d', st') \<or>
      user_bib_only_search cfg env rq event_id query d = (Inr (RedirectAnswer 303 url [ck]), d')"
    and "distinct (map fs_id (search_sessions d))" "inj_on (\<lambda>k. pe_ids env k 0) {..<length files}"
    and "\<forall>k \<le> length files. pe_ids env k 0 \<notin> fs_id ` set (search_sessions d)"
    and "bindable cfg env" "returns_with cfg env ck rd"
  shows "\<exists>event participant s. get_published_event d event_id = Some event \<and>
    find_event_participant d (ev_id event) (strip query) = Some participant \<and>
    fs_event_id s = ev_id event \<and> fs_participant_id s = Some (pa_id participant) \<and>
    (\<exists>items n. authorized_results_for cfg rd d' event 0 = Inr (Some s, items, n)) \<and>
    (\<exists>body. user_event_results_page cfg rd event_id page d' = Inr (PageAnswer 200 body []))"
proof -
  obtain event participant m l s1 s2 x where x: "get_published_event d event_id = Some event"
    "find_event_participant d (ev_id event) (strip query) = Some participant" "settled_session s1"
    "redirect_with_search_capability cfg env event (fs_id x) m l s1 = (RedirectAnswer 303 url [ck], s2)" "d' = committed s2"
    "events (committed s1) = events d" "distinct (map fs_id (search_sessions (committed s1)))"
    "x \<in> set (search_sessions (committed s1))" "fs_event_id x = ev_id event" "fs_participant_id x = Some (pa_id participant)"
    by (rule search_answered[OF assms(1-4)])
  have opened: "\<exists>c items n. authorized_results_for cfg rd d' event offset = Inr (Some (bind_session c x), items, n)" for offset
    unfolding x(5) using redirect_opens_results[OF x(4,3,7,8,9) assms(5,6)] .
  obtain c items n where 0: "authorized_results_for cfg rd d' event 0 = Inr (Some (bind_session c x), items, n)"
    using opened by blast
  have "get_published_event d' event_id = Some event"
    using x(1) unfolding get_published_event_def x(5) redirect_events[OF x(4,3)] x(6) .
  moreover obtain c' items' n' where "authorized_results_for cfg rd d' event
      ((search_results_page_number cfg page - 1) * SEARCH_RESULTS_PAGE_SIZE) = Inr (Some (bind_session c' x), items', n')"
    using opened by blast
  ultimately have "\<exists>body. user_event_results_page cfg rd event_id page d' = Inr (PageAnswer 200 body [])"
    by (simp add: user_event_results_page_def Let_def)
  moreover have "fs_event_id (bind_session c x) = ev_id event" "fs_participant_id (bind_session c x) = Some (pa_id participant)"
    using x(9,10) by (simp_all add: bind_session_def)
  ultimately show ?thesis using x(1,2) 0 by blast
qed

definition demo_search_db :: db where
  "demo_search_db = empty_db\<lparr>events := [demo_event], participants := [\<lparr>pa_id = 2, pa_event_id = 1, pa_bib_number = ''7'',
     pa_full_name = ''Ada'', pa_bib_lookup = ''7'', pa_name_lookup = ''ada'', pa_created_at = 0\<rparr>]\<rparr>"

lemma demo_limits: "fst (enforce_persistent_search_limits default_settings (pe_limiter demo_public_env)
  (pe_visitor demo_public_env) ip e demo_search_db) = Inr ()"
  by (simp add: enforce_persistent_search_limits_def demo_public_env_def hit_persistent_limit_def Let_def demo_search_db_def empty_db_def privacy_hash_def
    window_start_def seconds_def new_bucket_def upsert_def rate_bucket_key_def merge_bucket_def default_settings_def)

lemma demo_found: "find_event_participant demo_search_db 1 (strip ''7'') = Some (hd (participants demo_search_db))"
  by code_simp

lemma demo_created:
  assumes "photos d = []"
  shows "\<exists>s'. create_bib_only_face_search_session default_settings now sid e p (open_session d) = (Inr (sid, 0), s')"
proof -
  have "select_bib_only_seed_embeddings default_settings d' e p = []" if "photos d' = []" for d'
    using that by (simp add: select_bib_only_seed_embeddings_def finish_seeds_def select_consensus_seed_embeddings_def)
  with assms show ?thesis by (simp add: create_bib_only_face_search_session_def Let_def)
qed

lemma demo_search_runs:
  obtains url ck d' where "user_bib_only_search default_settings demo_public_env demo_visit (uuid_str 1) ''7'' demo_search_db =
    (Inr (RedirectAnswer 303 url [ck]), d')"
proof -
  have ev: "get_published_event demo_search_db (uuid_str 1) = Some demo_event" "ev_id demo_event = 1"
    by (simp_all add: get_published_event_def demo_event_def demo_search_db_def)
  let ?ip = "client_ip (pe_canonical_ip demo_public_env) default_settings demo_visit"
  obtain d1 where e: "enforce_persistent_search_limits default_settings (pe_limiter demo_public_env)
      (pe_visitor demo_public_env) ?ip (uuid_str 1) demo_search_db = (Inr (), d1)"
    using demo_limits[of ?ip "uuid_str 1"] by (metis prod.collapse)
  have d1: "d1 = demo_search_db\<lparr>rate_buckets := rate_buckets d1\<rparr>"
    using e enforce_frame unfolding enforce_persistent_search_limits_def by blast
  have same: "photos d1 = []" "participants d1 = participants demo_search_db"
    by (subst d1, simp add: demo_search_db_def empty_db_def)+
  have p: "find_event_participant d1 1 (strip ''7'') = Some (hd (participants demo_search_db))"
    using demo_found unfolding find_event_participant_def same .
  have q: "strip ''7'' \<noteq> []" by code_simp
  obtain s1 where c: "create_bib_only_face_search_session default_settings (pe_now demo_public_env 0)
      (pe_ids demo_public_env 0 0) 1 (hd (participants demo_search_db)) (open_session d1) = (Inr (pe_ids demo_public_env 0 0, 0), s1)"
    using demo_created[OF same(1)] by blast
  have "\<exists>m l. user_bib_only_search default_settings demo_public_env demo_visit (uuid_str 1) ''7'' demo_search_db =
      (case redirect_with_search_capability default_settings demo_public_env demo_event (pe_ids demo_public_env 0 0) m l s1 of
         (ans, s2) \<Rightarrow> (Inr ans, committed s2))"
    unfolding user_bib_only_search_def Let_def using q by (simp only: ev e option.case sum.case prod.case if_False p c) blast
  then show thesis using that by (auto simp: redirect_with_search_capability_def Let_def)
qed

lemma demo_bindable: "bindable default_settings demo_public_env"
  by (simp add: bindable_def demo_public_env_def plain_char_def char_code_def expiry_second_def seconds_def default_settings_def)

theorem search_opens_results_witness:
  "\<exists>rd d' body. user_event_results_page default_settings rd (uuid_str 1) ''1'' d' = Inr (PageAnswer 200 body [])"
proof -
  obtain url ck d' where run: "user_bib_only_search default_settings demo_public_env demo_visit (uuid_str 1) ''7'' demo_search_db =
      (Inr (RedirectAnswer 303 url [ck]), d')" by (rule demo_search_runs)
  let ?rd = "\<lparr>rd_crypto = pe_crypto demo_public_env, rd_repr = \<lambda>_. [], rd_url = \<lambda>_. None, rd_now = 0,
     rd_cookies = [ck_name ck \<mapsto> ck_value ck], rd_visitor = pe_visitor demo_public_env\<rparr>"
  have ret: "returns_with default_settings demo_public_env ck ?rd"
    by (simp add: returns_with_def expiry_second_def seconds_def demo_public_env_def default_settings_def)
  have empty: "search_sessions demo_search_db = []" by (simp add: demo_search_db_def empty_db_def)
  have "\<exists>event participant s. get_published_event demo_search_db (uuid_str 1) = Some event \<and>
      find_event_participant demo_search_db (ev_id event) (strip ''7'') = Some participant \<and>
      fs_event_id s = ev_id event \<and> fs_participant_id s = Some (pa_id participant) \<and>
      (\<exists>items n. authorized_results_for default_settings ?rd d' event 0 = Inr (Some s, items, n)) \<and>
      (\<exists>body. user_event_results_page default_settings ?rd (uuid_str 1) ''1'' d' = Inr (PageAnswer 200 body []))"
    by (rule search_opens_results[where files = "[]" and st = Map.empty and st' = Map.empty, OF disjI2[OF run] _ _ _ demo_bindable ret])
      (simp_all add: empty)
  then show ?thesis by blast
qed

end
