(* ===== verification/Thumbnails.thy ===== *)
theory Thumbnails
  imports Ingest
begin

text \<open>
  Thumbnails: those of events, \<^verbatim>\<open>backend/app/event_thumbnail.py\<close>, and the backfill of photos that have
  none, \<^verbatim>\<open>backend/app/thumbnail_backfill.py\<close>.  Rendering is Pillow's: a parameter that gives the bytes or
  the exception it raises.  Storage and database fail as in \<^verbatim>\<open>Ingest\<close>.
\<close>

section \<open>Thumbnails of events\<close>

definition prepare_event_thumbnail :: "settings \<Rightarrow> (byte list \<Rightarrow> decoded) \<Rightarrow> (byte list \<Rightarrow> str) \<Rightarrow>
    (byte list \<Rightarrow> byte list result) \<Rightarrow> byte list \<Rightarrow> str \<Rightarrow> str option \<Rightarrow> byte list result" where
  "prepare_event_thumbnail cfg decode digest render content file_name content_type =
    (case validate_image_bytes cfg decode digest content file_name content_type (max_event_thumbnail_upload_bytes cfg) of
       Inl e \<Rightarrow> Inl e
     | Inr _ \<Rightarrow> render content)"

definition event_thumbnail_key :: "uuid \<Rightarrow> uuid \<Rightarrow> str" where
  "event_thumbnail_key event_id i = ''events/'' @ uuid_str event_id @ ''/event-thumbnails/'' @ uuid_str i @ ''.jpg''"

definition set_event_thumbnail :: "uuid \<Rightarrow> str option \<Rightarrow> db \<Rightarrow> db" where
  "set_event_thumbnail event_id key d = d\<lparr>events :=
     update_where (\<lambda>e. ev_id e = event_id) (\<lambda>e. e\<lparr>ev_thumbnail_object_key := key\<rparr>) (events d)\<rparr>"

definition previous_thumbnail :: "event \<Rightarrow> str option" where
  "previous_thumbnail event = (case ev_thumbnail_object_key event of None \<Rightarrow> None | Some k \<Rightarrow> if k = [] then None else Some k)"

text \<open>The rows a new thumbnail writes: the key of the event, and a deletion task for the old object.\<close>

definition swap_thumbnail :: "time \<Rightarrow> (str \<Rightarrow> uuid) \<Rightarrow> event \<Rightarrow> str option \<Rightarrow> session \<Rightarrow> session" where
  "swap_thumbnail now ids event key s =
    (let s1 = orm (set_event_thumbnail (ev_id event) key) s
     in case previous_thumbnail event of
          None \<Rightarrow> s1
        | Some old \<Rightarrow> dml (enqueue_object_deletion now (ids old) (Some old)) s1)"

definition run_one_deletion :: "settings \<Rightarrow> deletion_env \<Rightarrow> session \<Rightarrow> session" where
  "run_one_deletion cfg denv s = open_session (snd (process_object_deletions cfg denv (Some 1) (committed s)))"

text \<open>\<^term>\<open>False\<close>: the function raised.\<close>

definition save_event_thumbnail :: "settings \<Rightarrow> deletion_env \<Rightarrow> storage_env \<Rightarrow> time \<Rightarrow> (str \<Rightarrow> uuid) \<Rightarrow> uuid \<Rightarrow> event \<Rightarrow>
    byte list \<Rightarrow> session \<Rightarrow> storage \<Rightarrow> bool \<times> session \<times> storage" where
  "save_event_thumbnail cfg denv env now ids new_id event content s st =
    (let new_key = event_thumbnail_key (ev_id event) new_id
     in case put_object (se_put env 0) new_key content st of
          (False, st1) \<Rightarrow> (False, s, st1)
        | (True, st1) \<Rightarrow>
            (let s1 = swap_thumbnail now ids event (Some new_key) s;
                 s2 = (if se_commit env then commit s1 else s1)
             in if se_commit env \<and> se_refresh env
                then (True, if previous_thumbnail event = None then s2 else run_one_deletion cfg denv s2, st1)
                else (False, rollback s2, snd (delete_object (se_delete env 0) new_key st1))))"

text \<open>Removing needs the database only.\<close>

definition remove_event_thumbnail :: "settings \<Rightarrow> deletion_env \<Rightarrow> time \<Rightarrow> (str \<Rightarrow> uuid) \<Rightarrow> event \<Rightarrow> session \<Rightarrow> bool \<times> session" where
  "remove_event_thumbnail cfg denv now ids event s =
    (if previous_thumbnail event = None then (False, s)
     else (True, run_one_deletion cfg denv (commit (swap_thumbnail now ids event None s))))"

section \<open>The backfill of photos\<close>

definition missing_thumbnails :: "db \<Rightarrow> photo list" where
  "missing_thumbnails d = filter (\<lambda>p. ph_thumbnail_object_key p = None) (photos d)"

definition clamp_batch :: "int \<Rightarrow> nat" where
  "clamp_batch limit = nat (max 1 (min limit 1000))"

text \<open>One call of the storage or the database per photo, by the number of the photo in its batch: whether the
  read raises, the length it declares, whether the write does, and whether the commit works.\<close>

record backfill_env =
  bf_get :: "nat \<Rightarrow> bool"
  bf_length :: "nat \<Rightarrow> int option"
  bf_put :: "nat \<Rightarrow> fault"
  bf_commit :: "nat \<Rightarrow> bool"

definition stored_original :: "settings \<Rightarrow> backfill_env \<Rightarrow> nat \<Rightarrow> photo \<Rightarrow> storage \<Rightarrow> byte list option" where
  "stored_original cfg env n photo st =
    (if \<not> bf_get env n then None
     else case bf_length env n of
            Some l \<Rightarrow>
              if max_photo_upload_bytes cfg < l then None
              else map_option (take (nat (max_photo_upload_bytes cfg + 1))) (st (ph_original_object_key photo))
          | None \<Rightarrow> map_option (take (nat (max_photo_upload_bytes cfg + 1))) (st (ph_original_object_key photo)))"

definition backfill_row :: "db \<Rightarrow> str \<Rightarrow> str \<Rightarrow> photo \<Rightarrow> photo" where
  "backfill_row d thumbnail_key sha photo =
    (let p = photo\<lparr>ph_thumbnail_object_key := Some thumbnail_key\<rparr>;
         duplicate = (\<exists>q \<in> set (photos d). ph_event_id q = ph_event_id photo \<and>
           ph_checksum_sha256 q = Some sha \<and> ph_id q \<noteq> ph_id photo)
     in if or_text (ph_checksum_sha256 photo) [] = [] \<and> \<not> duplicate then p\<lparr>ph_checksum_sha256 := Some sha\<rparr> else p)"

definition backfill_photo :: "settings \<Rightarrow> (byte list \<Rightarrow> decoded) \<Rightarrow> (byte list \<Rightarrow> str) \<Rightarrow>
    (int \<Rightarrow> int \<Rightarrow> byte list \<Rightarrow> byte list option) \<Rightarrow> backfill_env \<Rightarrow> nat \<Rightarrow> photo \<Rightarrow> db \<Rightarrow> storage \<Rightarrow> bool \<times> db \<times> storage" where
  "backfill_photo cfg decode digest resize env n photo d st =
    (case stored_original cfg env n photo st of
       None \<Rightarrow> (False, d, st)
     | Some content \<Rightarrow>
         (case validate_image_bytes cfg decode digest content (ph_file_name photo) (Some (ph_content_type photo))
                 (max_photo_upload_bytes cfg) of
            Inl _ \<Rightarrow> (False, d, st)
          | Inr img \<Rightarrow>
              (let key = build_thumbnail_object_key (ph_event_id photo) (ph_id photo) (ph_file_name photo) in
               case create_photo_thumbnail cfg resize content of
                 None \<Rightarrow> (False, d, st)
               | Some thumbnail \<Rightarrow>
                   (case put_object (bf_put env n) key thumbnail st of
                      (False, st1) \<Rightarrow> (False, d, st1)
                    | (True, st1) \<Rightarrow>
                        if \<not> bf_commit env n then (False, d, st1)
                        else (True, d\<lparr>photos := update_where (\<lambda>p. ph_id p = ph_id photo)
                               (\<lambda>_. backfill_row d key (vi_sha256 img) photo) (photos d)\<rparr>, st1)))))"

fun backfill_photos :: "settings \<Rightarrow> (byte list \<Rightarrow> decoded) \<Rightarrow> (byte list \<Rightarrow> str) \<Rightarrow>
    (int \<Rightarrow> int \<Rightarrow> byte list \<Rightarrow> byte list option) \<Rightarrow> backfill_env \<Rightarrow> nat \<Rightarrow> photo list \<Rightarrow> db \<Rightarrow> storage \<Rightarrow>
    (nat \<times> nat) \<times> db \<times> storage" where
  "backfill_photos cfg decode digest resize env n [] d st = ((0, 0), d, st)"
| "backfill_photos cfg decode digest resize env n (p # ps) d st =
    (case backfill_photo cfg decode digest resize env n p d st of
       (ok, d1, st1) \<Rightarrow>
         (case backfill_photos cfg decode digest resize env (Suc n) ps d1 st1 of
            ((processed, failed), d2, st2) \<Rightarrow>
              (if ok then (Suc processed, failed) else (processed, Suc failed), d2, st2)))"

definition run_batch :: "settings \<Rightarrow> (byte list \<Rightarrow> decoded) \<Rightarrow> (byte list \<Rightarrow> str) \<Rightarrow>
    (int \<Rightarrow> int \<Rightarrow> byte list \<Rightarrow> byte list option) \<Rightarrow> backfill_env \<Rightarrow> int \<Rightarrow> bool \<Rightarrow> db \<Rightarrow> storage \<Rightarrow>
    (nat \<times> nat) \<times> db \<times> storage" where
  "run_batch cfg decode digest resize env limit apply_changes d st =
    (let ps = order_limit ph_created_at (clamp_batch limit) (missing_thumbnails d)
     in if \<not> apply_changes then ((length ps, 0), d, st)
        else backfill_photos cfg decode digest resize env 0 ps d st)"

text \<open>The loop of \<^verbatim>\<open>main\<close>; its fuel is the number of batches it may run, \<^term>\<open>None\<close> is running out of it.\<close>

fun backfill_main :: "nat \<Rightarrow> settings \<Rightarrow> (byte list \<Rightarrow> decoded) \<Rightarrow> (byte list \<Rightarrow> str) \<Rightarrow>
    (int \<Rightarrow> int \<Rightarrow> byte list \<Rightarrow> byte list option) \<Rightarrow> (nat \<Rightarrow> backfill_env) \<Rightarrow> int \<Rightarrow> bool \<Rightarrow> bool \<Rightarrow> nat \<Rightarrow> nat \<times> nat \<Rightarrow>
    db \<Rightarrow> storage \<Rightarrow> ((nat \<times> nat) \<times> db \<times> storage) option" where
  "backfill_main 0 cfg decode digest resize envs limit apply_changes all k totals d st = None"
| "backfill_main (Suc fuel) cfg decode digest resize envs limit apply_changes all k totals d st =
    (case run_batch cfg decode digest resize (envs k) (int (clamp_batch limit)) apply_changes d st of
       ((processed, failed), d1, st1) \<Rightarrow>
         (let totals1 = (fst totals + processed, snd totals + failed)
          in if 0 < failed \<or> \<not> all \<or> \<not> apply_changes \<or> processed < clamp_batch limit then Some (totals1, d1, st1)
             else backfill_main fuel cfg decode digest resize envs limit apply_changes all (Suc k) totals1 d1 st1))"

end
