(* ===== verification/AdminRoutes.thy ===== *)
theory AdminRoutes
  imports PublicRoutes Thumbnails ParticipantFiles
begin

text \<open>
  The administration in \<^verbatim>\<open>backend/app/main.py\<close>: the middleware that lets one administrator in at a time,
  and the routes that create, change and delete events, participants and photos.  Every change is audited, and
  every change of the participants rebuilds the matches of the event.
\<close>

section \<open>Dates\<close>

definition leap_year :: "int \<Rightarrow> bool" where
  "leap_year y \<longleftrightarrow> y mod 4 = 0 \<and> (y mod 100 \<noteq> 0 \<or> y mod 400 = 0)"

definition days_in_month :: "int \<Rightarrow> int \<Rightarrow> int" where
  "days_in_month y m = (if m = 2 then (if leap_year y then 29 else 28) else if m \<in> {4, 6, 9, 11} then 30 else 31)"

definition date_ordinal :: "int \<Rightarrow> int \<Rightarrow> int \<Rightarrow> int" where
  "date_ordinal y m d = (y - 1) * 365 + (y - 1) div 4 - (y - 1) div 100 + (y - 1) div 400 +
     sum_list (map (days_in_month y) [1..m - 1]) + d"

definition calendar_date :: "int \<Rightarrow> int \<Rightarrow> int \<Rightarrow> int option" where
  "calendar_date y m d =
    (if 1 \<le> y \<and> 1 \<le> m \<and> m \<le> 12 \<and> 1 \<le> d \<and> d \<le> days_in_month y m then Some (date_ordinal y m d) else None)"

text \<open>A day of an ISO week; a year has a week 53 when it starts on a Thursday, or on a Wednesday in a leap year.\<close>

definition week_date :: "int \<Rightarrow> int \<Rightarrow> int \<Rightarrow> int option" where
  "week_date y w d =
    (let first = date_ordinal y 1 1; weekday = (first + 6) mod 7;
         monday = first - weekday + (if 3 < weekday then 7 else 0);
         ordinal = monday + (w - 1) * 7 + d - 1
     in if 1 \<le> y \<and> 1 \<le> w \<and> (w \<le> 52 \<or> (w = 53 \<and> (weekday = 3 \<or> (weekday = 2 \<and> leap_year y)))) \<and>
          1 \<le> d \<and> d \<le> 7 \<and> 1 \<le> ordinal \<and> ordinal \<le> 3652059
        then Some ordinal else None)"

definition digits_int :: "str \<Rightarrow> int option" where
  "digits_int s = (if s \<noteq> [] \<and> (\<forall>c \<in> set s. is_digit c) then Some (int (decimal s)) else None)"

text \<open>The formats of \<^verbatim>\<open>date.fromisoformat\<close>: calendar dates and week dates, with dashes or without.\<close>

definition date_parts :: "str \<Rightarrow> (bool \<times> str \<times> str) option" where
  "date_parts s =
    (let dashed = (take 1 s = ''-''); r = (if dashed then drop 1 s else s); week = (take 1 r = ''W'');
         q = (if week then drop 1 r else r); rest = drop 2 q
     in if rest = [] then (if week then Some (week, take 2 q, ''1'') else None)
        else if dashed then (if hd rest = CHR ''-'' then Some (week, take 2 q, drop 1 rest) else None)
        else Some (week, take 2 q, rest))"

definition fromisoformat :: "str \<Rightarrow> int option" where
  "fromisoformat s =
    (case (digits_int (take 4 s), date_parts (drop 4 s)) of
       (Some y, Some (week, part, day)) \<Rightarrow>
         if length part \<noteq> 2 \<or> length day \<noteq> (if week then 1 else 2) then None
         else (case (digits_int part, digits_int day) of
                 (Some m, Some d) \<Rightarrow> if week then week_date y m d else calendar_date y m d
               | _ \<Rightarrow> None)
     | _ \<Rightarrow> None)"

text \<open>\<^term>\<open>None\<close>: a \<^verbatim>\<open>ValueError\<close>.\<close>

definition parse_event_date :: "str \<Rightarrow> int option option" where
  "parse_event_date raw_value =
    (let v = strip raw_value in if v = [] then Some None else map_option Some (fromisoformat v))"

section \<open>One administrator at a time\<close>

definition ADMIN_SESSION_COOKIE :: str where "ADMIN_SESSION_COOKIE = ''raceframe_admin_session''"

definition TAKEOVER_PATH :: str where "TAKEOVER_PATH = ''/admin/session/takeover''"

definition admin_session_id :: "str \<Rightarrow> request \<Rightarrow> str" where
  "admin_session_id fresh rq = (if cookie rq ADMIN_SESSION_COOKIE = [] then fresh else cookie rq ADMIN_SESSION_COOKIE)"

definition admin_cookie :: "settings \<Rightarrow> str \<Rightarrow> set_cookie" where
  "admin_cookie cfg session_id = \<lparr>ck_name = ADMIN_SESSION_COOKIE, ck_value = session_id, ck_max_age = 30 * 60,
     ck_path = ''/admin'', ck_secure = secure_cookies cfg, ck_httponly = True, ck_samesite = ''strict''\<rparr>"

definition admin_session_middleware :: "settings \<Rightarrow> time \<Rightarrow> str \<Rightarrow> request \<Rightarrow>
    (db \<times> storage \<Rightarrow> web_answer routed \<times> db \<times> storage) \<Rightarrow> db \<times> storage \<Rightarrow> web_answer result \<times> db \<times> storage" where
  "admin_session_middleware cfg now fresh rq call_next w =
    (if \<not> startswith (rq_path rq) ''/admin'' \<or> rq_path rq = TAKEOVER_PATH
     then map_prod respond id (call_next w)
     else
       case w of (d, st) \<Rightarrow>
         (let session_id = admin_session_id fresh rq in
          case acquire_admin_lock now session_id d of
            (False, d1) \<Rightarrow> (Inr (PageAnswer 409 AdminInUse []), d1, st)
          | (True, d1) \<Rightarrow>
              (case call_next (d1, st) of
                 (r, w1) \<Rightarrow>
                   (if rq_cookies rq ADMIN_SESSION_COOKIE = Some session_id then respond r
                    else map_sum id (with_cookie (admin_cookie cfg session_id)) (respond r), w1))))"

definition admin_session_takeover :: "settings \<Rightarrow> time \<Rightarrow> str \<Rightarrow> str \<Rightarrow> request \<Rightarrow> db \<Rightarrow> web_answer routed \<times> db" where
  "admin_session_takeover cfg now fresh request_id rq d =
    (let session_id = admin_session_id fresh rq;
         s = append_admin_audit rq request_id ''admin.session.takeover'' (Some ''admin_session'') None None []
           (open_session (force_admin_lock now session_id d))
     in (Inr (with_cookie (admin_cookie cfg session_id)
           (RedirectAnswer 303 ''/admin?message=Admin+session+taken+over.&level=success'' [])), committed s))"

section \<open>What a route meets\<close>

record admin_env =
  ad_now :: "nat \<Rightarrow> time"
  ad_new_id :: uuid
  ad_task_ids :: "str \<Rightarrow> uuid"
  ad_deletion :: "nat \<Rightarrow> deletion_env"
  ad_request_id :: str
  ad_decode :: "byte list \<Rightarrow> decoded"
  ad_digest :: "byte list \<Rightarrow> str"
  ad_render :: "byte list \<Rightarrow> byte list result"
  ad_storage :: storage_env
  ad_thumbnail_id :: uuid
  ad_files :: file_env
  ad_import_ids :: "str \<Rightarrow> uuid"

definition event_audit :: "admin_env \<Rightarrow> request \<Rightarrow> str \<Rightarrow> event \<Rightarrow> (str \<times> json) list \<Rightarrow> session \<Rightarrow> session" where
  "event_audit env rq action event metadata = append_admin_audit rq (ad_request_id env) action (Some ''event'')
     (Some (uuid_str (ev_id event))) (Some (uuid_str (ev_id event))) metadata"

definition row_audit :: "admin_env \<Rightarrow> request \<Rightarrow> str \<Rightarrow> str \<Rightarrow> uuid \<Rightarrow> event \<Rightarrow> session \<Rightarrow> session" where
  "row_audit env rq action target_type target event = append_admin_audit rq (ad_request_id env) action (Some target_type)
     (Some (uuid_str target)) (Some (uuid_str (ev_id event))) []"

definition event_not_found :: route_failure where
  "event_not_found = not_found ''Event not found.''"

definition rebuilt :: "time \<Rightarrow> event \<Rightarrow> session \<Rightarrow> session" where
  "rebuilt now event s = snd (rebuild_event_photo_matches now (ev_id event) s)"

section \<open>Events\<close>

record event_form =
  fm_name :: str
  fm_event_date :: str
  fm_location :: str
  fm_status :: str
  fm_thumbnail :: "form_file option"
  fm_remove :: bool

definition event_status_of :: "str \<Rightarrow> event_status option" where
  "event_status_of s = (if s = ''draft'' then Some Draft else if s = ''published'' then Some Published else None)"

text \<open>\<^term>\<open>Inr (Inl message)\<close>: a \<^verbatim>\<open>ValueError\<close>, which the route shows on the form.\<close>

definition read_event_thumbnail :: "settings \<Rightarrow> admin_env \<Rightarrow> form_file option \<Rightarrow> (str + byte list option) result" where
  "read_event_thumbnail cfg env upload =
    (case upload of
       None \<Rightarrow> Inr (Inr None)
     | Some f \<Rightarrow>
         if strip (or_empty (ff_filename f)) = [] then Inr (Inr None)
         else
           (case read_upload_limited (ff_upload f) (max_event_thumbnail_upload_bytes cfg) of
              Inl (HTTPException _ detail) \<Rightarrow> Inr (Inl detail)
            | Inl (ValueError m) \<Rightarrow> Inr (Inl m)
            | Inl e \<Rightarrow> Inl e
            | Inr content \<Rightarrow>
                (case prepare_event_thumbnail cfg (ad_decode env) (ad_digest env) (ad_render env) content
                        (or_text (ff_filename f) ''thumbnail.jpg'') (ff_content_type f) of
                   Inl (ValueError m) \<Rightarrow> Inr (Inl m)
                 | Inl e \<Rightarrow> Inl e
                 | Inr rendered \<Rightarrow> Inr (Inr (Some rendered)))))"

record checked_form =
  cf_name :: str
  cf_date :: "int option"
  cf_location :: "str option"
  cf_status :: event_status
  cf_thumbnail :: "byte list option"

text \<open>The checks both routes make in the same order: \<^term>\<open>Inr (Inl message)\<close> shows the form again.\<close>

definition check_event_form :: "settings \<Rightarrow> admin_env \<Rightarrow> event_form \<Rightarrow> (str + checked_form) result" where
  "check_event_form cfg env form =
    (let name = strip (fm_name form); location = strip (fm_location form) in
     if name = [] then Inr (Inl ''Event name is required.'')
     else
       case event_status_of (fm_status form) of
         None \<Rightarrow> Inr (Inl ''Choose a valid status.'')
       | Some status \<Rightarrow>
           (case parse_event_date (fm_event_date form) of
              None \<Rightarrow> Inr (Inl ''Event date must use the YYYY-MM-DD format.'')
            | Some date \<Rightarrow>
                (case read_event_thumbnail cfg env (fm_thumbnail form) of
                   Inl e \<Rightarrow> Inl e
                 | Inr (Inl m) \<Rightarrow> Inr (Inl m)
                 | Inr (Inr thumbnail) \<Rightarrow>
                     Inr (Inr \<lparr>cf_name = name, cf_date = date, cf_location = (if location = [] then None else Some location),
                       cf_status = status, cf_thumbnail = thumbnail\<rparr>))))"

definition form_values_of :: "event_form \<Rightarrow> (str \<times> str) list" where
  "form_values_of form = [(''name'', strip (fm_name form)), (''event_date'', fm_event_date form),
     (''location'', fm_location form), (''status'', fm_status form)]"

text \<open>The form again, with what is wrong with it.\<close>

definition create_event_form :: "db \<Rightarrow> event_form \<Rightarrow> str \<Rightarrow> web_answer" where
  "create_event_form d form message =
     PageAnswer 200 (FormPage (new_event_form
       (if strip (fm_name form) = [] then slug_hint else event_slug d (strip (fm_name form)) None)
       (Some message) (form_values_of form))) []"

definition edit_event_form :: "db \<Rightarrow> event \<Rightarrow> event_form \<Rightarrow> str \<Rightarrow> web_answer" where
  "edit_event_form d event form message =
     PageAnswer 200 (FormPage (render_existing_event_form d event (Some message) (form_values_of form))) []"

definition create_event_action :: "settings \<Rightarrow> admin_env \<Rightarrow> request \<Rightarrow> event_form \<Rightarrow> db \<times> storage \<Rightarrow>
    web_answer routed \<times> db \<times> storage" where
  "create_event_action cfg env rq form w =
    (case w of (d, st) \<Rightarrow>
      (case check_event_form cfg env form of
         Inl e \<Rightarrow> (Inl (raised e), d, st)
       | Inr (Inl message) \<Rightarrow> (Inr (create_event_form d form message), d, st)
       | Inr (Inr cf) \<Rightarrow>
           (let slug = event_slug d (cf_name cf) None in
            case create_event (ad_now env 0) (ad_new_id env) (cf_name cf) slug (cf_date cf) (cf_location cf) (cf_status cf)
                   (open_session d) of
              Inl e \<Rightarrow> (Inl (raised e), d, st)
            | Inr s1 \<Rightarrow>
                (let event = \<lparr>ev_id = ad_new_id env, ev_name = cf_name cf, ev_slug = slug, ev_date = cf_date cf,
                       ev_location = cf_location cf, ev_status = cf_status cf, ev_thumbnail_object_key = None,
                       ev_created_at = ad_now env 0\<rparr>
                 in case (case cf_thumbnail cf of
                            None \<Rightarrow> (True, s1, st)
                          | Some content \<Rightarrow> save_event_thumbnail cfg (ad_deletion env 0) (ad_storage env) (ad_now env 1)
                              (ad_task_ids env) (ad_thumbnail_id env) event content s1 st) of
                      (saved, s2, st1) \<Rightarrow>
                        (Inr (if saved
                           then redirect_with_message (edit_page event)
                             (if cf_thumbnail cf = None then ''Event created.'' else ''Event created with thumbnail.'') ''success''
                           else redirect_with_message (edit_page event)
                             ''Event created, but the thumbnail could not be saved. Try uploading it again.'' ''error''),
                         committed (event_audit env rq ''event.create'' event [] s2), st1)))))"

definition change_thumbnail :: "settings \<Rightarrow> admin_env \<Rightarrow> event \<Rightarrow> byte list option \<Rightarrow> bool \<Rightarrow> session \<Rightarrow> storage \<Rightarrow>
    (bool \<times> bool) \<times> session \<times> storage" where
  "change_thumbnail cfg env event content remove s st =
    (case content of
       Some c \<Rightarrow>
         (case save_event_thumbnail cfg (ad_deletion env 0) (ad_storage env) (ad_now env 1) (ad_task_ids env)
                 (ad_thumbnail_id env) event c s st of
            (saved, s1, st1) \<Rightarrow> ((saved, saved), s1, st1))
     | None \<Rightarrow>
         if remove
         then (case remove_event_thumbnail cfg (ad_deletion env 0) (ad_now env 1) (ad_task_ids env) event s of
                 (changed, s1) \<Rightarrow> ((True, changed), s1, st))
         else ((True, False), s, st))"

definition edited_message :: "byte list option \<Rightarrow> bool \<Rightarrow> bool \<Rightarrow> str" where
  "edited_message thumbnail remove changed =
    (if thumbnail \<noteq> None then ''Event changes and thumbnail saved.''
     else if remove \<and> changed then ''Event changes saved and thumbnail removed.'' else ''Event changes saved.'')"

definition edit_event_action :: "settings \<Rightarrow> admin_env \<Rightarrow> request \<Rightarrow> str \<Rightarrow> event_form \<Rightarrow> db \<times> storage \<Rightarrow>
    web_answer routed \<times> db \<times> storage" where
  "edit_event_action cfg env rq event_id form w =
    (case w of (d, st) \<Rightarrow>
      (case get_event d event_id of
         None \<Rightarrow> (Inl event_not_found, d, st)
       | Some event \<Rightarrow>
           (case check_event_form cfg env form of
              Inl e \<Rightarrow> (Inl (raised e), d, st)
            | Inr (Inl message) \<Rightarrow> (Inr (edit_event_form d event form message), d, st)
            | Inr (Inr cf) \<Rightarrow>
                if cf_thumbnail cf \<noteq> None \<and> fm_remove form
                then (Inr (edit_event_form d event form ''Choose a new thumbnail or remove the current one, not both.''), d, st)
                else
                  (case update_event (ev_id event) (cf_name cf)
                          (event_slug d (cf_name cf) (Some (uuid_str (ev_id event)))) (cf_date cf) (cf_location cf)
                          (cf_status cf) (open_session d) of
                     Inl e \<Rightarrow> (Inl (raised e), d, st)
                   | Inr s1 \<Rightarrow>
                       (case change_thumbnail cfg env event (cf_thumbnail cf) (fm_remove form) s1 st of
                          ((worked, changed), s2, st1) \<Rightarrow>
                            (Inr (if worked
                               then redirect_with_message (edit_page event)
                                 (edited_message (cf_thumbnail cf) (fm_remove form) changed) ''success''
                               else redirect_with_message (edit_page event)
                                 ''Event details were saved, but the thumbnail could not be updated. Try again.'' ''error''),
                             committed (event_audit env rq ''event.update'' event [] s2), st1))))))"

text \<open>Photos go first, then the event with all that refers to it.  The audit row names the event only as its target.\<close>

definition delete_event_action :: "settings \<Rightarrow> admin_env \<Rightarrow> request \<Rightarrow> str \<Rightarrow> db \<Rightarrow> web_answer routed \<times> db" where
  "delete_event_action cfg env rq event_id d =
    (case get_event d event_id of
       None \<Rightarrow> (Inl event_not_found, d)
     | Some event \<Rightarrow>
         (case delete_all_event_photos cfg (ad_deletion env 0) (ad_now env 0) (ad_task_ids env) (ev_id event) (open_session d) of
            (deleted_photo_count, s1) \<Rightarrow>
              (let s2 = delete_event cfg (ad_deletion env 1) (ad_now env 1) (ad_task_ids env) event s1;
                   s3 = append_admin_audit rq (ad_request_id env) ''event.delete'' (Some ''event'')
                     (Some (uuid_str (ev_id event))) None [(''deleted_photo_count'', JInt deleted_photo_count)] s2
               in (Inr (redirect_with_message ''/admin'' ''Event deleted.'' ''success''), committed s3))))"

section \<open>Participants\<close>

definition upload_participants_action :: "settings \<Rightarrow> admin_env \<Rightarrow> request \<Rightarrow> str \<Rightarrow> form_file \<Rightarrow> db \<Rightarrow>
    web_answer routed \<times> db" where
  "upload_participants_action cfg env rq event_id participant_file d =
    (case get_event d event_id of
       None \<Rightarrow> (Inl event_not_found, d)
     | Some event \<Rightarrow>
         (let file_name = or_empty (ff_filename participant_file) in
          if file_name = []
          then (Inr (redirect_with_message (edit_page event) ''Choose a participant file before uploading.'' ''error''), d)
          else
            (case read_upload_limited (ff_upload participant_file) (max_participant_upload_bytes cfg) of
               Inl e \<Rightarrow> (Inl (raised e), d)
             | Inr content \<Rightarrow>
                 (case import_participant_records cfg (ad_files env) (ad_now env 0) (ad_import_ids env) (ev_id event)
                         file_name content (open_session d) of
                    Inl (ValueError m) \<Rightarrow> (Inr (redirect_with_message (edit_page event) m ''error''), d)
                  | Inl e \<Rightarrow> (Inl (raised e), d)
                  | Inr (res, s1) \<Rightarrow>
                      (let s2 = event_audit env rq ''participant.import'' event
                             [(''inserted_count'', JInt (pr_inserted_rows res)), (''updated_count'', JInt (pr_updated_rows res)),
                              (''skipped_count'', JInt (pr_skipped_rows res))] s1
                       in (Inr (redirect_with_message (edit_page event)
                             (''Participants imported. Added '' @ int_str (pr_inserted_rows res) @ '', updated '' @
                              int_str (pr_updated_rows res) @ '', skipped '' @ int_str (pr_skipped_rows res) @ ''.'') ''success''),
                           committed s2))))))"

definition add_participant_action :: "admin_env \<Rightarrow> request \<Rightarrow> str \<Rightarrow> str \<Rightarrow> str \<Rightarrow> db \<Rightarrow> web_answer routed \<times> db" where
  "add_participant_action env rq event_id bib_number full_name d =
    (case get_event d event_id of
       None \<Rightarrow> (Inl event_not_found, d)
     | Some event \<Rightarrow>
         (case add_participant (ad_now env 0) (ad_new_id env) (ev_id event) bib_number full_name (open_session d) of
            Inl (ValueError m) \<Rightarrow> (Inr (redirect_with_message (edit_page event) m ''error''), d)
          | Inl e \<Rightarrow> (Inl (raised e), d)
          | Inr s1 \<Rightarrow>
              (Inr (redirect_with_message (edit_page event) ''Participant added.'' ''success''),
               committed (row_audit env rq ''participant.create'' ''participant'' (ad_new_id env) event
                 (rebuilt (ad_now env 1) event s1)))))"

text \<open>The event and the participant of a path, when they belong together.\<close>

definition event_participant_of :: "str \<Rightarrow> str \<Rightarrow> db \<Rightarrow> (event \<times> participant) option" where
  "event_participant_of event_id participant_id d =
    (case (get_event d event_id, get_participant d participant_id) of
       (Some event, Some participant) \<Rightarrow>
         if pa_event_id participant = ev_id event then Some (event, participant) else None
     | _ \<Rightarrow> None)"

definition update_participant_action :: "admin_env \<Rightarrow> request \<Rightarrow> str \<Rightarrow> str \<Rightarrow> str \<Rightarrow> str \<Rightarrow> db \<Rightarrow> web_answer routed \<times> db" where
  "update_participant_action env rq event_id participant_id bib_number full_name d =
    (case event_participant_of event_id participant_id d of
       None \<Rightarrow> (Inl (not_found ''Participant not found.''), d)
     | Some (event, participant) \<Rightarrow>
         (case update_participant participant bib_number full_name (open_session d) of
            Inl (ValueError m) \<Rightarrow> (Inr (redirect_with_message (edit_page event) m ''error''), d)
          | Inl e \<Rightarrow> (Inl (raised e), d)
          | Inr s1 \<Rightarrow>
              (Inr (redirect_with_message (edit_page event) ''Participant updated.'' ''success''),
               committed (row_audit env rq ''participant.update'' ''participant'' (pa_id participant) event
                 (rebuilt (ad_now env 1) event s1)))))"

definition delete_participant_action :: "settings \<Rightarrow> admin_env \<Rightarrow> request \<Rightarrow> str \<Rightarrow> str \<Rightarrow> db \<Rightarrow> web_answer routed \<times> db" where
  "delete_participant_action cfg env rq event_id participant_id d =
    (case event_participant_of event_id participant_id d of
       None \<Rightarrow> (Inl (not_found ''Participant not found.''), d)
     | Some (event, participant) \<Rightarrow>
         (Inr (redirect_with_message (edit_page event) ''Participant deleted.'' ''success''),
          committed (row_audit env rq ''participant.delete'' ''participant'' (pa_id participant) event
            (rebuilt (ad_now env 1) event
              (delete_participant cfg (ad_deletion env 0) (ad_now env 0) (ad_task_ids env) participant (open_session d))))))"

definition counted :: "str \<Rightarrow> int \<Rightarrow> str" where
  "counted what n = ''Deleted '' @ int_str n @ '' '' @ what @ '' record'' @ (if n \<noteq> 1 then ''s'' else []) @ ''.''"

definition delete_all_participants_action :: "settings \<Rightarrow> admin_env \<Rightarrow> request \<Rightarrow> str \<Rightarrow> db \<Rightarrow> web_answer routed \<times> db" where
  "delete_all_participants_action cfg env rq event_id d =
    (case get_event d event_id of
       None \<Rightarrow> (Inl event_not_found, d)
     | Some event \<Rightarrow>
         (case delete_all_participants cfg (ad_deletion env 0) (ad_now env 0) (ad_task_ids env) (ev_id event) (open_session d) of
            (deleted_count, s1) \<Rightarrow>
              (Inr (redirect_with_message (edit_page event) (counted ''participant'' deleted_count) ''success''),
               committed (event_audit env rq ''participant.delete_all'' event [(''deleted_count'', JInt deleted_count)]
                 (rebuilt (ad_now env 1) event s1)))))"

section \<open>Photos\<close>

definition delete_photo_action :: "settings \<Rightarrow> admin_env \<Rightarrow> request \<Rightarrow> str \<Rightarrow> str \<Rightarrow> db \<Rightarrow> web_answer routed \<times> db" where
  "delete_photo_action cfg env rq event_id photo_id d =
    (case get_event d event_id of
       None \<Rightarrow> (Inl event_not_found, d)
     | Some event \<Rightarrow>
         (case get_event_photo d (ev_id event) photo_id of
            None \<Rightarrow> (Inl (not_found ''Photo not found.''), d)
          | Some photo \<Rightarrow>
              (Inr (redirect_with_message (edit_page event) ''Photo deleted.'' ''success''),
               committed (row_audit env rq ''photo.delete'' ''photo'' (ph_id photo) event
                 (delete_photo cfg (ad_deletion env 0) (ad_now env 0) (ad_task_ids env) photo (open_session d))))))"

definition delete_all_event_photos_action :: "settings \<Rightarrow> admin_env \<Rightarrow> request \<Rightarrow> str \<Rightarrow> db \<Rightarrow> web_answer routed \<times> db" where
  "delete_all_event_photos_action cfg env rq event_id d =
    (case get_event d event_id of
       None \<Rightarrow> (Inl event_not_found, d)
     | Some event \<Rightarrow>
         (case delete_all_event_photos cfg (ad_deletion env 0) (ad_now env 0) (ad_task_ids env) (ev_id event) (open_session d) of
            (deleted_count, s1) \<Rightarrow>
              (Inr (redirect_with_message (edit_page event) (counted ''photo'' deleted_count) ''success''),
               committed (event_audit env rq ''photo.delete_all'' event [(''deleted_count'', JInt deleted_count)] s1))))"

section \<open>Pages\<close>

definition admin_dashboard :: "(str \<rightharpoonup> str) \<Rightarrow> db \<Rightarrow> web_answer routed" where
  "admin_dashboard query d = Inr (PageAnswer 200 (DashboardPage (dashboard d query)) [])"

definition new_event_page :: "web_answer routed" where
  "new_event_page = Inr (PageAnswer 200 (FormPage (new_event_form slug_hint None [])) [])"

definition edit_event_page :: "(str \<rightharpoonup> str) \<Rightarrow> str \<Rightarrow> db \<Rightarrow> web_answer routed" where
  "edit_event_page query event_id d =
    (case get_event d event_id of
       None \<Rightarrow> Inl event_not_found
     | Some event \<Rightarrow> Inr (PageAnswer 200 (FormPage
         ((render_existing_event_form d event None [])\<lparr>fp_message := Some (query_message query)\<rparr>)) []))"

definition admin_photo_detail_page ::
    "settings \<Rightarrow> (str \<Rightarrow> str option \<Rightarrow> int \<Rightarrow> str result) \<Rightarrow> str \<Rightarrow> str \<Rightarrow> db \<Rightarrow> web_answer routed" where
  "admin_photo_detail_page cfg presign event_id photo_id d =
    (case get_event d event_id of
       None \<Rightarrow> Inl event_not_found
     | Some event \<Rightarrow>
         (case get_event_photo d (ev_id event) photo_id of
            None \<Rightarrow> Inl (not_found ''Photo not found.'')
          | Some photo \<Rightarrow> Inr (PageAnswer 200
              (PhotoPage event photo (safe_photo_access_url cfg presign (ph_original_object_key photo))) [])))"

section \<open>All the routes that change something\<close>

datatype admin_command =
    CreateEvent event_form
  | EditEvent str event_form
  | DeleteEvent str
  | UploadParticipants str form_file
  | AddParticipant str str str
  | UpdateParticipant str str str str
  | DeleteParticipant str str
  | DeleteAllParticipants str
  | DeletePhoto str str
  | DeleteAllPhotos str

definition on_db :: "(db \<Rightarrow> 'r \<times> db) \<Rightarrow> db \<times> storage \<Rightarrow> 'r \<times> db \<times> storage" where
  "on_db f w = (case w of (d, st) \<Rightarrow> case f d of (r, d1) \<Rightarrow> (r, d1, st))"

fun admin_route :: "settings \<Rightarrow> admin_env \<Rightarrow> request \<Rightarrow> admin_command \<Rightarrow> db \<times> storage \<Rightarrow> web_answer routed \<times> db \<times> storage" where
  "admin_route cfg env rq (CreateEvent form) w = create_event_action cfg env rq form w"
| "admin_route cfg env rq (EditEvent e form) w = edit_event_action cfg env rq e form w"
| "admin_route cfg env rq (DeleteEvent e) w = on_db (delete_event_action cfg env rq e) w"
| "admin_route cfg env rq (UploadParticipants e f) w = on_db (upload_participants_action cfg env rq e f) w"
| "admin_route cfg env rq (AddParticipant e bib name) w = on_db (add_participant_action env rq e bib name) w"
| "admin_route cfg env rq (UpdateParticipant e p bib name) w = on_db (update_participant_action env rq e p bib name) w"
| "admin_route cfg env rq (DeleteParticipant e p) w = on_db (delete_participant_action cfg env rq e p) w"
| "admin_route cfg env rq (DeleteAllParticipants e) w = on_db (delete_all_participants_action cfg env rq e) w"
| "admin_route cfg env rq (DeletePhoto e p) w = on_db (delete_photo_action cfg env rq e p) w"
| "admin_route cfg env rq (DeleteAllPhotos e) w = on_db (delete_all_event_photos_action cfg env rq e) w"

text \<open>A request of the administration: the lock, the CSRF check, the route.\<close>

definition admin_request :: "(str \<Rightarrow> bool) \<Rightarrow> settings \<Rightarrow> time \<Rightarrow> str \<Rightarrow> admin_env \<Rightarrow> request \<Rightarrow> str option \<Rightarrow> admin_command \<Rightarrow>
    db \<times> storage \<Rightarrow> web_answer result \<times> db \<times> storage" where
  "admin_request bracketed_ok cfg now fresh env rq csrf_token c =
     admin_session_middleware cfg now fresh rq (csrf_guarded bracketed_ok cfg csrf_token rq (admin_route cfg env rq c))"

end
