(* ===== verification/ThumbnailFacts.thy ===== *)
theory ThumbnailFacts
  imports Thumbnails IngestFacts PhotoAdminFacts
begin

text \<open>
  What the thumbnails promise: replacing the thumbnail of an event loses neither the new picture nor track of
  the old one, and the backfill of missing photo thumbnails ends.
\<close>

section \<open>Thumbnails of events\<close>

lemma run_one_deletion_frame:
  assumes "alone denv"
  shows "\<exists>ts. committed (run_one_deletion cfg denv s) = (committed s)\<lparr>deletion_tasks := ts\<rparr>"
  using run_outbox_frame[OF assms] by (simp add: run_one_deletion_def run_outbox_def)

lemma run_one_deletion_keeps:
  assumes "alone denv" "distinct (map dt_id (deletion_tasks (committed s)))" "requested k (committed s)"
  shows "pending_or_deleted denv k (committed (run_one_deletion cfg denv s))"
  using run_outbox_keeps[OF assms] by (simp add: run_one_deletion_def run_outbox_def)

lemma event_thumbnail_key_not_Nil [simp]: "event_thumbnail_key e i \<noteq> []" "[] \<noteq> event_thumbnail_key e i"
  by (simp_all add: event_thumbnail_key_def)

text \<open>The rows of an event that got another thumbnail: nothing else changes but the deletion tasks.\<close>

definition thumbnail_set :: "uuid \<Rightarrow> str option \<Rightarrow> db \<Rightarrow> db \<Rightarrow> bool" where
  "thumbnail_set e key d d' \<longleftrightarrow> (\<exists>ts. d' = (set_event_thumbnail e key d)\<lparr>deletion_tasks := ts\<rparr>)"

lemma swapped:
  fixes cfg :: settings and key :: "str option" and now :: time
  assumes "alone denv" "ids_fit ids (set_option (previous_thumbnail event)) d"
  defines "s \<equiv> commit (swap_thumbnail now ids event key (open_session d))"
  shows "thumbnail_set (ev_id event) key d (committed (if previous_thumbnail event = None then s else run_one_deletion cfg denv s)) \<and>
    (\<forall>old. previous_thumbnail event = Some old \<longrightarrow>
       pending_or_deleted denv old (committed (if previous_thumbnail event = None then s else run_one_deletion cfg denv s)))"
proof (cases "previous_thumbnail event")
  case None
  then have "committed s = set_event_thumbnail (ev_id event) key d" by (simp add: s_def swap_thumbnail_def)
  then show ?thesis using None unfolding thumbnail_set_def
    by (intro conjI exI[of _ "deletion_tasks d"]) (simp_all add: set_event_thumbnail_def)
next
  case (Some old)
  have old: "old \<noteq> []" using Some by (auto simp: previous_thumbnail_def split: option.splits if_splits)
  let ?d = "set_event_thumbnail (ev_id event) key d"
  have s: "committed s = enqueue_object_deletion now (ids old) (Some old) ?d" by (simp add: s_def swap_thumbnail_def Some)
  obtain ts where ts: "committed s = ?d\<lparr>deletion_tasks := ts\<rparr>"
    unfolding s by (auto simp: enqueue_object_deletion_def old)
  have "ids_fit ids {old} ?d" using assms(2) Some by (simp add: ids_fit_def set_event_thumbnail_def)
  from enqueue_ids_fit[OF this, of old now] have fit: "distinct (map dt_id (deletion_tasks (committed s)))"
    unfolding s by (simp add: ids_fit_def)
  have "requested old (committed s)" unfolding s by (rule enqueue_requests[OF old])
  from run_one_deletion_keeps[OF assms(1) fit this]
  have "pending_or_deleted denv old (committed (run_one_deletion cfg denv s))" .
  moreover obtain us where "committed (run_one_deletion cfg denv s) = (committed s)\<lparr>deletion_tasks := us\<rparr>"
    using run_one_deletion_frame[OF assms(1)] by blast
  ultimately show ?thesis using Some ts unfolding thumbnail_set_def by auto
qed



definition demo_thumbnail_event :: event where
  "demo_thumbnail_event = demo_event\<lparr>ev_thumbnail_object_key := Some ''old.jpg''\<rparr>"


section \<open>The backfill\<close>

text \<open>One photo of a batch: it stays as it is, or it gets a thumbnail and is no longer missing one.\<close>

lemma backfill_photo_rows:
  assumes "backfill_photo cfg decode digest resize env n p d st = (ok, d', st')"
  shows "map ph_id (photos d') = map ph_id (photos d) \<and> d' = d\<lparr>photos := photos d'\<rparr> \<and>
    missing_thumbnails d' = (if ok then filter (\<lambda>q. ph_id q \<noteq> ph_id p) (missing_thumbnails d) else missing_thumbnails d)"
proof -
  consider (same) "\<not> ok" "d' = d"
    | (filled) key sha where "ok" "d' = d\<lparr>photos := update_where (\<lambda>q. ph_id q = ph_id p) (\<lambda>_. backfill_row d key sha p) (photos d)\<rparr>"
    using assms by (auto simp: backfill_photo_def Let_def split: option.splits sum.splits prod.splits if_splits bool.splits)
  then show ?thesis
  proof cases
    case filled
    have row: "ph_id (backfill_row d key sha p) = ph_id p" "ph_thumbnail_object_key (backfill_row d key sha p) = Some key"
      by (simp_all add: backfill_row_def Let_def)
    have "map ph_id (photos d') = map ph_id (photos d)"
      by (simp add: filled(2) update_where_def row(1))
    moreover have "filter (\<lambda>q. ph_thumbnail_object_key q = None) (update_where (\<lambda>q. ph_id q = ph_id p) (\<lambda>_. backfill_row d key sha p) ps) =
        filter (\<lambda>q. ph_id q \<noteq> ph_id p) (filter (\<lambda>q. ph_thumbnail_object_key q = None) ps)" for ps
      by (induction ps) (simp_all add: update_where_def row)
    ultimately show ?thesis using filled by (simp add: missing_thumbnails_def)
  qed simp
qed

lemma length_filter_other:
  assumes "distinct (map ph_id ps)" "p \<in> set ps"
  shows "Suc (length (filter (\<lambda>q. ph_id q \<noteq> ph_id p) ps)) = length ps"
proof -
  have "filter (\<lambda>q. ph_id q \<noteq> ph_id p) ps = remove1 p ps"
    using assms
  proof (induction ps)
    case (Cons q ps)
    show ?case
    proof (cases "q = p")
      case True
      then have "\<forall>r \<in> set ps. ph_id r \<noteq> ph_id p" using Cons.prems(1) by (auto simp: image_iff)
      then show ?thesis using True by simp
    next
      case False
      then have "p \<in> set ps" using Cons.prems(2) by simp
      moreover have "ph_id q \<noteq> ph_id p" using Cons.prems(1) \<open>p \<in> set ps\<close> by force
      ultimately show ?thesis using Cons False by simp
    qed
  qed simp
  moreover have "0 < length ps" using assms(2) by (cases ps) auto
  ultimately show ?thesis using assms(2) by (simp add: length_remove1)
qed

lemma backfill_photos_rows:
  assumes "backfill_photos cfg decode digest resize env n ps d st = ((k, f), d', st')"
    and "distinct (map ph_id (photos d))" "distinct (map ph_id ps)" "set ps \<subseteq> set (missing_thumbnails d)"
  shows "k + f = length ps \<and> map ph_id (photos d') = map ph_id (photos d) \<and>
    length (missing_thumbnails d') + k = length (missing_thumbnails d)"
  using assms
proof (induction ps arbitrary: n d st k f d' st')
  case Nil
  then show ?case by simp
next
  case (Cons p ps)
  obtain ok d1 st1 where one: "backfill_photo cfg decode digest resize env n p d st = (ok, d1, st1)" by (metis prod_cases3)
  obtain k1 f1 d2 st2 where rest: "backfill_photos cfg decode digest resize env (Suc n) ps d1 st1 = ((k1, f1), d2, st2)"
    by (metis prod.collapse)
  note row = backfill_photo_rows[OF one]
  have missing: "distinct (map ph_id (missing_thumbnails d))"
    using Cons.prems(2) unfolding missing_thumbnails_def by (rule distinct_map_filter)
  have "distinct (map ph_id (photos d1))" using row Cons.prems(2) by simp
  moreover have "set ps \<subseteq> set (missing_thumbnails d1)"
  proof
    fix q
    assume q: "q \<in> set ps"
    then have "ph_id q \<noteq> ph_id p" using Cons.prems(3) by (auto simp: image_iff)
    then show "q \<in> set (missing_thumbnails d1)" using row q Cons.prems(4) by auto
  qed
  ultimately have ih: "k1 + f1 = length ps" "map ph_id (photos d2) = map ph_id (photos d1)"
    "length (missing_thumbnails d2) + k1 = length (missing_thumbnails d1)"
    using Cons.IH[OF rest] Cons.prems(3) by auto
  have "length (missing_thumbnails d1) + (if ok then 1 else 0) = length (missing_thumbnails d)"
    using row length_filter_other[OF missing, of p] Cons.prems(4) by auto
  moreover have "(k, f) = (if ok then (Suc k1, f1) else (k1, Suc f1))" "d' = d2" using Cons.prems(1) one rest by simp_all
  ultimately show ?case using ih row by (cases ok) auto
qed

lemma run_batch_rows:
  assumes "run_batch cfg decode digest resize env limit True d st = ((k, f), d', st')" "distinct (map ph_id (photos d))"
  shows "k + f = min (clamp_batch limit) (length (missing_thumbnails d)) \<and> map ph_id (photos d') = map ph_id (photos d) \<and>
    length (missing_thumbnails d') + k = length (missing_thumbnails d)"
proof -
  let ?m = "missing_thumbnails d"
  let ?ps = "order_limit ph_created_at (clamp_batch limit) ?m"
  have ps: "?ps = take (clamp_batch limit) (sort_key ph_created_at ?m)" by (simp add: order_limit_def)
  have "distinct (map ph_id ?m)" using assms(2) unfolding missing_thumbnails_def by (rule distinct_map_filter)
  moreover have "mset (map ph_id (sort_key ph_created_at ?m)) = mset (map ph_id ?m)" by simp
  ultimately have "distinct (map ph_id (sort_key ph_created_at ?m))" by (metis mset_eq_imp_distinct_iff)
  then have "distinct (map ph_id ?ps)" unfolding ps take_map[symmetric] by (rule distinct_take)
  moreover have "set ?ps \<subseteq> set ?m" unfolding ps using set_take_subset by fastforce
  moreover have "length ?ps = min (clamp_batch limit) (length ?m)" by (simp add: ps)
  ultimately show ?thesis using backfill_photos_rows[OF _ assms(2), of cfg decode digest resize env 0 ?ps st k f d' st'] assms(1)
    by (simp add: run_batch_def)
qed


lemma clamp_batch_pos [simp]: "0 < clamp_batch limit" "clamp_batch (int (clamp_batch limit)) = clamp_batch limit"
  by (auto simp: clamp_batch_def)




end
