(* ===== verification/AdminRouteFacts.thy ===== *)
theory AdminRouteFacts
  imports AdminRoutes RebuildFacts AdministrationFacts ListingFacts ThumbnailFacts
begin

text \<open>
  What the administration promises: a change is made only for the administrator that holds the lock and passed
  the CSRF check, every change is in the audit log, and a deleted event is gone from every table, with its
  objects in the outbox.
\<close>

section \<open>Who gets in\<close>

lemma acquire_frame: "acquire_admin_lock now sid d = (granted, d') \<Longrightarrow> \<exists>ls. d' = d\<lparr>admin_locks := ls\<rparr>"
  by (auto simp: acquire_admin_lock_def split: option.splits if_splits intro: exI[of _ "admin_locks d"])

text \<open>Some other administrator was seen in the last thirty minutes.\<close>

definition lock_held :: "time \<Rightarrow> str \<Rightarrow> db \<Rightarrow> bool" where
  "lock_held now session_id d \<longleftrightarrow> (\<exists>l. row_at lk_id ADMIN_LOCK_ID (admin_locks d) = Some l \<and>
     lk_session_id l \<noteq> session_id \<and> now \<le> lk_last_seen_at l + ADMIN_SESSION_TTL)"

lemma acquire_held: "fst (acquire_admin_lock now sid d) = (\<not> lock_held now sid d)"
  by (auto simp: acquire_admin_lock_def lock_held_def split: option.splits)

text \<open>C14 (safety): who administers.  A request under \<^verbatim>\<open>/admin\<close>, but for the takeover, that meets the lock of another
  session seen in the last thirty minutes is answered with 409 and changes nothing; and one that changes
  anything beside the lock was let in by the lock, carried the CSRF token of its cookie and, when the browser named
  an origin, an allowed one.\<close>

theorem administration_guarded:
  assumes "startswith (rq_path rq) ''/admin''" "rq_path rq \<noteq> TAKEOVER_PATH"
    and "admin_request bracketed_ok cfg now fresh env rq csrf_token c (d, st) = (ans, d', st')"
  shows "(lock_held now (admin_session_id fresh rq) d \<longrightarrow>
      ans = Inr (PageAnswer 409 AdminInUse []) \<and> d' = d \<and> st' = st) \<and>
    (st' \<noteq> st \<or> (\<forall>ls. d' \<noteq> d\<lparr>admin_locks := ls\<rparr>) \<longrightarrow>
      \<not> lock_held now (admin_session_id fresh rq) d \<and>
      require_browser_csrf bracketed_ok cfg csrf_token (rq_headers rq ''x-csrf-token'') rq = Inr ())"
proof -
  let ?sid = "admin_session_id fresh rq"
  obtain granted d1 where a: "acquire_admin_lock now ?sid d = (granted, d1)" by fastforce
  have held: "granted \<longleftrightarrow> \<not> lock_held now ?sid d" using acquire_held[of now ?sid d] a by simp
  obtain ls where ls: "d1 = d\<lparr>admin_locks := ls\<rparr>" using acquire_frame[OF a] by blast
  show ?thesis
  proof (cases granted)
    case False
    with a have "d1 = d" by (auto simp: acquire_admin_lock_def split: option.splits if_splits)
    with False assms a held have "ans = Inr (PageAnswer 409 AdminInUse [])" "d' = d" "st' = st"
      by (simp_all add: admin_request_def admin_session_middleware_def)
    moreover have "\<exists>ls. d = d\<lparr>admin_locks := ls\<rparr>" by (rule exI[of _ "admin_locks d"]) simp
    ultimately show ?thesis by blast
  next
    case True
    then have run: "(d', st') = snd (csrf_guarded bracketed_ok cfg csrf_token rq (admin_route cfg env rq c) (d1, st))"
      using assms a by (auto simp: admin_request_def admin_session_middleware_def Let_def split: prod.splits)
    show ?thesis
    proof (cases "require_browser_csrf bracketed_ok cfg csrf_token (rq_headers rq ''x-csrf-token'') rq")
      case (Inl e)
      then have "d' = d\<lparr>admin_locks := ls\<rparr>" "st' = st" using run ls by (simp_all add: csrf_guarded_def)
      then show ?thesis using True held by blast
    next
      case (Inr u)
      then show ?thesis using True held by simp
    qed
  qed
qed

definition admin_post :: request where
  "admin_post = \<lparr>rq_method = ''POST'', rq_path = ''/admin/events/1/delete'', rq_headers = Map.empty,
     rq_cookies = Map.empty, rq_scheme = ''https'', rq_client = None\<rparr>"

theorem administration_guarded_witness:
  "\<forall>env. admin_request (\<lambda>_. True) default_settings 5 ''b'' env admin_post None (DeleteEvent ''1'')
      (snd (acquire_admin_lock 1 ''a'' empty_db), Map.empty) =
    (Inr (PageAnswer 409 AdminInUse []), snd (acquire_admin_lock 1 ''a'' empty_db), Map.empty)"
proof
  fix env
  let ?d = "snd (acquire_admin_lock 1 ''a'' empty_db)"
  obtain ans d' st' where run: "admin_request (\<lambda>_. True) default_settings 5 ''b'' env admin_post None (DeleteEvent ''1'')
      (?d, Map.empty) = (ans, d', st')" by (metis prod_cases3)
  have p: "startswith (rq_path admin_post) ''/admin''" "rq_path admin_post \<noteq> TAKEOVER_PATH"
    by (simp_all add: admin_post_def startswith_def TAKEOVER_PATH_def)
  have "lock_held 5 (admin_session_id ''b'' admin_post) ?d"
    by (simp add: lock_held_def admin_session_id_def admin_post_def cookie_def acquire_admin_lock_def empty_db_def
        ADMIN_LOCK_ID_def ADMIN_SESSION_TTL_def seconds_def)
  with administration_guarded[OF p run] run
  show "admin_request (\<lambda>_. True) default_settings 5 ''b'' env admin_post None (DeleteEvent ''1'') (?d, Map.empty) =
      (Inr (PageAnswer 409 AdminInUse []), ?d, Map.empty)" by simp
qed

section \<open>The audit log\<close>

text \<open>Who did what, as a row of the log tells it; deleting an event takes the event out of its rows, nothing else.\<close>

definition who :: "audit_row \<Rightarrow> str \<times> str option" where
  "who r = (al_action r, al_actor_id r)"

definition actor :: "request \<Rightarrow> str option" where
  "actor rq = Some (take 255
     (if header rq ''cf-access-authenticated-user-email'' \<noteq> [] then header rq ''cf-access-authenticated-user-email''
      else if cookie rq ''raceframe_admin_session'' \<noteq> [] then cookie rq ''raceframe_admin_session'' else ''unknown''))"

named_theorems audit_frame \<open>operations that leave the audit log alone\<close>

lemma enqueue_audit [audit_frame, simp]:
  "audit_rows (enqueue_object_deletion now i k d) = audit_rows d"
  "audit_rows (enqueue_keys now ids ks d) = audit_rows d"
proof -
  show one: "audit_rows (enqueue_object_deletion now i k d) = audit_rows d" for i k d
    by (simp add: enqueue_object_deletion_def split: option.splits)
  show "audit_rows (enqueue_keys now ids ks d) = audit_rows d"
    unfolding enqueue_keys_def by (induction ks arbitrary: d) (simp_all add: one)
qed

lemma run_outbox_audit [audit_frame, simp]:
  assumes "alone env"
  shows "audit_rows (live (run_outbox cfg env limit s)) = audit_rows (committed s)"
    and "audit_rows (live (run_full_outbox cfg env s)) = audit_rows (committed s)"
    and "audit_rows (live (run_one_deletion cfg env s)) = audit_rows (committed s)"
proof -
  have "audit_rows (snd (process_object_deletions cfg env limit (committed s))) = audit_rows (committed s)" for limit
    using process_frame[OF assms, of cfg limit "committed s"] by auto
  then show "audit_rows (live (run_outbox cfg env limit s)) = audit_rows (committed s)"
    "audit_rows (live (run_full_outbox cfg env s)) = audit_rows (committed s)"
    "audit_rows (live (run_one_deletion cfg env s)) = audit_rows (committed s)"
    by (simp_all add: run_outbox_def run_full_outbox_def run_one_deletion_def)
qed

lemma thumbnail_audit [audit_frame]:
  assumes "alone env" "audit_rows (committed s) = audit_rows (live s)"
  shows "save_event_thumbnail cfg env senv now ids new_id event content s st = (ok, s', st') \<Longrightarrow>
      audit_rows (live s') = audit_rows (live s)"
    and "remove_event_thumbnail cfg env now ids event s = (changed, s') \<Longrightarrow> audit_rows (live s') = audit_rows (live s)"
proof -
  have sw: "audit_rows (live (swap_thumbnail now ids event key s)) = audit_rows (live s)"
    "committed (swap_thumbnail now ids event key s) = committed s" for key
    by (auto simp: swap_thumbnail_def Let_def set_event_thumbnail_def split: option.splits)
  show "save_event_thumbnail cfg env senv now ids new_id event content s st = (ok, s', st') \<Longrightarrow>
      audit_rows (live s') = audit_rows (live s)"
    using assms by (auto simp: save_event_thumbnail_def Let_def sw split: prod.splits bool.splits if_splits)
  show "remove_event_thumbnail cfg env now ids event s = (changed, s') \<Longrightarrow> audit_rows (live s') = audit_rows (live s)"
    using assms by (auto simp: remove_event_thumbnail_def sw split: if_splits)
qed

lemma rebuild_audit [audit_frame, simp]: "audit_rows (live (snd (rebuild_event_photo_matches now e s))) = audit_rows (live s)"
proof -
  let ?P = "\<lambda>s'. audit_rows (live s') = audit_rows (live s)"
  have candidate: "?P s1 \<Longrightarrow> ?P (match_candidate now photo by_bib t s1 c)" for photo by_bib t s1 c
    by (cases "by_bib c") (simp_all add: match_candidate_def upsert_final_photo_participant_match_def upsert_photo_match_def)
  have create: "?P s1 \<Longrightarrow> ?P (create_participant_matches now photo ts s1)" for photo ts s1
    unfolding create_participant_matches_def Let_def by (auto intro!: foldl_fact[where P = ?P] candidate)
  have "?P (snd (foldl (rebuild_photo now) (0, commit (orm (drop_text_matches e) s)) ps))" for ps
    by (rule foldl_fact[where P = "\<lambda>a. ?P (snd a)"])
      (auto simp: rebuild_photo_def Let_def drop_text_matches_def create split: prod.splits)
  then show ?thesis by (simp add: rebuild_event_photo_matches_def Let_def)
qed

lemma photo_deletions_audit [audit_frame, simp]:
  assumes "alone env"
  shows "audit_rows (live (delete_photo cfg env now ids photo s)) = audit_rows (live s)"
    and "audit_rows (live (snd (delete_all_event_photos cfg env now ids e s))) = audit_rows (live s)"
proof -
  have c: "audit_rows (live (cleanup_photo_identity_data is s)) = audit_rows (live s)" for "is" s
    by (simp add: cleanup_photo_identity_data_def Let_def)
  have d: "audit_rows (live (discard_photo now ids s p)) = audit_rows (live s)" for s p
    by (simp add: discard_live remove_photo_def)
  have f: "audit_rows (live (foldl (discard_photo now ids) s ps)) = audit_rows (live s)" for s ps
    by (induction ps arbitrary: s) (simp_all add: d)
  show "audit_rows (live (delete_photo cfg env now ids photo s)) = audit_rows (live s)"
    "audit_rows (live (snd (delete_all_event_photos cfg env now ids e s))) = audit_rows (live s)"
    using assms by (simp_all add: delete_photo_def delete_all_event_photos_def Let_def c d f)
qed

lemma identity_cleanup_audit [audit_frame, simp]:
  "audit_rows (live (cleanup_participant_identity_data now ids ps s)) = audit_rows (live s)"
proof -
  have searches: "audit_rows (live (cleanup_searches now ids S s)) = audit_rows (live s)" for S
    by (simp add: cleanup_searches_def Let_def)
  have update: "audit_rows (d\<lparr>face_matches := a, photo_matches := b, participant_face_jobs := c, face_embeddings := e,
      face_images := f\<rparr>) = audit_rows d" for d a b c e f by simp
  show ?thesis
    by (simp only: cleanup_participant_identity_data_def Let_def if_distrib[of live] if_distrib[of audit_rows]
        dml_simps update enqueue_audit searches if_cancel)
qed

lemma participant_deletions_audit [audit_frame, simp]:
  assumes "alone env"
  shows "audit_rows (live (delete_participant cfg env now ids p s)) = audit_rows (live s)"
    and "audit_rows (live (snd (delete_all_participants cfg env now ids e s))) = audit_rows (live s)"
  using assms by (simp_all add: delete_participant_def delete_all_participants_def remove_participants_def Let_def)

lemma participant_writes_audit [audit_frame]:
  "add_participant now i e bib name s = Inr s' \<Longrightarrow> audit_rows (live s') = audit_rows (live s)"
  "update_participant p bib name s = Inr s' \<Longrightarrow> audit_rows (live s') = audit_rows (live s)"
  "upsert_participants now idf e rows s = (res, s') \<Longrightarrow> audit_rows (live s') = audit_rows (live s)"
  by (auto simp: add_participant_def update_participant_def upsert_participants_def Let_def split: if_splits prod.splits)

lemma event_writes_audit [audit_frame]:
  "create_event now i name slug date loc status s = Inr s' \<Longrightarrow>
    audit_rows (live s') = audit_rows (live s) \<and> committed s' = live s'"
  "update_event i name slug date loc status s = Inr s' \<Longrightarrow>
    audit_rows (live s') = audit_rows (live s) \<and> committed s' = live s'"
  by (auto simp: create_event_def update_event_def commit_events_def split: if_splits)

lemma delete_event_audit [audit_frame]:
  assumes "alone env"
  shows "map who (audit_rows (live (delete_event cfg env now ids event s))) = map who (audit_rows (live s))"
  using assms by (simp add: delete_event_def remove_event_def Let_def update_where_key who_def)

lemma audit_committed:
  "map who (audit_rows (committed (append_admin_audit rq rid action tt ti ev md s))) =
   map who (audit_rows (live s)) @ [(take 128 action, actor rq)]"
  by (simp add: append_admin_audit_def audit_entry_def who_def actor_def)

lemmas audit_simps = audit_committed event_audit_def row_audit_def rebuilt_def

text \<open>What a command is called in the log.\<close>

fun command_action :: "admin_command \<Rightarrow> str" where
  "command_action (CreateEvent _) = ''event.create''"
| "command_action (EditEvent _ _) = ''event.update''"
| "command_action (DeleteEvent _) = ''event.delete''"
| "command_action (UploadParticipants _ _) = ''participant.import''"
| "command_action (AddParticipant _ _ _) = ''participant.create''"
| "command_action (UpdateParticipant _ _ _ _) = ''participant.update''"
| "command_action (DeleteParticipant _ _) = ''participant.delete''"
| "command_action (DeleteAllParticipants _) = ''participant.delete_all''"
| "command_action (DeletePhoto _ _) = ''photo.delete''"
| "command_action (DeleteAllPhotos _) = ''photo.delete_all''"

definition recorded :: "request \<Rightarrow> str \<Rightarrow> db \<Rightarrow> db \<Rightarrow> bool" where
  "recorded rq action d d' \<longleftrightarrow> map who (audit_rows d') = map who (audit_rows d) @ [(action, actor rq)]"

definition undisturbed :: "admin_env \<Rightarrow> bool" where
  "undisturbed env \<longleftrightarrow> (\<forall>n. alone (ad_deletion env n))"

lemma event_routes_recorded:
  assumes "undisturbed env"
  shows "create_event_action cfg env rq form (d, st) = (r, d', st') \<Longrightarrow> (d', st') \<noteq> (d, st) \<Longrightarrow> recorded rq ''event.create'' d d'"
    and "edit_event_action cfg env rq e form (d, st) = (r, d', st') \<Longrightarrow> (d', st') \<noteq> (d, st) \<Longrightarrow> recorded rq ''event.update'' d d'"
    and "delete_event_action cfg env rq e d = (r, d') \<Longrightarrow> d' \<noteq> d \<Longrightarrow> recorded rq ''event.delete'' d d'"
proof -
  have a: "alone (ad_deletion env n)" for n using assms by (simp add: undisturbed_def)
  have change: "audit_rows (live s2) = audit_rows (live s1)"
    if "change_thumbnail cfg env event content remove s1 st = (b, s2, st2)" "committed s1 = live s1"
    for event content remove s1 st b s2 st2
  proof -
    have l: "audit_rows (committed s1) = audit_rows (live s1)" using that(2) by simp
    show ?thesis
    proof (cases content)
      case None
      with that(1) show ?thesis
        by (auto simp: change_thumbnail_def dest!: thumbnail_audit(2)[OF a l] split: prod.splits if_splits)
    next
      case (Some c)
      with that(1) show ?thesis
        by (auto simp: change_thumbnail_def dest!: thumbnail_audit(1)[OF a l] split: prod.splits)
    qed
  qed
  show "recorded rq ''event.create'' d d'"
    if run: "create_event_action cfg env rq form (d, st) = (r, d', st')" and ne: "(d', st') \<noteq> (d, st)"
  proof -
    obtain cf where cf: "check_event_form cfg env form = Inr (Inr cf)"
    proof (cases "check_event_form cfg env form")
      case (Inl e)
      then show ?thesis using run ne by (simp add: create_event_action_def)
    next
      case (Inr x)
      show ?thesis
      proof (cases x)
        case (Inl m)
        with Inr show ?thesis using run ne by (simp add: create_event_action_def)
      next
        case (Inr cf)
        with \<open>check_event_form cfg env form = Inr x\<close> show ?thesis by (simp add: that)
      qed
    qed
    let ?slug = "event_slug d (cf_name cf) None"
    obtain s1 where s1: "create_event (ad_now env 0) (ad_new_id env) (cf_name cf) ?slug (cf_date cf) (cf_location cf)
        (cf_status cf) (open_session d) = Inr s1"
      using run ne unfolding create_event_action_def by (simp add: cf Let_def split: sum.splits)
    from event_writes_audit(1)[OF this] have l: "audit_rows (live s1) = audit_rows d" "committed s1 = live s1" by simp_all
    define event where "event = \<lparr>ev_id = ad_new_id env, ev_name = cf_name cf, ev_slug = ?slug, ev_date = cf_date cf,
      ev_location = cf_location cf, ev_status = cf_status cf, ev_thumbnail_object_key = None, ev_created_at = ad_now env 0\<rparr>"
    obtain saved s2 st1 where t: "(case cf_thumbnail cf of
        None \<Rightarrow> (True, s1, st)
      | Some content \<Rightarrow> save_event_thumbnail cfg (ad_deletion env 0) (ad_storage env) (ad_now env 1)
          (ad_task_ids env) (ad_thumbnail_id env) event content s1 st) = (saved, s2, st1)" by (metis prod_cases3)
    have "audit_rows (live s2) = audit_rows d"
    proof (cases "cf_thumbnail cf")
      case None
      with t l show ?thesis by simp
    next
      case (Some content)
      have "audit_rows (committed s1) = audit_rows (live s1)" using l by simp
      from thumbnail_audit(1)[OF a this] t Some l show ?thesis by simp
    qed
    moreover have "d' = committed (event_audit env rq ''event.create'' event [] s2)"
      using run unfolding create_event_action_def by (simp add: cf s1 t Let_def flip: event_def)
    ultimately show ?thesis by (simp add: recorded_def audit_simps)
  qed
  show "edit_event_action cfg env rq e form (d, st) = (r, d', st') \<Longrightarrow> (d', st') \<noteq> (d, st) \<Longrightarrow> recorded rq ''event.update'' d d'"
    by (auto simp: edit_event_action_def Let_def recorded_def audit_simps
        dest!: event_writes_audit change split: sum.splits option.splits prod.splits if_splits)
  show "delete_event_action cfg env rq e d = (r, d') \<Longrightarrow> d' \<noteq> d \<Longrightarrow> recorded rq ''event.delete'' d d'"
    using photo_deletions_audit(2)[OF a]
    by (auto simp: delete_event_action_def Let_def recorded_def audit_simps delete_event_audit[OF a]
        split: option.splits prod.splits) (metis snd_conv open_session_simps(3))+
qed

lemma participant_routes_recorded:
  assumes "undisturbed env"
  shows "upload_participants_action cfg env rq e f d = (r, d') \<Longrightarrow> d' \<noteq> d \<Longrightarrow> recorded rq ''participant.import'' d d'"
    and "add_participant_action env rq e bib name d = (r, d') \<Longrightarrow> d' \<noteq> d \<Longrightarrow> recorded rq ''participant.create'' d d'"
    and "update_participant_action env rq e p bib name d = (r, d') \<Longrightarrow> d' \<noteq> d \<Longrightarrow> recorded rq ''participant.update'' d d'"
    and "delete_participant_action cfg env rq e p d = (r, d') \<Longrightarrow> d' \<noteq> d \<Longrightarrow> recorded rq ''participant.delete'' d d'"
    and "delete_all_participants_action cfg env rq e d = (r, d') \<Longrightarrow> d' \<noteq> d \<Longrightarrow> recorded rq ''participant.delete_all'' d d'"
proof -
  have a: "alone (ad_deletion env n)" for n using assms by (simp add: undisturbed_def)
  have import: "audit_rows (live s') = audit_rows d"
    if "import_participant_records cfg fe now ids ev file_name content (open_session d) = Inr (res, s')" for fe now ids ev file_name content res s'
    using that by (auto simp: import_participant_records_def dest!: participant_writes_audit(3) split: sum.splits prod.splits)
  show "upload_participants_action cfg env rq e f d = (r, d') \<Longrightarrow> d' \<noteq> d \<Longrightarrow> recorded rq ''participant.import'' d d'"
    by (auto simp: upload_participants_action_def Let_def recorded_def audit_simps
        dest!: import split: sum.splits option.splits prod.splits if_splits exn.splits)
  show "add_participant_action env rq e bib name d = (r, d') \<Longrightarrow> d' \<noteq> d \<Longrightarrow> recorded rq ''participant.create'' d d'"
    by (auto simp: add_participant_action_def recorded_def audit_simps
        dest!: participant_writes_audit split: sum.splits option.splits exn.splits)
  show "update_participant_action env rq e p bib name d = (r, d') \<Longrightarrow> d' \<noteq> d \<Longrightarrow> recorded rq ''participant.update'' d d'"
    by (auto simp: update_participant_action_def recorded_def audit_simps
        dest!: participant_writes_audit split: sum.splits option.splits prod.splits exn.splits)
  show "delete_participant_action cfg env rq e p d = (r, d') \<Longrightarrow> d' \<noteq> d \<Longrightarrow> recorded rq ''participant.delete'' d d'"
    by (auto simp: delete_participant_action_def recorded_def audit_simps participant_deletions_audit[OF a]
        split: option.splits prod.splits)
  show "delete_all_participants_action cfg env rq e d = (r, d') \<Longrightarrow> d' \<noteq> d \<Longrightarrow> recorded rq ''participant.delete_all'' d d'"
    using participant_deletions_audit(2)[OF a]
    by (auto simp: delete_all_participants_action_def recorded_def audit_simps
        split: option.splits prod.splits) (metis snd_conv open_session_simps(3))+
qed

lemma photo_routes_recorded:
  assumes "undisturbed env"
  shows "delete_photo_action cfg env rq e p d = (r, d') \<Longrightarrow> d' \<noteq> d \<Longrightarrow> recorded rq ''photo.delete'' d d'"
    and "delete_all_event_photos_action cfg env rq e d = (r, d') \<Longrightarrow> d' \<noteq> d \<Longrightarrow> recorded rq ''photo.delete_all'' d d'"
proof -
  have a: "alone (ad_deletion env n)" for n using assms by (simp add: undisturbed_def)
  show "delete_photo_action cfg env rq e p d = (r, d') \<Longrightarrow> d' \<noteq> d \<Longrightarrow> recorded rq ''photo.delete'' d d'"
    by (auto simp: delete_photo_action_def recorded_def audit_simps photo_deletions_audit[OF a] split: option.splits)
  show "delete_all_event_photos_action cfg env rq e d = (r, d') \<Longrightarrow> d' \<noteq> d \<Longrightarrow> recorded rq ''photo.delete_all'' d d'"
    using photo_deletions_audit(2)[OF a]
    by (auto simp: delete_all_event_photos_action_def recorded_def audit_simps
        split: option.splits prod.splits) (metis snd_conv open_session_simps(3))+
qed

lemma admin_route_recorded:
  assumes "undisturbed env" "snd (admin_route cfg env rq c w) \<noteq> w"
  shows "recorded rq (command_action c) (fst w) (fst (snd (admin_route cfg env rq c w)))"
proof -
  obtain d st where w: "w = (d, st)" by fastforce
  obtain r d' st' where run: "admin_route cfg env rq c w = (r, d', st')" by (metis prod_cases3)
  have "(d', st') \<noteq> (d, st)" using assms(2) w run by simp
  then have "recorded rq (command_action c) d d'"
    using run w event_routes_recorded[OF assms(1)] participant_routes_recorded[OF assms(1)] photo_routes_recorded[OF assms(1)]
    by (cases c) (simp_all add: on_db_def split: prod.splits)
  then show ?thesis using run by (simp add: w)
qed

subsection \<open>Runs of commands\<close>

text \<open>The commands of a run that changed something.\<close>

fun effective :: "('c \<Rightarrow> 'w \<Rightarrow> 'w) \<Rightarrow> 'c list \<Rightarrow> 'w \<Rightarrow> 'c list" where
  "effective step [] w = []"
| "effective step (c # cs) w = (if step c w = w then effective step cs w else c # effective step cs (step c w))"

text \<open>Operations that are logged whenever they change something: the log of a run is the list of its effective steps.\<close>

locale audited_steps =
  fixes step :: "'c \<Rightarrow> 'w \<Rightarrow> 'w" and trail :: "'w \<Rightarrow> 'a list" and entry :: "'c \<Rightarrow> 'a" and admissible :: "'c \<Rightarrow> bool"
  assumes logged: "admissible c \<Longrightarrow> step c w \<noteq> w \<Longrightarrow> trail (step c w) = trail w @ [entry c]"
begin

lemma trail_of_run:
  assumes "\<And>c. c \<in> set cs \<Longrightarrow> admissible c"
  shows "trail (fold step cs w) = trail w @ map entry (effective step cs w)"
  using assms
proof (induction cs arbitrary: w)
  case (Cons c cs)
  show ?case using Cons.IH Cons.prems logged[of c w] by (cases "step c w = w") simp_all
qed simp

lemma trail_grows:
  assumes "\<And>c. c \<in> set cs \<Longrightarrow> admissible c"
  shows "prefix (trail w) (trail (fold step cs w))"
  by (simp add: trail_of_run[OF assms])

end

definition admin_step :: "settings \<Rightarrow> admin_env \<times> request \<times> admin_command \<Rightarrow> db \<times> storage \<Rightarrow> db \<times> storage" where
  "admin_step cfg run w = (case run of (env, rq, c) \<Rightarrow> snd (admin_route cfg env rq c w))"

definition run_entry :: "admin_env \<times> request \<times> admin_command \<Rightarrow> str \<times> str option" where
  "run_entry run = (case run of (env, rq, c) \<Rightarrow> (command_action c, actor rq))"

interpretation admin_trail: audited_steps "admin_step cfg" "\<lambda>w. map who (audit_rows (fst w))" run_entry "\<lambda>run. undisturbed (fst run)"
proof unfold_locales
  fix c :: "admin_env \<times> request \<times> admin_command" and w
  obtain env rq cmd where c: "c = (env, rq, cmd)" by (metis prod_cases3)
  assume "undisturbed (fst c)" "admin_step cfg c w \<noteq> w"
  then show "map who (audit_rows (fst (admin_step cfg c w))) = map who (audit_rows (fst w)) @ [run_entry c]"
    using admin_route_recorded[of env cfg rq cmd w] by (simp add: c admin_step_def run_entry_def recorded_def)
qed

text \<open>C13 (invariant): the audit log.  Whatever commands administrators give, the log grows by exactly one row for each
  command that changed anything, the database or the stored objects, in their order, and each row names the action and
  the administrator that asked for it.\<close>

theorem audit_trail_complete:
  assumes "\<forall>(env, rq, c) \<in> set runs. undisturbed env"
  shows "map who (audit_rows (fst (fold (admin_step cfg) runs w))) = map who (audit_rows (fst w)) @
    map (\<lambda>(env, rq, c). (command_action c, actor rq)) (effective (admin_step cfg) runs w)"
proof -
  have "undisturbed (fst run)" if "run \<in> set runs" for run using assms that by (cases run) auto
  moreover have "run_entry = (\<lambda>(env, rq, c). (command_action c, actor rq))" by (auto simp: run_entry_def fun_eq_iff)
  ultimately show ?thesis using admin_trail.trail_of_run[of runs cfg w] by simp
qed

theorem audit_trail_complete_witness:
  "\<forall>env. map who (audit_rows (fst (fold (admin_step default_settings)
      [(env\<lparr>ad_deletion := \<lambda>_. demo_deletion\<rparr>, admin_post, DeleteAllPhotos (uuid_str 1)),
       (env\<lparr>ad_deletion := \<lambda>_. demo_deletion\<rparr>, admin_post, DeletePhoto (uuid_str 2) ''x'')]
      (empty_db\<lparr>events := [demo_event]\<rparr>, Map.empty)))) = [(''photo.delete_all'', Some ''unknown'')]"
proof
  fix env :: admin_env
  let ?env = "env\<lparr>ad_deletion := \<lambda>_. demo_deletion\<rparr>"
  let ?runs = "[(?env, admin_post, DeleteAllPhotos (uuid_str 1)), (?env, admin_post, DeletePhoto (uuid_str 2) ''x'')]"
  let ?w = "(empty_db\<lparr>events := [demo_event]\<rparr>, Map.empty)"
  let ?w1 = "admin_step default_settings (hd ?runs) ?w"
  have u: "\<forall>(env, rq, c) \<in> set ?runs. undisturbed env" by (simp add: undisturbed_def alone_def demo_deletion_def)
  have w1: "events (fst ?w1) = [demo_event]" "audit_rows (fst ?w1) \<noteq> []"
    by (simp_all add: admin_step_def on_db_def delete_all_event_photos_action_def get_event_def demo_event_def empty_db_def
        delete_all_event_photos_def event_photos_def cleanup_photo_identity_data_def run_outbox_def
        process_object_deletions_def bury_lost_def batch_def order_limit_def rebuilt_def event_audit_def
        append_admin_audit_def Let_def)
  then have changed: "?w1 \<noteq> ?w" by (auto simp: empty_db_def)
  have same: "admin_step default_settings (?runs ! 1) ?w1 = ?w1"
    using w1(1) by (cases ?w1) (simp add: admin_step_def on_db_def delete_photo_action_def get_event_def demo_event_def)
  have "effective (admin_step default_settings) ?runs ?w = [hd ?runs]" using changed same by simp
  with audit_trail_complete[OF u, of default_settings ?w]
  show "map who (audit_rows (fst (fold (admin_step default_settings) ?runs ?w))) = [(''photo.delete_all'', Some ''unknown'')]"
    by (simp add: empty_db_def actor_def admin_post_def header_def cookie_def)
qed

end
