(* ===== verification/EventRemovalFacts.thy ===== *)
theory EventRemovalFacts
  imports AdminRoutes RebuildFacts ListingFacts ThumbnailFacts
begin

text \<open>
  What deleting an event promises.  The route runs the outbox twice, once after the photos and once after the
  event, so an object asked to be deleted must stay tracked over the second run as well.
\<close>

section \<open>Objects tracked by the outbox\<close>

text \<open>A task for the key exists, and it is completed only if a deletion of the object returned.\<close>

definition tracked :: "bool \<Rightarrow> str \<Rightarrow> db \<Rightarrow> bool" where
  "tracked returned k d \<longleftrightarrow> (\<exists>t \<in> set (deletion_tasks d). dt_object_key t = k \<and>
     (dt_status t = TaskCompleted \<longrightarrow> returned))"

lemma tracked_pending: "pending_or_deleted env k d = tracked (\<exists>n. de_outcome env n k = None) k d"
  by (simp add: pending_or_deleted_def tracked_def)

lemma requested_tracked: "requested k d \<Longrightarrow> tracked False k d"
  unfolding requested_def tracked_def using row_at_Some_iff by fastforce

lemma tracked_mono: "tracked a k d \<Longrightarrow> (a \<Longrightarrow> b) \<Longrightarrow> tracked b k d"
  by (auto simp: tracked_def)

lemma enqueue_tracked: "tracked b k d \<Longrightarrow> tracked b k (enqueue_object_deletion now i k' d)"
proof (cases "\<exists>key. k' = Some key \<and> key \<noteq> []")
  case True
  then obtain key where k': "k' = Some key" "key \<noteq> []" by blast
  assume "tracked b k d"
  then obtain t where t: "t \<in> set (deletion_tasks d)" "dt_object_key t = k" "dt_status t = TaskCompleted \<longrightarrow> b"
    by (auto simp: tracked_def)
  let ?u = "if dt_object_key t = key then merge_task t (new_task now i key) else t"
  have "?u \<in> set (deletion_tasks (enqueue_object_deletion now i k' d))"
    using t(1) k' by (force simp: enqueue_object_deletion_def upsert_def new_task_def update_where_iff)
  moreover have "dt_object_key ?u = k" "dt_status ?u = TaskCompleted \<longrightarrow> b"
    using t by (simp_all add: merge_task_def requeue_def)
  ultimately show ?thesis unfolding tracked_def by blast
next
  case False
  then show "tracked b k d \<Longrightarrow> ?thesis" by (auto simp: enqueue_object_deletion_def split: option.splits)
qed

lemma enqueue_keys_tracked: "tracked b k d \<Longrightarrow> tracked b k (enqueue_keys now ids ks d)"
  unfolding enqueue_keys_def by (induction ks arbitrary: d) (simp_all add: enqueue_tracked)

lemma run_outbox_tracked:
  assumes "alone env" "distinct (map dt_id (deletion_tasks (committed s)))" "tracked b k (committed s)"
  shows "tracked (b \<or> (\<exists>n. de_outcome env n k = None)) k (committed (run_outbox cfg env limit s))"
proof -
  obtain t where t: "t \<in> set (deletion_tasks (committed s))" "dt_object_key t = k" "dt_status t = TaskCompleted \<longrightarrow> b"
    using assms(3) by (auto simp: tracked_def)
  obtain c f d' where p: "process_object_deletions cfg env (Some limit) (committed s) = ((c, f), d')"
    by (metis prod.collapse)
  have "row_at dt_id (dt_id t) (deletion_tasks (committed s)) = Some t" using row_at_unique[OF assms(2) t(1)] .
  from process_outcome(2)[OF assms(1,2) p this] obtain t' where
    t': "row_at dt_id (dt_id t) (deletion_tasks d') = Some t'" "outbox_step env t t'" by blast
  have "t' \<in> set (deletion_tasks d')" using t'(1) row_at_Some_iff by fastforce
  moreover have "dt_object_key t' = k" using outbox_step_key[OF t'(2)] t(2) by simp
  moreover have "dt_status t' = TaskCompleted \<Longrightarrow> b \<or> (\<exists>n. de_outcome env n k = None)"
    using outbox_step_completed[OF t'(2)] t(2,3) by auto
  ultimately show ?thesis unfolding tracked_def by (auto simp: run_outbox_def p)
qed

subsection \<open>A run keeps the ids and keys of the tasks\<close>

definition task_keys :: "db \<Rightarrow> (uuid \<times> str) list" where
  "task_keys d = map (\<lambda>t. (dt_id t, dt_object_key t)) (deletion_tasks d)"

lemma update_task_keys:
  assumes "\<And>t. dt_id (f t) = dt_id t" "\<And>t. dt_object_key (f t) = dt_object_key t"
  shows "task_keys (update_task i f d) = task_keys d"
  unfolding task_keys_def update_task_def using assms by (simp add: update_where_key)

lemma claim_tasks_keys: "claim_tasks env n ts d = (attempts, d') \<Longrightarrow> task_keys d' = task_keys d"
  by (induction env n ts d arbitrary: attempts d' rule: claim_tasks.induct)
    (auto simp: update_task_keys split: prod.splits)

lemma replace_task_keys:
  assumes "distinct (map fst (task_keys d))" "row_at dt_id i (deletion_tasks d) = Some t"
    and "dt_id u = dt_id t" "dt_object_key u = dt_object_key t"
  shows "task_keys (update_task i (\<lambda>_. u) d) = task_keys d"
proof -
  have dist: "distinct (map dt_id (deletion_tasks d))" using assms(1) by (simp add: task_keys_def comp_def)
  have same: "r = t" if "r \<in> set (deletion_tasks d)" "dt_id r = i" for r
    using row_at_unique[OF dist that(1)] that(2) assms(2) by simp
  have "map (\<lambda>t. (dt_id t, dt_object_key t)) (update_where (\<lambda>r. dt_id r = i) (\<lambda>_. u) rows) =
      map (\<lambda>t. (dt_id t, dt_object_key t)) rows" if "\<forall>r \<in> set rows. dt_id r = i \<longrightarrow> r = t" for rows
    using that assms(3,4) by (induction rows) auto
  then show ?thesis using same by (simp add: task_keys_def update_task_def)
qed

lemma delete_loop_keys:
  assumes "alone env" "distinct (map fst (task_keys d))"
  shows "task_keys (snd (delete_loop env n attempts c f d)) = task_keys d"
  using assms(2)
proof (induction attempts arbitrary: n c f d)
  case (Cons x attempts)
  obtain i a where x: "x = (i, a)" by (cases x)
  have others: "de_others env n d = d" for n d using assms(1) by (simp add: alone_def)
  have ids: "dt_object_key (failed_task now name t) = dt_object_key t" "dt_object_key (completed_task now t) = dt_object_key t"
    for now name t by (simp_all add: failed_task_def completed_task_def Let_def)
  show ?case
    using Cons.IH Cons.prems replace_task_keys[OF Cons.prems]
    by (auto simp: x others ids split: option.splits)
qed simp

lemma run_outbox_ids_fit:
  assumes "alone env" "ids_fit ids K (committed s)"
  shows "ids_fit ids K (committed (run_outbox cfg env limit s))"
proof -
  let ?d = "committed s"
  obtain attempts d2 where c: "claim_tasks env 0 (batch cfg env (Some limit) (bury_lost env ?d)) (bury_lost env ?d) = (attempts, d2)"
    by (metis surj_pair)
  have "task_keys (bury_lost env ?d) = task_keys ?d"
    unfolding task_keys_def bury_lost_def by (simp add: update_where_key bury_task_def)
  with claim_tasks_keys[OF c] have k2: "task_keys d2 = task_keys ?d" by simp
  have fst: "map fst (task_keys ?d) = map dt_id (deletion_tasks ?d)" for d by (simp add: task_keys_def comp_def)
  have "distinct (map fst (task_keys d2))" using assms(2) by (simp add: k2 fst ids_fit_def)
  from delete_loop_keys[OF assms(1) this] have keys: "task_keys (committed (run_outbox cfg env limit s)) = task_keys ?d"
    by (simp add: run_outbox_def process_object_deletions_def c k2)
  have "ids_fit ids K d' \<longleftrightarrow> inj_on ids K \<and> distinct (map fst (task_keys d')) \<and>
      (\<forall>(i, key) \<in> set (task_keys d'). \<forall>k \<in> K. i = ids k \<longrightarrow> key = k)" for d'
    by (auto simp: ids_fit_def task_keys_def comp_def)
  then show ?thesis using assms(2) keys by simp
qed

section \<open>The rows of an event\<close>

text \<open>No row of the event is left, and the rows of the other events stay in the tables that hold data of their own.\<close>

definition event_erased :: "uuid \<Rightarrow> db \<Rightarrow> db \<Rightarrow> bool" where
  "event_erased i d d' \<longleftrightarrow>
     events d' = filter (\<lambda>e. ev_id e \<noteq> i) (events d) \<and>
     participants d' = filter (\<lambda>p. pa_event_id p \<noteq> i) (participants d) \<and>
     photos d' = filter (\<lambda>p. ph_event_id p \<noteq> i) (photos d) \<and>
     face_images d' = filter (\<lambda>f. fi_event_id f \<noteq> i) (face_images d) \<and>
     search_sessions d' = filter (\<lambda>x. fs_event_id x \<noteq> i) (search_sessions d) \<and>
     (\<forall>p \<in> set (event_photos d i).
        (\<forall>j \<in> set (photo_jobs d'). parent_photo (j_parent j) \<noteq> Some (ph_id p)) \<and>
        (\<forall>t \<in> set (text_detections d'). td_photo_id t \<noteq> ph_id p)) \<and>
     (\<forall>m \<in> set (photo_matches d'). pm_event_id m \<noteq> i) \<and>
     (\<forall>e \<in> set (face_embeddings d'). fe_event_id e \<noteq> i) \<and>
     (\<forall>j \<in> set (participant_face_jobs d'). \<forall>p f. j_parent j \<noteq> OfFaceImage i p f) \<and>
     (\<forall>f \<in> set (face_detections d'). fd_event_id f \<noteq> i) \<and>
     (\<forall>m \<in> set (face_matches d'). fm_event_id m \<noteq> i) \<and>
     (\<forall>x \<in> set (search_images d'). si_event_id x \<noteq> i) \<and>
     (\<forall>j \<in> set (face_search_jobs d'). \<forall>x f. j_parent j \<noteq> OfSearch i x f) \<and>
     (\<forall>r \<in> set (search_results d'). sr_event_id r \<noteq> i) \<and>
     (\<forall>a \<in> set (audit_rows d'). al_event_id a \<noteq> Some i)"

text \<open>What the first step, deleting the photos, leaves alone.\<close>

definition same_people :: "db \<Rightarrow> db \<Rightarrow> bool" where
  "same_people d d' \<longleftrightarrow> events d' = events d \<and> participants d' = participants d \<and> face_images d' = face_images d \<and>
     search_sessions d' = search_sessions d \<and> search_images d' = search_images d"

lemma same_people_trans: "same_people a b \<Longrightarrow> same_people b c \<Longrightarrow> same_people a c"
  by (simp add: same_people_def)

lemma enqueue_people: "same_people d (enqueue_object_deletion now i k d)"
  by (simp add: same_people_def enqueue_object_deletion_def split: option.splits)

lemma photo_deletion_people:
  assumes "alone env"
  shows "same_people d (committed (snd (delete_all_event_photos cfg env now ids e (open_session d))))"
proof -
  have cleanup: "same_people (live s) (live (cleanup_photo_identity_data is s))" for "is" s
    by (simp add: cleanup_photo_identity_data_def Let_def same_people_def)
  have discard: "same_people (live s) (live (discard_photo now ids s p))" for s p
  proof -
    have "same_people d (remove_photo i d)" for i d by (simp add: same_people_def remove_photo_def)
    then show ?thesis unfolding discard_live using enqueue_people same_people_trans by blast
  qed
  have discards: "same_people (live s) (live (foldl (discard_photo now ids) s ps))" for s ps
  proof (induction ps arbitrary: s)
    case (Cons p ps)
    then show ?case using discard same_people_trans by fastforce
  qed (simp add: same_people_def)
  obtain s1 :: session and limit where s1: "snd (delete_all_event_photos cfg env now ids e (open_session d)) = run_outbox cfg env limit s1"
      "committed s1 = live (foldl (discard_photo now ids) (cleanup_photo_identity_data (map ph_id (event_photos d e)) (open_session d)) (event_photos d e))"
    unfolding delete_all_event_photos_def Let_def by fastforce
  have "same_people d (committed s1)"
    unfolding s1(2) using cleanup[of "open_session d"] discards same_people_trans by fastforce
  moreover obtain ts where "committed (run_outbox cfg env limit s1) = (committed s1)\<lparr>deletion_tasks := ts\<rparr>"
    using run_outbox_frame[OF assms] by blast
  ultimately show ?thesis by (simp add: s1(1) same_people_def)
qed

lemma removed_event:
  assumes "same_people d d1" "without_photos (ph_id ` set (event_photos d i)) d d1" "distinct (map ph_id (photos d))"
    and "d' = (remove_event i d1)\<lparr>deletion_tasks := ts\<rparr>"
  shows "event_erased i d d'"
proof -
  let ?I = "ph_id ` set (event_photos d i)"
  have "ph_id p \<notin> ?I \<longleftrightarrow> ph_event_id p \<noteq> i" if "p \<in> set (photos d)" for p
    using that assms(3) by (auto simp: event_photos_def distinct_map dest: inj_onD)
  then have "photos d1 = filter (\<lambda>p. ph_event_id p \<noteq> i) (photos d)"
    using assms(2) by (auto simp: without_photos_def cong: filter_cong)
  moreover have "audit_rows (remove_event i d1) =
      update_where (\<lambda>a. al_event_id a = Some i) (\<lambda>a. a\<lparr>al_event_id := None\<rparr>) (audit_rows d1)"
    by (simp add: remove_event_def Let_def)
  moreover have "a \<in> set (update_where (\<lambda>a. al_event_id a = Some i) (\<lambda>a. a\<lparr>al_event_id := None\<rparr>) rows) \<Longrightarrow>
      al_event_id a \<noteq> Some i" for a rows
    by (induction rows) (auto split: if_splits)
  ultimately have "\<forall>a \<in> set (audit_rows (remove_event i d1)). al_event_id a \<noteq> Some i" by auto
  moreover note \<open>photos d1 = _\<close>
  ultimately show ?thesis using assms(1) assms(2)[unfolded without_photos_def, THEN conjunct2]
    unfolding event_erased_def assms(4)
    by (auto simp: remove_event_def Let_def same_people_def event_photos_def
        split: job_parent.splits)
qed

section \<open>The route\<close>

text \<open>The keys under which the event stores objects.\<close>

definition event_keys :: "db \<Rightarrow> event \<Rightarrow> str set" where
  "event_keys d event = photo_keys (event_photos d (ev_id event)) \<union>
     {k. k \<noteq> [] \<and> ((\<exists>i \<in> set (search_images d). si_event_id i = ev_id event \<and> si_object_key i = k) \<or>
        (\<exists>f \<in> set (face_images d). fi_event_id f = ev_id event \<and> fi_object_key f = k) \<or>
        ev_thumbnail_object_key event = Some k)}"

lemma event_keys_split: "event_keys d event =
    photo_keys (event_photos d (ev_id event)) \<union> (set (event_object_keys d event) - {[]})"
  by (auto simp: event_keys_def event_object_keys_def split: option.splits if_splits)

lemma remove_event_keeps:
  "deletion_tasks (remove_event i d) = deletion_tasks d"
  by (simp add: remove_event_def Let_def)

lemma enqueue_keys_fit:
  assumes "ids_fit ids K d" "set ks - {[]} \<subseteq> K"
  shows "ids_fit ids K (enqueue_keys now ids ks d)"
  using assms unfolding enqueue_keys_def
proof (induction ks arbitrary: d)
  case (Cons k ks)
  have "ids_fit ids K (enqueue_object_deletion now (ids k) (Some k) d)"
    by (rule enqueue_ids_fit[OF Cons.prems(1)]) (use Cons.prems(2) in auto)
  then show ?case using Cons.IH Cons.prems(2) by auto
qed simp

lemma enqueue_keys_rows: "\<exists>ts. enqueue_keys now ids ks d = d\<lparr>deletion_tasks := ts\<rparr>"
  unfolding enqueue_keys_def
proof (induction ks arbitrary: d)
  case Nil
  show ?case by (intro exI[of _ "deletion_tasks d"]) simp
next
  case (Cons k ks)
  have "\<exists>us. enqueue_object_deletion now (ids k) (Some k) d = d\<lparr>deletion_tasks := us\<rparr>"
    by (cases "k = []") (auto simp: enqueue_object_deletion_def intro: exI[of _ "deletion_tasks d"])
  then obtain us where us: "enqueue_object_deletion now (ids k) (Some k) d = d\<lparr>deletion_tasks := us\<rparr>" by blast
  obtain ts where "foldl (\<lambda>d k. enqueue_object_deletion now (ids k) (Some k) d) (d\<lparr>deletion_tasks := us\<rparr>) ks =
      d\<lparr>deletion_tasks := us\<rparr>\<lparr>deletion_tasks := ts\<rparr>" using Cons by blast
  then show ?case by (intro exI[of _ ts]) (simp add: us)
qed

text \<open>The second step: the event goes, its own objects are asked for, the tasks of the photos are kept.\<close>

lemma delete_event_outcome:
  assumes "alone env" "ids_fit ids K d1" "set (event_object_keys d1 event) - {[]} \<subseteq> K"
  shows "\<exists>ts. live (delete_event cfg env now ids event (open_session d1)) = (remove_event (ev_id event) d1)\<lparr>deletion_tasks := ts\<rparr>"
    and "k \<in> set (event_object_keys d1 event) - {[]} \<Longrightarrow>
      tracked (\<exists>n. de_outcome env n k = None) k (live (delete_event cfg env now ids event (open_session d1)))"
    and "tracked b k d1 \<Longrightarrow>
      tracked (b \<or> (\<exists>n. de_outcome env n k = None)) k (live (delete_event cfg env now ids event (open_session d1)))"
proof -
  let ?ks = "event_object_keys d1 event"
  define s2 where "s2 = commit (orm (remove_event (ev_id event)) (dml (enqueue_keys now ids ?ks) (open_session d1)))"
  have run: "delete_event cfg env now ids event (open_session d1) =
      run_outbox cfg env (min (int (length ?ks)) (deletion_retry_batch_size cfg)) s2"
    by (simp add: delete_event_def Let_def s2_def)
  have live: "live (run_outbox cfg env l s) = committed (run_outbox cfg env l s)" for l s by (simp add: run_outbox_def)
  have c: "committed s2 = remove_event (ev_id event) (enqueue_keys now ids ?ks d1)" by (simp add: s2_def)
  obtain ts where "enqueue_keys now ids ?ks d1 = d1\<lparr>deletion_tasks := ts\<rparr>" using enqueue_keys_rows by blast
  then have "\<exists>ts. committed s2 = (remove_event (ev_id event) d1)\<lparr>deletion_tasks := ts\<rparr>"
    unfolding c by (intro exI[of _ ts]) (simp add: remove_event_def event_photos_def Let_def)
  with run_outbox_frame[OF assms(1), of cfg _ s2]
  show "\<exists>ts. live (delete_event cfg env now ids event (open_session d1)) = (remove_event (ev_id event) d1)\<lparr>deletion_tasks := ts\<rparr>"
    unfolding run live by fastforce
  have fit: "distinct (map dt_id (deletion_tasks (committed s2)))"
    using enqueue_keys_fit[OF assms(2,3)] unfolding c remove_event_keeps by (simp add: ids_fit_def)
  have keep: "tracked b k (enqueue_keys now ids ?ks d1) \<Longrightarrow>
      tracked (b \<or> (\<exists>n. de_outcome env n k = None)) k (live (delete_event cfg env now ids event (open_session d1)))" for b
    unfolding run live by (rule run_outbox_tracked[OF assms(1) fit]) (simp add: tracked_def c remove_event_keeps)
  show "tracked b k d1 \<Longrightarrow>
      tracked (b \<or> (\<exists>n. de_outcome env n k = None)) k (live (delete_event cfg env now ids event (open_session d1)))"
    by (rule keep[OF enqueue_keys_tracked])
  assume "k \<in> set ?ks - {[]}"
  then have "requested k (enqueue_keys now ids ?ks d1)" by (auto intro: enqueue_keys_requests)
  from keep[OF requested_tracked[OF this]]
  show "tracked (\<exists>n. de_outcome env n k = None) k (live (delete_event cfg env now ids event (open_session d1)))" by simp
qed

text \<open>C20 (safety): deleting an event.  When no other process runs the outbox meanwhile and the ids of its tasks are
  fresh, the route leaves no row of the event, in any table, and no other event loses a row of its own; and each
  object of the event, the two of every photo, every selfie, every searched picture and its thumbnail, has a task in
  the outbox, which is completed only if a deletion of that object returned, in one of the two runs.\<close>

theorem event_deleted_everywhere:
  assumes "get_event d event_id = Some event" "alone (ad_deletion env 0)" "alone (ad_deletion env 1)"
    and "ids_fit (ad_task_ids env) (event_keys d event) d" "distinct (map ph_id (photos d))"
    and "delete_event_action cfg env rq event_id d = (r, d')"
  shows "event_erased (ev_id event) d d' \<and>
    (\<forall>k \<in> event_keys d event. tracked (\<exists>n m. de_outcome (ad_deletion env n) m k = None) k d')"
proof -
  let ?i = "ev_id event" and ?K = "event_keys d event" and ?ids = "ad_task_ids env"
  obtain n s1 where first: "delete_all_event_photos cfg (ad_deletion env 0) (ad_now env 0) ?ids ?i (open_session d) = (n, s1)"
    by fastforce
  have open1: "s1 = open_session (committed s1)"
    using first by (auto simp: delete_all_event_photos_def Let_def run_outbox_def)
  have people: "same_people d (committed s1)"
    using photo_deletion_people[OF assms(2), of d cfg "ad_now env 0" ?ids ?i] first by simp
  then have keys: "event_object_keys (committed s1) event = event_object_keys d event"
    by (simp add: event_object_keys_def same_people_def)
  have sub: "photo_keys (event_photos d ?i) \<subseteq> ?K" "set (event_object_keys (committed s1) event) - {[]} \<subseteq> ?K"
    unfolding keys by (auto simp: event_keys_split)
  define s0 where "s0 = commit (foldl (discard_photo (ad_now env 0) ?ids)
    (cleanup_photo_identity_data (map ph_id (event_photos d ?i)) (open_session d)) (event_photos d ?i))"
  obtain limit where s1: "s1 = run_outbox cfg (ad_deletion env 0) limit s0"
    using first unfolding s0_def by (auto simp: delete_all_event_photos_def Let_def)
  from deletion_outcome[OF assms(2) sub(1) assms(4) s0_def, of cfg limit]
  have photos: "without_photos (ph_id ` set (event_photos d ?i)) d (committed s1)"
    "\<forall>k \<in> photo_keys (event_photos d ?i). tracked (\<exists>n. de_outcome (ad_deletion env 0) n k = None) k (committed s1)"
    by (simp_all add: s1 tracked_pending)
  have "ids_fit ?ids ?K (live (cleanup_photo_identity_data (map ph_id (event_photos d ?i)) (open_session d)))"
    using assms(4) by (simp add: ids_fit_def cleaned_rows flip: cleaned_def)
  from discards_request[OF sub(1) this] have "ids_fit ?ids ?K (committed s0)" by (simp add: s0_def)
  from run_outbox_ids_fit[OF assms(2) this] have fit: "ids_fit ?ids ?K (committed s1)" by (simp add: s1)
  let ?s2 = "delete_event cfg (ad_deletion env 1) (ad_now env 1) ?ids event (open_session (committed s1))"
  note second = delete_event_outcome[OF assms(3) fit sub(2), where cfg = cfg and now = "ad_now env 1"]
  obtain ts where ts: "live ?s2 = (remove_event ?i (committed s1))\<lparr>deletion_tasks := ts\<rparr>" using second(1) by blast
  have d': "d' = (live ?s2)\<lparr>audit_rows := audit_rows (live ?s2) @ [audit_entry rq (ad_request_id env) ''event.delete'' (Some ''event'')
      (Some (uuid_str ?i)) None [(''deleted_photo_count'', JInt n)]]\<rparr>"
    using assms(1,6) first open1 by (auto simp: delete_event_action_def Let_def append_admin_audit_def)
  have "event_erased ?i d (live ?s2)" by (rule removed_event[OF people photos(1) assms(5) ts])
  then have "event_erased ?i d d'" by (auto simp: d' event_erased_def audit_entry_def)
  moreover have "tracked (\<exists>n m. de_outcome (ad_deletion env n) m k = None) k (live ?s2)" if "k \<in> ?K" for k
  proof (cases "k \<in> photo_keys (event_photos d ?i)")
    case True
    from second(3)[OF photos(2)[rule_format, OF this]] show ?thesis by (rule tracked_mono) blast
  next
    case False
    with that have "k \<in> set (event_object_keys (committed s1) event) - {[]}" unfolding keys by (simp add: event_keys_split)
    from second(2)[OF this] show ?thesis by (rule tracked_mono) blast
  qed
  ultimately show ?thesis by (simp add: d' tracked_def)
qed

definition demo_event_db :: db where
  "demo_event_db = empty_db\<lparr>events := [demo_thumbnail_event], photos := [stored_photo]\<rparr>"

theorem event_deleted_everywhere_witness:
  "\<forall>env rq. \<exists>r d'. delete_event_action default_settings (env\<lparr>ad_deletion := \<lambda>_. demo_deletion,
       ad_task_ids := \<lambda>k. if k = ''a'' then 1 else if k = ''b'' then 2 else 3\<rparr>) rq (uuid_str 1) demo_event_db = (r, d') \<and>
     events d' = [] \<and> photos d' = [] \<and> tracked False ''a'' d' \<and> tracked False ''old.jpg'' d'"
proof (intro allI)
  fix env :: admin_env and rq
  let ?ids = "\<lambda>k. if k = ''a'' then 1 else if k = ''b'' then 2 else (3 :: uuid)"
  let ?env = "env\<lparr>ad_deletion := \<lambda>_. demo_deletion, ad_task_ids := ?ids\<rparr>"
  obtain r d' where run: "delete_event_action default_settings ?env rq (uuid_str 1) demo_event_db = (r, d')" by fastforce
  have get: "get_event demo_event_db (uuid_str 1) = Some demo_thumbnail_event"
    by (simp add: get_event_def demo_event_db_def demo_thumbnail_event_def demo_event_def)
  have a: "alone (ad_deletion ?env 0)" "alone (ad_deletion ?env 1)" by (simp_all add: alone_def demo_deletion_def)
  have "event_photos demo_event_db 1 = [stored_photo]"
    by (simp add: event_photos_def demo_event_db_def stored_photo_def)
  moreover have "photo_keys [stored_photo] = {''a'', ''b''}" by (auto simp: photo_keys_def stored_photo_def)
  moreover have "event_object_keys demo_event_db demo_thumbnail_event = [''old.jpg'']"
    by (simp add: event_object_keys_def demo_event_db_def empty_db_def demo_thumbnail_event_def)
  moreover have "ev_id demo_thumbnail_event = 1" by (simp add: demo_thumbnail_event_def demo_event_def)
  ultimately have keys: "event_keys demo_event_db demo_thumbnail_event = {''a'', ''b'', ''old.jpg''}"
    by (auto simp: event_keys_split)
  have fit: "ids_fit (ad_task_ids ?env) (event_keys demo_event_db demo_thumbnail_event) demo_event_db"
    unfolding keys by (simp add: ids_fit_def demo_event_db_def empty_db_def)
  have dist: "distinct (map ph_id (photos demo_event_db))" by (simp add: demo_event_db_def)
  have "ev_id demo_thumbnail_event = 1" by (simp add: demo_thumbnail_event_def demo_event_def)
  with event_deleted_everywhere[OF get a fit dist run]
  have "event_erased 1 demo_event_db d'" "tracked False ''a'' d'" "tracked False ''old.jpg'' d'"
    unfolding keys by (simp_all add: demo_deletion_def)
  then show "\<exists>r d'. delete_event_action default_settings ?env rq (uuid_str 1) demo_event_db = (r, d') \<and>
      events d' = [] \<and> photos d' = [] \<and> tracked False ''a'' d' \<and> tracked False ''old.jpg'' d'"
    using run by (auto simp: event_erased_def demo_event_db_def demo_thumbnail_event_def demo_event_def stored_photo_def)
qed

end
