(* ===== verification/Operations.thy ===== *)
theory Operations
  imports WebAnswers Maintenance
begin

text \<open>
  Watching the service: the gauges of \<^verbatim>\<open>backend/app/metrics.py\<close>, the readiness of \<^verbatim>\<open>backend/app/health.py\<close> with
  the cached probe of \<^verbatim>\<open>backend/app/storage.py\<close>, the counters of \<^verbatim>\<open>backend/app/observability.py\<close>, and the calls of
  the object storage that only read.  The S3 client, Alembic and the Prometheus client are parameters; a
  gauge is a number under its name and labels.
\<close>

section \<open>Gauges\<close>

type_synonym gauges = "str \<times> str list \<rightharpoonup> real"

definition JOB_MODELS :: "(str \<times> job_model) list" where
  "JOB_MODELS = [(''photo'', PhotoJobs), (''participant_face'', ParticipantFaceJobs), (''face_search'', FaceSearchJobs)]"

definition JOB_STATUSES :: "job_status list" where
  "JOB_STATUSES = [Queued, Processing, Completed, Failed, DeadLettered]"

definition WORKER_STATUSES :: "worker_status list" where
  "WORKER_STATUSES = [WorkerIdle, WorkerActive, WorkerDraining]"

definition DELETION_STATUSES :: "task_status list" where
  "DELETION_STATUSES = [TaskQueued, TaskProcessing, TaskCompleted, TaskDeadLettered]"

fun worker_status_label :: "worker_status \<Rightarrow> str" where
  "worker_status_label WorkerIdle = ''idle''"
| "worker_status_label WorkerActive = ''active''"
| "worker_status_label WorkerDraining = ''draining''"

fun task_status_label :: "task_status \<Rightarrow> str" where
  "task_status_label TaskQueued = ''queued''"
| "task_status_label TaskProcessing = ''processing''"
| "task_status_label TaskCompleted = ''completed''"
| "task_status_label TaskDeadLettered = ''dead_lettered''"

definition age_seconds :: "time option \<Rightarrow> time \<Rightarrow> real" where
  "age_seconds value now = (case value of None \<Rightarrow> -1 | Some v \<Rightarrow> max 0 (of_int (now - v) / of_int (seconds 1)))"

definition oldest :: "time list \<Rightarrow> time option" where
  "oldest ts = (if ts = [] then None else Some (Min (set ts)))"

definition latest :: "time list \<Rightarrow> time option" where
  "latest ts = (if ts = [] then None else Some (Max (set ts)))"

definition job_samples :: "db \<Rightarrow> time \<Rightarrow> ((str \<times> str list) \<times> real) list" where
  "job_samples d now = concat (map (\<lambda>(queue_name, m).
      map (\<lambda>s. ((''raceframe_jobs'', [queue_name, job_status_str s]), of_int (count_where (\<lambda>j. j_status j = s) (jobs_of m d))))
        JOB_STATUSES @
      [((''raceframe_oldest_queued_job_seconds'', [queue_name]),
        age_seconds (oldest (map j_created_at (filter (\<lambda>j. j_status j = Queued) (jobs_of m d)))) now)]) JOB_MODELS)"

definition deletion_samples :: "db \<Rightarrow> ((str \<times> str list) \<times> real) list" where
  "deletion_samples d = map (\<lambda>s. ((''raceframe_object_deletion_tasks'', [task_status_label s]),
      of_int (count_where (\<lambda>t. dt_status t = s) (deletion_tasks d)))) DELETION_STATUSES"

definition fresh_heartbeat :: "settings \<Rightarrow> time \<Rightarrow> worker_heartbeat \<Rightarrow> bool" where
  "fresh_heartbeat cfg now h \<longleftrightarrow>
     age_seconds (Some (wh_last_seen_at h)) now \<le> of_int (max 1 (worker_heartbeat_stale_seconds cfg))"

definition worker_samples :: "settings \<Rightarrow> db \<Rightarrow> time \<Rightarrow> ((str \<times> str list) \<times> real) list" where
  "worker_samples cfg d now = concat (map (\<lambda>s.
      [((''raceframe_workers'', [worker_status_label s, ''fresh'']),
         of_int (count_where (\<lambda>h. wh_status h = s \<and> fresh_heartbeat cfg now h) (worker_heartbeats d))),
       ((''raceframe_workers'', [worker_status_label s, ''stale'']),
         of_int (count_where (\<lambda>h. wh_status h = s \<and> \<not> fresh_heartbeat cfg now h) (worker_heartbeats d)))]) WORKER_STATUSES) @
    [((''raceframe_freshest_worker_heartbeat_age_seconds'', []),
       age_seconds (latest (map wh_last_seen_at (worker_heartbeats d))) now)]"

text \<open>The pool as SQLAlchemy reports it; a pool without the method reports nothing.\<close>

record pool_report =
  pool_checkedout :: "int option"
  pool_size :: "int option"

definition pool_samples :: "pool_report \<Rightarrow> ((str \<times> str list) \<times> real) list" where
  "pool_samples pool =
     [((''raceframe_db_pool_checked_out'', []), (case pool_checkedout pool of None \<Rightarrow> 0 | Some n \<Rightarrow> of_int n)),
      ((''raceframe_db_pool_size'', []), (case pool_size pool of None \<Rightarrow> 0 | Some n \<Rightarrow> of_int n))]"

definition refresh_database_metrics :: "settings \<Rightarrow> time \<Rightarrow> pool_report \<Rightarrow> db \<Rightarrow> gauges \<Rightarrow> gauges" where
  "refresh_database_metrics cfg now pool d g = foldl (\<lambda>g (k, v). g(k \<mapsto> v)) g
     (job_samples d now @ deletion_samples d @ worker_samples cfg d now @
      [((''raceframe_expired_face_search_sessions'', []),
        of_int (count_where (\<lambda>s. fs_expires_at s \<le> now) (search_sessions d)))] @
      pool_samples pool)"

definition require_metrics_token :: "settings \<Rightarrow> str \<Rightarrow> unit routed" where
  "require_metrics_token cfg authorization =
    (let expected = metrics_api_token cfg;
         supplied = (if startswith authorization ''Bearer '' then strip (drop (length ''Bearer '') authorization) else [])
     in if expected = [] \<or> supplied = [] \<or> supplied \<noteq> expected
        then Inl (HTTPException 401 ''Valid metrics credentials are required.'', [(''WWW-Authenticate'', ''Bearer'')])
        else Inr ())"

text \<open>\<^verbatim>\<open>generate\<close> writes the gauges down; they keep what was set.\<close>

definition prometheus_metrics :: "settings \<Rightarrow> (gauges \<Rightarrow> str) \<Rightarrow> time \<Rightarrow> pool_report \<Rightarrow> str \<Rightarrow> db \<Rightarrow> gauges \<Rightarrow>
    str routed \<times> gauges" where
  "prometheus_metrics cfg generate now pool authorization d g =
    (case require_metrics_token cfg authorization of
       Inl e \<Rightarrow> (Inl e, g)
     | Inr _ \<Rightarrow> (let g1 = refresh_database_metrics cfg now pool d g in (Inr (generate g1), g1)))"

section \<open>Counting requests\<close>

text \<open>What \<^verbatim>\<open>RequestContextMiddleware\<close> keeps: how many requests of a method and a route ended with a status.\<close>

type_synonym request_counts = "str \<times> str \<times> int \<Rightarrow> nat"

fun status_of :: "web_answer \<Rightarrow> int" where
  "status_of (RedirectAnswer code _ _) = code"
| "status_of (JsonAnswer code _ _) = code"
| "status_of (PageAnswer code _ _) = code"
| "status_of (PhotoZip _ _ _) = 200"
| "status_of (ErrorAnswer code _ _ _) = code"

definition request_context_dispatch :: "str \<Rightarrow> request \<Rightarrow> str option \<Rightarrow> (str \<Rightarrow> 's \<Rightarrow> web_answer result \<times> 's) \<Rightarrow> request_counts \<Rightarrow> 's \<Rightarrow>
    (web_answer \<times> str) result \<times> request_counts \<times> 's" where
  "request_context_dispatch fresh rq route call_next counts w =
    (let request_id = request_id_of fresh rq in
     case call_next request_id w of
       (Inl e, w1) \<Rightarrow> (Inl e, counts, w1)
     | (Inr ans, w1) \<Rightarrow>
         (let path = or_text route ''unmatched'';
              key = (rq_method rq, path, status_of ans)
          in (Inr (ans, request_id),
              if path = ''/internal/metrics'' then counts else counts(key := counts key + 1), w1)))"

section \<open>The object storage\<close>

text \<open>The last probe of the bucket; before the first one the clock reads 0 and the answer is no.  \<^verbatim>\<open>probe\<close> tells
  whether \<^verbatim>\<open>head_bucket\<close> returned; the first component tells whether it was called.\<close>

record storage_health =
  hl_checked_at :: real
  hl_ok :: bool

definition unknown_health :: storage_health where
  "unknown_health = \<lparr>hl_checked_at = 0, hl_ok = False\<rparr>"

definition object_storage_ready :: "int \<Rightarrow> real \<Rightarrow> bool \<Rightarrow> storage_health \<Rightarrow> bool \<times> bool \<times> storage_health" where
  "object_storage_ready cache_seconds now probe h =
    (if now - hl_checked_at h < of_int (max 1 cache_seconds) then (False, hl_ok h, h)
     else (True, probe, \<lparr>hl_checked_at = now, hl_ok = probe\<rparr>))"

text \<open>\<^verbatim>\<open>head_object\<close> returns, or raises with the status of its response, if it has one.\<close>

definition object_exists :: "(str \<Rightarrow> (exn \<times> int option) + unit) \<Rightarrow> str \<Rightarrow> bool result" where
  "object_exists head_object object_key =
    (case head_object object_key of
       Inr _ \<Rightarrow> Inr True
     | Inl (e, status_code) \<Rightarrow> if status_code = Some 404 then Inr False else Inl e)"

text \<open>The keys of the bucket as the pages of the listing give them; an entry may lack its key.\<close>

definition list_r2_keys :: "str option list list \<Rightarrow> str set" where
  "list_r2_keys pages = {k. k \<noteq> [] \<and> (\<exists>page \<in> set pages. Some k \<in> set page)}"

section \<open>Readiness\<close>

text \<open>The revisions Alembic expects and finds.\<close>

definition schema_is_current :: "str set \<Rightarrow> str set \<Rightarrow> bool" where
  "schema_is_current expected_heads current_heads \<longleftrightarrow> expected_heads \<noteq> {} \<and> current_heads = expected_heads"

record ready_env =
  rn_select :: bool
  rn_heads :: "(str set \<times> str set) option"
  rn_clock :: real
  rn_probe :: bool

text \<open>\<^term>\<open>None\<close> for the heads: reading them raised.\<close>

definition application_ready :: "settings \<Rightarrow> ready_env \<Rightarrow> storage_health \<Rightarrow> bool \<times> storage_health" where
  "application_ready cfg env h =
    (if \<not> rn_select env then (False, h)
     else if \<not> is_production cfg then (True, h)
     else
       case rn_heads env of
         None \<Rightarrow> (False, h)
       | Some (expected_heads, current_heads) \<Rightarrow>
           if \<not> schema_is_current expected_heads current_heads then (False, h)
           else (case object_storage_ready 30 (rn_clock env) (rn_probe env) h of (_, ok, h1) \<Rightarrow> (ok, h1)))"

definition status_json :: "str \<Rightarrow> json" where
  "status_json s = JDict [(''status'', JStr s)]"

definition health :: web_answer where
  "health = JsonAnswer 200 (status_json ''ok'') []"

definition readiness :: "settings \<Rightarrow> ready_env \<Rightarrow> storage_health \<Rightarrow> web_answer \<times> storage_health" where
  "readiness cfg env h =
    (case application_ready cfg env h of
       (ok, h1) \<Rightarrow> (if ok then JsonAnswer 200 (status_json ''ready'') [] else JsonAnswer 503 (status_json ''unavailable'') [], h1))"

end
