(* ===== verification/OperationFacts.thy ===== *)
theory OperationFacts
  imports Operations PublicRoutes "HOL-Library.Multiset"
begin

text \<open>
  What watching promises: the gauges account for every row, the bucket is probed no more often than the cache
  allows; and what the public routes promise about events that are not published.
\<close>

section \<open>Gauges\<close>

lemma foldl_gauges: "foldl (\<lambda>g (k, v). g(k \<mapsto> v)) g samples = g ++ map_of (rev samples)"
  by (induction samples arbitrary: g) (auto simp: fun_eq_iff map_add_def split: option.splits)

lemma gauge_of:
  assumes "distinct (map fst samples)" "(k, v) \<in> set samples"
  shows "foldl (\<lambda>g (k, v). g(k \<mapsto> v)) g samples k = Some v"
proof -
  have "map_of (rev samples) k = Some v" using assms by (intro map_of_is_SomeI) (simp_all add: rev_map[symmetric])
  then show ?thesis by (simp add: foldl_gauges map_add_def)
qed

lemma sample_names:
  "map fst (job_samples d now @ deletion_samples d @ worker_samples cfg d now @ expired # pool_samples pool) =
   map fst (job_samples d now) @ map fst (deletion_samples d) @ map fst (worker_samples cfg d now) @ fst expired # map fst (pool_samples pool)"
  by simp

lemma samples_distinct: "distinct (map fst (job_samples d now @ deletion_samples d @ worker_samples cfg d now @
    [((''raceframe_expired_face_search_sessions'', []), v)] @ pool_samples pool))"
  by (simp add: job_samples_def JOB_MODELS_def JOB_STATUSES_def deletion_samples_def DELETION_STATUSES_def
      worker_samples_def WORKER_STATUSES_def pool_samples_def)

lemma count_where_split: "count_where p xs = count_where (\<lambda>x. p x \<and> q x) xs + count_where (\<lambda>x. p x \<and> \<not> q x) xs"
  by (induction xs) (auto simp: count_where_def)

lemma job_statuses_cover: "sum_list (map (\<lambda>s. count_where (\<lambda>j. j_status j = s) js) JOB_STATUSES) = int (length js)"
proof (induction js)
  case (Cons j js)
  then show ?case by (cases "j_status j") (simp_all add: count_where_def JOB_STATUSES_def)
qed (simp add: count_where_def JOB_STATUSES_def)

lemma task_statuses_cover: "sum_list (map (\<lambda>s. count_where (\<lambda>t. dt_status t = s) ts) DELETION_STATUSES) = int (length ts)"
proof (induction ts)
  case (Cons t ts)
  then show ?case by (cases "dt_status t") (simp_all add: count_where_def DELETION_STATUSES_def)
qed (simp add: count_where_def DELETION_STATUSES_def)

lemma worker_statuses_cover:
  "sum_list (map (\<lambda>s. count_where (\<lambda>h. wh_status h = s \<and> q h) hs + count_where (\<lambda>h. wh_status h = s \<and> \<not> q h) hs) WORKER_STATUSES) =
   int (length hs)"
proof (induction hs)
  case (Cons h hs)
  then show ?case by (cases "wh_status h") (simp_all add: count_where_def WORKER_STATUSES_def)
qed (simp add: count_where_def WORKER_STATUSES_def)

text \<open>The number a gauge shows.\<close>

definition shown :: "gauges \<Rightarrow> str \<Rightarrow> str list \<Rightarrow> real" where
  "shown g name labels = (case g (name, labels) of None \<Rightarrow> 0 | Some v \<Rightarrow> v)"

lemma shown_refreshed:
  assumes "((name, labels), v) \<in> set (job_samples d now @ deletion_samples d @ worker_samples cfg d now @
    [((''raceframe_expired_face_search_sessions'', []), of_int (count_where (\<lambda>s. fs_expires_at s \<le> now) (search_sessions d)))] @
    pool_samples pool)"
  shows "shown (refresh_database_metrics cfg now pool d g) name labels = v"
  unfolding shown_def refresh_database_metrics_def by (simp only: gauge_of[OF samples_distinct assms] option.case)

lemma shown_jobs: "(q, m) \<in> set JOB_MODELS \<Longrightarrow>
    shown (refresh_database_metrics cfg now pool d g) ''raceframe_jobs'' [q, job_status_str s] =
    of_int (count_where (\<lambda>j. j_status j = s) (jobs_of m d))"
proof -
  assume q: "(q, m) \<in> set JOB_MODELS"
  have "s \<in> set JOB_STATUSES" by (cases s) (simp_all add: JOB_STATUSES_def)
  then have "((''raceframe_jobs'', [q, job_status_str s]), of_int (count_where (\<lambda>j. j_status j = s) (jobs_of m d))) \<in>
      set (job_samples d now)" using q by (force simp: job_samples_def)
  then show ?thesis by (intro shown_refreshed) simp
qed

lemma shown_tasks: "shown (refresh_database_metrics cfg now pool d g) ''raceframe_object_deletion_tasks'' [task_status_label s] =
    of_int (count_where (\<lambda>t. dt_status t = s) (deletion_tasks d))"
proof -
  have "s \<in> set DELETION_STATUSES" by (cases s) (simp_all add: DELETION_STATUSES_def)
  then have "((''raceframe_object_deletion_tasks'', [task_status_label s]),
      of_int (count_where (\<lambda>t. dt_status t = s) (deletion_tasks d))) \<in> set (deletion_samples d)"
    by (force simp: deletion_samples_def)
  then show ?thesis by (intro shown_refreshed) simp
qed

lemma shown_workers:
  "shown (refresh_database_metrics cfg now pool d g) ''raceframe_workers'' [worker_status_label s, ''fresh''] =
    of_int (count_where (\<lambda>h. wh_status h = s \<and> fresh_heartbeat cfg now h) (worker_heartbeats d))"
  "shown (refresh_database_metrics cfg now pool d g) ''raceframe_workers'' [worker_status_label s, ''stale''] =
    of_int (count_where (\<lambda>h. wh_status h = s \<and> \<not> fresh_heartbeat cfg now h) (worker_heartbeats d))"
proof -
  have "s \<in> set WORKER_STATUSES" by (cases s) (simp_all add: WORKER_STATUSES_def)
  then have "((''raceframe_workers'', [worker_status_label s, ''fresh'']),
      of_int (count_where (\<lambda>h. wh_status h = s \<and> fresh_heartbeat cfg now h) (worker_heartbeats d))) \<in> set (worker_samples cfg d now)"
    "((''raceframe_workers'', [worker_status_label s, ''stale'']),
      of_int (count_where (\<lambda>h. wh_status h = s \<and> \<not> fresh_heartbeat cfg now h) (worker_heartbeats d))) \<in> set (worker_samples cfg d now)"
    by (force simp: worker_samples_def)+
  then show "shown (refresh_database_metrics cfg now pool d g) ''raceframe_workers'' [worker_status_label s, ''fresh''] =
      of_int (count_where (\<lambda>h. wh_status h = s \<and> fresh_heartbeat cfg now h) (worker_heartbeats d))"
    "shown (refresh_database_metrics cfg now pool d g) ''raceframe_workers'' [worker_status_label s, ''stale''] =
      of_int (count_where (\<lambda>h. wh_status h = s \<and> \<not> fresh_heartbeat cfg now h) (worker_heartbeats d))"
    by (intro shown_refreshed, simp)+
qed

lemma sum_list_of_int: "sum_list (map (\<lambda>x. real_of_int (f x)) xs) = real_of_int (sum_list (map f xs))"
  by (induction xs) simp_all

text \<open>The gauges account for every row.  Whatever the gauges showed before, after a scrape the jobs of each queue
  over all statuses, the deletion tasks over all statuses, and the workers over all statuses, fresh and stale together,
  add up to the rows of their tables: none is missed and none is counted twice.\<close>

theorem metrics_account_for_rows:
  "(let g' = refresh_database_metrics cfg now pool d g in
    sum_list (map (\<lambda>s. shown g' ''raceframe_jobs'' [''photo'', job_status_str s]) JOB_STATUSES) = real (length (photo_jobs d)) \<and>
    sum_list (map (\<lambda>s. shown g' ''raceframe_jobs'' [''participant_face'', job_status_str s]) JOB_STATUSES) =
      real (length (participant_face_jobs d)) \<and>
    sum_list (map (\<lambda>s. shown g' ''raceframe_jobs'' [''face_search'', job_status_str s]) JOB_STATUSES) =
      real (length (face_search_jobs d)) \<and>
    sum_list (map (\<lambda>s. shown g' ''raceframe_object_deletion_tasks'' [task_status_label s]) DELETION_STATUSES) =
      real (length (deletion_tasks d)) \<and>
    sum_list (map (\<lambda>s. shown g' ''raceframe_workers'' [worker_status_label s, ''fresh''] +
      shown g' ''raceframe_workers'' [worker_status_label s, ''stale'']) WORKER_STATUSES) = real (length (worker_heartbeats d)))"
proof -
  have m: "(''photo'', PhotoJobs) \<in> set JOB_MODELS" "(''participant_face'', ParticipantFaceJobs) \<in> set JOB_MODELS"
    "(''face_search'', FaceSearchJobs) \<in> set JOB_MODELS" by (simp_all add: JOB_MODELS_def)
  show ?thesis
    unfolding Let_def shown_jobs[OF m(1)] shown_jobs[OF m(2)] shown_jobs[OF m(3)] shown_tasks shown_workers
      of_int_add[symmetric] sum_list_of_int job_statuses_cover task_statuses_cover worker_statuses_cover
    by simp
qed

section \<open>Probing the bucket\<close>

text \<open>The times at which a run of readiness checks called the storage, and what each check answered.\<close>

fun probe_run :: "int \<Rightarrow> (real \<times> bool) list \<Rightarrow> storage_health \<Rightarrow> real list \<times> bool list" where
  "probe_run cache_seconds [] h = ([], [])"
| "probe_run cache_seconds ((now, probe) # checks) h =
    (case object_storage_ready cache_seconds now probe h of
       (probed, ok, h1) \<Rightarrow>
         (case probe_run cache_seconds checks h1 of
            (probed_at, oks) \<Rightarrow> (if probed then now # probed_at else probed_at, ok # oks)))"

lemma probe_times_of: "set (fst (probe_run c checks h)) \<subseteq> fst ` set checks"
proof (induction checks arbitrary: h)
  case (Cons x checks)
  obtain now probe where x: "x = (now, probe)" by fastforce
  show ?case
    using Cons.IH[of h] Cons.IH[of "\<lparr>hl_checked_at = now, hl_ok = probe\<rparr>"]
    by (auto simp: x object_storage_ready_def split: prod.splits)
qed simp

lemma probe_times_after:
  "t \<in> set (fst (probe_run c checks h)) \<Longrightarrow> sorted (map fst checks) \<Longrightarrow> hl_checked_at h + of_int (max 1 c) \<le> t"
proof (induction checks arbitrary: h)
  case (Cons x checks)
  obtain now probe where x: "x = (now, probe)" by fastforce
  have ge: "now \<le> t" if "t \<in> set (fst (probe_run c checks h'))" for h'
  proof -
    have "t \<in> fst ` set checks" using that probe_times_of by blast
    then show ?thesis using Cons.prems(2) by (auto simp: x)
  qed
  show ?case
  proof (cases "now - hl_checked_at h < of_int (max 1 c)")
    case True
    then show ?thesis using Cons by (auto simp: x object_storage_ready_def split: prod.splits)
  next
    case False
    have "t = now \<or> t \<in> set (fst (probe_run c checks \<lparr>hl_checked_at = now, hl_ok = probe\<rparr>))"
      using Cons.prems(1) False by (auto simp: x object_storage_ready_def split: prod.splits)
    then have "now \<le> t" using ge by auto
    then show ?thesis using False by linarith
  qed
qed simp

text \<open>Readiness checks are cheap.  However often readiness is asked, by a clock that does not run back, two calls of
  the storage lie at least the cache time apart, and at least a second; and a check that calls it answers what it found.\<close>

theorem probes_spaced:
  assumes "sorted (map fst checks)"
  shows "sorted_wrt (\<lambda>a b. a + of_int (max 1 cache_seconds) \<le> b) (fst (probe_run cache_seconds checks h)) \<and>
    length (snd (probe_run cache_seconds checks h)) = length checks \<and>
    (\<forall>now probe. of_int (max 1 cache_seconds) \<le> now - hl_checked_at h \<longrightarrow>
       fst (snd (object_storage_ready cache_seconds now probe h)) = probe)"
proof -
  have "sorted_wrt (\<lambda>a b. a + of_int (max 1 cache_seconds) \<le> b) (fst (probe_run cache_seconds checks h)) \<and>
      length (snd (probe_run cache_seconds checks h)) = length checks"
    using assms
  proof (induction checks arbitrary: h)
    case (Cons x checks)
    obtain now probe where x: "x = (now, probe)" by fastforce
    let ?h = "\<lparr>hl_checked_at = now, hl_ok = probe\<rparr>"
    have s: "sorted (map fst checks)" using Cons.prems by simp
    show ?case
    proof (cases "now - hl_checked_at h < of_int (max 1 cache_seconds)")
      case True
      then show ?thesis using Cons.IH[OF s, of h] by (auto simp: x object_storage_ready_def split: prod.splits)
    next
      case False
      have "\<forall>t \<in> set (fst (probe_run cache_seconds checks ?h)). now + of_int (max 1 cache_seconds) \<le> t"
        using probe_times_after[OF _ s, of _ cache_seconds ?h] by auto
      then show ?thesis using Cons.IH[OF s, of ?h] False by (auto simp: x object_storage_ready_def split: prod.splits)
    qed
  qed simp
  then show ?thesis by (simp add: object_storage_ready_def)
qed

theorem probes_spaced_witness:
  "fst (probe_run 30 [(40, True), (50, False), (71, False)] unknown_health) = [40, 71] \<and>
   sorted_wrt (\<lambda>a b. a + of_int (max 1 30) \<le> b) (fst (probe_run 30 [(40, True), (50, False), (71, False)] unknown_health))"
proof -
  have "sorted (map fst [(40 :: real, True), (50, False), (71, False)])" by simp
  from probes_spaced[OF this, THEN conjunct1, of 30 unknown_health] show ?thesis
    by (simp add: unknown_health_def object_storage_ready_def)
qed

section \<open>Events that are not published\<close>

text \<open>C23 (safety): no public route tells anything of an event that is not published.  The listings leave it out; and every
  route that takes the id of an event answers for it as for an id no event has, with \<^verbatim>\<open>404\<close>, before it reads a file,
  counts against a limit or touches the database or the storage.\<close>

theorem drafts_hidden:
  assumes "e \<in> set (events d)" "ev_status e = Draft" "distinct (map ev_id (events d))" "parse_uuid event_id = Some (ev_id e)"
  shows "e \<notin> set (list_published_events d) \<and> e \<notin> ue_event ` set (list_user_events d) \<and>
    user_event_search_page cfg rd query event_id d = Inl (not_found ''Published event not found.'') \<and>
    user_event_results_page cfg rd event_id page d = Inl (not_found ''Published event not found.'') \<and>
    user_event_thumbnail cfg presign event_id d = Inl (not_found ''Event thumbnail not found.'') \<and>
    user_download_photo cfg presign rd event_id photo_id n page d = Inl (not_found ''Published event not found.'') \<and>
    user_download_all_photos cfg rd event_id fuel d = Some (Inl (not_found ''Published event not found.'')) \<and>
    photographer_event_upload_page cfg query event_id d = Inl (not_found ''Published event not found.'') \<and>
    user_upload_selfies_by_search cfg env rq event_id participant_query files (d, st) =
      (Inl (not_found ''Published event not found.''), d, st) \<and>
    user_bib_only_search cfg env rq event_id participant_query d = (Inl (not_found ''Published event not found.''), d) \<and>
    photographer_upload_action cfg env rq event_id files (d, st) = (Inl (not_found ''Published event not found.''), d, st)"
proof -
  have "e' = e" if "e' \<in> set (events d)" "ev_id e' = ev_id e" for e'
    using that assms(1,3) by (auto simp: distinct_map dest: inj_onD)
  then have "find (\<lambda>e'. ev_id e' = ev_id e \<and> ev_status e' = Published) (events d) = None"
    using assms(2) by (metis (mono_tags, lifting) event_status.distinct(1) find_None_iff)
  then have "get_published_event d event_id = None" using assms(4) by (simp add: get_published_event_def)
  then show ?thesis using assms(2)
    by (auto simp: list_published_events_def list_user_events_def user_event_search_page_def user_event_results_page_def
        user_event_thumbnail_def user_download_photo_def user_download_all_photos_def photographer_event_upload_page_def
        user_upload_selfies_by_search_def user_bib_only_search_def photographer_upload_action_def)
qed

definition draft_event :: event where
  "draft_event = \<lparr>ev_id = 0, ev_name = ''Run'', ev_slug = ''run'', ev_date = None, ev_location = None,
     ev_status = Draft, ev_thumbnail_object_key = None, ev_created_at = 0\<rparr>"

theorem drafts_hidden_witness:
  "\<forall>cfg rd. user_event_search_page cfg rd Map.empty (replicate 32 CHR ''0'') (empty_db\<lparr>events := [draft_event]\<rparr>) =
     Inl (not_found ''Published event not found.'')"
proof (intro allI)
  fix cfg rd
  let ?d = "empty_db\<lparr>events := [draft_event]\<rparr>"
  have "parse_uuid (replicate 32 CHR ''0'') = Some 0" by code_simp
  then have i: "parse_uuid (replicate 32 CHR ''0'') = Some (ev_id draft_event)" by (simp add: draft_event_def)
  have p: "draft_event \<in> set (events ?d)" "ev_status draft_event = Draft" "distinct (map ev_id (events ?d))"
    by (simp_all add: draft_event_def)
  show "user_event_search_page cfg rd Map.empty (replicate 32 CHR ''0'') ?d = Inl (not_found ''Published event not found.'')"
    using drafts_hidden[OF p i, THEN conjunct2, THEN conjunct2, THEN conjunct1] .
qed

end
