(* ===== verification/SchemaOps.thy ===== *)
theory SchemaOps
  imports Prelude "HOL-Library.AList"
begin

text \<open>
  A database schema and the operations of Alembic on it, as PostgreSQL runs them; \<^term>\<open>None\<close> is an error, which
  stops a migration.  Rows are not modelled here: a check of rows or an update only needs its table.
  Dropping a column takes the indexes, keys and unique constraints over it along; as the text of a check is not
  parsed, dropping the column of a table counts as an error while a check of that table mentions its name.
\<close>

section \<open>Schemas\<close>

datatype sql_type = SqlUuid | SqlString int | SqlText | SqlInteger | SqlBigInteger | SqlFloat | SqlDate | SqlDateTime | SqlJson

record column =
  co_name :: str
  co_type :: sql_type
  co_nullable :: bool
  co_server_default :: "str option"

definition col :: "str \<Rightarrow> sql_type \<Rightarrow> column" where
  "col n t = \<lparr>co_name = n, co_type = t, co_nullable = False, co_server_default = None\<rparr>"

definition opt :: "str \<Rightarrow> sql_type \<Rightarrow> column" where
  "opt n t = \<lparr>co_name = n, co_type = t, co_nullable = True, co_server_default = None\<rparr>"

text \<open>A foreign key refers to the \<^verbatim>\<open>id\<close> of another table.\<close>

datatype constraint =
    PrimaryKey "str list"
  | Unique "str option" "str list"
  | Check str str
  | ForeignKey "str option" str str str

record index =
  ix_name :: str
  ix_columns :: "str list"
  ix_unique :: bool

definition idx :: "str \<Rightarrow> str list \<Rightarrow> bool \<Rightarrow> index" where
  "idx n cs u = \<lparr>ix_name = n, ix_columns = cs, ix_unique = u\<rparr>"

record table =
  tb_columns :: "column list"
  tb_constraints :: "constraint list"
  tb_indexes :: "index list"

text \<open>A trigger: its name, its table, the columns it watches and the function it runs.\<close>

record trigger =
  tr_name :: str
  tr_table :: str
  tr_columns :: "str list"
  tr_function :: str

record schema =
  sc_tables :: "(str \<times> table) list"
  sc_functions :: "str list"
  sc_triggers :: "trigger list"

definition empty_schema :: schema where
  "empty_schema = \<lparr>sc_tables = [], sc_functions = [], sc_triggers = []\<rparr>"

definition declare_table :: "str \<Rightarrow> column list \<Rightarrow> constraint list \<Rightarrow> index list \<Rightarrow> str \<times> table" where
  "declare_table name cs ks is = (name, \<lparr>tb_columns = cs, tb_constraints = ks, tb_indexes = is\<rparr>)"

section \<open>Operations\<close>

datatype schema_op =
    CreateTable str "column list" "constraint list"
  | DropTable str
  | AddColumn str column
  | DropColumn str str
  | AlterNullable str str bool
  | AlterServerDefault str str "str option"
  | CreateIndex str str "str list" bool
  | DropIndex str str
  | AddConstraint str constraint
  | EnsureForeignKey str str str str str
  | DropConstraint str str
  | DropConstraintIfExists str str
  | CreateFunction str
  | DropFunction str
  | CreateTrigger str str "str list" str
  | DropTrigger str str
  | RejectUnknown str str "str list"
  | RejectRows str
  | UpdateRows str

fun constraint_name :: "constraint \<Rightarrow> str option" where
  "constraint_name (PrimaryKey _) = None"
| "constraint_name (Unique n _) = n"
| "constraint_name (Check n _) = Some n"
| "constraint_name (ForeignKey n _ _ _) = n"

fun constraint_columns :: "constraint \<Rightarrow> str list" where
  "constraint_columns (PrimaryKey cs) = cs"
| "constraint_columns (Unique _ cs) = cs"
| "constraint_columns (Check _ _) = []"
| "constraint_columns (ForeignKey _ c _ _) = [c]"

fun check_mentions :: "str \<Rightarrow> constraint \<Rightarrow> bool" where
  "check_mentions c (Check _ sql) = contains sql c"
| "check_mentions c _ = False"

fun refers_to :: "str \<Rightarrow> constraint \<Rightarrow> bool" where
  "refers_to t (ForeignKey _ _ target _) = (target = t)"
| "refers_to t _ = False"

definition column_names :: "table \<Rightarrow> str list" where
  "column_names t = map co_name (tb_columns t)"

definition has_columns :: "table \<Rightarrow> str list \<Rightarrow> bool" where
  "has_columns t cs \<longleftrightarrow> list_all (\<lambda>c. c \<in> set (column_names t)) cs"

text \<open>A name is used once among the constraints of a table, whose columns must exist.\<close>

definition constraint_fits :: "table \<Rightarrow> constraint \<Rightarrow> bool" where
  "constraint_fits t k \<longleftrightarrow> has_columns t (constraint_columns k) \<and>
     (case constraint_name k of None \<Rightarrow> True | Some n \<Rightarrow> Some n \<notin> set (map constraint_name (tb_constraints t)))"

fun add_constraints :: "table \<Rightarrow> constraint list \<Rightarrow> table option" where
  "add_constraints t [] = Some t"
| "add_constraints t (k # ks) =
     (if constraint_fits t k then add_constraints (t\<lparr>tb_constraints := tb_constraints t @ [k]\<rparr>) ks else None)"

definition alter_column :: "str \<Rightarrow> (column \<Rightarrow> column) \<Rightarrow> table \<Rightarrow> table option" where
  "alter_column c f t = (if c \<in> set (column_names t)
     then Some (t\<lparr>tb_columns := update_where (\<lambda>x. co_name x = c) f (tb_columns t)\<rparr>) else None)"

definition drop_column :: "str \<Rightarrow> table \<Rightarrow> table option" where
  "drop_column c t =
    (if c \<notin> set (column_names t) \<or> list_ex (check_mentions c) (tb_constraints t) then None
     else Some \<lparr>tb_columns = filter (\<lambda>x. co_name x \<noteq> c) (tb_columns t),
       tb_constraints = filter (\<lambda>k. c \<notin> set (constraint_columns k)) (tb_constraints t),
       tb_indexes = filter (\<lambda>i. c \<notin> set (ix_columns i)) (tb_indexes t)\<rparr>)"

definition drop_constraint :: "str \<Rightarrow> table \<Rightarrow> table option" where
  "drop_constraint n t =
    (if Some n \<notin> set (map constraint_name (tb_constraints t)) then None
     else Some (t\<lparr>tb_constraints := filter (\<lambda>k. constraint_name k \<noteq> Some n) (tb_constraints t)\<rparr>))"

definition keyed :: "str \<Rightarrow> table \<Rightarrow> bool" where
  "keyed c t \<longleftrightarrow> list_ex (\<lambda>k. case k of ForeignKey _ c' _ _ \<Rightarrow> c' = c | _ \<Rightarrow> False) (tb_constraints t)"

text \<open>The table an operation is about, and what the operation does to it: \<^term>\<open>None\<close> inside is no table.\<close>

fun op_table :: "schema_op \<Rightarrow> str option" where
  "op_table (CreateTable n _ _) = Some n"
| "op_table (DropTable n) = Some n"
| "op_table (AddColumn n _) = Some n"
| "op_table (DropColumn n _) = Some n"
| "op_table (AlterNullable n _ _) = Some n"
| "op_table (AlterServerDefault n _ _) = Some n"
| "op_table (CreateIndex _ n _ _) = Some n"
| "op_table (DropIndex _ n) = Some n"
| "op_table (AddConstraint n _) = Some n"
| "op_table (EnsureForeignKey _ n _ _ _) = Some n"
| "op_table (DropConstraint _ n) = Some n"
| "op_table (DropConstraintIfExists _ n) = Some n"
| "op_table (CreateFunction _) = None"
| "op_table (DropFunction _) = None"
| "op_table (CreateTrigger _ n _ _) = Some n"
| "op_table (DropTrigger _ n) = Some n"
| "op_table (RejectUnknown n _ _) = Some n"
| "op_table (RejectRows _) = None"
| "op_table (UpdateRows n) = Some n"

fun alter_table :: "schema_op \<Rightarrow> table \<Rightarrow> table option" where
  "alter_table (AddColumn _ c) t =
     (if co_name c \<in> set (column_names t) then None else Some (t\<lparr>tb_columns := tb_columns t @ [c]\<rparr>))"
| "alter_table (DropColumn _ c) t = drop_column c t"
| "alter_table (AlterNullable _ c b) t = alter_column c (\<lambda>x. x\<lparr>co_nullable := b\<rparr>) t"
| "alter_table (AlterServerDefault _ c v) t = alter_column c (\<lambda>x. x\<lparr>co_server_default := v\<rparr>) t"
| "alter_table (CreateIndex n _ cs u) t =
     (if has_columns t cs then Some (t\<lparr>tb_indexes := tb_indexes t @ [idx n cs u]\<rparr>) else None)"
| "alter_table (DropIndex n _) t = (if n \<in> set (map ix_name (tb_indexes t))
     then Some (t\<lparr>tb_indexes := filter (\<lambda>i. ix_name i \<noteq> n) (tb_indexes t)\<rparr>) else None)"
| "alter_table (AddConstraint _ k) t = add_constraints t [k]"
| "alter_table (EnsureForeignKey n _ c target ondelete) t =
     (if keyed c t then Some t else add_constraints t [ForeignKey (Some n) c target ondelete])"
| "alter_table (DropConstraint n _) t = drop_constraint n t"
| "alter_table (DropConstraintIfExists n _) t = (case drop_constraint n t of None \<Rightarrow> Some t | Some t' \<Rightarrow> Some t')"
| "alter_table (CreateTrigger _ _ cs _) t = (if has_columns t cs then Some t else None)"
| "alter_table (RejectUnknown _ c _) t = (if has_columns t [c] then Some t else None)"
| "alter_table _ t = Some t"

fun table_op :: "schema_op \<Rightarrow> table option \<Rightarrow> table option option" where
  "table_op (CreateTable _ cs ks) None = (if distinct (map co_name cs)
     then map_option Some (add_constraints \<lparr>tb_columns = cs, tb_constraints = [], tb_indexes = []\<rparr> ks) else None)"
| "table_op (CreateTable _ _ _) (Some t) = None"
| "table_op (DropTable _) (Some t) = Some None"
| "table_op x (Some t) = map_option Some (alter_table x t)"
| "table_op x None = None"

text \<open>
  What an operation asks of the rest of the schema: the tables its foreign keys refer to, a new index name, no key
  from another table into a dropped one, the function of a trigger.
\<close>

definition index_names :: "schema \<Rightarrow> str list" where
  "index_names s = concat (map (\<lambda>(_, t). map ix_name (tb_indexes t)) (sc_tables s))"

fun op_targets :: "schema_op \<Rightarrow> str list" where
  "op_targets (CreateTable _ _ ks) = concat (map (\<lambda>k. case k of ForeignKey _ _ t _ \<Rightarrow> [t] | _ \<Rightarrow> []) ks)"
| "op_targets (AddConstraint _ k) = (case k of ForeignKey _ _ t _ \<Rightarrow> [t] | _ \<Rightarrow> [])"
| "op_targets (EnsureForeignKey _ _ _ t _) = [t]"
| "op_targets _ = []"

fun op_allowed :: "schema_op \<Rightarrow> schema \<Rightarrow> bool" where
  "op_allowed (CreateIndex n _ _ _) s \<longleftrightarrow> n \<notin> set (index_names s)"
| "op_allowed (DropTable name) s \<longleftrightarrow>
     list_all (\<lambda>(n, t). n = name \<or> \<not> list_ex (refers_to name) (tb_constraints t)) (sc_tables s)"
| "op_allowed (CreateFunction f) s \<longleftrightarrow> f \<notin> set (sc_functions s)"
| "op_allowed (DropFunction f) s \<longleftrightarrow> f \<notin> set (map tr_function (sc_triggers s))"
| "op_allowed (CreateTrigger n name _ f) s \<longleftrightarrow>
     f \<in> set (sc_functions s) \<and> \<not> list_ex (\<lambda>r. tr_name r = n \<and> tr_table r = name) (sc_triggers s)"
| "op_allowed x s \<longleftrightarrow> list_all (\<lambda>t. t \<in> set (map fst (sc_tables s))) (op_targets x)"

fun functions_after :: "schema_op \<Rightarrow> str list \<Rightarrow> str list" where
  "functions_after (CreateFunction f) fs = fs @ [f]"
| "functions_after (DropFunction f) fs = filter (\<lambda>g. g \<noteq> f) fs"
| "functions_after _ fs = fs"

fun triggers_after :: "schema_op \<Rightarrow> trigger list \<Rightarrow> trigger list" where
  "triggers_after (CreateTrigger n name cs f) rs =
     rs @ [\<lparr>tr_name = n, tr_table = name, tr_columns = cs, tr_function = f\<rparr>]"
| "triggers_after (DropTrigger n name) rs = filter (\<lambda>r. \<not> (tr_name r = n \<and> tr_table r = name)) rs"
| "triggers_after (DropTable name) rs = filter (\<lambda>r. tr_table r \<noteq> name) rs"
| "triggers_after _ rs = rs"

fun set_table :: "str \<Rightarrow> table option \<Rightarrow> (str \<times> table) list \<Rightarrow> (str \<times> table) list" where
  "set_table n (Some t) ts = AList.update n t ts"
| "set_table n None ts = AList.delete n ts"

definition apply_op :: "schema_op \<Rightarrow> schema \<Rightarrow> schema option" where
  "apply_op x s =
    (if \<not> op_allowed x s then None
     else case (case op_table x of
                  None \<Rightarrow> Some (sc_tables s)
                | Some n \<Rightarrow> map_option (\<lambda>t. set_table n t (sc_tables s)) (table_op x (map_of (sc_tables s) n))) of
            None \<Rightarrow> None
          | Some ts \<Rightarrow> Some \<lparr>sc_tables = ts, sc_functions = functions_after x (sc_functions s),
              sc_triggers = triggers_after x (sc_triggers s)\<rparr>)"

fun migrate :: "schema_op list \<Rightarrow> schema \<Rightarrow> schema option" where
  "migrate [] s = Some s"
| "migrate (x # xs) s = (case apply_op x s of None \<Rightarrow> None | Some s1 \<Rightarrow> migrate xs s1)"

section \<open>Comparing\<close>

text \<open>The same columns, constraints and indexes, in any order, each once.\<close>

definition same_items :: "'a list \<Rightarrow> 'a list \<Rightarrow> bool" where
  "same_items xs ys \<longleftrightarrow> length xs = length ys \<and> list_all (\<lambda>x. x \<in> set ys) xs \<and> list_all (\<lambda>y. y \<in> set xs) ys"

definition same_table :: "table \<Rightarrow> table \<Rightarrow> bool" where
  "same_table t u \<longleftrightarrow> same_items (tb_columns t) (tb_columns u) \<and> same_items (tb_constraints t) (tb_constraints u) \<and>
     same_items (tb_indexes t) (tb_indexes u)"

definition same_tables :: "schema \<Rightarrow> schema \<Rightarrow> bool" where
  "same_tables s u \<longleftrightarrow> same_items (map fst (sc_tables s)) (map fst (sc_tables u)) \<and>
     list_all (\<lambda>n. case (map_of (sc_tables s) n, map_of (sc_tables u) n) of
         (Some t, Some v) \<Rightarrow> same_table t v | _ \<Rightarrow> False) (map fst (sc_tables s))"

end
