(* ===== verification/Migrations.thy ===== *)
theory Migrations
  imports SchemaOps
begin

text \<open>
  The schema history: the three revisions under \<^verbatim>\<open>backend/migrations/versions\<close> as the operations they run, in
  their order, and the schema that \<^verbatim>\<open>backend/app/models.py\<close> declares.  \<^verbatim>\<open>col\<close> is a column that must be filled and
  \<^verbatim>\<open>opt\<close> one that may be null.  A check of rows stands here with its description; its query is in
  \<^verbatim>\<open>MigrationRows\<close>.
\<close>

definition JOB_TABLES :: "str list" where
  "JOB_TABLES = [''photo_jobs'', ''participant_face_jobs'', ''face_search_jobs'']"

section \<open>Revision 0001\<close>

definition initial_events :: "schema_op list" where
  "initial_events =
    [CreateTable ''events''
     [col ''id'' SqlUuid,
      col ''name'' (SqlString 255),
      col ''slug'' (SqlString 255),
      opt ''event_date'' SqlDate,
      opt ''location'' (SqlString 255),
      col ''status'' (SqlString 32),
      col ''created_at'' SqlDateTime]
     [PrimaryKey [''id'']],
     CreateIndex ''ix_events_slug'' ''events'' [''slug''] True,
     CreateIndex ''ix_events_status'' ''events'' [''status''] False]"

definition initial_admin_session_locks :: "schema_op list" where
  "initial_admin_session_locks =
    [CreateTable ''admin_session_locks''
     [col ''id'' SqlInteger,
      col ''session_id'' (SqlString 128),
      col ''last_seen_at'' SqlDateTime]
     [PrimaryKey [''id'']]]"

definition initial_participants :: "schema_op list" where
  "initial_participants =
    [CreateTable ''participants''
     [col ''id'' SqlUuid,
      col ''event_id'' SqlUuid,
      col ''bib_number'' (SqlString 64),
      col ''full_name'' (SqlString 255),
      col ''created_at'' SqlDateTime]
     [ForeignKey None ''event_id'' ''events'' ''CASCADE'',
      PrimaryKey [''id''],
      Unique (Some ''uq_participants_event_bib_number'') [''event_id'', ''bib_number'']],
     CreateIndex ''ix_participants_event_id'' ''participants'' [''event_id''] False,
     CreateIndex ''ix_participants_full_name'' ''participants'' [''full_name''] False]"

definition initial_photos :: "schema_op list" where
  "initial_photos =
    [CreateTable ''photos''
     [col ''id'' SqlUuid,
      col ''event_id'' SqlUuid,
      col ''original_object_key'' (SqlString 512),
      opt ''thumbnail_object_key'' (SqlString 512),
      col ''file_name'' (SqlString 255),
      col ''content_type'' (SqlString 128),
      col ''file_size'' SqlBigInteger,
      col ''status'' (SqlString 32),
      col ''created_at'' SqlDateTime]
     [ForeignKey None ''event_id'' ''events'' ''CASCADE'',
      PrimaryKey [''id'']],
     CreateIndex ''ix_photos_event_id'' ''photos'' [''event_id''] False,
     CreateIndex ''ix_photos_status'' ''photos'' [''status''] False]"

definition initial_photo_jobs :: "schema_op list" where
  "initial_photo_jobs =
    [CreateTable ''photo_jobs''
     [col ''id'' SqlUuid,
      col ''photo_id'' SqlUuid,
      col ''job_type'' (SqlString 32),
      col ''status'' (SqlString 32),
      col ''attempt_count'' SqlInteger,
      opt ''error_message'' SqlText,
      opt ''raw_response_json'' SqlJson,
      col ''created_at'' SqlDateTime,
      opt ''finished_at'' SqlDateTime]
     [ForeignKey None ''photo_id'' ''photos'' ''CASCADE'',
      PrimaryKey [''id'']],
     CreateIndex ''ix_photo_jobs_photo_id'' ''photo_jobs'' [''photo_id''] False,
     CreateIndex ''ix_photo_jobs_status'' ''photo_jobs'' [''status''] False]"

definition initial_participant_face_images :: "schema_op list" where
  "initial_participant_face_images =
    [CreateTable ''participant_face_images''
     [col ''id'' SqlUuid,
      col ''event_id'' SqlUuid,
      col ''participant_id'' SqlUuid,
      col ''object_key'' (SqlString 512),
      col ''file_name'' (SqlString 255),
      col ''content_type'' (SqlString 128),
      col ''file_size'' SqlBigInteger,
      col ''status'' (SqlString 32),
      opt ''error_message'' SqlText,
      col ''created_at'' SqlDateTime]
     [ForeignKey None ''event_id'' ''events'' ''CASCADE'',
      ForeignKey None ''participant_id'' ''participants'' ''CASCADE'',
      PrimaryKey [''id'']],
     CreateIndex ''ix_participant_face_images_event_id'' ''participant_face_images'' [''event_id''] False,
     CreateIndex ''ix_participant_face_images_participant_id'' ''participant_face_images'' [''participant_id''] False,
     CreateIndex ''ix_participant_face_images_status'' ''participant_face_images'' [''status''] False]"

definition initial_participant_face_jobs :: "schema_op list" where
  "initial_participant_face_jobs =
    [CreateTable ''participant_face_jobs''
     [col ''id'' SqlUuid,
      col ''event_id'' SqlUuid,
      col ''participant_id'' SqlUuid,
      col ''face_image_id'' SqlUuid,
      col ''job_type'' (SqlString 32),
      col ''status'' (SqlString 32),
      col ''attempt_count'' SqlInteger,
      opt ''error_message'' SqlText,
      opt ''raw_response_json'' SqlJson,
      col ''created_at'' SqlDateTime,
      opt ''finished_at'' SqlDateTime]
     [ForeignKey None ''event_id'' ''events'' ''CASCADE'',
      ForeignKey None ''face_image_id'' ''participant_face_images'' ''CASCADE'',
      ForeignKey None ''participant_id'' ''participants'' ''CASCADE'',
      PrimaryKey [''id'']],
     CreateIndex ''ix_participant_face_jobs_event_id'' ''participant_face_jobs'' [''event_id''] False,
     CreateIndex ''ix_participant_face_jobs_face_image_id'' ''participant_face_jobs'' [''face_image_id''] False,
     CreateIndex ''ix_participant_face_jobs_participant_id'' ''participant_face_jobs'' [''participant_id''] False,
     CreateIndex ''ix_participant_face_jobs_status'' ''participant_face_jobs'' [''status''] False]"

definition initial_participant_face_embeddings :: "schema_op list" where
  "initial_participant_face_embeddings =
    [CreateTable ''participant_face_embeddings''
     [col ''id'' SqlUuid,
      col ''event_id'' SqlUuid,
      col ''participant_id'' SqlUuid,
      col ''face_image_id'' SqlUuid,
      col ''embedding_json'' SqlJson,
      opt ''bounding_box_json'' SqlJson,
      opt ''detection_score'' SqlFloat,
      opt ''quality_score'' SqlFloat,
      col ''created_at'' SqlDateTime]
     [ForeignKey None ''event_id'' ''events'' ''CASCADE'',
      ForeignKey None ''face_image_id'' ''participant_face_images'' ''CASCADE'',
      ForeignKey None ''participant_id'' ''participants'' ''CASCADE'',
      PrimaryKey [''id'']],
     CreateIndex ''ix_participant_face_embeddings_event_id'' ''participant_face_embeddings'' [''event_id''] False,
     CreateIndex ''ix_participant_face_embeddings_face_image_id'' ''participant_face_embeddings'' [''face_image_id'']
        False,
     CreateIndex ''ix_participant_face_embeddings_participant_id'' ''participant_face_embeddings''
        [''participant_id''] False]"

definition initial_photo_text_detection :: "schema_op list" where
  "initial_photo_text_detection =
    [CreateTable ''photo_text_detection''
     [col ''id'' SqlUuid,
      col ''photo_id'' SqlUuid,
      col ''photo_job_id'' SqlUuid,
      col ''detected_text'' SqlText,
      col ''normalized_text'' SqlText,
      opt ''confidence'' SqlFloat,
      opt ''bounding_box_json'' SqlJson,
      col ''created_at'' SqlDateTime]
     [ForeignKey None ''photo_id'' ''photos'' ''CASCADE'',
      ForeignKey None ''photo_job_id'' ''photo_jobs'' ''CASCADE'',
      PrimaryKey [''id'']],
     CreateIndex ''ix_photo_text_detection_photo_id'' ''photo_text_detection'' [''photo_id''] False,
     CreateIndex ''ix_photo_text_detection_photo_job_id'' ''photo_text_detection'' [''photo_job_id''] False]"

definition initial_photo_participant_matches :: "schema_op list" where
  "initial_photo_participant_matches =
    [CreateTable ''photo_participant_matches''
     [col ''id'' SqlUuid,
      col ''event_id'' SqlUuid,
      col ''photo_id'' SqlUuid,
      col ''participant_id'' SqlUuid,
      col ''match_source'' (SqlString 32),
      col ''matched_value'' (SqlString 255),
      opt ''confidence'' SqlFloat,
      col ''status'' (SqlString 32),
      col ''created_at'' SqlDateTime]
     [ForeignKey None ''event_id'' ''events'' ''CASCADE'',
      ForeignKey None ''participant_id'' ''participants'' ''CASCADE'',
      ForeignKey None ''photo_id'' ''photos'' ''CASCADE'',
      PrimaryKey [''id''],
      Unique (Some ''uq_photo_participant_matches_photo_participant'') [''photo_id'', ''participant_id'']],
     CreateIndex ''ix_photo_participant_matches_event_id'' ''photo_participant_matches'' [''event_id''] False,
     CreateIndex ''ix_photo_participant_matches_participant_id'' ''photo_participant_matches'' [''participant_id'']
        False,
     CreateIndex ''ix_photo_participant_matches_photo_id'' ''photo_participant_matches'' [''photo_id''] False]"

definition initial_photo_face_detections :: "schema_op list" where
  "initial_photo_face_detections =
    [CreateTable ''photo_face_detections''
     [col ''id'' SqlUuid,
      col ''event_id'' SqlUuid,
      col ''photo_id'' SqlUuid,
      col ''photo_job_id'' SqlUuid,
      col ''face_index'' SqlInteger,
      col ''embedding_json'' SqlJson,
      opt ''bounding_box_json'' SqlJson,
      opt ''detection_score'' SqlFloat,
      opt ''quality_score'' SqlFloat,
      col ''created_at'' SqlDateTime]
     [ForeignKey None ''event_id'' ''events'' ''CASCADE'',
      ForeignKey None ''photo_id'' ''photos'' ''CASCADE'',
      ForeignKey None ''photo_job_id'' ''photo_jobs'' ''CASCADE'',
      PrimaryKey [''id''],
      Unique (Some ''uq_photo_face_detections_job_face_index'') [''photo_job_id'', ''face_index'']],
     CreateIndex ''ix_photo_face_detections_event_id'' ''photo_face_detections'' [''event_id''] False,
     CreateIndex ''ix_photo_face_detections_photo_id'' ''photo_face_detections'' [''photo_id''] False,
     CreateIndex ''ix_photo_face_detections_photo_job_id'' ''photo_face_detections'' [''photo_job_id''] False]"

definition initial_face_participant_matches :: "schema_op list" where
  "initial_face_participant_matches =
    [CreateTable ''face_participant_matches''
     [col ''id'' SqlUuid,
      col ''event_id'' SqlUuid,
      col ''photo_id'' SqlUuid,
      col ''photo_face_detection_id'' SqlUuid,
      col ''participant_id'' SqlUuid,
      col ''similarity_score'' SqlFloat,
      col ''status'' (SqlString 32),
      col ''created_at'' SqlDateTime]
     [ForeignKey None ''event_id'' ''events'' ''CASCADE'',
      ForeignKey None ''participant_id'' ''participants'' ''CASCADE'',
      ForeignKey None ''photo_face_detection_id'' ''photo_face_detections'' ''CASCADE'',
      ForeignKey None ''photo_id'' ''photos'' ''CASCADE'',
      PrimaryKey [''id''],
      Unique (Some ''uq_face_participant_matches_detection_participant'') [''photo_face_detection_id'',
         ''participant_id'']],
     CreateIndex ''ix_face_participant_matches_event_id'' ''face_participant_matches'' [''event_id''] False,
     CreateIndex ''ix_face_participant_matches_participant_id'' ''face_participant_matches'' [''participant_id'']
        False,
     CreateIndex ''ix_face_participant_matches_photo_face_detection_id'' ''face_participant_matches''
        [''photo_face_detection_id''] False,
     CreateIndex ''ix_face_participant_matches_photo_id'' ''face_participant_matches'' [''photo_id''] False]"

definition initial_face_search_sessions :: "schema_op list" where
  "initial_face_search_sessions =
    [CreateTable ''face_search_sessions''
     [col ''id'' SqlUuid,
      col ''event_id'' SqlUuid,
      opt ''participant_id'' SqlUuid,
      col ''status'' (SqlString 32),
      opt ''error_message'' SqlText,
      col ''created_at'' SqlDateTime,
      opt ''finished_at'' SqlDateTime]
     [ForeignKey None ''event_id'' ''events'' ''CASCADE'',
      ForeignKey None ''participant_id'' ''participants'' ''CASCADE'',
      PrimaryKey [''id'']],
     CreateIndex ''ix_face_search_sessions_event_id'' ''face_search_sessions'' [''event_id''] False,
     CreateIndex ''ix_face_search_sessions_participant_id'' ''face_search_sessions'' [''participant_id''] False,
     CreateIndex ''ix_face_search_sessions_status'' ''face_search_sessions'' [''status''] False]"

definition initial_face_search_images :: "schema_op list" where
  "initial_face_search_images =
    [CreateTable ''face_search_images''
     [col ''id'' SqlUuid,
      col ''event_id'' SqlUuid,
      col ''search_session_id'' SqlUuid,
      col ''object_key'' (SqlString 512),
      col ''file_name'' (SqlString 255),
      col ''content_type'' (SqlString 128),
      col ''file_size'' SqlBigInteger,
      col ''status'' (SqlString 32),
      opt ''error_message'' SqlText,
      col ''created_at'' SqlDateTime]
     [ForeignKey None ''event_id'' ''events'' ''CASCADE'',
      ForeignKey None ''search_session_id'' ''face_search_sessions'' ''CASCADE'',
      PrimaryKey [''id'']],
     CreateIndex ''ix_face_search_images_event_id'' ''face_search_images'' [''event_id''] False,
     CreateIndex ''ix_face_search_images_search_session_id'' ''face_search_images'' [''search_session_id''] False,
     CreateIndex ''ix_face_search_images_status'' ''face_search_images'' [''status''] False]"

definition initial_face_search_jobs :: "schema_op list" where
  "initial_face_search_jobs =
    [CreateTable ''face_search_jobs''
     [col ''id'' SqlUuid,
      col ''event_id'' SqlUuid,
      col ''search_session_id'' SqlUuid,
      col ''search_image_id'' SqlUuid,
      col ''job_type'' (SqlString 32),
      col ''status'' (SqlString 32),
      col ''attempt_count'' SqlInteger,
      opt ''error_message'' SqlText,
      opt ''raw_response_json'' SqlJson,
      col ''created_at'' SqlDateTime,
      opt ''finished_at'' SqlDateTime]
     [ForeignKey None ''event_id'' ''events'' ''CASCADE'',
      ForeignKey None ''search_image_id'' ''face_search_images'' ''CASCADE'',
      ForeignKey None ''search_session_id'' ''face_search_sessions'' ''CASCADE'',
      PrimaryKey [''id'']],
     CreateIndex ''ix_face_search_jobs_event_id'' ''face_search_jobs'' [''event_id''] False,
     CreateIndex ''ix_face_search_jobs_search_image_id'' ''face_search_jobs'' [''search_image_id''] False,
     CreateIndex ''ix_face_search_jobs_search_session_id'' ''face_search_jobs'' [''search_session_id''] False,
     CreateIndex ''ix_face_search_jobs_status'' ''face_search_jobs'' [''status''] False]"

definition initial_face_search_results :: "schema_op list" where
  "initial_face_search_results =
    [CreateTable ''face_search_results''
     [col ''id'' SqlUuid,
      col ''event_id'' SqlUuid,
      col ''search_session_id'' SqlUuid,
      col ''photo_id'' SqlUuid,
      col ''photo_face_detection_id'' SqlUuid,
      col ''similarity_score'' SqlFloat,
      col ''created_at'' SqlDateTime]
     [ForeignKey None ''event_id'' ''events'' ''CASCADE'',
      ForeignKey None ''photo_face_detection_id'' ''photo_face_detections'' ''CASCADE'',
      ForeignKey None ''photo_id'' ''photos'' ''CASCADE'',
      ForeignKey None ''search_session_id'' ''face_search_sessions'' ''CASCADE'',
      PrimaryKey [''id''],
      Unique (Some ''uq_face_search_results_session_detection'') [''search_session_id'',
         ''photo_face_detection_id'']],
     CreateIndex ''ix_face_search_results_event_id'' ''face_search_results'' [''event_id''] False,
     CreateIndex ''ix_face_search_results_photo_face_detection_id'' ''face_search_results''
        [''photo_face_detection_id''] False,
     CreateIndex ''ix_face_search_results_photo_id'' ''face_search_results'' [''photo_id''] False,
     CreateIndex ''ix_face_search_results_search_session_id'' ''face_search_results'' [''search_session_id''] False]"

definition initial_downgrade :: "schema_op list" where
  "initial_downgrade =
    [DropTable ''face_search_results'',
     DropTable ''face_search_jobs'',
     DropTable ''face_search_images'',
     DropTable ''face_search_sessions'',
     DropTable ''face_participant_matches'',
     DropTable ''photo_face_detections'',
     DropTable ''photo_participant_matches'',
     DropTable ''photo_text_detection'',
     DropTable ''participant_face_embeddings'',
     DropTable ''participant_face_jobs'',
     DropTable ''participant_face_images'',
     DropTable ''photo_jobs'',
     DropTable ''photos'',
     DropTable ''participants'',
     DropTable ''admin_session_locks'',
     DropTable ''events'']"

definition initial_upgrade :: "schema_op list" where
  "initial_upgrade = concat [initial_events, initial_admin_session_locks, initial_participants, initial_photos,
     initial_photo_jobs, initial_participant_face_images, initial_participant_face_jobs,
     initial_participant_face_embeddings, initial_photo_text_detection, initial_photo_participant_matches,
     initial_photo_face_detections, initial_face_participant_matches, initial_face_search_sessions,
     initial_face_search_images, initial_face_search_jobs, initial_face_search_results]"

section \<open>Revision 0003\<close>

definition thumbnail_upgrade :: "schema_op list" where
  "thumbnail_upgrade =
    [AddColumn ''events'' (opt ''thumbnail_object_key'' (SqlString 512))]"

definition thumbnail_downgrade :: "schema_op list" where
  "thumbnail_downgrade =
    [DropColumn ''events'' ''thumbnail_object_key'']"

section \<open>Revision 0002\<close>

definition cross_event_checks :: "schema_op list" where
  "cross_event_checks =
    [RejectRows ''face_search_sessions contains a cross-event participant reference'',
     RejectRows ''photo_participant_matches contains cross-event references'',
     RejectRows ''photo_face_detections contains cross-event or cross-photo references'',
     RejectRows ''face_participant_matches contains cross-event references'',
     RejectRows ''face_search_images contains cross-event references'',
     RejectRows ''face_search_jobs contains cross-event or cross-session references'',
     RejectRows ''face_search_results contains cross-event references'']"

definition hardening_preflight :: "schema_op list" where
  "hardening_preflight =
    [RejectUnknown ''events'' ''status'' [''draft'', ''published''],
      RejectUnknown ''photos'' ''status'' [''uploaded'', ''processing'', ''ready'', ''partially_ready'', ''failed'',
         ''deleting''],
      RejectUnknown ''photo_jobs'' ''job_type'' [''ocr'', ''face_photo_scan''],
      RejectUnknown ''participant_face_jobs'' ''job_type'' [''face_selfie_enroll''],
      RejectUnknown ''face_search_jobs'' ''job_type'' [''face_search_probe'']] @
    map (\<lambda>table. RejectUnknown table ''status'' [''queued'', ''processing'', ''completed'', ''failed'',
       ''dead_lettered'']) JOB_TABLES @
    [RejectUnknown ''participant_face_images'' ''status'' [''queued'', ''processing'', ''ready'', ''failed''],
      RejectUnknown ''face_search_images'' ''status'' [''queued'', ''processing'', ''ready'', ''failed''],
      RejectUnknown ''photo_participant_matches'' ''match_source'' [''ocr'', ''face'', ''ocr+face''],
      RejectRows ''photos has non-positive file_size'',
      RejectRows ''participant_face_images has non-positive file_size'',
      RejectRows ''face_search_images has non-positive file_size'',
      RejectRows ''photo_text_detection confidence is outside [0,1]'',
      RejectRows ''photo_participant_matches confidence is outside [-1,1]'',
      RejectRows ''photo_face_detections contains invalid indexes or scores''] @
    map UpdateRows [''face_participant_matches'', ''face_search_results''] @
    [RejectRows ''face_participant_matches similarity is outside [-1,1]'',
      RejectRows ''face_search_results similarity is outside [-1,1]'',
      RejectRows ''participant_face_embeddings has duplicate face_image_id values''] @
    cross_event_checks"

definition hardening_foreign_key :: "schema_op list" where
  "hardening_foreign_key =
    [EnsureForeignKey ''fk_face_search_sessions_participant_id'' ''face_search_sessions'' ''participant_id''
       ''participants'' ''CASCADE'']"

definition add_job_lease_columns :: "str \<Rightarrow> schema_op list" where
  "add_job_lease_columns table =
    [AddColumn table ((col ''max_attempts'' SqlInteger)\<lparr>co_server_default := Some ''5''\<rparr>),
     AddColumn table (opt ''attempt_id'' SqlUuid),
     AddColumn table (opt ''claimed_at'' SqlDateTime),
     AddColumn table (opt ''lease_expires_at'' SqlDateTime),
     AddColumn table (opt ''retry_after'' SqlDateTime),
     AddColumn table (opt ''dead_lettered_at'' SqlDateTime),
     AlterServerDefault table ''max_attempts'' None]"

definition drop_job_lease_columns :: "str \<Rightarrow> schema_op list" where
  "drop_job_lease_columns table =
    [DropColumn table ''dead_lettered_at'',
     DropColumn table ''retry_after'',
     DropColumn table ''lease_expires_at'',
     DropColumn table ''claimed_at'',
     DropColumn table ''attempt_id'',
     DropColumn table ''max_attempts'']"

definition hardening_events :: "schema_op list" where
  "hardening_events =
    [AddConstraint ''events'' (Check ''ck_events_status'' ''status IN ('draft', 'published')''),
     CreateIndex ''ix_events_status_date'' ''events'' [''status'', ''event_date''] False]"

definition hardening_participants :: "schema_op list" where
  "hardening_participants =
    [AddColumn ''participants'' (opt ''bib_lookup'' (SqlString 64)),
     AddColumn ''participants'' (opt ''name_lookup'' (SqlString 255)),
     UpdateRows ''participants'',
     RejectRows ''participants contains a bib that has no ASCII letters or digits'',
     RejectRows ''participants contains duplicate normalized bib values within an event'',
     AlterNullable ''participants'' ''bib_lookup'' False,
     AlterNullable ''participants'' ''name_lookup'' False,
     AddConstraint ''participants'' (Unique (Some ''uq_participants_event_bib_lookup'') [''event_id'',
        ''bib_lookup'']),
     CreateIndex ''ix_participants_event_name_lookup'' ''participants'' [''event_id'', ''name_lookup''] False]"

definition hardening_photos :: "schema_op list" where
  "hardening_photos =
    [AddColumn ''photos'' (opt ''checksum_sha256'' (SqlString 64)),
     AddColumn ''photos'' (opt ''idempotency_key'' (SqlString 128)),
     CreateIndex ''ix_photos_checksum_sha256'' ''photos'' [''checksum_sha256''] False,
     AddConstraint ''photos'' (Unique (Some ''uq_photos_event_idempotency_key'') [''event_id'', ''idempotency_key'']),
     AddConstraint ''photos'' (Unique (Some ''uq_photos_event_checksum_sha256'') [''event_id'', ''checksum_sha256'']),
     AddConstraint ''photos'' (Check ''ck_photos_status''
        (''status IN ('uploaded', 'processing', 'ready', 'partially_ready','' @ '' 'failed', 'deleting')'')),
     AddConstraint ''photos'' (Check ''ck_photos_checksum_sha256_length''
        ''checksum_sha256 IS NULL OR length(checksum_sha256) = 64''),
     AddConstraint ''photos'' (Check ''ck_photos_file_size_positive'' ''file_size > 0''),
     CreateIndex ''ix_photos_event_status_created'' ''photos'' [''event_id'', ''status'', ''created_at''] False]"

definition hardening_photo_jobs :: "schema_op list" where
  "hardening_photo_jobs =
    [AddConstraint ''photo_jobs'' (Check ''ck_photo_jobs_job_type'' ''job_type IN ('ocr', 'face_photo_scan')''),
     AddConstraint ''photo_jobs'' (Check ''ck_photo_jobs_status''
        (''status IN ('queued', 'processing', 'completed', 'failed','' @ '' 'dead_lettered')'')),
     AddConstraint ''photo_jobs'' (Check ''ck_photo_jobs_attempt_count'' ''attempt_count >= 0''),
     AddConstraint ''photo_jobs'' (Check ''ck_photo_jobs_max_attempts'' ''max_attempts > 0''),
     CreateIndex ''ix_photo_jobs_claim'' ''photo_jobs'' [''status'', ''job_type'', ''retry_after'', ''created_at'']
        False]"

definition hardening_participant_face_jobs :: "schema_op list" where
  "hardening_participant_face_jobs =
    [AddConstraint ''participant_face_jobs'' (Check ''ck_participant_face_jobs_job_type''
       (''job_type = 'face_selfie_enroll'' @ [CHR 39])),
     AddConstraint ''participant_face_jobs'' (Check ''ck_participant_face_jobs_status''
        (''status IN ('queued', 'processing', 'completed', 'failed','' @ '' 'dead_lettered')'')),
     AddConstraint ''participant_face_jobs'' (Check ''ck_participant_face_jobs_attempt_count''
        ''attempt_count >= 0''),
     AddConstraint ''participant_face_jobs'' (Check ''ck_participant_face_jobs_max_attempts'' ''max_attempts > 0''),
     CreateIndex ''ix_participant_face_jobs_claim'' ''participant_face_jobs'' [''status'', ''job_type'',
        ''retry_after'', ''created_at''] False]"

definition hardening_face_search_jobs :: "schema_op list" where
  "hardening_face_search_jobs =
    [AddConstraint ''face_search_jobs'' (Check ''ck_face_search_jobs_job_type'' (''job_type = 'face_search_probe'' @
       [CHR 39])),
     AddConstraint ''face_search_jobs'' (Check ''ck_face_search_jobs_status''
        (''status IN ('queued', 'processing', 'completed', 'failed','' @ '' 'dead_lettered')'')),
     AddConstraint ''face_search_jobs'' (Check ''ck_face_search_jobs_attempt_count'' ''attempt_count >= 0''),
     AddConstraint ''face_search_jobs'' (Check ''ck_face_search_jobs_max_attempts'' ''max_attempts > 0''),
     CreateIndex ''ix_face_search_jobs_claim'' ''face_search_jobs'' [''status'', ''job_type'', ''retry_after'',
        ''created_at''] False]"

definition hardening_photo_text_detection :: "schema_op list" where
  "hardening_photo_text_detection =
    [AddConstraint ''photo_text_detection'' (Check ''ck_photo_text_confidence''
       ''confidence IS NULL OR (confidence >= 0 AND confidence <= 1)'')]"

definition hardening_photo_participant_matches :: "schema_op list" where
  "hardening_photo_participant_matches =
    [AddConstraint ''photo_participant_matches'' (Check ''ck_photo_participant_match_source''
       ''match_source IN ('ocr', 'face', 'ocr+face')''),
     AddConstraint ''photo_participant_matches'' (Check ''ck_photo_match_confidence''
        ''confidence IS NULL OR (confidence >= -1 AND confidence <= 1)''),
     CreateIndex ''ix_photo_matches_event_participant'' ''photo_participant_matches'' [''event_id'',
        ''participant_id'', ''created_at''] False]"

definition hardening_participant_face_images :: "schema_op list" where
  "hardening_participant_face_images =
    [AddConstraint ''participant_face_images'' (Check ''ck_participant_face_images_file_size'' ''file_size > 0''),
     AddConstraint ''participant_face_images'' (Check ''ck_participant_face_images_status''
        ''status IN ('queued', 'processing', 'ready', 'failed')'')]"

definition hardening_participant_face_embeddings :: "schema_op list" where
  "hardening_participant_face_embeddings =
    [AddConstraint ''participant_face_embeddings'' (Unique (Some ''uq_participant_face_embedding_image'')
       [''face_image_id''])]"

definition hardening_photo_face_detections :: "schema_op list" where
  "hardening_photo_face_detections =
    [AddConstraint ''photo_face_detections'' (Check ''ck_photo_face_detection_index'' ''face_index >= 0''),
     AddConstraint ''photo_face_detections'' (Check ''ck_photo_face_detection_score''
        (''detection_score IS NULL OR (detection_score >= 0 AND detection_score '' @ ''<= 1)'')),
     AddConstraint ''photo_face_detections'' (Check ''ck_photo_face_quality_score''
        ''quality_score IS NULL OR (quality_score >= 0 AND quality_score <= 1)''),
     CreateIndex ''ix_photo_face_detections_event_created'' ''photo_face_detections'' [''event_id'', ''created_at'']
        False]"

definition hardening_face_participant_matches :: "schema_op list" where
  "hardening_face_participant_matches =
    [AddConstraint ''face_participant_matches'' (Check ''ck_face_participant_similarity''
       ''similarity_score >= -1 AND similarity_score <= 1'')]"

definition hardening_face_search_images :: "schema_op list" where
  "hardening_face_search_images =
    [AddConstraint ''face_search_images'' (Check ''ck_face_search_images_file_size'' ''file_size > 0''),
     AddConstraint ''face_search_images'' (Check ''ck_face_search_images_status''
        ''status IN ('queued', 'processing', 'ready', 'failed')'')]"

definition hardening_face_search_results :: "schema_op list" where
  "hardening_face_search_results =
    [AddConstraint ''face_search_results'' (Check ''ck_face_search_result_similarity''
       ''similarity_score >= -1 AND similarity_score <= 1''),
     CreateIndex ''ix_face_search_results_session_score'' ''face_search_results'' [''search_session_id'',
        ''similarity_score''] False]"

definition hardening_face_search_sessions :: "schema_op list" where
  "hardening_face_search_sessions =
    [RejectUnknown ''face_search_sessions'' ''status'' [''queued'', ''processing'', ''completed'', ''failed'',
       ''expired''],
     AddColumn ''face_search_sessions'' (opt ''expires_at'' SqlDateTime),
     AddColumn ''face_search_sessions'' (opt ''capability_hash'' (SqlString 64)),
     AddColumn ''face_search_sessions'' (opt ''owner_binding_hash'' (SqlString 64)),
     UpdateRows ''face_search_sessions'',
     AlterNullable ''face_search_sessions'' ''expires_at'' False,
     CreateIndex ''ix_face_search_sessions_expires_at'' ''face_search_sessions'' [''expires_at''] False,
     CreateIndex ''ix_face_search_sessions_capability_hash'' ''face_search_sessions'' [''capability_hash''] True,
     CreateIndex ''ix_face_search_sessions_owner_binding_hash'' ''face_search_sessions'' [''owner_binding_hash'']
        False,
     AddConstraint ''face_search_sessions'' (Check ''ck_face_search_sessions_status''
        ''status IN ('queued', 'processing', 'completed', 'failed', 'expired')'')]"

definition hardening_object_deletion_tasks :: "schema_op list" where
  "hardening_object_deletion_tasks =
    [CreateTable ''object_deletion_tasks''
     [col ''id'' SqlUuid,
      col ''object_key'' (SqlString 512),
      col ''status'' (SqlString 32),
      col ''attempt_count'' SqlInteger,
      col ''max_attempts'' SqlInteger,
      opt ''attempt_id'' SqlUuid,
      opt ''retry_at'' SqlDateTime,
      opt ''claimed_at'' SqlDateTime,
      opt ''lease_expires_at'' SqlDateTime,
      opt ''last_error'' SqlText,
      col ''created_at'' SqlDateTime,
      col ''updated_at'' SqlDateTime,
      opt ''completed_at'' SqlDateTime,
      opt ''dead_lettered_at'' SqlDateTime]
     [Check ''ck_object_deletion_tasks_status'' ''status IN ('queued', 'processing', 'completed', 'dead_lettered')'',
      Check ''ck_object_deletion_tasks_attempt_count'' ''attempt_count >= 0'',
      Check ''ck_object_deletion_tasks_max_attempts'' ''max_attempts > 0'',
      PrimaryKey [''id''],
      Unique None [''object_key'']],
     CreateIndex ''ix_object_deletion_tasks_status'' ''object_deletion_tasks'' [''status''] False,
     CreateIndex ''ix_object_deletion_tasks_claim'' ''object_deletion_tasks'' [''status'', ''retry_at'',
        ''created_at''] False]"

definition hardening_rate_limit_buckets :: "schema_op list" where
  "hardening_rate_limit_buckets =
    [CreateTable ''rate_limit_buckets''
     [col ''bucket'' (SqlString 64),
      col ''key_hash'' (SqlString 64),
      col ''window_start'' SqlDateTime,
      col ''count'' SqlInteger,
      col ''expires_at'' SqlDateTime,
      col ''created_at'' SqlDateTime,
      col ''updated_at'' SqlDateTime]
     [Check ''ck_rate_limit_buckets_count'' ''count >= 0'',
      Check ''ck_rate_limit_buckets_key_hash_length'' ''length(key_hash) = 64'',
      PrimaryKey [''bucket'', ''key_hash'', ''window_start'']],
     CreateIndex ''ix_rate_limit_buckets_expires_at'' ''rate_limit_buckets'' [''expires_at''] False]"

definition hardening_admin_audit_logs :: "schema_op list" where
  "hardening_admin_audit_logs =
    [CreateTable ''admin_audit_logs''
     [col ''id'' SqlUuid,
      col ''occurred_at'' SqlDateTime,
      opt ''actor_id'' (SqlString 255),
      opt ''actor_email'' (SqlString 320),
      col ''action'' (SqlString 128),
      opt ''target_type'' (SqlString 64),
      opt ''target_id'' (SqlString 128),
      opt ''event_id'' SqlUuid,
      opt ''request_id'' (SqlString 64),
      opt ''metadata_json'' SqlJson]
     [Check ''ck_admin_audit_logs_action_nonempty'' ''length(action) > 0'',
      Check ''ck_admin_audit_logs_metadata_size''
         ''metadata_json IS NULL OR length(CAST(metadata_json AS TEXT)) <= 16384'',
      ForeignKey None ''event_id'' ''events'' ''SET NULL'',
      PrimaryKey [''id'']],
     CreateIndex ''ix_admin_audit_logs_actor_id'' ''admin_audit_logs'' [''actor_id''] False,
     CreateIndex ''ix_admin_audit_logs_request_id'' ''admin_audit_logs'' [''request_id''] False,
     CreateIndex ''ix_admin_audit_logs_occurred_at'' ''admin_audit_logs'' [''occurred_at''] False,
     CreateIndex ''ix_admin_audit_logs_event_occurred'' ''admin_audit_logs'' [''event_id'', ''occurred_at''] False,
     CreateIndex ''ix_admin_audit_logs_target'' ''admin_audit_logs'' [''target_type'', ''target_id''] False]"

definition hardening_worker_heartbeats :: "schema_op list" where
  "hardening_worker_heartbeats =
    [CreateTable ''worker_heartbeats''
     [col ''worker_id'' (SqlString 128),
      col ''worker_version'' (SqlString 64),
      col ''status'' (SqlString 32),
      opt ''current_job_id'' SqlUuid,
      opt ''current_job_type'' (SqlString 32),
      col ''started_at'' SqlDateTime,
      col ''last_seen_at'' SqlDateTime]
     [Check ''ck_worker_heartbeats_worker_id_nonempty'' ''length(worker_id) > 0'',
      Check ''ck_worker_heartbeats_status'' ''status IN ('idle', 'active', 'draining')'',
      Check ''ck_worker_heartbeats_job_type'' (''current_job_type IS NULL OR current_job_type IN ('ocr','' @
         '' 'face_photo_scan', 'face_selfie_enroll', 'face_search_probe')''),
      Check ''ck_worker_heartbeats_state_job''
         (''(status = 'active' AND current_job_id IS NOT NULL AND current_job_type'' @
         '' IS NOT NULL) OR (status IN ('idle', 'draining') AND current_job_id IS'' @
         '' NULL AND current_job_type IS NULL)''),
      PrimaryKey [''worker_id'']],
     CreateIndex ''ix_worker_heartbeats_last_seen_at'' ''worker_heartbeats'' [''last_seen_at''] False,
     CreateIndex ''ix_worker_heartbeats_status_last_seen'' ''worker_heartbeats'' [''status'', ''last_seen_at'']
        False]"

definition TRIGGER_COLUMNS :: "(str \<times> str list) list" where
  "TRIGGER_COLUMNS =
    [(''photo_participant_matches'', [''event_id'', ''photo_id'', ''participant_id'']),
     (''photo_face_detections'', [''event_id'', ''photo_id'', ''photo_job_id'']),
     (''face_participant_matches'', [''event_id'', ''photo_id'', ''photo_face_detection_id'', ''participant_id'']),
     (''face_search_images'', [''event_id'', ''search_session_id'']),
     (''face_search_jobs'', [''event_id'', ''search_session_id'', ''search_image_id'']),
     (''face_search_results'', [''event_id'', ''search_session_id'', ''photo_id'', ''photo_face_detection_id''])]"

definition scope_trigger :: "str \<Rightarrow> str" where
  "scope_trigger table = ''trg_'' @ table @ ''_event_scope''"

definition hardening_triggers :: "schema_op list" where
  "hardening_triggers = CreateFunction ''raceframe_assert_event_scope'' #
     map (\<lambda>(table, columns). CreateTrigger (scope_trigger table) table columns
        ''raceframe_assert_event_scope'') TRIGGER_COLUMNS"

definition hardening_upgrade :: "schema_op list" where
  "hardening_upgrade = concat
     [hardening_preflight,
      hardening_foreign_key,
      hardening_events,
      hardening_participants,
      hardening_photos,
      concat (map add_job_lease_columns JOB_TABLES),
      hardening_photo_jobs,
      hardening_participant_face_jobs,
      hardening_face_search_jobs,
      hardening_photo_text_detection,
      hardening_photo_participant_matches,
      hardening_participant_face_images,
      hardening_participant_face_embeddings,
      hardening_photo_face_detections,
      hardening_face_participant_matches,
      hardening_face_search_images,
      hardening_face_search_results,
      hardening_face_search_sessions,
      hardening_object_deletion_tasks,
      hardening_rate_limit_buckets,
      hardening_admin_audit_logs,
      hardening_worker_heartbeats, hardening_triggers]"

definition hardening_downgrade_scope :: "schema_op list" where
  "hardening_downgrade_scope =
    map (\<lambda>table. DropTrigger (scope_trigger table) table) [''photo_participant_matches'',
       ''photo_face_detections'', ''face_participant_matches'', ''face_search_images'', ''face_search_jobs'',
       ''face_search_results''] @
    [DropFunction ''raceframe_assert_event_scope'',
      DropConstraintIfExists ''fk_face_search_sessions_participant_id'' ''face_search_sessions'']"

definition hardening_downgrade_results :: "schema_op list" where
  "hardening_downgrade_results =
    [DropTable ''worker_heartbeats'',
     DropTable ''admin_audit_logs'',
     DropTable ''rate_limit_buckets'',
     DropTable ''object_deletion_tasks'',
     DropConstraint ''ck_face_search_sessions_status'' ''face_search_sessions'',
     DropIndex ''ix_face_search_sessions_owner_binding_hash'' ''face_search_sessions'',
     DropIndex ''ix_face_search_sessions_capability_hash'' ''face_search_sessions'',
     DropIndex ''ix_face_search_sessions_expires_at'' ''face_search_sessions'',
     DropColumn ''face_search_sessions'' ''owner_binding_hash'',
     DropColumn ''face_search_sessions'' ''capability_hash'',
     DropColumn ''face_search_sessions'' ''expires_at'',
     DropIndex ''ix_face_search_results_session_score'' ''face_search_results'',
     DropConstraint ''ck_face_search_result_similarity'' ''face_search_results'',
     DropConstraint ''ck_face_search_images_status'' ''face_search_images'',
     DropConstraint ''ck_face_search_images_file_size'' ''face_search_images'',
     DropConstraint ''ck_face_participant_similarity'' ''face_participant_matches'',
     DropIndex ''ix_photo_face_detections_event_created'' ''photo_face_detections'',
     DropConstraint ''ck_photo_face_quality_score'' ''photo_face_detections'',
     DropConstraint ''ck_photo_face_detection_score'' ''photo_face_detections'',
     DropConstraint ''ck_photo_face_detection_index'' ''photo_face_detections'',
     DropConstraint ''uq_participant_face_embedding_image'' ''participant_face_embeddings'',
     DropConstraint ''ck_participant_face_images_status'' ''participant_face_images'',
     DropConstraint ''ck_participant_face_images_file_size'' ''participant_face_images'',
     DropIndex ''ix_photo_matches_event_participant'' ''photo_participant_matches'',
     DropConstraint ''ck_photo_match_confidence'' ''photo_participant_matches'',
     DropConstraint ''ck_photo_participant_match_source'' ''photo_participant_matches'',
     DropConstraint ''ck_photo_text_confidence'' ''photo_text_detection'',
     DropIndex ''ix_face_search_jobs_claim'' ''face_search_jobs'',
     DropConstraint ''ck_face_search_jobs_max_attempts'' ''face_search_jobs'',
     DropConstraint ''ck_face_search_jobs_attempt_count'' ''face_search_jobs'',
     DropConstraint ''ck_face_search_jobs_status'' ''face_search_jobs'',
     DropConstraint ''ck_face_search_jobs_job_type'' ''face_search_jobs'',
     DropIndex ''ix_participant_face_jobs_claim'' ''participant_face_jobs'',
     DropConstraint ''ck_participant_face_jobs_max_attempts'' ''participant_face_jobs'',
     DropConstraint ''ck_participant_face_jobs_attempt_count'' ''participant_face_jobs'',
     DropConstraint ''ck_participant_face_jobs_status'' ''participant_face_jobs'',
     DropConstraint ''ck_participant_face_jobs_job_type'' ''participant_face_jobs'',
     DropIndex ''ix_photo_jobs_claim'' ''photo_jobs'',
     DropConstraint ''ck_photo_jobs_max_attempts'' ''photo_jobs'',
     DropConstraint ''ck_photo_jobs_attempt_count'' ''photo_jobs'',
     DropConstraint ''ck_photo_jobs_status'' ''photo_jobs'',
     DropConstraint ''ck_photo_jobs_job_type'' ''photo_jobs'']"

definition hardening_downgrade_rest :: "schema_op list" where
  "hardening_downgrade_rest =
    [DropIndex ''ix_photos_event_status_created'' ''photos'',
     DropConstraint ''ck_photos_file_size_positive'' ''photos'',
     DropConstraint ''ck_photos_checksum_sha256_length'' ''photos'',
     DropConstraint ''ck_photos_status'' ''photos'',
     DropConstraint ''uq_photos_event_checksum_sha256'' ''photos'',
     DropConstraint ''uq_photos_event_idempotency_key'' ''photos'',
     DropIndex ''ix_photos_checksum_sha256'' ''photos'',
     DropColumn ''photos'' ''idempotency_key'',
     DropColumn ''photos'' ''checksum_sha256'',
     DropIndex ''ix_participants_event_name_lookup'' ''participants'',
     DropConstraint ''uq_participants_event_bib_lookup'' ''participants'',
     DropColumn ''participants'' ''name_lookup'',
     DropColumn ''participants'' ''bib_lookup'',
     DropIndex ''ix_events_status_date'' ''events'',
     DropConstraint ''ck_events_status'' ''events'']"

definition hardening_downgrade :: "schema_op list" where
  "hardening_downgrade = hardening_downgrade_scope @ hardening_downgrade_results @
     concat (map drop_job_lease_columns (rev JOB_TABLES)) @ hardening_downgrade_rest"

text \<open>Each revision names the one before it as its \<^verbatim>\<open>down_revision\<close>.\<close>

definition head_upgrade :: "schema_op list" where
  "head_upgrade = initial_upgrade @ hardening_upgrade @ thumbnail_upgrade"

definition head_downgrade :: "schema_op list" where
  "head_downgrade = thumbnail_downgrade @ hardening_downgrade @ initial_downgrade"

section \<open>The declared schema\<close>

definition declared_event :: "str \<times> table" where
  "declared_event = declare_table ''events''
    [col ''id'' SqlUuid,
     col ''name'' (SqlString 255),
     col ''slug'' (SqlString 255),
     opt ''event_date'' SqlDate,
     opt ''location'' (SqlString 255),
     col ''status'' (SqlString 32),
     opt ''thumbnail_object_key'' (SqlString 512),
     col ''created_at'' SqlDateTime]
    [PrimaryKey [''id''],
     Check ''ck_events_status'' ''status IN ('draft', 'published')'']
    [idx ''ix_events_status_date'' [''status'', ''event_date''] False,
     idx ''ix_events_slug'' [''slug''] True,
     idx ''ix_events_status'' [''status''] False]"

definition declared_participant :: "str \<times> table" where
  "declared_participant = declare_table ''participants''
    [col ''id'' SqlUuid,
     col ''event_id'' SqlUuid,
     col ''bib_number'' (SqlString 64),
     col ''full_name'' (SqlString 255),
     col ''bib_lookup'' (SqlString 64),
     col ''name_lookup'' (SqlString 255),
     col ''created_at'' SqlDateTime]
    [PrimaryKey [''id''],
     Unique (Some ''uq_participants_event_bib_number'') [''event_id'', ''bib_number''],
     Unique (Some ''uq_participants_event_bib_lookup'') [''event_id'', ''bib_lookup''],
     ForeignKey None ''event_id'' ''events'' ''CASCADE'']
    [idx ''ix_participants_event_name_lookup'' [''event_id'', ''name_lookup''] False,
     idx ''ix_participants_event_id'' [''event_id''] False,
     idx ''ix_participants_full_name'' [''full_name''] False]"

definition declared_photo :: "str \<times> table" where
  "declared_photo = declare_table ''photos''
    [col ''id'' SqlUuid,
     col ''event_id'' SqlUuid,
     col ''original_object_key'' (SqlString 512),
     opt ''thumbnail_object_key'' (SqlString 512),
     col ''file_name'' (SqlString 255),
     col ''content_type'' (SqlString 128),
     col ''file_size'' SqlBigInteger,
     opt ''checksum_sha256'' (SqlString 64),
     opt ''idempotency_key'' (SqlString 128),
     col ''status'' (SqlString 32),
     col ''created_at'' SqlDateTime]
    [PrimaryKey [''id''],
     Unique (Some ''uq_photos_event_idempotency_key'') [''event_id'', ''idempotency_key''],
     Unique (Some ''uq_photos_event_checksum_sha256'') [''event_id'', ''checksum_sha256''],
     Check ''ck_photos_status'' (''status IN ('uploaded', 'processing', 'ready', 'partially_ready','' @
        '' 'failed', 'deleting')''),
     Check ''ck_photos_checksum_sha256_length'' ''checksum_sha256 IS NULL OR length(checksum_sha256) = 64'',
     Check ''ck_photos_file_size_positive'' ''file_size > 0'',
     ForeignKey None ''event_id'' ''events'' ''CASCADE'']
    [idx ''ix_photos_event_status_created'' [''event_id'', ''status'', ''created_at''] False,
     idx ''ix_photos_event_id'' [''event_id''] False,
     idx ''ix_photos_checksum_sha256'' [''checksum_sha256''] False,
     idx ''ix_photos_status'' [''status''] False]"

definition declared_photo_job :: "str \<times> table" where
  "declared_photo_job = declare_table ''photo_jobs''
    [col ''id'' SqlUuid,
     col ''photo_id'' SqlUuid,
     col ''job_type'' (SqlString 32),
     col ''status'' (SqlString 32),
     col ''attempt_count'' SqlInteger,
     col ''max_attempts'' SqlInteger,
     opt ''attempt_id'' SqlUuid,
     opt ''claimed_at'' SqlDateTime,
     opt ''lease_expires_at'' SqlDateTime,
     opt ''retry_after'' SqlDateTime,
     opt ''dead_lettered_at'' SqlDateTime,
     opt ''error_message'' SqlText,
     opt ''raw_response_json'' SqlJson,
     col ''created_at'' SqlDateTime,
     opt ''finished_at'' SqlDateTime]
    [PrimaryKey [''id''],
     Check ''ck_photo_jobs_job_type'' ''job_type IN ('ocr', 'face_photo_scan')'',
     Check ''ck_photo_jobs_status'' (''status IN ('queued', 'processing', 'completed', 'failed','' @
        '' 'dead_lettered')''),
     Check ''ck_photo_jobs_attempt_count'' ''attempt_count >= 0'',
     Check ''ck_photo_jobs_max_attempts'' ''max_attempts > 0'',
     ForeignKey None ''photo_id'' ''photos'' ''CASCADE'']
    [idx ''ix_photo_jobs_claim'' [''status'', ''job_type'', ''retry_after'', ''created_at''] False,
     idx ''ix_photo_jobs_photo_id'' [''photo_id''] False,
     idx ''ix_photo_jobs_status'' [''status''] False]"

definition declared_photo_text_detection :: "str \<times> table" where
  "declared_photo_text_detection = declare_table ''photo_text_detection''
    [col ''id'' SqlUuid,
     col ''photo_id'' SqlUuid,
     col ''photo_job_id'' SqlUuid,
     col ''detected_text'' SqlText,
     col ''normalized_text'' SqlText,
     opt ''confidence'' SqlFloat,
     opt ''bounding_box_json'' SqlJson,
     col ''created_at'' SqlDateTime]
    [PrimaryKey [''id''],
     Check ''ck_photo_text_confidence'' ''confidence IS NULL OR (confidence >= 0 AND confidence <= 1)'',
     ForeignKey None ''photo_id'' ''photos'' ''CASCADE'',
     ForeignKey None ''photo_job_id'' ''photo_jobs'' ''CASCADE'']
    [idx ''ix_photo_text_detection_photo_id'' [''photo_id''] False,
     idx ''ix_photo_text_detection_photo_job_id'' [''photo_job_id''] False]"

definition declared_photo_participant_match :: "str \<times> table" where
  "declared_photo_participant_match = declare_table ''photo_participant_matches''
    [col ''id'' SqlUuid,
     col ''event_id'' SqlUuid,
     col ''photo_id'' SqlUuid,
     col ''participant_id'' SqlUuid,
     col ''match_source'' (SqlString 32),
     col ''matched_value'' (SqlString 255),
     opt ''confidence'' SqlFloat,
     col ''status'' (SqlString 32),
     col ''created_at'' SqlDateTime]
    [PrimaryKey [''id''],
     Unique (Some ''uq_photo_participant_matches_photo_participant'') [''photo_id'', ''participant_id''],
     Check ''ck_photo_participant_match_source'' ''match_source IN ('ocr', 'face', 'ocr+face')'',
     Check ''ck_photo_match_confidence'' ''confidence IS NULL OR (confidence >= -1 AND confidence <= 1)'',
     ForeignKey None ''event_id'' ''events'' ''CASCADE'',
     ForeignKey None ''photo_id'' ''photos'' ''CASCADE'',
     ForeignKey None ''participant_id'' ''participants'' ''CASCADE'']
    [idx ''ix_photo_matches_event_participant'' [''event_id'', ''participant_id'', ''created_at''] False,
     idx ''ix_photo_participant_matches_event_id'' [''event_id''] False,
     idx ''ix_photo_participant_matches_photo_id'' [''photo_id''] False,
     idx ''ix_photo_participant_matches_participant_id'' [''participant_id''] False]"

definition declared_participant_face_image :: "str \<times> table" where
  "declared_participant_face_image = declare_table ''participant_face_images''
    [col ''id'' SqlUuid,
     col ''event_id'' SqlUuid,
     col ''participant_id'' SqlUuid,
     col ''object_key'' (SqlString 512),
     col ''file_name'' (SqlString 255),
     col ''content_type'' (SqlString 128),
     col ''file_size'' SqlBigInteger,
     col ''status'' (SqlString 32),
     opt ''error_message'' SqlText,
     col ''created_at'' SqlDateTime]
    [PrimaryKey [''id''],
     Check ''ck_participant_face_images_file_size'' ''file_size > 0'',
     Check ''ck_participant_face_images_status'' ''status IN ('queued', 'processing', 'ready', 'failed')'',
     ForeignKey None ''event_id'' ''events'' ''CASCADE'',
     ForeignKey None ''participant_id'' ''participants'' ''CASCADE'']
    [idx ''ix_participant_face_images_event_id'' [''event_id''] False,
     idx ''ix_participant_face_images_participant_id'' [''participant_id''] False,
     idx ''ix_participant_face_images_status'' [''status''] False]"

definition declared_participant_face_job :: "str \<times> table" where
  "declared_participant_face_job = declare_table ''participant_face_jobs''
    [col ''id'' SqlUuid,
     col ''event_id'' SqlUuid,
     col ''participant_id'' SqlUuid,
     col ''face_image_id'' SqlUuid,
     col ''job_type'' (SqlString 32),
     col ''status'' (SqlString 32),
     col ''attempt_count'' SqlInteger,
     col ''max_attempts'' SqlInteger,
     opt ''attempt_id'' SqlUuid,
     opt ''claimed_at'' SqlDateTime,
     opt ''lease_expires_at'' SqlDateTime,
     opt ''retry_after'' SqlDateTime,
     opt ''dead_lettered_at'' SqlDateTime,
     opt ''error_message'' SqlText,
     opt ''raw_response_json'' SqlJson,
     col ''created_at'' SqlDateTime,
     opt ''finished_at'' SqlDateTime]
    [PrimaryKey [''id''],
     Check ''ck_participant_face_jobs_job_type'' (''job_type = 'face_selfie_enroll'' @ [CHR 39]),
     Check ''ck_participant_face_jobs_status'' (''status IN ('queued', 'processing', 'completed', 'failed','' @
        '' 'dead_lettered')''),
     Check ''ck_participant_face_jobs_attempt_count'' ''attempt_count >= 0'',
     Check ''ck_participant_face_jobs_max_attempts'' ''max_attempts > 0'',
     ForeignKey None ''event_id'' ''events'' ''CASCADE'',
     ForeignKey None ''participant_id'' ''participants'' ''CASCADE'',
     ForeignKey None ''face_image_id'' ''participant_face_images'' ''CASCADE'']
    [idx ''ix_participant_face_jobs_claim'' [''status'', ''job_type'', ''retry_after'', ''created_at''] False,
     idx ''ix_participant_face_jobs_event_id'' [''event_id''] False,
     idx ''ix_participant_face_jobs_participant_id'' [''participant_id''] False,
     idx ''ix_participant_face_jobs_face_image_id'' [''face_image_id''] False,
     idx ''ix_participant_face_jobs_status'' [''status''] False]"

definition declared_participant_face_embedding :: "str \<times> table" where
  "declared_participant_face_embedding = declare_table ''participant_face_embeddings''
    [col ''id'' SqlUuid,
     col ''event_id'' SqlUuid,
     col ''participant_id'' SqlUuid,
     col ''face_image_id'' SqlUuid,
     col ''embedding_json'' SqlJson,
     opt ''bounding_box_json'' SqlJson,
     opt ''detection_score'' SqlFloat,
     opt ''quality_score'' SqlFloat,
     col ''created_at'' SqlDateTime]
    [PrimaryKey [''id''],
     Unique (Some ''uq_participant_face_embedding_image'') [''face_image_id''],
     ForeignKey None ''event_id'' ''events'' ''CASCADE'',
     ForeignKey None ''participant_id'' ''participants'' ''CASCADE'',
     ForeignKey None ''face_image_id'' ''participant_face_images'' ''CASCADE'']
    [idx ''ix_participant_face_embeddings_event_id'' [''event_id''] False,
     idx ''ix_participant_face_embeddings_participant_id'' [''participant_id''] False,
     idx ''ix_participant_face_embeddings_face_image_id'' [''face_image_id''] False]"

definition declared_photo_face_detection :: "str \<times> table" where
  "declared_photo_face_detection = declare_table ''photo_face_detections''
    [col ''id'' SqlUuid,
     col ''event_id'' SqlUuid,
     col ''photo_id'' SqlUuid,
     col ''photo_job_id'' SqlUuid,
     col ''face_index'' SqlInteger,
     col ''embedding_json'' SqlJson,
     opt ''bounding_box_json'' SqlJson,
     opt ''detection_score'' SqlFloat,
     opt ''quality_score'' SqlFloat,
     col ''created_at'' SqlDateTime]
    [PrimaryKey [''id''],
     Unique (Some ''uq_photo_face_detections_job_face_index'') [''photo_job_id'', ''face_index''],
     Check ''ck_photo_face_detection_index'' ''face_index >= 0'',
     Check ''ck_photo_face_detection_score''
        (''detection_score IS NULL OR (detection_score >= 0 AND detection_score '' @ ''<= 1)''),
     Check ''ck_photo_face_quality_score'' ''quality_score IS NULL OR (quality_score >= 0 AND quality_score <= 1)'',
     ForeignKey None ''event_id'' ''events'' ''CASCADE'',
     ForeignKey None ''photo_id'' ''photos'' ''CASCADE'',
     ForeignKey None ''photo_job_id'' ''photo_jobs'' ''CASCADE'']
    [idx ''ix_photo_face_detections_event_created'' [''event_id'', ''created_at''] False,
     idx ''ix_photo_face_detections_event_id'' [''event_id''] False,
     idx ''ix_photo_face_detections_photo_id'' [''photo_id''] False,
     idx ''ix_photo_face_detections_photo_job_id'' [''photo_job_id''] False]"

definition declared_face_participant_match :: "str \<times> table" where
  "declared_face_participant_match = declare_table ''face_participant_matches''
    [col ''id'' SqlUuid,
     col ''event_id'' SqlUuid,
     col ''photo_id'' SqlUuid,
     col ''photo_face_detection_id'' SqlUuid,
     col ''participant_id'' SqlUuid,
     col ''similarity_score'' SqlFloat,
     col ''status'' (SqlString 32),
     col ''created_at'' SqlDateTime]
    [PrimaryKey [''id''],
     Unique (Some ''uq_face_participant_matches_detection_participant'') [''photo_face_detection_id'',
        ''participant_id''],
     Check ''ck_face_participant_similarity'' ''similarity_score >= -1 AND similarity_score <= 1'',
     ForeignKey None ''event_id'' ''events'' ''CASCADE'',
     ForeignKey None ''photo_id'' ''photos'' ''CASCADE'',
     ForeignKey None ''photo_face_detection_id'' ''photo_face_detections'' ''CASCADE'',
     ForeignKey None ''participant_id'' ''participants'' ''CASCADE'']
    [idx ''ix_face_participant_matches_event_id'' [''event_id''] False,
     idx ''ix_face_participant_matches_photo_id'' [''photo_id''] False,
     idx ''ix_face_participant_matches_photo_face_detection_id'' [''photo_face_detection_id''] False,
     idx ''ix_face_participant_matches_participant_id'' [''participant_id''] False]"

definition declared_face_search_session :: "str \<times> table" where
  "declared_face_search_session = declare_table ''face_search_sessions''
    [col ''id'' SqlUuid,
     col ''event_id'' SqlUuid,
     opt ''participant_id'' SqlUuid,
     col ''status'' (SqlString 32),
     opt ''error_message'' SqlText,
     col ''expires_at'' SqlDateTime,
     opt ''capability_hash'' (SqlString 64),
     opt ''owner_binding_hash'' (SqlString 64),
     col ''created_at'' SqlDateTime,
     opt ''finished_at'' SqlDateTime]
    [PrimaryKey [''id''],
     Check ''ck_face_search_sessions_status''
        ''status IN ('queued', 'processing', 'completed', 'failed', 'expired')'',
     ForeignKey None ''event_id'' ''events'' ''CASCADE'',
     ForeignKey None ''participant_id'' ''participants'' ''CASCADE'']
    [idx ''ix_face_search_sessions_event_id'' [''event_id''] False,
     idx ''ix_face_search_sessions_participant_id'' [''participant_id''] False,
     idx ''ix_face_search_sessions_status'' [''status''] False,
     idx ''ix_face_search_sessions_expires_at'' [''expires_at''] False,
     idx ''ix_face_search_sessions_capability_hash'' [''capability_hash''] True,
     idx ''ix_face_search_sessions_owner_binding_hash'' [''owner_binding_hash''] False]"

definition declared_face_search_image :: "str \<times> table" where
  "declared_face_search_image = declare_table ''face_search_images''
    [col ''id'' SqlUuid,
     col ''event_id'' SqlUuid,
     col ''search_session_id'' SqlUuid,
     col ''object_key'' (SqlString 512),
     col ''file_name'' (SqlString 255),
     col ''content_type'' (SqlString 128),
     col ''file_size'' SqlBigInteger,
     col ''status'' (SqlString 32),
     opt ''error_message'' SqlText,
     col ''created_at'' SqlDateTime]
    [PrimaryKey [''id''],
     Check ''ck_face_search_images_file_size'' ''file_size > 0'',
     Check ''ck_face_search_images_status'' ''status IN ('queued', 'processing', 'ready', 'failed')'',
     ForeignKey None ''event_id'' ''events'' ''CASCADE'',
     ForeignKey None ''search_session_id'' ''face_search_sessions'' ''CASCADE'']
    [idx ''ix_face_search_images_event_id'' [''event_id''] False,
     idx ''ix_face_search_images_search_session_id'' [''search_session_id''] False,
     idx ''ix_face_search_images_status'' [''status''] False]"

definition declared_face_search_job :: "str \<times> table" where
  "declared_face_search_job = declare_table ''face_search_jobs''
    [col ''id'' SqlUuid,
     col ''event_id'' SqlUuid,
     col ''search_session_id'' SqlUuid,
     col ''search_image_id'' SqlUuid,
     col ''job_type'' (SqlString 32),
     col ''status'' (SqlString 32),
     col ''attempt_count'' SqlInteger,
     col ''max_attempts'' SqlInteger,
     opt ''attempt_id'' SqlUuid,
     opt ''claimed_at'' SqlDateTime,
     opt ''lease_expires_at'' SqlDateTime,
     opt ''retry_after'' SqlDateTime,
     opt ''dead_lettered_at'' SqlDateTime,
     opt ''error_message'' SqlText,
     opt ''raw_response_json'' SqlJson,
     col ''created_at'' SqlDateTime,
     opt ''finished_at'' SqlDateTime]
    [PrimaryKey [''id''],
     Check ''ck_face_search_jobs_job_type'' (''job_type = 'face_search_probe'' @ [CHR 39]),
     Check ''ck_face_search_jobs_status'' (''status IN ('queued', 'processing', 'completed', 'failed','' @
        '' 'dead_lettered')''),
     Check ''ck_face_search_jobs_attempt_count'' ''attempt_count >= 0'',
     Check ''ck_face_search_jobs_max_attempts'' ''max_attempts > 0'',
     ForeignKey None ''event_id'' ''events'' ''CASCADE'',
     ForeignKey None ''search_session_id'' ''face_search_sessions'' ''CASCADE'',
     ForeignKey None ''search_image_id'' ''face_search_images'' ''CASCADE'']
    [idx ''ix_face_search_jobs_claim'' [''status'', ''job_type'', ''retry_after'', ''created_at''] False,
     idx ''ix_face_search_jobs_event_id'' [''event_id''] False,
     idx ''ix_face_search_jobs_search_session_id'' [''search_session_id''] False,
     idx ''ix_face_search_jobs_search_image_id'' [''search_image_id''] False,
     idx ''ix_face_search_jobs_status'' [''status''] False]"

definition declared_face_search_result :: "str \<times> table" where
  "declared_face_search_result = declare_table ''face_search_results''
    [col ''id'' SqlUuid,
     col ''event_id'' SqlUuid,
     col ''search_session_id'' SqlUuid,
     col ''photo_id'' SqlUuid,
     col ''photo_face_detection_id'' SqlUuid,
     col ''similarity_score'' SqlFloat,
     col ''created_at'' SqlDateTime]
    [PrimaryKey [''id''],
     Unique (Some ''uq_face_search_results_session_detection'') [''search_session_id'', ''photo_face_detection_id''],
     Check ''ck_face_search_result_similarity'' ''similarity_score >= -1 AND similarity_score <= 1'',
     ForeignKey None ''event_id'' ''events'' ''CASCADE'',
     ForeignKey None ''search_session_id'' ''face_search_sessions'' ''CASCADE'',
     ForeignKey None ''photo_id'' ''photos'' ''CASCADE'',
     ForeignKey None ''photo_face_detection_id'' ''photo_face_detections'' ''CASCADE'']
    [idx ''ix_face_search_results_session_score'' [''search_session_id'', ''similarity_score''] False,
     idx ''ix_face_search_results_event_id'' [''event_id''] False,
     idx ''ix_face_search_results_search_session_id'' [''search_session_id''] False,
     idx ''ix_face_search_results_photo_id'' [''photo_id''] False,
     idx ''ix_face_search_results_photo_face_detection_id'' [''photo_face_detection_id''] False]"

definition declared_object_deletion_task :: "str \<times> table" where
  "declared_object_deletion_task = declare_table ''object_deletion_tasks''
    [col ''id'' SqlUuid,
     col ''object_key'' (SqlString 512),
     col ''status'' (SqlString 32),
     col ''attempt_count'' SqlInteger,
     col ''max_attempts'' SqlInteger,
     opt ''attempt_id'' SqlUuid,
     opt ''retry_at'' SqlDateTime,
     opt ''claimed_at'' SqlDateTime,
     opt ''lease_expires_at'' SqlDateTime,
     opt ''last_error'' SqlText,
     col ''created_at'' SqlDateTime,
     col ''updated_at'' SqlDateTime,
     opt ''completed_at'' SqlDateTime,
     opt ''dead_lettered_at'' SqlDateTime]
    [PrimaryKey [''id''],
     Check ''ck_object_deletion_tasks_status'' ''status IN ('queued', 'processing', 'completed', 'dead_lettered')'',
     Check ''ck_object_deletion_tasks_attempt_count'' ''attempt_count >= 0'',
     Check ''ck_object_deletion_tasks_max_attempts'' ''max_attempts > 0'',
     Unique None [''object_key'']]
    [idx ''ix_object_deletion_tasks_claim'' [''status'', ''retry_at'', ''created_at''] False,
     idx ''ix_object_deletion_tasks_status'' [''status''] False]"

definition declared_rate_limit_bucket :: "str \<times> table" where
  "declared_rate_limit_bucket = declare_table ''rate_limit_buckets''
    [col ''bucket'' (SqlString 64),
     col ''key_hash'' (SqlString 64),
     col ''window_start'' SqlDateTime,
     col ''count'' SqlInteger,
     col ''expires_at'' SqlDateTime,
     col ''created_at'' SqlDateTime,
     col ''updated_at'' SqlDateTime]
    [PrimaryKey [''bucket'', ''key_hash'', ''window_start''],
     Check ''ck_rate_limit_buckets_count'' ''count >= 0'',
     Check ''ck_rate_limit_buckets_key_hash_length'' ''length(key_hash) = 64'']
    [idx ''ix_rate_limit_buckets_expires_at'' [''expires_at''] False]"

definition declared_admin_audit_log :: "str \<times> table" where
  "declared_admin_audit_log = declare_table ''admin_audit_logs''
    [col ''id'' SqlUuid,
     col ''occurred_at'' SqlDateTime,
     opt ''actor_id'' (SqlString 255),
     opt ''actor_email'' (SqlString 320),
     col ''action'' (SqlString 128),
     opt ''target_type'' (SqlString 64),
     opt ''target_id'' (SqlString 128),
     opt ''event_id'' SqlUuid,
     opt ''request_id'' (SqlString 64),
     opt ''metadata_json'' SqlJson]
    [PrimaryKey [''id''],
     Check ''ck_admin_audit_logs_action_nonempty'' ''length(action) > 0'',
     Check ''ck_admin_audit_logs_metadata_size''
        ''metadata_json IS NULL OR length(CAST(metadata_json AS TEXT)) <= 16384'',
     ForeignKey None ''event_id'' ''events'' ''SET NULL'']
    [idx ''ix_admin_audit_logs_occurred_at'' [''occurred_at''] False,
     idx ''ix_admin_audit_logs_event_occurred'' [''event_id'', ''occurred_at''] False,
     idx ''ix_admin_audit_logs_target'' [''target_type'', ''target_id''] False,
     idx ''ix_admin_audit_logs_actor_id'' [''actor_id''] False,
     idx ''ix_admin_audit_logs_request_id'' [''request_id''] False]"

definition declared_worker_heartbeat :: "str \<times> table" where
  "declared_worker_heartbeat = declare_table ''worker_heartbeats''
    [col ''worker_id'' (SqlString 128),
     col ''worker_version'' (SqlString 64),
     col ''status'' (SqlString 32),
     opt ''current_job_id'' SqlUuid,
     opt ''current_job_type'' (SqlString 32),
     col ''started_at'' SqlDateTime,
     col ''last_seen_at'' SqlDateTime]
    [PrimaryKey [''worker_id''],
     Check ''ck_worker_heartbeats_worker_id_nonempty'' ''length(worker_id) > 0'',
     Check ''ck_worker_heartbeats_status'' ''status IN ('idle', 'active', 'draining')'',
     Check ''ck_worker_heartbeats_job_type'' (''current_job_type IS NULL OR current_job_type IN ('ocr','' @
        '' 'face_photo_scan', 'face_selfie_enroll', 'face_search_probe')''),
     Check ''ck_worker_heartbeats_state_job''
        (''(status = 'active' AND current_job_id IS NOT NULL AND current_job_type'' @
        '' IS NOT NULL) OR (status IN ('idle', 'draining') AND current_job_id IS'' @
        '' NULL AND current_job_type IS NULL)'')]
    [idx ''ix_worker_heartbeats_last_seen_at'' [''last_seen_at''] False,
     idx ''ix_worker_heartbeats_status_last_seen'' [''status'', ''last_seen_at''] False]"

definition declared_admin_session_lock :: "str \<times> table" where
  "declared_admin_session_lock = declare_table ''admin_session_locks''
    [col ''id'' SqlInteger,
     col ''session_id'' (SqlString 128),
     col ''last_seen_at'' SqlDateTime]
    [PrimaryKey [''id'']]
    []"

definition declared_schema :: schema where
  "declared_schema = \<lparr>sc_tables = [declared_event, declared_participant, declared_photo, declared_photo_job,
     declared_photo_text_detection, declared_photo_participant_match, declared_participant_face_image,
     declared_participant_face_job, declared_participant_face_embedding, declared_photo_face_detection,
     declared_face_participant_match, declared_face_search_session, declared_face_search_image,
     declared_face_search_job, declared_face_search_result, declared_object_deletion_task,
     declared_rate_limit_bucket, declared_admin_audit_log, declared_worker_heartbeat, declared_admin_session_lock],
     sc_functions = [], sc_triggers = []\<rparr>"

end
