(* ===== verification/SchemaRuns.thy ===== *)
theory SchemaRuns
  imports SchemaOps
begin

text \<open>
  Running a migration table by table.  An outline keeps what the operations ask of other tables: the table names, and
  every index and foreign key that may exist.  A list of operations runs when it runs on the outline and, for every
  table, the operations of that table run on it alone; the result then holds exactly the tables of these runs.
\<close>

section \<open>Outlines\<close>

text \<open>The tables, the tables their foreign keys refer to, the functions and the triggers.\<close>

datatype outline = Outline (ol_tables: "str list") (ol_keys: "(str \<times> str) list")
  (ol_functions: "str list") (ol_triggers: "trigger list")

definition empty_outline :: outline where
  "empty_outline = Outline [] [] [] []"

fun outline_allows :: "schema_op \<Rightarrow> outline \<Rightarrow> bool" where
  "outline_allows (CreateTable n _ ks) (Outline ts _ _ _) \<longleftrightarrow>
     n \<notin> set ts \<and> list_all (\<lambda>t. t \<in> set ts) (op_targets (CreateTable n [] ks))"
| "outline_allows (DropTable name) (Outline _ ks _ _) \<longleftrightarrow> list_all (\<lambda>(n, t). n = name \<or> t \<noteq> name) ks"
| "outline_allows (CreateFunction f) (Outline _ _ fs _) \<longleftrightarrow> f \<notin> set fs"
| "outline_allows (DropFunction f) (Outline _ _ _ rs) \<longleftrightarrow> f \<notin> set (map tr_function rs)"
| "outline_allows (CreateTrigger n name _ f) (Outline _ _ fs rs) \<longleftrightarrow>
     f \<in> set fs \<and> \<not> list_ex (\<lambda>r. tr_name r = n \<and> tr_table r = name) rs"
| "outline_allows x (Outline ts _ _ _) \<longleftrightarrow> list_all (\<lambda>t. t \<in> set ts) (op_targets x)"

fun tables_after :: "schema_op \<Rightarrow> str list \<Rightarrow> str list" where
  "tables_after (CreateTable n _ _) ns = ns @ [n]"
| "tables_after (DropTable n) ns = filter (\<lambda>m. m \<noteq> n) ns"
| "tables_after _ ns = ns"

text \<open>The index names in use, taken to stay in use.\<close>

fun indexes_after :: "schema_op \<Rightarrow> str list \<Rightarrow> str list" where
  "indexes_after (CreateIndex n _ _ _) is = n # is"
| "indexes_after _ is = is"

fun created_indexes :: "schema_op list \<Rightarrow> str list" where
  "created_indexes [] = []"
| "created_indexes (x # xs) = indexes_after x [] @ created_indexes xs"

fun keys_after :: "schema_op \<Rightarrow> (str \<times> str) list \<Rightarrow> (str \<times> str) list" where
  "keys_after (CreateTable n cs ks) rs = map (\<lambda>t. (n, t)) (op_targets (CreateTable n cs ks)) @ rs"
| "keys_after (AddConstraint n k) rs = map (\<lambda>t. (n, t)) (op_targets (AddConstraint n k)) @ rs"
| "keys_after (EnsureForeignKey f n c t d) rs = (n, t) # rs"
| "keys_after (DropTable n) rs = filter (\<lambda>(m, _). m \<noteq> n) rs"
| "keys_after _ rs = rs"

fun outline_op :: "schema_op \<Rightarrow> outline \<Rightarrow> outline option" where
  "outline_op x (Outline ts ks fs rs) = (if outline_allows x (Outline ts ks fs rs)
     then Some (Outline (tables_after x ts) (keys_after x ks) (functions_after x fs) (triggers_after x rs)) else None)"

lemma outline_op_fields: "outline_op x ol = (if outline_allows x ol
     then Some (Outline (tables_after x (ol_tables ol)) (keys_after x (ol_keys ol))
       (functions_after x (ol_functions ol)) (triggers_after x (ol_triggers ol)))
     else None)"
  by (cases ol) simp

fun outline_run :: "schema_op list \<Rightarrow> outline \<Rightarrow> outline option" where
  "outline_run [] ol = Some ol"
| "outline_run (x # xs) ol = Option.bind (outline_op x ol) (outline_run xs)"

text \<open>What the outline sees of an operation.\<close>

fun sketch :: "schema_op \<Rightarrow> schema_op" where
  "sketch (CreateTable n cs ks) = CreateTable n [] (filter (\<lambda>k. case k of ForeignKey _ _ _ _ \<Rightarrow> True | _ \<Rightarrow> False) ks)"
| "sketch (AddColumn n c) = UpdateRows n"
| "sketch (AddConstraint n k) = (case k of ForeignKey _ _ _ _ \<Rightarrow> AddConstraint n k | _ \<Rightarrow> UpdateRows n)"
| "sketch x = x"

fun table_run :: "schema_op list \<Rightarrow> table option \<Rightarrow> table option option" where
  "table_run [] t = Some t"
| "table_run (x # xs) t = Option.bind (table_op x t) (table_run xs)"

definition about :: "str \<Rightarrow> schema_op list \<Rightarrow> schema_op list" where
  "about n xs = filter (\<lambda>x. op_table x = Some n) xs"

lemma outline_run_append: "outline_run (xs @ ys) = (\<lambda>ol. Option.bind (outline_run xs ol) (outline_run ys))"
proof
  show "outline_run (xs @ ys) ol = Option.bind (outline_run xs ol) (outline_run ys)" for ol
    by (induction xs arbitrary: ol) (auto split: Option.bind_split)
qed

lemma sketch_targets: "op_targets (sketch x) = op_targets x"
proof (cases x)
  case (CreateTable n cs ks)
  then show ?thesis by (induction ks arbitrary: x) (auto split: constraint.splits)
qed (auto split: constraint.splits)

lemma outline_op_sketch: "outline_op (sketch x) ol = outline_op x ol"
  using sketch_targets[of x]
  by (cases x; cases ol) (auto split: constraint.splits)

lemma outline_run_sketch: "outline_run (map sketch xs) = outline_run xs"
proof
  show "outline_run (map sketch xs) ol = outline_run xs ol" for ol
    by (induction xs arbitrary: ol) (auto simp: outline_op_sketch split: Option.bind_split)
qed

lemma table_run_append: "table_run (xs @ ys) t = Option.bind (table_run xs t) (table_run ys)"
  by (induction xs arbitrary: t) (auto split: Option.bind_split)

lemma about_simps [simp]:
  "about n [] = []"
  "about n (x # xs) = (if op_table x = Some n then x # about n xs else about n xs)"
  "about n (xs @ ys) = about n xs @ about n ys"
  by (simp_all add: about_def)

lemma about_concat: "about n (concat xss) = concat (map (about n) xss)"
  by (induction xss) simp_all

lemma about_only: "list_all (\<lambda>x. op_table x = Some m) xs \<Longrightarrow> about n xs = (if n = m then xs else [])"
  by (induction xs) auto

lemma about_outside: "list_all (\<lambda>x. case op_table x of None \<Rightarrow> True | Some m \<Rightarrow> m \<in> set ns) xs \<Longrightarrow> n \<notin> set ns \<Longrightarrow> about n xs = []"
  by (induction xs) (auto split: option.splits)

section \<open>The outline covers the schema\<close>

definition targets_of :: "table \<Rightarrow> str set" where
  "targets_of t = {target. list_ex (refers_to target) (tb_constraints t)}"

definition covers :: "schema \<Rightarrow> outline \<Rightarrow> str list \<Rightarrow> bool" where
  "covers s ol is \<longleftrightarrow> map fst (sc_tables s) = ol_tables ol \<and> distinct (ol_tables ol) \<and>
     sc_functions s = ol_functions ol \<and> sc_triggers s = ol_triggers ol \<and>
     (\<forall>n t. map_of (sc_tables s) n = Some t \<longrightarrow>
        (\<forall>i\<in>set (tb_indexes t). ix_name i \<in> set is) \<and>
        (\<forall>target\<in>targets_of t. (n, target) \<in> set (ol_keys ol)))"

lemma add_constraints_frame:
  "add_constraints t ks = Some t' \<Longrightarrow> tb_indexes t' = tb_indexes t \<and> tb_constraints t' = tb_constraints t @ ks"
  by (induction ks arbitrary: t) (auto split: if_splits)

lemma refers_to_target: "refers_to x k \<longleftrightarrow> x \<in> set (case k of ForeignKey _ _ t _ \<Rightarrow> [t] | _ \<Rightarrow> [])"
  by (cases k) auto

lemma add_constraints_targets:
  assumes "add_constraints t ks = Some t'"
  shows "targets_of t' = targets_of t \<union> set (concat (map (\<lambda>k. case k of ForeignKey _ _ t _ \<Rightarrow> [t] | _ \<Rightarrow> []) ks))"
  using add_constraints_frame[OF assms] by (auto simp: targets_of_def list_ex_iff refers_to_target)

lemma drop_constraint_frame:
  "drop_constraint n t = Some t' \<Longrightarrow> tb_indexes t' = tb_indexes t \<and> targets_of t' \<subseteq> targets_of t"
  by (auto simp: drop_constraint_def targets_of_def list_ex_iff split: if_splits)

lemma alter_table_indexes:
  "alter_table x t = Some t' \<Longrightarrow> i \<in> set (tb_indexes t') \<Longrightarrow>
    i \<in> set (tb_indexes t) \<or> ix_name i \<in> set (indexes_after x is)"
  by (cases x) (auto simp: drop_column_def alter_column_def idx_def
      dest: add_constraints_frame drop_constraint_frame split: if_splits option.splits)

lemma alter_table_targets:
  "alter_table x t = Some t' \<Longrightarrow> targets_of t' \<subseteq> targets_of t \<union> set (op_targets x)"
proof (cases x)
  case (DropConstraintIfExists n m)
  moreover assume "alter_table x t = Some t'"
  ultimately show ?thesis by (auto dest: drop_constraint_frame split: option.splits)
next
  case (AddConstraint n k)
  moreover assume "alter_table x t = Some t'"
  ultimately show ?thesis by (auto simp del: add_constraints.simps dest!: add_constraints_targets)
next
  case (EnsureForeignKey f n c m d)
  moreover assume "alter_table x t = Some t'"
  ultimately show ?thesis by (auto simp del: add_constraints.simps dest!: add_constraints_targets split: if_splits)
qed (auto simp: targets_of_def list_ex_iff drop_column_def alter_column_def
    dest: drop_constraint_frame[THEN conjunct2, unfolded targets_of_def list_ex_iff] split: if_splits)

lemma table_op_new:
  assumes "table_op x None = Some t'"
  obtains n cs ks t where "x = CreateTable n cs ks" "t' = Some t" "tb_indexes t = []" "targets_of t = set (op_targets x)"
proof -
  from assms obtain n cs ks where x: "x = CreateTable n cs ks" by (cases x) auto
  with assms obtain t where t: "t' = Some t"
      "add_constraints \<lparr>tb_columns = cs, tb_constraints = [], tb_indexes = []\<rparr> ks = Some t" by (auto split: if_splits)
  have "targets_of t = set (op_targets x)"
    using add_constraints_targets[OF t(2)] by (simp add: x targets_of_def)
  with that x t add_constraints_frame[OF t(2)] show ?thesis by simp
qed

lemma table_op_old:
  assumes "table_op x (Some t) = Some t'"
  shows "(\<exists>n. x = DropTable n) \<and> t' = None \<or>
    (\<forall>n. x \<noteq> DropTable n) \<and> (\<forall>n cs ks. x \<noteq> CreateTable n cs ks) \<and> (\<exists>u. t' = Some u \<and> alter_table x t = Some u)"
  using assms by (cases x) (auto simp del: alter_table.simps)

lemma outline_allows_sound:
  assumes c: "covers s ol is" and a: "outline_allows x ol" and fresh: "distinct (indexes_after x is)"
  shows "op_allowed x s"
proof (cases x)
  case (CreateIndex n name cs u)
  have "n \<notin> set (index_names s)"
  proof
    assume "n \<in> set (index_names s)"
    then obtain m t i where t: "(m, t) \<in> set (sc_tables s)" and i: "i \<in> set (tb_indexes t)" "ix_name i = n"
      by (auto simp: index_names_def)
    from c t have "map_of (sc_tables s) m = Some t" by (simp add: covers_def)
    with c i have "n \<in> set is" by (auto simp: covers_def)
    with fresh CreateIndex show False by simp
  qed
  with CreateIndex show ?thesis by simp
next
  case (DropTable name)
  have "n = name \<or> \<not> list_ex (refers_to name) (tb_constraints t)" if t: "(n, t) \<in> set (sc_tables s)" for n t
  proof -
    from c t have "map_of (sc_tables s) n = Some t" by (simp add: covers_def)
    with c have "name \<in> targets_of t \<longrightarrow> (n, name) \<in> set (ol_keys ol)" by (auto simp: covers_def)
    with a DropTable show ?thesis by (cases ol) (auto simp: list_all_iff targets_of_def)
  qed
  with DropTable show ?thesis by (auto simp: list_all_iff)
qed (cases ol, use assms in \<open>auto simp: covers_def\<close>)+

lemma map_of_update: "map_of (AList.update n t ts) = (map_of ts)(n \<mapsto> t)"
  by (rule update_conv')

lemma map_of_delete: "map_of (AList.delete n ts) = (map_of ts)(n := None)"
  by (rule delete_conv')

lemma map_of_set_table: "map_of (set_table n t ts) = (map_of ts)(n := t)"
  by (cases t) (simp_all add: map_of_update map_of_delete)

lemma names_set_table_old:
  "n \<in> fst ` set ts \<Longrightarrow> map fst (set_table n (Some t) ts) = map fst ts"
  by (simp add: update_keys)

lemma names_set_table_new:
  "n \<notin> fst ` set ts \<Longrightarrow> map fst (set_table n (Some t) ts) = map fst ts @ [n]"
  by (simp add: update_keys)

lemma names_set_table_none: "map fst (set_table n None ts) = filter (\<lambda>m. m \<noteq> n) (map fst ts)"
  by (induction ts) (auto simp: AList.delete_eq)

lemma keys_after_targets: "op_table x = Some n \<Longrightarrow> (\<forall>m. x \<noteq> DropTable m) \<Longrightarrow> target \<in> set (op_targets x) \<or> (n, target) \<in> set ks \<Longrightarrow>
    (n, target) \<in> set (keys_after x ks)"
  by (cases x) (auto simp del: op_targets.simps(1,2))

lemma keys_after_other: "op_table x \<noteq> Some m \<Longrightarrow> (m, t) \<in> set ks \<Longrightarrow> (m, t) \<in> set (keys_after x ks)"
  by (cases x) auto

lemma indexes_after_keep: "p \<in> set is \<Longrightarrow> p \<in> set (indexes_after x is)"
  by (cases x) auto

lemma tables_after_none:
  "op_table x = None \<Longrightarrow> tables_after x ns = ns \<and> indexes_after x is = is \<and> keys_after x ks = ks"
  by (cases x) auto

lemma tables_after_old:
  "(\<forall>n. x \<noteq> DropTable n) \<Longrightarrow> (\<forall>n cs ks. x \<noteq> CreateTable n cs ks) \<Longrightarrow> tables_after x ns = ns"
  by (cases x) auto

text \<open>The tables after an operation, as the outline sees them.\<close>

lemma covers_tables:
  assumes c: "covers s ol is" and a: "outline_op x ol = Some ol'" and n: "op_table x = Some n"
    and r: "table_op x (map_of (sc_tables s) n) = Some t'"
  shows "map fst (set_table n t' (sc_tables s)) = ol_tables ol' \<and> distinct (ol_tables ol')"
proof -
  have names: "map fst (sc_tables s) = ol_tables ol" "distinct (ol_tables ol)"
    and after: "ol_tables ol' = tables_after x (ol_tables ol)" and al: "outline_allows x ol"
    using c a by (auto simp: covers_def outline_op_fields split: if_splits)
  show ?thesis
  proof (cases "map_of (sc_tables s) n")
    case None
    with r have "table_op x None = Some t'" by simp
    then obtain m cs ks t where x: "x = CreateTable m cs ks" "t' = Some t" by (rule table_op_new)
    with n al have "n \<notin> set (ol_tables ol)" by (cases ol) simp
    with x n names after show ?thesis
      by (simp add: update_keys del: set_map)
  next
    case (Some t)
    then have n': "n \<in> fst ` set (sc_tables s)" by (force dest: map_of_SomeD)
    from table_op_old[OF r[unfolded Some]] show ?thesis
    proof (elim disjE conjE exE)
      fix m assume "x = DropTable m" "t' = None"
      with n names after show ?thesis by (simp add: names_set_table_none del: set_table.simps)
    next
      fix u assume x: "\<forall>n. x \<noteq> DropTable n" "\<forall>n cs ks. x \<noteq> CreateTable n cs ks" "t' = Some u"
      then show ?thesis
        using names after by (simp only: x(3) names_set_table_old[OF n'] tables_after_old[OF x(1,2)])
    qed
  qed
qed

text \<open>Its indexes and keys stay within the outline.\<close>

lemma covers_contents:
  assumes c: "covers s ol is" and a: "outline_op x ol = Some ol'" and n: "op_table x = Some n"
    and r: "table_op x (map_of (sc_tables s) n) = Some (Some t')"
  shows "(\<forall>i\<in>set (tb_indexes t'). ix_name i \<in> set (indexes_after x is)) \<and>
    (\<forall>target\<in>targets_of t'. (n, target) \<in> set (ol_keys ol'))"
proof -
  have after: "ol_keys ol' = keys_after x (ol_keys ol)"
    using a by (auto simp: outline_op_fields split: if_splits)
  show ?thesis
  proof (cases "map_of (sc_tables s) n")
    case None
    with r have "table_op x None = Some (Some t')" by simp
    then obtain m cs ks where "x = CreateTable m cs ks" "tb_indexes t' = []" "targets_of t' = set (op_targets x)"
      by (rule table_op_new) simp
    moreover from this have "\<forall>m. x \<noteq> DropTable m" by simp
    ultimately show ?thesis using keys_after_targets[OF n] by (simp add: after del: op_targets.simps)
  next
    case (Some t)
    with c have old: "\<And>i. i \<in> set (tb_indexes t) \<Longrightarrow> ix_name i \<in> set is"
        "\<And>k. k \<in> targets_of t \<Longrightarrow> (n, k) \<in> set (ol_keys ol)" by (auto simp: covers_def)
    from table_op_old[OF r[unfolded Some]] have x: "\<forall>n. x \<noteq> DropTable n" "alter_table x t = Some t'" by auto
    have "ix_name i \<in> set (indexes_after x is)" if "i \<in> set (tb_indexes t')" for i
      using alter_table_indexes[OF x(2) that, of "is"] old(1) by (auto intro: indexes_after_keep)
    moreover have "(n, k) \<in> set (ol_keys ol')" if "k \<in> targets_of t'" for k
      unfolding after by (rule keys_after_targets[OF n x(1)]) (use alter_table_targets[OF x(2)] old(2) that in blast)
    ultimately show ?thesis by blast
  qed
qed

lemma covers_step:
  assumes c: "covers s ol is" and a: "outline_op x ol = Some ol'"
    and fresh: "distinct (indexes_after x is)"
    and r: "\<And>n. op_table x = Some n \<Longrightarrow> table_op x (map_of (sc_tables s) n) \<noteq> None"
  obtains s' where "apply_op x s = Some s'" "covers s' ol' (indexes_after x is)"
    "\<And>m. table_op x (map_of (sc_tables s) m) = Some (map_of (sc_tables s') m) \<or> op_table x \<noteq> Some m"
    "\<And>m. op_table x \<noteq> Some m \<Longrightarrow> map_of (sc_tables s') m = map_of (sc_tables s) m"
proof (cases "op_table x")
  case None
  have al: "op_allowed x s" using outline_allows_sound[OF c _ fresh] a by (auto simp: outline_op_fields split: if_splits)
  let ?s' = "\<lparr>sc_tables = sc_tables s, sc_functions = functions_after x (sc_functions s),
              sc_triggers = triggers_after x (sc_triggers s)\<rparr>"
  have "apply_op x s = Some ?s'" by (simp add: apply_op_def None al)
  moreover have "covers ?s' ol' (indexes_after x is)"
    using c a by (auto simp: covers_def outline_op_fields tables_after_none[OF None] split: if_splits)
  ultimately show ?thesis by (rule that) (simp_all add: None)
next
  case (Some n)
  have al: "op_allowed x s" using outline_allows_sound[OF c _ fresh] a by (auto simp: outline_op_fields split: if_splits)
  from r[OF Some] obtain t' where t': "table_op x (map_of (sc_tables s) n) = Some t'" by auto
  let ?s' = "\<lparr>sc_tables = set_table n t' (sc_tables s), sc_functions = functions_after x (sc_functions s),
              sc_triggers = triggers_after x (sc_triggers s)\<rparr>"
  have op: "apply_op x s = Some ?s'" by (simp add: apply_op_def al Some t')
  have "covers ?s' ol' (indexes_after x is)"
    unfolding covers_def
  proof (intro conjI allI impI)
    show "map fst (sc_tables ?s') = ol_tables ol'" "distinct (ol_tables ol')"
      using covers_tables[OF c a Some t'] by simp_all
    show "sc_functions ?s' = ol_functions ol'" "sc_triggers ?s' = ol_triggers ol'"
      using c a by (auto simp: covers_def outline_op_fields split: if_splits)
  next
    fix m t assume m: "map_of (sc_tables ?s') m = Some t"
    have "(\<forall>i\<in>set (tb_indexes t). ix_name i \<in> set (indexes_after x is)) \<and>
        (\<forall>target\<in>targets_of t. (m, target) \<in> set (ol_keys ol'))"
    proof (cases "m = n")
      case True
      with m have "t' = Some t" by (simp add: map_of_set_table)
      with t' covers_contents[OF c a Some] True show ?thesis by simp
    next
      case False
      with m have "map_of (sc_tables s) m = Some t" by (simp add: map_of_set_table)
      with c have "\<forall>i\<in>set (tb_indexes t). ix_name i \<in> set is"
        "\<forall>k\<in>targets_of t. (m, k) \<in> set (ol_keys ol)" by (simp_all add: covers_def)
      moreover have "ol_keys ol' = keys_after x (ol_keys ol)"
        using a by (auto simp: outline_op_fields split: if_splits)
      ultimately show ?thesis using False Some indexes_after_keep keys_after_other[of x m] by simp
    qed
    then show "\<forall>i\<in>set (tb_indexes t). ix_name i \<in> set (indexes_after x is)"
      "\<forall>target\<in>targets_of t. (m, target) \<in> set (ol_keys ol')" by simp_all
  qed
  then show ?thesis
    by (rule that[OF op]) (use Some t' in \<open>auto simp: map_of_set_table\<close>)
qed

section \<open>Runs\<close>

lemma covers_run:
  assumes "covers s ol is" "outline_run xs ol = Some ol'" "distinct (created_indexes xs @ is)"
    and "\<And>n. table_run (about n xs) (map_of (sc_tables s) n) = Some (m n)"
  shows "\<exists>s' js. migrate xs s = Some s' \<and> covers s' ol' js \<and> map_of (sc_tables s') = m"
  using assms
proof (induction xs arbitrary: s ol "is")
  case Nil
  then show ?case by auto
next
  case (Cons x xs)
  from Cons.prems(2) obtain o1 where o1: "outline_op x ol = Some o1" "outline_run xs o1 = Some ol'"
    by (auto split: Option.bind_splits)
  have fresh: "distinct (indexes_after x is)" "distinct (created_indexes xs @ indexes_after x is)"
    using Cons.prems(3) by (cases x; auto)+
  have "table_op x (map_of (sc_tables s) n) \<noteq> None" if "op_table x = Some n" for n
    using Cons.prems(4)[of n] that by (cases "table_op x (map_of (sc_tables s) n)") simp_all
  from covers_step[OF Cons.prems(1) o1(1) fresh(1) this] obtain s1 where s1: "apply_op x s = Some s1"
    "covers s1 o1 (indexes_after x is)"
    "\<And>m. table_op x (map_of (sc_tables s) m) = Some (map_of (sc_tables s1) m) \<or> op_table x \<noteq> Some m"
    "\<And>m. op_table x \<noteq> Some m \<Longrightarrow> map_of (sc_tables s1) m = map_of (sc_tables s) m" by blast
  have "table_run (about n xs) (map_of (sc_tables s1) n) = Some (m n)" for n
  proof (cases "op_table x = Some n")
    case True
    with s1(3)[of n] Cons.prems(4)[of n] show ?thesis by simp
  next
    case False
    with s1(4)[of n] Cons.prems(4)[of n] show ?thesis by simp
  qed
  from Cons.IH[OF s1(2) o1(2) fresh(2) this] s1(1) show ?case by simp
qed

theorem migrate_by_tables:
  assumes "outline_run xs empty_outline = Some ol" "distinct (created_indexes xs)"
    "\<And>n. table_run (about n xs) None = Some (m n)"
  obtains s where "migrate xs empty_schema = Some s" "map fst (sc_tables s) = ol_tables ol"
    "sc_functions s = ol_functions ol" "sc_triggers s = ol_triggers ol" "map_of (sc_tables s) = m"
proof -
  have "covers empty_schema empty_outline []" by (simp add: covers_def empty_schema_def empty_outline_def)
  from covers_run[OF this assms(1), of m] assms(2,3) obtain s js where
    "migrate xs empty_schema = Some s" "covers s ol js" "map_of (sc_tables s) = m"
    by (auto simp: empty_schema_def)
  with that show thesis by (simp add: covers_def)
qed

lemma created_indexes_append: "created_indexes (xs @ ys) = created_indexes xs @ created_indexes ys"
  by (induction xs) simp_all

end
