(* ===== verification/MigrationFacts.thy ===== *)
theory MigrationFacts
  imports Migrations SchemaRuns
begin

text \<open>
  What the schema history leads to: upgraded from nothing, it is the schema the application's models declare, and
  every downgrade undoes its upgrade.  The operations of a table are run on it alone.
\<close>

definition table_history :: "str \<Rightarrow> table \<Rightarrow> bool" where
  "table_history n declared =
    (case table_run (about n head_upgrade) None of
       Some (Some t) \<Rightarrow> same_table t declared \<and> table_run (about n head_downgrade) (Some t) = Some None
     | _ \<Rightarrow> False)"

lemma about_initial:
  "about n initial_events = (if n = ''events'' then initial_events else [])"
  "about n initial_admin_session_locks = (if n = ''admin_session_locks'' then initial_admin_session_locks else [])"
  "about n initial_participants = (if n = ''participants'' then initial_participants else [])"
  "about n initial_photos = (if n = ''photos'' then initial_photos else [])"
  "about n initial_photo_jobs = (if n = ''photo_jobs'' then initial_photo_jobs else [])"
  "about n initial_participant_face_images =
     (if n = ''participant_face_images'' then initial_participant_face_images else [])"
  "about n initial_participant_face_jobs =
     (if n = ''participant_face_jobs'' then initial_participant_face_jobs else [])"
  "about n initial_participant_face_embeddings =
     (if n = ''participant_face_embeddings'' then initial_participant_face_embeddings else [])"
  "about n initial_photo_text_detection = (if n = ''photo_text_detection'' then initial_photo_text_detection else [])"
  "about n initial_photo_participant_matches =
     (if n = ''photo_participant_matches'' then initial_photo_participant_matches else [])"
  "about n initial_photo_face_detections =
     (if n = ''photo_face_detections'' then initial_photo_face_detections else [])"
  "about n initial_face_participant_matches =
     (if n = ''face_participant_matches'' then initial_face_participant_matches else [])"
  "about n initial_face_search_sessions = (if n = ''face_search_sessions'' then initial_face_search_sessions else [])"
  "about n initial_face_search_images = (if n = ''face_search_images'' then initial_face_search_images else [])"
  "about n initial_face_search_jobs = (if n = ''face_search_jobs'' then initial_face_search_jobs else [])"
  "about n initial_face_search_results = (if n = ''face_search_results'' then initial_face_search_results else [])"
  by (rule about_only, code_simp)+

lemma about_hardening:
  "about n hardening_foreign_key = (if n = ''face_search_sessions'' then hardening_foreign_key else [])"
  "about n hardening_events = (if n = ''events'' then hardening_events else [])"
  "about n hardening_photos = (if n = ''photos'' then hardening_photos else [])"
  "about n hardening_photo_jobs = (if n = ''photo_jobs'' then hardening_photo_jobs else [])"
  "about n hardening_participant_face_jobs =
     (if n = ''participant_face_jobs'' then hardening_participant_face_jobs else [])"
  "about n hardening_face_search_jobs = (if n = ''face_search_jobs'' then hardening_face_search_jobs else [])"
  "about n hardening_photo_text_detection =
     (if n = ''photo_text_detection'' then hardening_photo_text_detection else [])"
  "about n hardening_photo_participant_matches =
     (if n = ''photo_participant_matches'' then hardening_photo_participant_matches else [])"
  "about n hardening_participant_face_images =
     (if n = ''participant_face_images'' then hardening_participant_face_images else [])"
  "about n hardening_participant_face_embeddings =
     (if n = ''participant_face_embeddings'' then hardening_participant_face_embeddings else [])"
  "about n hardening_photo_face_detections =
     (if n = ''photo_face_detections'' then hardening_photo_face_detections else [])"
  "about n hardening_face_participant_matches =
     (if n = ''face_participant_matches'' then hardening_face_participant_matches else [])"
  "about n hardening_face_search_images = (if n = ''face_search_images'' then hardening_face_search_images else [])"
  "about n hardening_face_search_results =
     (if n = ''face_search_results'' then hardening_face_search_results else [])"
  "about n hardening_face_search_sessions =
     (if n = ''face_search_sessions'' then hardening_face_search_sessions else [])"
  "about n hardening_object_deletion_tasks =
     (if n = ''object_deletion_tasks'' then hardening_object_deletion_tasks else [])"
  "about n hardening_rate_limit_buckets = (if n = ''rate_limit_buckets'' then hardening_rate_limit_buckets else [])"
  "about n hardening_admin_audit_logs = (if n = ''admin_audit_logs'' then hardening_admin_audit_logs else [])"
  "about n hardening_worker_heartbeats = (if n = ''worker_heartbeats'' then hardening_worker_heartbeats else [])"
  by (rule about_only, code_simp)+

lemma about_hardening_participants:
  "n \<noteq> ''participants'' \<Longrightarrow> about n hardening_participants = []"
  by (rule about_outside[of "[''participants'']"], code_simp) simp

lemmas history_simps = table_history_def head_upgrade_def head_downgrade_def initial_upgrade_def hardening_upgrade_def
  hardening_downgrade_def about_initial about_hardening about_hardening_participants

lemma history_1:
  "table_history ''events'' (snd declared_event)"
  "table_history ''participants'' (snd declared_participant)"
  "table_history ''photos'' (snd declared_photo)"
  "table_history ''photo_jobs'' (snd declared_photo_job)"
  "table_history ''photo_text_detection'' (snd declared_photo_text_detection)"
  by (simp add: history_simps, code_simp)+

lemma history_2:
  "table_history ''photo_participant_matches'' (snd declared_photo_participant_match)"
  "table_history ''participant_face_images'' (snd declared_participant_face_image)"
  "table_history ''participant_face_jobs'' (snd declared_participant_face_job)"
  "table_history ''participant_face_embeddings'' (snd declared_participant_face_embedding)"
  "table_history ''photo_face_detections'' (snd declared_photo_face_detection)"
  by (simp add: history_simps, code_simp)+

lemma history_3:
  "table_history ''face_participant_matches'' (snd declared_face_participant_match)"
  "table_history ''face_search_sessions'' (snd declared_face_search_session)"
  "table_history ''face_search_images'' (snd declared_face_search_image)"
  "table_history ''face_search_jobs'' (snd declared_face_search_job)"
  "table_history ''face_search_results'' (snd declared_face_search_result)"
  by (simp add: history_simps, code_simp)+

lemma history_4:
  "table_history ''object_deletion_tasks'' (snd declared_object_deletion_task)"
  "table_history ''rate_limit_buckets'' (snd declared_rate_limit_bucket)"
  "table_history ''admin_audit_logs'' (snd declared_admin_audit_log)"
  "table_history ''worker_heartbeats'' (snd declared_worker_heartbeat)"
  "table_history ''admin_session_locks'' (snd declared_admin_session_lock)"
  by (simp add: history_simps, code_simp)+

section \<open>The whole history\<close>

definition head_tables :: "str list" where
  "head_tables = [''events'', ''admin_session_locks'', ''participants'', ''photos'', ''photo_jobs'',
     ''participant_face_images'', ''participant_face_jobs'', ''participant_face_embeddings'', ''photo_text_detection'',
     ''photo_participant_matches'', ''photo_face_detections'', ''face_participant_matches'', ''face_search_sessions'',
     ''face_search_images'', ''face_search_jobs'', ''face_search_results'', ''object_deletion_tasks'',
     ''rate_limit_buckets'', ''admin_audit_logs'', ''worker_heartbeats'']"

lemma declared_names:
  "fst declared_event = ''events''" "fst declared_participant = ''participants''" "fst declared_photo = ''photos''"
  "fst declared_photo_job = ''photo_jobs''" "fst declared_photo_text_detection = ''photo_text_detection''"
  "fst declared_photo_participant_match = ''photo_participant_matches''"
  "fst declared_participant_face_image = ''participant_face_images''"
  "fst declared_participant_face_job = ''participant_face_jobs''"
  "fst declared_participant_face_embedding = ''participant_face_embeddings''"
  "fst declared_photo_face_detection = ''photo_face_detections''"
  "fst declared_face_participant_match = ''face_participant_matches''"
  "fst declared_face_search_session = ''face_search_sessions''"
  "fst declared_face_search_image = ''face_search_images''" "fst declared_face_search_job = ''face_search_jobs''"
  "fst declared_face_search_result = ''face_search_results''"
  "fst declared_object_deletion_task = ''object_deletion_tasks''"
  "fst declared_rate_limit_bucket = ''rate_limit_buckets''" "fst declared_admin_audit_log = ''admin_audit_logs''"
  "fst declared_worker_heartbeat = ''worker_heartbeats''"
  "fst declared_admin_session_lock = ''admin_session_locks''"
  by (simp_all add: declare_table_def declared_event_def declared_participant_def declared_photo_def
      declared_photo_job_def declared_photo_text_detection_def declared_photo_participant_match_def
      declared_participant_face_image_def declared_participant_face_job_def declared_participant_face_embedding_def
      declared_photo_face_detection_def declared_face_participant_match_def declared_face_search_session_def
      declared_face_search_image_def declared_face_search_job_def declared_face_search_result_def
      declared_object_deletion_task_def declared_rate_limit_bucket_def declared_admin_audit_log_def
      declared_worker_heartbeat_def declared_admin_session_lock_def)

lemma histories: "list_all (\<lambda>d. table_history (fst d) (snd d)) (sc_tables declared_schema)"
  by (simp add: declared_schema_def declared_names history_1 history_2 history_3 history_4)

lemma same_names: "same_items head_tables (map fst (sc_tables declared_schema))"
  by (simp add: same_items_def declared_schema_def declared_names head_tables_def)

definition scope_triggers :: "trigger list" where
  "scope_triggers = map (\<lambda>(table, columns). \<lparr>tr_name = scope_trigger table, tr_table = table, tr_columns = columns,
     tr_function = ''raceframe_assert_event_scope''\<rparr>) TRIGGER_COLUMNS"

definition outline_history :: bool where
  "outline_history =
    (case outline_run (map sketch head_upgrade) empty_outline of None \<Rightarrow> False
     | Some ol \<Rightarrow> (ol_tables ol = head_tables \<and> ol_functions ol = [''raceframe_assert_event_scope''] \<and>
         ol_triggers ol = scope_triggers) \<and>
        (case outline_run (map sketch head_downgrade) ol of None \<Rightarrow> False
         | Some ol' \<Rightarrow> ol_tables ol' = [] \<and> ol_functions ol' = [] \<and> ol_triggers ol' = []))"

lemma outline_history: outline_history
  unfolding outline_history_def head_upgrade_def head_downgrade_def initial_upgrade_def hardening_upgrade_def
    map_append outline_run_append concat.simps
  by code_simp

lemma indexes_new: "distinct (created_indexes (head_upgrade @ head_downgrade))"
  unfolding head_upgrade_def head_downgrade_def initial_upgrade_def hardening_upgrade_def created_indexes_append
    concat.simps
  by code_simp

lemma head_outline:
  obtains ol ol' where "outline_run head_upgrade empty_outline = Some ol" "ol_tables ol = head_tables"
    "ol_functions ol = [''raceframe_assert_event_scope'']" "ol_triggers ol = scope_triggers"
    "outline_run head_downgrade ol = Some ol'" "ol_tables ol' = []" "ol_functions ol' = []" "ol_triggers ol' = []"
  using outline_history unfolding outline_history_def outline_run_sketch by (auto split: option.splits)

lemma ops_within:
  "list_all (\<lambda>x. case op_table x of None \<Rightarrow> True | Some m \<Rightarrow> m \<in> set head_tables) (head_upgrade @ head_downgrade)"
  unfolding head_upgrade_def head_downgrade_def initial_upgrade_def hardening_upgrade_def list_all_append concat.simps
  by code_simp

text \<open>The run of each table: it ends as declared, and without the table after the downgrade.\<close>

lemma table_histories:
  obtains m where "\<And>n. table_run (about n head_upgrade) None = Some (m n)"
    "\<And>n. table_run (about n head_downgrade) (m n) = Some None"
    "\<And>n. n \<in> set head_tables \<Longrightarrow> \<exists>t v. m n = Some t \<and> map_of (sc_tables declared_schema) n = Some v \<and> same_table t v"
proof -
  have inside: "\<exists>t v. table_run (about n head_upgrade) None = Some (Some t) \<and>
      table_run (about n head_downgrade) (Some t) = Some None \<and>
      map_of (sc_tables declared_schema) n = Some v \<and> same_table t v" if "n \<in> set head_tables" for n
  proof -
    from that same_names have "n \<in> fst ` set (sc_tables declared_schema)" by (auto simp: same_items_def list_all_iff)
    then obtain v where v: "map_of (sc_tables declared_schema) n = Some v"
      by (metis map_of_eq_None_iff not_None_eq)
    with histories map_of_SomeD[OF v] have "table_history n v" by (force simp: list_all_iff)
    with v show ?thesis by (auto simp: table_history_def split: option.splits)
  qed
  have outside: "about n head_upgrade = [] \<and> about n head_downgrade = []" if "n \<notin> set head_tables" for n
    using about_outside[OF ops_within that] by simp
  define m where "m n = the (table_run (about n head_upgrade) None)" for n
  show thesis
  proof (rule that[of m])
    show "table_run (about n head_upgrade) None = Some (m n)" for n
      using inside[of n] outside[of n] by (cases "n \<in> set head_tables") (auto simp: m_def)
    show "table_run (about n head_downgrade) (m n) = Some None" for n
      using inside[of n] outside[of n] by (cases "n \<in> set head_tables") (auto simp: m_def)
    show "\<exists>t v. m n = Some t \<and> map_of (sc_tables declared_schema) n = Some v \<and> same_table t v"
      if "n \<in> set head_tables" for n
      using inside[OF that] by (auto simp: m_def)
  qed
qed

lemma migrate_append: "migrate (xs @ ys) s = Option.bind (migrate xs s) (migrate ys)"
  by (induction xs arbitrary: s) (auto split: option.splits)

text \<open>C21 (equivalence): run on an empty database, the three revisions succeed and leave exactly the schema that the models declare, with
  the same columns, types, nullability, keys, checks and indexes of every table, and a trigger for every table whose
  rows name their event twice.\<close>

theorem migrations_build_models:
  "\<exists>s. migrate head_upgrade empty_schema = Some s \<and> same_tables s declared_schema \<and>
     sc_functions s = [''raceframe_assert_event_scope''] \<and>
     map (\<lambda>r. (tr_table r, tr_columns r)) (sc_triggers s) = TRIGGER_COLUMNS \<and>
     list_all (\<lambda>r. tr_function r = ''raceframe_assert_event_scope'') (sc_triggers s)"
proof -
  obtain ol ol' where ol: "outline_run head_upgrade empty_outline = Some ol" "ol_tables ol = head_tables"
    "ol_functions ol = [''raceframe_assert_event_scope'']" "ol_triggers ol = scope_triggers" by (rule head_outline)
  obtain m where m: "\<And>n. table_run (about n head_upgrade) None = Some (m n)"
    "\<And>n. n \<in> set head_tables \<Longrightarrow> \<exists>t v. m n = Some t \<and> map_of (sc_tables declared_schema) n = Some v \<and> same_table t v"
    by (rule table_histories) blast
  obtain s where s: "migrate head_upgrade empty_schema = Some s" "map fst (sc_tables s) = ol_tables ol"
    "sc_functions s = ol_functions ol" "sc_triggers s = ol_triggers ol" "map_of (sc_tables s) = m"
    by (rule migrate_by_tables[OF ol(1) _ m(1)]) (use indexes_new in \<open>simp add: created_indexes_append\<close>)
  have "same_tables s declared_schema"
    using m(2) same_names by (fastforce simp: same_tables_def s ol list_all_iff)
  with s ol show ?thesis by (auto simp: scope_triggers_def split_def comp_def list_all_iff)
qed


end
