(* ===== verification/MigrationRows.thy ===== *)
theory MigrationRows
  imports Matching
begin

text \<open>
  What revision 0002 (\<^verbatim>\<open>20260718_0002_production_hardening.py\<close>) does to rows: the queries that stop it, the scores it
  clamps, the lookup columns it fills, and the trigger function it leaves behind.  The statuses of a row are
  datatypes here, so \<^verbatim>\<open>_reject_unknown_values\<close> never finds anything; the rest of the preflight does.  The SQL
  functions are those of PostgreSQL on ASCII text.
\<close>

section \<open>The preflight\<close>

definition outside :: "real \<Rightarrow> real \<Rightarrow> real option \<Rightarrow> bool" where
  "outside lo hi x = (case x of None \<Rightarrow> False | Some v \<Rightarrow> v < lo \<or> hi < v)"

definition value_checks :: "db \<Rightarrow> (str \<times> bool) list" where
  "value_checks d =
    [(''photos has non-positive file_size'', list_ex (\<lambda>p. ph_file_size p \<le> 0) (photos d)),
     (''participant_face_images has non-positive file_size'', list_ex (\<lambda>i. fi_file_size i \<le> 0) (face_images d)),
     (''face_search_images has non-positive file_size'', list_ex (\<lambda>i. si_file_size i \<le> 0) (search_images d)),
     (''photo_text_detection confidence is outside [0,1]'',
        list_ex (\<lambda>t. outside 0 1 (td_confidence t)) (text_detections d)),
     (''photo_participant_matches confidence is outside [-1,1]'',
        list_ex (\<lambda>m. outside (- 1) 1 (pm_confidence m)) (photo_matches d)),
     (''photo_face_detections contains invalid indexes or scores'',
        list_ex (\<lambda>f. fd_face_index f < 0 \<or> outside 0 1 (fd_detection_score f) \<or> outside 0 1 (fd_quality_score f))
          (face_detections d))]"

text \<open>\<^verbatim>\<open>greatest(-1.0, least(1.0, similarity_score))\<close> of the scores within a rounding error of the range.\<close>

definition clamp_score :: "real \<Rightarrow> real" where
  "clamp_score x = (if 1 < x \<and> x \<le> 1 + 1 / 1000000000 \<or> x < - 1 \<and> - 1 - 1 / 1000000000 \<le> x
     then max (- 1) (min 1 x) else x)"

definition clamp_scores :: "db \<Rightarrow> db" where
  "clamp_scores d = d\<lparr>
     face_matches := map (\<lambda>m. m\<lparr>fm_similarity_score := clamp_score (fm_similarity_score m)\<rparr>) (face_matches d),
     search_results := map (\<lambda>r. r\<lparr>sr_similarity_score := clamp_score (sr_similarity_score r)\<rparr>) (search_results d)\<rparr>"

definition score_checks :: "db \<Rightarrow> (str \<times> bool) list" where
  "score_checks d =
    [(''face_participant_matches similarity is outside [-1,1]'',
        list_ex (\<lambda>m. fm_similarity_score m < - 1 \<or> 1 < fm_similarity_score m) (face_matches d)),
     (''face_search_results similarity is outside [-1,1]'',
        list_ex (\<lambda>r. sr_similarity_score r < - 1 \<or> 1 < sr_similarity_score r) (search_results d)),
     (''participant_face_embeddings has duplicate face_image_id values'',
        \<not> distinct (map fe_face_image_id (face_embeddings d)))]"

text \<open>The photo of a photo job; the session and the image of a search job.\<close>

fun job_photo :: "job \<Rightarrow> uuid option" where
  "job_photo j = (case j_parent j of OfPhoto p \<Rightarrow> Some p | _ \<Rightarrow> None)"

fun job_search :: "job \<Rightarrow> (uuid \<times> uuid \<times> uuid) option" where
  "job_search j = (case j_parent j of OfSearch e s i \<Rightarrow> Some (e, s, i) | _ \<Rightarrow> None)"

definition cross_event_checks_of :: "db \<Rightarrow> (str \<times> bool) list" where
  "cross_event_checks_of d =
    [(''face_search_sessions contains a cross-event participant reference'',
        list_ex (\<lambda>s. list_ex (\<lambda>p. fs_participant_id s = Some (pa_id p) \<and> fs_event_id s \<noteq> pa_event_id p)
          (participants d)) (search_sessions d)),
     (''photo_participant_matches contains cross-event references'',
        list_ex (\<lambda>m. list_ex (\<lambda>p. ph_id p = pm_photo_id m \<and> list_ex (\<lambda>r. pa_id r = pm_participant_id m \<and>
          (pm_event_id m \<noteq> ph_event_id p \<or> pm_event_id m \<noteq> pa_event_id r)) (participants d)) (photos d)) (photo_matches d)),
     (''photo_face_detections contains cross-event or cross-photo references'',
        list_ex (\<lambda>f. list_ex (\<lambda>p. ph_id p = fd_photo_id f \<and> list_ex (\<lambda>j. j_id j = fd_photo_job_id f \<and>
          (fd_event_id f \<noteq> ph_event_id p \<or> job_photo j \<noteq> Some (fd_photo_id f))) (photo_jobs d)) (photos d))
          (face_detections d)),
     (''face_participant_matches contains cross-event references'',
        list_ex (\<lambda>m. list_ex (\<lambda>p. ph_id p = fm_photo_id m \<and> list_ex (\<lambda>r. pa_id r = fm_participant_id m \<and>
          list_ex (\<lambda>f. fd_id f = fm_detection_id m \<and> (fm_event_id m \<noteq> ph_event_id p \<or> fm_event_id m \<noteq> pa_event_id r \<or>
            fm_event_id m \<noteq> fd_event_id f \<or> fm_photo_id m \<noteq> fd_photo_id f)) (face_detections d))
          (participants d)) (photos d)) (face_matches d)),
     (''face_search_images contains cross-event references'',
        list_ex (\<lambda>i. list_ex (\<lambda>s. fs_id s = si_search_session_id i \<and> si_event_id i \<noteq> fs_event_id s)
          (search_sessions d)) (search_images d)),
     (''face_search_jobs contains cross-event or cross-session references'',
        list_ex (\<lambda>j. case job_search j of None \<Rightarrow> False | Some (e, session, img) \<Rightarrow>
          list_ex (\<lambda>s. fs_id s = session \<and> list_ex (\<lambda>i. si_id i = img \<and>
            (e \<noteq> fs_event_id s \<or> e \<noteq> si_event_id i \<or> session \<noteq> si_search_session_id i)) (search_images d))
          (search_sessions d)) (face_search_jobs d)),
     (''face_search_results contains cross-event references'',
        list_ex (\<lambda>r. list_ex (\<lambda>s. fs_id s = sr_search_session_id r \<and> list_ex (\<lambda>p. ph_id p = sr_photo_id r \<and>
          list_ex (\<lambda>f. fd_id f = sr_detection_id r \<and> (sr_event_id r \<noteq> fs_event_id s \<or> sr_event_id r \<noteq> ph_event_id p \<or>
            sr_event_id r \<noteq> fd_event_id f \<or> sr_photo_id r \<noteq> fd_photo_id f)) (face_detections d))
          (photos d)) (search_sessions d)) (search_results d))]"

text \<open>The first check that finds a row stops the migration with its description.\<close>

fun first_failure :: "(str \<times> bool) list \<Rightarrow> str option" where
  "first_failure [] = None"
| "first_failure ((description, found) # checks) = (if found then Some description else first_failure checks)"

definition preflight_rows :: "db \<Rightarrow> str + db" where
  "preflight_rows d =
    (case first_failure (value_checks d) of
       Some e \<Rightarrow> Inl e
     | None \<Rightarrow> let d' = clamp_scores d
         in case first_failure (score_checks d' @ cross_event_checks_of d') of Some e \<Rightarrow> Inl e | None \<Rightarrow> Inr d')"

section \<open>The lookup columns\<close>

text \<open>
  \<^verbatim>\<open>left(regexp_replace(upper(bib_number), '[^A-Z0-9]+', '', 'g'), 64)\<close>, and for names \<^verbatim>\<open>btrim\<close>, which takes blanks
  only, before every run of \<^verbatim>\<open>[[:space:]]\<close> becomes one blank.
\<close>

definition sql_space :: "char \<Rightarrow> bool" where
  "sql_space c \<longleftrightarrow> char_code c = 32 \<or> (9 \<le> char_code c \<and> char_code c \<le> 13)"

fun collapse :: "str \<Rightarrow> str" where
  "collapse [] = []"
| "collapse (c # cs) = (if \<not> sql_space c then c # collapse cs
     else case cs of [] \<Rightarrow> '' '' | b # _ \<Rightarrow> if sql_space b then collapse cs else CHR 32 # collapse cs)"

definition sql_bib_lookup :: "str \<Rightarrow> str" where
  "sql_bib_lookup bib_number = take 64 (filter is_upper_or_digit (upper bib_number))"

definition sql_name_lookup :: "str \<Rightarrow> str" where
  "sql_name_lookup full_name = take 255 (lower (collapse (strip_chars (\<lambda>c. c = CHR 32) full_name)))"

definition fill_lookups :: "participant list \<Rightarrow> str + participant list" where
  "fill_lookups ps =
    (let ps' = map (\<lambda>p. p\<lparr>pa_bib_lookup := sql_bib_lookup (pa_bib_number p),
                          pa_name_lookup := sql_name_lookup (pa_full_name p)\<rparr>) ps
     in if list_ex (\<lambda>p. pa_bib_lookup p = []) ps' then Inl ''participants contains a bib that has no ASCII letters or digits''
        else if \<not> distinct (map (\<lambda>p. (pa_event_id p, pa_bib_lookup p)) ps')
          then Inl ''participants contains duplicate normalized bib values within an event''
        else Inr ps')"

section \<open>The trigger\<close>

text \<open>\<^verbatim>\<open>raceframe_assert_event_scope\<close>, one function per table: the row it accepts.\<close>

definition photo_match_scoped :: "db \<Rightarrow> photo_match \<Rightarrow> bool" where
  "photo_match_scoped d m \<longleftrightarrow> list_ex (\<lambda>p. list_ex (\<lambda>r. ph_id p = pm_photo_id m \<and> pa_id r = pm_participant_id m \<and>
     ph_event_id p = pm_event_id m \<and> pa_event_id r = pm_event_id m) (participants d)) (photos d)"

definition face_detection_scoped :: "db \<Rightarrow> face_detection \<Rightarrow> bool" where
  "face_detection_scoped d f \<longleftrightarrow> list_ex (\<lambda>p. list_ex (\<lambda>j. job_photo j = Some (ph_id p) \<and> ph_id p = fd_photo_id f \<and>
     j_id j = fd_photo_job_id f \<and> ph_event_id p = fd_event_id f) (photo_jobs d)) (photos d)"

definition face_match_scoped :: "db \<Rightarrow> face_match \<Rightarrow> bool" where
  "face_match_scoped d m \<longleftrightarrow> list_ex (\<lambda>p. list_ex (\<lambda>f. fd_photo_id f = ph_id p \<and> list_ex (\<lambda>r.
     pa_event_id r = ph_event_id p \<and> ph_id p = fm_photo_id m \<and> fd_id f = fm_detection_id m \<and>
     pa_id r = fm_participant_id m \<and> ph_event_id p = fm_event_id m \<and> fd_event_id f = fm_event_id m)
     (participants d)) (face_detections d)) (photos d)"

definition search_image_scoped :: "db \<Rightarrow> search_image \<Rightarrow> bool" where
  "search_image_scoped d i \<longleftrightarrow>
     list_ex (\<lambda>s. fs_id s = si_search_session_id i \<and> fs_event_id s = si_event_id i) (search_sessions d)"

definition search_job_scoped :: "db \<Rightarrow> job \<Rightarrow> bool" where
  "search_job_scoped d j \<longleftrightarrow> (case job_search j of None \<Rightarrow> False | Some (e, session, img) \<Rightarrow>
     list_ex (\<lambda>s. list_ex (\<lambda>i. si_search_session_id i = fs_id s \<and> fs_id s = session \<and> si_id i = img \<and>
       fs_event_id s = e \<and> si_event_id i = e) (search_images d)) (search_sessions d))"

definition search_result_scoped :: "db \<Rightarrow> search_result \<Rightarrow> bool" where
  "search_result_scoped d r \<longleftrightarrow> list_ex (\<lambda>s. list_ex (\<lambda>p. ph_event_id p = fs_event_id s \<and> list_ex (\<lambda>f.
     fd_photo_id f = ph_id p \<and> fs_id s = sr_search_session_id r \<and> ph_id p = sr_photo_id r \<and>
     fd_id f = sr_detection_id r \<and> fs_event_id s = sr_event_id r \<and> fd_event_id f = sr_event_id r)
     (face_detections d)) (photos d)) (search_sessions d)"

definition event_scope :: "db \<Rightarrow> bool" where
  "event_scope d \<longleftrightarrow> list_all (photo_match_scoped d) (photo_matches d) \<and>
     list_all (face_detection_scoped d) (face_detections d) \<and> list_all (face_match_scoped d) (face_matches d) \<and>
     list_all (search_image_scoped d) (search_images d) \<and> list_all (search_job_scoped d) (face_search_jobs d) \<and>
     list_all (search_result_scoped d) (search_results d)"

end
