(* ===== verification/MigrationRowFacts.thy ===== *)
theory MigrationRowFacts
  imports MigrationRows
begin

text \<open>
  The row checks of revision 0002 against the trigger it installs, and its SQL lookups against the functions of the
  application.
\<close>

section \<open>References\<close>

definition identified :: "('a \<Rightarrow> uuid) \<Rightarrow> uuid \<Rightarrow> 'a list \<Rightarrow> bool" where
  "identified key k xs \<longleftrightarrow> k \<in> set (map key xs)"

text \<open>Primary keys, and the foreign keys that revision 0001 declares.\<close>

definition keys_hold :: "db \<Rightarrow> bool" where
  "keys_hold d \<longleftrightarrow>
     (distinct (map ph_id (photos d)) \<and> distinct (map pa_id (participants d)) \<and> distinct (map j_id (photo_jobs d)) \<and>
      distinct (map fd_id (face_detections d)) \<and> distinct (map fs_id (search_sessions d)) \<and>
      distinct (map si_id (search_images d))) \<and>
     list_all (\<lambda>m. identified ph_id (pm_photo_id m) (photos d) \<and> identified pa_id (pm_participant_id m) (participants d))
       (photo_matches d) \<and>
     list_all (\<lambda>f. identified ph_id (fd_photo_id f) (photos d) \<and> identified j_id (fd_photo_job_id f) (photo_jobs d))
       (face_detections d) \<and>
     list_all (\<lambda>m. identified ph_id (fm_photo_id m) (photos d) \<and> identified pa_id (fm_participant_id m) (participants d) \<and>
       identified fd_id (fm_detection_id m) (face_detections d)) (face_matches d) \<and>
     list_all (\<lambda>i. identified fs_id (si_search_session_id i) (search_sessions d)) (search_images d) \<and>
     list_all (\<lambda>j. case job_search j of None \<Rightarrow> False | Some (_, s, i) \<Rightarrow>
       identified fs_id s (search_sessions d) \<and> identified si_id i (search_images d)) (face_search_jobs d) \<and>
     list_all (\<lambda>r. identified fs_id (sr_search_session_id r) (search_sessions d) \<and>
       identified ph_id (sr_photo_id r) (photos d) \<and> identified fd_id (sr_detection_id r) (face_detections d))
       (search_results d)"

lemma identifiedE:
  assumes "identified key k xs" "distinct (map key xs)"
  obtains x where "\<And>P. list_ex (\<lambda>y. key y = k \<and> P y) xs \<longleftrightarrow> P x" "x \<in> set xs" "key x = k"
proof -
  from assms(1) obtain x where x: "x \<in> set xs" "key x = k" by (auto simp: identified_def)
  have "list_ex (\<lambda>y. key y = k \<and> P y) xs \<longleftrightarrow> P x" for P
    using x assms(2) by (auto simp: list_ex_iff distinct_map dest: inj_onD)
  with x that show thesis by blast
qed

definition sessions_scoped :: "db \<Rightarrow> bool" where
  "sessions_scoped d \<longleftrightarrow> list_all (\<lambda>s. list_all (\<lambda>p. fs_participant_id s = Some (pa_id p) \<longrightarrow>
     fs_event_id s = pa_event_id p) (participants d)) (search_sessions d)"

lemma photo_match_scoped_iff:
  assumes "identified ph_id (pm_photo_id m) (photos d)" "identified pa_id (pm_participant_id m) (participants d)"
    and "distinct (map ph_id (photos d))" "distinct (map pa_id (participants d))"
  shows "photo_match_scoped d m \<longleftrightarrow> \<not> list_ex (\<lambda>p. ph_id p = pm_photo_id m \<and> list_ex (\<lambda>r. pa_id r = pm_participant_id m \<and>
          (pm_event_id m \<noteq> ph_event_id p \<or> pm_event_id m \<noteq> pa_event_id r)) (participants d)) (photos d)"
proof -
  obtain p where p: "\<And>P. list_ex (\<lambda>y. ph_id y = pm_photo_id m \<and> P y) (photos d) \<longleftrightarrow> P p" "p \<in> set (photos d)"
    "ph_id p = pm_photo_id m" by (rule identifiedE[OF assms(1,3)]) (rule that)
  obtain r where r: "\<And>P. list_ex (\<lambda>y. pa_id y = pm_participant_id m \<and> P y) (participants d) \<longleftrightarrow> P r"
    "r \<in> set (participants d)" "pa_id r = pm_participant_id m" by (rule identifiedE[OF assms(2,4)]) (rule that)
  have "photo_match_scoped d m \<longleftrightarrow> list_ex (\<lambda>p. ph_id p = pm_photo_id m \<and> list_ex (\<lambda>r. pa_id r = pm_participant_id m \<and>
     (ph_event_id p = pm_event_id m \<and> pa_event_id r = pm_event_id m)) (participants d)) (photos d)"
    by (auto simp: photo_match_scoped_def list_ex_iff)
  then show ?thesis by (simp add: p(1) r(1)) auto
qed

lemma face_detection_scoped_iff:
  assumes "identified ph_id (fd_photo_id f) (photos d)" "identified j_id (fd_photo_job_id f) (photo_jobs d)"
    and "distinct (map ph_id (photos d))" "distinct (map j_id (photo_jobs d))"
  shows "face_detection_scoped d f \<longleftrightarrow> \<not> list_ex (\<lambda>p. ph_id p = fd_photo_id f \<and> list_ex (\<lambda>j. j_id j = fd_photo_job_id f \<and>
          (fd_event_id f \<noteq> ph_event_id p \<or> job_photo j \<noteq> Some (fd_photo_id f))) (photo_jobs d)) (photos d)"
proof -
  obtain p where p: "\<And>P. list_ex (\<lambda>y. ph_id y = fd_photo_id f \<and> P y) (photos d) \<longleftrightarrow> P p" "p \<in> set (photos d)"
    "ph_id p = fd_photo_id f" by (rule identifiedE[OF assms(1,3)]) (rule that)
  obtain j where j: "\<And>P. list_ex (\<lambda>y. j_id y = fd_photo_job_id f \<and> P y) (photo_jobs d) \<longleftrightarrow> P j"
    "j \<in> set (photo_jobs d)" "j_id j = fd_photo_job_id f" by (rule identifiedE[OF assms(2,4)]) (rule that)
  have "face_detection_scoped d f \<longleftrightarrow> list_ex (\<lambda>p. ph_id p = fd_photo_id f \<and> list_ex (\<lambda>j. j_id j = fd_photo_job_id f \<and>
     (job_photo j = Some (ph_id p) \<and> ph_event_id p = fd_event_id f)) (photo_jobs d)) (photos d)"
    by (auto simp: face_detection_scoped_def list_ex_iff simp del: job_photo.simps)
  then show ?thesis by (simp add: p j(1) del: job_photo.simps) auto
qed

lemma face_match_scoped_iff:
  assumes "identified ph_id (fm_photo_id m) (photos d)" "identified pa_id (fm_participant_id m) (participants d)"
      "identified fd_id (fm_detection_id m) (face_detections d)"
    and "distinct (map ph_id (photos d))" "distinct (map pa_id (participants d))" "distinct (map fd_id (face_detections d))"
  shows "face_match_scoped d m \<longleftrightarrow> \<not> list_ex (\<lambda>p. ph_id p = fm_photo_id m \<and> list_ex (\<lambda>r. pa_id r = fm_participant_id m \<and>
          list_ex (\<lambda>f. fd_id f = fm_detection_id m \<and> (fm_event_id m \<noteq> ph_event_id p \<or> fm_event_id m \<noteq> pa_event_id r \<or>
            fm_event_id m \<noteq> fd_event_id f \<or> fm_photo_id m \<noteq> fd_photo_id f)) (face_detections d))
          (participants d)) (photos d)"
proof -
  obtain p where p: "\<And>P. list_ex (\<lambda>y. ph_id y = fm_photo_id m \<and> P y) (photos d) \<longleftrightarrow> P p" "p \<in> set (photos d)"
    "ph_id p = fm_photo_id m" by (rule identifiedE[OF assms(1,4)]) (rule that)
  obtain r where r: "\<And>P. list_ex (\<lambda>y. pa_id y = fm_participant_id m \<and> P y) (participants d) \<longleftrightarrow> P r"
    "r \<in> set (participants d)" "pa_id r = fm_participant_id m" by (rule identifiedE[OF assms(2,5)]) (rule that)
  obtain f where f: "\<And>P. list_ex (\<lambda>y. fd_id y = fm_detection_id m \<and> P y) (face_detections d) \<longleftrightarrow> P f"
    "f \<in> set (face_detections d)" "fd_id f = fm_detection_id m" by (rule identifiedE[OF assms(3,6)]) (rule that)
  let ?ok = "fd_photo_id f = ph_id p \<and> pa_event_id r = ph_event_id p \<and> ph_event_id p = fm_event_id m \<and>
    fd_event_id f = fm_event_id m"
  have "face_match_scoped d m \<longleftrightarrow> ?ok"
  proof
    assume "face_match_scoped d m"
    then obtain p' f' r' where w: "p' \<in> set (photos d)" "f' \<in> set (face_detections d)" "r' \<in> set (participants d)"
      "fd_photo_id f' = ph_id p'" "pa_event_id r' = ph_event_id p'" "ph_id p' = fm_photo_id m"
      "fd_id f' = fm_detection_id m" "pa_id r' = fm_participant_id m" "ph_event_id p' = fm_event_id m"
      "fd_event_id f' = fm_event_id m" by (auto simp: face_match_scoped_def list_ex_iff)
    have "p = p'" using p(1)[of "\<lambda>y. y = p'"] w(1,6) by (auto simp: list_ex_iff)
    moreover have "r = r'" using r(1)[of "\<lambda>y. y = r'"] w(3,8) by (auto simp: list_ex_iff)
    moreover have "f = f'" using f(1)[of "\<lambda>y. y = f'"] w(2,7) by (auto simp: list_ex_iff)
    ultimately show ?ok using w by simp
  next
    assume ?ok
    with p(2,3) r(2,3) f(2,3) show "face_match_scoped d m"
      unfolding face_match_scoped_def list_ex_iff by (intro bexI[of _ p] bexI[of _ f] bexI[of _ r] conjI) simp_all
  qed
  moreover have "ph_id p = fd_photo_id f \<longleftrightarrow> fm_photo_id m = fd_photo_id f" using p(3) by simp
  ultimately show ?thesis unfolding p(1) r(1) f(1) using p(3) by argo
qed

lemma search_image_scoped_iff:
  assumes "identified fs_id (si_search_session_id i) (search_sessions d)" "distinct (map fs_id (search_sessions d))"
  shows "search_image_scoped d i \<longleftrightarrow>
    \<not> list_ex (\<lambda>s. fs_id s = si_search_session_id i \<and> si_event_id i \<noteq> fs_event_id s) (search_sessions d)"
proof -
  obtain s where s: "\<And>P. list_ex (\<lambda>y. fs_id y = si_search_session_id i \<and> P y) (search_sessions d) \<longleftrightarrow> P s"
    by (rule identifiedE[OF assms]) (rule that)
  show ?thesis unfolding search_image_scoped_def s by auto
qed

lemma search_job_scoped_iff:
  assumes j: "job_search j = Some (e, session, img)"
    and "identified fs_id session (search_sessions d)" "identified si_id img (search_images d)"
    and "distinct (map fs_id (search_sessions d))" "distinct (map si_id (search_images d))"
  shows "search_job_scoped d j \<longleftrightarrow> \<not> list_ex (\<lambda>s. fs_id s = session \<and> list_ex (\<lambda>i. si_id i = img \<and>
            (e \<noteq> fs_event_id s \<or> e \<noteq> si_event_id i \<or> session \<noteq> si_search_session_id i)) (search_images d))
          (search_sessions d)"
proof -
  obtain s where s: "\<And>P. list_ex (\<lambda>y. fs_id y = session \<and> P y) (search_sessions d) \<longleftrightarrow> P s" "fs_id s = session"
    by (rule identifiedE[OF assms(2,4)]) (rule that)
  obtain i where i: "\<And>P. list_ex (\<lambda>y. si_id y = img \<and> P y) (search_images d) \<longleftrightarrow> P i"
    by (rule identifiedE[OF assms(3,5)]) (rule that)
  have "search_job_scoped d j \<longleftrightarrow> list_ex (\<lambda>s. fs_id s = session \<and> list_ex (\<lambda>i. si_id i = img \<and>
     (si_search_session_id i = fs_id s \<and> fs_event_id s = e \<and> si_event_id i = e)) (search_images d)) (search_sessions d)"
    by (auto simp: search_job_scoped_def j list_ex_iff simp del: job_search.simps)
  then show ?thesis by (auto simp: s i simp del: job_search.simps)
qed

lemma search_result_scoped_iff:
  assumes "identified fs_id (sr_search_session_id r) (search_sessions d)" "identified ph_id (sr_photo_id r) (photos d)"
      "identified fd_id (sr_detection_id r) (face_detections d)"
    and "distinct (map fs_id (search_sessions d))" "distinct (map ph_id (photos d))" "distinct (map fd_id (face_detections d))"
  shows "search_result_scoped d r \<longleftrightarrow> \<not> list_ex (\<lambda>s. fs_id s = sr_search_session_id r \<and> list_ex (\<lambda>p. ph_id p = sr_photo_id r \<and>
          list_ex (\<lambda>f. fd_id f = sr_detection_id r \<and> (sr_event_id r \<noteq> fs_event_id s \<or> sr_event_id r \<noteq> ph_event_id p \<or>
            sr_event_id r \<noteq> fd_event_id f \<or> sr_photo_id r \<noteq> fd_photo_id f)) (face_detections d))
          (photos d)) (search_sessions d)"
proof -
  obtain s where s: "\<And>P. list_ex (\<lambda>y. fs_id y = sr_search_session_id r \<and> P y) (search_sessions d) \<longleftrightarrow> P s"
    by (rule identifiedE[OF assms(1,4)]) (rule that)
  obtain p where p: "\<And>P. list_ex (\<lambda>y. ph_id y = sr_photo_id r \<and> P y) (photos d) \<longleftrightarrow> P p" "ph_id p = sr_photo_id r"
    by (rule identifiedE[OF assms(2,5)]) (rule that)
  obtain f where f: "\<And>P. list_ex (\<lambda>y. fd_id y = sr_detection_id r \<and> P y) (face_detections d) \<longleftrightarrow> P f"
    by (rule identifiedE[OF assms(3,6)]) (rule that)
  have "search_result_scoped d r \<longleftrightarrow> list_ex (\<lambda>s. fs_id s = sr_search_session_id r \<and> list_ex (\<lambda>p. ph_id p = sr_photo_id r \<and>
     list_ex (\<lambda>f. fd_id f = sr_detection_id r \<and> (ph_event_id p = fs_event_id s \<and> fd_photo_id f = ph_id p \<and>
       fs_event_id s = sr_event_id r \<and> fd_event_id f = sr_event_id r)) (face_detections d)) (photos d)) (search_sessions d)"
    unfolding search_result_scoped_def list_ex_iff by blast
  then show ?thesis by (auto simp: s p f)
qed

section \<open>What a passed preflight establishes\<close>

text \<open>The check constraints and the unique key that the revision then adds.\<close>

definition in_range :: "real \<Rightarrow> real \<Rightarrow> real option \<Rightarrow> bool" where
  "in_range lo hi x = (case x of None \<Rightarrow> True | Some v \<Rightarrow> lo \<le> v \<and> v \<le> hi)"

definition new_constraints_hold :: "db \<Rightarrow> bool" where
  "new_constraints_hold d \<longleftrightarrow>
     list_all (\<lambda>p. 0 < ph_file_size p) (photos d) \<and> list_all (\<lambda>i. 0 < fi_file_size i) (face_images d) \<and>
     list_all (\<lambda>i. 0 < si_file_size i) (search_images d) \<and>
     list_all (\<lambda>t. in_range 0 1 (td_confidence t)) (text_detections d) \<and>
     list_all (\<lambda>m. in_range (- 1) 1 (pm_confidence m)) (photo_matches d) \<and>
     list_all (\<lambda>f. 0 \<le> fd_face_index f \<and> in_range 0 1 (fd_detection_score f) \<and> in_range 0 1 (fd_quality_score f))
       (face_detections d) \<and>
     list_all (\<lambda>m. in_range (- 1) 1 (Some (fm_similarity_score m))) (face_matches d) \<and>
     list_all (\<lambda>r. in_range (- 1) 1 (Some (sr_similarity_score r))) (search_results d) \<and>
     distinct (map fe_face_image_id (face_embeddings d))"

lemma first_failure_None: "first_failure checks = None \<longleftrightarrow> list_all (\<lambda>(_, found). \<not> found) checks"
  by (induction checks rule: first_failure.induct) auto

lemma not_list_ex: "\<not> list_ex P xs \<longleftrightarrow> list_all (\<lambda>x. \<not> P x) xs"
  by (induction xs) auto

lemma in_range_outside: "in_range lo hi x \<longleftrightarrow> \<not> outside lo hi x"
  by (auto simp: in_range_def outside_def split: option.splits)

lemma outside_Some: "outside lo hi (Some x) \<longleftrightarrow> x < lo \<or> hi < x"
  by (simp add: outside_def)

lemma value_checks_pass:
  "first_failure (value_checks d) = None \<and> first_failure (score_checks (clamp_scores d)) = None \<longleftrightarrow>
     new_constraints_hold (clamp_scores d)"
  unfolding first_failure_None value_checks_def score_checks_def new_constraints_hold_def in_range_outside
  by (simp add: not_list_ex clamp_scores_def outside_Some not_less not_le conj_ac)

lemma keys_hold_clamp: "keys_hold (clamp_scores d) = keys_hold d"
  by (simp add: keys_hold_def clamp_scores_def list.pred_map comp_def cong: option.case_cong prod.case_cong)

lemma cross_event_checks_pass:
  assumes "keys_hold d"
  shows "first_failure (cross_event_checks_of d) = None \<longleftrightarrow> sessions_scoped d \<and> event_scope d"
proof -
  have keys: "distinct (map ph_id (photos d))" "distinct (map pa_id (participants d))" "distinct (map j_id (photo_jobs d))"
      "distinct (map fd_id (face_detections d))" "distinct (map fs_id (search_sessions d))"
      "distinct (map si_id (search_images d))"
    using assms by (simp_all add: keys_hold_def)
  have photo_match: "photo_match_scoped d m \<longleftrightarrow> \<not> list_ex (\<lambda>p. ph_id p = pm_photo_id m \<and> list_ex (\<lambda>r. pa_id r = pm_participant_id m \<and>
          (pm_event_id m \<noteq> ph_event_id p \<or> pm_event_id m \<noteq> pa_event_id r)) (participants d)) (photos d)"
    if "m \<in> set (photo_matches d)" for m
    by (rule photo_match_scoped_iff) (use assms that keys in \<open>auto simp: keys_hold_def list_all_iff\<close>)
  have detection: "face_detection_scoped d f \<longleftrightarrow> \<not> list_ex (\<lambda>p. ph_id p = fd_photo_id f \<and> list_ex (\<lambda>j. j_id j = fd_photo_job_id f \<and>
          (fd_event_id f \<noteq> ph_event_id p \<or> job_photo j \<noteq> Some (fd_photo_id f))) (photo_jobs d)) (photos d)"
    if "f \<in> set (face_detections d)" for f
    by (rule face_detection_scoped_iff) (use assms that keys in \<open>auto simp: keys_hold_def list_all_iff\<close>)
  have face_match: "face_match_scoped d m \<longleftrightarrow> \<not> list_ex (\<lambda>p. ph_id p = fm_photo_id m \<and> list_ex (\<lambda>r. pa_id r = fm_participant_id m \<and>
          list_ex (\<lambda>f. fd_id f = fm_detection_id m \<and> (fm_event_id m \<noteq> ph_event_id p \<or> fm_event_id m \<noteq> pa_event_id r \<or>
            fm_event_id m \<noteq> fd_event_id f \<or> fm_photo_id m \<noteq> fd_photo_id f)) (face_detections d))
          (participants d)) (photos d)"
    if "m \<in> set (face_matches d)" for m
    by (rule face_match_scoped_iff) (use assms that keys in \<open>auto simp: keys_hold_def list_all_iff\<close>)
  have search_image: "search_image_scoped d i \<longleftrightarrow>
      \<not> list_ex (\<lambda>s. fs_id s = si_search_session_id i \<and> si_event_id i \<noteq> fs_event_id s) (search_sessions d)"
    if "i \<in> set (search_images d)" for i
    by (rule search_image_scoped_iff) (use assms that keys in \<open>auto simp: keys_hold_def list_all_iff\<close>)
  have result: "search_result_scoped d r \<longleftrightarrow> \<not> list_ex (\<lambda>s. fs_id s = sr_search_session_id r \<and> list_ex (\<lambda>p. ph_id p = sr_photo_id r \<and>
          list_ex (\<lambda>f. fd_id f = sr_detection_id r \<and> (sr_event_id r \<noteq> fs_event_id s \<or> sr_event_id r \<noteq> ph_event_id p \<or>
            sr_event_id r \<noteq> fd_event_id f \<or> sr_photo_id r \<noteq> fd_photo_id f)) (face_detections d))
          (photos d)) (search_sessions d)"
    if "r \<in> set (search_results d)" for r
    by (rule search_result_scoped_iff) (use assms that keys in \<open>auto simp: keys_hold_def list_all_iff\<close>)
  have jobs: "search_job_scoped d j \<longleftrightarrow> \<not> (case job_search j of None \<Rightarrow> False | Some (e, session, img) \<Rightarrow>
          list_ex (\<lambda>s. fs_id s = session \<and> list_ex (\<lambda>i. si_id i = img \<and>
            (e \<noteq> fs_event_id s \<or> e \<noteq> si_event_id i \<or> session \<noteq> si_search_session_id i)) (search_images d))
          (search_sessions d))" if "j \<in> set (face_search_jobs d)" for j
  proof -
    from assms that obtain e s i where j: "job_search j = Some (e, s, i)"
      "identified fs_id s (search_sessions d)" "identified si_id i (search_images d)"
      unfolding keys_hold_def list_all_iff by (fastforce split: option.splits)
    show ?thesis
      unfolding j(1) option.case prod.case
      by (rule search_job_scoped_iff[OF j keys(5,6)])
  qed
  have sessions: "sessions_scoped d \<longleftrightarrow> \<not> list_ex (\<lambda>s. list_ex (\<lambda>p. fs_participant_id s = Some (pa_id p) \<and>
      fs_event_id s \<noteq> pa_event_id p) (participants d)) (search_sessions d)"
    by (auto simp: sessions_scoped_def list_ex_iff list_all_iff)
  show ?thesis
    unfolding first_failure_None cross_event_checks_of_def event_scope_def sessions
    by (simp only: list.pred_cong[OF refl photo_match] list.pred_cong[OF refl detection] list.pred_cong[OF refl face_match]
        list.pred_cong[OF refl search_image] list.pred_cong[OF refl jobs] list.pred_cong[OF refl result]
        list.pred_inject prod.case simp_thms not_list_ex[symmetric])
qed


text \<open>The clamp moves only scores outside the range, and by no more than the rounding it allows for.\<close>

lemma clamp_score_range: "\<bar>clamp_score x\<bar> \<le> 1 \<longleftrightarrow> \<bar>x\<bar> \<le> 1 + 1 / 1000000000"
  by (auto simp: clamp_score_def)

section \<open>The lookups\<close>

lemma collapse_word: "\<forall>c\<in>set u. \<not> sql_space c \<Longrightarrow> collapse (u @ w) = u @ collapse w"
  by (induction u) auto

lemma collapse_gap: "s \<noteq> [] \<Longrightarrow> \<forall>c\<in>set s. sql_space c \<Longrightarrow> \<not> sql_space b \<Longrightarrow> collapse (s @ b # r) = CHR 32 # collapse (b # r)"
proof (induction s)
  case (Cons c s)
  then show ?case by (cases s) auto
qed simp

lemma collapse_runs:
  assumes "w \<noteq> [] \<Longrightarrow> \<not> sql_space (hd w) \<and> \<not> sql_space (last w)"
  shows "collapse w = join '' '' (findall_runs (\<lambda>c. \<not> sql_space c) w)"
  using assms
proof (induction "length w" arbitrary: w rule: less_induct)
  case less
  show ?case
  proof (cases w)
    case Nil
    then show ?thesis by (simp add: findall_runs_Nil)
  next
    case (Cons c cs)
    define u where "u = takeWhile (\<lambda>c. \<not> sql_space c) w"
    define v where "v = dropWhile (\<lambda>c. \<not> sql_space c) w"
    have w: "w = u @ v" by (simp add: u_def v_def)
    have u: "u \<noteq> []" "\<forall>c\<in>set u. \<not> sql_space c" using less.prems Cons by (auto simp: u_def dest: set_takeWhileD)
    have runs: "findall_runs (\<lambda>c. \<not> sql_space c) w = u # findall_runs (\<lambda>c. \<not> sql_space c) v"
      using findall_runs_Cons[of "\<lambda>c. \<not> sql_space c" w c cs] less.prems Cons by (simp add: u_def v_def)
    show ?thesis
    proof (cases "v = []")
      case True
      with runs w collapse_word[OF u(2), of "[]"] show ?thesis by (simp add: findall_runs_Nil)
    next
      case False
      define s where "s = takeWhile sql_space v"
      define r where "r = dropWhile sql_space v"
      have v: "v = s @ r" by (simp add: s_def r_def)
      have "sql_space (hd v)" using hd_dropWhile[of "\<lambda>c. \<not> sql_space c" w] False by (simp add: v_def)
      then have s: "s \<noteq> []" "\<forall>c\<in>set s. sql_space c"
        using False by (auto simp: s_def takeWhile_eq_Nil_iff dest: set_takeWhileD)
      have "last v = last w" using False by (simp add: w)
      with less.prems Cons have "\<not> sql_space (last v)" by simp
      with v s have "r \<noteq> []" by (metis append_Nil2 last_in_set)
      then obtain b r' where r': "r = b # r'" "\<not> sql_space b" unfolding r_def by (metis hd_dropWhile list.collapse)
      have "last r = last w" using \<open>r \<noteq> []\<close> by (simp add: w v)
      with less.hyps[of r] less.prems Cons r' have "collapse r = join '' '' (findall_runs (\<lambda>c. \<not> sql_space c) r)"
        by (simp add: w v u(1))
      moreover have "findall_runs (\<lambda>c. \<not> sql_space c) v = findall_runs (\<lambda>c. \<not> sql_space c) r"
      proof -
        have "dropWhile (\<lambda>c. \<not> \<not> sql_space c) v = dropWhile (\<lambda>c. \<not> \<not> sql_space c) r" using r' by (simp add: r_def)
        then show ?thesis by (subst (1 2) findall_runs.simps) simp
      qed
      moreover have "findall_runs (\<lambda>c. \<not> sql_space c) r \<noteq> []"
        using findall_runs_Cons[of "\<lambda>c. \<not> sql_space c" r b r'] r' by simp
      ultimately show ?thesis
        using collapse_word[OF u(2), of v] collapse_gap[OF s r'(2), of r'] runs w v r'(1)
        by (cases "findall_runs (\<lambda>c. \<not> sql_space c) r") simp_all
    qed
  qed
qed

lemma findall_runs_cong:
  assumes "\<forall>c\<in>set s. p c = q c"
  shows "findall_runs p s = findall_runs q s"
  using assms
proof (induction "length s" arbitrary: s rule: less_induct)
  case less
  have d: "dropWhile (\<lambda>c. \<not> p c) s = dropWhile (\<lambda>c. \<not> q c) s"
    by (rule dropWhile_cong) (use less.prems in auto)
  show ?case
  proof (cases "dropWhile (\<lambda>c. \<not> p c) s")
    case Nil
    with d show ?thesis by (simp add: findall_runs_Nil)
  next
    case (Cons c cs)
    then have q: "dropWhile (\<lambda>c. \<not> q c) s = c # cs" using d by simp
    have sub: "set cs \<subseteq> set s" using set_dropWhileD[of _ "\<lambda>c. \<not> p c" s] unfolding Cons by auto
    with less.prems have c: "takeWhile p cs = takeWhile q cs" "dropWhile p cs = dropWhile q cs"
      by (auto intro!: takeWhile_cong dropWhile_cong)
    have "\<forall>c\<in>set (dropWhile p cs). p c = q c" using less.prems sub by (meson set_dropWhileD subsetD)
    with less.hyps run_shorter[OF Cons] have "findall_runs p (dropWhile p cs) = findall_runs q (dropWhile p cs)" by blast
    then show ?thesis by (simp add: findall_runs_Cons[OF Cons] findall_runs_Cons[OF q] c)
  qed
qed

lemma stripped_ends:
  assumes "strip_chars p v = v" "v \<noteq> []"
  shows "\<not> p (hd v) \<and> \<not> p (last v)"
proof -
  have len: "length (dropWhile p (rev (dropWhile p v))) = length v" using assms(1) by (metis length_rev strip_chars_def)
  then have "length (dropWhile p v) = length v"
    by (metis le_antisym length_dropWhile_le length_rev)
  then have d: "dropWhile p v = v" by (metis dropWhile_append3 suffix_dropWhile suffix_length_le suffix_order.antisym_conv2 not_less_iff_gr_or_eq suffix_length_less)
  then have "dropWhile p (rev v) = rev v" using assms(1) by (metis rev_rev_ident strip_chars_def)
  with d assms(2) show ?thesis by (metis hd_dropWhile hd_rev rev_is_Nil_conv)
qed

lemma strip_chars_unchanged: "(v \<noteq> [] \<Longrightarrow> \<not> p (hd v) \<and> \<not> p (last v)) \<Longrightarrow> strip_chars p v = v"
proof -
  assume ends: "v \<noteq> [] \<Longrightarrow> \<not> p (hd v) \<and> \<not> p (last v)"
  then have "dropWhile p v = v" by (cases v) auto
  moreover from ends have "dropWhile p (rev v) = rev v" by (cases v rule: rev_cases) auto
  ultimately show ?thesis by (simp add: strip_chars_def)
qed

lemma char_code_lower: "char_code (lower_char c) = (if is_upper c then char_code c + 32 else char_code c)"
  by (auto simp: lower_char_def char_code_def is_upper_def)

lemma space_lower: "is_space (lower_char c) = is_space c" "sql_space (lower_char c) = sql_space c"
  by (auto simp: is_space_def sql_space_def char_code_lower is_upper_def)

lemma collapse_lower: "collapse (lower v) = lower (collapse v)"
proof -
  have "lower_char (CHR 32) = CHR 32" by (simp add: lower_char_def is_upper_def char_code_def)
  then show ?thesis
    by (induction v rule: collapse.induct) (auto simp: lower_def space_lower split: list.splits)
qed

lemma sql_name_lookup:
  assumes "strip v = v" "\<forall>c\<in>set v. char_code c < 28 \<or> 31 < char_code c"
  shows "sql_name_lookup v = normalize_name_lookup v"
proof -
  have sp: "is_space c = sql_space c" if "c \<in> set v" for c
    using assms(2) that by (force simp: is_space_def sql_space_def)
  have ends: "v \<noteq> [] \<Longrightarrow> \<not> is_space (hd v) \<and> \<not> is_space (last v)"
    using stripped_ends[of is_space v] assms(1) by (simp add: strip_def)
  have blank: "is_space (CHR 32)" by (simp add: is_space_def char_code_def)
  have "strip_chars (\<lambda>c. c = CHR 32) v = v"
    by (rule strip_chars_unchanged) (use ends blank in auto)
  moreover have "collapse (lower v) = join '' '' (findall_runs (\<lambda>c. \<not> is_space c) (lower v))"
  proof -
    have "findall_runs (\<lambda>c. \<not> is_space c) (lower v) = findall_runs (\<lambda>c. \<not> sql_space c) (lower v)"
      by (rule findall_runs_cong) (auto simp: lower_def space_lower sp)
    moreover have "collapse (lower v) = join '' '' (findall_runs (\<lambda>c. \<not> sql_space c) (lower v))"
      by (rule collapse_runs) (use ends sp in \<open>auto simp: lower_def hd_map last_map space_lower\<close>)
    ultimately show ?thesis by simp
  qed
  ultimately show ?thesis by (simp add: sql_name_lookup_def normalize_name_lookup_def collapse_lower)
qed

text \<open>Where revision 0002 can fill the lookup columns, it stores for every participant whose name is stored stripped the
  keys that the application looks up, and no bib key is empty or used twice in an event.\<close>

theorem lookups_backfilled:
  assumes "fill_lookups ps = Inr ps'"
    and "\<forall>p\<in>set ps. strip (pa_full_name p) = pa_full_name p \<and>
      (\<forall>c\<in>set (pa_full_name p). char_code c < 28 \<or> 31 < char_code c)"
  shows "list_all2 (\<lambda>p p'. p' = p\<lparr>pa_bib_lookup := normalize_bib_lookup (pa_bib_number p),
      pa_name_lookup := normalize_name_lookup (pa_full_name p)\<rparr>) ps ps' \<and>
    (\<forall>p'\<in>set ps'. pa_bib_lookup p' \<noteq> []) \<and> distinct (map (\<lambda>p. (pa_event_id p, pa_bib_lookup p)) ps')"
proof -
  have ps': "ps' = map (\<lambda>p. p\<lparr>pa_bib_lookup := sql_bib_lookup (pa_bib_number p),
      pa_name_lookup := sql_name_lookup (pa_full_name p)\<rparr>) ps"
    and ok: "list_all (\<lambda>p. pa_bib_lookup p \<noteq> []) ps'" "distinct (map (\<lambda>p. (pa_event_id p, pa_bib_lookup p)) ps')"
    using assms(1) by (auto simp: fill_lookups_def Let_def not_list_ex split: if_splits)
  have "sql_name_lookup (pa_full_name p) = normalize_name_lookup (pa_full_name p)" if "p \<in> set ps" for p
    using sql_name_lookup assms(2) that by blast
  then have "list_all2 (\<lambda>p p'. p' = p\<lparr>pa_bib_lookup := normalize_bib_lookup (pa_bib_number p),
      pa_name_lookup := normalize_name_lookup (pa_full_name p)\<rparr>) ps ps'"
    by (auto simp: ps' list_all2_conv_all_nth sql_bib_lookup_def normalize_bib_lookup_def)
  with ok show ?thesis by (simp add: list_all_iff)
qed

section \<open>Instances\<close>

definition backfilled_participant :: participant where
  "backfilled_participant = \<lparr>pa_id = 2, pa_event_id = 1, pa_bib_number = ''a-12'', pa_full_name = ''Ann Lee'',
     pa_bib_lookup = [], pa_name_lookup = [], pa_created_at = 0\<rparr>"

definition preflight_rows_demo :: db where
  "preflight_rows_demo = empty_db\<lparr>
     photos := [\<lparr>ph_id = 3, ph_event_id = 1, ph_original_object_key = ''k'', ph_thumbnail_object_key = None,
       ph_file_name = ''f'', ph_content_type = ''image/jpeg'', ph_file_size = 10, ph_checksum_sha256 = None,
       ph_idempotency_key = None, ph_status = PhotoReady, ph_created_at = 0\<rparr>],
     participants := [backfilled_participant],
     photo_matches := [\<lparr>pm_event_id = 1, pm_photo_id = 3, pm_participant_id = 2, pm_match_source = SrcOcr,
       pm_matched_value = ''A12'', pm_confidence = Some (1 / 2), pm_created_at = 0\<rparr>],
     search_sessions := [\<lparr>fs_id = 4, fs_event_id = 1, fs_participant_id = Some 2, fs_status = SessionCompleted,
       fs_error_message = None, fs_expires_at = 0, fs_capability_hash = None, fs_owner_binding_hash = None,
       fs_created_at = 0, fs_finished_at = None\<rparr>]\<rparr>"


lemma lookups_backfilled_witness:
  "fill_lookups [backfilled_participant] =
     Inr [backfilled_participant\<lparr>pa_bib_lookup := ''A12'', pa_name_lookup := ''ann lee''\<rparr>] \<and>
   normalize_name_lookup (pa_full_name backfilled_participant) = ''ann lee''"
proof -
  have run: "fill_lookups [backfilled_participant] =
      Inr [backfilled_participant\<lparr>pa_bib_lookup := ''A12'', pa_name_lookup := ''ann lee''\<rparr>]"
    by code_simp
  have "\<forall>p\<in>set [backfilled_participant]. strip (pa_full_name p) = pa_full_name p \<and>
      (\<forall>c\<in>set (pa_full_name p). char_code c < 28 \<or> 31 < char_code c)"
    by code_simp
  from lookups_backfilled[OF run this] run show ?thesis by (simp add: backfilled_participant_def)
qed

end
