(* ===== verification/Spec2Isabelle.thy ===== *)
theory Spec2Isabelle
  imports JobProtocol MatchingFacts EmbeddingFacts SearchFacts WorkerReports MaintenanceFacts
    RateLimitFacts WebSecurityFacts ListingFacts ZipFacts RequestFacts IngestFacts AdministrationFacts ParticipantFileFacts
    WorkerSystemFacts WorkerContracts PublicRouteFacts AdminRouteFacts EventRemovalFacts OperationFacts MigrationFacts
    MigrationRowFacts
begin

text \<open>
  RaceFrame finds the photos of a runner.  Photographers upload the photos of an event; worker processes read bib
  numbers off them and detect faces; runners search by name, by bib number or with selfies and download what was
  found.  The backend (\<^verbatim>\<open>src/backend/app\<close>) keeps rows in PostgreSQL and images in an object storage; the worker
  (\<^verbatim>\<open>src/raceframe-worker/worker.py\<close>) talks to it over HTTP only.  This library models both, the database schema with
  its history (\<^verbatim>\<open>src/backend/migrations\<close>), and the system they form together.

  The parts and how they interact.  A photo is uploaded through a route (\<^verbatim>\<open>main.py\<close>), checked (\<^verbatim>\<open>uploads.py\<close>), stored and
  published with its jobs (\<^verbatim>\<open>photographer.py\<close>).  The worker claims jobs (\<^verbatim>\<open>worker_api.py\<close>), each under a lease and an
  attempt identifier, fetches the image, and reports what it found; the completion of a job (\<^verbatim>\<open>face.py\<close>,
  \<^verbatim>\<open>photographer.py\<close>) writes texts, faces and the matches of photos with participants.  A search (\<^verbatim>\<open>face.py\<close>) writes
  results, which the visitor reads with a signed capability (\<^verbatim>\<open>web_security.py\<close>).  Whatever deletes rows puts the keys of
  their objects into an outbox that the maintenance works off (\<^verbatim>\<open>maintenance.py\<close>).  Administrators manage events and
  participants one at a time under a lock (\<^verbatim>\<open>admin.py\<close>, \<^verbatim>\<open>main.py\<close>), and every change is audited (\<^verbatim>\<open>audit_log.py\<close>).

  THEORIES.

  Foundations.
  \<^item> \<^verbatim>\<open>Prelude\<close>, \<^verbatim>\<open>TextFormat\<close>, \<^verbatim>\<open>Encoding\<close>, \<^verbatim>\<open>CsvReader\<close>: identifiers, instants and ASCII text, exceptions as values, the
    string methods, number formats, base64, JSON and CSV of the Python library as far as the code uses them, and the
    generic lemmas on tables.
  \<^item> \<^verbatim>\<open>Interfaces\<close>: the locales the components share, a store of rows by key, a table written by
    \<^verbatim>\<open>INSERT ... ON CONFLICT DO UPDATE\<close>, a transition system with an invariant and with an order that only grows.
  \<^item> \<^verbatim>\<open>Settings\<close> (\<^verbatim>\<open>config.py\<close>) and \<^verbatim>\<open>Models\<close> (\<^verbatim>\<open>models.py\<close>, \<^verbatim>\<open>db.py\<close>): the settings; a record per mapped class with its
    check constraints, the database as a record of tables, and the session with pending rows, flush, commit and
    rollback (\<^verbatim>\<open>autoflush=False\<close>, so a query does not see what has not been flushed).

  The backend.
  \<^item> \<^verbatim>\<open>JobQueue\<close>, \<^verbatim>\<open>JobLifecycle\<close>, \<^verbatim>\<open>JobProtocol\<close>: claim, lease, heartbeat, retry, failure and dead-lettering of jobs;
    the abstract lifecycle of a job and its refinement; exclusive leases, stale attempts, bounded attempts.
  \<^item> \<^verbatim>\<open>Matching\<close>, \<^verbatim>\<open>Embedding\<close>, \<^verbatim>\<open>Completion\<close>, \<^verbatim>\<open>Search\<close> with their \<^verbatim>\<open>Facts\<close>: bib matching (the dynamic program against
    longest common substrings), face embeddings over real numbers, what completed jobs write and merge, the search and
    its bounded selection.
  \<^item> \<^verbatim>\<open>WorkerRequests\<close>, \<^verbatim>\<open>WorkerApi\<close>, \<^verbatim>\<open>WorkerApiFacts\<close>, \<^verbatim>\<open>WorkerService\<close>, \<^verbatim>\<open>WorkerReports\<close>: the request models with their
    validators, the handlers, and the service as a transition system whose invariant every call keeps.
  \<^item> \<^verbatim>\<open>Maintenance\<close>, \<^verbatim>\<open>RateLimits\<close>, \<^verbatim>\<open>WebSecurity\<close>, \<^verbatim>\<open>Requests\<close>, \<^verbatim>\<open>Capability\<close> with their \<^verbatim>\<open>Facts\<close>: the outbox and the
    purges, fixed and sliding windows, production checks, origins and CSRF, body limits and middleware, capabilities.
  \<^item> \<^verbatim>\<open>Listing\<close>, \<^verbatim>\<open>Archive\<close>, \<^verbatim>\<open>ZipFacts\<close>, \<^verbatim>\<open>Uploads\<close>, \<^verbatim>\<open>Ingest\<close>, \<^verbatim>\<open>Thumbnails\<close>, \<^verbatim>\<open>PhotoAdmin\<close>, \<^verbatim>\<open>RebuildFacts\<close>,
    \<^verbatim>\<open>Administration\<close>, \<^verbatim>\<open>ParticipantFiles\<close> with their \<^verbatim>\<open>Facts\<close>: what visitors see, the streamed ZIP to the byte and a
    reference reader for it, upload checks, storing with compensation, thumbnails, deletion, rebuilding matches, events
    and participants, the participant files.
  \<^item> \<^verbatim>\<open>Pages\<close>, \<^verbatim>\<open>WebAnswers\<close>, \<^verbatim>\<open>PublicRoutes\<close>, \<^verbatim>\<open>AdminRoutes\<close>, \<^verbatim>\<open>PublicRouteFacts\<close>, \<^verbatim>\<open>AdminRouteFacts\<close>, \<^verbatim>\<open>EventRemovalFacts\<close>:
    the routes of \<^verbatim>\<open>main.py\<close> over all of these, with the contexts their templates get, the lock and the audit log.
  \<^item> \<^verbatim>\<open>Operations\<close>, \<^verbatim>\<open>OperationFacts\<close>: metrics, health and readiness, request counts, reading calls of the storage.

  The worker: \<^verbatim>\<open>WorkerClient\<close>, \<^verbatim>\<open>WorkerVision\<close>, \<^verbatim>\<open>WorkerProcess\<close> (configuration, HTTP client, images, jobs, heartbeats, the
  poller), \<^verbatim>\<open>WorkerProcessFacts\<close> and \<^verbatim>\<open>WorkerContracts\<close>; \<^verbatim>\<open>WorkerSystem\<close> and \<^verbatim>\<open>WorkerSystemFacts\<close> run it against the service.

  The schema: \<^verbatim>\<open>SchemaOps\<close> (schemas and the operations of Alembic), \<^verbatim>\<open>SchemaRuns\<close> (a run of a migration split into the runs
  of its tables), \<^verbatim>\<open>Migrations\<close> (the three revisions and the schema the models declare), \<^verbatim>\<open>MigrationRows\<close> (the row checks,
  the lookup columns and the trigger of revision 0002), \<^verbatim>\<open>MigrationFacts\<close>, \<^verbatim>\<open>MigrationRowFacts\<close>.

  CORRESPONDENCE.

  A function of the program is a definition with its name, unless HOL has taken it.  State is passed explicitly: a
  function on a session takes and returns a \<^verbatim>\<open>session\<close>, a route takes and returns the database and the storage, the
  worker a \<^verbatim>\<open>world\<close>.  An exception is the left side of a sum (\<^verbatim>\<open>result\<close>, \<^verbatim>\<open>routed\<close>), so every raise and early return is a
  branch.  A random identifier, a reading of the clock and an answer of a service are arguments, gathered in the records
  named \<^verbatim>\<open>env\<close>.  Integers are unbounded as in Python; the fields of the ZIP format are reduced to their width where they
  are written.  Real numbers stand for floats.

  Parameters stand for code that is not in the repository: SHA-256 and HMAC, Pillow, OpenCV, InsightFace, Google Vision,
  openpyxl, the S3 client, the network, and Alembic's reading of revisions in the readiness check.  A theorem that relies
  on one of them says what it needs as a premise (that a hash tells two values apart, that a picture is decoded to a
  result of the documented form), and its witness instantiates it.  PostgreSQL is modelled where its behaviour matters: a
  table is a list of rows, a query a filter and a sort, a unique violation an exception of the flush.

  Loops without a structural bound carry fuel, and the theorems give the fuel that is enough: one candidate more than
  there are events or names for slugs and archive names, the number of results for the download of all pages, the length
  of the text for the JSON reader, one batch more than there are photos without a thumbnail for the backfill, the number
  of turns for the main loop of the worker, whose claims then hold of every number.

  WHAT IS SHOWN.

  The invariants of the tables hold in every database the service reaches, and a run of the worker is a run of the
  service (refinement).  A job has one owner at a time, stale reports change nothing, attempts are bounded, repeated
  reports are idempotent, no queue starves.  The merged evidence does not depend on the order of arrival, a rebuild is
  exact.  Search results open only to the visitor whose cookie they were bound to, and do open to that one; drafts are
  hidden.  Uploads are all or nothing and bounded; deletions leave no row and lose no object; the outbox treats each task
  as specified.  An import is the expected change of the roster; CSV files and archives read back.  A change by an
  administrator needs the lock and the CSRF check and leaves exactly one audit row.  Limits hold over every window of
  time, and a request leaves the counters as it found them.  The migrations build exactly the declared schema, undo each
  other, and the preflight of revision 0002 decides the constraints and the trigger it adds.

  Some behaviour is proved although it does not look intended, such as a search that stays in processing when its last
  probe completes (\<^verbatim>\<open>completed_probe_leaves_session_processing\<close>), a photo that is lost to a failing refresh
  (\<^verbatim>\<open>refresh_loses_objects\<close>) or a queue whose failing claims keep the others waiting (\<^verbatim>\<open>failing_queue_starves_others\<close>).

  NOT MODELLED.

  Jinja templates and static files; the assembly of the application object and its pools; the text formats of metrics and
  of the JSON log; the signing of S3 requests and links; \<^verbatim>\<open>.env\<close> files; argument parsers and printing; the threads of the
  worker other than as the order in which their steps are taken; the configuration of Alembic (\<^verbatim>\<open>env.py\<close>); the scripts
  under \<^verbatim>\<open>src/tools\<close>, which query a running database for one fixed event.  Text is ASCII, except where bytes are read.
  Rounding errors of floats are not modelled.
\<close>

end
